(* ===== verification/Bot_Prelude.thy ===== *)
theory Bot_Prelude
  imports Main
begin

text \<open>
  Shared vocabulary of the development.

  \<^item> identifiers and clocks: a \<^verbatim>\<open>Uuid\<close> is only ever compared, so it is a natural number;
    a \<^verbatim>\<open>DateTime<Utc>\<close> is its number of microseconds since the epoch (the resolution of a
    PostgreSQL \<^verbatim>\<open>timestamptz\<close>);
  \<^item> tables: a PostgreSQL table is the list of its rows in insertion order, and the SQL
    statements of the program are the list operations \<open>update_where\<close>, \<open>find_where\<close>,
    \<open>delete_where\<close>, \<open>exists_where\<close> below;
  \<^item> transactions: a statement sequence is a function from the database to an error or a
    result with the new database (\<open>txret\<close>, \<open>txfail\<close>, \<open>txbind\<close>); \<open>run_tx\<close>
    adds begin, commit and rollback; a \<open>db_fault\<close> says which statement the database server
    fails, so that every \<^verbatim>\<open>map_err(..)?\<close> of the program is a branch of the model;
  \<^item> interfaces used by several components: string codecs of enumerations, and stores that
    deduplicate what is submitted to them.
\<close>

named_theorems table_simps \<open>equations of the table operations\<close>
named_theorems tx_simps \<open>equations that take a transaction apart\<close>

section \<open>Identifiers, instants and integer ranges\<close>

type_synonym uuid = nat
type_synonym instant = int

abbreviation i32_max :: int where
  "i32_max \<equiv> 2147483647"

abbreviation i64_max :: int where
  "i64_max \<equiv> 9223372036854775807"

abbreviation i64_min :: int where
  "i64_min \<equiv> - 9223372036854775808"

text \<open>An SQL interval of whole seconds, as used by \<^verbatim>\<open>$n::bigint * INTERVAL '1 second'\<close>.\<close>

definition secs :: "int \<Rightarrow> int" where
  "secs n = n * 1000000"

lemma secs_pos [simp]: "0 < n \<Longrightarrow> 0 < secs n"
  by (simp add: secs_def)

lemma secs_nonneg [simp]: "0 \<le> n \<Longrightarrow> 0 \<le> secs n"
  by (simp add: secs_def)

text \<open>
  The result of code that may panic (\<^verbatim>\<open>expect\<close>, slicing, indexing); \<open>NoFuel\<close> is the value of a
  loop that was given too little fuel.
\<close>

datatype 'a run = Done 'a | Panic | NoFuel

definition rbind :: "'a run \<Rightarrow> ('a \<Rightarrow> 'b run) \<Rightarrow> 'b run" where
  "rbind m f = (case m of Done a \<Rightarrow> f a | Panic \<Rightarrow> Panic | NoFuel \<Rightarrow> NoFuel)"

lemma rbind_simps [simp]: "rbind (Done a) f = f a" "rbind Panic f = Panic" "rbind NoFuel f = NoFuel"
  by (simp_all add: rbind_def)

text \<open>Comparisons with a nullable instant: a comparison with NULL is never true.\<close>

definition is_past :: "instant option \<Rightarrow> instant \<Rightarrow> bool" where
  "is_past d now = (case d of None \<Rightarrow> False | Some t \<Rightarrow> t < now)"

definition is_live :: "instant option \<Rightarrow> instant \<Rightarrow> bool" where
  "is_live d now = (case d of None \<Rightarrow> False | Some t \<Rightarrow> now \<le> t)"

lemma is_past_simps [simp]: "\<not> is_past None now" "is_past (Some t) now \<longleftrightarrow> t < now"
  by (simp_all add: is_past_def)

lemma is_live_simps [simp]: "\<not> is_live None now" "is_live (Some t) now \<longleftrightarrow> now \<le> t"
  by (simp_all add: is_live_def)

lemma is_live_not_past: "is_live d now \<Longrightarrow> \<not> is_past d now"
  by (cases d) auto

lemma is_live_antimono: "is_live d now' \<Longrightarrow> now \<le> now' \<Longrightarrow> is_live d now"
  by (cases d) auto

section \<open>Tables\<close>

definition update_where :: "('r \<Rightarrow> bool) \<Rightarrow> ('r \<Rightarrow> 'r) \<Rightarrow> 'r list \<Rightarrow> 'r list" where
  "update_where p f t = map (\<lambda>r. if p r then f r else r) t"

definition delete_where :: "('r \<Rightarrow> bool) \<Rightarrow> 'r list \<Rightarrow> 'r list" where
  "delete_where p t = filter (\<lambda>r. \<not> p r) t"

definition find_where :: "('r \<Rightarrow> bool) \<Rightarrow> 'r list \<Rightarrow> 'r option" where
  "find_where p t = List.find p t"

definition exists_where :: "('r \<Rightarrow> bool) \<Rightarrow> 'r list \<Rightarrow> bool" where
  "exists_where p t = list_ex p t"

definition count_where :: "('r \<Rightarrow> bool) \<Rightarrow> 'r list \<Rightarrow> nat" where
  "count_where p t = length (filter p t)"

lemma update_where_Nil [simp]: "update_where p f [] = []"
  by (simp add: update_where_def)

lemma update_where_append [simp]:
  "update_where p f (t @ u) = update_where p f t @ update_where p f u"
  by (simp add: update_where_def)

lemma length_update_where [simp]: "length (update_where p f t) = length t"
  by (simp add: update_where_def)

lemma set_update_where:
  "set (update_where p f t) = {r \<in> set t. \<not> p r} \<union> f ` {r \<in> set t. p r}"
  by (auto simp: update_where_def)

lemma update_where_none: "(\<And>r. r \<in> set t \<Longrightarrow> \<not> p r) \<Longrightarrow> update_where p f t = t"
  by (auto simp: update_where_def intro: map_idI)

lemma map_update_where_mem:
  "(\<And>r. r \<in> set t \<Longrightarrow> p r \<Longrightarrow> k (f r) = k r) \<Longrightarrow> map k (update_where p f t) = map k t"
  by (auto simp: update_where_def)

lemma map_update_where [table_simps]:
  "(\<And>r. p r \<Longrightarrow> k (f r) = k r) \<Longrightarrow> map k (update_where p f t) = map k t"
  by (auto simp: update_where_def)

lemma exists_where_iff [table_simps]: "exists_where p t \<longleftrightarrow> (\<exists>r \<in> set t. p r)"
  by (auto simp: exists_where_def list_ex_iff)

lemma find_where_None [table_simps]: "find_where p t = None \<longleftrightarrow> (\<forall>r \<in> set t. \<not> p r)"
  by (auto simp: find_where_def find_None_iff)

lemma find_where_False [simp]: "find_where (\<lambda>_. False) t = None"
  by (simp add: find_where_None)

lemma find_where_SomeD: "find_where p t = Some r \<Longrightarrow> r \<in> set t \<and> p r"
  by (auto simp: find_where_def find_Some_iff)

lemma count_where_0 [table_simps]: "count_where p t = 0 \<longleftrightarrow> (\<forall>r \<in> set t. \<not> p r)"
  by (auto simp: count_where_def filter_empty_conv)

lemma set_delete_where [simp]: "set (delete_where p t) = {r \<in> set t. \<not> p r}"
  by (auto simp: delete_where_def)

text \<open>
  A primary key pins down one row: an UPDATE that names the key changes at most that row, and
  the row count it reports is 1 exactly when the row matched.
\<close>

lemma distinct_key_eq:
  "distinct (map k t) \<Longrightarrow> r \<in> set t \<Longrightarrow> r' \<in> set t \<Longrightarrow> k r = k r' \<Longrightarrow> r = r'"
  by (metis distinct_map inj_onD)

lemma find_where_unique:
  assumes "distinct (map k t)" "r \<in> set t" "p r" "\<And>x. p x \<Longrightarrow> k x = k r"
  shows "find_where p t = Some r"
proof -
  from assms(2,3) obtain x where x: "find_where p t = Some x"
    by (cases "find_where p t") (auto simp: find_where_None)
  then have "x \<in> set t" "p x" by (auto dest: find_where_SomeD)
  with assms(1,2,4) have "x = r" by (metis distinct_key_eq)
  with x show ?thesis by simp
qed

lemma update_where_key_member:
  assumes "distinct (map k t)" "r \<in> set t" "p r" "\<And>x. p x \<Longrightarrow> k x = k r"
  shows "x \<in> set (update_where p f t) \<longleftrightarrow> x = f r \<or> (x \<in> set t \<and> k x \<noteq> k r)"
proof -
  have p_iff: "p y \<longleftrightarrow> k y = k r" if "y \<in> set t" for y
    using assms that by (metis distinct_key_eq)
  then have "{x \<in> set t. p x} = {r}"
    using assms(1,2) by (auto dest: distinct_key_eq)
  moreover from p_iff have "{x \<in> set t. \<not> p x} = {x \<in> set t. k x \<noteq> k r}" by auto
  ultimately show ?thesis by (auto simp: set_update_where)
qed

lemma update_where_key_cong:
  assumes "distinct (map k t)" "r \<in> set t" "p r" "\<And>x. p x \<Longrightarrow> k x = k r"
  shows "update_where p f t = update_where (\<lambda>x. k x = k r) f t"
proof -
  have "p x \<longleftrightarrow> k x = k r" if "x \<in> set t" for x
    using assms that by (metis distinct_key_eq)
  then show ?thesis by (simp add: update_where_def)
qed

lemma count_where_key_le:
  assumes "distinct (map k t)" "\<And>x y. p x \<Longrightarrow> p y \<Longrightarrow> k x = k y"
  shows "count_where p t \<le> 1"
  using assms(1)
proof (induction t)
  case (Cons r t)
  show ?case
  proof (cases "p r")
    case True
    with Cons.prems have "\<forall>x \<in> set t. \<not> p x" using assms(2) by (metis distinct.simps(2) image_eqI list.set_map list.simps(9))
    with True show ?thesis by (simp add: count_where_def filter_empty_conv)
  next
    case False
    with Cons show ?thesis by (simp add: count_where_def)
  qed
qed (simp add: count_where_def)

lemma count_where_pos: "0 < count_where p t \<longleftrightarrow> (\<exists>r \<in> set t. p r)"
  using count_where_0 [of p t] by auto

lemma count_where_unique:
  assumes "distinct (map k t)" "r \<in> set t" "p r" "\<And>x. p x \<Longrightarrow> k x = k r"
  shows "count_where p t = 1"
proof -
  have "count_where p t \<le> 1" by (rule count_where_key_le [OF assms(1)]) (use assms(4) in metis)
  moreover have "0 < count_where p t" using assms(2,3) by (auto simp: count_where_pos)
  ultimately show ?thesis by linarith
qed

text \<open>Replacing the row of a key.\<close>

definition put_row :: "('r \<Rightarrow> 'k) \<Rightarrow> 'r \<Rightarrow> 'r list \<Rightarrow> 'r list" where
  "put_row k r t = map (\<lambda>x. if k x = k r then r else x) t"

lemma update_where_put_row:
  assumes "distinct (map k t)" "r \<in> set t" "p r" "\<And>x. p x \<Longrightarrow> k x = k r" "k (f r) = k r"
  shows "update_where p f t = put_row k (f r) t"
proof -
  have "p x \<longleftrightarrow> x = r" "k x = k r \<longleftrightarrow> x = r" if "x \<in> set t" for x
    using assms(1-4) that by (metis distinct_key_eq)+
  then show ?thesis unfolding update_where_def put_row_def assms(5) by (intro map_cong) auto
qed

lemma put_row_keys [simp]: "map k (put_row k r t) = map k t"
  by (simp add: put_row_def)

lemma put_row_member: "k r \<in> k ` set t \<Longrightarrow> r \<in> set (put_row k r t)"
  by (auto simp: put_row_def image_iff intro: bexI [rotated])

lemma put_row_put_row [simp]: "k r' = k r \<Longrightarrow> put_row k r' (put_row k r t) = put_row k r' t"
  by (simp add: put_row_def)

section \<open>Transactions\<close>

text \<open>
  What the database server does to one call: nothing unusual, a failure of the statement with
  this label, or a commit that is applied although its acknowledgement is lost.
\<close>

datatype db_fault = NoFault | FaultAt string | CommitAckLost

type_synonym ('s, 'e, 'a) tx = "'s \<Rightarrow> 'e + 'a \<times> 's"

definition txret :: "'a \<Rightarrow> ('s, 'e, 'a) tx" where
  "txret a s = Inr (a, s)"

definition txfail :: "'e \<Rightarrow> ('s, 'e, 'a) tx" where
  "txfail e s = Inl e"

definition txbind :: "('s, 'e, 'a) tx \<Rightarrow> ('a \<Rightarrow> ('s, 'e, 'b) tx) \<Rightarrow> ('s, 'e, 'b) tx" where
  "txbind m f s = (case m s of Inl e \<Rightarrow> Inl e | Inr (a, s') \<Rightarrow> f a s')"

text \<open>Read the database; write it; run a statement that the server may fail.\<close>

definition txread :: "('s \<Rightarrow> 'a) \<Rightarrow> ('s, 'e, 'a) tx" where
  "txread f s = Inr (f s, s)"

definition txwrite :: "('s \<Rightarrow> 's) \<Rightarrow> ('s, 'e, unit) tx" where
  "txwrite f s = Inr ((), f s)"

definition stmt :: "db_fault \<Rightarrow> string \<Rightarrow> 'e \<Rightarrow> ('s, 'e, 'a) tx \<Rightarrow> ('s, 'e, 'a) tx" where
  "stmt flt label e m s = (if flt = FaultAt label then Inl e else m s)"

text \<open>Begin, run, commit; an error of the body drops the transaction, which rolls it back.\<close>

definition run_tx ::
  "db_fault \<Rightarrow> 'e \<Rightarrow> 'e \<Rightarrow> ('s, 'e, 'a) tx \<Rightarrow> 's \<Rightarrow> ('e + 'a) \<times> 's" where
  "run_tx flt e_begin e_commit m s =
     (if flt = FaultAt ''begin'' then (Inl e_begin, s)
      else case m s of
        Inl e \<Rightarrow> (Inl e, s)
      | Inr (a, s') \<Rightarrow>
          if flt = FaultAt ''commit'' then (Inl e_commit, s)
          else if flt = CommitAckLost then (Inl e_commit, s')
          else (Inr a, s'))"

text \<open>A transaction whose body decides whether to commit or to roll back and still answer.\<close>

definition run_tx_choice ::
  "db_fault \<Rightarrow> 'e \<Rightarrow> 'e \<Rightarrow> ('s, 'e, bool \<times> 'a) tx \<Rightarrow> 's \<Rightarrow> ('e + 'a) \<times> 's" where
  "run_tx_choice flt e_begin e_commit m s =
     (if flt = FaultAt ''begin'' then (Inl e_begin, s)
      else case m s of
        Inl e \<Rightarrow> (Inl e, s)
      | Inr ((keep, a), s') \<Rightarrow>
          if \<not> keep then (Inr a, s)
          else if flt = FaultAt ''commit'' then (Inl e_commit, s)
          else if flt = CommitAckLost then (Inl e_commit, s')
          else (Inr a, s'))"

text \<open>Report the errors of a sub-component in the caller's type.\<close>

definition tx_map_err :: "('e \<Rightarrow> 'f) \<Rightarrow> ('s, 'e, 'a) tx \<Rightarrow> ('s, 'f, 'a) tx" where
  "tx_map_err h m s = (case m s of Inl e \<Rightarrow> Inl (h e) | Inr r \<Rightarrow> Inr r)"

lemma tx_map_err_Inr [tx_simps]: "tx_map_err h m s = Inr r \<longleftrightarrow> m s = Inr r"
  by (simp add: tx_map_err_def split: sum.split)

lemma tx_map_err_Inl [tx_simps]: "tx_map_err h m s = Inl f \<longleftrightarrow> (\<exists>e. m s = Inl e \<and> f = h e)"
  by (auto simp: tx_map_err_def split: sum.split)

lemma txret_app [simp]: "txret a s = Inr (a, s)"
  by (simp add: txret_def)

lemma txfail_app [simp]: "txfail e s = Inl e"
  by (simp add: txfail_def)

lemma txread_app [simp]: "txread f s = Inr (f s, s)"
  by (simp add: txread_def)

lemma txwrite_app [simp]: "txwrite f s = Inr ((), f s)"
  by (simp add: txwrite_def)

lemma txbind_Inr [tx_simps]:
  "txbind m f s = Inr r \<longleftrightarrow> (\<exists>a s'. m s = Inr (a, s') \<and> f a s' = Inr r)"
  by (auto simp: txbind_def split: sum.splits prod.splits)

lemma txbind_Inl [tx_simps]:
  "txbind m f s = Inl e \<longleftrightarrow> m s = Inl e \<or> (\<exists>a s'. m s = Inr (a, s') \<and> f a s' = Inl e)"
  by (auto simp: txbind_def split: sum.splits prod.splits)

lemma txbind_step: "m s = Inr (a, s') \<Longrightarrow> txbind m f s = f a s'"
  by (simp add: txbind_def)

lemma stmt_Inr [tx_simps]: "stmt flt l e m s = Inr r \<longleftrightarrow> flt \<noteq> FaultAt l \<and> m s = Inr r"
  by (simp add: stmt_def)

lemma stmt_Inl [tx_simps]:
  "stmt flt l e m s = Inl e' \<longleftrightarrow> (flt = FaultAt l \<and> e' = e) \<or> (flt \<noteq> FaultAt l \<and> m s = Inl e')"
  by (auto simp: stmt_def)

lemma stmt_NoFault [simp]: "stmt NoFault l e m s = m s"
  by (simp add: stmt_def)

text \<open>
  A transaction leaves the old database or the one its body computed; an answer \<open>Inr\<close> means
  the latter.
\<close>

lemma run_tx_cases:
  obtains (rolled_back) e where "run_tx flt eb ec m s = (Inl e, s)"
    | (lost_ack) a s' where "m s = Inr (a, s')" "run_tx flt eb ec m s = (Inl ec, s')"
    | (committed) a s' where "m s = Inr (a, s')" "run_tx flt eb ec m s = (Inr a, s')"
  by (fastforce simp: run_tx_def split: sum.splits prod.splits if_splits)

lemma run_tx_Inr: "run_tx flt eb ec m s = (Inr a, s') \<Longrightarrow> m s = Inr (a, s')"
  by (auto simp: run_tx_def split: sum.splits prod.splits if_splits)

lemma run_tx_NoFault [simp]:
  "run_tx NoFault eb ec m s = (case m s of Inl e \<Rightarrow> (Inl e, s) | Inr (a, s') \<Rightarrow> (Inr a, s'))"
  by (simp add: run_tx_def split: sum.split prod.split)

text \<open>What a transaction body keeps, the transaction keeps.\<close>

definition tx_keeps :: "('s \<Rightarrow> bool) \<Rightarrow> ('s, 'e, 'a) tx \<Rightarrow> bool" where
  "tx_keeps P m \<longleftrightarrow> (\<forall>s a s'. P s \<longrightarrow> m s = Inr (a, s') \<longrightarrow> P s')"

lemma tx_keepsI: "(\<And>s a s'. P s \<Longrightarrow> m s = Inr (a, s') \<Longrightarrow> P s') \<Longrightarrow> tx_keeps P m"
  by (simp add: tx_keeps_def)

lemma tx_keepsD: "tx_keeps P m \<Longrightarrow> m s = Inr (a, s') \<Longrightarrow> P s \<Longrightarrow> P s'"
  by (auto simp: tx_keeps_def)

lemma tx_keeps_basic [simp]: "tx_keeps P (txret a)" "tx_keeps P (txfail e)" "tx_keeps P (txread f)"
  by (auto simp: tx_keeps_def)

lemma tx_keeps_stmt: "tx_keeps P m \<Longrightarrow> tx_keeps P (stmt flt l e m)"
  by (auto simp: tx_keeps_def stmt_def split: if_splits)

lemma tx_keeps_bind: "tx_keeps P m \<Longrightarrow> (\<And>a. tx_keeps P (f a)) \<Longrightarrow> tx_keeps P (txbind m f)"
  unfolding tx_keeps_def txbind_Inr by blast

lemma run_tx_keeps:
  assumes "P s" "\<And>a s'. m s = Inr (a, s') \<Longrightarrow> P s'"
  shows "P (snd (run_tx flt eb ec m s))"
  using assms by (cases rule: run_tx_cases [of flt eb ec m s]) auto

lemma run_tx_choice_keeps:
  assumes "P s" "\<And>a s'. m s = Inr ((True, a), s') \<Longrightarrow> P s'"
  shows "P (snd (run_tx_choice flt eb ec m s))"
  using assms by (auto simp: run_tx_choice_def split: sum.splits prod.splits)

section \<open>Interfaces\<close>

text \<open>
  The string codec of an enumeration: \<open>parse\<close> reads back what \<open>as_str\<close> writes. The exact
  codec accepts no other text.
\<close>

locale enum_codec =
  fixes as_str :: "'a \<Rightarrow> string" and parse :: "string \<Rightarrow> 'a option"
  assumes parse_as_str: "parse (as_str x) = Some x"
begin

lemma as_str_inj: "as_str x = as_str y \<longleftrightarrow> x = y"
  by (metis option.inject parse_as_str)

lemma parse_range: "\<exists>s. parse s = Some x"
  using parse_as_str by blast

end

locale exact_codec = enum_codec +
  assumes parse_exact: "parse s = Some x \<Longrightarrow> s = as_str x"
begin

lemma parse_iff: "parse s = Some x \<longleftrightarrow> s = as_str x"
  using parse_as_str parse_exact by blast

lemma parse_None_iff: "parse s = None \<longleftrightarrow> s \<notin> range as_str"
proof
  assume "parse s = None"
  then show "s \<notin> range as_str" by (auto simp: parse_as_str)
next
  assume "s \<notin> range as_str"
  then show "parse s = None" by (cases "parse s") (auto dest: parse_exact)
qed

end

text \<open>
  A store that deduplicates what is submitted to it by a key: in its good states a submission is
  accepted at most once per key, and a key stays known. \<open>submit\<close> returns whether the submission
  was accepted, and the new store.
\<close>

locale dedup_store =
  fixes submit :: "'r \<Rightarrow> 's \<Rightarrow> bool \<times> 's"
    and key :: "'r \<Rightarrow> 'k"
    and known :: "'s \<Rightarrow> 'k \<Rightarrow> bool"
    and good :: "'s \<Rightarrow> bool"
  assumes accepted_new: "good s \<Longrightarrow> submit r s = (True, s') \<Longrightarrow> \<not> known s (key r) \<and> known s' (key r)"
    and known_kept: "good s \<Longrightarrow> known s k \<Longrightarrow> known (snd (submit r s)) k"
    and good_kept: "good s \<Longrightarrow> good (snd (submit r s))"
begin

primrec submit_all :: "'r list \<Rightarrow> 's \<Rightarrow> bool list" where
  "submit_all [] s = []"
| "submit_all (r # rs) s = fst (submit r s) # submit_all rs (snd (submit r s))"

lemma submit_all_length: "length (submit_all rs s) = length rs"
  by (induction rs arbitrary: s) auto

lemma accepted_known: "good s \<Longrightarrow> fst (submit r s) \<Longrightarrow> \<not> known s (key r) \<and> known (snd (submit r s)) (key r)"
  using accepted_new by (metis prod.collapse)

lemma submit_all_known:
  "good s \<Longrightarrow> known s (key r) \<Longrightarrow> (True, r) \<notin> set (zip (submit_all rs s) rs)"
proof (induction rs arbitrary: s)
  case (Cons q rs)
  have "(True, r) \<notin> set (zip (submit_all rs (snd (submit q s))) rs)"
    using good_kept [OF Cons.prems(1)] known_kept [OF Cons.prems] by (rule Cons.IH)
  moreover have "\<not> (fst (submit q s) \<and> q = r)"
    using accepted_known [OF Cons.prems(1)] Cons.prems(2) by blast
  ultimately show ?case by auto
qed simp

text \<open>Over any sequence of submissions, at most one with a given key is accepted.\<close>

theorem at_most_one_accepted:
  "good s \<Longrightarrow> count_where (\<lambda>(b, r). b \<and> key r = k) (zip (submit_all rs s) rs) \<le> 1"
proof (induction rs arbitrary: s)
  case (Cons q rs)
  show ?case
  proof (cases "fst (submit q s) \<and> key q = k")
    case True
    then have "known (snd (submit q s)) k" using accepted_known [OF Cons.prems] by blast
    then have "count_where (\<lambda>(b, r). b \<and> key r = k)
        (zip (submit_all rs (snd (submit q s))) rs) = 0"
      using submit_all_known [OF good_kept [OF Cons.prems]] by (auto simp: count_where_0)
    with True show ?thesis by (simp add: count_where_def)
  next
    case False
    with Cons.IH [OF good_kept [OF Cons.prems], of q] show ?thesis by (auto simp: count_where_def)
  qed
qed (simp add: count_where_def)

end

text \<open>
  A resource guarded by tokens, as its clients rely on it: a token that is used up stays used up
  whatever the resource does, and a used-up token opens nothing.
\<close>

locale fencing =
  fixes step :: "'s \<Rightarrow> 's \<Rightarrow> bool" and inv :: "'s \<Rightarrow> bool"
    and used_up :: "'s \<Rightarrow> 't \<Rightarrow> bool" and opens :: "'s \<Rightarrow> 't \<Rightarrow> bool"
  assumes inv_step: "step s s' \<Longrightarrow> inv s \<Longrightarrow> inv s'"
    and used_up_step: "step s s' \<Longrightarrow> inv s \<Longrightarrow> used_up s t \<Longrightarrow> used_up s' t"
    and used_up_shut: "used_up s t \<Longrightarrow> \<not> opens s t"
begin

lemma inv_steps: "step\<^sup>*\<^sup>* s s' \<Longrightarrow> inv s \<Longrightarrow> inv s'"
  by (induction rule: rtranclp_induct) (auto intro: inv_step)

lemma used_up_steps: "step\<^sup>*\<^sup>* s s' \<Longrightarrow> inv s \<Longrightarrow> used_up s t \<Longrightarrow> used_up s' t"
  by (induction rule: rtranclp_induct) (auto intro: used_up_step inv_steps)

theorem never_opens_again: "step\<^sup>*\<^sup>* s s' \<Longrightarrow> inv s \<Longrightarrow> used_up s t \<Longrightarrow> \<not> opens s' t"
  by (rule used_up_shut [OF used_up_steps])

end

end
