(* ===== verification/Errors.thy ===== *)
theory Errors
  imports Bot_Prelude
begin

text \<open>
  The stable error classes and the exit codes of the command line
  (\<^verbatim>\<open>src/error.rs\<close>). The source's constructors carry the prefix \<open>E\<close> here
  (\<open>EValidation\<close> for \<^verbatim>\<open>ErrorClass::Validation\<close>), the exit codes the prefix \<open>X\<close>.
\<close>

datatype error_class =
  EValidation | ENotFound | EConflict | EForbidden | EConsentRequired | EQuotaExceeded
| EUnsupported | EDuplicate | EAuth | ERateLimited | ETimeout | EProviderError
| EProviderAmbiguous | ETransient | EKillSwitch | EInternal | EConfig | EDependency
| EMigration | EPermission | ECancelled | EPreflightFailed | EHealthFailed

fun error_class_as_str :: "error_class \<Rightarrow> string" where
  "error_class_as_str EValidation = ''validation''"
| "error_class_as_str ENotFound = ''not_found''"
| "error_class_as_str EConflict = ''conflict''"
| "error_class_as_str EForbidden = ''forbidden''"
| "error_class_as_str EConsentRequired = ''consent_required''"
| "error_class_as_str EQuotaExceeded = ''quota_exceeded''"
| "error_class_as_str EUnsupported = ''unsupported''"
| "error_class_as_str EDuplicate = ''duplicate''"
| "error_class_as_str EAuth = ''auth''"
| "error_class_as_str ERateLimited = ''rate_limited''"
| "error_class_as_str ETimeout = ''timeout''"
| "error_class_as_str EProviderError = ''provider_error''"
| "error_class_as_str EProviderAmbiguous = ''provider_ambiguous''"
| "error_class_as_str ETransient = ''transient''"
| "error_class_as_str EKillSwitch = ''kill_switch''"
| "error_class_as_str EInternal = ''internal''"
| "error_class_as_str EConfig = ''config_error''"
| "error_class_as_str EDependency = ''dependency_error''"
| "error_class_as_str EMigration = ''migration_error''"
| "error_class_as_str EPermission = ''permission_error''"
| "error_class_as_str ECancelled = ''cancelled''"
| "error_class_as_str EPreflightFailed = ''preflight_failed''"
| "error_class_as_str EHealthFailed = ''health_failed''"

datatype exit_code =
  XSuccess | XRuntimeError | XUsageError | XConfigError | XDependencyError | XMigrationError
| XPermissionError | XConflictError | XCancelled | XPreflightFailed | XHealthFailed

fun exit_code_as_i32 :: "exit_code \<Rightarrow> int" where
  "exit_code_as_i32 XSuccess = 0"
| "exit_code_as_i32 XRuntimeError = 1"
| "exit_code_as_i32 XUsageError = 2"
| "exit_code_as_i32 XConfigError = 3"
| "exit_code_as_i32 XDependencyError = 4"
| "exit_code_as_i32 XMigrationError = 5"
| "exit_code_as_i32 XPermissionError = 6"
| "exit_code_as_i32 XConflictError = 7"
| "exit_code_as_i32 XCancelled = 8"
| "exit_code_as_i32 XPreflightFailed = 10"
| "exit_code_as_i32 XHealthFailed = 11"

fun exit_code_of :: "error_class \<Rightarrow> exit_code" where
  "exit_code_of EConfig = XConfigError"
| "exit_code_of EDependency = XDependencyError"
| "exit_code_of EMigration = XMigrationError"
| "exit_code_of EPermission = XPermissionError"
| "exit_code_of EConflict = XConflictError"
| "exit_code_of ECancelled = XCancelled"
| "exit_code_of EPreflightFailed = XPreflightFailed"
| "exit_code_of EHealthFailed = XHealthFailed"
| "exit_code_of EValidation = XUsageError"
| "exit_code_of EInternal = XRuntimeError"
| "exit_code_of _ = XRuntimeError"

text \<open>No failure is reported to the shell as a success.\<close>

lemma exit_code_of_nonzero: "exit_code_as_i32 (exit_code_of c) \<noteq> 0"
  by (cases c) simp_all

lemma error_class_as_str_inj: "error_class_as_str c = error_class_as_str d \<longleftrightarrow> c = d"
  by (cases c; cases d) simp_all

end
