(* ===== verification/Rust_Text.thy ===== *)
theory Rust_Text
  imports Bot_Prelude
begin

text \<open>
  The operations of Rust's \<^verbatim>\<open>str\<close> and integer parsing that the program uses.

  A Rust string is its UTF-8 encoding, and an Isabelle \<open>char\<close> is one byte, so a
  \<^verbatim>\<open>String\<close> is a \<open>string\<close>: \<open>length\<close> is \<^verbatim>\<open>len()\<close>, and prefix, suffix, substring and
  ASCII operations are the same on bytes as on characters because UTF-8 is self-synchronising.
  A character is the byte string of its encoding. What depends on the Unicode tables
  (case mapping, decomposition) is a parameter where it is used, except the whitespace
  characters, which are listed.
\<close>

section \<open>Characters\<close>

definition byte :: "char \<Rightarrow> nat" where
  "byte c = of_char c"

definition is_ascii_digit :: "char \<Rightarrow> bool" where
  "is_ascii_digit c \<longleftrightarrow> 48 \<le> byte c \<and> byte c \<le> 57"

definition is_ascii_uppercase :: "char \<Rightarrow> bool" where
  "is_ascii_uppercase c \<longleftrightarrow> 65 \<le> byte c \<and> byte c \<le> 90"

definition digit_val :: "char \<Rightarrow> nat" where
  "digit_val c = byte c - 48"

text \<open>A byte 10xxxxxx continues a character; every other byte starts one.\<close>

definition is_continuation :: "char \<Rightarrow> bool" where
  "is_continuation c \<longleftrightarrow> 128 \<le> byte c \<and> byte c < 192"

text \<open>\<^verbatim>\<open>chars().count()\<close>\<close>

definition char_count :: "string \<Rightarrow> nat" where
  "char_count s = length (filter (\<lambda>c. \<not> is_continuation c) s)"

text \<open>\<^verbatim>\<open>s.is_char_boundary(i)\<close>: slicing a \<^verbatim>\<open>str\<close> anywhere else panics.\<close>

definition is_char_boundary :: "string \<Rightarrow> nat \<Rightarrow> bool" where
  "is_char_boundary s i \<longleftrightarrow>
     i = 0 \<or> i = length s \<or> (i < length s \<and> \<not> is_continuation (s ! i))"

text \<open>The characters of a string, each as its bytes.\<close>

function chars :: "string \<Rightarrow> string list" where
  "chars [] = []"
| "chars (c # cs) =
     (c # takeWhile is_continuation cs) # chars (dropWhile is_continuation cs)"
  by pat_completeness auto
termination
  by (relation "measure length") (auto simp: length_dropWhile_le le_imp_less_Suc)

text \<open>\<^verbatim>\<open>to_ascii_lowercase\<close>\<close>

definition ascii_lower_char :: "char \<Rightarrow> char" where
  "ascii_lower_char c = (if is_ascii_uppercase c then char_of (byte c + 32) else c)"

definition to_ascii_lowercase :: "string \<Rightarrow> string" where
  "to_ascii_lowercase s = map ascii_lower_char s"

section \<open>Prefixes, suffixes and substrings\<close>

definition starts_with :: "string \<Rightarrow> string \<Rightarrow> bool" where
  "starts_with s p \<longleftrightarrow> take (length p) s = p"

definition ends_with :: "string \<Rightarrow> string \<Rightarrow> bool" where
  "ends_with s p \<longleftrightarrow> length p \<le> length s \<and> drop (length s - length p) s = p"

definition strip_prefix :: "string \<Rightarrow> string \<Rightarrow> string option" where
  "strip_prefix s p = (if starts_with s p then Some (drop (length p) s) else None)"

definition strip_suffix :: "string \<Rightarrow> string \<Rightarrow> string option" where
  "strip_suffix s p = (if ends_with s p then Some (take (length s - length p) s) else None)"

text \<open>\<^verbatim>\<open>s.find(p)\<close>: the byte offset of the first occurrence.\<close>

fun find_str :: "string \<Rightarrow> string \<Rightarrow> nat option" where
  "find_str [] p = (if p = [] then Some 0 else None)"
| "find_str (c # cs) p =
     (if starts_with (c # cs) p then Some 0 else map_option Suc (find_str cs p))"

definition contains_str :: "string \<Rightarrow> string \<Rightarrow> bool" where
  "contains_str s p \<longleftrightarrow> find_str s p \<noteq> None"

lemma starts_with_length: "starts_with s p \<Longrightarrow> length p \<le> length s"
  by (metis starts_with_def length_take min.cobounded1)

lemma starts_with_append: "starts_with s p \<longleftrightarrow> (\<exists>t. s = p @ t)"
  by (metis append_eq_conv_conj append_take_drop_id starts_with_def)

lemma ends_with_append: "ends_with s p \<longleftrightarrow> (\<exists>t. s = t @ p)"
  unfolding ends_with_def by (metis append_take_drop_id append_eq_append_conv diff_diff_cancel
      length_append length_drop diff_add_inverse2 drop_eq_Nil le_add2 append_eq_conv_conj)

lemma strip_prefix_Some: "strip_prefix s p = Some r \<longleftrightarrow> s = p @ r"
  by (auto simp: strip_prefix_def starts_with_append)

lemma strip_suffix_Some: "strip_suffix s p = Some r \<longleftrightarrow> s = r @ p"
  by (auto simp: strip_suffix_def ends_with_append)

lemma find_str_Some: "find_str s p = Some i \<Longrightarrow> i + length p \<le> length s \<and> starts_with (drop i s) p"
proof (induction s arbitrary: i)
  case (Cons c cs)
  show ?case
  proof (cases "starts_with (c # cs) p")
    case True
    with Cons.prems show ?thesis using starts_with_length by fastforce
  next
    case False
    with Cons.prems obtain k where "find_str cs p = Some k" "i = Suc k" by auto
    with Cons.IH [of k] show ?thesis by simp
  qed
qed (auto simp: starts_with_def split: if_splits)

lemma contains_char_iff: "contains_str s [c] \<longleftrightarrow> c \<in> set s"
  unfolding contains_str_def by (induction s) (auto simp: starts_with_def)

lemma find_str_absent: "c \<in> set p \<Longrightarrow> c \<notin> set s \<Longrightarrow> find_str s p = None"
proof (induction s)
  case (Cons a s)
  have "\<not> starts_with (a # s) p"
  proof
    assume "starts_with (a # s) p"
    then have "set p \<subseteq> set (a # s)" unfolding starts_with_append by (metis Un_upper1 set_append)
    then show False using Cons.prems by blast
  qed
  then show ?case using Cons by simp
qed auto

section \<open>Trimming and splitting\<close>

text \<open>The characters with the Unicode property White\_Space, as \<^verbatim>\<open>char::is_whitespace\<close> has them.\<close>

definition whitespace_chars :: "string list" where
  "whitespace_chars =
     [[CHR 0x20], [CHR 0x09], [CHR 0x0A], [CHR 0x0B], [CHR 0x0C], [CHR 0x0D],
      [CHR 0xC2, CHR 0x85], [CHR 0xC2, CHR 0xA0], [CHR 0xE1, CHR 0x9A, CHR 0x80],
      [CHR 0xE2, CHR 0x80, CHR 0x80], [CHR 0xE2, CHR 0x80, CHR 0x81],
      [CHR 0xE2, CHR 0x80, CHR 0x82], [CHR 0xE2, CHR 0x80, CHR 0x83],
      [CHR 0xE2, CHR 0x80, CHR 0x84], [CHR 0xE2, CHR 0x80, CHR 0x85],
      [CHR 0xE2, CHR 0x80, CHR 0x86], [CHR 0xE2, CHR 0x80, CHR 0x87],
      [CHR 0xE2, CHR 0x80, CHR 0x88], [CHR 0xE2, CHR 0x80, CHR 0x89],
      [CHR 0xE2, CHR 0x80, CHR 0x8A], [CHR 0xE2, CHR 0x80, CHR 0xA8],
      [CHR 0xE2, CHR 0x80, CHR 0xA9], [CHR 0xE2, CHR 0x80, CHR 0xAF],
      [CHR 0xE2, CHR 0x81, CHR 0x9F], [CHR 0xE3, CHR 0x80, CHR 0x80]]"

text \<open>
  Strip characters of a set from the front (the set is a list of encodings) as long as there is
  one; the count of remaining bytes decreases, since an encoding is never empty.
\<close>

definition leading_char :: "string list \<Rightarrow> string \<Rightarrow> string option" where
  "leading_char ws s = List.find (\<lambda>w. w \<noteq> [] \<and> starts_with s w) ws"

lemma leading_char_SomeD:
  "leading_char ws s = Some w \<Longrightarrow> w \<in> set ws \<and> w \<noteq> [] \<and> starts_with s w"
  unfolding leading_char_def by (auto simp: find_Some_iff)

lemma leading_char_None: "leading_char ws s = None \<longleftrightarrow> (\<forall>w \<in> set ws. w \<noteq> [] \<longrightarrow> \<not> starts_with s w)"
  unfolding leading_char_def by (auto simp: find_None_iff)

lemma leading_char_shrinks: "leading_char ws s = Some w \<Longrightarrow> length (drop (length w) s) < length s"
  using leading_char_SomeD starts_with_length
  by (metis diff_less length_drop length_greater_0_conv list.size(3) not_less le_zero_eq)

function trim_start_set :: "string list \<Rightarrow> string \<Rightarrow> string" where
  "trim_start_set ws s =
     (case leading_char ws s of
        None \<Rightarrow> s
      | Some w \<Rightarrow> trim_start_set ws (drop (length w) s))"
  by pat_completeness auto
termination
  by (relation "measure (\<lambda>(ws, s). length s)") (auto dest: leading_char_shrinks)

declare trim_start_set.simps [simp del]

definition trim_end_set :: "string list \<Rightarrow> string \<Rightarrow> string" where
  "trim_end_set ws s = rev (trim_start_set (map rev ws) (rev s))"

text \<open>\<^verbatim>\<open>trim_start\<close>, \<^verbatim>\<open>trim\<close> and \<^verbatim>\<open>trim_matches\<close>\<close>

definition trim_start :: "string \<Rightarrow> string" where
  "trim_start s = trim_start_set whitespace_chars s"

definition trim_matches :: "string list \<Rightarrow> string \<Rightarrow> string" where
  "trim_matches ws s = trim_end_set ws (trim_start_set ws s)"

definition trim :: "string \<Rightarrow> string" where
  "trim s = trim_matches whitespace_chars s"

lemma length_trim_start_set: "length (trim_start_set ws s) \<le> length s"
proof (induction ws s rule: trim_start_set.induct)
  case (1 ws s)
  show ?case
  proof (cases "leading_char ws s")
    case None
    then show ?thesis by (simp add: trim_start_set.simps [of ws s])
  next
    case (Some w)
    from "1.IH" [OF Some] Some show ?thesis by (simp add: trim_start_set.simps [of ws s])
  qed
qed

lemma length_trim_matches: "length (trim_matches ws s) \<le> length s"
  unfolding trim_matches_def trim_end_set_def
  by (metis length_rev length_trim_start_set le_trans)

lemma length_trim: "length (trim s) \<le> length s"
  by (simp add: trim_def length_trim_matches)

text \<open>The result of stripping is a suffix that starts with no character of the set.\<close>

lemma trim_start_set_suffix: "\<exists>p. s = p @ trim_start_set ws s"
proof (induction ws s rule: trim_start_set.induct)
  case (1 ws s)
  show ?case
  proof (cases "leading_char ws s")
    case None
    then show ?thesis by (simp add: trim_start_set.simps [of ws s])
  next
    case (Some w)
    from "1.IH" [OF Some] obtain p
      where "drop (length w) s = p @ trim_start_set ws (drop (length w) s)" by blast
    then have "s = (take (length w) s @ p) @ trim_start_set ws (drop (length w) s)"
      by (metis append_assoc append_take_drop_id)
    with Some show ?thesis by (metis option.simps(5) trim_start_set.simps)
  qed
qed

lemma trim_start_set_clean:
  "w \<in> set ws \<Longrightarrow> w \<noteq> [] \<Longrightarrow> \<not> starts_with (trim_start_set ws s) w"
proof (induction ws s rule: trim_start_set.induct)
  case (1 ws s)
  show ?case
  proof (cases "leading_char ws s")
    case None
    with "1.prems" have "\<not> starts_with s w" by (simp add: leading_char_None)
    with None show ?thesis by (simp add: trim_start_set.simps [of ws s])
  next
    case (Some v)
    from "1.IH" [OF Some "1.prems"] Some show ?thesis by (simp add: trim_start_set.simps [of ws s])
  qed
qed

text \<open>
  \<^verbatim>\<open>split_whitespace\<close>: the maximal runs of non-whitespace characters. \<open>cur\<close> holds the
  bytes of the run being read, reversed.
\<close>

function split_ws_aux :: "string \<Rightarrow> string \<Rightarrow> string list" where
  "split_ws_aux cur s =
     (case s of
        [] \<Rightarrow> (if cur = [] then [] else [rev cur])
      | c # cs \<Rightarrow>
          (case leading_char whitespace_chars s of
             None \<Rightarrow> split_ws_aux (c # cur) cs
           | Some w \<Rightarrow>
               (if cur = [] then [] else [rev cur]) @ split_ws_aux [] (drop (length w) s)))"
  by pat_completeness auto
termination
  by (relation "measure (\<lambda>(cur, s). length s)") (auto dest: leading_char_shrinks)

declare split_ws_aux.simps [simp del]

definition split_whitespace :: "string \<Rightarrow> string list" where
  "split_whitespace s = split_ws_aux [] s"

text \<open>\<^verbatim>\<open>split(c)\<close> for one ASCII character, keeping empty fields.\<close>

fun split_char :: "char \<Rightarrow> string \<Rightarrow> string list" where
  "split_char d [] = [[]]"
| "split_char d (c # cs) =
     (if c = d then [] # split_char d cs
      else (case split_char d cs of [] \<Rightarrow> [[c]] | f # fs \<Rightarrow> (c # f) # fs))"

text \<open>\<^verbatim>\<open>join(" ")\<close> and \<^verbatim>\<open>replace\<close> of one ASCII character by a string.\<close>

fun join_with :: "string \<Rightarrow> string list \<Rightarrow> string" where
  "join_with sep [] = []"
| "join_with sep [x] = x"
| "join_with sep (x # y # ys) = x @ sep @ join_with sep (y # ys)"

definition replace_char :: "char \<Rightarrow> string \<Rightarrow> string \<Rightarrow> string" where
  "replace_char c r s = concat (map (\<lambda>x. if x = c then r else [x]) s)"

lemma split_char_not_Nil [simp]: "split_char d s \<noteq> []"
  by (induction s) (auto split: list.splits)

lemma join_split_char: "join_with [d] (split_char d s) = s"
proof (induction s)
  case (Cons c cs)
  obtain f fs where f: "split_char d cs = f # fs" using split_char_not_Nil by (meson list.exhaust)
  with Cons.IH show ?case by (cases fs) auto
qed simp

section \<open>Decimal numbers\<close>

fun digits_value :: "nat \<Rightarrow> string \<Rightarrow> nat" where
  "digits_value acc [] = acc"
| "digits_value acc (c # cs) = digits_value (10 * acc + digit_val c) cs"

text \<open>
  \<^verbatim>\<open>str::parse\<close> for a signed integer type with the given range: an optional sign, at least
  one ASCII digit, no overflow.
\<close>

definition parse_signed :: "int \<Rightarrow> int \<Rightarrow> string \<Rightarrow> int option" where
  "parse_signed lo hi s =
     (let (neg, body) =
        (case s of
           [] \<Rightarrow> (False, [])
         | c # cs \<Rightarrow> if c = CHR ''-'' then (True, cs) else if c = CHR ''+'' then (False, cs)
                     else (False, c # cs))
      in if body = [] \<or> \<not> list_all is_ascii_digit body then None
         else let v = int (digits_value 0 body); r = (if neg then - v else v)
              in if lo \<le> r \<and> r \<le> hi then Some r else None)"

definition parse_i32 :: "string \<Rightarrow> int option" where
  "parse_i32 = parse_signed (- 2147483648) i32_max"

definition parse_i64 :: "string \<Rightarrow> int option" where
  "parse_i64 = parse_signed i64_min i64_max"

text \<open>Decimal output, most significant digit first (\<^verbatim>\<open>format!("{n}")\<close>).\<close>

fun show_nat :: "nat \<Rightarrow> string" where
  "show_nat n =
     (if n < 10 then [char_of (48 + n)] else show_nat (n div 10) @ [char_of (48 + n mod 10)])"

declare show_nat.simps [simp del]

definition show_int :: "int \<Rightarrow> string" where
  "show_int i = (if i < 0 then ''-'' @ show_nat (nat (- i)) else show_nat (nat i))"

lemma byte_digit [simp]: "d < 10 \<Longrightarrow> byte (char_of (48 + d)) = 48 + d"
  by (simp add: byte_def)

lemma digits_value_append: "digits_value acc (xs @ ys) = digits_value (digits_value acc xs) ys"
  by (induction xs arbitrary: acc) auto

lemma show_nat_digits: "list_all is_ascii_digit (show_nat n)"
proof (induction n rule: show_nat.induct)
  case (1 n)
  then show ?case by (cases "n < 10") (auto simp: show_nat.simps [of n] is_ascii_digit_def)
qed

lemma show_nat_not_Nil [simp]: "show_nat n \<noteq> []"
  by (subst show_nat.simps) simp

lemma digits_value_show_nat: "digits_value 0 (show_nat n) = n"
proof (induction n rule: show_nat.induct)
  case (1 n)
  show ?case
  proof (cases "n < 10")
    case True
    then show ?thesis by (simp add: show_nat.simps [of n] digit_val_def)
  next
    case False
    with "1.IH" show ?thesis
      by (simp add: show_nat.simps [of n] digits_value_append digit_val_def)
  qed
qed

lemma digits_value_bound:
  "list_all is_ascii_digit s \<Longrightarrow> digits_value acc s < (acc + 1) * 10 ^ length s"
proof (induction s arbitrary: acc)
  case (Cons c cs)
  then have "is_ascii_digit c" and cs: "list_all is_ascii_digit cs" by simp_all
  then have c: "digit_val c \<le> 9" by (auto simp: is_ascii_digit_def digit_val_def)
  have "digits_value (10 * acc + digit_val c) cs < (10 * acc + digit_val c + 1) * 10 ^ length cs"
    using Cons.IH [OF cs] by simp
  also have "\<dots> \<le> (10 * acc + 10) * 10 ^ length cs"
    using c by (intro mult_le_mono1) simp
  finally show ?case by (simp add: algebra_simps)
qed simp

text \<open>A digit string of at most 18 digits is in the range of \<^verbatim>\<open>i64\<close>, so parsing it succeeds.\<close>

lemma parse_i64_digits:
  assumes "s \<noteq> []" "list_all is_ascii_digit s" "length s \<le> 18"
  shows "parse_i64 s = Some (int (digits_value 0 s))"
proof -
  from assms(1) obtain c cs where s: "s = c # cs" by (meson list.exhaust)
  with assms(2) have "c \<noteq> CHR ''-''" "c \<noteq> CHR ''+''"
    by (auto simp: is_ascii_digit_def byte_def)
  moreover have "digits_value 0 s < 10 ^ length s" using digits_value_bound [OF assms(2), of 0] by simp
  then have "digits_value 0 s < 10 ^ 18"
    using assms(3) by (meson order_less_le_trans power_increasing one_le_numeral)
  then have "int (digits_value 0 s) \<le> i64_max" by simp
  ultimately show ?thesis
    using assms(2) s by (auto simp: parse_i64_def parse_signed_def)
qed

lemma parse_show_nat:
  assumes "int n \<le> i64_max"
  shows "parse_i64 (show_nat n) = Some (int n)"
proof -
  obtain c cs where s: "show_nat n = c # cs" by (meson list.exhaust show_nat_not_Nil)
  have d: "list_all is_ascii_digit (c # cs)" using show_nat_digits [of n] s by simp
  then have "c \<noteq> CHR ''-''" "c \<noteq> CHR ''+''" by (auto simp: is_ascii_digit_def byte_def)
  with d assms digits_value_show_nat [of n] s show ?thesis
    by (auto simp: parse_i64_def parse_signed_def)
qed

end
