(* ===== verification/Work.thy ===== *)
theory Work
  imports Errors Rust_Text "HOL-Library.Product_Lexorder"
begin

text \<open>
  The durable work queue: \<^verbatim>\<open>src/work/types.rs\<close>, \<^verbatim>\<open>src/work/error.rs\<close> and
  \<^verbatim>\<open>src/work/store.rs\<close> on the tables of \<^verbatim>\<open>migrations/003\<close>.

  A job row has the columns of the table \<^verbatim>\<open>jobs\<close>, an attempt row those of
  \<^verbatim>\<open>job_attempts\<close>; text columns restricted by a CHECK to the values of an enumeration hold
  that enumeration. Each operation of \<^verbatim>\<open>WorkStore\<close> is one definition; the statements of a
  transaction follow the source's order, and the label of each is the message its failure is
  reported with. \<^verbatim>\<open>NOW()\<close> is constant within a transaction and is the argument \<open>now\<close>.
  The random identifiers, the rows other transactions hold locked and the outcome of the
  advisory locks are fields of \<open>claim_env\<close>.
\<close>

section \<open>Types\<close>

text \<open>Job payloads are JSON values; an integer number is kept exactly.\<close>

datatype json =
  JNull | JBool bool | JInt int | JFloat string | JString string | JArray "json list"
| JObject "(string \<times> json) list"

fun json_get :: "json \<Rightarrow> string \<Rightarrow> json option" where
  "json_get (JObject fields) k = map_of fields k"
| "json_get _ k = None"

fun json_as_i64 :: "json \<Rightarrow> int option" where
  "json_as_i64 (JInt i) = (if i64_min \<le> i \<and> i \<le> i64_max then Some i else None)"
| "json_as_i64 _ = None"

fun json_as_str :: "json \<Rightarrow> string option" where
  "json_as_str (JString s) = Some s"
| "json_as_str _ = None"

datatype job_state = Queued | Leased | Completed | Cancelled | Dead

fun job_state_as_str :: "job_state \<Rightarrow> string" where
  "job_state_as_str Queued = ''queued''"
| "job_state_as_str Leased = ''leased''"
| "job_state_as_str Completed = ''completed''"
| "job_state_as_str Cancelled = ''cancelled''"
| "job_state_as_str Dead = ''dead''"

definition job_state_parse :: "string \<Rightarrow> job_state option" where
  "job_state_parse v =
     (if v = ''queued'' then Some Queued
      else if v = ''leased'' then Some Leased
      else if v = ''completed'' then Some Completed
      else if v = ''cancelled'' then Some Cancelled
      else if v = ''dead'' then Some Dead
      else None)"

datatype attempt_outcome = AOCompleted | AOFailed | AOCancelled | AOLostLease | AOSuperseded

fun attempt_outcome_as_str :: "attempt_outcome \<Rightarrow> string" where
  "attempt_outcome_as_str AOCompleted = ''completed''"
| "attempt_outcome_as_str AOFailed = ''failed''"
| "attempt_outcome_as_str AOCancelled = ''cancelled''"
| "attempt_outcome_as_str AOLostLease = ''lost_lease''"
| "attempt_outcome_as_str AOSuperseded = ''superseded''"

definition attempt_outcome_parse :: "string \<Rightarrow> attempt_outcome option" where
  "attempt_outcome_parse v =
     (if v = ''completed'' then Some AOCompleted
      else if v = ''failed'' then Some AOFailed
      else if v = ''cancelled'' then Some AOCancelled
      else if v = ''lost_lease'' then Some AOLostLease
      else if v = ''superseded'' then Some AOSuperseded
      else None)"

interpretation job_state_codec: exact_codec job_state_as_str job_state_parse
proof
  show "job_state_parse (job_state_as_str x) = Some x" for x
    by (cases x) (simp_all add: job_state_parse_def)
  show "job_state_parse s = Some x \<Longrightarrow> s = job_state_as_str x" for s x
    by (auto simp: job_state_parse_def split: if_splits)
qed

interpretation attempt_outcome_codec: exact_codec attempt_outcome_as_str attempt_outcome_parse
proof
  show "attempt_outcome_parse (attempt_outcome_as_str x) = Some x" for x
    by (cases x) (simp_all add: attempt_outcome_parse_def)
  show "attempt_outcome_parse s = Some x \<Longrightarrow> s = attempt_outcome_as_str x" for s x
    by (auto simp: attempt_outcome_parse_def split: if_splits)
qed

datatype enqueue_outcome = Enqueued | DuplicateJobKey

datatype fail_outcome = Retried | DeadLettered

record enqueue_request =
  er_id :: uuid
  er_job_type :: string
  er_payload :: json
  er_dedupe_key :: string
  er_serialization_key :: "string option"
  er_priority :: int
  er_run_at :: instant
  er_max_attempts :: int

record claim_options =
  batch_limit :: int
  co_lease_owner :: string
  lease_duration_secs :: int

record claimed_job =
  cj_id :: uuid
  cj_job_type :: string
  cj_payload :: json
  cj_payload_version :: int
  cj_attempt_number :: int
  cj_lease_token :: uuid
  cj_lease_owner :: string
  cj_lease_deadline :: instant
  cj_dedupe_key :: string
  cj_serialization_key :: "string option"

datatype work_error = WorkError error_class string

fun work_error_class :: "work_error \<Rightarrow> error_class" where
  "work_error_class (WorkError c m) = c"

definition work_dependency :: "string \<Rightarrow> work_error" where
  "work_dependency m = WorkError EDependency m"

definition work_validation :: "string \<Rightarrow> work_error" where
  "work_validation m = WorkError EValidation m"

definition work_conflict :: "string \<Rightarrow> work_error" where
  "work_conflict m = WorkError EConflict m"

definition work_not_found :: "string \<Rightarrow> work_error" where
  "work_not_found m = WorkError ENotFound m"

definition is_retryable :: "error_class \<Rightarrow> bool" where
  "is_retryable c \<longleftrightarrow>
     c = ETransient \<or> c = ETimeout \<or> c = ERateLimited \<or> c = EDependency \<or> c = EProviderError"

text \<open>
  \<^verbatim>\<open>attempt_count.saturating_sub(1).clamp(0, 8)\<close>: the saturation only matters at
  \<^verbatim>\<open>i32::MIN\<close>, where the clamp gives 0 either way.
\<close>

definition retry_delay_secs :: "int \<Rightarrow> int" where
  "retry_delay_secs attempt_count =
     (let e = max 0 (min 8 (attempt_count - 1)) in min (1 * 2 ^ nat e) 300)"

section \<open>Tables\<close>

record job =
  j_id :: uuid
  j_type :: string
  j_payload :: json
  j_payload_version :: int
  j_state :: job_state
  j_priority :: int
  j_run_at :: instant
  j_dedupe_key :: string
  j_serialization_key :: "string option"
  j_attempt_count :: int
  j_max_attempts :: int
  j_lease_token :: "uuid option"
  j_lease_owner :: "string option"
  j_lease_deadline :: "instant option"
  j_last_error_class :: "string option"
  j_created_at :: instant
  j_updated_at :: instant
  j_completed_at :: "instant option"

record attempt =
  a_id :: uuid
  a_job_id :: uuid
  a_attempt_number :: int
  a_lease_token :: uuid
  a_lease_owner :: string
  a_started_at :: instant
  a_ended_at :: "instant option"
  a_outcome :: "attempt_outcome option"
  a_error_class :: "string option"

record work_db =
  jobs :: "job list"
  job_attempts :: "attempt list"

section \<open>Enqueue\<close>

definition payload_version :: "json \<Rightarrow> work_error + int" where
  "payload_version p =
     (case Option.bind (json_get p ''schema_version'') json_as_i64 of
        Some v \<Rightarrow>
          if 0 < v \<and> v \<le> i32_max then Inr v
          else Inl (work_validation ''payload must include positive schema_version'')
      | None \<Rightarrow> Inl (work_validation ''payload must include positive schema_version''))"

definition validate_enqueue_request :: "enqueue_request \<Rightarrow> work_error + int" where
  "validate_enqueue_request r =
     (case payload_version (er_payload r) of
        Inl e \<Rightarrow> Inl e
      | Inr v \<Rightarrow>
          if er_max_attempts r \<le> 0 then Inl (work_validation ''max_attempts must be positive'')
          else if trim (er_job_type r) = [] \<or> 128 < char_count (er_job_type r)
          then Inl (work_validation ''job_type has invalid length'')
          else if trim (er_dedupe_key r) = [] \<or> 512 < char_count (er_dedupe_key r)
          then Inl (work_validation ''dedupe_key has invalid length'')
          else if (case er_serialization_key r of
                     None \<Rightarrow> False
                   | Some k \<Rightarrow> trim k = [] \<or> 512 < char_count k)
          then Inl (work_validation ''serialization_key has invalid length'')
          else Inr v)"

definition new_job :: "instant \<Rightarrow> enqueue_request \<Rightarrow> int \<Rightarrow> job" where
  "new_job now r v =
     \<lparr>j_id = er_id r, j_type = er_job_type r, j_payload = er_payload r, j_payload_version = v,
      j_state = Queued, j_priority = er_priority r, j_run_at = er_run_at r,
      j_dedupe_key = er_dedupe_key r, j_serialization_key = er_serialization_key r,
      j_attempt_count = 0, j_max_attempts = er_max_attempts r,
      j_lease_token = None, j_lease_owner = None, j_lease_deadline = None,
      j_last_error_class = None, j_created_at = now, j_updated_at = now, j_completed_at = None\<rparr>"

text \<open>
  \<^verbatim>\<open>ON CONFLICT (dedupe_key) DO NOTHING\<close> covers the dedupe key only: an identifier that is
  already taken is a unique violation, which \<^verbatim>\<open>map_insert_error\<close> reports as a conflict.
\<close>

definition enqueue_in_transaction ::
  "db_fault \<Rightarrow> instant \<Rightarrow> enqueue_request \<Rightarrow> ('z work_db_scheme, work_error, enqueue_outcome) tx"
  where
  "enqueue_in_transaction flt now r =
     (case validate_enqueue_request r of
        Inl e \<Rightarrow> txfail e
      | Inr v \<Rightarrow>
          stmt flt ''enqueue failed'' (work_dependency ''enqueue failed'') (\<lambda>db.
            if exists_where (\<lambda>j. j_dedupe_key j = er_dedupe_key r) (jobs db)
            then Inr (DuplicateJobKey, db)
            else if exists_where (\<lambda>j. j_id j = er_id r) (jobs db)
            then Inl (work_conflict ''active serialization key already reserved'')
            else Inr (Enqueued, db\<lparr>jobs := jobs db @ [new_job now r v]\<rparr>)))"

definition enqueue ::
  "db_fault \<Rightarrow> instant \<Rightarrow> enqueue_request \<Rightarrow> 'z work_db_scheme \<Rightarrow>
   (work_error + enqueue_outcome) \<times> 'z work_db_scheme" where
  "enqueue flt now r =
     run_tx flt (work_dependency ''failed to begin enqueue transaction'')
       (work_dependency ''enqueue commit failed'') (enqueue_in_transaction flt now r)"

section \<open>Claim\<close>

record claim_env =
  ce_now :: instant
  ce_fault :: db_fault
  ce_row_locked :: "uuid \<Rightarrow> bool"
  ce_lock_acquired :: "string \<Rightarrow> bool"
  ce_lease_token :: "uuid \<Rightarrow> uuid"
  ce_attempt_id :: "uuid \<Rightarrow> uuid"

definition claimable :: "instant \<Rightarrow> job \<Rightarrow> bool" where
  "claimable now j \<longleftrightarrow>
     (j_state j = Queued \<and> j_run_at j \<le> now) \<or>
     (j_state j = Leased \<and> is_past (j_lease_deadline j) now)"

text \<open>\<open>active_lease js k\<close>: some job with serialization key \<open>k\<close> is leased.\<close>

definition active_lease :: "job list \<Rightarrow> string \<Rightarrow> bool" where
  "active_lease js k = exists_where (\<lambda>j. j_serialization_key j = Some k \<and> j_state j = Leased) js"

definition claim_order :: "job \<Rightarrow> int \<times> int \<times> int" where
  "claim_order j = (- j_priority j, j_run_at j, j_created_at j)"

definition claim_candidates :: "claim_env \<Rightarrow> int \<Rightarrow> job list \<Rightarrow> job list" where
  "claim_candidates env limit js =
     take (nat limit) (sort_key claim_order
       (filter (\<lambda>j. claimable (ce_now env) j
                   \<and> (case j_serialization_key j of
                        None \<Rightarrow> True
                      | Some k \<Rightarrow> j_state j = Leased \<or> \<not> active_lease js k)
                   \<and> \<not> ce_row_locked env (j_id j)) js))"

definition close_attempt ::
  "instant \<Rightarrow> attempt_outcome \<Rightarrow> string option \<Rightarrow> attempt \<Rightarrow> attempt" where
  "close_attempt now oc cls a =
     a\<lparr>a_ended_at := Some now, a_outcome := Some oc,
       a_error_class := (case cls of None \<Rightarrow> a_error_class a | Some c \<Rightarrow> Some c)\<rparr>"

definition close_open_attempt ::
  "db_fault \<Rightarrow> instant \<Rightarrow> uuid \<Rightarrow> attempt_outcome \<Rightarrow> string option \<Rightarrow>
   ('z work_db_scheme, work_error, unit) tx" where
  "close_open_attempt flt now i oc cls =
     stmt flt ''attempt close failed'' (work_dependency ''attempt close failed'') (txwrite (\<lambda>db.
       db\<lparr>job_attempts := update_where (\<lambda>a. a_job_id a = i \<and> a_ended_at a = None)
            (close_attempt now oc cls) (job_attempts db)\<rparr>))"

text \<open>The row changes shared by the operations: end of a lease, and the states it leads to.\<close>

definition clear_lease :: "job \<Rightarrow> job" where
  "clear_lease j = j\<lparr>j_lease_token := None, j_lease_owner := None, j_lease_deadline := None\<rparr>"

definition dead_letter :: "instant \<Rightarrow> string \<Rightarrow> job \<Rightarrow> job" where
  "dead_letter now cls j =
     (clear_lease j)\<lparr>j_state := Dead, j_last_error_class := Some cls, j_completed_at := Some now,
       j_updated_at := now\<rparr>"

definition grant_lease :: "instant \<Rightarrow> int \<Rightarrow> uuid \<Rightarrow> string \<Rightarrow> int \<Rightarrow> job \<Rightarrow> job" where
  "grant_lease now n tok owner dur j =
     j\<lparr>j_state := Leased, j_attempt_count := n, j_lease_token := Some tok,
       j_lease_owner := Some owner, j_lease_deadline := Some (now + secs dur), j_updated_at := now\<rparr>"

definition lease_candidate ::
  "claim_env \<Rightarrow> claim_options \<Rightarrow> job \<Rightarrow> ('z work_db_scheme, work_error, claimed_job option) tx"
  where
  "lease_candidate env opts c =
     (let now = ce_now env; n = j_attempt_count c + 1; tok = ce_lease_token env (j_id c);
          hit = (\<lambda>j. j_id j = j_id c \<and> claimable now j)
      in txbind (stmt (ce_fault env) ''claim update failed'' (work_dependency ''claim update failed'')
           (\<lambda>db. case find_where hit (jobs db) of
              None \<Rightarrow> Inr (None, db)
            | Some j \<Rightarrow>
                let j' = grant_lease now n tok (co_lease_owner opts) (lease_duration_secs opts)
                in Inr (j_lease_deadline (j' j), db\<lparr>jobs := update_where hit j' (jobs db)\<rparr>)))
         (\<lambda>deadline. case deadline of
            None \<Rightarrow> txret None
          | Some d \<Rightarrow>
              txbind (stmt (ce_fault env) ''claim attempt insert failed''
                        (work_dependency ''claim attempt insert failed'')
                        (txwrite (\<lambda>db. db\<lparr>job_attempts := job_attempts db @
                           [\<lparr>a_id = ce_attempt_id env (j_id c), a_job_id = j_id c,
                             a_attempt_number = n, a_lease_token = tok,
                             a_lease_owner = co_lease_owner opts, a_started_at = now,
                             a_ended_at = None, a_outcome = None, a_error_class = None\<rparr>]\<rparr>)))
                (\<lambda>_. txret (Some
                   \<lparr>cj_id = j_id c, cj_job_type = j_type c, cj_payload = j_payload c,
                    cj_payload_version = j_payload_version c, cj_attempt_number = n,
                    cj_lease_token = tok, cj_lease_owner = co_lease_owner opts,
                    cj_lease_deadline = d, cj_dedupe_key = j_dedupe_key c,
                    cj_serialization_key = j_serialization_key c\<rparr>))))"

text \<open>An expired lease is closed first; a job that has used up its attempts dies instead.\<close>

definition reclaim_candidate ::
  "claim_env \<Rightarrow> claim_options \<Rightarrow> job \<Rightarrow> ('z work_db_scheme, work_error, claimed_job option) tx"
  where
  "reclaim_candidate env opts c =
     (if j_state c = Leased then
        txbind (close_open_attempt (ce_fault env) (ce_now env) (j_id c) AOLostLease None) (\<lambda>_.
          if j_max_attempts c \<le> j_attempt_count c then
            txbind (stmt (ce_fault env) ''expired job dead-letter failed''
                      (work_dependency ''expired job dead-letter failed'')
                      (txwrite (\<lambda>db. db\<lparr>jobs := update_where
                         (\<lambda>j. j_id j = j_id c \<and> j_state j = Leased
                              \<and> is_past (j_lease_deadline j) (ce_now env))
                         (dead_letter (ce_now env) ''timeout'') (jobs db)\<rparr>)))
              (\<lambda>_. txret None)
          else lease_candidate env opts c)
      else lease_candidate env opts c)"

text \<open>
  The serialization key: one candidate per key and batch, only under its advisory lock, and
  only if a fresh look finds no other leased job with the key.
\<close>

definition claim_one ::
  "claim_env \<Rightarrow> claim_options \<Rightarrow> job \<Rightarrow> string list \<Rightarrow>
   ('z work_db_scheme, work_error, claimed_job option \<times> string list) tx" where
  "claim_one env opts c seen =
     (case j_serialization_key c of
        None \<Rightarrow> txbind (reclaim_candidate env opts c) (\<lambda>r. txret (r, seen))
      | Some k \<Rightarrow>
          if k \<in> set seen then txret (None, seen)
          else txbind (stmt (ce_fault env) ''serialization lock failed''
                         (work_dependency ''serialization lock failed'')
                         (txret (ce_lock_acquired env k)))
            (\<lambda>acquired.
               if \<not> acquired then txret (None, k # seen)
               else txbind (stmt (ce_fault env) ''serialization lease recheck failed''
                              (work_dependency ''serialization lease recheck failed'')
                              (txread (\<lambda>db. exists_where
                                 (\<lambda>j. j_serialization_key j = Some k \<and> j_state j = Leased
                                      \<and> j_id j \<noteq> j_id c) (jobs db))))
                 (\<lambda>active.
                    if active then txret (None, k # seen)
                    else txbind (reclaim_candidate env opts c) (\<lambda>r. txret (r, k # seen)))))"

fun claim_loop ::
  "claim_env \<Rightarrow> claim_options \<Rightarrow> job list \<Rightarrow> string list \<Rightarrow>
   ('z work_db_scheme, work_error, claimed_job list) tx" where
  "claim_loop env opts [] seen = txret []"
| "claim_loop env opts (c # cs) seen =
     txbind (claim_one env opts c seen) (\<lambda>(r, seen').
       txbind (claim_loop env opts cs seen') (\<lambda>rest.
         txret (case r of None \<Rightarrow> rest | Some j \<Rightarrow> j # rest)))"

definition claim_body ::
  "claim_env \<Rightarrow> claim_options \<Rightarrow> ('z work_db_scheme, work_error, claimed_job list) tx" where
  "claim_body env opts =
     txbind (stmt (ce_fault env) ''claim candidate selection failed''
               (work_dependency ''claim candidate selection failed'')
               (txread (\<lambda>db. claim_candidates env (batch_limit opts) (jobs db))))
       (\<lambda>cs. claim_loop env opts cs [])"

definition claim ::
  "claim_env \<Rightarrow> claim_options \<Rightarrow> 'z work_db_scheme \<Rightarrow>
   (work_error + claimed_job list) \<times> 'z work_db_scheme" where
  "claim env opts db =
     (if batch_limit opts \<le> 0
      then (Inl (work_validation ''batch_limit must be positive''), db)
      else if co_lease_owner opts = []
      then (Inl (work_validation ''lease_owner must not be empty''), db)
      else if lease_duration_secs opts \<le> 0
      then (Inl (work_validation ''lease_duration_secs must be positive''), db)
      else run_tx (ce_fault env) (work_dependency ''failed to begin claim transaction'')
             (work_dependency ''claim commit failed'') (claim_body env opts) db)"

section \<open>Heartbeat, complete, fail\<close>

text \<open>The guard of every lease-holder operation: this token, leased, not past its deadline.\<close>

definition lease_held :: "instant \<Rightarrow> uuid \<Rightarrow> uuid \<Rightarrow> job \<Rightarrow> bool" where
  "lease_held now i tok j \<longleftrightarrow>
     j_id j = i \<and> j_lease_token j = Some tok \<and> j_state j = Leased
     \<and> is_live (j_lease_deadline j) now"

text \<open>
  A statement outside an explicit transaction commits by itself; its acknowledgement may be
  lost, too. The commit label never names such a statement, so \<open>FaultAt ''commit''\<close> is a
  failure of the statement.
\<close>

definition heartbeat ::
  "db_fault \<Rightarrow> instant \<Rightarrow> uuid \<Rightarrow> uuid \<Rightarrow> int \<Rightarrow> 'z work_db_scheme \<Rightarrow>
   (work_error + instant) \<times> 'z work_db_scheme" where
  "heartbeat flt now i tok dur db =
     (if dur \<le> 0 then (Inl (work_validation ''lease_duration_secs must be positive''), db)
      else run_tx flt (work_dependency ''heartbeat failed'') (work_dependency ''heartbeat failed'')
        (\<lambda>db. if exists_where (lease_held now i tok) (jobs db)
              then Inr (now + secs dur,
                     db\<lparr>jobs := update_where (lease_held now i tok)
                          (\<lambda>j. j\<lparr>j_lease_deadline := Some (now + secs dur), j_updated_at := now\<rparr>)
                          (jobs db)\<rparr>)
              else Inl (work_conflict ''heartbeat rejected for stale lease token'')) db)"

definition complete_job :: "instant \<Rightarrow> job \<Rightarrow> job" where
  "complete_job now j =
     (clear_lease j)\<lparr>j_state := Completed, j_completed_at := Some now, j_updated_at := now\<rparr>"

definition complete ::
  "db_fault \<Rightarrow> instant \<Rightarrow> uuid \<Rightarrow> uuid \<Rightarrow> 'z work_db_scheme \<Rightarrow>
   (work_error + unit) \<times> 'z work_db_scheme" where
  "complete flt now i tok =
     run_tx flt (work_dependency ''failed to begin complete transaction'')
       (work_dependency ''complete commit failed'')
       (txbind (stmt flt ''complete update failed'' (work_dependency ''complete update failed'') (\<lambda>db.
            if count_where (lease_held now i tok) (jobs db) \<noteq> 1
            then Inl (work_conflict ''complete rejected for stale or expired lease token'')
            else Inr ((), db\<lparr>jobs := update_where (lease_held now i tok) (complete_job now)
                                     (jobs db)\<rparr>)))
         (\<lambda>_. close_open_attempt flt now i AOCompleted None))"

definition requeue_job :: "instant \<Rightarrow> int \<Rightarrow> string \<Rightarrow> job \<Rightarrow> job" where
  "requeue_job now delay cls j =
     (clear_lease j)\<lparr>j_state := Queued, j_run_at := now + secs delay,
       j_last_error_class := Some cls, j_updated_at := now\<rparr>"

definition fail ::
  "db_fault \<Rightarrow> instant \<Rightarrow> uuid \<Rightarrow> uuid \<Rightarrow> error_class \<Rightarrow> 'z work_db_scheme \<Rightarrow>
   (work_error + fail_outcome) \<times> 'z work_db_scheme" where
  "fail flt now i tok cls =
     run_tx flt (work_dependency ''failed to begin fail transaction'')
       (work_dependency ''fail commit failed'')
       (txbind (stmt flt ''fail lookup failed'' (work_dependency ''fail lookup failed'')
            (txread (\<lambda>db. find_where (lease_held now i tok) (jobs db))))
         (\<lambda>row. case row of
            None \<Rightarrow> txfail (work_conflict ''fail rejected for stale or expired lease token'')
          | Some r \<Rightarrow>
              txbind (close_open_attempt flt now i AOFailed (Some (error_class_as_str cls))) (\<lambda>_.
                let held = (\<lambda>j. j_id j = i \<and> j_lease_token j = Some tok \<and> j_state j = Leased)
                in if is_retryable cls \<and> j_attempt_count r < j_max_attempts r then
                     txbind (stmt flt ''fail retry update failed''
                               (work_dependency ''fail retry update failed'')
                               (txwrite (\<lambda>db. db\<lparr>jobs := update_where held
                                  (requeue_job now (retry_delay_secs (j_attempt_count r))
                                     (error_class_as_str cls)) (jobs db)\<rparr>)))
                       (\<lambda>_. txret Retried)
                   else
                     txbind (stmt flt ''fail dead-letter update failed''
                               (work_dependency ''fail dead-letter update failed'')
                               (txwrite (\<lambda>db. db\<lparr>jobs := update_where held
                                  (dead_letter now (error_class_as_str cls)) (jobs db)\<rparr>)))
                       (\<lambda>_. txret DeadLettered))))"

section \<open>Cancel, recover, list\<close>

definition cancel_job :: "instant \<Rightarrow> job \<Rightarrow> job" where
  "cancel_job now j = j\<lparr>j_state := Cancelled, j_completed_at := Some now, j_updated_at := now\<rparr>"

definition cancel_leased_job :: "instant \<Rightarrow> job \<Rightarrow> job" where
  "cancel_leased_job now j = cancel_job now (clear_lease j)"

definition cancel_leased ::
  "db_fault \<Rightarrow> instant \<Rightarrow> uuid \<Rightarrow> uuid option \<Rightarrow> bool \<Rightarrow> ('z work_db_scheme, work_error, unit) tx"
  where
  "cancel_leased flt now i tok operator_override =
     txbind
       (if operator_override then
          stmt flt ''operator cancel update failed''
            (work_dependency ''operator cancel update failed'')
            (\<lambda>db. Inr (count_where (\<lambda>j. j_id j = i \<and> j_state j = Leased) (jobs db),
               db\<lparr>jobs := update_where (\<lambda>j. j_id j = i \<and> j_state j = Leased)
                    (cancel_leased_job now) (jobs db)\<rparr>))
        else (case tok of
            None \<Rightarrow>
              txfail (work_validation ''leased cancellation requires the current lease token'')
          | Some t \<Rightarrow>
              stmt flt ''cancel leased update failed''
                (work_dependency ''cancel leased update failed'')
                (\<lambda>db. Inr (count_where (lease_held now i t) (jobs db),
                   db\<lparr>jobs := update_where (lease_held now i t) (cancel_leased_job now)
                        (jobs db)\<rparr>))))
       (\<lambda>n. if n \<noteq> 1
            then txfail (work_conflict ''cancel rejected for stale or expired lease token'')
            else close_open_attempt flt now i AOCancelled None)"

definition cancel_active ::
  "db_fault \<Rightarrow> instant \<Rightarrow> uuid \<Rightarrow> uuid option \<Rightarrow> bool \<Rightarrow> 'z work_db_scheme \<Rightarrow>
   (work_error + unit) \<times> 'z work_db_scheme" where
  "cancel_active flt now i tok operator_override =
     run_tx flt (work_dependency ''failed to begin cancel transaction'')
       (work_dependency ''cancel commit failed'')
       (txbind (stmt flt ''cancel lookup failed'' (work_dependency ''cancel lookup failed'')
            (txread (\<lambda>db. find_where (\<lambda>j. j_id j = i) (jobs db))))
         (\<lambda>row. case row of
            None \<Rightarrow> txfail (work_not_found ''job not found'')
          | Some j \<Rightarrow>
              (case j_state j of
                 Queued \<Rightarrow>
                   if tok \<noteq> None
                   then txfail (work_validation
                          ''queued cancellation must not include a lease token'')
                   else stmt flt ''cancel queued update failed''
                          (work_dependency ''cancel queued update failed'')
                          (txwrite (\<lambda>db. db\<lparr>jobs := update_where
                             (\<lambda>j. j_id j = i \<and> j_state j = Queued) (cancel_job now) (jobs db)\<rparr>))
               | Leased \<Rightarrow> cancel_leased flt now i tok operator_override
               | _ \<Rightarrow> txfail (work_conflict ''cancel rejected for non-active job state''))))"

definition cancel ::
  "db_fault \<Rightarrow> instant \<Rightarrow> uuid \<Rightarrow> uuid option \<Rightarrow> 'z work_db_scheme \<Rightarrow>
   (work_error + unit) \<times> 'z work_db_scheme" where
  "cancel flt now i tok = cancel_active flt now i tok False"

definition cancel_by_operator ::
  "db_fault \<Rightarrow> instant \<Rightarrow> uuid \<Rightarrow> 'z work_db_scheme \<Rightarrow> (work_error + unit) \<times> 'z work_db_scheme"
  where
  "cancel_by_operator flt now i = cancel_active flt now i None True"

definition cancel_queued_by_serialization_key_in_transaction ::
  "db_fault \<Rightarrow> instant \<Rightarrow> string \<Rightarrow> ('z work_db_scheme, work_error, nat) tx" where
  "cancel_queued_by_serialization_key_in_transaction flt now k =
     stmt flt ''cancel queued by serialization key failed''
       (work_dependency ''cancel queued by serialization key failed'')
       (\<lambda>db. let p = (\<lambda>j. j_serialization_key j = Some k \<and> j_state j = Queued)
             in Inr (count_where p (jobs db),
                  db\<lparr>jobs := update_where p (cancel_job now) (jobs db)\<rparr>))"

definition recover_job :: "instant \<Rightarrow> job \<Rightarrow> job" where
  "recover_job now j =
     (clear_lease j)\<lparr>j_state := Queued, j_run_at := now,
       j_max_attempts := max (j_max_attempts j) (j_attempt_count j + 1),
       j_last_error_class := None, j_completed_at := None, j_updated_at := now\<rparr>"

text \<open>
  \<^verbatim>\<open>attempt_count + 1\<close> is evaluated by the server as a 32-bit integer; out of range, the
  statement fails.
\<close>

definition recover_dead ::
  "db_fault \<Rightarrow> instant \<Rightarrow> uuid \<Rightarrow> 'z work_db_scheme \<Rightarrow> (work_error + unit) \<times> 'z work_db_scheme"
  where
  "recover_dead flt now i =
     run_tx flt (work_dependency ''recover dead update failed'')
       (work_dependency ''recover dead update failed'')
       (\<lambda>db. let p = (\<lambda>j. j_id j = i \<and> j_state j = Dead)
             in if exists_where (\<lambda>j. p j \<and> i32_max < j_attempt_count j + 1) (jobs db)
                then Inl (work_dependency ''recover dead update failed'')
                else if count_where p (jobs db) \<noteq> 1
                then Inl (work_conflict ''recover rejected for non-dead job'')
                else Inr ((), db\<lparr>jobs := update_where p (recover_job now) (jobs db)\<rparr>))"

record job_summary =
  js_id :: uuid
  js_job_type :: string
  js_payload_version :: int
  js_state :: job_state
  js_priority :: int
  js_run_at :: instant
  js_dedupe_key :: string
  js_serialization_key :: "string option"
  js_attempt_count :: int
  js_max_attempts :: int
  js_last_error_class :: "string option"

definition into_summary :: "job \<Rightarrow> job_summary" where
  "into_summary j =
     \<lparr>js_id = j_id j, js_job_type = j_type j, js_payload_version = j_payload_version j,
      js_state = j_state j, js_priority = j_priority j, js_run_at = j_run_at j,
      js_dedupe_key = j_dedupe_key j, js_serialization_key = j_serialization_key j,
      js_attempt_count = j_attempt_count j, js_max_attempts = j_max_attempts j,
      js_last_error_class = j_last_error_class j\<rparr>"

definition get_job_summary ::
  "db_fault \<Rightarrow> uuid \<Rightarrow> 'z work_db_scheme \<Rightarrow> work_error + job_summary" where
  "get_job_summary flt i db =
     (if flt = FaultAt ''job summary lookup failed''
      then Inl (work_dependency ''job summary lookup failed'')
      else case find_where (\<lambda>j. j_id j = i) (jobs db) of
        None \<Rightarrow> Inl (work_not_found ''job not found'')
      | Some j \<Rightarrow> Inr (into_summary j))"

record job_list_row =
  jl_id :: uuid
  jl_job_type :: string
  jl_state :: job_state
  jl_attempt_count :: int
  jl_run_at :: instant
  jl_last_error_class :: "string option"

definition into_list_row :: "job \<Rightarrow> job_list_row" where
  "into_list_row j =
     \<lparr>jl_id = j_id j, jl_job_type = j_type j, jl_state = j_state j,
      jl_attempt_count = j_attempt_count j, jl_run_at = j_run_at j,
      jl_last_error_class = j_last_error_class j\<rparr>"

definition list_jobs ::
  "db_fault \<Rightarrow> string option \<Rightarrow> nat \<Rightarrow> 'z work_db_scheme \<Rightarrow> work_error + job_list_row list" where
  "list_jobs flt st limit db =
     (if flt = FaultAt ''job list failed'' then Inl (work_dependency ''job list failed'')
      else Inr (map into_list_row (take limit (sort_key j_run_at
        (filter (\<lambda>j. case st of None \<Rightarrow> True | Some v \<Rightarrow> job_state_as_str (j_state j) = v)
          (jobs db))))))"

definition list_attempts ::
  "db_fault \<Rightarrow> uuid \<Rightarrow> 'z work_db_scheme \<Rightarrow> work_error + attempt list" where
  "list_attempts flt i db =
     (if flt = FaultAt ''attempt list failed'' then Inl (work_dependency ''attempt list failed'')
      else Inr (sort_key a_attempt_number
        (filter (\<lambda>a. a_job_id a = i) (job_attempts db))))"

end
