(* ===== verification/Work_Proofs.thy ===== *)
theory Work_Proofs
  imports Work
begin

text \<open>
  The correctness of the work queue: the invariant \<open>work_inv\<close> of its two tables and that every
  operation keeps it, under any fault of the database and for any interleaving of operations.
\<close>

section \<open>The invariant\<close>

text \<open>The CHECK constraints of the table \<^verbatim>\<open>jobs\<close>, the 32-bit ranges, and the attempt budget.\<close>

definition lease_columns_ok :: "job \<Rightarrow> bool" where
  "lease_columns_ok j \<longleftrightarrow>
     (if j_state j = Leased
      then j_lease_token j \<noteq> None \<and> j_lease_owner j \<noteq> None \<and> j_lease_deadline j \<noteq> None
      else j_lease_token j = None \<and> j_lease_owner j = None \<and> j_lease_deadline j = None)"

definition completed_at_ok :: "job \<Rightarrow> bool" where
  "completed_at_ok j \<longleftrightarrow>
     (j_completed_at j \<noteq> None \<longleftrightarrow> j_state j \<in> {Completed, Cancelled, Dead})"

definition budget_ok :: "job \<Rightarrow> bool" where
  "budget_ok j \<longleftrightarrow>
     0 < j_payload_version j \<and> 0 \<le> j_attempt_count j \<and> 0 < j_max_attempts j
     \<and> j_attempt_count j \<le> j_max_attempts j \<and> j_max_attempts j \<le> i32_max
     \<and> (j_state j = Queued \<longrightarrow> j_attempt_count j < j_max_attempts j)"

definition job_ok :: "job \<Rightarrow> bool" where
  "job_ok j \<longleftrightarrow> lease_columns_ok j \<and> completed_at_ok j \<and> budget_ok j"

lemmas job_ok_defs = job_ok_def lease_columns_ok_def completed_at_ok_def budget_ok_def

text \<open>
  The audit trail: the attempts of a job are numbered 1 to its attempt count in order, and the
  only open one is the last, while the job is leased; it carries the lease's token and owner.
\<close>

definition attempts_of :: "uuid \<Rightarrow> attempt list \<Rightarrow> attempt list" where
  "attempts_of i as = filter (\<lambda>a. a_job_id a = i) as"

definition attempt_ok :: "job \<Rightarrow> attempt \<Rightarrow> bool" where
  "attempt_ok j a \<longleftrightarrow>
     (if j_state j = Leased \<and> a_attempt_number a = j_attempt_count j
      then a_ended_at a = None \<and> a_outcome a = None
           \<and> j_lease_token j = Some (a_lease_token a) \<and> j_lease_owner j = Some (a_lease_owner a)
      else a_ended_at a \<noteq> None \<and> a_outcome a \<noteq> None)"

definition trail_ok :: "job \<Rightarrow> attempt list \<Rightarrow> bool" where
  "trail_ok j as \<longleftrightarrow>
     map a_attempt_number as = [1..j_attempt_count j]
     \<and> (\<forall>a \<in> set as. attempt_ok j a)
     \<and> (j_state j = Leased \<longrightarrow> 1 \<le> j_attempt_count j)"

definition serial_ok :: "job list \<Rightarrow> bool" where
  "serial_ok js \<longleftrightarrow>
     (\<forall>j1 \<in> set js. \<forall>j2 \<in> set js.
        j_state j1 = Leased \<longrightarrow> j_state j2 = Leased \<longrightarrow>
        j_serialization_key j1 \<noteq> None \<longrightarrow>
        j_serialization_key j1 = j_serialization_key j2 \<longrightarrow> j_id j1 = j_id j2)"

definition tables_ok :: "job list \<Rightarrow> attempt list \<Rightarrow> bool" where
  "tables_ok js as \<longleftrightarrow>
     distinct (map j_id js) \<and> distinct (map j_dedupe_key js)
     \<and> (\<forall>j \<in> set js. job_ok j \<and> trail_ok j (attempts_of (j_id j) as))
     \<and> serial_ok js
     \<and> (\<forall>a \<in> set as. a_job_id a \<in> j_id ` set js)
     \<and> distinct (map a_lease_token as)"

definition work_inv :: "'z work_db_scheme \<Rightarrow> bool" where
  "work_inv db \<longleftrightarrow> tables_ok (jobs db) (job_attempts db)"

lemma tables_okD:
  assumes "tables_ok js as"
  shows "distinct (map j_id js)" "distinct (map j_dedupe_key js)" "serial_ok js"
    "distinct (map a_lease_token as)"
    "j \<in> set js \<Longrightarrow> job_ok j" "j \<in> set js \<Longrightarrow> trail_ok j (attempts_of (j_id j) as)"
    "a \<in> set as \<Longrightarrow> a_job_id a \<in> j_id ` set js"
  using assms by (auto simp: tables_ok_def)

lemma serial_okD:
  "serial_ok js \<Longrightarrow> j1 \<in> set js \<Longrightarrow> j2 \<in> set js \<Longrightarrow> j_state j1 = Leased \<Longrightarrow> j_state j2 = Leased \<Longrightarrow>
   j_serialization_key j1 \<noteq> None \<Longrightarrow> j_serialization_key j1 = j_serialization_key j2 \<Longrightarrow> j_id j1 = j_id j2"
  unfolding serial_ok_def by blast

section \<open>Attempts\<close>

lemma attempts_of_append:
  "attempts_of i (as @ [a]) = attempts_of i as @ (if a_job_id a = i then [a] else [])"
  by (simp add: attempts_of_def)

lemma attempts_of_close:
  "attempts_of k (update_where (\<lambda>a. a_job_id a = i \<and> a_ended_at a = None) (close_attempt now oc cls) as) =
   (if k = i then update_where (\<lambda>a. a_ended_at a = None) (close_attempt now oc cls) (attempts_of i as)
    else attempts_of k as)"
  by (induction as) (auto simp: attempts_of_def update_where_def close_attempt_def)

lemma close_attempt_sel [simp]:
  "a_job_id (close_attempt now oc cls a) = a_job_id a"
  "a_attempt_number (close_attempt now oc cls a) = a_attempt_number a"
  "a_lease_token (close_attempt now oc cls a) = a_lease_token a"
  "a_lease_owner (close_attempt now oc cls a) = a_lease_owner a"
  "a_ended_at (close_attempt now oc cls a) = Some now"
  "a_outcome (close_attempt now oc cls a) = Some oc"
  by (simp_all add: close_attempt_def)

lemma closed_attempts:
  fixes as :: "attempt list"
  defines "as' \<equiv> \<lambda>now i oc cls. update_where (\<lambda>a. a_job_id a = i \<and> a_ended_at a = None)
                     (close_attempt now oc cls) as"
  shows "a \<in> set (as' now i oc cls) \<Longrightarrow> a_job_id a = i \<Longrightarrow> a_ended_at a \<noteq> None"
    and "a_job_id a \<noteq> i \<Longrightarrow> a \<in> set (as' now i oc cls) \<longleftrightarrow> a \<in> set as"
proof -
  have mem: "a \<in> set (as' now i oc cls) \<longleftrightarrow> a \<in> set as \<and> \<not> (a_job_id a = i \<and> a_ended_at a = None)
      \<or> (\<exists>x \<in> set as. a_job_id x = i \<and> a_ended_at x = None \<and> a = close_attempt now oc cls x)"
    unfolding as'_def set_update_where by blast
  show "a_ended_at a \<noteq> None" if "a \<in> set (as' now i oc cls)" "a_job_id a = i"
  proof (cases "\<exists>x. a = close_attempt now oc cls x")
    case True
    then obtain x where "a = close_attempt now oc cls x" by blast
    then have "a_ended_at a = Some now" by simp
    then show ?thesis by simp
  next
    case False
    with that show ?thesis unfolding mem by metis
  qed
  show "a_job_id a \<noteq> i \<Longrightarrow> a \<in> set (as' now i oc cls) \<longleftrightarrow> a \<in> set as"
    unfolding mem by auto
qed

text \<open>Closing the open attempt goes with leaving the leased state.\<close>

lemma trail_ok_close:
  assumes "trail_ok j as" "j_attempt_count j' = j_attempt_count j" "j_state j' \<noteq> Leased"
  shows "trail_ok j' (update_where (\<lambda>a. a_ended_at a = None) (close_attempt now oc cls) as)"
  using assms
  by (auto simp: trail_ok_def attempt_ok_def map_update_where set_update_where split: if_splits)

text \<open>A job that was not leased has no open attempt, so its trail does not depend on its state.\<close>

lemma trail_ok_idle:
  assumes "trail_ok j as" "j_attempt_count j' = j_attempt_count j"
    "j_state j \<noteq> Leased" "j_state j' \<noteq> Leased"
  shows "trail_ok j' as"
  using assms by (simp add: trail_ok_def attempt_ok_def)

lemma trail_ok_same_lease:
  assumes "trail_ok j as" "j_attempt_count j' = j_attempt_count j" "j_state j' = j_state j"
    "j_lease_token j' = j_lease_token j" "j_lease_owner j' = j_lease_owner j"
  shows "trail_ok j' as"
  using assms by (simp add: trail_ok_def attempt_ok_def)

text \<open>A new lease appends the next attempt, once the trail has no open one.\<close>

lemma trail_ok_grant:
  assumes "trail_ok j0 as" "j_state j0 \<noteq> Leased" "0 \<le> j_attempt_count j0"
    "j_attempt_count j' = j_attempt_count j0 + 1" "j_state j' = Leased"
    "j_lease_token j' = Some tok" "j_lease_owner j' = Some own"
    "a_attempt_number a = j_attempt_count j0 + 1" "a_lease_token a = tok" "a_lease_owner a = own"
    "a_ended_at a = None" "a_outcome a = None"
  shows "trail_ok j' (as @ [a])"
proof -
  have nums: "map a_attempt_number as = [1..j_attempt_count j0]"
    and closed: "\<forall>x \<in> set as. a_ended_at x \<noteq> None \<and> a_outcome x \<noteq> None"
    using assms(1,2) by (simp_all add: trail_ok_def attempt_ok_def)
  have "\<forall>x \<in> set as. a_attempt_number x \<noteq> j_attempt_count j'"
  proof
    fix x assume "x \<in> set as"
    then have "a_attempt_number x \<in> set (map a_attempt_number as)" by simp
    then show "a_attempt_number x \<noteq> j_attempt_count j'" unfolding nums using assms(4) by simp
  qed
  then have "\<forall>x \<in> set as. attempt_ok j' x" using closed by (simp add: attempt_ok_def)
  moreover have "attempt_ok j' a" using assms by (simp add: attempt_ok_def)
  moreover have "[1..j_attempt_count j0 + 1] = [1..j_attempt_count j0] @ [j_attempt_count j0 + 1]"
    using assms(3) by (simp add: upto_rec2)
  ultimately show ?thesis using assms nums by (simp add: trail_ok_def)
qed

section \<open>Updating one job\<close>

text \<open>
  An UPDATE that names a job identifier and the change it makes to the trail of that job, the
  rest of the tables untouched.
\<close>

lemma tables_ok_update:
  assumes inv: "tables_ok js as"
    and j: "j \<in> set js" "p j" and p: "\<And>x. p x \<Longrightarrow> j_id x = j_id j"
    and f: "j_id (f j) = j_id j" "j_dedupe_key (f j) = j_dedupe_key j"
      "j_serialization_key (f j) = j_serialization_key j"
    and ok: "job_ok (f j)" "trail_ok (f j) (attempts_of (j_id j) as')"
    and as': "\<And>k. k \<noteq> j_id j \<Longrightarrow> attempts_of k as' = attempts_of k as"
      "\<And>a. a \<in> set as' \<Longrightarrow> a_job_id a \<in> j_id ` set js"
      "distinct (map a_lease_token as')"
    and serial: "j_state (f j) = Leased \<Longrightarrow> j_serialization_key j \<noteq> None \<Longrightarrow>
      (\<forall>x \<in> set js. j_id x \<noteq> j_id j \<longrightarrow> j_state x = Leased \<longrightarrow>
         j_serialization_key x \<noteq> j_serialization_key j)"
  shows "tables_ok (update_where p f js) as'"
proof -
  note D = tables_okD [OF inv]
  have mem: "x \<in> set (update_where p f js) \<longleftrightarrow> x = f j \<or> (x \<in> set js \<and> j_id x \<noteq> j_id j)" for x
    using update_where_key_member [of j_id js j p x f] D(1) j p by blast
  have uniq: "x = j" if "x \<in> set js" "p x" for x
    using distinct_key_eq [OF D(1) that(1) j(1) p [OF that(2)]] .
  have ids: "map j_id (update_where p f js) = map j_id js"
    by (rule map_update_where_mem) (use uniq f(1) in blast)
  moreover have "map j_dedupe_key (update_where p f js) = map j_dedupe_key js"
    by (rule map_update_where_mem) (use uniq f(2) in blast)
  moreover have "\<forall>x \<in> set (update_where p f js). job_ok x \<and> trail_ok x (attempts_of (j_id x) as')"
    using ok f(1) D(5,6) as'(1) by (auto simp: mem)
  moreover have "serial_ok (update_where p f js)"
    unfolding serial_ok_def
  proof (intro ballI impI)
    fix x y
    assume xy: "x \<in> set (update_where p f js)" "y \<in> set (update_where p f js)"
      "j_state x = Leased" "j_state y = Leased" "j_serialization_key x \<noteq> None"
      "j_serialization_key x = j_serialization_key y"
    show "j_id x = j_id y"
    proof (cases "x = f j \<or> y = f j")
      case True
      then have "j_state (f j) = Leased" "j_serialization_key j \<noteq> None" using xy f(3) by (blast, metis)
      from serial [OF this] True xy f show ?thesis by (auto simp: mem)
    next
      case False
      with xy D(3) show ?thesis by (simp add: mem serial_ok_def)
    qed
  qed
  moreover have "j_id ` set (update_where p f js) = j_id ` set js"
    using ids by (metis list.set_map)
  ultimately show ?thesis
    using D(1,2) as'(2,3) by (simp add: tables_ok_def)
qed

text \<open>The special cases the operations use.\<close>

lemma close_keeps:
  fixes as :: "attempt list"
  defines "as' \<equiv> \<lambda>now i oc cls. update_where (\<lambda>a. a_job_id a = i \<and> a_ended_at a = None)
                     (close_attempt now oc cls) as"
  shows "k \<noteq> i \<Longrightarrow> attempts_of k (as' now i oc cls) = attempts_of k as"
    and "map a_lease_token (as' now i oc cls) = map a_lease_token as"
    and "map a_job_id (as' now i oc cls) = map a_job_id as"
  by (auto simp: as'_def attempts_of_close map_update_where)

lemma tables_ok_release:
  assumes inv: "tables_ok js as" and j: "j \<in> set js" "p j" and p: "\<And>x. p x \<Longrightarrow> j_id x = j_id j"
    and f: "j_id (f j) = j_id j" "j_dedupe_key (f j) = j_dedupe_key j"
      "j_serialization_key (f j) = j_serialization_key j" "j_attempt_count (f j) = j_attempt_count j"
      "j_state (f j) \<noteq> Leased" "job_ok (f j)"
  shows "tables_ok (update_where p f js)
           (update_where (\<lambda>a. a_job_id a = j_id j \<and> a_ended_at a = None) (close_attempt now oc cls) as)"
proof (rule tables_ok_update [where j = j and p = p and f = f and js = js and as = as])
  note D = tables_okD [OF inv]
  show "trail_ok (f j) (attempts_of (j_id j) (update_where
          (\<lambda>a. a_job_id a = j_id j \<and> a_ended_at a = None) (close_attempt now oc cls) as))"
    using trail_ok_close [OF D(6) [OF j(1)] f(4,5)] by (simp add: attempts_of_close)
  show "distinct (map a_lease_token (update_where
          (\<lambda>a. a_job_id a = j_id j \<and> a_ended_at a = None) (close_attempt now oc cls) as))"
    using D(4) by (simp add: close_keeps)
  fix a assume "a \<in> set (update_where (\<lambda>a. a_job_id a = j_id j \<and> a_ended_at a = None)
                          (close_attempt now oc cls) as)"
  then have "a_job_id a \<in> set (map a_job_id as)"
    unfolding close_keeps(3) [of "j_id j" now oc cls as, symmetric] by simp
  then show "a_job_id a \<in> j_id ` set js" using D(7) by auto
next
  show "j_id x = j_id j" if "p x" for x using p [OF that] .
qed (use inv j f in \<open>simp_all add: close_keeps\<close>)

lemma tables_ok_idle:
  assumes inv: "tables_ok js as" and j: "j \<in> set js" "p j" and p: "\<And>x. p x \<Longrightarrow> j_id x = j_id j"
    and f: "j_id (f j) = j_id j" "j_dedupe_key (f j) = j_dedupe_key j"
      "j_serialization_key (f j) = j_serialization_key j" "job_ok (f j)"
    and tr: "trail_ok (f j) (attempts_of (j_id j) as)"
    and st: "j_state (f j) = Leased \<Longrightarrow> j_state j = Leased"
  shows "tables_ok (update_where p f js) as"
proof (rule tables_ok_update [where j = j and p = p and f = f and js = js and as = as])
  note D = tables_okD [OF inv]
  show "distinct (map a_lease_token as)" by (rule D(4))
  show "\<And>a. a \<in> set as \<Longrightarrow> a_job_id a \<in> j_id ` set js" by (rule D(7))
  assume "j_state (f j) = Leased" "j_serialization_key j \<noteq> None"
  then show "\<forall>x \<in> set js. j_id x \<noteq> j_id j \<longrightarrow> j_state x = Leased \<longrightarrow>
      j_serialization_key x \<noteq> j_serialization_key j"
    using D(3) j(1) st unfolding serial_ok_def by fastforce
next
  show "j_id x = j_id j" if "p x" for x using p [OF that] .
qed (use inv j f tr in simp_all)

text \<open>An UPDATE of any number of rows that are not leased, before and after.\<close>

lemma tables_ok_unleased:
  assumes inv: "tables_ok js as"
    and f: "\<And>x. x \<in> set js \<Longrightarrow> p x \<Longrightarrow>
      j_id (f x) = j_id x \<and> j_dedupe_key (f x) = j_dedupe_key x \<and> j_attempt_count (f x) = j_attempt_count x
      \<and> j_state x \<noteq> Leased \<and> j_state (f x) \<noteq> Leased \<and> job_ok (f x)"
  shows "tables_ok (update_where p f js) as"
proof -
  note D = tables_okD [OF inv]
  have ids: "map j_id (update_where p f js) = map j_id js"
    by (rule map_update_where_mem) (use f in blast)
  moreover have "map j_dedupe_key (update_where p f js) = map j_dedupe_key js"
    by (rule map_update_where_mem) (use f in blast)
  moreover have "job_ok x \<and> trail_ok x (attempts_of (j_id x) as)" if x: "x \<in> set (update_where p f js)" for x
  proof -
    from x consider "x \<in> set js" | y where "y \<in> set js" "p y" "x = f y"
      by (auto simp: set_update_where)
    then show ?thesis
    proof cases
      case 1
      then show ?thesis using D(5,6) by blast
    next
      case 2
      then show ?thesis using f [OF 2(1,2)] trail_ok_idle [OF D(6) [OF 2(1)]] by simp
    qed
  qed
  moreover have "x \<in> set js" if "x \<in> set (update_where p f js)" "j_state x = Leased" for x
    using that f by (auto simp: set_update_where)
  then have "serial_ok (update_where p f js)" using D(3) unfolding serial_ok_def by blast
  moreover have "j_id ` set (update_where p f js) = j_id ` set js"
    using ids by (metis list.set_map)
  ultimately show ?thesis using D(1,2,4,7) by (simp add: tables_ok_def)
qed

lemma tables_ok_insert:
  assumes inv: "tables_ok js as"
    and new: "j_id j \<notin> j_id ` set js" "j_dedupe_key j \<notin> j_dedupe_key ` set js"
    and j: "job_ok j" "j_state j = Queued" "j_attempt_count j = 0"
  shows "tables_ok (js @ [j]) as"
proof -
  note D = tables_okD [OF inv]
  have none: "attempts_of (j_id j) as = []"
    using D(7) new(1) unfolding attempts_of_def filter_empty_conv by metis
  have "trail_ok j (attempts_of (j_id j) as)" unfolding none using j(2,3) by (simp add: trail_ok_def)
  moreover have "serial_ok (js @ [j])" using D(3) j(2) by (auto simp: serial_ok_def)
  ultimately show ?thesis
    using D(1,2,4,5,6,7) new j(1) by (auto simp: tables_ok_def)
qed

section \<open>Enqueue, heartbeat, complete, fail\<close>

text \<open>The ranges of the 32-bit fields of a request, which the types of the source enforce.\<close>

definition request_typed :: "enqueue_request \<Rightarrow> bool" where
  "request_typed r \<longleftrightarrow> er_max_attempts r \<le> i32_max"

lemma validate_enqueue_requestD:
  assumes "validate_enqueue_request r = Inr v"
  shows "0 < v" "v \<le> i32_max" "0 < er_max_attempts r"
  using assms
  by (auto simp: validate_enqueue_request_def payload_version_def split: sum.splits option.splits if_splits)

lemma enqueue_in_transaction_keeps:
  assumes "work_inv db" "request_typed r" "enqueue_in_transaction flt now r db = Inr (oc, db')"
  shows "work_inv db'"
proof (cases "oc = Enqueued")
  case True
  then obtain v where v: "validate_enqueue_request r = Inr v"
    and new: "er_id r \<notin> j_id ` set (jobs db)" "er_dedupe_key r \<notin> j_dedupe_key ` set (jobs db)"
    and db': "db' = db\<lparr>jobs := jobs db @ [new_job now r v]\<rparr>"
    using assms(3)
    by (fastforce simp: enqueue_in_transaction_def stmt_Inr exists_where_iff split: sum.splits if_splits)
  have "job_ok (new_job now r v)"
    using validate_enqueue_requestD [OF v] assms(2) by (simp add: job_ok_defs new_job_def request_typed_def)
  then show ?thesis
    using tables_ok_insert [of "jobs db" "job_attempts db" "new_job now r v"] assms(1) new
    by (simp add: work_inv_def db' new_job_def)
next
  case False
  then have "db' = db"
    using assms(3) by (auto simp: enqueue_in_transaction_def stmt_Inr split: sum.splits if_splits)
  with assms(1) show ?thesis by simp
qed

lemma enqueue_keeps: "work_inv db \<Longrightarrow> request_typed r \<Longrightarrow> work_inv (snd (enqueue flt now r db))"
  unfolding enqueue_def by (rule run_tx_keeps) (auto intro: enqueue_in_transaction_keeps)

lemma lease_heldD:
  "lease_held now i tok j \<Longrightarrow> j_id j = i \<and> j_state j = Leased \<and> j_lease_token j = Some tok"
  by (simp add: lease_held_def)

lemma heartbeat_keeps: "work_inv db \<Longrightarrow> work_inv (snd (heartbeat flt now i tok dur db))"
proof -
  assume inv: "work_inv db"
  let ?f = "\<lambda>j. j\<lparr>j_lease_deadline := Some (now + secs dur), j_updated_at := now\<rparr>"
  have "work_inv (db\<lparr>jobs := update_where (lease_held now i tok) ?f (jobs db)\<rparr>)"
    if j: "j \<in> set (jobs db)" "lease_held now i tok j" for j
  proof -
    note D = tables_okD [OF inv [unfolded work_inv_def]]
    have "tables_ok (update_where (lease_held now i tok) ?f (jobs db)) (job_attempts db)"
    proof (rule tables_ok_idle [where j = j])
      show "trail_ok (?f j) (attempts_of (j_id j) (job_attempts db))"
        by (rule trail_ok_same_lease [OF D(6) [OF j(1)]]) simp_all
      show "job_ok (?f j)" using D(5) [OF j(1)] lease_heldD [OF j(2)] by (simp add: job_ok_defs)
      show "j_id x = j_id j" if "lease_held now i tok x" for x
        using lease_heldD [OF that] lease_heldD [OF j(2)] by simp
    qed (use inv j in \<open>simp_all add: work_inv_def\<close>)
    then show ?thesis by (simp add: work_inv_def)
  qed
  then have "work_inv db'"
    if "exists_where (lease_held now i tok) (jobs db)"
      "db' = db\<lparr>jobs := update_where (lease_held now i tok) ?f (jobs db)\<rparr>" for db'
    using that unfolding exists_where_iff by blast
  then show ?thesis
    using inv unfolding heartbeat_def by (simp split: if_split) (rule impI, rule run_tx_keeps, auto split: if_splits)
qed

text \<open>The row changes: what they keep and that they keep a well-formed row well-formed.\<close>

lemma row_change_sel [simp]:
  "j_id (complete_job now j) = j_id j" "j_id (requeue_job now d c j) = j_id j"
  "j_id (dead_letter now c j) = j_id j" "j_id (cancel_job now j) = j_id j"
  "j_id (cancel_leased_job now j) = j_id j" "j_id (recover_job now j) = j_id j"
  "j_id (grant_lease now n tok own dur j) = j_id j"
  "j_dedupe_key (complete_job now j) = j_dedupe_key j"
  "j_dedupe_key (requeue_job now d c j) = j_dedupe_key j"
  "j_dedupe_key (dead_letter now c j) = j_dedupe_key j"
  "j_dedupe_key (cancel_job now j) = j_dedupe_key j"
  "j_dedupe_key (cancel_leased_job now j) = j_dedupe_key j"
  "j_dedupe_key (recover_job now j) = j_dedupe_key j"
  "j_dedupe_key (grant_lease now n tok own dur j) = j_dedupe_key j"
  "j_serialization_key (complete_job now j) = j_serialization_key j"
  "j_serialization_key (requeue_job now d c j) = j_serialization_key j"
  "j_serialization_key (dead_letter now c j) = j_serialization_key j"
  "j_serialization_key (cancel_job now j) = j_serialization_key j"
  "j_serialization_key (cancel_leased_job now j) = j_serialization_key j"
  "j_serialization_key (recover_job now j) = j_serialization_key j"
  "j_serialization_key (grant_lease now n tok own dur j) = j_serialization_key j"
  "j_attempt_count (complete_job now j) = j_attempt_count j"
  "j_attempt_count (requeue_job now d c j) = j_attempt_count j"
  "j_attempt_count (dead_letter now c j) = j_attempt_count j"
  "j_attempt_count (cancel_job now j) = j_attempt_count j"
  "j_attempt_count (cancel_leased_job now j) = j_attempt_count j"
  "j_attempt_count (recover_job now j) = j_attempt_count j"
  "j_state (complete_job now j) = Completed" "j_state (requeue_job now d c j) = Queued"
  "j_state (dead_letter now c j) = Dead" "j_state (cancel_job now j) = Cancelled"
  "j_state (cancel_leased_job now j) = Cancelled" "j_state (recover_job now j) = Queued"
  "j_state (grant_lease now n tok own dur j) = Leased"
  by (simp_all add: complete_job_def requeue_job_def dead_letter_def cancel_job_def cancel_leased_job_def
      recover_job_def grant_lease_def clear_lease_def)

lemma row_change_ok:
  assumes "job_ok j"
  shows "job_ok (complete_job now j)" "job_ok (dead_letter now c j)" "job_ok (cancel_leased_job now j)"
    "j_state j = Queued \<Longrightarrow> job_ok (cancel_job now j)"
    "j_state j = Leased \<Longrightarrow> j_attempt_count j < j_max_attempts j \<Longrightarrow> job_ok (requeue_job now d c j)"
    "j_attempt_count j + 1 \<le> i32_max \<Longrightarrow> job_ok (recover_job now j)"
  using assms
  by (simp_all add: job_ok_defs complete_job_def requeue_job_def dead_letter_def cancel_job_def
      cancel_leased_job_def recover_job_def clear_lease_def max_def)

lemma release_keeps:
  assumes inv: "work_inv db" and j: "j \<in> set (jobs db)" "p j"
    and p: "\<And>x. p x \<Longrightarrow> j_id x = i"
    and f: "\<And>x. j_id (f x) = j_id x" "\<And>x. j_dedupe_key (f x) = j_dedupe_key x"
      "\<And>x. j_serialization_key (f x) = j_serialization_key x" "\<And>x. j_attempt_count (f x) = j_attempt_count x"
      "\<And>x. j_state (f x) \<noteq> Leased" "job_ok j \<Longrightarrow> job_ok (f j)"
  shows "work_inv (db\<lparr>jobs := update_where p f (jobs db),
           job_attempts := update_where (\<lambda>a. a_job_id a = i \<and> a_ended_at a = None)
             (close_attempt now oc cls) (job_attempts db)\<rparr>)"
proof -
  have T: "tables_ok (jobs db) (job_attempts db)" using inv by (simp add: work_inv_def)
  have "tables_ok (update_where p f (jobs db))
          (update_where (\<lambda>a. a_job_id a = j_id j \<and> a_ended_at a = None)
             (close_attempt now oc cls) (job_attempts db))"
    by (rule tables_ok_release [where j = j]) (use T j p f tables_okD(5) [OF T j(1)] in auto)
  then show ?thesis using p [OF j(2)] by (simp add: work_inv_def)
qed

lemma work_db_update_comm [tx_simps]:
  "db\<lparr>job_attempts := as, jobs := js\<rparr> = db\<lparr>jobs := js, job_attempts := as\<rparr>"
  by simp

lemma complete_keeps: "work_inv db \<Longrightarrow> work_inv (snd (complete flt now i tok db))"
  unfolding complete_def
proof (rule run_tx_keeps, assumption, goal_cases)
  case (1 a db')
  then have "0 < count_where (lease_held now i tok) (jobs db)"
    and db': "db' = db\<lparr>jobs := update_where (lease_held now i tok) (complete_job now) (jobs db),
           job_attempts := update_where (\<lambda>a. a_job_id a = i \<and> a_ended_at a = None)
             (close_attempt now AOCompleted None) (job_attempts db)\<rparr>"
    by (auto simp: tx_simps close_open_attempt_def split: if_splits)
  then obtain j where "j \<in> set (jobs db)" "lease_held now i tok j" by (auto simp: count_where_pos)
  then show "work_inv db'"
    unfolding db' by (rule release_keeps [OF 1(1)]) (auto dest: lease_heldD intro: row_change_ok)
qed

lemma fail_keeps: "work_inv db \<Longrightarrow> work_inv (snd (fail flt now i tok cls db))"
  unfolding fail_def
proof (rule run_tx_keeps, assumption, goal_cases)
  case (1 a db')
  let ?held = "\<lambda>j. j_id j = i \<and> j_lease_token j = Some tok \<and> j_state j = Leased"
  define f where "f r = (if is_retryable cls \<and> j_attempt_count r < j_max_attempts r
    then requeue_job now (retry_delay_secs (j_attempt_count r)) (error_class_as_str cls)
    else dead_letter now (error_class_as_str cls))" for r :: job
  from 1(2) obtain r where r: "find_where (lease_held now i tok) (jobs db) = Some r"
    and db': "db' = db\<lparr>jobs := update_where ?held (f r) (jobs db),
           job_attempts := update_where (\<lambda>a. a_job_id a = i \<and> a_ended_at a = None)
             (close_attempt now AOFailed (Some (error_class_as_str cls))) (job_attempts db)\<rparr>"
    by (auto simp: tx_simps f_def close_open_attempt_def Let_def split: option.splits if_splits)
  have j: "r \<in> set (jobs db)" "?held r" using find_where_SomeD [OF r] lease_heldD by blast+
  show "work_inv db'"
    unfolding db' by (rule release_keeps [OF 1(1) j(1)]) (use j in \<open>auto simp: f_def intro: row_change_ok\<close>)
qed

section \<open>Cancel and recover\<close>

lemma unleased_keeps:
  assumes "work_inv db"
    and "\<And>x. x \<in> set (jobs db) \<Longrightarrow> p x \<Longrightarrow> j_state x \<noteq> Leased \<and> (job_ok x \<longrightarrow> job_ok (f x))"
    and "\<And>x. j_id (f x) = j_id x" "\<And>x. j_dedupe_key (f x) = j_dedupe_key x"
      "\<And>x. j_attempt_count (f x) = j_attempt_count x" "\<And>x. j_state (f x) \<noteq> Leased"
  shows "work_inv (db\<lparr>jobs := update_where p f (jobs db)\<rparr>)"
proof -
  have T: "tables_ok (jobs db) (job_attempts db)" using assms(1) by (simp add: work_inv_def)
  have "tables_ok (update_where p f (jobs db)) (job_attempts db)"
    by (rule tables_ok_unleased [OF T]) (use assms(2-) tables_okD(5) [OF T] in simp)
  then show ?thesis by (simp add: work_inv_def)
qed

lemma cancel_leased_keeps:
  assumes inv: "work_inv db" and m: "cancel_leased flt now i tok ov db = Inr (a, db')"
  shows "work_inv db'"
proof -
  define p where "p = (\<lambda>j. if ov then j_id j = i \<and> j_state j = Leased else lease_held now i (the tok) j)"
  have p: "j_id x = i" if "p x" for x
    using that lease_heldD by (auto simp: p_def split: if_splits)
  have pos: "0 < count_where p (jobs db)"
    and db': "db' = db\<lparr>jobs := update_where p (cancel_leased_job now) (jobs db),
           job_attempts := update_where (\<lambda>a. a_job_id a = i \<and> a_ended_at a = None)
             (close_attempt now AOCancelled None) (job_attempts db)\<rparr>"
    using m by (auto simp: p_def cancel_leased_def tx_simps close_open_attempt_def
        split: option.splits if_splits)
  from pos obtain j where "j \<in> set (jobs db)" "p j" by (auto simp: count_where_pos)
  then show ?thesis
    unfolding db' by (rule release_keeps [OF inv]) (use p in \<open>auto intro: row_change_ok\<close>)
qed

lemma cancel_active_keeps: "work_inv db \<Longrightarrow> work_inv (snd (cancel_active flt now i tok ov db))"
  unfolding cancel_active_def
proof (rule run_tx_keeps, assumption, goal_cases)
  case (1 a db')
  from 1(2) consider "cancel_leased flt now i tok ov db = Inr (a, db')"
    | "db' = db\<lparr>jobs := update_where (\<lambda>j. j_id j = i \<and> j_state j = Queued) (cancel_job now) (jobs db)\<rparr>"
    by (auto simp: tx_simps split: option.splits if_splits job_state.splits)
  then show ?case
  proof cases
    case 1
    then show ?thesis by (rule cancel_leased_keeps [OF \<open>work_inv db\<close>])
  next
    case 2
    show ?thesis unfolding 2 by (rule unleased_keeps [OF 1(1)]) (auto intro: row_change_ok)
  qed
qed

lemma cancel_queued_keeps:
  assumes "work_inv db" "cancel_queued_by_serialization_key_in_transaction flt now k db = Inr (n, db')"
  shows "work_inv db'"
proof -
  have "db' = db\<lparr>jobs := update_where (\<lambda>j. j_serialization_key j = Some k \<and> j_state j = Queued)
                  (cancel_job now) (jobs db)\<rparr>"
    using assms(2) by (simp add: cancel_queued_by_serialization_key_in_transaction_def tx_simps Let_def)
  then show ?thesis by (simp, intro unleased_keeps [OF assms(1)]) (auto intro: row_change_ok)
qed

lemma recover_dead_keeps: "work_inv db \<Longrightarrow> work_inv (snd (recover_dead flt now i db))"
  unfolding recover_dead_def
proof (rule run_tx_keeps, assumption, goal_cases)
  case (1 a db')
  then have ok: "\<forall>j \<in> set (jobs db). j_id j = i \<and> j_state j = Dead \<longrightarrow> j_attempt_count j + 1 \<le> i32_max"
    and db': "db' = db\<lparr>jobs := update_where (\<lambda>j. j_id j = i \<and> j_state j = Dead) (recover_job now) (jobs db)\<rparr>"
    by (auto simp: Let_def exists_where_iff split: if_splits)
  show ?case unfolding db' by (rule unleased_keeps [OF 1(1)]) (use ok in \<open>auto intro: row_change_ok\<close>)
qed

section \<open>Claim\<close>

text \<open>
  The lease tokens a claim draws are new and pairwise different (\<^verbatim>\<open>Uuid::new_v4\<close>). A list of
  candidates is ready when its rows are rows of the table that may be claimed; the row locks of
  \<^verbatim>\<open>FOR UPDATE\<close> keep it so while the batch is processed.
\<close>

definition fresh_tokens :: "claim_env \<Rightarrow> 'z work_db_scheme \<Rightarrow> bool" where
  "fresh_tokens env db \<longleftrightarrow>
     inj_on (ce_lease_token env) (j_id ` set (jobs db))
     \<and> ce_lease_token env ` j_id ` set (jobs db) \<inter> a_lease_token ` set (job_attempts db) = {}"

definition claim_ready :: "claim_env \<Rightarrow> job list \<Rightarrow> 'z work_db_scheme \<Rightarrow> bool" where
  "claim_ready env cs db \<longleftrightarrow>
     work_inv db \<and> distinct (map j_id cs) \<and> set cs \<subseteq> set (jobs db)
     \<and> (\<forall>c \<in> set cs. claimable (ce_now env) c
          \<and> ce_lease_token env (j_id c) \<notin> a_lease_token ` set (job_attempts db))
     \<and> inj_on (ce_lease_token env) (j_id ` set cs)"

lemma claim_candidates_ready:
  assumes "work_inv db" "fresh_tokens env db"
  shows "claim_ready env (claim_candidates env n (jobs db)) db"
proof -
  let ?cs = "claim_candidates env n (jobs db)"
  have sub: "set ?cs \<subseteq> set (jobs db)"
    and cl: "\<forall>c \<in> set ?cs. claimable (ce_now env) c"
    by (auto simp: claim_candidates_def dest!: in_set_takeD)
  have "distinct (map j_id (sort_key claim_order (filter P (jobs db))))" for P
  proof -
    have "distinct (map j_id (filter P (jobs db)))"
      using tables_okD(1) assms(1) by (auto simp: work_inv_def distinct_map_filter)
    then show ?thesis by (simp add: distinct_map)
  qed
  then have "distinct (map j_id ?cs)"
    unfolding claim_candidates_def take_map [symmetric] by (rule distinct_take)
  moreover have "inj_on (ce_lease_token env) (j_id ` set ?cs)"
    using assms(2) sub unfolding fresh_tokens_def by (meson image_mono inj_on_subset)
  moreover have "ce_lease_token env (j_id c) \<notin> a_lease_token ` set (job_attempts db)" if "c \<in> set ?cs" for c
    using assms(2) sub that unfolding fresh_tokens_def by blast
  ultimately show ?thesis using assms(1) sub cl by (simp add: claim_ready_def)
qed

text \<open>The two things that can happen to a candidate: it is dead-lettered or it is leased.\<close>

definition lost_attempts :: "instant \<Rightarrow> job \<Rightarrow> attempt list \<Rightarrow> attempt list" where
  "lost_attempts now c as =
     (if j_state c = Leased
      then update_where (\<lambda>a. a_job_id a = j_id c \<and> a_ended_at a = None) (close_attempt now AOLostLease None) as
      else as)"

definition leased_row :: "claim_env \<Rightarrow> claim_options \<Rightarrow> job \<Rightarrow> job" where
  "leased_row env opts c =
     grant_lease (ce_now env) (j_attempt_count c + 1) (ce_lease_token env (j_id c)) (co_lease_owner opts)
       (lease_duration_secs opts) c"

definition leased_attempt :: "claim_env \<Rightarrow> claim_options \<Rightarrow> job \<Rightarrow> attempt" where
  "leased_attempt env opts c =
     \<lparr>a_id = ce_attempt_id env (j_id c), a_job_id = j_id c, a_attempt_number = j_attempt_count c + 1,
      a_lease_token = ce_lease_token env (j_id c), a_lease_owner = co_lease_owner opts,
      a_started_at = ce_now env, a_ended_at = None, a_outcome = None, a_error_class = None\<rparr>"

definition claimed_of :: "claim_env \<Rightarrow> claim_options \<Rightarrow> job \<Rightarrow> claimed_job" where
  "claimed_of env opts c =
     \<lparr>cj_id = j_id c, cj_job_type = j_type c, cj_payload = j_payload c,
      cj_payload_version = j_payload_version c, cj_attempt_number = j_attempt_count c + 1,
      cj_lease_token = ce_lease_token env (j_id c), cj_lease_owner = co_lease_owner opts,
      cj_lease_deadline = ce_now env + secs (lease_duration_secs opts),
      cj_dedupe_key = j_dedupe_key c, cj_serialization_key = j_serialization_key c\<rparr>"

definition exhausted :: "job \<Rightarrow> bool" where
  "exhausted c \<longleftrightarrow> j_state c = Leased \<and> j_max_attempts c \<le> j_attempt_count c"

definition after_candidate :: "claim_env \<Rightarrow> claim_options \<Rightarrow> job \<Rightarrow> 'z work_db_scheme \<Rightarrow> 'z work_db_scheme" where
  "after_candidate env opts c db =
     db\<lparr>jobs := update_where (\<lambda>j. j_id j = j_id c)
           (\<lambda>_. if exhausted c then dead_letter (ce_now env) ''timeout'' c else leased_row env opts c) (jobs db),
        job_attempts := lost_attempts (ce_now env) c (job_attempts db) @
          (if exhausted c then [] else [leased_attempt env opts c])\<rparr>"

lemma update_where_const_cong:
  "distinct (map k t) \<Longrightarrow> c \<in> set t \<Longrightarrow>
   update_where (\<lambda>x. k x = k c) f t = update_where (\<lambda>x. k x = k c) (\<lambda>_. f c) t"
  unfolding update_where_def by (rule map_cong) (auto dest: distinct_key_eq)

lemma lease_candidate_result:
  assumes "distinct (map j_id (jobs db))" "c \<in> set (jobs db)" "claimable (ce_now env) c"
    and "lease_candidate env opts c db = Inr (r, db')"
  shows "r = Some (claimed_of env opts c)
    \<and> db' = db\<lparr>jobs := update_where (\<lambda>j. j_id j = j_id c) (\<lambda>_. leased_row env opts c) (jobs db),
              job_attempts := job_attempts db @ [leased_attempt env opts c]\<rparr>"
proof -
  let ?hit = "\<lambda>j. j_id j = j_id c \<and> claimable (ce_now env) j"
  have find: "find_where ?hit (jobs db) = Some c"
    by (rule find_where_unique [where k = j_id]) (use assms in auto)
  have upd: "update_where ?hit f (jobs db) = update_where (\<lambda>j. j_id j = j_id c) (\<lambda>_. f c) (jobs db)" for f
    using update_where_key_cong [of j_id "jobs db" c ?hit f] update_where_const_cong [of j_id "jobs db" c f] assms
    by simp
  show ?thesis
    using assms(4)
    by (auto simp: lease_candidate_def Let_def tx_simps find upd leased_row_def leased_attempt_def
        claimed_of_def grant_lease_def split: option.splits)
qed

lemma reclaim_candidate_result:
  assumes "distinct (map j_id (jobs db))" "c \<in> set (jobs db)" "claimable (ce_now env) c"
    and "reclaim_candidate env opts c db = Inr (r, db')"
  shows "r = (if exhausted c then None else Some (claimed_of env opts c))
    \<and> db' = after_candidate env opts c db"
proof (cases "exhausted c")
  case True
  let ?p = "\<lambda>j. j_id j = j_id c \<and> j_state j = Leased \<and> is_past (j_lease_deadline j) (ce_now env)"
  have "?p c" using True assms(3) by (auto simp: exhausted_def claimable_def)
  then have upd: "update_where ?p f (jobs db) = update_where (\<lambda>j. j_id j = j_id c) (\<lambda>_. f c) (jobs db)" for f
    using update_where_key_cong [of j_id "jobs db" c ?p f] update_where_const_cong [of j_id "jobs db" c f] assms
    by simp
  show ?thesis
    using assms(4) True upd
    by (auto simp: reclaim_candidate_def close_open_attempt_def tx_simps after_candidate_def exhausted_def
        lost_attempts_def)
next
  case False
  obtain db1 where db1: "db1 = db\<lparr>job_attempts := lost_attempts (ce_now env) c (job_attempts db)\<rparr>"
    and lease: "lease_candidate env opts c db1 = Inr (r, db')"
    using assms(4) False
    by (auto simp: reclaim_candidate_def close_open_attempt_def tx_simps exhausted_def lost_attempts_def
        split: if_splits)
  from lease_candidate_result [OF _ _ assms(3) lease] assms(1,2) False show ?thesis
    by (simp add: db1 after_candidate_def)
qed

text \<open>Either way the invariant is kept, if no other job of the same serialization key is leased.\<close>

lemma lost_attempts_keeps:
  "map a_lease_token (lost_attempts now c as) = map a_lease_token as"
  "map a_job_id (lost_attempts now c as) = map a_job_id as"
  "k \<noteq> j_id c \<Longrightarrow> attempts_of k (lost_attempts now c as) = attempts_of k as"
  by (simp_all add: lost_attempts_def close_keeps)

lemma lost_attempts_tokens: "a_lease_token ` set (lost_attempts now c as) = a_lease_token ` set as"
  by (metis lost_attempts_keeps(1) list.set_map)

lemma lost_attempts_trail:
  assumes "trail_ok c (attempts_of (j_id c) as)" "j_state c' \<noteq> Leased" "j_attempt_count c' = j_attempt_count c"
  shows "trail_ok c' (attempts_of (j_id c) (lost_attempts now c as))"
  using assms trail_ok_close [OF assms(1,3,2)] trail_ok_idle [OF assms(1,3) _ assms(2)]
  by (simp add: lost_attempts_def attempts_of_close)

lemma set_map_eq_mem: "map k xs = map k ys \<Longrightarrow> x \<in> set xs \<Longrightarrow> k x \<in> k ` set ys"
  by (metis image_eqI list.set_map)

lemma after_candidate_keeps:
  assumes inv: "work_inv db" and c: "c \<in> set (jobs db)" "claimable (ce_now env) c"
    and tok: "ce_lease_token env (j_id c) \<notin> a_lease_token ` set (job_attempts db)"
    and serial: "j_serialization_key c \<noteq> None \<Longrightarrow>
      (\<forall>x \<in> set (jobs db). j_id x \<noteq> j_id c \<longrightarrow> j_state x = Leased \<longrightarrow>
         j_serialization_key x \<noteq> j_serialization_key c)"
  shows "work_inv (after_candidate env opts c db)"
proof -
  have T: "tables_ok (jobs db) (job_attempts db)" using inv by (simp add: work_inv_def)
  note D = tables_okD [OF T]
  let ?new = "if exhausted c then dead_letter (ce_now env) ''timeout'' c else leased_row env opts c"
  let ?lost = "lost_attempts (ce_now env) c (job_attempts db)"
  let ?as = "?lost @ (if exhausted c then [] else [leased_attempt env opts c])"
  have ok: "job_ok c" and tr: "trail_ok c (attempts_of (j_id c) (job_attempts db))" using D(5,6) c(1) by auto
  have room: "\<not> exhausted c \<Longrightarrow> j_attempt_count c < j_max_attempts c"
    using ok c(2) by (auto simp: exhausted_def claimable_def job_ok_defs)
  have "trail_ok ?new (attempts_of (j_id c) ?as)"
  proof (cases "exhausted c")
    case True
    then show ?thesis using lost_attempts_trail [OF tr] by simp
  next
    case False
    have "trail_ok (c\<lparr>j_state := Queued\<rparr>) (attempts_of (j_id c) ?lost)"
      by (rule lost_attempts_trail [OF tr]) simp_all
    from trail_ok_grant [OF this, where j' = ?new and a = "leased_attempt env opts c"] False ok show ?thesis
      by (simp add: attempts_of_append leased_attempt_def leased_row_def grant_lease_def job_ok_defs)
  qed
  moreover have "job_ok ?new"
    using ok room row_change_ok(2) [OF ok] c(2) by (auto simp: leased_row_def grant_lease_def job_ok_defs claimable_def)
  moreover have "distinct (map a_lease_token ?as)"
    using D(4) tok by (simp add: lost_attempts_keeps(1) lost_attempts_tokens leased_attempt_def)
  moreover have "a_job_id a \<in> j_id ` set (jobs db)" if a: "a \<in> set ?as" for a
  proof (cases "a \<in> set ?lost")
    case True
    then have "a_job_id a \<in> a_job_id ` set (job_attempts db)"
      using set_map_eq_mem [OF lost_attempts_keeps(2)] by blast
    then show ?thesis using D(7) by (metis imageE)
  next
    case False
    then show ?thesis using a c(1) by (simp add: leased_attempt_def split: if_splits)
  qed
  moreover have "attempts_of k ?as = attempts_of k (job_attempts db)" if "k \<noteq> j_id c" for k
    using that by (auto simp: attempts_of_append lost_attempts_keeps(3) leased_attempt_def)
  ultimately have "tables_ok (update_where (\<lambda>j. j_id j = j_id c) (\<lambda>_. ?new) (jobs db)) ?as"
    by (intro tables_ok_update [where j = c and as = "job_attempts db"])
      (use T c serial in \<open>auto simp: leased_row_def\<close>)
  then show ?thesis by (simp add: work_inv_def after_candidate_def)
qed

lemma after_candidate_others:
  assumes "j_id j \<noteq> j_id c"
  shows "j \<in> set (jobs (after_candidate env opts c db)) \<longleftrightarrow> j \<in> set (jobs db)"
  using assms
  by (auto simp: after_candidate_def set_update_where leased_row_def split: if_splits)

lemma after_candidate_tokens:
  "a_lease_token ` set (job_attempts (after_candidate env opts c db)) \<subseteq>
   insert (ce_lease_token env (j_id c)) (a_lease_token ` set (job_attempts db))"
  using lost_attempts_tokens [of "ce_now env" c "job_attempts db"]
  by (auto simp: after_candidate_def leased_attempt_def)

text \<open>
  One turn of the loop: nothing, or the step of a candidate, with the serialization key then
  counted as seen.
\<close>

lemma claim_one_result:
  assumes "claim_ready env (c # cs) db" "claim_one env opts c seen db = Inr ((r, seen'), db')"
  shows "set seen' = set seen \<union> set_option (j_serialization_key c)
    \<and> (r = None \<and> db' = db
       \<or> r = (if exhausted c then None else Some (claimed_of env opts c)) \<and> db' = after_candidate env opts c db
         \<and> set_option (j_serialization_key c) \<inter> set seen = {}
         \<and> work_inv db')"
proof -
  have ids: "distinct (map j_id (jobs db))"
    using assms(1) tables_okD(1) unfolding claim_ready_def work_inv_def by blast
  have rc: "reclaim_candidate env opts c db = Inr (x, db') \<Longrightarrow>
      x = (if exhausted c then None else Some (claimed_of env opts c)) \<and> db' = after_candidate env opts c db" for x
    using reclaim_candidate_result [OF ids, of c env opts x db'] assms(1) by (simp add: claim_ready_def)
  have keeps: "work_inv (after_candidate env opts c db)"
    if "j_serialization_key c \<noteq> None \<Longrightarrow>
      (\<forall>x \<in> set (jobs db). j_id x \<noteq> j_id c \<longrightarrow> j_state x = Leased \<longrightarrow> j_serialization_key x \<noteq> j_serialization_key c)"
    using after_candidate_keeps [OF _ _ _ _ that] assms(1) by (simp add: claim_ready_def)
  show ?thesis
  proof (cases "j_serialization_key c")
    case None
    then show ?thesis using assms(2) rc keeps by (auto simp: claim_one_def tx_simps)
  next
    case (Some k)
    then show ?thesis using assms(2) rc keeps
      by (auto simp: claim_one_def tx_simps exists_where_iff split: if_splits)
  qed
qed

lemma claim_one_ready:
  assumes "claim_ready env (c # cs) db" "claim_one env opts c seen db = Inr ((r, seen'), db')"
  shows "claim_ready env cs db'"
proof (cases "db' = db")
  case True
  with assms(1) show ?thesis by (auto simp: claim_ready_def inj_on_def)
next
  case False
  then have db': "db' = after_candidate env opts c db" "work_inv db'"
    using claim_one_result [OF assms] by auto
  have ids: "j_id x \<noteq> j_id c" if "x \<in> set cs" for x
    using assms(1) that by (auto simp: claim_ready_def image_iff)
  have "ce_lease_token env (j_id x) \<notin> a_lease_token ` set (job_attempts db')" if "x \<in> set cs" for x
  proof -
    have "ce_lease_token env (j_id x) \<noteq> ce_lease_token env (j_id c)"
      using assms(1) ids [OF that] that unfolding claim_ready_def inj_on_def by auto
    moreover have "ce_lease_token env (j_id x) \<notin> a_lease_token ` set (job_attempts db)"
      using assms(1) that by (simp add: claim_ready_def)
    ultimately show ?thesis using after_candidate_tokens [of env opts c db] unfolding db' by blast
  qed
  moreover have "set cs \<subseteq> set (jobs db')"
    using assms(1) after_candidate_others [OF ids] unfolding db' claim_ready_def
    by (metis set_subset_Cons subset_iff)
  ultimately show ?thesis
    using assms(1) db'(2) by (auto simp: claim_ready_def inj_on_def)
qed

lemma claim_loop_ready:
  assumes "claim_ready env cs db" "claim_loop env opts cs seen db = Inr (rs, db')"
  shows "work_inv db'"
  using assms
proof (induction cs arbitrary: seen db rs)
  case Nil
  then show ?case by (simp add: claim_ready_def)
next
  case (Cons c cs)
  from Cons.prems(2) obtain r seen' db1 rest where one: "claim_one env opts c seen db = Inr ((r, seen'), db1)"
    and "claim_loop env opts cs seen' db1 = Inr (rest, db')"
    by (auto simp: tx_simps)
  then show ?case using Cons.IH [OF claim_one_ready [OF Cons.prems(1) one]] by blast
qed

lemma claim_bodyD:
  assumes "claim_body env opts db = Inr (rs, db')"
  shows "claim_loop env opts (claim_candidates env (batch_limit opts) (jobs db)) [] db = Inr (rs, db')"
  using assms by (simp add: claim_body_def tx_simps)

lemma claim_keeps:
  assumes "work_inv db" "fresh_tokens env db"
  shows "work_inv (snd (claim env opts db))"
proof -
  have "work_inv (snd (run_tx (ce_fault env) e1 e2 (claim_body env opts) db))" for e1 e2
    by (rule run_tx_keeps, rule assms(1))
      (rule claim_loop_ready [OF claim_candidates_ready [OF assms] claim_bodyD])
  then show ?thesis using assms(1) by (simp add: claim_def)
qed

end
