(* ===== verification/Work_Queue.thy ===== *)
theory Work_Queue
  imports Work_Proofs "HOL-Library.Sublist"
begin

text \<open>
  The properties of the work queue over whole runs: a step relation with one rule per operation
  of the store, for any clock readings, any fault and any order; the invariant of its reachable
  states; fencing of used-up lease tokens; what a claim returns; retry and dead-letter.
\<close>

section \<open>Runs\<close>

inductive work_step :: "'z work_db_scheme \<Rightarrow> 'z work_db_scheme \<Rightarrow> bool" where
  step_enqueue: "request_typed r \<Longrightarrow> work_step db (snd (enqueue flt now r db))"
| step_claim: "fresh_tokens env db \<Longrightarrow> work_step db (snd (claim env opts db))"
| step_heartbeat: "work_step db (snd (heartbeat flt now i tok dur db))"
| step_complete: "work_step db (snd (complete flt now i tok db))"
| step_fail: "work_step db (snd (fail flt now i tok cls db))"
| step_cancel: "work_step db (snd (cancel flt now i tk db))"
| step_cancel_operator: "work_step db (snd (cancel_by_operator flt now i db))"
| step_cancel_queued:
    "cancel_queued_by_serialization_key_in_transaction flt now k db = Inr (n, db') \<Longrightarrow> work_step db db'"
| step_recover: "work_step db (snd (recover_dead flt now i db))"

inductive_cases work_stepE: "work_step db db'"

definition empty_db :: "work_db" where
  "empty_db = \<lparr>jobs = [], job_attempts = []\<rparr>"

lemma empty_db_inv: "work_inv empty_db"
  by (simp add: work_inv_def tables_ok_def empty_db_def serial_ok_def)

lemma work_step_keeps: "work_step db db' \<Longrightarrow> work_inv db \<Longrightarrow> work_inv db'"
  by (induction rule: work_step.induct)
    (simp_all add: enqueue_keeps claim_keeps heartbeat_keeps complete_keeps fail_keeps cancel_def
      cancel_by_operator_def cancel_active_keeps cancel_queued_keeps recover_dead_keeps)

section \<open>Lease tokens\<close>

definition lease_tokens :: "'z work_db_scheme \<Rightarrow> uuid set" where
  "lease_tokens db = {t. \<exists>j \<in> set (jobs db). j_lease_token j = Some t}"

definition issued_tokens :: "'z work_db_scheme \<Rightarrow> uuid set" where
  "issued_tokens db = a_lease_token ` set (job_attempts db)"

text \<open>A token that was issued and is in no job any more is spent.\<close>

definition spent :: "'z work_db_scheme \<Rightarrow> uuid \<Rightarrow> bool" where
  "spent db t \<longleftrightarrow> t \<in> issued_tokens db \<and> t \<notin> lease_tokens db"

text \<open>Every operation but a claim only takes leases away and keeps the tokens of the trail.\<close>

definition releases :: "'z work_db_scheme \<Rightarrow> 'z work_db_scheme \<Rightarrow> bool" where
  "releases db db' \<longleftrightarrow> lease_tokens db' \<subseteq> lease_tokens db \<and> issued_tokens db' = issued_tokens db"

lemma releases_refl [simp]: "releases db db"
  by (simp add: releases_def)

lemma releases_trans: "releases db db1 \<Longrightarrow> releases db1 db2 \<Longrightarrow> releases db db2"
  by (auto simp: releases_def)

lemma releases_jobs:
  assumes "\<And>j. j_lease_token (f j) = None \<or> j_lease_token (f j) = j_lease_token j"
  shows "releases db (db\<lparr>jobs := update_where p f (jobs db)\<rparr>)"
proof -
  have "t \<in> lease_tokens db" if "t \<in> lease_tokens (db\<lparr>jobs := update_where p f (jobs db)\<rparr>)" for t
  proof -
    from that obtain j where "j \<in> set (jobs db)" "j_lease_token j = Some t \<or> j_lease_token (f j) = Some t"
      by (auto simp: lease_tokens_def set_update_where)
    then show ?thesis using assms [of j] by (auto simp: lease_tokens_def)
  qed
  then show ?thesis by (auto simp: releases_def issued_tokens_def)
qed

lemma releases_close:
  "releases db (db\<lparr>job_attempts := update_where p (close_attempt now oc cls) (job_attempts db)\<rparr>)"
proof -
  have "map a_lease_token (update_where p (close_attempt now oc cls) (job_attempts db))
      = map a_lease_token (job_attempts db)" by (rule map_update_where) simp
  from arg_cong [OF this, of set] show ?thesis
    by (simp add: releases_def issued_tokens_def lease_tokens_def)
qed

lemma releases_insert: "j_lease_token j = None \<Longrightarrow> releases db (db\<lparr>jobs := jobs db @ [j]\<rparr>)"
  by (auto simp: releases_def issued_tokens_def lease_tokens_def)

lemma row_change_token [simp]:
  "j_lease_token (complete_job now j) = None" "j_lease_token (requeue_job now d c j) = None"
  "j_lease_token (dead_letter now c j) = None" "j_lease_token (cancel_job now j) = j_lease_token j"
  "j_lease_token (cancel_leased_job now j) = None" "j_lease_token (recover_job now j) = None"
  "j_lease_token (new_job now r v) = None"
  by (simp_all add: complete_job_def requeue_job_def dead_letter_def cancel_job_def cancel_leased_job_def
      recover_job_def clear_lease_def new_job_def)

lemma releases_jobs_close:
  assumes "\<And>j. j_lease_token (f j) = None \<or> j_lease_token (f j) = j_lease_token j"
  shows "releases db (db\<lparr>jobs := update_where p f (jobs db),
           job_attempts := update_where q (close_attempt now oc cls) (job_attempts db)\<rparr>)"
  using releases_trans [OF releases_jobs [where f = f and p = p and db = db, OF assms]
      releases_close [where p = q and now = now and oc = oc and cls = cls]]
  by simp

lemmas release_intros = releases_jobs_close releases_jobs releases_insert

lemma enqueue_releases: "releases db (snd (enqueue flt now r db))"
  unfolding enqueue_def
  by (rule run_tx_keeps [where P = "releases db"])
    (auto simp: tx_simps enqueue_in_transaction_def split: if_splits sum.splits intro!: release_intros)

lemma heartbeat_releases: "releases db (snd (heartbeat flt now i tok dur db))"
  unfolding heartbeat_def
  by (simp split: if_split, intro impI, rule run_tx_keeps [where P = "releases db"])
    (auto split: if_splits intro!: release_intros)

lemma complete_releases: "releases db (snd (complete flt now i tok db))"
  unfolding complete_def
  by (rule run_tx_keeps [where P = "releases db"])
    (auto simp: tx_simps close_open_attempt_def split: if_splits intro!: release_intros)

lemma fail_releases: "releases db (snd (fail flt now i tok cls db))"
  unfolding fail_def
  by (rule run_tx_keeps [where P = "releases db"])
    (auto simp: tx_simps Let_def close_open_attempt_def split: if_splits option.splits intro!: release_intros)

lemma cancel_active_releases: "releases db (snd (cancel_active flt now i tk ov db))"
  unfolding cancel_active_def
  by (rule run_tx_keeps [where P = "releases db"])
    (auto simp: tx_simps cancel_leased_def close_open_attempt_def
      split: if_splits option.splits job_state.splits intro!: release_intros)

lemma recover_dead_releases: "releases db (snd (recover_dead flt now i db))"
  unfolding recover_dead_def
  by (rule run_tx_keeps [where P = "releases db"])
    (auto simp: Let_def split: if_splits intro!: release_intros)

text \<open>A claim issues the tokens of its environment, which are new.\<close>

definition issues :: "uuid set \<Rightarrow> 'z work_db_scheme \<Rightarrow> 'z work_db_scheme \<Rightarrow> bool" where
  "issues T db db' \<longleftrightarrow> lease_tokens db' \<subseteq> lease_tokens db \<union> T \<and> issued_tokens db \<subseteq> issued_tokens db'"

lemma issues_refl [simp]: "issues T db db"
  by (simp add: issues_def)

lemma issues_trans: "issues T db db1 \<Longrightarrow> issues T db1 db2 \<Longrightarrow> issues T db db2"
  by (auto simp: issues_def)

lemma issues_mono: "issues T db db' \<Longrightarrow> T \<subseteq> U \<Longrightarrow> issues U db db'"
  by (auto simp: issues_def)

lemma after_candidate_issues: "issues {ce_lease_token env (j_id c)} db (after_candidate env opts c db)"
  using lost_attempts_tokens [of "ce_now env" c "job_attempts db"]
  by (auto simp: issues_def lease_tokens_def issued_tokens_def after_candidate_def set_update_where
      leased_row_def grant_lease_def split: if_splits)

lemma claim_loop_issues:
  assumes "claim_ready env cs db" "claim_loop env opts cs seen db = Inr (rs, db')"
  shows "issues (ce_lease_token env ` j_id ` set cs) db db'"
  using assms
proof (induction cs arbitrary: seen db rs)
  case (Cons c cs)
  from Cons.prems(2) obtain r seen' db1 rest where one: "claim_one env opts c seen db = Inr ((r, seen'), db1)"
    and rest: "claim_loop env opts cs seen' db1 = Inr (rest, db')"
    by (auto simp: tx_simps)
  have "issues {ce_lease_token env (j_id c)} db db1"
    using claim_one_result [OF Cons.prems(1) one] after_candidate_issues by auto
  with Cons.IH [OF claim_one_ready [OF Cons.prems(1) one] rest] show ?case
    by (auto simp: issues_def)
qed simp

lemma claim_issues:
  assumes "work_inv db" "fresh_tokens env db"
  shows "issues (ce_lease_token env ` j_id ` set (jobs db)) db (snd (claim env opts db))"
proof -
  have "set (claim_candidates env n (jobs db)) \<subseteq> set (jobs db)" for n
    by (auto simp: claim_candidates_def dest!: in_set_takeD)
  then have sub: "ce_lease_token env ` j_id ` set (claim_candidates env n (jobs db))
      \<subseteq> ce_lease_token env ` j_id ` set (jobs db)" for n
    by (intro image_mono)
  have "issues (ce_lease_token env ` j_id ` set (jobs db)) db db'"
    if "claim_body env opts db = Inr (rs, db')" for rs db'
    using claim_loop_issues [OF claim_candidates_ready [OF assms] claim_bodyD [OF that]] sub
    by (rule issues_mono)
  then have "issues (ce_lease_token env ` j_id ` set (jobs db)) db
      (snd (run_tx (ce_fault env) e1 e2 (claim_body env opts) db))" for e1 e2
    by (intro run_tx_keeps [where P = "issues (ce_lease_token env ` j_id ` set (jobs db)) db"]) auto
  then show ?thesis by (simp add: claim_def)
qed

lemma spent_releases: "spent db t \<Longrightarrow> releases db db' \<Longrightarrow> spent db' t"
  by (auto simp: spent_def releases_def)

lemma spent_step: "work_step db db' \<Longrightarrow> work_inv db \<Longrightarrow> spent db t \<Longrightarrow> spent db' t"
proof (induction rule: work_step.induct)
  case (step_claim env db opts)
  have "t \<notin> ce_lease_token env ` j_id ` set (jobs db)"
    using step_claim by (auto simp: fresh_tokens_def spent_def issued_tokens_def)
  with claim_issues [OF step_claim(2,1)] step_claim(3) show ?case by (auto simp: issues_def spent_def)
next
  case (step_cancel_queued flt now k db n db')
  then show ?case
    by (auto simp: cancel_queued_by_serialization_key_in_transaction_def tx_simps Let_def
        intro!: spent_releases [OF _ releases_jobs])
qed (auto simp: cancel_def cancel_by_operator_def
     intro: spent_releases enqueue_releases heartbeat_releases complete_releases fail_releases
       cancel_active_releases recover_dead_releases)

lemma spent_not_held: "spent db t \<Longrightarrow> j \<in> set (jobs db) \<Longrightarrow> \<not> lease_held now i t j"
  by (auto simp: spent_def lease_tokens_def lease_held_def)

text \<open>The lease tokens fence the work queue.\<close>

definition token_opens :: "'z work_db_scheme \<Rightarrow> uuid \<Rightarrow> bool" where
  "token_opens db t \<longleftrightarrow> (\<exists>now i. exists_where (lease_held now i t) (jobs db))"

interpretation work_fence: fencing work_step work_inv spent token_opens
  by unfold_locales (auto simp: token_opens_def exists_where_iff intro: work_step_keeps spent_step dest: spent_not_held)

lemmas work_steps_keep = work_fence.inv_steps and spent_steps = work_fence.used_up_steps

lemma work_reachable: "work_step\<^sup>*\<^sup>* empty_db db \<Longrightarrow> work_inv db"
  by (rule work_steps_keep [OF _ empty_db_inv])

section \<open>What a claim returns\<close>

lemma claim_one_others:
  assumes "claim_ready env (c # cs) db" "claim_one env opts c seen db = Inr ((r, seen'), db')" "j_id j \<noteq> j_id c"
  shows "j \<in> set (jobs db') \<longleftrightarrow> j \<in> set (jobs db)"
  using claim_one_result [OF assms(1,2)] after_candidate_others [OF assms(3)] by auto

lemma claim_loop_others:
  assumes "claim_ready env cs db" "claim_loop env opts cs seen db = Inr (rs, db')" "j_id j \<notin> j_id ` set cs"
  shows "j \<in> set (jobs db') \<longleftrightarrow> j \<in> set (jobs db)"
  using assms
proof (induction cs arbitrary: seen db rs)
  case (Cons c cs)
  from Cons.prems(2) obtain r seen' db1 rest where one: "claim_one env opts c seen db = Inr ((r, seen'), db1)"
    and rest: "claim_loop env opts cs seen' db1 = Inr (rest, db')"
    by (auto simp: tx_simps)
  show ?case
    using Cons.IH [OF claim_one_ready [OF Cons.prems(1) one] rest] claim_one_others [OF Cons.prems(1) one]
      Cons.prems(3) by auto
qed simp

text \<open>The rows a turn leaves behind.\<close>

lemma claim_one_rows:
  assumes "claim_ready env (c # cs) db" "claim_one env opts c seen db = Inr ((r, seen'), db1)"
  shows "(r = None \<or> r = Some (claimed_of env opts c) \<and> leased_row env opts c \<in> set (jobs db1))
    \<and> (\<forall>j \<in> set (jobs db1). j \<in> set (jobs db) \<or> r \<noteq> None \<and> j = leased_row env opts c
         \<or> exhausted c \<and> j = dead_letter (ce_now env) ''timeout'' c)"
proof -
  have c: "c \<in> set (jobs db)" using assms(1) by (simp add: claim_ready_def)
  have "j \<in> set (jobs (after_candidate env opts c db)) \<Longrightarrow> j \<in> set (jobs db) \<or>
      j = (if exhausted c then dead_letter (ce_now env) ''timeout'' c else leased_row env opts c)" for j
    by (auto simp: after_candidate_def set_update_where)
  moreover have "(if exhausted c then dead_letter (ce_now env) ''timeout'' c else leased_row env opts c)
      \<in> set (jobs (after_candidate env opts c db))"
    using c by (auto simp: after_candidate_def set_update_where)
  ultimately show ?thesis
    using claim_one_result [OF assms] by (auto split: if_splits)
qed

lemma leased_row_id [simp]: "j_id (leased_row env opts c) = j_id c"
  by (simp add: leased_row_def)

lemma claim_loop_results:
  assumes "claim_ready env cs db" "claim_loop env opts cs seen db = Inr (rs, db')"
  shows "\<exists>ks. rs = map (claimed_of env opts) ks \<and> subseq ks cs
    \<and> (\<forall>c \<in> set ks. leased_row env opts c \<in> set (jobs db'))
    \<and> (\<forall>j \<in> set (jobs db'). j \<in> set (jobs db) \<or> (\<exists>c \<in> set ks. j = leased_row env opts c)
         \<or> (\<exists>c \<in> set cs. exhausted c \<and> j = dead_letter (ce_now env) ''timeout'' c))"
  using assms
proof (induction cs arbitrary: seen db rs)
  case Nil
  then show ?case by simp
next
  case (Cons c cs)
  from Cons.prems(2) obtain r seen' db1 rest where one: "claim_one env opts c seen db = Inr ((r, seen'), db1)"
    and rest: "claim_loop env opts cs seen' db1 = Inr (rest, db')"
    and rs: "rs = (case r of None \<Rightarrow> rest | Some j \<Rightarrow> j # rest)"
    by (auto simp: tx_simps)
  from Cons.IH [OF claim_one_ready [OF Cons.prems(1) one] rest] obtain ks
    where ks: "rest = map (claimed_of env opts) ks" "subseq ks cs"
      "\<forall>c \<in> set ks. leased_row env opts c \<in> set (jobs db')"
      "\<forall>j \<in> set (jobs db'). j \<in> set (jobs db1) \<or> (\<exists>c \<in> set ks. j = leased_row env opts c)
         \<or> (\<exists>c \<in> set cs. exhausted c \<and> j = dead_letter (ce_now env) ''timeout'' c)"
    by blast
  note row = claim_one_rows [OF Cons.prems(1) one]
  have "j_id (leased_row env opts c) \<notin> j_id ` set cs"
    using Cons.prems(1) by (simp add: claim_ready_def)
  then have stays: "leased_row env opts c \<in> set (jobs db')" if "r \<noteq> None"
    using claim_loop_others [OF claim_one_ready [OF Cons.prems(1) one] rest] row that by auto
  show ?case
  proof (cases r)
    case None
    then show ?thesis using ks row rs by (intro exI [of _ ks]) auto
  next
    case (Some cj)
    then show ?thesis using ks row rs stays by (intro exI [of _ "c # ks"]) auto
  qed
qed

section \<open>The end of a lease\<close>

text \<open>The token of a leased job is the token of its open attempt, and of no other job.\<close>

lemma leased_attempt_exists:
  assumes "work_inv db" "j \<in> set (jobs db)" "j_lease_token j = Some t"
  shows "\<exists>a \<in> set (job_attempts db). a_job_id a = j_id j \<and> a_lease_token a = t"
proof -
  note D = tables_okD [OF assms(1) [unfolded work_inv_def]]
  have st: "j_state j = Leased" using D(5) [OF assms(2)] assms(3) by (auto simp: job_ok_defs split: if_splits)
  let ?as = "attempts_of (j_id j) (job_attempts db)"
  have tr: "trail_ok j ?as" by (rule D(6) [OF assms(2)])
  then have "j_attempt_count j \<in> set (map a_attempt_number ?as)" using st by (simp add: trail_ok_def)
  then obtain a where a: "a \<in> set ?as" "a_attempt_number a = j_attempt_count j" by auto
  with tr st assms(3) have "a_lease_token a = t" by (simp add: trail_ok_def attempt_ok_def)
  with a(1) show ?thesis by (auto simp: attempts_of_def)
qed

lemma lease_token_unique:
  assumes "work_inv db" "j \<in> set (jobs db)" "j' \<in> set (jobs db)"
    "j_lease_token j = Some t" "j_lease_token j' = Some t"
  shows "j = j'"
proof -
  note D = tables_okD [OF assms(1) [unfolded work_inv_def]]
  obtain a where a: "a \<in> set (job_attempts db)" "a_job_id a = j_id j" "a_lease_token a = t"
    using leased_attempt_exists [OF assms(1,2,4)] by blast
  obtain a' where a': "a' \<in> set (job_attempts db)" "a_job_id a' = j_id j'" "a_lease_token a' = t"
    using leased_attempt_exists [OF assms(1,3,5)] by blast
  have "a = a'" using distinct_key_eq [OF D(4) a(1) a'(1)] a(3) a'(3) by simp
  then show ?thesis using distinct_key_eq [OF D(1) assms(2,3)] a(2) a'(2) by simp
qed

lemma release_spends:
  assumes inv: "work_inv db" and j: "j \<in> set (jobs db)" "j_lease_token j = Some t" "p j"
    and f: "\<And>x. j_lease_token (f x) = None"
    and db': "db' = db\<lparr>jobs := update_where p f (jobs db),
               job_attempts := update_where q (close_attempt now oc cls) (job_attempts db)\<rparr>"
  shows "spent db' t"
proof -
  have "t \<in> issued_tokens db" using leased_attempt_exists [OF inv j(1,2)] by (auto simp: issued_tokens_def)
  moreover have "issued_tokens db' = issued_tokens db"
    using releases_jobs_close [where f = f and p = p and db = db] f unfolding db' releases_def by blast
  moreover have "t \<notin> lease_tokens db'"
    using lease_token_unique [OF inv _ j(1) _ j(2)] j(3) f
    by (auto simp: lease_tokens_def db' set_update_where)
  ultimately show ?thesis by (simp add: spent_def)
qed

lemma complete_spends:
  assumes inv: "work_inv db" and c: "complete flt now i tok db = (Inr (), db')"
  shows "spent db' tok"
proof -
  from run_tx_Inr [OF c [unfolded complete_def]]
  have "0 < count_where (lease_held now i tok) (jobs db)"
    and db': "db' = db\<lparr>jobs := update_where (lease_held now i tok) (complete_job now) (jobs db),
           job_attempts := update_where (\<lambda>a. a_job_id a = i \<and> a_ended_at a = None)
             (close_attempt now AOCompleted None) (job_attempts db)\<rparr>"
    by (auto simp: tx_simps close_open_attempt_def split: if_splits)
  then obtain j where "j \<in> set (jobs db)" "lease_held now i tok j" by (auto simp: count_where_pos)
  then show ?thesis
    using release_spends [OF inv _ _ _ _ db'] lease_heldD row_change_token(1) by blast
qed

lemma fail_spends:
  assumes inv: "work_inv db" and c: "fail flt now i tok cls db = (Inr oc, db')"
  shows "spent db' tok"
proof -
  let ?held = "\<lambda>j. j_id j = i \<and> j_lease_token j = Some tok \<and> j_state j = Leased"
  define f where "f r = (if is_retryable cls \<and> j_attempt_count r < j_max_attempts r
    then requeue_job now (retry_delay_secs (j_attempt_count r)) (error_class_as_str cls)
    else dead_letter now (error_class_as_str cls))" for r :: job
  from run_tx_Inr [OF c [unfolded fail_def]] obtain r
    where r: "find_where (lease_held now i tok) (jobs db) = Some r"
    and db': "db' = db\<lparr>jobs := update_where ?held (f r) (jobs db),
           job_attempts := update_where (\<lambda>a. a_job_id a = i \<and> a_ended_at a = None)
             (close_attempt now AOFailed (Some (error_class_as_str cls))) (job_attempts db)\<rparr>"
    by (auto simp: tx_simps f_def close_open_attempt_def Let_def split: option.splits if_splits)
  have j: "r \<in> set (jobs db)" "?held r" using find_where_SomeD [OF r] lease_heldD by blast+
  then have "j_lease_token r = Some tok" "j_lease_token (f r x) = None" for x by (auto simp: f_def)
  then show ?thesis using release_spends [OF inv j(1) _ _ _ db'] j(2) by blast
qed

lemma claim_spends:
  assumes inv: "work_inv db" and fresh: "fresh_tokens env db" and c: "claim env opts db = (Inr rs, db')"
    and cj: "cj \<in> set rs" and j: "j \<in> set (jobs db)" "j_id j = cj_id cj" "j_lease_token j = Some t"
  shows "spent db' t"
proof -
  have body: "claim_body env opts db = Inr (rs, db')"
    using c by (auto simp: claim_def split: if_splits dest: run_tx_Inr)
  note loop = claim_bodyD [OF body] and ready = claim_candidates_ready [OF inv fresh]
  from claim_loop_results [OF ready loop] obtain ks where rs: "rs = map (claimed_of env opts) ks"
    and sub: "subseq ks (claim_candidates env (batch_limit opts) (jobs db))"
    and rows: "\<forall>c \<in> set ks. leased_row env opts c \<in> set (jobs db')"
    and only: "\<forall>j \<in> set (jobs db'). j \<in> set (jobs db) \<or> (\<exists>c \<in> set ks. j = leased_row env opts c)
         \<or> (\<exists>c. j = dead_letter (ce_now env) ''timeout'' c)" by blast
  from cj rs obtain c where c: "c \<in> set ks" "j_id c = j_id j" using j(2) by (auto simp: claimed_of_def)
  have inv': "work_inv db'" by (rule claim_loop_ready [OF ready loop])
  have iss: "issues (ce_lease_token env ` j_id ` set (jobs db)) db db'"
    using claim_issues [OF inv fresh, of opts] \<open>claim env opts db = (Inr rs, db')\<close> by simp
  have issued: "t \<in> issued_tokens db" using leased_attempt_exists [OF inv j(1,3)] by (auto simp: issued_tokens_def)
  have "t \<notin> lease_tokens db'"
  proof
    assume "t \<in> lease_tokens db'"
    then obtain j' where j': "j' \<in> set (jobs db')" "j_lease_token j' = Some t" by (auto simp: lease_tokens_def)
    have new: "j_lease_token (leased_row env opts x) \<noteq> Some t" if "x \<in> set ks" for x
    proof -
      have "x \<in> set (claim_candidates env (batch_limit opts) (jobs db))"
        using list_emb_set [OF sub that] by blast
      then have "x \<in> set (jobs db)" using ready unfolding claim_ready_def by blast
      then show ?thesis using issued fresh
        by (auto simp: leased_row_def grant_lease_def fresh_tokens_def issued_tokens_def)
    qed
    with only j' have "j' \<in> set (jobs db)" by fastforce
    with lease_token_unique [OF inv _ j(1) _ j(3)] j' have "j \<in> set (jobs db')" by blast
    with rows c(1) have "leased_row env opts c = j"
      using distinct_key_eq [OF tables_okD(1) [OF inv' [unfolded work_inv_def]]] c(2) by simp
    with new [OF c(1)] j(3) show False by simp
  qed
  with issued iss show ?thesis by (auto simp: spent_def issues_def)
qed

lemma spent_rejected:
  assumes "spent db t"
  shows "complete NoFault now i t db = (Inl (work_conflict ''complete rejected for stale or expired lease token''), db)"
    "fail NoFault now i t cls db = (Inl (work_conflict ''fail rejected for stale or expired lease token''), db)"
    "0 < dur \<Longrightarrow>
     heartbeat NoFault now i t dur db = (Inl (work_conflict ''heartbeat rejected for stale lease token''), db)"
proof -
  have none: "\<forall>j \<in> set (jobs db). \<not> lease_held now i t j" using spent_not_held [OF assms] by blast
  then have "count_where (lease_held now i t) (jobs db) = 0" "find_where (lease_held now i t) (jobs db) = None"
    "\<not> exists_where (lease_held now i t) (jobs db)"
    by (simp_all add: count_where_0 find_where_None exists_where_iff)
  then show "complete NoFault now i t db = (Inl (work_conflict ''complete rejected for stale or expired lease token''), db)"
    "fail NoFault now i t cls db = (Inl (work_conflict ''fail rejected for stale or expired lease token''), db)"
    "0 < dur \<Longrightarrow>
     heartbeat NoFault now i t dur db = (Inl (work_conflict ''heartbeat rejected for stale lease token''), db)"
    by (simp_all add: complete_def fail_def heartbeat_def txbind_def)
qed

section \<open>Progress\<close>

lemma lease_candidate_total: "ce_fault env = NoFault \<Longrightarrow> \<exists>r db'. lease_candidate env opts c db = Inr (r, db')"
  by (auto simp: lease_candidate_def Let_def txbind_def split: option.splits)

lemma reclaim_candidate_total: "ce_fault env = NoFault \<Longrightarrow> \<exists>r db'. reclaim_candidate env opts c db = Inr (r, db')"
  using lease_candidate_total [of env opts c]
  by (simp add: reclaim_candidate_def close_open_attempt_def txbind_def) blast

lemma claim_one_total: "ce_fault env = NoFault \<Longrightarrow> \<exists>r seen' db'. claim_one env opts c seen db = Inr ((r, seen'), db')"
  using reclaim_candidate_total [of env opts c db]
  by (auto simp: claim_one_def txbind_def split: option.splits)

lemma claim_loop_total: "ce_fault env = NoFault \<Longrightarrow> \<exists>rs db'. claim_loop env opts cs seen db = Inr (rs, db')"
proof (induction cs arbitrary: seen db)
  case (Cons c cs)
  obtain r seen' db1 where "claim_one env opts c seen db = Inr ((r, seen'), db1)"
    using claim_one_total Cons.prems by blast
  moreover obtain rs db' where "claim_loop env opts cs seen' db1 = Inr (rs, db')"
    using Cons.IH Cons.prems by blast
  ultimately show ?case by (simp add: txbind_def)
qed simp

text \<open>A job that a claim selects unless the batch is full.\<close>

definition eligible :: "claim_env \<Rightarrow> job list \<Rightarrow> job \<Rightarrow> bool" where
  "eligible env js j \<longleftrightarrow>
     claimable (ce_now env) j \<and> \<not> ce_row_locked env (j_id j)
     \<and> (j_state j = Leased \<or> (\<forall>k. j_serialization_key j = Some k \<longrightarrow> \<not> active_lease js k))"

lemma claim_candidates_eligible:
  "claim_candidates env n js = take (nat n) (sort_key claim_order (filter (eligible env js) js))"
proof -
  have "(claimable (ce_now env) j \<and> (case j_serialization_key j of None \<Rightarrow> True
           | Some k \<Rightarrow> j_state j = Leased \<or> \<not> active_lease js k) \<and> \<not> ce_row_locked env (j_id j))
      = eligible env js j" for j
    by (auto simp: eligible_def split: option.splits)
  then show ?thesis by (simp add: claim_candidates_def)
qed

lemma head_candidate_taken:
  assumes "claim_ready env (c # cs) db" "eligible env (jobs db) c" "\<And>k. ce_lock_acquired env k"
    and one: "claim_one env opts c [] db = Inr ((r, seen'), db1)"
  shows "r = (if exhausted c then None else Some (claimed_of env opts c)) \<and> db1 = after_candidate env opts c db"
proof -
  have inv: "work_inv db" and c: "c \<in> set (jobs db)" "claimable (ce_now env) c"
    using assms(1) by (simp_all add: claim_ready_def)
  note D = tables_okD [OF inv [unfolded work_inv_def]]
  have none: "\<not> exists_where (\<lambda>j. j_serialization_key j = Some k \<and> j_state j = Leased \<and> j_id j \<noteq> j_id c) (jobs db)"
    if "j_serialization_key c = Some k" for k
    using assms(2) that D(3) c(1) unfolding eligible_def serial_ok_def active_lease_def exists_where_iff
    by (metis option.distinct(1))
  then have "reclaim_candidate env opts c db = Inr (r, db1)"
    using one assms(3) by (auto simp: claim_one_def tx_simps split: option.splits if_splits)
  then show ?thesis using reclaim_candidate_result [OF D(1) c] by blast
qed

end
