(* ===== verification/Work_Properties.thy ===== *)
theory Work_Properties
  imports Work_Queue
begin

text \<open>
  The properties of the work queue, each with a witness on a concrete run: a request is enqueued
  in the empty store, claimed by a worker and then completed, failed or claimed again.
\<close>

section \<open>A sample run\<close>

definition sample_request :: enqueue_request where
  "sample_request =
     \<lparr>er_id = 1, er_job_type = ''outbound.deliver'',
      er_payload = JObject [(''schema_version'', JInt 1)], er_dedupe_key = ''d1'',
      er_serialization_key = Some ''chat:1'', er_priority = 0, er_run_at = 0, er_max_attempts = 3\<rparr>"

definition sample_options :: claim_options where
  "sample_options = \<lparr>batch_limit = 4, co_lease_owner = ''w1'', lease_duration_secs = 60\<rparr>"

definition sample_env :: "instant \<Rightarrow> uuid \<Rightarrow> claim_env" where
  "sample_env now t =
     \<lparr>ce_now = now, ce_fault = NoFault, ce_row_locked = (\<lambda>_. False), ce_lock_acquired = (\<lambda>_. True),
      ce_lease_token = (\<lambda>i. i + t), ce_attempt_id = (\<lambda>i. i + t)\<rparr>"

definition queued_db :: work_db where
  "queued_db = snd (enqueue NoFault 0 sample_request empty_db)"

definition leased_db :: work_db where
  "leased_db = snd (claim (sample_env 5 100) sample_options queued_db)"

lemmas sample_defs = sample_request_def sample_options_def sample_env_def

text \<open>The databases of the run, computed.\<close>

definition sample_job :: job where
  "sample_job =
     \<lparr>j_id = 1, j_type = ''outbound.deliver'', j_payload = JObject [(''schema_version'', JInt 1)],
      j_payload_version = 1, j_state = Queued, j_priority = 0, j_run_at = 0, j_dedupe_key = ''d1'',
      j_serialization_key = Some ''chat:1'', j_attempt_count = 0, j_max_attempts = 3, j_lease_token = None,
      j_lease_owner = None, j_lease_deadline = None, j_last_error_class = None, j_created_at = 0,
      j_updated_at = 0, j_completed_at = None\<rparr>"

definition sample_leased_job :: job where
  "sample_leased_job = sample_job\<lparr>j_state := Leased, j_attempt_count := 1, j_lease_token := Some 101,
      j_lease_owner := Some ''w1'', j_lease_deadline := Some 60000005, j_updated_at := 5\<rparr>"

definition sample_attempt :: attempt where
  "sample_attempt =
     \<lparr>a_id = 101, a_job_id = 1, a_attempt_number = 1, a_lease_token = 101, a_lease_owner = ''w1'',
      a_started_at = 5, a_ended_at = None, a_outcome = None, a_error_class = None\<rparr>"

lemma queued_db_eq: "queued_db = \<lparr>jobs = [sample_job], job_attempts = []\<rparr>"
  by code_simp

lemma leased_db_eq: "leased_db = \<lparr>jobs = [sample_leased_job], job_attempts = [sample_attempt]\<rparr>"
  by code_simp

lemma sample_fresh: "fresh_tokens (sample_env t 100) queued_db" "fresh_tokens (sample_env t 200) leased_db"
  by (simp_all add: fresh_tokens_def queued_db_eq leased_db_eq sample_defs sample_job_def sample_leased_job_def
      sample_attempt_def)

lemma sample_typed: "request_typed sample_request"
  by (simp add: request_typed_def sample_request_def)

lemma queued_db_reachable: "work_step\<^sup>*\<^sup>* empty_db queued_db"
  unfolding queued_db_def by (rule r_into_rtranclp, rule step_enqueue, rule sample_typed)

lemma leased_db_reachable: "work_step\<^sup>*\<^sup>* empty_db leased_db"
  unfolding leased_db_def
  by (rule rtranclp.rtrancl_into_rtrancl [OF queued_db_reachable], rule step_claim, rule sample_fresh)

lemmas sample_inv = work_reachable [OF queued_db_reachable] work_reachable [OF leased_db_reachable]

lemma retry_delay_exact:
  assumes "1 \<le> n"
  shows "retry_delay_secs n = 2 ^ nat (min 8 (n - 1))"
proof -
  have "(2::int) ^ nat (min 8 (n - 1)) \<le> 2 ^ 8" using assms by (intro power_increasing) auto
  then show ?thesis using assms by (simp add: retry_delay_secs_def)
qed

section \<open>Invariant and mutual exclusion\<close>

text \<open>
C1: In every state the operations of the queue can reach, in any order, with any clock readings and any database
fault, the tables satisfy the queue's invariant: identifiers and dedupe keys are unique, lease columns
are set exactly for leased jobs, completion times exactly for finished ones, no job has more attempts than its
budget and a queued one still has an attempt left, and the attempt rows of a job are numbered 1 to its
attempt count with exactly the last one open, under the job's own lease token, while the job is leased.
\<close>

theorem work_queue_invariant:
  "work_step\<^sup>*\<^sup>* empty_db db \<Longrightarrow> work_inv db"
  by (rule work_reachable)

theorem work_queue_invariant_witness:
  "work_inv leased_db \<and> j_state sample_leased_job = Leased"
  using work_queue_invariant [OF leased_db_reachable] by (simp add: sample_leased_job_def)



section \<open>Lease fencing\<close>

text \<open>
A lease is used at most once: after a worker's \<open>complete\<close> or \<open>fail\<close> was acknowledged, whatever
happens next, every later \<open>complete\<close>, \<open>fail\<close> or \<open>heartbeat\<close> with the same lease token is rejected as a
conflict and changes nothing.
\<close>

theorem used_lease_rejected:
  assumes "work_step\<^sup>*\<^sup>* empty_db db"
    and "complete flt now i tok db = (Inr (), db1) \<or> fail flt now i tok cls db = (Inr oc, db1)"
    and "work_step\<^sup>*\<^sup>* db1 db2"
  shows "complete NoFault t2 i2 tok db2 =
           (Inl (work_conflict ''complete rejected for stale or expired lease token''), db2)
       \<and> fail NoFault t2 i2 tok cls2 db2 =
           (Inl (work_conflict ''fail rejected for stale or expired lease token''), db2)
       \<and> heartbeat NoFault t2 i2 tok (1 + int n) db2 =
           (Inl (work_conflict ''heartbeat rejected for stale lease token''), db2)"
proof -
  have inv: "work_inv db" by (rule work_reachable [OF assms(1)])
  have "spent db1 tok" using assms(2) complete_spends [OF inv] fail_spends [OF inv] by blast
  moreover have "work_inv db1"
    using assms(2) complete_keeps [OF inv, of flt now i tok] fail_keeps [OF inv, of flt now i tok cls] by auto
  ultimately have "spent db2 tok" using spent_steps [OF assms(3)] by blast
  from spent_rejected [OF this] show ?thesis by simp
qed

lemma sample_complete_run:
  "complete NoFault 7 1 101 leased_db = (Inr (), snd (complete NoFault 7 1 101 leased_db))"
  by code_simp

theorem used_lease_rejected_witness:
  "fst (fail NoFault 8 1 101 ETimeout (snd (complete NoFault 7 1 101 leased_db)))
     = Inl (work_conflict ''fail rejected for stale or expired lease token'')"
  using used_lease_rejected [OF leased_db_reachable disjI1 [OF sample_complete_run] rtranclp.rtrancl_refl]
  by simp

text \<open>
When a claim takes over a job whose lease expired, the former holder is fenced off for good: its
token is rejected by \<open>complete\<close>, \<open>fail\<close> and \<open>heartbeat\<close> in every later state, without any change.
\<close>

theorem superseded_lease_rejected:
  assumes "work_step\<^sup>*\<^sup>* empty_db db" "fresh_tokens env db" "claim env opts db = (Inr rs, db1)" "cj \<in> set rs"
    and "j \<in> set (jobs db)" "j_id j = cj_id cj" "j_lease_token j = Some tok"
    and "work_step\<^sup>*\<^sup>* db1 db2"
  shows "complete NoFault t2 i2 tok db2 =
           (Inl (work_conflict ''complete rejected for stale or expired lease token''), db2)
       \<and> fail NoFault t2 i2 tok cls2 db2 =
           (Inl (work_conflict ''fail rejected for stale or expired lease token''), db2)
       \<and> heartbeat NoFault t2 i2 tok (1 + int n) db2 =
           (Inl (work_conflict ''heartbeat rejected for stale lease token''), db2)"
proof -
  have inv: "work_inv db" by (rule work_reachable [OF assms(1)])
  have "spent db1 tok" by (rule claim_spends [OF inv assms(2-7)])
  moreover have "work_inv db1" using claim_keeps [OF inv assms(2), of opts] assms(3) by simp
  ultimately have "spent db2 tok" using spent_steps [OF assms(8)] by blast
  from spent_rejected [OF this] show ?thesis by simp
qed

definition reclaimed_db :: work_db where
  "reclaimed_db = snd (claim (sample_env 70000000 200) sample_options leased_db)"

definition reclaimed_job :: claimed_job where
  "reclaimed_job =
     \<lparr>cj_id = 1, cj_job_type = ''outbound.deliver'', cj_payload = JObject [(''schema_version'', JInt 1)],
      cj_payload_version = 1, cj_attempt_number = 2, cj_lease_token = 201, cj_lease_owner = ''w1'',
      cj_lease_deadline = 130000000, cj_dedupe_key = ''d1'', cj_serialization_key = Some ''chat:1''\<rparr>"

lemma reclaimed_db_eq:
  "claim (sample_env 70000000 200) sample_options leased_db = (Inr [reclaimed_job], reclaimed_db)"
  by code_simp

theorem superseded_lease_rejected_witness:
  "complete NoFault 70000001 1 101 reclaimed_db =
     (Inl (work_conflict ''complete rejected for stale or expired lease token''), reclaimed_db)"
  using superseded_lease_rejected [OF leased_db_reachable sample_fresh(2) reclaimed_db_eq, of reclaimed_job
      sample_leased_job 101 reclaimed_db 70000001 1 ETimeout 0]
  by (simp add: leased_db_eq reclaimed_job_def sample_leased_job_def sample_job_def)

section \<open>Claiming\<close>

lemma claim_Inr:
  assumes "claim env opts db = (Inr rs, db')"
  shows "claim_loop env opts (claim_candidates env (batch_limit opts) (jobs db)) [] db = Inr (rs, db')"
  using assms by (auto simp: claim_def split: if_splits dest!: run_tx_Inr claim_bodyD)

lemma distinct_subseq: "subseq xs ys \<Longrightarrow> distinct ys \<Longrightarrow> distinct xs"
proof (induction rule: list_emb.induct)
  case (list_emb_Cons2 x y xs ys)
  then show ?case using list_emb_set [OF list_emb_Cons2(2), of x] by auto
qed auto

lemma claimed_distinct:
  assumes "work_inv db" "subseq ks (claim_candidates env n (jobs db))"
  shows "distinct (map j_id ks)" "set ks \<subseteq> set (jobs db)" "c \<in> set ks \<Longrightarrow> claimable (ce_now env) c"
    "length ks \<le> nat n"
proof -
  let ?cs = "claim_candidates env n (jobs db)"
  have cs: "set ?cs \<subseteq> {j \<in> set (jobs db). claimable (ce_now env) j}" "length ?cs \<le> nat n"
    by (auto simp: claim_candidates_def dest!: in_set_takeD)
  moreover have sub: "set ks \<subseteq> set ?cs" using list_emb_set [OF assms(2)] by blast
  ultimately show "set ks \<subseteq> set (jobs db)" "c \<in> set ks \<Longrightarrow> claimable (ce_now env) c" by blast+
  show "length ks \<le> nat n" using list_emb_length [OF assms(2)] cs(2) by simp
  have "subseq (map j_id ks) (map j_id ?cs)" using assms(2) by (rule subseq_map)
  moreover have "distinct (map j_id ?cs)"
  proof -
    have "distinct (map j_id (filter P (jobs db)))" for P
      using tables_okD(1) assms(1) by (auto simp: work_inv_def distinct_map_filter)
    then have "distinct (map j_id (sort_key claim_order (filter P (jobs db))))" for P by (simp add: distinct_map)
    then show ?thesis unfolding claim_candidates_def take_map [symmetric] by (rule distinct_take)
  qed
  ultimately show "distinct (map j_id ks)" by (rule distinct_subseq)
qed

text \<open>The row of a claimed job before and after the claim.\<close>

definition handed_out ::
  "claim_env \<Rightarrow> claim_options \<Rightarrow> work_db \<Rightarrow> work_db \<Rightarrow> claimed_job \<Rightarrow> bool" where
  "handed_out env opts db db' cj \<longleftrightarrow>
     (\<exists>j \<in> set (jobs db). \<exists>j' \<in> set (jobs db').
        j_id j = cj_id cj \<and> claimable (ce_now env) j \<and> j_attempt_count j < j_max_attempts j
        \<and> j_id j' = cj_id cj \<and> j_state j' = Leased \<and> j_lease_token j' = Some (cj_lease_token cj)
        \<and> j_lease_owner j' = Some (co_lease_owner opts) \<and> cj_lease_owner cj = co_lease_owner opts
        \<and> j_lease_deadline j' = Some (cj_lease_deadline cj)
        \<and> cj_lease_deadline cj = ce_now env + secs (lease_duration_secs opts)
        \<and> j_attempt_count j' = j_attempt_count j + 1 \<and> cj_attempt_number cj = j_attempt_count j'
        \<and> cj_payload cj = j_payload j \<and> cj_serialization_key cj = j_serialization_key j')"

text \<open>
What a successful claim hands out: at most \<open>batch_limit\<close> jobs, no job twice, no serialization key
twice; each was due (queued and due, or leased past its deadline) and had an attempt left, and in the new state it is
leased to the caller under the returned token until the returned deadline, with one more attempt counted.
\<close>

theorem claim_returns_leases:
  assumes "work_step\<^sup>*\<^sup>* empty_db db" "fresh_tokens env db" "claim env opts db = (Inr rs, db')"
  shows "int (length rs) \<le> batch_limit opts \<and> distinct (map cj_id rs)
    \<and> (\<forall>c1 \<in> set rs. \<forall>c2 \<in> set rs. cj_serialization_key c1 \<noteq> None \<longrightarrow>
         cj_serialization_key c1 = cj_serialization_key c2 \<longrightarrow> cj_id c1 = cj_id c2)
    \<and> (\<forall>cj \<in> set rs. handed_out env opts db db' cj)"
proof -
  have inv: "work_inv db" by (rule work_reachable [OF assms(1)])
  note ready = claim_candidates_ready [OF inv assms(2)] and loop = claim_Inr [OF assms(3)]
  have inv': "work_inv db'" by (rule claim_loop_ready [OF ready loop])
  note D' = tables_okD [OF inv' [unfolded work_inv_def]]
  from claim_loop_results [OF ready loop] obtain ks where rs: "rs = map (claimed_of env opts) ks"
    and sub: "subseq ks (claim_candidates env (batch_limit opts) (jobs db))"
    and rows: "\<forall>c \<in> set ks. leased_row env opts c \<in> set (jobs db')" by blast
  note K = claimed_distinct [OF inv sub]
  have pos: "0 < batch_limit opts" using assms(3) by (auto simp: claim_def split: if_splits)
  have "int (length rs) \<le> batch_limit opts" using K(4) pos rs by simp
  moreover have "map cj_id rs = map j_id ks" by (simp add: rs claimed_of_def)
  then have "distinct (map cj_id rs)" using K(1) by simp
  moreover have "cj_id c1 = cj_id c2"
    if c: "c1 \<in> set rs" "c2 \<in> set rs" "cj_serialization_key c1 \<noteq> None"
      "cj_serialization_key c1 = cj_serialization_key c2" for c1 c2
  proof -
    from c rs obtain k1 k2 where k: "k1 \<in> set ks" "k2 \<in> set ks" "c1 = claimed_of env opts k1" "c2 = claimed_of env opts k2"
      by auto
    have "j_id (leased_row env opts k1) = j_id (leased_row env opts k2)"
      using serial_okD [OF D'(3), of "leased_row env opts k1" "leased_row env opts k2"] rows k c(3,4)
      by (simp add: leased_row_def claimed_of_def)
    then show ?thesis by (simp add: k claimed_of_def)
  qed
  moreover have "handed_out env opts db db' cj"
    if "cj \<in> set rs" for cj
  proof -
    from that rs obtain c where c: "c \<in> set ks" "cj = claimed_of env opts c" by auto
    have row: "leased_row env opts c \<in> set (jobs db')" using rows c(1) by blast
    have "j_attempt_count c < j_max_attempts c"
      using D'(5) [OF row] by (simp add: job_ok_defs leased_row_def grant_lease_def)
    then show ?thesis using K(2,3) c row
      unfolding handed_out_def
      by (intro bexI [of _ c] bexI [of _ "leased_row env opts c"])
        (auto simp: leased_row_def grant_lease_def claimed_of_def)
  qed
  ultimately show ?thesis by blast
qed

theorem claim_returns_leases_witness:
  "distinct (map cj_id [reclaimed_job]) \<and> int (length [reclaimed_job]) \<le> batch_limit sample_options"
  using claim_returns_leases [OF leased_db_reachable sample_fresh(2) reclaimed_db_eq] by blast

text \<open>
C3: Progress: when some job is eligible (due, its row not locked by another transaction, its serialization
key not leased), the options are valid, and neither the database nor an advisory lock stands in the way, a claim
succeeds and serves a first job in the order of priority, due time and age: it hands it out, or dead-letters it
when its lease expired on its last attempt.
\<close>

theorem claim_progress:
  assumes "work_inv db" "fresh_tokens env db" "ce_fault env = NoFault" "\<forall>k. ce_lock_acquired env k"
    and "0 < batch_limit opts" "co_lease_owner opts \<noteq> []" "0 < lease_duration_secs opts"
    and "j \<in> set (jobs db)" "eligible env (jobs db) j"
  shows "\<exists>c rs db'. claim env opts db = (Inr rs, db') \<and> c \<in> set (jobs db) \<and> eligible env (jobs db) c
    \<and> claim_order c \<le> claim_order j
    \<and> (if exhausted c then dead_letter (ce_now env) ''timeout'' c \<in> set (jobs db')
       else claimed_of env opts c \<in> set rs)"
proof -
  let ?cs = "claim_candidates env (batch_limit opts) (jobs db)"
  let ?sorted = "sort_key claim_order (filter (eligible env (jobs db)) (jobs db))"
  have mem: "j \<in> set ?sorted" using assms(8,9) by simp
  then obtain c ds where srt: "?sorted = c # ds" by (cases ?sorted) auto
  then obtain cs where cs: "?cs = c # cs"
    using assms(5) by (auto simp: claim_candidates_eligible take_Cons' zless_nat_eq_int_zless)
  have "c \<in> set ?sorted" by (simp add: srt)
  then have c: "c \<in> set (jobs db)" "eligible env (jobs db) c" by simp_all
  have "sorted (map claim_order ?sorted)" by simp
  with mem have ord: "claim_order c \<le> claim_order j" unfolding srt by auto
  have ready: "claim_ready env (c # cs) db" using claim_candidates_ready [OF assms(1,2)] cs by metis
  obtain r seen' db1 where one: "claim_one env opts c [] db = Inr ((r, seen'), db1)"
    using claim_one_total [OF assms(3)] by blast
  obtain rest db' where loop: "claim_loop env opts cs seen' db1 = Inr (rest, db')"
    using claim_loop_total [OF assms(3)] by blast
  note taken = head_candidate_taken [OF ready c(2) _ one]
  define rs where "rs = (case r of None \<Rightarrow> rest | Some x \<Rightarrow> x # rest)"
  have "claim_loop env opts ?cs [] db = Inr (rs, db')"
    unfolding cs using one loop by (simp add: txbind_def rs_def)
  then have run: "claim env opts db = (Inr rs, db')"
    using assms(3,5-7) by (simp add: claim_def claim_body_def txbind_def)
  have "dead_letter (ce_now env) ''timeout'' c \<in> set (jobs db')" if "exhausted c"
  proof -
    have "dead_letter (ce_now env) ''timeout'' c \<in> set (jobs db1)"
      using taken assms(4) that c(1) by (auto simp: after_candidate_def set_update_where)
    then show ?thesis
      using claim_loop_others [OF claim_one_ready [OF ready one] loop] ready by (simp add: claim_ready_def)
  qed
  moreover have "claimed_of env opts c \<in> set rs" if "\<not> exhausted c"
    using taken assms(4) that by (simp add: rs_def)
  ultimately show ?thesis using run c ord by auto
qed

theorem claim_progress_witness:
  "\<exists>c rs db'. claim (sample_env 5 100) sample_options queued_db = (Inr rs, db') \<and> c \<in> set (jobs queued_db)
    \<and> claim_order c \<le> claim_order sample_job"
proof -
  have "eligible (sample_env 5 100) (jobs queued_db) sample_job"
    by (simp add: eligible_def active_lease_def exists_where_def queued_db_eq sample_job_def sample_env_def claimable_def)
  then show ?thesis
    using claim_progress [OF sample_inv(1) sample_fresh(1), of 5 sample_options sample_job]
    by (auto simp: sample_defs queued_db_eq)
qed

section \<open>Failing\<close>

text \<open>
C4: A worker that reports a failure under its live lease gets what the policy says: a retryable class with
budget left puts the job back in the queue, due \<open>2^min(8, n-1)\<close> seconds later after attempt \<open>n\<close>; otherwise the
job is dead-lettered at that moment. In both cases the lease is gone, the class is recorded in the job and in the attempt, no
attempt of the job stays open, and every other row is as before.
\<close>

theorem fail_retry_or_dead_letter:
  assumes "work_step\<^sup>*\<^sup>* empty_db db" "j \<in> set (jobs db)" "lease_held now i tok j"
  shows "\<exists>db' j' retry. retry = (is_retryable cls \<and> j_attempt_count j < j_max_attempts j) \<and> fail NoFault now i tok cls db = (Inr (if retry then Retried else DeadLettered), db')
    \<and> j' \<in> set (jobs db') \<and> j_id j' = i \<and> j_lease_token j' = None
    \<and> j_last_error_class j' = Some (error_class_as_str cls) \<and> j_attempt_count j' = j_attempt_count j
    \<and> (if retry then j_state j' = Queued \<and> j_run_at j' = now + 2 ^ nat (min 8 (j_attempt_count j - 1)) * 1000000
       else j_state j' = Dead \<and> j_completed_at j' = Some now)
    \<and> (\<forall>a \<in> set (job_attempts db'). a_job_id a = i \<longrightarrow> a_ended_at a \<noteq> None)
    \<and> (\<forall>x. j_id x \<noteq> i \<longrightarrow> (x \<in> set (jobs db') \<longleftrightarrow> x \<in> set (jobs db)))
    \<and> (\<forall>a. a_job_id a \<noteq> i \<longrightarrow> (a \<in> set (job_attempts db') \<longleftrightarrow> a \<in> set (job_attempts db)))"
proof -
  define retry where "retry = (is_retryable cls \<and> j_attempt_count j < j_max_attempts j)"
  have inv: "work_inv db" by (rule work_reachable [OF assms(1)])
  note D = tables_okD [OF inv [unfolded work_inv_def]]
  let ?held = "\<lambda>j. j_id j = i \<and> j_lease_token j = Some tok \<and> j_state j = Leased"
  have id: "j_id j = i" "?held j" using lease_heldD [OF assms(3)] by auto
  have find: "find_where (lease_held now i tok) (jobs db) = Some j"
    by (rule find_where_unique [OF D(1) assms(2)], rule assms(3)) (use id(1) lease_heldD in blast)
  let ?f = "if retry then requeue_job now (retry_delay_secs (j_attempt_count j)) (error_class_as_str cls)
            else dead_letter now (error_class_as_str cls)"
  let ?close = "\<lambda>a. a_job_id a = i \<and> a_ended_at a = None"
  let ?db' = "db\<lparr>jobs := update_where ?held ?f (jobs db),
       job_attempts := update_where ?close (close_attempt now AOFailed (Some (error_class_as_str cls))) (job_attempts db)\<rparr>"
  have run: "fail NoFault now i tok cls db = (Inr (if retry then Retried else DeadLettered), ?db')"
    using find by (simp add: fail_def txbind_def close_open_attempt_def Let_def retry_def)
  have row: "?f j \<in> set (jobs ?db')" using assms(2) id by (auto simp: set_update_where)
  have "1 \<le> j_attempt_count j" using D(6) [OF assms(2)] id(2) by (simp add: trail_ok_def)
  then have delay: "retry_delay_secs (j_attempt_count j) = 2 ^ nat (min 8 (j_attempt_count j - 1))"
    using retry_delay_exact by simp
  have others: "\<forall>x. j_id x \<noteq> i \<longrightarrow> (x \<in> set (jobs ?db') \<longleftrightarrow> x \<in> set (jobs db))"
    by (cases retry) (auto simp: set_update_where)
  have trail: "\<forall>a. a_job_id a \<noteq> i \<longrightarrow> (a \<in> set (job_attempts ?db') \<longleftrightarrow> a \<in> set (job_attempts db))"
    "\<forall>a \<in> set (job_attempts ?db'). a_job_id a = i \<longrightarrow> a_ended_at a \<noteq> None"
    using closed_attempts by simp_all
  have new: "j_id (?f j) = i" "j_lease_token (?f j) = None" "j_attempt_count (?f j) = j_attempt_count j"
    "j_last_error_class (?f j) = Some (error_class_as_str cls)"
    "if retry then j_state (?f j) = Queued \<and>
        j_run_at (?f j) = now + 2 ^ nat (min 8 (j_attempt_count j - 1)) * 1000000
     else j_state (?f j) = Dead \<and> j_completed_at (?f j) = Some now"
    using id(1) delay by (simp_all add: requeue_job_def dead_letter_def clear_lease_def secs_def)
  show ?thesis
    by (rule exI [of _ ?db'], rule exI [of _ "?f j"], rule exI [of _ retry], intro conjI)
      (fact retry_def run row new others trail)+
qed

theorem fail_retry_or_dead_letter_witness:
  "\<exists>db' j'. fail NoFault 6 1 101 ETimeout leased_db = (Inr Retried, db')
    \<and> j' \<in> set (jobs db') \<and> j_state j' = Queued \<and> j_run_at j' = 1000006"
proof -
  have "lease_held 6 1 101 sample_leased_job"
    by (simp add: lease_held_def sample_leased_job_def sample_job_def)
  then show ?thesis
    using fail_retry_or_dead_letter [OF leased_db_reachable, of sample_leased_job 6 1 101 ETimeout]
    by (auto simp: leased_db_eq sample_leased_job_def sample_job_def is_retryable_def)
qed

text \<open>
The back-off of a retry doubles with every attempt from one second up to 256 seconds, where it stays: it is
never below 1, never above 256 (the cap of 300 seconds in the source is never reached), and never decreases.
\<close>

theorem retry_delay_bounds:
  "1 \<le> retry_delay_secs n \<and> retry_delay_secs n \<le> 256 \<and> retry_delay_secs n \<le> retry_delay_secs (n + int k)"
proof -
  have mono: "(2::int) ^ nat (max 0 (min 8 (n - 1))) \<le> 2 ^ nat (max 0 (min 8 (n + int k - 1)))"
    by (intro power_increasing) auto
  have cap: "(2::int) ^ nat (max 0 (min 8 (m - 1))) \<le> 256" for m :: int
    using power_increasing [of "nat (max 0 (min 8 (m - 1)))" 8 "2::int"] by simp
  have eq: "retry_delay_secs m = 2 ^ nat (max 0 (min 8 (m - 1)))" for m
    unfolding retry_delay_secs_def Let_def using cap [of m] by simp
  show ?thesis unfolding eq using mono cap by simp
qed

section \<open>Deduplication\<close>

text \<open>The queue as a deduplicating store: a submission counts when it is answered as enqueued.\<close>

definition submit_job :: "db_fault \<times> instant \<times> enqueue_request \<Rightarrow> work_db \<Rightarrow> bool \<times> work_db" where
  "submit_job q db =
     (case q of (flt, now, r) \<Rightarrow> (fst (enqueue flt now r db) = Inr Enqueued, snd (enqueue flt now r db)))"

definition knows_job :: "work_db \<Rightarrow> string \<Rightarrow> bool" where
  "knows_job db k = exists_where (\<lambda>j. j_dedupe_key j = k) (jobs db)"

lemma enqueue_tx_knows:
  assumes "enqueue_in_transaction flt now r db = Inr (oc, db')"
  shows "knows_job db k \<Longrightarrow> knows_job db' k"
    and "oc = Enqueued \<Longrightarrow> \<not> knows_job db (er_dedupe_key r) \<and> knows_job db' (er_dedupe_key r)"
  using assms
  by (auto simp: enqueue_in_transaction_def tx_simps knows_job_def exists_where_iff new_job_def
      split: sum.splits if_splits)

interpretation job_dedup: dedup_store submit_job "\<lambda>(flt, now, r). er_dedupe_key r" knows_job "\<lambda>_. True"
proof
  fix q :: "db_fault \<times> instant \<times> enqueue_request" and db db' :: work_db and k
  obtain flt now r where q: "q = (flt, now, r)" by (cases q)
  show "\<not> knows_job db (case q of (flt, now, r) \<Rightarrow> er_dedupe_key r)
      \<and> knows_job db' (case q of (flt, now, r) \<Rightarrow> er_dedupe_key r)" if "submit_job q db = (True, db')"
  proof -
    have "enqueue flt now r db = (Inr Enqueued, db')"
      using that by (cases "enqueue flt now r db") (simp add: submit_job_def q)
    then show ?thesis using enqueue_tx_knows(2) q unfolding enqueue_def by (auto dest!: run_tx_Inr)
  qed
  show "knows_job (snd (submit_job q db)) k" if "knows_job db k"
    using that unfolding submit_job_def q enqueue_def
    by (simp, intro run_tx_keeps [where P = "\<lambda>s. knows_job s k"]) (auto intro: enqueue_tx_knows(1))
qed simp

primrec submit_jobs :: "(db_fault \<times> instant \<times> enqueue_request) list \<Rightarrow> work_db \<Rightarrow> bool list" where
  "submit_jobs [] db = []"
| "submit_jobs (q # qs) db = fst (submit_job q db) # submit_jobs qs (snd (submit_job q db))"

lemma submit_jobs_eq: "submit_jobs qs db = job_dedup.submit_all qs db"
  by (induction qs arbitrary: db) auto

text \<open>
C5: Over any sequence of submissions, with any faults in between (also a commit whose acknowledgement is lost),
at most one submission per dedupe key is answered as enqueued.
\<close>

theorem enqueue_once_per_dedupe_key:
  "count_where (\<lambda>(accepted, flt, now, r). accepted \<and> er_dedupe_key r = k) (zip (submit_jobs qs db) qs) \<le> 1"
proof -
  have eq: "(\<lambda>(b, q). b \<and> (case q of (flt, now, r) \<Rightarrow> er_dedupe_key r) = k)
      = (\<lambda>(accepted, flt, now, r). accepted \<and> er_dedupe_key r = k)"
    by (auto simp: fun_eq_iff)
  show ?thesis
    using job_dedup.at_most_one_accepted [OF TrueI, of k qs db] unfolding eq submit_jobs_eq .
qed

section \<open>Finished jobs\<close>

lemma update_where_other: "r \<in> set t \<Longrightarrow> \<not> p r \<Longrightarrow> r \<in> set (update_where p f t)"
  by (simp add: set_update_where)

lemmas kept_row = run_tx_keeps [where P = "\<lambda>s. j \<in> set (jobs s)" for j] update_where_other

lemma finished_row_kept:
  fixes db :: "'z work_db_scheme"
  assumes "j \<in> set (jobs db)" "j_state j = Completed \<or> j_state j = Cancelled"
  shows "j \<in> set (jobs (snd (enqueue flt now r db)))" "j \<in> set (jobs (snd (heartbeat flt now i tok dur db)))"
    "j \<in> set (jobs (snd (complete flt now i tok db)))" "j \<in> set (jobs (snd (fail flt now i tok cls db)))"
    "j \<in> set (jobs (snd (cancel_active flt now i tk ov db)))" "j \<in> set (jobs (snd (recover_dead flt now i db)))"
proof -
  have st: "j_state j \<noteq> Queued" "j_state j \<noteq> Leased" "j_state j \<noteq> Dead" "\<not> lease_held now i tok j" for i tok
    using assms(2) by (auto simp: lease_held_def)
  show "j \<in> set (jobs (snd (enqueue flt now r db)))"
    unfolding enqueue_def using assms(1)
    by (rule kept_row) (auto simp: tx_simps enqueue_in_transaction_def assms(1) split: sum.splits if_splits)
  show "j \<in> set (jobs (snd (heartbeat flt now i tok dur db)))"
    unfolding heartbeat_def using assms(1)
    by (simp split: if_split, intro impI kept_row) (auto intro!: kept_row(2) simp: st split: if_splits)
  show "j \<in> set (jobs (snd (complete flt now i tok db)))"
    unfolding complete_def using assms(1)
    by (rule kept_row) (auto simp: tx_simps close_open_attempt_def assms(1) st intro!: kept_row(2) split: if_splits)
  show "j \<in> set (jobs (snd (fail flt now i tok cls db)))"
    unfolding fail_def using assms(1)
    by (rule kept_row) (auto simp: tx_simps Let_def close_open_attempt_def assms(1) st intro!: kept_row(2)
        split: if_splits option.splits)
  show "j \<in> set (jobs (snd (cancel_active flt now i tk ov db)))"
    unfolding cancel_active_def using assms(1)
    by (rule kept_row) (auto simp: tx_simps cancel_leased_def close_open_attempt_def assms(1) st intro!: kept_row(2)
        split: if_splits option.splits job_state.splits)
  show "j \<in> set (jobs (snd (recover_dead flt now i db)))"
    unfolding recover_dead_def using assms(1)
    by (rule kept_row) (auto simp: Let_def assms(1) st intro!: kept_row(2) split: if_splits)
qed

lemma finished_row_claim:
  assumes "work_inv db" "fresh_tokens env db" "j \<in> set (jobs db)" "j_state j = Completed \<or> j_state j = Cancelled"
  shows "j \<in> set (jobs (snd (claim env opts db)))"
proof -
  have "j \<in> set (jobs db')" if body: "claim_body env opts db = Inr (rs, db')" for rs db'
  proof -
    note ready = claim_candidates_ready [OF assms(1,2), of "batch_limit opts"]
    have "j_id j \<notin> j_id ` set (claim_candidates env (batch_limit opts) (jobs db))"
    proof
      assume "j_id j \<in> j_id ` set (claim_candidates env (batch_limit opts) (jobs db))"
      then obtain c where c: "c \<in> set (claim_candidates env (batch_limit opts) (jobs db))" "j_id c = j_id j" by auto
      then have "c \<in> set (jobs db)" "claimable (ce_now env) c" using ready unfolding claim_ready_def by blast+
      with c(2) assms(3) distinct_key_eq [OF tables_okD(1) [OF assms(1) [unfolded work_inv_def]]]
      have "claimable (ce_now env) j" by metis
      then show False using assms(4) by (auto simp: claimable_def)
    qed
    then show ?thesis using claim_loop_others [OF ready claim_bodyD [OF body]] assms(3) by blast
  qed
  then have "j \<in> set (jobs (snd (run_tx (ce_fault env) e1 e2 (claim_body env opts) db)))" for e1 e2
    by (intro kept_row(1) assms(3))
  then show ?thesis using assms(3) by (simp add: claim_def)
qed

lemma finished_row_step:
  "work_step db db' \<Longrightarrow> work_inv db \<Longrightarrow> j \<in> set (jobs db) \<Longrightarrow> j_state j = Completed \<or> j_state j = Cancelled \<Longrightarrow>
   j \<in> set (jobs db')"
proof (induction rule: work_step.induct)
  case (step_cancel_queued flt now k db n db')
  then show ?case
    by (auto simp: cancel_queued_by_serialization_key_in_transaction_def tx_simps Let_def intro!: update_where_other)
qed (simp_all add: finished_row_kept finished_row_claim cancel_def cancel_by_operator_def)

text \<open>
A completed or cancelled job is final: no later operation, in any order and under any fault, changes a
column of its row.
\<close>

theorem finished_job_is_final:
  assumes "work_step\<^sup>*\<^sup>* empty_db db" "j \<in> set (jobs db)" "j_state j = Completed \<or> j_state j = Cancelled"
    and "work_step\<^sup>*\<^sup>* db db'"
  shows "j \<in> set (jobs db')"
  using assms(4)
proof (induction rule: rtranclp_induct)
  case (step y z)
  have "work_inv y" by (rule work_steps_keep [OF step(1) work_reachable [OF assms(1)]])
  then show ?case using finished_row_step [OF step(2) _ step(3) assms(3)] by blast
qed (rule assms(2))

definition completed_db :: work_db where
  "completed_db = snd (complete NoFault 7 1 101 leased_db)"

theorem finished_job_is_final_witness:
  "hd (jobs completed_db) \<in> set (jobs (snd (recover_dead NoFault 9 1 completed_db)))
   \<and> j_state (hd (jobs completed_db)) = Completed"
proof -
  have r: "work_step\<^sup>*\<^sup>* empty_db completed_db"
    unfolding completed_db_def
    by (rule rtranclp.rtrancl_into_rtrancl [OF leased_db_reachable], rule step_complete)
  have st: "j_state (hd (jobs completed_db)) = Completed" "jobs completed_db \<noteq> []" by code_simp+
  then show ?thesis
    using finished_job_is_final [OF r, of "hd (jobs completed_db)" "snd (recover_dead NoFault 9 1 completed_db)"]
      hd_in_set [OF st(2)] r_into_rtranclp [of work_step, OF step_recover] by blast
qed

end
