(* ===== verification/Outbound.thy ===== *)
theory Outbound
  imports Work
begin

text \<open>
  Delivery of outbound messages: \<^verbatim>\<open>src/outbound/mod.rs\<close> on the table \<^verbatim>\<open>outbound_messages\<close> of
  \<^verbatim>\<open>migrations/002\<close>.

  \<open>deliver_for_job\<close> and \<open>deliver_next\<close> await the database and the provider several times, and other
  workers run in between. Each is therefore a machine: a program counter \<open>deliver_pc\<close> (\<open>next_pc\<close>) names
  the await it stands at, \<open>deliver_step\<close> (\<open>next_step\<close>) performs that one call and goes on to the next.
  \<open>deliver_for_job\<close> runs the machine with arbitrary activity of others between two awaits. The
  identifier parser of the uuid library is the argument \<open>parse_uuid\<close>; what the provider answers is
  part of the input of a step.
\<close>

section \<open>Data\<close>

datatype outbound_state = OQueued | OSending | OSent | OFailed | OSuppressed | OAmbiguous

datatype delivery_state = DSent | DFailed | DAmbiguous

fun delivery_state_as_str :: "delivery_state \<Rightarrow> string" where
  "delivery_state_as_str DSent = ''sent''"
| "delivery_state_as_str DFailed = ''failed''"
| "delivery_state_as_str DAmbiguous = ''ambiguous''"

text \<open>The value of the state column that a delivery state is written as.\<close>

fun stored_state :: "delivery_state \<Rightarrow> outbound_state" where
  "stored_state DSent = OSent"
| "stored_state DFailed = OFailed"
| "stored_state DAmbiguous = OAmbiguous"

record delivery_result =
  dr_outbound_id :: uuid
  dr_state :: delivery_state

datatype outbound_job_execution =
  ExecComplete delivery_result | ExecFail error_class | StaleLease | InvalidJob

datatype outbound_store_error = OutboundStoreError

record outbound_message =
  o_id :: uuid
  o_account_id :: "uuid option"
  o_inbound_event_id :: "uuid option"
  o_idempotency_key :: string
  o_provider_scope :: string
  o_provider_target :: string
  o_body :: string
  o_state :: outbound_state
  o_provider_message_id :: "string option"
  o_attempt_count :: int
  o_last_error_class :: "string option"
  o_ambiguity_metadata :: "json option"
  o_created_at :: instant
  o_updated_at :: instant

record outbound_db = work_db +
  outbound_messages :: "outbound_message list"

text \<open>What \<^verbatim>\<open>adapter.send_message\<close> returns, as far as the delivery looks at it.\<close>

datatype send_outcome = SendOk string | SendErr error_class

fun outcome_state :: "send_outcome \<Rightarrow> delivery_state" where
  "outcome_state (SendOk m) = DSent"
| "outcome_state (SendErr c) = (if c = EProviderAmbiguous then DAmbiguous else DFailed)"

fun outcome_message_id :: "send_outcome \<Rightarrow> string option" where
  "outcome_message_id (SendOk m) = (if m = [] then None else Some m)"
| "outcome_message_id (SendErr c) = None"

fun outcome_error_class :: "send_outcome \<Rightarrow> string option" where
  "outcome_error_class (SendOk m) = None"
| "outcome_error_class (SendErr c) = Some (error_class_as_str c)"

section \<open>Statements\<close>

definition outbound_deliver_job_type :: string where
  "outbound_deliver_job_type = ''outbound.deliver''"

definition outbound_deliver_schema_version :: int where
  "outbound_deliver_schema_version = 1"

definition parse_outbound_id ::
  "(string \<Rightarrow> uuid option) \<Rightarrow> claimed_job \<Rightarrow> outbound_job_execution + uuid" where
  "parse_outbound_id parse_uuid job =
     (if cj_job_type job \<noteq> outbound_deliver_job_type then Inl InvalidJob
      else if cj_payload_version job \<noteq> outbound_deliver_schema_version then Inl InvalidJob
      else case Option.bind (Option.bind (json_get (cj_payload job) ''outbound_id'') json_as_str) parse_uuid of
        None \<Rightarrow> Inl InvalidJob
      | Some i \<Rightarrow> Inr i)"

text \<open>Every statement runs outside an explicit transaction and commits by itself.\<close>

definition autocommit ::
  "db_fault \<Rightarrow> ('z outbound_db_scheme, outbound_store_error, 'a) tx \<Rightarrow> 'z outbound_db_scheme \<Rightarrow>
   (outbound_store_error + 'a) \<times> 'z outbound_db_scheme" where
  "autocommit flt = run_tx flt OutboundStoreError OutboundStoreError"

definition job_lease_current ::
  "db_fault \<Rightarrow> instant \<Rightarrow> uuid \<Rightarrow> uuid \<Rightarrow> 'z outbound_db_scheme \<Rightarrow> (outbound_store_error + bool) \<times> 'z outbound_db_scheme"
  where
  "job_lease_current flt now jid tok =
     autocommit flt (txread (\<lambda>db. exists_where (lease_held now jid tok) (jobs db)))"

definition start_sending :: "instant \<Rightarrow> outbound_message \<Rightarrow> outbound_message" where
  "start_sending now m =
     m\<lparr>o_state := OSending, o_attempt_count := o_attempt_count m + 1, o_updated_at := now\<rparr>"

text \<open>The attempt counter is a 32-bit column: the server refuses an increment beyond its range.\<close>

definition reserve_outbound_under_lease ::
  "db_fault \<Rightarrow> instant \<Rightarrow> uuid \<Rightarrow> uuid \<Rightarrow> uuid \<Rightarrow> 'z outbound_db_scheme \<Rightarrow>
   (outbound_store_error + (string \<times> string) option) \<times> 'z outbound_db_scheme" where
  "reserve_outbound_under_lease flt now jid tok oid =
     autocommit flt (\<lambda>db.
       let p = (\<lambda>m. o_id m = oid \<and> (o_state m = OQueued \<or> o_state m = OFailed)
                    \<and> exists_where (lease_held now jid tok) (jobs db))
       in case find_where p (outbound_messages db) of
            None \<Rightarrow> Inr (None, db)
          | Some m \<Rightarrow>
              if i32_max < o_attempt_count m + 1 then Inl OutboundStoreError
              else Inr (Some (o_provider_target m, o_body m),
                     db\<lparr>outbound_messages := update_where p (start_sending now) (outbound_messages db)\<rparr>))"

definition mark_ambiguous :: "instant \<Rightarrow> outbound_message \<Rightarrow> outbound_message" where
  "mark_ambiguous now m =
     m\<lparr>o_state := OAmbiguous, o_last_error_class := Some (error_class_as_str EProviderAmbiguous),
       o_ambiguity_metadata := Some (JObject [(''reason'', JString ''recovered_after_unfinished_send'')]),
       o_updated_at := now\<rparr>"

definition mark_ambiguous_under_lease ::
  "db_fault \<Rightarrow> instant \<Rightarrow> uuid \<Rightarrow> uuid \<Rightarrow> uuid \<Rightarrow> 'z outbound_db_scheme \<Rightarrow>
   (outbound_store_error + bool) \<times> 'z outbound_db_scheme" where
  "mark_ambiguous_under_lease flt now jid tok oid =
     autocommit flt (\<lambda>db.
       let p = (\<lambda>m. o_id m = oid \<and> o_state m = OSending \<and> exists_where (lease_held now jid tok) (jobs db))
       in Inr (count_where p (outbound_messages db) = 1,
            db\<lparr>outbound_messages := update_where p (mark_ambiguous now) (outbound_messages db)\<rparr>))"

definition record_delivery ::
  "instant \<Rightarrow> delivery_state \<Rightarrow> string option \<Rightarrow> string option \<Rightarrow> outbound_message \<Rightarrow> outbound_message" where
  "record_delivery now st mid cls m =
     m\<lparr>o_state := stored_state st, o_provider_message_id := mid, o_last_error_class := cls,
       o_ambiguity_metadata :=
         (if delivery_state_as_str st = ''ambiguous''
          then Some (JObject [(''reason'', JString ''provider_result_ambiguous'')]) else None),
       o_updated_at := now\<rparr>"

definition update_delivery ::
  "db_fault \<Rightarrow> instant \<Rightarrow> uuid \<Rightarrow> delivery_state \<Rightarrow> string option \<Rightarrow> string option \<Rightarrow> 'z outbound_db_scheme \<Rightarrow>
   (outbound_store_error + unit) \<times> 'z outbound_db_scheme" where
  "update_delivery flt now oid st mid cls db =
     (let p = (\<lambda>m. o_id m = oid \<and> o_state m = OSending);
          res = autocommit flt (\<lambda>db. Inr (count_where p (outbound_messages db),
                  db\<lparr>outbound_messages := update_where p (record_delivery now st mid cls) (outbound_messages db)\<rparr>)) db
      in (case fst res of
            Inl e \<Rightarrow> (Inl e, snd res)
          | Inr n \<Rightarrow> (if n \<noteq> 1 then Inl OutboundStoreError else Inr (), snd res)))"

definition update_delivery_under_lease ::
  "db_fault \<Rightarrow> instant \<Rightarrow> uuid \<Rightarrow> uuid \<Rightarrow> uuid \<Rightarrow> delivery_state \<Rightarrow> string option \<Rightarrow> string option \<Rightarrow>
   'z outbound_db_scheme \<Rightarrow> (outbound_store_error + bool) \<times> 'z outbound_db_scheme" where
  "update_delivery_under_lease flt now jid tok oid st mid cls =
     autocommit flt (\<lambda>db.
       let p = (\<lambda>m. o_id m = oid \<and> o_state m = OSending \<and> exists_where (lease_held now jid tok) (jobs db))
       in Inr (count_where p (outbound_messages db) = 1,
            db\<lparr>outbound_messages := update_where p (record_delivery now st mid cls) (outbound_messages db)\<rparr>))"

section \<open>Delivery of a leased job\<close>

datatype deliver_pc =
  AtLookup uuid
| AtSendingLease uuid
| AtMarkAmbiguous uuid
| AtReserve uuid
| AtMissedLease uuid
| AtRefresh uuid
| AtSend uuid string string
| AtSentLease uuid send_outcome
| AtRecord uuid send_outcome
| Finished "outbound_store_error + outbound_job_execution"

text \<open>What one await meets: the clock and the fault of the database call, or the provider's answer.\<close>

record deliver_input =
  di_now :: instant
  di_fault :: db_fault
  di_answer :: send_outcome

definition complete_with :: "uuid \<Rightarrow> delivery_state \<Rightarrow> deliver_pc" where
  "complete_with oid st = Finished (Inr (ExecComplete \<lparr>dr_outbound_id = oid, dr_state = st\<rparr>))"

definition deliver_start :: "(string \<Rightarrow> uuid option) \<Rightarrow> claimed_job \<Rightarrow> deliver_pc" where
  "deliver_start parse_uuid job =
     (case parse_outbound_id parse_uuid job of Inl oc \<Rightarrow> Finished (Inr oc) | Inr oid \<Rightarrow> AtLookup oid)"

text \<open>Continue with the answer of a database call, or stop with its error.\<close>

definition on_answer ::
  "(outbound_store_error + 'a) \<times> 'd \<Rightarrow> ('a \<Rightarrow> deliver_pc) \<Rightarrow> deliver_pc \<times> 'd" where
  "on_answer r k = (case fst r of Inl e \<Rightarrow> Finished (Inl e) | Inr a \<Rightarrow> k a, snd r)"

definition after_lookup :: "claimed_job \<Rightarrow> uuid \<Rightarrow> outbound_message option \<Rightarrow> deliver_pc" where
  "after_lookup job oid row =
     (case row of
        None \<Rightarrow> Finished (Inr InvalidJob)
      | Some m \<Rightarrow>
          if cj_dedupe_key job \<noteq> outbound_deliver_job_type @ '':'' @ o_idempotency_key m
          then Finished (Inr InvalidJob)
          else (case o_state m of
                  OSent \<Rightarrow> complete_with oid DSent
                | OAmbiguous \<Rightarrow> complete_with oid DAmbiguous
                | OSending \<Rightarrow> AtSendingLease oid
                | OQueued \<Rightarrow> AtReserve oid
                | OFailed \<Rightarrow> AtReserve oid
                | OSuppressed \<Rightarrow> Finished (Inr InvalidJob)))"

definition after_record :: "uuid \<Rightarrow> send_outcome \<Rightarrow> bool \<Rightarrow> deliver_pc" where
  "after_record oid oc updated =
     (if \<not> updated then Finished (Inr StaleLease)
      else case oc of
        SendOk m \<Rightarrow> complete_with oid DSent
      | SendErr c \<Rightarrow>
          if outcome_state oc = DAmbiguous then complete_with oid DAmbiguous
          else Finished (Inr (ExecFail c)))"

fun deliver_step ::
  "claimed_job \<Rightarrow> deliver_input \<Rightarrow> deliver_pc \<Rightarrow> 'z outbound_db_scheme \<Rightarrow> deliver_pc \<times> 'z outbound_db_scheme" where
  "deliver_step job inp (AtLookup oid) db =
     on_answer (autocommit (di_fault inp) (txread (\<lambda>db. find_where (\<lambda>m. o_id m = oid) (outbound_messages db))) db)
       (after_lookup job oid)"
| "deliver_step job inp (AtSendingLease oid) db =
     on_answer (job_lease_current (di_fault inp) (di_now inp) (cj_id job) (cj_lease_token job) db)
       (\<lambda>current. if \<not> current then Finished (Inr StaleLease) else AtMarkAmbiguous oid)"
| "deliver_step job inp (AtMarkAmbiguous oid) db =
     on_answer (mark_ambiguous_under_lease (di_fault inp) (di_now inp) (cj_id job) (cj_lease_token job) oid db)
       (\<lambda>updated. if \<not> updated then Finished (Inr StaleLease) else complete_with oid DAmbiguous)"
| "deliver_step job inp (AtReserve oid) db =
     on_answer (reserve_outbound_under_lease (di_fault inp) (di_now inp) (cj_id job) (cj_lease_token job) oid db)
       (\<lambda>reserved. case reserved of None \<Rightarrow> AtMissedLease oid | Some (target, body) \<Rightarrow> AtSend oid target body)"
| "deliver_step job inp (AtMissedLease oid) db =
     on_answer (job_lease_current (di_fault inp) (di_now inp) (cj_id job) (cj_lease_token job) db)
       (\<lambda>current. if \<not> current then Finished (Inr StaleLease) else AtRefresh oid)"
| "deliver_step job inp (AtRefresh oid) db =
     on_answer (autocommit (di_fault inp)
         (txread (\<lambda>db. map_option o_state (find_where (\<lambda>m. o_id m = oid) (outbound_messages db)))) db)
       (\<lambda>st. case st of
           Some OSent \<Rightarrow> complete_with oid DSent
         | Some OAmbiguous \<Rightarrow> complete_with oid DAmbiguous
         | _ \<Rightarrow> Finished (Inr StaleLease))"
| "deliver_step job inp (AtSend oid target body) db = (AtSentLease oid (di_answer inp), db)"
| "deliver_step job inp (AtSentLease oid oc) db =
     on_answer (job_lease_current (di_fault inp) (di_now inp) (cj_id job) (cj_lease_token job) db)
       (\<lambda>current. if \<not> current then Finished (Inr StaleLease) else AtRecord oid oc)"
| "deliver_step job inp (AtRecord oid oc) db =
     on_answer (update_delivery_under_lease (di_fault inp) (di_now inp) (cj_id job) (cj_lease_token job) oid
         (outcome_state oc) (outcome_message_id oc) (outcome_error_class oc) db)
       (after_record oid oc)"
| "deliver_step job inp (Finished r) db = (Finished r, db)"

text \<open>
  The whole function: each await is preceded by whatever others did to the database meanwhile.
\<close>

fun deliver_run ::
  "claimed_job \<Rightarrow> (deliver_input \<times> ('z outbound_db_scheme \<Rightarrow> 'z outbound_db_scheme)) list \<Rightarrow> deliver_pc \<Rightarrow>
   'z outbound_db_scheme \<Rightarrow> deliver_pc \<times> 'z outbound_db_scheme" where
  "deliver_run job [] pc db = (pc, db)"
| "deliver_run job ((inp, others) # ins) pc db =
     (case deliver_step job inp pc (others db) of (pc', db') \<Rightarrow> deliver_run job ins pc' db')"

definition deliver_for_job ::
  "(string \<Rightarrow> uuid option) \<Rightarrow> claimed_job \<Rightarrow>
   (deliver_input \<times> ('z outbound_db_scheme \<Rightarrow> 'z outbound_db_scheme)) list \<Rightarrow>
   'z outbound_db_scheme \<Rightarrow> deliver_pc \<times> 'z outbound_db_scheme" where
  "deliver_for_job parse_uuid job ins db = deliver_run job ins (deliver_start parse_uuid job) db"

section \<open>Delivery of the next queued message\<close>

datatype next_pc =
  NextReserve
| NextSend uuid string string
| NextRecord uuid send_outcome
| NextDone "outbound_store_error + delivery_result option"

text \<open>The oldest queued message whose row no other transaction holds.\<close>

definition next_candidate :: "(uuid \<Rightarrow> bool) \<Rightarrow> outbound_message list \<Rightarrow> outbound_message option" where
  "next_candidate locked ms =
     (case sort_key (\<lambda>m. (o_created_at m, o_id m))
        (filter (\<lambda>m. o_state m = OQueued \<and> o_provider_scope m = ''zalo_bot'' \<and> \<not> locked (o_id m)) ms) of
        [] \<Rightarrow> None
      | m # _ \<Rightarrow> Some m)"

definition reserve_next ::
  "db_fault \<Rightarrow> instant \<Rightarrow> (uuid \<Rightarrow> bool) \<Rightarrow> 'z outbound_db_scheme \<Rightarrow>
   (outbound_store_error + (uuid \<times> string \<times> string) option) \<times> 'z outbound_db_scheme" where
  "reserve_next flt now locked =
     autocommit flt (\<lambda>db.
       case next_candidate locked (outbound_messages db) of
         None \<Rightarrow> Inr (None, db)
       | Some m \<Rightarrow>
           if i32_max < o_attempt_count m + 1 then Inl OutboundStoreError
           else Inr (Some (o_id m, o_provider_target m, o_body m),
                  db\<lparr>outbound_messages := update_where (\<lambda>x. o_id x = o_id m) (start_sending now)
                                          (outbound_messages db)\<rparr>))"

record next_input = deliver_input +
  ni_locked :: "uuid \<Rightarrow> bool"

fun next_step :: "next_input \<Rightarrow> next_pc \<Rightarrow> 'z outbound_db_scheme \<Rightarrow> next_pc \<times> 'z outbound_db_scheme" where
  "next_step inp NextReserve db =
     (let r = reserve_next (di_fault inp) (di_now inp) (ni_locked inp) db
      in (case fst r of
            Inl e \<Rightarrow> NextDone (Inl e)
          | Inr None \<Rightarrow> NextDone (Inr None)
          | Inr (Some (oid, target, body)) \<Rightarrow> NextSend oid target body, snd r))"
| "next_step inp (NextSend oid target body) db = (NextRecord oid (di_answer inp), db)"
| "next_step inp (NextRecord oid oc) db =
     (let r = update_delivery (di_fault inp) (di_now inp) oid (outcome_state oc) (outcome_message_id oc)
                (outcome_error_class oc) db
      in (case fst r of
            Inl e \<Rightarrow> NextDone (Inl e)
          | Inr _ \<Rightarrow> NextDone (Inr (Some \<lparr>dr_outbound_id = oid, dr_state = outcome_state oc\<rparr>)), snd r))"
| "next_step inp (NextDone r) db = (NextDone r, db)"

fun next_run ::
  "(next_input \<times> ('z outbound_db_scheme \<Rightarrow> 'z outbound_db_scheme)) list \<Rightarrow> next_pc \<Rightarrow>
   'z outbound_db_scheme \<Rightarrow> next_pc \<times> 'z outbound_db_scheme" where
  "next_run [] pc db = (pc, db)"
| "next_run ((inp, others) # ins) pc db =
     (case next_step inp pc (others db) of (pc', db') \<Rightarrow> next_run ins pc' db')"

definition deliver_next ::
  "(next_input \<times> ('z outbound_db_scheme \<Rightarrow> 'z outbound_db_scheme)) list \<Rightarrow> 'z outbound_db_scheme \<Rightarrow>
   next_pc \<times> 'z outbound_db_scheme" where
  "deliver_next ins = next_run ins NextReserve"

end
