(* ===== verification/Outbound_Protocol.thy ===== *)
theory Outbound_Protocol
  imports Outbound Work_Queue
begin

text \<open>
  Delivery as a protocol: any number of workers run \<open>deliver_for_job\<close> and \<open>deliver_next\<close> step by step,
  crash, lose their leases, while the work queue moves on, messages are inserted and accounts
  deleted. A log records every request that reaches the provider with its answer. The
  theorem: a message is sent again only if the provider refused it definitely before.
\<close>

section \<open>The world\<close>

datatype worker = JobWorker claimed_job deliver_pc | NextWorker next_pc

text \<open>Where a worker stands with its message: not holding one, about to send, or holding the answer.\<close>

datatype flight = Grounded | Ready uuid | Landed uuid send_outcome

fun job_flight :: "deliver_pc \<Rightarrow> flight" where
  "job_flight (AtSend i _ _) = Ready i"
| "job_flight (AtSentLease i oc) = Landed i oc"
| "job_flight (AtRecord i oc) = Landed i oc"
| "job_flight _ = Grounded"

fun next_flight :: "next_pc \<Rightarrow> flight" where
  "next_flight (NextSend i _ _) = Ready i"
| "next_flight (NextRecord i oc) = Landed i oc"
| "next_flight _ = Grounded"

fun worker_flight :: "worker option \<Rightarrow> flight" where
  "worker_flight None = Grounded"
| "worker_flight (Some (JobWorker job pc)) = job_flight pc"
| "worker_flight (Some (NextWorker pc)) = next_flight pc"

fun holds :: "flight \<Rightarrow> uuid \<Rightarrow> bool" where
  "holds Grounded i = False"
| "holds (Ready j) i = (j = i)"
| "holds (Landed j oc) i = (j = i)"

type_synonym send_log = "(uuid \<times> send_outcome) list"

record 'd world =
  db :: 'd
  workers :: "nat \<Rightarrow> worker option"
  sends :: send_log

text \<open>The request a step makes to the provider, if any.\<close>

fun job_request :: "deliver_input \<Rightarrow> deliver_pc \<Rightarrow> send_log" where
  "job_request inp (AtSend i _ _) = [(i, di_answer inp)]"
| "job_request inp _ = []"

fun next_request :: "next_input \<Rightarrow> next_pc \<Rightarrow> send_log" where
  "next_request inp (NextSend i _ _) = [(i, di_answer inp)]"
| "next_request inp _ = []"

inductive world_step :: "(string \<Rightarrow> uuid option) \<Rightarrow> 'z outbound_db_scheme world \<Rightarrow> 'z outbound_db_scheme world \<Rightarrow> bool"
  for parse_uuid where
  start_job: "workers w n = None \<Longrightarrow>
    world_step parse_uuid w (w\<lparr>workers := (workers w)(n := Some (JobWorker job (deliver_start parse_uuid job)))\<rparr>)"
| start_next: "workers w n = None \<Longrightarrow>
    world_step parse_uuid w (w\<lparr>workers := (workers w)(n := Some (NextWorker NextReserve))\<rparr>)"
| job_moves: "workers w n = Some (JobWorker job pc) \<Longrightarrow> deliver_step job inp pc (db w) = (pc', d') \<Longrightarrow>
    world_step parse_uuid w
      \<lparr>db = d', workers = (workers w)(n := Some (JobWorker job pc')), sends = sends w @ job_request inp pc\<rparr>"
| next_moves: "workers w n = Some (NextWorker pc) \<Longrightarrow> next_step inp pc (db w) = (pc', d') \<Longrightarrow>
    world_step parse_uuid w
      \<lparr>db = d', workers = (workers w)(n := Some (NextWorker pc')), sends = sends w @ next_request inp pc\<rparr>"
| crash: "world_step parse_uuid w (w\<lparr>workers := (workers w)(n := None)\<rparr>)"
| queue_moves: "work_step (db w) d' \<Longrightarrow> world_step parse_uuid w (w\<lparr>db := d'\<rparr>)"
| insert_message: "o_state m = OQueued \<Longrightarrow> o_id m \<notin> o_id ` set (outbound_messages (db w)) \<Longrightarrow>
    o_id m \<notin> fst ` set (sends w) \<Longrightarrow> (\<And>n. \<not> holds (worker_flight (workers w n)) (o_id m)) \<Longrightarrow>
    world_step parse_uuid w (w\<lparr>db := (db w)\<lparr>outbound_messages := outbound_messages (db w) @ [m]\<rparr>\<rparr>)"
| delete_messages: "world_step parse_uuid w
    (w\<lparr>db := (db w)\<lparr>outbound_messages := delete_where (\<lambda>m. o_account_id m = Some a) (outbound_messages (db w))\<rparr>\<rparr>)"

section \<open>The invariant\<close>

definition definite :: "send_outcome \<Rightarrow> bool" where
  "definite oc \<longleftrightarrow> (\<exists>c. oc = SendErr c \<and> c \<noteq> EProviderAmbiguous)"

definition clean :: "send_log \<Rightarrow> uuid \<Rightarrow> bool" where
  "clean l i \<longleftrightarrow> (\<forall>(j, oc) \<in> set l. j = i \<longrightarrow> definite oc)"

text \<open>Whoever sends a message again does so after definite refusals only.\<close>

definition no_blind_resend :: "send_log \<Rightarrow> bool" where
  "no_blind_resend l \<longleftrightarrow> (\<forall>xs i oc ys. l = xs @ (i, oc) # ys \<longrightarrow> clean xs i)"

definition idle :: "outbound_message \<Rightarrow> bool" where
  "idle m \<longleftrightarrow> o_state m = OQueued \<or> o_state m = OFailed \<or> o_state m = OSuppressed"

definition delivery_inv :: "outbound_message list \<Rightarrow> (nat \<Rightarrow> flight) \<Rightarrow> send_log \<Rightarrow> bool" where
  "delivery_inv ms fl l \<longleftrightarrow>
     distinct (map o_id ms)
     \<and> (\<forall>m \<in> set ms. idle m \<longrightarrow> clean l (o_id m) \<and> (\<forall>n. \<not> holds (fl n) (o_id m)))
     \<and> (\<forall>n n' i. holds (fl n) i \<longrightarrow> holds (fl n') i \<longrightarrow> n = n')
     \<and> (\<forall>n i. fl n = Ready i \<longrightarrow> clean l i)
     \<and> (\<forall>n i oc. fl n = Landed i oc \<longrightarrow> definite oc \<longrightarrow> clean l i)
     \<and> no_blind_resend l"

definition world_inv :: "'z outbound_db_scheme world \<Rightarrow> bool" where
  "world_inv w \<longleftrightarrow> delivery_inv (outbound_messages (db w)) (\<lambda>n. worker_flight (workers w n)) (sends w)"

lemma delivery_invD:
  assumes "delivery_inv ms fl l"
  shows "distinct (map o_id ms)"
    and "m \<in> set ms \<Longrightarrow> idle m \<Longrightarrow> clean l (o_id m)"
    and "m \<in> set ms \<Longrightarrow> idle m \<Longrightarrow> \<not> holds (fl n) (o_id m)"
    and "holds (fl n) i \<Longrightarrow> holds (fl n') i \<Longrightarrow> n = n'"
    and "fl n = Ready i \<Longrightarrow> clean l i"
    and "fl n = Landed i oc \<Longrightarrow> definite oc \<Longrightarrow> clean l i"
    and "no_blind_resend l"
  using assms unfolding delivery_inv_def by blast+

lemma clean_snoc [simp]: "clean (l @ [(j, oc)]) i \<longleftrightarrow> clean l i \<and> (j = i \<longrightarrow> definite oc)"
  by (auto simp: clean_def)

lemma no_blind_resend_snoc: "no_blind_resend l \<Longrightarrow> clean l i \<Longrightarrow> no_blind_resend (l @ [(i, oc)])"
  unfolding no_blind_resend_def by (auto simp: append_eq_append_conv2 Cons_eq_append_conv append_eq_Cons_conv)

section \<open>The moves of the protocol\<close>

text \<open>Letting go of a message.\<close>

lemma inv_ground: "delivery_inv ms fl l \<Longrightarrow> delivery_inv ms (fl(n := Grounded)) l"
  unfolding delivery_inv_def by (simp split: if_split)

text \<open>A change of rows that makes a message idle only when that is justified.\<close>

lemma inv_update:
  assumes inv: "delivery_inv ms fl l" and f: "\<And>m. o_id (f m) = o_id m"
    and ok: "\<And>m. m \<in> set ms \<Longrightarrow> p m \<Longrightarrow> idle (f m) \<Longrightarrow> clean l (o_id m) \<and> (\<forall>n. \<not> holds (fl n) (o_id m))"
  shows "delivery_inv (update_where p f ms) fl l"
proof -
  have "map o_id (update_where p f ms) = map o_id ms" by (rule map_update_where) (rule f)
  moreover have "clean l (o_id m) \<and> (\<forall>n. \<not> holds (fl n) (o_id m))"
    if "m \<in> set (update_where p f ms)" "idle m" for m
    using that delivery_invD(2,3) [OF inv] ok by (auto simp: set_update_where f)
  ultimately show ?thesis using inv unfolding delivery_inv_def by simp
qed

text \<open>Taking a message: nobody else holds it, and it was only refused before.\<close>

lemma inv_reserve:
  assumes inv: "delivery_inv ms fl l" and m: "m \<in> set ms" "idle m" "p m" and p: "\<And>x. p x \<Longrightarrow> o_id x = o_id m"
    and f: "\<And>x. o_id (f x) = o_id x" "\<And>x. \<not> idle (f x)" and n: "fl n = Grounded"
  shows "delivery_inv (update_where p f ms) (fl(n := Ready (o_id m))) l"
proof -
  let ?ms = "update_where p f ms" and ?fl = "fl(n := Ready (o_id m))"
  note D = delivery_invD [OF inv]
  have upd: "delivery_inv ?ms fl l" by (rule inv_update [OF inv]) (use f in auto)
  note D' = delivery_invD [OF upd]
  have other: "o_id x \<noteq> o_id m" if "x \<in> set ?ms" "idle x" for x
  proof
    assume eq: "o_id x = o_id m"
    from that f(2) have "x \<in> set ms" "\<not> p x" by (auto simp: set_update_where)
    then have "x = m" using distinct_key_eq [OF D(1) _ m(1)] eq by blast
    with \<open>\<not> p x\<close> m(3) show False by blast
  qed
  have free: "\<not> holds (fl k) (o_id m)" for k by (rule D(3) [OF m(1,2)])
  have cl: "clean l (o_id m)" by (rule D(2) [OF m(1,2)])
  have "\<forall>x \<in> set ?ms. idle x \<longrightarrow> clean l (o_id x) \<and> (\<forall>k. \<not> holds (?fl k) (o_id x))"
  proof (intro ballI impI conjI allI)
    fix x k assume x: "x \<in> set ?ms" "idle x"
    show "clean l (o_id x)" by (rule D'(2) [OF x])
    show "\<not> holds (?fl k) (o_id x)" using D'(3) [OF x, of k] other [OF x] by (cases "k = n") simp_all
  qed
  moreover have "\<forall>k k' i. holds (?fl k) i \<longrightarrow> holds (?fl k') i \<longrightarrow> k = k'" using D(4) free by auto
  moreover have "\<forall>k i. ?fl k = Ready i \<longrightarrow> clean l i" using D(5) cl by auto
  moreover have "\<forall>k i oc. ?fl k = Landed i oc \<longrightarrow> definite oc \<longrightarrow> clean l i" using D(6) by auto
  ultimately show ?thesis using D'(1) D(7) unfolding delivery_inv_def by blast
qed

text \<open>Sending it.\<close>

lemma inv_send:
  assumes inv: "delivery_inv ms fl l" and n: "fl n = Ready i"
  shows "delivery_inv ms (fl(n := Landed i oc)) (l @ [(i, oc)])"
proof -
  let ?fl = "fl(n := Landed i oc)" and ?l = "l @ [(i, oc)]"
  note D = delivery_invD [OF inv]
  have hn: "holds (fl n) i" using n by simp
  have only: "k = n" if "holds (fl k) i" for k by (rule D(4) [OF that hn])
  have same: "holds (?fl k) j \<longleftrightarrow> holds (fl k) j" for k j using n by auto
  have "\<forall>m \<in> set ms. idle m \<longrightarrow> clean ?l (o_id m) \<and> (\<forall>k. \<not> holds (?fl k) (o_id m))"
    unfolding same using D(2,3) hn by auto
  moreover have "\<forall>k k' j. holds (?fl k) j \<longrightarrow> holds (?fl k') j \<longrightarrow> k = k'"
    unfolding same using D(4) by blast
  moreover have "clean ?l j" if "?fl k = Ready j" for k j
    using that D(5) [of k j] only [of k] by (auto split: if_splits)
  moreover have "clean ?l j" if "?fl k = Landed j oc'" "definite oc'" for k j oc'
    using that D(5) [OF n] D(6) [of k j oc'] only [of k] by (auto split: if_splits)
  ultimately show ?thesis
    using D(1) no_blind_resend_snoc [OF D(7) D(5) [OF n]] unfolding delivery_inv_def by blast
qed

text \<open>Writing the answer down.\<close>

lemma inv_record:
  assumes inv: "delivery_inv ms fl l" and n: "fl n = Landed i oc"
    and p: "\<And>x. p x \<Longrightarrow> o_id x = i" and f: "\<And>x. o_id (f x) = o_id x" "\<And>x. idle (f x) \<Longrightarrow> definite oc"
  shows "delivery_inv (update_where p f ms) (fl(n := Grounded)) l"
proof (rule inv_update [OF inv_ground [OF inv]])
  note D = delivery_invD [OF inv]
  fix m assume "m \<in> set ms" "p m" "idle (f m)"
  then show "clean l (o_id m) \<and> (\<forall>k. \<not> holds ((fl(n := Grounded)) k) (o_id m))"
    using p f(2) D(6) [OF n] D(4) [of n i] n by (auto split: if_splits)
qed (rule f(1))

section \<open>The machines make these moves\<close>

lemma autocommit_cases:
  obtains (rolled_back) e where "autocommit flt m s = (Inl e, s)"
    | (lost_ack) a s' where "m s = Inr (a, s')" "autocommit flt m s = (Inl OutboundStoreError, s')"
    | (committed) a s' where "m s = Inr (a, s')" "autocommit flt m s = (Inr a, s')"
  unfolding autocommit_def by (cases rule: run_tx_cases [of flt OutboundStoreError OutboundStoreError m s]) blast+

lemma on_answer_simps [simp]:
  "on_answer (Inl e, d) k = (Finished (Inl e), d)" "on_answer (Inr a, d) k = (k a, d)"
  by (simp_all add: on_answer_def)

lemma read_keeps: "snd (autocommit flt (txread f) d) = d"
  by (cases rule: autocommit_cases [of flt "txread f" d]) simp_all

lemma on_answer_grounded:
  assumes "on_answer r k = (pc', d')" "\<And>a. job_flight (k a) = Grounded"
  shows "job_flight pc' = Grounded" "d' = snd r"
  using assms by (auto simp: on_answer_def split: sum.splits)

lemma on_answer_read:
  assumes "on_answer (autocommit flt (txread f) d) k = (pc', d')"
  shows "d' = d \<and> ((\<exists>e. pc' = Finished (Inl e)) \<or> (\<exists>a. pc' = k a))"
  using assms read_keeps [of flt f d] by (auto simp: on_answer_def split: sum.splits)

lemma change_sel [simp]:
  "o_id (start_sending now m) = o_id m" "o_id (mark_ambiguous now m) = o_id m"
  "o_id (record_delivery now st mid cls m) = o_id m"
  "\<not> idle (start_sending now m)" "\<not> idle (mark_ambiguous now m)"
  "idle (record_delivery now (outcome_state oc) mid cls m) \<longleftrightarrow> definite oc"
  by (simp_all add: start_sending_def mark_ambiguous_def record_delivery_def idle_def)
    (cases oc; simp add: definite_def)

lemma inv_record_delivery:
  assumes "delivery_inv ms fl l" "fl n = Landed i oc" "\<And>x. p x \<Longrightarrow> o_id x = i"
  shows "delivery_inv (update_where p (record_delivery now (outcome_state oc) mid cls) ms) (fl(n := Grounded)) l"
  by (rule inv_record [OF assms(1,2)]) (use assms(3) in simp_all)

lemma inv_mark_ambiguous:
  "delivery_inv ms fl l \<Longrightarrow> delivery_inv (update_where p (mark_ambiguous now) ms) fl l"
  by (rule inv_update) simp_all

lemma inv_insert:
  assumes inv: "delivery_inv ms fl l" and m: "o_id m \<notin> o_id ` set ms" "o_id m \<notin> fst ` set l"
    and free: "\<And>n. \<not> holds (fl n) (o_id m)"
  shows "delivery_inv (ms @ [m]) fl l"
proof -
  have "clean l (o_id m)" using m(2) by (force simp: clean_def)
  then have "\<forall>x \<in> set (ms @ [m]). idle x \<longrightarrow> clean l (o_id x) \<and> (\<forall>n. \<not> holds (fl n) (o_id x))"
    using delivery_invD(2,3) [OF inv] free by auto
  moreover have "distinct (map o_id (ms @ [m]))" using delivery_invD(1) [OF inv] m(1) by auto
  ultimately show ?thesis using inv unfolding delivery_inv_def by blast
qed

lemma inv_delete: "delivery_inv ms fl l \<Longrightarrow> delivery_inv (delete_where p ms) fl l"
  unfolding delivery_inv_def delete_where_def by (simp add: distinct_map_filter)

text \<open>What the statements do to the table.\<close>

definition reservable :: "instant \<Rightarrow> claimed_job \<Rightarrow> uuid \<Rightarrow> 'z outbound_db_scheme \<Rightarrow> outbound_message \<Rightarrow> bool" where
  "reservable now job i d m \<longleftrightarrow>
     o_id m = i \<and> (o_state m = OQueued \<or> o_state m = OFailed)
     \<and> exists_where (lease_held now (cj_id job) (cj_lease_token job)) (jobs d)"

lemma reserve_result:
  assumes "reserve_outbound_under_lease flt now (cj_id job) (cj_lease_token job) i d = (r, d')"
  shows "d' = d \<and> (r = Inr None \<or> (\<exists>e. r = Inl e))
    \<or> (\<exists>m. m \<in> set (outbound_messages d) \<and> reservable now job i d m
        \<and> d' = d\<lparr>outbound_messages := update_where (reservable now job i d) (start_sending now) (outbound_messages d)\<rparr>
        \<and> (r = Inr (Some (o_provider_target m, o_body m)) \<or> r = Inl OutboundStoreError))"
proof -
  have p: "(\<lambda>m. o_id m = i \<and> (o_state m = OQueued \<or> o_state m = OFailed)
      \<and> exists_where (lease_held now (cj_id job) (cj_lease_token job)) (jobs d)) = reservable now job i d"
    by (simp add: reservable_def fun_eq_iff)
  show ?thesis
    using assms unfolding reserve_outbound_under_lease_def autocommit_def run_tx_def Let_def p
    by (auto dest: find_where_SomeD split: option.splits if_splits)
qed

lemma reservableD: "reservable now job i d m \<Longrightarrow> idle m \<and> o_id m = i"
  by (auto simp: reservable_def idle_def)

definition recordable :: "instant \<Rightarrow> uuid \<Rightarrow> uuid \<Rightarrow> uuid \<Rightarrow> 'z outbound_db_scheme \<Rightarrow> outbound_message \<Rightarrow> bool" where
  "recordable now jid tok i d m \<longleftrightarrow>
     o_id m = i \<and> o_state m = OSending \<and> exists_where (lease_held now jid tok) (jobs d)"

lemma recordable_eq:
  "(\<lambda>m. o_id m = i \<and> o_state m = OSending \<and> exists_where (lease_held now jid tok) (jobs d)) = recordable now jid tok i d"
  by (simp add: recordable_def fun_eq_iff)

lemma ambiguous_result:
  assumes "mark_ambiguous_under_lease flt now jid tok i d = (r, d')"
  shows "d' = d \<or> d' = d\<lparr>outbound_messages := update_where (recordable now jid tok i d) (mark_ambiguous now) (outbound_messages d)\<rparr>"
  using assms unfolding mark_ambiguous_under_lease_def autocommit_def run_tx_def Let_def recordable_eq
  by (auto split: if_splits)

lemma record_result:
  assumes "update_delivery_under_lease flt now jid tok i st mid cls d = (r, d')"
  shows "d' = d \<or> d' = d\<lparr>outbound_messages :=
    update_where (recordable now jid tok i d) (record_delivery now st mid cls) (outbound_messages d)\<rparr>"
  using assms unfolding update_delivery_under_lease_def autocommit_def run_tx_def Let_def recordable_eq
  by (auto split: if_splits)

lemma job_flight_grounded [simp]:
  "job_flight (after_lookup job i row) = Grounded" "job_flight (after_record i oc b) = Grounded"
  "job_flight (complete_with i st) = Grounded" "job_flight (deliver_start parse_uuid job) = Grounded"
  by (auto simp: after_lookup_def after_record_def complete_with_def deliver_start_def
      split: option.splits outbound_state.splits send_outcome.splits sum.splits)

lemma deliver_step_moves:
  assumes inv: "delivery_inv (outbound_messages d) fl l" and n: "fl n = job_flight pc"
    and step: "deliver_step job inp pc d = (pc', d')"
  shows "delivery_inv (outbound_messages d') (fl(n := job_flight pc')) (l @ job_request inp pc)"
proof (cases pc)
  case (AtReserve i)
  let ?res = "reserve_outbound_under_lease (di_fault inp) (di_now inp) (cj_id job) (cj_lease_token job) i d"
  let ?p = "reservable (di_now inp) job i d" and ?f = "start_sending (di_now inp)"
  have same: "fl(n := Grounded) = fl" using n AtReserve by auto
  have taken: "delivery_inv (update_where ?p ?f (outbound_messages d)) (fl(n := Ready i)) l"
    if "m \<in> set (outbound_messages d)" "?p m" for m
  proof -
    have m: "idle m" "o_id m = i" using reservableD [OF that(2)] by auto
    have "o_id x = o_id m" if "?p x" for x using reservableD [OF that] m(2) by simp
    from inv_reserve [where p = ?p and f = ?f and m = m and n = n, OF inv that(1) m(1) that(2) this] n AtReserve m(2) show ?thesis by simp
  qed
  have dropped: "delivery_inv (update_where ?p ?f (outbound_messages d)) fl l"
    if "m \<in> set (outbound_messages d)" "?p m" for m
    using inv_ground [OF taken [OF that], of n] same by simp
  obtain r where r: "?res = (r, d')" using step AtReserve by (cases ?res) (auto simp: on_answer_def)
  show ?thesis
    using reserve_result [OF r] step AtReserve inv same taken dropped r by (auto simp: on_answer_def)
next
  case (AtSend i t b)
  then show ?thesis using step inv_send [OF inv] n by auto
next
  case (AtRecord i oc)
  have g: "job_flight pc' = Grounded"
    using step AtRecord by (auto simp: on_answer_def split: sum.splits)
  let ?p = "recordable (di_now inp) (cj_id job) (cj_lease_token job) i d"
  have p: "o_id x = i" if "?p x" for x using that by (simp add: recordable_def)
  obtain r where "update_delivery_under_lease (di_fault inp) (di_now inp) (cj_id job) (cj_lease_token job) i
      (outcome_state oc) (outcome_message_id oc) (outcome_error_class oc) d = (r, d')"
    using step AtRecord by (auto simp: on_answer_def split: sum.splits) (metis prod.collapse)+
  from record_result [OF this] show ?thesis
    using inv_record_delivery [OF inv, where n = n and i = i and oc = oc and p = ?p, OF _ p] inv_ground [OF inv] n AtRecord g
    by auto
next
  case (AtMarkAmbiguous i)
  have g: "job_flight pc' = Grounded" "fl(n := Grounded) = fl"
    using step AtMarkAmbiguous n by (auto simp: on_answer_def split: sum.splits if_splits)
  obtain r where "mark_ambiguous_under_lease (di_fault inp) (di_now inp) (cj_id job) (cj_lease_token job) i d = (r, d')"
    using step AtMarkAmbiguous by (auto simp: on_answer_def split: sum.splits) (metis prod.collapse)+
  from ambiguous_result [OF this] show ?thesis
    using inv inv_mark_ambiguous [OF inv] g AtMarkAmbiguous by auto
next
  case (AtSentLease i oc)
  then have "on_answer (autocommit (di_fault inp)
        (txread (\<lambda>db. exists_where (lease_held (di_now inp) (cj_id job) (cj_lease_token job)) (jobs db))) d)
      (\<lambda>current. if \<not> current then Finished (Inr StaleLease) else AtRecord i oc) = (pc', d')"
    using step by (simp add: job_lease_current_def)
  from on_answer_read [OF this] have "d' = d \<and> (pc' = AtRecord i oc \<or> job_flight pc' = Grounded)"
    by (auto split: if_splits)
  then show ?thesis using inv inv_ground [OF inv] n AtSentLease fun_upd_triv [of fl n] by auto
qed (use step inv n fun_upd_triv [of fl n] in
  \<open>fastforce simp: job_lease_current_def dest!: on_answer_read split: if_splits option.splits outbound_state.splits\<close>)+

lemma next_candidateD:
  assumes "next_candidate locked ms = Some m"
  shows "m \<in> set ms \<and> o_state m = OQueued"
proof -
  let ?fs = "filter (\<lambda>m. o_state m = OQueued \<and> o_provider_scope m = ''zalo_bot'' \<and> \<not> locked (o_id m)) ms"
  obtain xs where "sort_key (\<lambda>m. (o_created_at m, o_id m)) ?fs = m # xs"
    using assms by (auto simp: next_candidate_def split: list.splits)
  then have "m \<in> set (sort_key (\<lambda>m. (o_created_at m, o_id m)) ?fs)" by simp
  then show ?thesis by simp
qed

lemma reserve_next_result:
  assumes "reserve_next flt now locked d = (r, d')"
  shows "d' = d \<and> (r = Inr None \<or> (\<exists>e. r = Inl e))
    \<or> (\<exists>m. m \<in> set (outbound_messages d) \<and> idle m
        \<and> d' = d\<lparr>outbound_messages := update_where (\<lambda>x. o_id x = o_id m) (start_sending now) (outbound_messages d)\<rparr>
        \<and> (r = Inr (Some (o_id m, o_provider_target m, o_body m)) \<or> r = Inl OutboundStoreError))"
  using assms unfolding reserve_next_def autocommit_def run_tx_def
  by (auto dest!: next_candidateD simp: idle_def split: option.splits if_splits)

lemma update_delivery_result:
  assumes "update_delivery flt now i st mid cls d = (r, d')"
  shows "d' = d \<or> d' = d\<lparr>outbound_messages := update_where (\<lambda>m. o_id m = i \<and> o_state m = OSending)
    (record_delivery now st mid cls) (outbound_messages d)\<rparr>"
  using assms unfolding update_delivery_def autocommit_def run_tx_def Let_def
  by (auto split: if_splits sum.splits)

lemma next_step_moves:
  assumes inv: "delivery_inv (outbound_messages d) fl l" and n: "fl n = next_flight pc"
    and step: "next_step inp pc d = (pc', d')"
  shows "delivery_inv (outbound_messages d') (fl(n := next_flight pc')) (l @ next_request inp pc)"
proof (cases pc)
  case NextReserve
  let ?f = "start_sending (di_now inp)"
  have same: "fl(n := Grounded) = fl" using n NextReserve by auto
  have taken: "delivery_inv (update_where (\<lambda>x. o_id x = o_id m) ?f (outbound_messages d)) (fl(n := Ready (o_id m))) l"
    if "m \<in> set (outbound_messages d)" "idle m" for m
    using inv_reserve [where p = "\<lambda>x. o_id x = o_id m" and f = ?f and m = m and n = n, OF inv that] n NextReserve by simp
  have dropped: "delivery_inv (update_where (\<lambda>x. o_id x = o_id m) ?f (outbound_messages d)) fl l"
    if "m \<in> set (outbound_messages d)" "idle m" for m
    using inv_ground [OF taken [OF that], of n] same by simp
  obtain r where r: "reserve_next (di_fault inp) (di_now inp) (ni_locked inp) d = (r, d')"
    using step NextReserve by (cases "reserve_next (di_fault inp) (di_now inp) (ni_locked inp) d") (auto simp: Let_def)
  show ?thesis
    using reserve_next_result [OF r] step NextReserve inv same taken dropped r by (auto simp: Let_def)
next
  case (NextSend i t b)
  then show ?thesis using step inv_send [OF inv] n by auto
next
  case (NextRecord i oc)
  let ?p = "\<lambda>m. o_id m = i \<and> o_state m = OSending"
  have g: "next_flight pc' = Grounded"
    using step NextRecord by (auto simp: Let_def split: sum.splits)
  obtain r where "update_delivery (di_fault inp) (di_now inp) i
      (outcome_state oc) (outcome_message_id oc) (outcome_error_class oc) d = (r, d')"
    using step NextRecord by (auto simp: Let_def) (metis prod.collapse)
  from update_delivery_result [OF this] show ?thesis
    using inv_record_delivery [OF inv, where n = n and i = i and oc = oc and p = ?p] inv_ground [OF inv] n NextRecord g
    by auto
next
  case (NextDone r)
  then show ?thesis using step inv n fun_upd_triv [of fl n] by auto
qed

section \<open>All runs\<close>

text \<open>The work queue does not touch the messages.\<close>

lemmas keeps_more = run_tx_keeps [where P = "\<lambda>s. work_db.more s = work_db.more d" for d]

lemma claim_loop_more:
  "claim_loop env opts cs seen d = Inr (rs, d') \<Longrightarrow> work_db.more d' = work_db.more d"
proof (induction cs arbitrary: seen d rs)
  case (Cons c cs)
  then obtain r seen' d1 rest where one: "claim_one env opts c seen d = Inr ((r, seen'), d1)"
    and "claim_loop env opts cs seen' d1 = Inr (rest, d')" by (auto simp: tx_simps)
  with Cons.IH have "work_db.more d' = work_db.more d1" by blast
  moreover have "work_db.more d1 = work_db.more d"
    using one by (auto simp: claim_one_def reclaim_candidate_def lease_candidate_def close_open_attempt_def tx_simps Let_def
        split: option.splits if_splits)
  ultimately show ?case by simp
qed simp

lemma work_step_more: "work_step d d' \<Longrightarrow> work_db.more d' = work_db.more d"
proof (induction rule: work_step.induct)
  case (step_enqueue r db flt now)
  show ?case unfolding enqueue_def
    by (rule keeps_more) (auto simp: enqueue_in_transaction_def tx_simps split: sum.splits if_splits)
next
  case (step_claim env db opts)
  show ?case unfolding claim_def
    by (simp split: if_split, intro impI keeps_more) (auto dest: claim_bodyD claim_loop_more)
next
  case (step_heartbeat db flt now i tok dur)
  show ?case unfolding heartbeat_def by (simp split: if_split, intro impI keeps_more) (auto split: if_splits)
next
  case (step_complete db flt now i tok)
  show ?case unfolding complete_def by (rule keeps_more) (auto simp: close_open_attempt_def tx_simps split: if_splits)
next
  case (step_fail db flt now i tok cls)
  show ?case unfolding fail_def
    by (rule keeps_more) (auto simp: close_open_attempt_def tx_simps Let_def split: if_splits option.splits)
next
  case (step_cancel db flt now i tk)
  show ?case unfolding cancel_def cancel_active_def
    by (rule keeps_more) (auto simp: cancel_leased_def close_open_attempt_def tx_simps
        split: if_splits option.splits job_state.splits)
next
  case (step_cancel_operator db flt now i)
  show ?case unfolding cancel_by_operator_def cancel_active_def
    by (rule keeps_more) (auto simp: cancel_leased_def close_open_attempt_def tx_simps
        split: if_splits option.splits job_state.splits)
next
  case (step_cancel_queued flt now k db n db')
  then show ?case by (auto simp: cancel_queued_by_serialization_key_in_transaction_def tx_simps Let_def)
next
  case (step_recover db flt now i)
  show ?case unfolding recover_dead_def by (rule keeps_more) (auto simp: Let_def split: if_splits)
qed

lemma work_step_messages: "work_step d d' \<Longrightarrow> outbound_messages d' = outbound_messages d"
  for d :: "'z outbound_db_scheme"
  using work_step_more [of d d'] by (cases d; cases d') simp

lemma world_step_keeps: "world_step parse_uuid w w' \<Longrightarrow> world_inv w \<Longrightarrow> world_inv w'"
proof (induction rule: world_step.induct)
  case (job_moves w n job pc inp pc' d')
  then show ?case
    using deliver_step_moves [of "db w" "\<lambda>n. worker_flight (workers w n)" "sends w" n pc job inp pc' d']
    by (simp add: world_inv_def fun_upd_def if_distrib [of worker_flight] cong: if_cong)
next
  case (next_moves w n pc inp pc' d')
  then show ?case
    using next_step_moves [of "db w" "\<lambda>n. worker_flight (workers w n)" "sends w" n pc inp pc' d']
    by (simp add: world_inv_def fun_upd_def if_distrib [of worker_flight] cong: if_cong)
next
  case (insert_message m w)
  then show ?case unfolding world_inv_def by (simp add: inv_insert)
next
  case (delete_messages w a)
  then show ?case unfolding world_inv_def by (simp add: inv_delete)
next
  case (queue_moves w d')
  then show ?case by (simp add: world_inv_def work_step_messages)
qed (auto simp: world_inv_def fun_upd_def if_distrib [of worker_flight] cong: if_cong
     dest: inv_ground)

end
