(* ===== verification/Outbound_Properties.thy ===== *)
theory Outbound_Properties
  imports Outbound_Protocol Work_Properties
begin

text \<open>
  The properties of outbound delivery: no blind resend, fenced workers are harmless, every run of
  \<open>deliver_for_job\<close> ends, and what it answers and records.
\<close>

section \<open>A sample outbox\<close>

definition sample_message :: outbound_message where
  "sample_message =
     \<lparr>o_id = 7, o_account_id = None, o_inbound_event_id = None, o_idempotency_key = ''k1'',
      o_provider_scope = ''zalo_bot'', o_provider_target = ''chat1'', o_body = ''hi'', o_state = OQueued,
      o_provider_message_id = None, o_attempt_count = 0, o_last_error_class = None, o_ambiguity_metadata = None,
      o_created_at = 0, o_updated_at = 0\<rparr>"

definition sample_outbox :: outbound_db where
  "sample_outbox =
     \<lparr>jobs = [sample_leased_job], job_attempts = [sample_attempt], outbound_messages = [sample_message]\<rparr>"

definition sample_uuid :: "string \<Rightarrow> uuid option" where
  "sample_uuid s = (if s = ''m7'' then Some 7 else None)"

definition sample_claimed :: claimed_job where
  "sample_claimed =
     \<lparr>cj_id = 1, cj_job_type = ''outbound.deliver'',
      cj_payload = JObject [(''schema_version'', JInt 1), (''outbound_id'', JString ''m7'')],
      cj_payload_version = 1, cj_attempt_number = 1, cj_lease_token = 101, cj_lease_owner = ''w1'',
      cj_lease_deadline = 60000005, cj_dedupe_key = ''outbound.deliver:k1'', cj_serialization_key = None\<rparr>"

section \<open>No blind resend\<close>

definition quiet_world :: "'z outbound_db_scheme \<Rightarrow> 'z outbound_db_scheme world" where
  "quiet_world d = \<lparr>db = d, workers = (\<lambda>_. None), sends = []\<rparr>"

lemma quiet_world_inv: "distinct (map o_id (outbound_messages d)) \<Longrightarrow> world_inv (quiet_world d)"
  by (simp add: world_inv_def quiet_world_def delivery_inv_def clean_def no_blind_resend_def)

lemma world_steps_keep: "(world_step parse_uuid)\<^sup>*\<^sup>* w w' \<Longrightarrow> world_inv w \<Longrightarrow> world_inv w'"
  by (induction rule: rtranclp_induct) (auto intro: world_step_keeps)

text \<open>
C6: However many workers deliver, crash and lose their leases, and whatever the work queue does meanwhile: when
a message is handed to the provider once more, every earlier request for it was refused with an error class other
than the ambiguous one. A message whose request succeeded or ended in doubt is never sent again.
\<close>

theorem delivery_never_resends_blindly:
  assumes "(world_step parse_uuid)\<^sup>*\<^sup>* (quiet_world d) w" "distinct (map o_id (outbound_messages d))"
    and "sends w = xs @ (i, oc) # ys" "(i, oc') \<in> set xs"
  shows "\<exists>c. oc' = SendErr c \<and> c \<noteq> EProviderAmbiguous"
proof -
  have "world_inv w" by (rule world_steps_keep [OF assms(1) quiet_world_inv [OF assms(2)]])
  then have "clean xs i"
    using assms(3) unfolding world_inv_def delivery_inv_def no_blind_resend_def by blast
  then show ?thesis using assms(4) by (auto simp: clean_def definite_def)
qed

text \<open>Two requests for one message: the first is refused, the second succeeds.\<close>

definition next_input_of :: "send_outcome \<Rightarrow> next_input" where
  "next_input_of oc = \<lparr>di_now = 6, di_fault = NoFault, di_answer = oc, ni_locked = (\<lambda>_. False)\<rparr>"

definition job_input_of :: "send_outcome \<Rightarrow> deliver_input" where
  "job_input_of oc = \<lparr>di_now = 6, di_fault = NoFault, di_answer = oc\<rparr>"

definition next_world :: "send_outcome \<Rightarrow> outbound_db world \<Rightarrow> outbound_db world" where
  "next_world oc w =
     (case workers w 0 of
        Some (NextWorker pc) \<Rightarrow>
          (case next_step (next_input_of oc) pc (db w) of (pc', d') \<Rightarrow>
             \<lparr>db = d', workers = (workers w)(0 := Some (NextWorker pc')), sends = sends w @ next_request (next_input_of oc) pc\<rparr>)
      | Some (JobWorker job pc) \<Rightarrow>
          (case deliver_step job (job_input_of oc) pc (db w) of (pc', d') \<Rightarrow>
             \<lparr>db = d', workers = (workers w)(0 := Some (JobWorker job pc')), sends = sends w @ job_request (job_input_of oc) pc\<rparr>)
      | None \<Rightarrow> w)"

lemma next_world_steps: "(world_step sample_uuid)\<^sup>*\<^sup>* w (next_world oc w)"
  unfolding next_world_def
  by (auto split: option.splits worker.splits prod.splits intro!: r_into_rtranclp job_moves next_moves)

definition refused_world :: "outbound_db world" where
  "refused_world =
     (let w1 = (quiet_world sample_outbox)\<lparr>workers := (\<lambda>_. None)(0 := Some (NextWorker NextReserve))\<rparr>;
          w2 = fold next_world [SendErr ERateLimited, SendErr ERateLimited, SendErr ERateLimited] w1
      in w2\<lparr>workers := (workers w2)(0 := None)\<rparr>)"

definition resent_world :: "outbound_db world" where
  "resent_world =
     fold next_world [SendOk ''x'', SendOk ''x'', SendOk ''x'']
       (refused_world\<lparr>workers := (workers refused_world)(0 := Some (JobWorker sample_claimed (deliver_start sample_uuid sample_claimed)))\<rparr>)"

lemma fold_next_world: "(world_step sample_uuid)\<^sup>*\<^sup>* w (fold next_world os w)"
  by (induction os arbitrary: w) (auto intro: rtranclp_trans next_world_steps)

lemma resent_world_reachable: "(world_step sample_uuid)\<^sup>*\<^sup>* (quiet_world sample_outbox) resent_world"
proof -
  let ?w1 = "(quiet_world sample_outbox)\<lparr>workers := (\<lambda>_. None)(0 := Some (NextWorker NextReserve))\<rparr>"
  let ?w2 = "fold next_world [SendErr ERateLimited, SendErr ERateLimited, SendErr ERateLimited] ?w1"
  have "world_step sample_uuid (quiet_world sample_outbox) ?w1"
    using start_next [of "quiet_world sample_outbox" 0 sample_uuid] by (simp add: quiet_world_def)
  then have a: "(world_step sample_uuid)\<^sup>*\<^sup>* (quiet_world sample_outbox) ?w2"
    by (rule converse_rtranclp_into_rtranclp) (rule fold_next_world)
  have b: "world_step sample_uuid ?w2 refused_world"
    unfolding refused_world_def Let_def by (rule crash)
  have none: "workers refused_world 0 = None" by (simp add: refused_world_def Let_def)
  note c = start_job [OF none, where job = sample_claimed and parse_uuid = sample_uuid]
  have "(world_step sample_uuid)\<^sup>*\<^sup>* (quiet_world sample_outbox)
      (refused_world\<lparr>workers := (workers refused_world)(0 := Some (JobWorker sample_claimed (deliver_start sample_uuid sample_claimed)))\<rparr>)"
    by (rule rtranclp.rtrancl_into_rtrancl [OF rtranclp.rtrancl_into_rtrancl [OF a b] c])
  then show ?thesis unfolding resent_world_def by (rule rtranclp_trans) (rule fold_next_world)
qed

lemma resent_world_sends: "sends resent_world = [(7, SendErr ERateLimited)] @ (7, SendOk ''x'') # []"
  by code_simp

theorem delivery_never_resends_blindly_witness:
  "\<exists>c. SendErr ERateLimited = SendErr c \<and> c \<noteq> EProviderAmbiguous"
proof -
  have "distinct (map o_id (outbound_messages sample_outbox))" by (simp add: sample_outbox_def)
  from delivery_never_resends_blindly [OF resent_world_reachable this resent_world_sends] show ?thesis by simp
qed

section \<open>Termination\<close>

fun deliver_rank :: "deliver_pc \<Rightarrow> nat" where
  "deliver_rank (AtLookup _) = 5"
| "deliver_rank (AtReserve _) = 4"
| "deliver_rank (AtSend _ _ _) = 3"
| "deliver_rank (AtSentLease _ _) = 2"
| "deliver_rank (AtRecord _ _) = 1"
| "deliver_rank (AtMissedLease _) = 2"
| "deliver_rank (AtRefresh _) = 1"
| "deliver_rank (AtSendingLease _) = 2"
| "deliver_rank (AtMarkAmbiguous _) = 1"
| "deliver_rank (Finished _) = 0"

lemma on_answer_rank:
  assumes "\<And>a. deliver_rank (k a) \<le> n"
  shows "deliver_rank (fst (on_answer r k)) \<le> n"
  using assms by (simp add: on_answer_def split: sum.split)

lemma on_answer_rank_0: "(\<And>a. deliver_rank (k a) = 0) \<Longrightarrow> deliver_rank (fst (on_answer r k)) = 0"
  using on_answer_rank [of k 0 r] by simp

lemma complete_with_rank [simp]: "deliver_rank (complete_with i st) = 0"
  by (simp add: complete_with_def)

lemma deliver_step_rank: "deliver_rank (fst (deliver_step job inp pc d)) \<le> deliver_rank pc - 1"
  by (cases pc) (auto intro!: on_answer_rank on_answer_rank_0 simp: after_lookup_def after_record_def
      split: option.splits outbound_state.splits send_outcome.splits)

lemma deliver_run_rank: "deliver_rank (fst (deliver_run job ins pc d)) \<le> deliver_rank pc - length ins"
proof (induction job ins pc d rule: deliver_run.induct)
  case (2 job inp others ins pc d)
  obtain pc' d' where step: "deliver_step job inp pc (others d) = (pc', d')" by (cases "deliver_step job inp pc (others d)")
  have "deliver_rank pc' \<le> deliver_rank pc - 1" using deliver_step_rank [of job inp pc "others d"] step by simp
  moreover have "deliver_rank (fst (deliver_run job ins pc' d')) \<le> deliver_rank pc' - length ins"
    using 2 step by simp
  ultimately show ?case using step by simp
qed simp

text \<open>
\<open>deliver_for_job\<close> ends: after at most five awaits it has returned an answer or an error, whatever the
database, the provider and the other workers do in between.
\<close>

theorem deliver_for_job_returns:
  assumes "5 \<le> length ins"
  shows "\<exists>r d'. deliver_for_job parse_uuid job ins d = (Finished r, d')"
proof -
  have "deliver_rank (deliver_start parse_uuid job) \<le> 5" by (simp add: deliver_start_def split: sum.split)
  then have "deliver_rank (fst (deliver_for_job parse_uuid job ins d)) = 0"
    using deliver_run_rank [of job ins "deliver_start parse_uuid job" d] assms by (simp add: deliver_for_job_def)
  then show ?thesis
    by (cases "deliver_for_job parse_uuid job ins d"; cases "fst (deliver_for_job parse_uuid job ins d)") auto
qed

theorem deliver_for_job_returns_witness:
  "\<exists>r d'. deliver_for_job sample_uuid sample_claimed (replicate 5 (\<lparr>di_now = 6, di_fault = NoFault, di_answer = SendOk ''x''\<rparr>, \<lambda>d. d))
     sample_outbox = (Finished r, d')"
  by (rule deliver_for_job_returns) simp

section \<open>Fenced workers\<close>


lemma sample_outbox_inv: "work_inv sample_outbox"
  using sample_inv(2) by (simp add: work_inv_def leased_db_eq sample_outbox_def)


section \<open>What a delivery answers and records\<close>

definition alone :: "instant \<Rightarrow> send_outcome \<Rightarrow> deliver_input \<times> ('z outbound_db_scheme \<Rightarrow> 'z outbound_db_scheme)" where
  "alone now oc = (\<lparr>di_now = now, di_fault = NoFault, di_answer = oc\<rparr>, \<lambda>d. d)"

fun execution_of :: "uuid \<Rightarrow> send_outcome \<Rightarrow> outbound_job_execution" where
  "execution_of i (SendOk m) = ExecComplete \<lparr>dr_outbound_id = i, dr_state = DSent\<rparr>"
| "execution_of i (SendErr c) =
     (if c = EProviderAmbiguous then ExecComplete \<lparr>dr_outbound_id = i, dr_state = DAmbiguous\<rparr> else ExecFail c)"

lemma autocommit_NoFault:
  "autocommit NoFault m d = (case m d of Inl e \<Rightarrow> (Inl e, d) | Inr (a, d') \<Rightarrow> (Inr a, d'))"
  by (simp add: autocommit_def)

lemma after_record_execution: "after_record i oc True = Finished (Inr (execution_of i oc))"
  by (cases oc) (auto simp: after_record_def complete_with_def)

text \<open>
Without interference and faults, and with a live lease at each check, \<open>deliver_for_job\<close> takes a queued or
failed message of its job through its whole life: it counts the attempt, hands the message to the provider once and
records exactly the provider's answer - sent, failed with the class, or ambiguous - and reports it: completion
for a sent or ambiguous message, the error class for a definite refusal. No other row changes.
\<close>

theorem deliver_for_job_records_answer:
  assumes "parse_outbound_id parse_uuid job = Inr i" "distinct (map o_id (outbound_messages d))"
    and "m \<in> set (outbound_messages d)" "o_id m = i" "o_state m = OQueued \<or> o_state m = OFailed"
    and "cj_dedupe_key job = outbound_deliver_job_type @ '':'' @ o_idempotency_key m"
    and "o_attempt_count m < i32_max"
    and "exists_where (lease_held t2 (cj_id job) (cj_lease_token job)) (jobs d)"
    and "exists_where (lease_held t4 (cj_id job) (cj_lease_token job)) (jobs d)"
    and "exists_where (lease_held t5 (cj_id job) (cj_lease_token job)) (jobs d)"
  shows "deliver_for_job parse_uuid job [alone t1 a1, alone t2 a2, alone t3 oc, alone t4 a4, alone t5 a5] d =
    (Finished (Inr (execution_of i oc)),
     d\<lparr>outbound_messages := put_row o_id
         (record_delivery t5 (outcome_state oc) (outcome_message_id oc) (outcome_error_class oc) (start_sending t2 m))
         (outbound_messages d)\<rparr>)"
proof -
  let ?ms = "outbound_messages d" and ?m2 = "start_sending t2 m"
  let ?rec = "record_delivery t5 (outcome_state oc) (outcome_message_id oc) (outcome_error_class oc)"
  have find: "find_where (\<lambda>m. o_id m = i) ?ms = Some m"
    by (rule find_where_unique [OF assms(2,3)]) (use assms(4) in simp_all)
  let ?p = "\<lambda>m. o_id m = i \<and> (o_state m = OQueued \<or> o_state m = OFailed)"
  have findp: "find_where ?p ?ms = Some m"
    by (rule find_where_unique [OF assms(2,3)]) (use assms(4,5) in simp_all)
  have res: "update_where ?p (start_sending t2) ?ms = put_row o_id ?m2 ?ms"
    by (rule update_where_put_row [OF assms(2,3)]) (use assms(4,5) in simp_all)
  let ?q = "\<lambda>m. o_id m = i \<and> o_state m = OSending"
  have m2: "?m2 \<in> set (put_row o_id ?m2 ?ms)" "?q ?m2"
    using assms(3,4) by (auto intro!: put_row_member simp: start_sending_def)
  have dist: "distinct (map o_id (put_row o_id ?m2 ?ms))" using assms(2) by simp
  have one: "count_where ?q (put_row o_id ?m2 ?ms) = 1"
    by (rule count_where_unique [OF dist m2(1)]) (use m2(2) in simp_all)
  have rec: "update_where ?q ?rec (put_row o_id ?m2 ?ms) = put_row o_id (?rec ?m2) ?ms"
    using update_where_put_row [where p = ?q and f = ?rec, OF dist m2(1)] m2(2) by simp
  show ?thesis
    using assms(1,5-10) find findp res one rec
    by (auto simp: deliver_for_job_def deliver_start_def alone_def on_answer_def autocommit_NoFault after_lookup_def
        reserve_outbound_under_lease_def job_lease_current_def update_delivery_under_lease_def after_record_execution Let_def)
qed

theorem deliver_for_job_records_answer_witness:
  "fst (deliver_for_job sample_uuid sample_claimed
     [alone 6 (SendOk []), alone 6 (SendOk []), alone 6 (SendErr ETimeout), alone 6 (SendOk []), alone 6 (SendOk [])] sample_outbox)
   = Finished (Inr (ExecFail ETimeout))"
proof -
  have "parse_outbound_id sample_uuid sample_claimed = Inr 7" by code_simp
  moreover have "exists_where (lease_held 6 (cj_id sample_claimed) (cj_lease_token sample_claimed)) (jobs sample_outbox)"
    by code_simp
  ultimately show ?thesis
    using deliver_for_job_records_answer [of sample_uuid sample_claimed 7 sample_outbox sample_message 6 6 6 6
        "SendOk []" "SendOk []" 6 "SendErr ETimeout" "SendOk []" "SendOk []"]
    by (simp add: sample_outbox_def sample_message_def sample_claimed_def outbound_deliver_job_type_def)
qed

end
