(* ===== verification/Receipt_Types.thy ===== *)
theory Receipt_Types
  imports Outbound
begin

text \<open>
  Data of the receipt pipeline: \<^verbatim>\<open>src/receipt/types.rs\<close>, \<^verbatim>\<open>src/receipt/error.rs\<close>,
  \<^verbatim>\<open>src/receipt/validate.rs\<close>, \<^verbatim>\<open>src/receipt/object_store.rs\<close>, the usage counters of
  \<^verbatim>\<open>src/quota/mod.rs\<close>, and the tables of \<^verbatim>\<open>migrations/004\<close> and \<^verbatim>\<open>006\<close>.

  Code outside the repository is a field of \<open>libs\<close>: the printed form of a uuid, SHA-256 in
  hexadecimal, the image-header reader, the RFC 3339 form of an instant and the calendar month of
  an instant. Byte strings are lists of characters.
\<close>

record libs =
  lib_show_uuid :: "uuid \<Rightarrow> string"
  lib_sha256_hex :: "string \<Rightarrow> string"
  lib_image_size :: "string \<Rightarrow> (nat \<times> nat) option"
  lib_rfc3339 :: "instant \<Rightarrow> string"
  lib_month :: "instant \<Rightarrow> string"

section \<open>Receipt states\<close>

datatype receipt_state =
  RPending | RQueued | RStored | RExtracting | RReviewRequired | RConfirmed | RRejected
| RFailedTransient | RFailedPermanent | RExpired | RDeleted

fun receipt_state_as_str :: "receipt_state \<Rightarrow> string" where
  "receipt_state_as_str RPending = ''pending''"
| "receipt_state_as_str RQueued = ''queued''"
| "receipt_state_as_str RStored = ''stored''"
| "receipt_state_as_str RExtracting = ''extracting''"
| "receipt_state_as_str RReviewRequired = ''review_required''"
| "receipt_state_as_str RConfirmed = ''confirmed''"
| "receipt_state_as_str RRejected = ''rejected''"
| "receipt_state_as_str RFailedTransient = ''failed_transient''"
| "receipt_state_as_str RFailedPermanent = ''failed_permanent''"
| "receipt_state_as_str RExpired = ''expired''"
| "receipt_state_as_str RDeleted = ''deleted''"

definition receipt_state_parse :: "string \<Rightarrow> receipt_state option" where
  "receipt_state_parse v =
     (if v = ''pending'' then Some RPending
      else if v = ''queued'' then Some RQueued
      else if v = ''stored'' then Some RStored
      else if v = ''extracting'' then Some RExtracting
      else if v = ''review_required'' then Some RReviewRequired
      else if v = ''confirmed'' then Some RConfirmed
      else if v = ''rejected'' then Some RRejected
      else if v = ''failed_transient'' then Some RFailedTransient
      else if v = ''failed_permanent'' then Some RFailedPermanent
      else if v = ''expired'' then Some RExpired
      else if v = ''deleted'' then Some RDeleted
      else None)"

interpretation receipt_state_codec: exact_codec receipt_state_as_str receipt_state_parse
proof
  show "receipt_state_parse (receipt_state_as_str x) = Some x" for x
    by (cases x) (simp_all add: receipt_state_parse_def)
  show "receipt_state_parse s = Some x \<Longrightarrow> s = receipt_state_as_str x" for s x
    by (auto simp: receipt_state_parse_def split: if_splits)
qed

definition is_terminal :: "receipt_state \<Rightarrow> bool" where
  "is_terminal s \<longleftrightarrow> s \<in> {RConfirmed, RRejected, RExpired, RFailedPermanent, RDeleted}"

definition can_transition :: "receipt_state \<Rightarrow> receipt_state \<Rightarrow> bool" where
  "can_transition a b \<longleftrightarrow>
     (a, b) \<in> {(RPending, RQueued), (RQueued, RStored), (RQueued, RFailedTransient),
       (RQueued, RFailedPermanent), (RFailedTransient, RQueued), (RStored, RExtracting),
       (RFailedTransient, RExtracting), (RExtracting, RReviewRequired),
       (RExtracting, RFailedTransient), (RExtracting, RFailedPermanent),
       (RReviewRequired, RConfirmed), (RReviewRequired, RRejected), (RReviewRequired, RExpired),
       (RStored, RDeleted), (RExtracting, RDeleted), (RReviewRequired, RDeleted),
       (RConfirmed, RDeleted), (RRejected, RDeleted), (RExpired, RDeleted),
       (RFailedPermanent, RDeleted), (RFailedTransient, RDeleted)}"

section \<open>Requests, results and errors\<close>

datatype receipt_error = ReceiptError error_class string

fun receipt_error_class :: "receipt_error \<Rightarrow> error_class" where
  "receipt_error_class (ReceiptError c m) = c"

definition receipt_validation :: "string \<Rightarrow> receipt_error" where
  "receipt_validation m = ReceiptError EValidation m"

definition receipt_not_found :: "string \<Rightarrow> receipt_error" where
  "receipt_not_found m = ReceiptError ENotFound m"

definition receipt_conflict :: "string \<Rightarrow> receipt_error" where
  "receipt_conflict m = ReceiptError EConflict m"

definition dependency :: "string \<Rightarrow> receipt_error" where
  "dependency m = ReceiptError EDependency m"

definition receipt_quota_exceeded :: "string \<Rightarrow> receipt_error" where
  "receipt_quota_exceeded m = ReceiptError EQuotaExceeded m"

definition receipt_kill_switch :: "string \<Rightarrow> receipt_error" where
  "receipt_kill_switch m = ReceiptError EKillSwitch m"

fun map_work_error :: "work_error \<Rightarrow> receipt_error" where
  "map_work_error (WorkError c m) = ReceiptError c m"

definition job_type_ingest :: string where
  "job_type_ingest = ''receipt.ingest''"

definition job_type_extract :: string where
  "job_type_extract = ''receipt.extract''"

definition receipt_job_payload :: "libs \<Rightarrow> uuid \<Rightarrow> json" where
  "receipt_job_payload L sid =
     JObject [(''schema_version'', JInt 1), (''receipt_submission_id'', JString (lib_show_uuid L sid))]"

definition ingest_dedupe_key :: "libs \<Rightarrow> uuid \<Rightarrow> string" where
  "ingest_dedupe_key L sid = ''receipt.ingest:'' @ lib_show_uuid L sid"

definition extract_dedupe_key :: "libs \<Rightarrow> uuid \<Rightarrow> string" where
  "extract_dedupe_key L sid = ''receipt.extract:'' @ lib_show_uuid L sid"

definition account_serialization_key :: "libs \<Rightarrow> uuid \<Rightarrow> string" where
  "account_serialization_key L aid = ''account:'' @ lib_show_uuid L aid"

definition receipt_serialization_key :: "libs \<Rightarrow> uuid \<Rightarrow> string" where
  "receipt_serialization_key L aid = ''receipt:'' @ lib_show_uuid L aid"

record accept_submission_request =
  as_submission_id :: uuid
  as_account_id :: uuid
  as_inbound_event_id :: "uuid option"
  as_ingest_job_id :: uuid

datatype accept_submission_outcome =
  Accepted receipt_state | Replayed uuid receipt_state | DuplicateJob

record validated_image =
  vi_content_sha256 :: string
  vi_mime_type :: string
  vi_size_bytes :: int
  vi_width_px :: int
  vi_height_px :: int

datatype ingest_outcome =
  IngestStored uuid string
| DuplicateAbsorbed uuid uuid
| AlreadyStored uuid
| IngestTerminal receipt_state

datatype extract_outcome =
  ReviewReady uuid uuid
| AlreadyReviewRequired uuid
| ExtractTerminal receipt_state
| Unsupported

record receipt_state_view =
  rv_submission_id :: uuid
  rv_account_id :: uuid
  rv_state :: receipt_state
  rv_version :: int
  rv_duplicate_of :: "uuid option"
  rv_confirmed_expense_id :: "uuid option"
  rv_failure_error_class :: "string option"
  rv_review_expires_at :: "instant option"
  rv_asset_deleted :: bool

text \<open>A 32-bit float: every finite one is a whole number times a power of two.\<close>

datatype f32 = Finite int int | NonFinite

fun f32_in_unit :: "f32 \<Rightarrow> bool" where
  "f32_in_unit (Finite m e) \<longleftrightarrow> 0 \<le> m \<and> (if 0 \<le> e then m * 2 ^ nat e \<le> 1 else m \<le> 2 ^ nat (- e))"
| "f32_in_unit NonFinite \<longleftrightarrow> False"

record edit_draft_request =
  ed_account_id :: uuid
  ed_submission_id :: uuid
  ed_expected_version :: int
  ed_amount_minor :: "int option"
  ed_currency :: "string option"
  ed_merchant :: "string option"
  ed_category_key :: "string option"
  ed_occurred_at :: "instant option"
  ed_transaction_type :: "string option"

record confirm_request =
  cr_account_id :: uuid
  cr_submission_id :: uuid
  cr_expected_draft_version :: int
  cr_expense_id :: uuid

datatype confirm_outcome = Confirmed uuid | AlreadyConfirmed uuid

record reject_request =
  rr_account_id :: uuid
  rr_submission_id :: uuid
  rr_expected_draft_version :: int

record extraction_meta =
  em_provider :: string
  em_model :: string
  em_profile_name :: string
  em_prompt_version :: string
  em_input_tokens :: "int option"
  em_output_tokens :: "int option"

record extraction_result =
  ex_merchant :: string
  ex_amount_minor :: int
  ex_currency :: string
  ex_category_key :: string
  ex_transaction_type :: string
  ex_occurred_at :: instant
  ex_confidence :: f32
  ex_unsupported :: bool

record extracted_attempt =
  xa_result :: extraction_result
  xa_meta :: extraction_meta

record receipt_config =
  original_receipt_days :: nat
  review_expiry_hours :: int
  extraction_enabled :: bool
  monthly_extraction_pages :: nat

definition receipt_config_default :: receipt_config where
  "receipt_config_default =
     \<lparr>original_receipt_days = 7, review_expiry_hours = 72, extraction_enabled = True,
      monthly_extraction_pages = 80\<rparr>"

end
