(* ===== verification/Receipt_Validate.thy ===== *)
theory Receipt_Validate
  imports Receipt_Types
begin

text \<open>
  Acceptance checks of the receipt pipeline (\<^verbatim>\<open>src/receipt/validate.rs\<close>), the object-key rule
  and the in-memory object store (\<^verbatim>\<open>src/receipt/object_store.rs\<close>).
\<close>

section \<open>Images\<close>

definition max_image_bytes :: nat where
  "max_image_bytes = 10 * 1024 * 1024"

definition max_pixel_count :: int where
  "max_pixel_count = 25000000"

definition allowed_mime_types :: "string list" where
  "allowed_mime_types = [''image/jpeg'', ''image/png'', ''image/webp'']"

definition sniffed_image_mime :: "string \<Rightarrow> string option" where
  "sniffed_image_mime bytes =
     (if 3 \<le> length bytes \<and> bytes ! 0 = CHR 0xFF \<and> bytes ! 1 = CHR 0xD8 \<and> bytes ! 2 = CHR 0xFF
      then Some ''image/jpeg''
      else if 8 \<le> length bytes \<and> bytes ! 0 = CHR 0x89 \<and> bytes ! 1 = CHR ''P'' \<and> bytes ! 2 = CHR ''N''
        \<and> bytes ! 3 = CHR ''G'' \<and> bytes ! 4 = CHR 0x0D \<and> bytes ! 5 = CHR 0x0A
        \<and> bytes ! 6 = CHR 0x1A \<and> bytes ! 7 = CHR 0x0A
      then Some ''image/png''
      else if 12 \<le> length bytes \<and> starts_with bytes ''RIFF'' \<and> take 4 (drop 8 bytes) = ''WEBP''
      then Some ''image/webp''
      else None)"

definition normalize_declared_image_mime :: "string \<Rightarrow> string option" where
  "normalize_declared_image_mime mime_type =
     (let primary = to_ascii_lowercase (trim (case split_char (CHR '';'') mime_type of
                      [] \<Rightarrow> mime_type | first # _ \<Rightarrow> first))
      in if primary = ''image/jpeg'' \<or> primary = ''image/jpg'' then Some ''image/jpeg''
         else if primary = ''image/png'' then Some ''image/png''
         else if primary = ''image/webp'' then Some ''image/webp''
         else if primary = '''' \<or> primary = ''application/octet-stream''
           \<or> primary = ''binary/octet-stream'' \<or> primary = ''application/binary'' then None
         else if primary \<in> set allowed_mime_types
         then List.find (\<lambda>allowed. allowed = primary) allowed_mime_types
         else None)"

text \<open>\<^verbatim>\<open>i32::try_from(usize)\<close>\<close>

definition i32_of_nat :: "nat \<Rightarrow> int option" where
  "i32_of_nat n = (if int n \<le> i32_max then Some (int n) else None)"

definition validate_image :: "libs \<Rightarrow> string \<Rightarrow> string \<Rightarrow> receipt_error + validated_image" where
  "validate_image L bytes mime_type =
     (if bytes = [] then Inl (receipt_validation ''image bytes must not be empty'')
      else if max_image_bytes < length bytes then Inl (receipt_validation ''image exceeds maximum size'')
      else case sniffed_image_mime bytes of
        None \<Rightarrow> Inl (receipt_validation ''image content does not match a supported type'')
      | Some sniffed \<Rightarrow>
          if (case normalize_declared_image_mime mime_type of None \<Rightarrow> False | Some d \<Rightarrow> d \<noteq> sniffed)
          then Inl (receipt_validation ''image content does not match declared mime type'')
          else case lib_image_size L bytes of
            None \<Rightarrow> Inl (receipt_validation ''unable to read image dimensions'')
          | Some (w, h) \<Rightarrow>
              (case i32_of_nat w of
                 None \<Rightarrow> Inl (receipt_validation ''image width out of range'')
               | Some width_px \<Rightarrow>
                   (case i32_of_nat h of
                      None \<Rightarrow> Inl (receipt_validation ''image height out of range'')
                    | Some height_px \<Rightarrow>
                        if width_px \<le> 0 \<or> height_px \<le> 0
                        then Inl (receipt_validation ''image dimensions must be positive'')
                        else if max_pixel_count < width_px * height_px
                        then Inl (receipt_validation ''image exceeds maximum pixel count'')
                        else Inr \<lparr>vi_content_sha256 = lib_sha256_hex L bytes, vi_mime_type = sniffed,
                               vi_size_bytes = int (length bytes), vi_width_px = width_px,
                               vi_height_px = height_px\<rparr>)))"

definition object_key :: "libs \<Rightarrow> uuid \<Rightarrow> uuid \<Rightarrow> string \<Rightarrow> string" where
  "object_key L aid sid sha =
     ''receipts/'' @ lib_show_uuid L aid @ ''/'' @ lib_show_uuid L sid @ ''/'' @ sha"

section \<open>Draft fields\<close>

definition max_merchant_chars :: nat where
  "max_merchant_chars = 200"

definition validate_amount_minor :: "int \<Rightarrow> receipt_error + unit" where
  "validate_amount_minor amount =
     (if amount \<le> 0 then Inl (receipt_validation ''amount must be positive'') else Inr ())"

definition validate_currency :: "string \<Rightarrow> receipt_error + unit" where
  "validate_currency currency =
     (if length currency = 3 \<and> list_all is_ascii_uppercase currency then Inr ()
      else Inl (receipt_validation ''currency must be a 3-letter ISO code''))"

definition validate_merchant :: "string \<Rightarrow> receipt_error + string" where
  "validate_merchant merchant =
     (let trimmed = trim merchant; chars = char_count trimmed
      in if chars = 0 \<or> max_merchant_chars < chars
         then Inl (receipt_validation ''merchant must be between 1 and 200 characters'')
         else Inr trimmed)"

definition transaction_types :: "string list" where
  "transaction_types = [''expense'', ''income'', ''refund'', ''transfer'', ''adjustment'']"

definition validate_transaction_type :: "string \<Rightarrow> receipt_error + unit" where
  "validate_transaction_type t =
     (if t \<in> set transaction_types then Inr ()
      else Inl (receipt_validation ''transaction_type is not allowed''))"

section \<open>Object store\<close>

type_synonym object_store = "string \<rightharpoonup> string"

definition validate_object_key :: "string \<Rightarrow> receipt_error + unit" where
  "validate_object_key key =
     (if trim key = [] then Inl (receipt_validation ''object key must not be empty'')
      else if starts_with key ''/'' then Inl (receipt_validation ''object key must not be absolute'')
      else if CHR 0x5C \<in> set key \<or> CHR 0x00 \<in> set key \<or> contains_str key ''..''
      then Inl (receipt_validation ''object key is invalid'')
      else Inr ())"

text \<open>The flag says whether the backend call fails; a failed call changes nothing.\<close>

definition object_put :: "bool \<Rightarrow> string \<Rightarrow> string \<Rightarrow> object_store \<Rightarrow> (receipt_error + unit) \<times> object_store" where
  "object_put fails key bytes st =
     (case validate_object_key key of
        Inl e \<Rightarrow> (Inl e, st)
      | Inr _ \<Rightarrow>
          if fails then (Inl (dependency ''object store lock poisoned''), st)
          else (Inr (), st(key \<mapsto> bytes)))"

definition object_get :: "bool \<Rightarrow> string \<Rightarrow> object_store \<Rightarrow> receipt_error + string option" where
  "object_get fails key st =
     (if fails then Inl (dependency ''object store lock poisoned'') else Inr (st key))"

definition object_delete :: "bool \<Rightarrow> string \<Rightarrow> object_store \<Rightarrow> (receipt_error + unit) \<times> object_store" where
  "object_delete fails key st =
     (if fails then (Inl (dependency ''object store lock poisoned''), st) else (Inr (), st(key := None)))"

section \<open>What acceptance guarantees\<close>

lemma sniffed_supported: "sniffed_image_mime bytes = Some m \<Longrightarrow> m \<in> set allowed_mime_types"
  by (auto simp: sniffed_image_mime_def allowed_mime_types_def split: if_splits)

lemma validate_imageD:
  assumes "validate_image L bytes mime = Inr v"
  shows "0 < vi_size_bytes v" "vi_size_bytes v \<le> 10485760" "vi_size_bytes v = int (length bytes)"
    "0 < vi_width_px v" "0 < vi_height_px v" "vi_width_px v \<le> i32_max" "vi_height_px v \<le> i32_max"
    "vi_width_px v * vi_height_px v \<le> 25000000"
    "vi_content_sha256 v = lib_sha256_hex L bytes" "sniffed_image_mime bytes = Some (vi_mime_type v)"
  using assms
  by (auto simp: validate_image_def i32_of_nat_def max_image_bytes_def max_pixel_count_def
      split: if_splits option.splits)

lemma find_mime: "m \<in> set allowed_mime_types \<Longrightarrow> List.find (\<lambda>allowed. allowed = m) allowed_mime_types = Some m"
  by (auto simp: allowed_mime_types_def)

lemma declared_supported: "normalize_declared_image_mime mime = Some m \<Longrightarrow> m \<in> set allowed_mime_types"
  by (auto simp: normalize_declared_image_mime_def Let_def find_mime allowed_mime_types_def split: if_splits)

text \<open>Objects: a read returns what was last written under the key.\<close>

lemma object_get_put:
  "object_put f1 key bytes st = (Inr (), st') \<Longrightarrow> object_get False k st' = Inr (if k = key then Some bytes else st k)"
  by (auto simp: object_put_def object_get_def split: sum.splits if_splits)

lemma object_get_delete:
  "object_delete f1 key st = (Inr (), st') \<Longrightarrow> object_get False k st' = Inr (if k = key then None else st k)"
  by (auto simp: object_delete_def object_get_def split: if_splits)

end
