(* ===== verification/Receipt_Db.thy ===== *)
theory Receipt_Db
  imports Receipt_Validate
begin

text \<open>
  The tables of the receipt pipeline (\<^verbatim>\<open>migrations/001\<close>, \<^verbatim>\<open>002\<close>, \<^verbatim>\<open>004\<close>,
  \<^verbatim>\<open>006\<close>, \<^verbatim>\<open>011\<close>), the atomic usage counters (\<^verbatim>\<open>src/quota/mod.rs\<close>), and the way an
  \<^verbatim>\<open>async\<close> function runs: as a sequence of awaits, each a transaction or an object-store call of
  its own, between which other workers change the database and the object store.
\<close>

section \<open>Tables\<close>

datatype account_state = PendingConsent | Active | Suspended | Deleting | AccountDeleted

record account =
  ac_id :: uuid
  ac_lifecycle_state :: account_state
  ac_consent_version :: "string option"
  ac_consented_at :: "instant option"
  ac_locale :: string
  ac_timezone :: string
  ac_retention_preference_days :: int
  ac_default_currency :: string
  ac_updated_at :: instant

record usage_counter =
  uc_scope :: string
  uc_scope_id :: string
  uc_period :: string
  uc_metric :: string
  uc_count :: int
  uc_limit_value :: int
  uc_updated_at :: instant

record submission =
  s_id :: uuid
  s_account_id :: uuid
  s_inbound_event_id :: "uuid option"
  s_state :: receipt_state
  s_version :: int
  s_duplicate_of :: "uuid option"
  s_confirmed_expense_id :: "uuid option"
  s_failure_error_class :: "string option"
  s_review_expires_at :: "instant option"
  s_created_at :: instant
  s_updated_at :: instant

record asset =
  as_id :: uuid
  as_submission :: uuid
  as_account :: uuid
  as_object_key :: string
  as_content_sha256 :: string
  as_mime_type :: string
  as_size_bytes :: int
  as_width_px :: int
  as_height_px :: int
  as_pixel_count :: int
  as_retention_deadline :: instant
  as_active :: bool
  as_original_deleted_at :: "instant option"

record draft =
  d_id :: uuid
  d_submission_id :: uuid
  d_account_id :: uuid
  d_amount_minor :: int
  d_currency :: string
  d_merchant :: string
  d_category_key :: string
  d_transaction_type :: string
  d_occurred_at :: instant
  d_confidence :: "f32 option"
  d_version :: int

record correction =
  c_id :: uuid
  c_draft_id :: uuid
  c_submission_id :: uuid
  c_field_name :: string
  c_old_value :: "string option"
  c_new_value :: "string option"

record extraction_attempt =
  ea_id :: uuid
  ea_submission_id :: uuid
  ea_attempt_number :: int
  ea_meta :: extraction_meta
  ea_outcome :: string
  ea_error_class :: "string option"
  ea_latency_ms :: int
  ea_at :: instant

datatype expense_source = SourceManual | SourceReceipt

datatype expense_state = AwaitingConfirmation | ExpenseConfirmed | ExpenseRejected

record expense =
  e_id :: uuid
  e_account_id :: uuid
  e_amount_minor :: int
  e_currency :: string
  e_occurred_at :: instant
  e_description :: string
  e_source :: expense_source
  e_state :: expense_state
  e_version :: int
  e_receipt_submission_id :: "uuid option"
  e_category_key :: string
  e_transaction_type :: string
  e_created_at :: instant
  e_updated_at :: instant

record receipt_db = outbound_db +
  accounts :: "account list"
  usage_counters :: "usage_counter list"
  categories :: "string list"
  submissions :: "submission list"
  assets :: "asset list"
  drafts :: "draft list"
  corrections :: "correction list"
  extraction_attempts :: "extraction_attempt list"
  expenses :: "expense list"

section \<open>Usage counters\<close>

record quota_outcome =
  qo_count :: int
  qo_limit :: int

definition exceeded :: "quota_outcome \<Rightarrow> bool" where
  "exceeded q \<longleftrightarrow> qo_limit q < qo_count q"

definition remaining :: "quota_outcome \<Rightarrow> int" where
  "remaining q = max (qo_limit q - qo_count q) 0"

datatype quota_error = QuotaError string

definition counter_is :: "string \<Rightarrow> string \<Rightarrow> string \<Rightarrow> string \<Rightarrow> usage_counter \<Rightarrow> bool" where
  "counter_is scope scope_id period metric u \<longleftrightarrow>
     uc_scope u = scope \<and> uc_scope_id u = scope_id \<and> uc_period u = period \<and> uc_metric u = metric"

definition remaining_in_transaction ::
  "db_fault \<Rightarrow> string \<Rightarrow> string \<Rightarrow> string \<Rightarrow> string \<Rightarrow> int \<Rightarrow> ('z receipt_db_scheme, quota_error, int) tx" where
  "remaining_in_transaction flt scope scope_id period metric limit =
     stmt flt ''usage counter lookup failed'' (QuotaError ''usage counter lookup failed'')
       (txread (\<lambda>db. let count = (case find_where (counter_is scope scope_id period metric) (usage_counters db) of
                                  None \<Rightarrow> 0 | Some u \<Rightarrow> uc_count u)
                    in max (limit - count) 0))"

text \<open>
  \<^verbatim>\<open>INSERT .. ON CONFLICT .. DO UPDATE\<close>: the counter is a 64-bit column and the limit must not be
  negative; otherwise the statement fails.
\<close>

definition increment_in_transaction ::
  "db_fault \<Rightarrow> instant \<Rightarrow> string \<Rightarrow> string \<Rightarrow> string \<Rightarrow> string \<Rightarrow> int \<Rightarrow>
   ('z receipt_db_scheme, quota_error, quota_outcome) tx" where
  "increment_in_transaction flt now scope scope_id period metric limit =
     stmt flt ''usage counter increment failed'' (QuotaError ''usage counter increment failed'') (\<lambda>db.
       if limit < 0 then Inl (QuotaError ''usage counter increment failed'')
       else case find_where (counter_is scope scope_id period metric) (usage_counters db) of
         None \<Rightarrow>
           Inr (\<lparr>qo_count = 1, qo_limit = limit\<rparr>,
             db\<lparr>usage_counters := usage_counters db @
                 [\<lparr>uc_scope = scope, uc_scope_id = scope_id, uc_period = period, uc_metric = metric,
                   uc_count = 1, uc_limit_value = limit, uc_updated_at = now\<rparr>]\<rparr>)
       | Some u \<Rightarrow>
           if i64_max < uc_count u + 1 then Inl (QuotaError ''usage counter increment failed'')
           else Inr (\<lparr>qo_count = uc_count u + 1, qo_limit = limit\<rparr>,
                  db\<lparr>usage_counters := update_where (counter_is scope scope_id period metric)
                      (\<lambda>u. u\<lparr>uc_count := uc_count u + 1, uc_limit_value := limit, uc_updated_at := now\<rparr>)
                      (usage_counters db)\<rparr>))"

section \<open>Awaits\<close>

record 'd rworld =
  rw_db :: 'd
  rw_objects :: object_store

text \<open>What an await meets: the clock, the fault of its call, and what others did just before it.\<close>

record 'd await =
  aw_now :: instant
  aw_fault :: db_fault
  aw_others :: "'d rworld \<Rightarrow> 'd rworld"

type_synonym ('d, 'a) proc =
  "(nat \<Rightarrow> 'd await) \<Rightarrow> nat \<Rightarrow> 'd rworld \<Rightarrow> (receipt_error + 'a) \<times> nat \<times> 'd rworld"

definition preturn :: "'a \<Rightarrow> ('d, 'a) proc" where
  "preturn a sc n w = (Inr a, n, w)"

definition pfail :: "receipt_error \<Rightarrow> ('d, 'a) proc" where
  "pfail e sc n w = (Inl e, n, w)"

definition pbind :: "('d, 'a) proc \<Rightarrow> ('a \<Rightarrow> ('d, 'b) proc) \<Rightarrow> ('d, 'b) proc" where
  "pbind m k sc n w =
     (case m sc n w of (r, n', w') \<Rightarrow> (case r of Inl e \<Rightarrow> (Inl e, n', w') | Inr a \<Rightarrow> k a sc n' w'))"

text \<open>The result of a call as a value: what \<^verbatim>\<open>match f().await\<close> looks at.\<close>

definition ptry :: "('d, 'a) proc \<Rightarrow> ('d, receipt_error + 'a) proc" where
  "ptry m sc n w = (case m sc n w of (r, n', w') \<Rightarrow> (Inr r, n', w'))"

definition pdb :: "(db_fault \<Rightarrow> instant \<Rightarrow> 'd \<Rightarrow> (receipt_error + 'a) \<times> 'd) \<Rightarrow> ('d, 'a) proc" where
  "pdb f sc n w =
     (let w1 = aw_others (sc n) w; (r, d') = f (aw_fault (sc n)) (aw_now (sc n)) (rw_db w1)
      in (r, Suc n, w1\<lparr>rw_db := d'\<rparr>))"

definition pobjects :: "(bool \<Rightarrow> object_store \<Rightarrow> (receipt_error + 'a) \<times> object_store) \<Rightarrow> ('d, 'a) proc" where
  "pobjects f sc n w =
     (let w1 = aw_others (sc n) w; (r, o') = f (aw_fault (sc n) \<noteq> NoFault) (rw_objects w1)
      in (r, Suc n, w1\<lparr>rw_objects := o'\<rparr>))"

end
