(* ===== verification/Receipt.thy ===== *)
theory Receipt
  imports Receipt_Db
begin

text \<open>
  The receipt lifecycle, \<^verbatim>\<open>src/receipt/lifecycle.rs\<close>: every statement and every operation of
  \<^verbatim>\<open>ReceiptLifecycle\<close>. Functions that take a transaction are transaction bodies; the operations of
  the public interface are processes whose awaits are whole transactions. The random
  identifiers an operation draws are given by \<open>ids\<close>, under a name for each. The extractor is
  the argument \<open>extract_fn\<close>.
\<close>

type_synonym fresh_ids = "string \<Rightarrow> uuid"

type_synonym submission_row = "submission \<times> int"

section \<open>Statements\<close>

definition account_is_active_in_tx :: "db_fault \<Rightarrow> uuid \<Rightarrow> ('z receipt_db_scheme, receipt_error, bool) tx" where
  "account_is_active_in_tx flt aid =
     stmt flt ''account lookup failed'' (dependency ''account lookup failed'')
       (txread (\<lambda>db. map_option ac_lifecycle_state (find_where (\<lambda>a. ac_id a = aid) (accounts db)) = Some Active))"

definition new_submission :: "instant \<Rightarrow> uuid \<Rightarrow> uuid \<Rightarrow> uuid option \<Rightarrow> submission" where
  "new_submission now sid aid ev =
     \<lparr>s_id = sid, s_account_id = aid, s_inbound_event_id = ev, s_state = RPending, s_version = 1,
      s_duplicate_of = None, s_confirmed_expense_id = None, s_failure_error_class = None,
      s_review_expires_at = None, s_created_at = now, s_updated_at = now\<rparr>"

definition insert_submission ::
  "db_fault \<Rightarrow> instant \<Rightarrow> uuid \<Rightarrow> uuid \<Rightarrow> uuid option \<Rightarrow> ('z receipt_db_scheme, receipt_error, bool) tx" where
  "insert_submission flt now sid aid ev =
     stmt flt ''submission insert failed'' (dependency ''submission insert failed'') (\<lambda>db.
       if exists_where (\<lambda>s. s_id s = sid) (submissions db)
         \<or> (ev \<noteq> None \<and> exists_where (\<lambda>s. s_inbound_event_id s = ev) (submissions db))
       then Inr (False, db)
       else Inr (True, db\<lparr>submissions := submissions db @ [new_submission now sid aid ev]\<rparr>))"

definition load_submission_tuple_for_update ::
  "db_fault \<Rightarrow> uuid \<Rightarrow> uuid option \<Rightarrow> ('z receipt_db_scheme, receipt_error, submission option) tx" where
  "load_submission_tuple_for_update flt sid aid =
     stmt flt ''submission lookup failed'' (dependency ''submission lookup failed'')
       (txread (\<lambda>db. find_where (\<lambda>s. s_id s = sid \<and> (aid = None \<or> Some (s_account_id s) = aid)) (submissions db)))"

definition load_submission_tuple_by_inbound_event ::
  "db_fault \<Rightarrow> uuid \<Rightarrow> ('z receipt_db_scheme, receipt_error, submission option) tx" where
  "load_submission_tuple_by_inbound_event flt ev =
     stmt flt ''replay lookup failed'' (dependency ''replay lookup failed'')
       (txread (\<lambda>db. find_where (\<lambda>s. s_inbound_event_id s = Some ev) (submissions db)))"

definition load_existing_submission ::
  "db_fault \<Rightarrow> uuid \<Rightarrow> uuid option \<Rightarrow> ('z receipt_db_scheme, receipt_error, submission_row option) tx" where
  "load_existing_submission flt sid ev =
     txbind (load_submission_tuple_for_update flt sid None) (\<lambda>row.
       case row of
         Some s \<Rightarrow> txret (Some (s, 0))
       | None \<Rightarrow>
           (case ev of
              None \<Rightarrow> txret None
            | Some e \<Rightarrow> txbind (load_submission_tuple_by_inbound_event flt e) (\<lambda>row.
                txret (map_option (\<lambda>s. (s, 0)) row))))"

definition count_attempts :: "uuid \<Rightarrow> 'z receipt_db_scheme \<Rightarrow> int" where
  "count_attempts sid db = int (count_where (\<lambda>a. ea_submission_id a = sid) (extraction_attempts db))"

definition load_submission_for_update ::
  "db_fault \<Rightarrow> uuid \<Rightarrow> uuid \<Rightarrow> ('z receipt_db_scheme, receipt_error, submission_row) tx" where
  "load_submission_for_update flt sid aid =
     txbind (load_submission_tuple_for_update flt sid (Some aid)) (\<lambda>row.
       case row of
         None \<Rightarrow> txfail (receipt_not_found ''receipt submission not found'')
       | Some s \<Rightarrow>
           txbind (stmt flt ''attempt count failed'' (dependency ''attempt count failed'')
                     (txread (count_attempts (s_id s))))
             (\<lambda>n. txret (s, n)))"

text \<open>The UPDATE of a lifecycle transition; the version is a 32-bit column.\<close>

definition moved_submission ::
  "instant \<Rightarrow> receipt_state \<Rightarrow> string option \<Rightarrow> int option \<Rightarrow> uuid option \<Rightarrow> uuid option \<Rightarrow> submission \<Rightarrow> submission"
  where
  "moved_submission now to cls hours eid dup s =
     s\<lparr>s_state := to, s_version := s_version s + 1,
       s_failure_error_class :=
         (if to = RFailedTransient \<or> to = RFailedPermanent then cls
          else if to = RDeleted then s_failure_error_class s else None),
       s_review_expires_at :=
         (case hours of None \<Rightarrow> s_review_expires_at s | Some h \<Rightarrow> Some (now + secs (h * 3600))),
       s_confirmed_expense_id := (if eid = None then s_confirmed_expense_id s else eid),
       s_duplicate_of := (if dup = None then s_duplicate_of s else dup),
       s_updated_at := now\<rparr>"

definition transition_state ::
  "db_fault \<Rightarrow> instant \<Rightarrow> uuid \<Rightarrow> uuid \<Rightarrow> receipt_state \<Rightarrow> receipt_state \<Rightarrow> string option \<Rightarrow> int option \<Rightarrow>
   uuid option \<Rightarrow> uuid option \<Rightarrow> ('z receipt_db_scheme, receipt_error, unit) tx" where
  "transition_state flt now sid aid from to cls hours eid dup =
     (if \<not> can_transition from to then txfail (receipt_conflict ''illegal lifecycle transition'')
      else stmt flt ''state transition failed'' (dependency ''state transition failed'') (\<lambda>db.
        let p = (\<lambda>s. s_id s = sid \<and> s_account_id s = aid \<and> s_state s = from)
        in if exists_where (\<lambda>s. p s \<and> i32_max < s_version s + 1) (submissions db)
           then Inl (dependency ''state transition failed'')
           else if count_where p (submissions db) \<noteq> 1
           then Inl (receipt_conflict ''optimistic lifecycle transition failed'')
           else Inr ((), db\<lparr>submissions := update_where p (moved_submission now to cls hours eid dup)
                                            (submissions db)\<rparr>)))"

datatype asset_insert = AssetInserted | UniqueConflict

definition new_asset :: "instant \<Rightarrow> int \<Rightarrow> uuid \<Rightarrow> uuid \<Rightarrow> uuid \<Rightarrow> string \<Rightarrow> validated_image \<Rightarrow> asset" where
  "new_asset now days i sid aid key v =
     \<lparr>as_id = i, as_submission = sid, as_account = aid, as_object_key = key,
      as_content_sha256 = vi_content_sha256 v, as_mime_type = vi_mime_type v, as_size_bytes = vi_size_bytes v,
      as_width_px = vi_width_px v, as_height_px = vi_height_px v,
      as_pixel_count = vi_width_px v * vi_height_px v,
      as_retention_deadline = now + secs (days * 86400), as_active = True, as_original_deleted_at = None\<rparr>"

definition insert_asset ::
  "db_fault \<Rightarrow> instant \<Rightarrow> uuid \<Rightarrow> uuid \<Rightarrow> uuid \<Rightarrow> string \<Rightarrow> validated_image \<Rightarrow>
   ('z receipt_db_scheme, receipt_error, asset_insert) tx" where
  "insert_asset flt now i sid aid key v =
     stmt flt ''asset insert failed'' (dependency ''asset insert failed'') (\<lambda>db.
       case find_where (\<lambda>a. ac_id a = aid) (accounts db) of
         None \<Rightarrow> Inl (receipt_not_found ''account not found'')
       | Some a \<Rightarrow>
           if exists_where (\<lambda>x. as_id x = i \<or> as_submission x = sid
                \<or> (as_active x \<and> as_account x = aid \<and> as_content_sha256 x = vi_content_sha256 v)) (assets db)
           then Inr (UniqueConflict, db)
           else Inr (AssetInserted,
                  db\<lparr>assets := assets db @ [new_asset now (ac_retention_preference_days a) i sid aid key v]\<rparr>))"

definition ensure_category :: "db_fault \<Rightarrow> string \<Rightarrow> ('z receipt_db_scheme, receipt_error, unit) tx" where
  "ensure_category flt k =
     txbind (stmt flt ''category lookup failed'' (dependency ''category lookup failed'')
               (txread (\<lambda>db. k \<in> set (categories db))))
       (\<lambda>known. if \<not> known then txfail (receipt_validation ''unknown category key'') else txret ())"

definition record_extraction_attempt ::
  "db_fault \<Rightarrow> instant \<Rightarrow> uuid \<Rightarrow> uuid \<Rightarrow> int \<Rightarrow> string \<Rightarrow> string option \<Rightarrow> int \<Rightarrow> extraction_meta \<Rightarrow>
   ('z receipt_db_scheme, receipt_error, unit) tx" where
  "record_extraction_attempt flt now i sid n oc cls latency meta =
     stmt flt ''extraction attempt insert failed'' (dependency ''extraction attempt insert failed'') (\<lambda>db.
       if exists_where (\<lambda>a. ea_submission_id a = sid \<and> ea_attempt_number a = n) (extraction_attempts db)
       then Inr ((), db)
       else Inr ((), db\<lparr>extraction_attempts := extraction_attempts db @
              [\<lparr>ea_id = i, ea_submission_id = sid, ea_attempt_number = n, ea_meta = meta, ea_outcome = oc,
                ea_error_class = cls, ea_latency_ms = latency, ea_at = now\<rparr>]\<rparr>))"

text \<open>The CHECK constraints of a draft row; \<^verbatim>\<open>btrim\<close> removes spaces only.\<close>

definition btrim :: "string \<Rightarrow> string" where
  "btrim s = rev (dropWhile (\<lambda>c. c = CHR '' '') (rev (dropWhile (\<lambda>c. c = CHR '' '') s)))"

definition draft_row_ok :: "draft \<Rightarrow> bool" where
  "draft_row_ok d \<longleftrightarrow>
     0 < d_amount_minor d \<and> length (d_currency d) = 3 \<and> list_all is_ascii_uppercase (d_currency d)
     \<and> 1 \<le> char_count (btrim (d_merchant d)) \<and> char_count (btrim (d_merchant d)) \<le> 200
     \<and> d_transaction_type d \<in> set transaction_types
     \<and> (case d_confidence d of None \<Rightarrow> True | Some c \<Rightarrow> f32_in_unit c)"

definition extracted_draft :: "uuid \<Rightarrow> uuid \<Rightarrow> uuid \<Rightarrow> extraction_result \<Rightarrow> draft" where
  "extracted_draft i sid aid x =
     \<lparr>d_id = i, d_submission_id = sid, d_account_id = aid, d_amount_minor = ex_amount_minor x,
      d_currency = ex_currency x, d_merchant = ex_merchant x, d_category_key = ex_category_key x,
      d_transaction_type = ex_transaction_type x, d_occurred_at = ex_occurred_at x,
      d_confidence = Some (ex_confidence x), d_version = 1\<rparr>"

definition upsert_draft ::
  "db_fault \<Rightarrow> uuid \<Rightarrow> uuid \<Rightarrow> uuid \<Rightarrow> extraction_result \<Rightarrow> ('z receipt_db_scheme, receipt_error, unit) tx" where
  "upsert_draft flt i sid aid x =
     txbind (ensure_category flt (ex_category_key x)) (\<lambda>_.
       stmt flt ''draft upsert failed'' (dependency ''draft upsert failed'') (\<lambda>db.
         let new = extracted_draft i sid aid x
         in if \<not> draft_row_ok new then Inl (dependency ''draft upsert failed'')
            else case find_where (\<lambda>d. d_submission_id d = sid) (drafts db) of
              None \<Rightarrow>
                if exists_where (\<lambda>d. d_id d = i) (drafts db) then Inl (dependency ''draft upsert failed'')
                else Inr ((), db\<lparr>drafts := drafts db @ [new]\<rparr>)
            | Some old \<Rightarrow>
                if i32_max < d_version old + 1 then Inl (dependency ''draft upsert failed'')
                else Inr ((), db\<lparr>drafts := update_where (\<lambda>d. d_submission_id d = sid)
                       (\<lambda>d. new\<lparr>d_id := d_id d, d_account_id := d_account_id d, d_version := d_version d + 1\<rparr>)
                       (drafts db)\<rparr>)))"

definition load_draft_for_update ::
  "db_fault \<Rightarrow> uuid \<Rightarrow> uuid \<Rightarrow> ('z receipt_db_scheme, receipt_error, draft) tx" where
  "load_draft_for_update flt sid aid =
     txbind (stmt flt ''draft lookup failed'' (dependency ''draft lookup failed'')
               (txread (\<lambda>db. find_where (\<lambda>d. d_submission_id d = sid \<and> d_account_id d = aid) (drafts db))))
       (\<lambda>row. case row of
          None \<Rightarrow> txfail (receipt_not_found ''expense draft not found'')
        | Some d \<Rightarrow> txret d)"

definition update_draft :: "db_fault \<Rightarrow> draft \<Rightarrow> ('z receipt_db_scheme, receipt_error, unit) tx" where
  "update_draft flt d =
     txbind (ensure_category flt (d_category_key d)) (\<lambda>_.
       stmt flt ''draft update failed'' (dependency ''draft update failed'') (\<lambda>db.
         let p = (\<lambda>x. d_id x = d_id d \<and> d_version x = d_version d)
         in if exists_where p (drafts db) \<and> (\<not> draft_row_ok d \<or> i32_max < d_version d + 1)
            then Inl (dependency ''draft update failed'')
            else if count_where p (drafts db) \<noteq> 1 then Inl (receipt_conflict ''draft version mismatch'')
            else Inr ((), db\<lparr>drafts := update_where p
                   (\<lambda>x. x\<lparr>d_amount_minor := d_amount_minor d, d_currency := d_currency d,
                          d_merchant := d_merchant d, d_category_key := d_category_key d,
                          d_transaction_type := d_transaction_type d, d_occurred_at := d_occurred_at d,
                          d_version := d_version x + 1\<rparr>) (drafts db)\<rparr>)))"

definition record_correction ::
  "db_fault \<Rightarrow> uuid \<Rightarrow> uuid \<Rightarrow> uuid \<Rightarrow> string \<Rightarrow> string option \<Rightarrow> string option \<Rightarrow>
   ('z receipt_db_scheme, receipt_error, unit) tx" where
  "record_correction flt i did sid field old new =
     stmt flt ''correction insert failed'' (dependency ''correction insert failed'') (\<lambda>db.
       Inr ((), db\<lparr>corrections := corrections db @
         [\<lparr>c_id = i, c_draft_id = did, c_submission_id = sid, c_field_name = field, c_old_value = old,
           c_new_value = new\<rparr>]\<rparr>))"

definition lookup_confirmed_expense_id :: "db_fault \<Rightarrow> uuid \<Rightarrow> ('z receipt_db_scheme, receipt_error, uuid) tx" where
  "lookup_confirmed_expense_id flt sid =
     txbind (stmt flt ''confirmed expense lookup failed'' (dependency ''confirmed expense lookup failed'')
               (txread (\<lambda>db. find_where (\<lambda>e. e_receipt_submission_id e = Some sid) (expenses db))))
       (\<lambda>row. case row of
          None \<Rightarrow> txfail (dependency ''confirmed expense missing'')
        | Some e \<Rightarrow> txret (e_id e))"

definition confirmed_expense :: "instant \<Rightarrow> uuid \<Rightarrow> uuid \<Rightarrow> uuid \<Rightarrow> draft \<Rightarrow> expense" where
  "confirmed_expense now eid aid sid d =
     \<lparr>e_id = eid, e_account_id = aid, e_amount_minor = d_amount_minor d, e_currency = d_currency d,
      e_occurred_at = d_occurred_at d, e_description = d_merchant d, e_source = SourceReceipt,
      e_state = ExpenseConfirmed, e_version = 1, e_receipt_submission_id = Some sid,
      e_category_key = d_category_key d, e_transaction_type = d_transaction_type d,
      e_created_at = now, e_updated_at = now\<rparr>"

definition insert_confirmed_expense ::
  "db_fault \<Rightarrow> instant \<Rightarrow> uuid \<Rightarrow> uuid \<Rightarrow> uuid \<Rightarrow> draft \<Rightarrow> ('z receipt_db_scheme, receipt_error, unit) tx" where
  "insert_confirmed_expense flt now eid aid sid d =
     stmt flt ''expense insert failed'' (dependency ''expense insert failed'') (\<lambda>db.
       if exists_where (\<lambda>e. e_receipt_submission_id e = Some sid) (expenses db) then Inr ((), db)
       else if exists_where (\<lambda>e. e_id e = eid) (expenses db) then Inl (dependency ''expense insert failed'')
       else Inr ((), db\<lparr>expenses := expenses db @ [confirmed_expense now eid aid sid d]\<rparr>))"

definition enqueue_receipt_job ::
  "libs \<Rightarrow> db_fault \<Rightarrow> instant \<Rightarrow> uuid \<Rightarrow> string \<Rightarrow> uuid \<Rightarrow> uuid \<Rightarrow>
   ('z receipt_db_scheme, receipt_error, enqueue_outcome) tx" where
  "enqueue_receipt_job L flt now jid jt sid aid =
     txbind (tx_map_err map_work_error (enqueue_in_transaction flt now
        \<lparr>er_id = jid, er_job_type = jt, er_payload = receipt_job_payload L sid,
         er_dedupe_key = (if jt = job_type_ingest then ingest_dedupe_key L sid else extract_dedupe_key L sid),
         er_serialization_key = Some (receipt_serialization_key L aid), er_priority = 0, er_run_at = now,
         er_max_attempts = 10\<rparr>))
       (\<lambda>oc. if oc = Enqueued
             then txbind (stmt flt ''job run_at update failed'' (dependency ''job run_at update failed'')
                     (txwrite (\<lambda>db. db\<lparr>jobs := update_where (\<lambda>j. j_id j = jid) (\<lambda>j. j\<lparr>j_run_at := now\<rparr>) (jobs db)\<rparr>)))
                   (\<lambda>_. txret oc)
             else txret oc)"

definition failure_state_for :: "error_class \<Rightarrow> receipt_state" where
  "failure_state_for c =
     (if c \<in> {ETransient, ETimeout, ERateLimited, EDependency} then RFailedTransient else RFailedPermanent)"

section \<open>Accepting a submission\<close>

definition finish_accept_in_transaction ::
  "libs \<Rightarrow> db_fault \<Rightarrow> instant \<Rightarrow> uuid \<Rightarrow> uuid \<Rightarrow> uuid \<Rightarrow>
   ('z receipt_db_scheme, receipt_error, accept_submission_outcome) tx" where
  "finish_accept_in_transaction L flt now sid aid jid =
     txbind (load_submission_for_update flt sid aid) (\<lambda>(current, _).
       if s_state current \<noteq> RPending \<and> s_state current \<noteq> RQueued
       then txret (Replayed sid (s_state current))
       else txbind (if s_state current = RPending
                    then transition_state flt now sid aid RPending RQueued None None None None
                    else txret ())
         (\<lambda>_. txbind (enqueue_receipt_job L flt now jid job_type_ingest sid aid) (\<lambda>oc.
            txret (case oc of Enqueued \<Rightarrow> Accepted RQueued | DuplicateJobKey \<Rightarrow> DuplicateJob))))"

definition accept_submission_in_transaction ::
  "libs \<Rightarrow> db_fault \<Rightarrow> instant \<Rightarrow> accept_submission_request \<Rightarrow>
   ('z receipt_db_scheme, receipt_error, accept_submission_outcome) tx" where
  "accept_submission_in_transaction L flt now r =
     txbind (account_is_active_in_tx flt (as_account_id r)) (\<lambda>active.
       if \<not> active then txfail (receipt_conflict ''account is not active'')
       else txbind (insert_submission flt now (as_submission_id r) (as_account_id r) (as_inbound_event_id r)) (\<lambda>inserted.
         if inserted
         then finish_accept_in_transaction L flt now (as_submission_id r) (as_account_id r) (as_ingest_job_id r)
         else txbind (load_existing_submission flt (as_submission_id r) (as_inbound_event_id r)) (\<lambda>existing.
           case existing of
             None \<Rightarrow> txfail (dependency ''replay lookup failed'')
           | Some (s, _) \<Rightarrow>
               if s_account_id s \<noteq> as_account_id r
               then txfail (receipt_conflict ''inbound event belongs to a different account'')
               else if s_state s = RPending
               then finish_accept_in_transaction L flt now (s_id s) (s_account_id s) (as_ingest_job_id r)
               else txret (Replayed (s_id s) (s_state s)))))"

definition receipt_tx ::
  "db_fault \<Rightarrow> ('z receipt_db_scheme, receipt_error, 'a) tx \<Rightarrow> 'z receipt_db_scheme \<Rightarrow>
   (receipt_error + 'a) \<times> 'z receipt_db_scheme" where
  "receipt_tx flt = run_tx flt (dependency ''failed to begin transaction'') (dependency ''commit failed'')"

definition accept_submission ::
  "libs \<Rightarrow> accept_submission_request \<Rightarrow> ('z receipt_db_scheme, accept_submission_outcome) proc" where
  "accept_submission L r = pdb (\<lambda>flt now. receipt_tx flt (accept_submission_in_transaction L flt now r))"

section \<open>Review: confirm, reject, edit\<close>

definition confirm_in_transaction ::
  "db_fault \<Rightarrow> instant \<Rightarrow> confirm_request \<Rightarrow> ('z receipt_db_scheme, receipt_error, confirm_outcome) tx" where
  "confirm_in_transaction flt now r =
     txbind (load_submission_for_update flt (cr_submission_id r) (cr_account_id r)) (\<lambda>(s, _).
       if s_state s = RConfirmed then
         (case s_confirmed_expense_id s of
            None \<Rightarrow> txfail (dependency ''confirmed submission missing expense'')
          | Some eid \<Rightarrow> txret (AlreadyConfirmed eid))
       else if s_state s \<noteq> RReviewRequired
       then txfail (receipt_conflict ''submission is not awaiting review'')
       else txbind (load_draft_for_update flt (cr_submission_id r) (cr_account_id r)) (\<lambda>d.
         if d_version d \<noteq> cr_expected_draft_version r
         then txfail (receipt_conflict ''draft version mismatch'')
         else txbind (insert_confirmed_expense flt now (cr_expense_id r) (cr_account_id r) (cr_submission_id r) d) (\<lambda>_.
           txbind (lookup_confirmed_expense_id flt (cr_submission_id r)) (\<lambda>eid.
             txbind (transition_state flt now (cr_submission_id r) (cr_account_id r)
                       RReviewRequired RConfirmed None None (Some eid) None)
               (\<lambda>_. txret (Confirmed eid))))))"

definition reject_in_transaction ::
  "db_fault \<Rightarrow> instant \<Rightarrow> reject_request \<Rightarrow> ('z receipt_db_scheme, receipt_error, unit) tx" where
  "reject_in_transaction flt now r =
     txbind (load_submission_for_update flt (rr_submission_id r) (rr_account_id r)) (\<lambda>(s, _).
       if s_state s = RRejected then txret ()
       else if s_state s \<noteq> RReviewRequired
       then txfail (receipt_conflict ''submission is not awaiting review'')
       else txbind (load_draft_for_update flt (rr_submission_id r) (rr_account_id r)) (\<lambda>d.
         if d_version d \<noteq> rr_expected_draft_version r
         then txfail (receipt_conflict ''draft version mismatch'')
         else transition_state flt now (rr_submission_id r) (rr_account_id r)
                RReviewRequired RRejected None None None None))"

text \<open>The validation of an edit, before anything is written.\<close>

definition check_opt :: "('a \<Rightarrow> receipt_error + unit) \<Rightarrow> 'a option \<Rightarrow> ('s, receipt_error, unit) tx" where
  "check_opt f v =
     (case v of None \<Rightarrow> txret () | Some a \<Rightarrow> (case f a of Inl e \<Rightarrow> txfail e | Inr _ \<Rightarrow> txret ()))"

definition checked_merchant :: "string option \<Rightarrow> ('s, receipt_error, string option) tx" where
  "checked_merchant v =
     (case v of
        None \<Rightarrow> txret None
      | Some m \<Rightarrow> (case validate_merchant m of Inl e \<Rightarrow> txfail e | Inr t \<Rightarrow> txret (Some t)))"

text \<open>One field of an edit: a changed value is logged as a correction and set.\<close>

definition edit_field ::
  "db_fault \<Rightarrow> fresh_ids \<Rightarrow> draft \<Rightarrow> uuid \<Rightarrow> string \<Rightarrow> ('a \<Rightarrow> string) \<Rightarrow> 'a \<Rightarrow> 'a option \<Rightarrow>
   ('a \<Rightarrow> draft \<Rightarrow> draft) \<Rightarrow> draft \<Rightarrow> ('z receipt_db_scheme, receipt_error, draft) tx" where
  "edit_field flt ids d sid field shown old new set_field nxt =
     (case new of
        None \<Rightarrow> txret nxt
      | Some v \<Rightarrow>
          if v = old then txret nxt
          else txbind (record_correction flt (ids field) (d_id d) sid field (Some (shown old)) (Some (shown v)))
                 (\<lambda>_. txret (set_field v nxt)))"

definition edit_draft_in_transaction ::
  "libs \<Rightarrow> db_fault \<Rightarrow> fresh_ids \<Rightarrow> edit_draft_request \<Rightarrow> ('z receipt_db_scheme, receipt_error, draft) tx" where
  "edit_draft_in_transaction L flt ids r =
     (let sid = ed_submission_id r in
      txbind (load_submission_for_update flt sid (ed_account_id r)) (\<lambda>(s, _).
        if s_state s \<noteq> RReviewRequired
        then txfail (receipt_conflict ''draft can only be edited while review is required'')
        else txbind (load_draft_for_update flt sid (ed_account_id r)) (\<lambda>d.
          if d_version d \<noteq> ed_expected_version r then txfail (receipt_conflict ''draft version mismatch'')
          else
          txbind (check_opt validate_amount_minor (ed_amount_minor r)) (\<lambda>_.
          txbind (check_opt validate_currency (ed_currency r)) (\<lambda>_.
          txbind (checked_merchant (ed_merchant r)) (\<lambda>merchant.
          txbind (case ed_category_key r of None \<Rightarrow> txret () | Some k \<Rightarrow> ensure_category flt k) (\<lambda>_.
          txbind (edit_field flt ids d sid ''amount_minor'' show_int (d_amount_minor d) (ed_amount_minor r)
                    (\<lambda>v n. n\<lparr>d_amount_minor := v\<rparr>) d) (\<lambda>n1.
          txbind (edit_field flt ids d sid ''currency'' (\<lambda>v. v) (d_currency d) (ed_currency r)
                    (\<lambda>v n. n\<lparr>d_currency := v\<rparr>) n1) (\<lambda>n2.
          txbind (edit_field flt ids d sid ''merchant'' (\<lambda>v. v) (d_merchant d) merchant
                    (\<lambda>v n. n\<lparr>d_merchant := v\<rparr>) n2) (\<lambda>n3.
          txbind (edit_field flt ids d sid ''category_key'' (\<lambda>v. v) (d_category_key d) (ed_category_key r)
                    (\<lambda>v n. n\<lparr>d_category_key := v\<rparr>) n3) (\<lambda>n4.
          txbind (edit_field flt ids d sid ''occurred_at'' (lib_rfc3339 L) (d_occurred_at d) (ed_occurred_at r)
                    (\<lambda>v n. n\<lparr>d_occurred_at := v\<rparr>) n4) (\<lambda>n5.
          txbind (check_opt validate_transaction_type (ed_transaction_type r)) (\<lambda>_.
          txbind (edit_field flt ids d sid ''transaction_type'' (\<lambda>v. v) (d_transaction_type d) (ed_transaction_type r)
                    (\<lambda>v n. n\<lparr>d_transaction_type := v\<rparr>) n5) (\<lambda>n6.
          let nxt = n6\<lparr>d_version := ed_expected_version r\<rparr>
          in txbind (update_draft flt nxt) (\<lambda>_.
               txret (nxt\<lparr>d_version := d_version nxt + 1\<rparr>))))))))))))))))"

definition confirm :: "confirm_request \<Rightarrow> ('z receipt_db_scheme, confirm_outcome) proc" where
  "confirm r = pdb (\<lambda>flt now. receipt_tx flt (confirm_in_transaction flt now r))"

definition reject :: "reject_request \<Rightarrow> ('z receipt_db_scheme, unit) proc" where
  "reject r = pdb (\<lambda>flt now. receipt_tx flt (reject_in_transaction flt now r))"

definition edit_draft :: "libs \<Rightarrow> fresh_ids \<Rightarrow> edit_draft_request \<Rightarrow> ('z receipt_db_scheme, draft) proc" where
  "edit_draft L ids r = pdb (\<lambda>flt now. receipt_tx flt (edit_draft_in_transaction L flt ids r))"

section \<open>Failures and duplicates\<close>

definition fail_queued_tx ::
  "db_fault \<Rightarrow> instant \<Rightarrow> uuid \<Rightarrow> uuid \<Rightarrow> error_class \<Rightarrow> ('z receipt_db_scheme, receipt_error, unit) tx" where
  "fail_queued_tx flt now sid aid cls =
     txbind (load_submission_for_update flt sid aid) (\<lambda>(s, _).
       if s_state s = RFailedPermanent then txret ()
       else if s_state s \<noteq> RQueued then txfail (receipt_conflict ''submission is not queued'')
       else transition_state flt now sid aid RQueued RFailedPermanent (Some (error_class_as_str cls)) None None None)"

definition fail_queued :: "uuid \<Rightarrow> uuid \<Rightarrow> error_class \<Rightarrow> ('z receipt_db_scheme, unit) proc" where
  "fail_queued sid aid cls = pdb (\<lambda>flt now. receipt_tx flt (fail_queued_tx flt now sid aid cls))"

definition absorb_duplicate_tx ::
  "db_fault \<Rightarrow> instant \<Rightarrow> uuid \<Rightarrow> uuid \<Rightarrow> uuid \<Rightarrow> ('z receipt_db_scheme, receipt_error, unit) tx" where
  "absorb_duplicate_tx flt now sid aid orig =
     txbind (load_submission_for_update flt sid aid) (\<lambda>(s, _).
       if s_duplicate_of s = Some orig \<and> s_state s = RFailedPermanent then txret ()
       else transition_state flt now sid aid (s_state s) RFailedPermanent (Some (error_class_as_str EDuplicate))
              None None (Some orig))"

definition absorb_duplicate :: "uuid \<Rightarrow> uuid \<Rightarrow> uuid \<Rightarrow> ('z receipt_db_scheme, unit) proc" where
  "absorb_duplicate sid aid orig = pdb (\<lambda>flt now. receipt_tx flt (absorb_duplicate_tx flt now sid aid orig))"

definition mark_failure_tx ::
  "db_fault \<Rightarrow> instant \<Rightarrow> uuid \<Rightarrow> uuid \<Rightarrow> receipt_state \<Rightarrow> error_class \<Rightarrow> ('z receipt_db_scheme, receipt_error, unit) tx"
  where
  "mark_failure_tx flt now sid aid terminal cls =
     txbind (load_submission_for_update flt sid aid) (\<lambda>(s, _).
       if can_transition (s_state s) terminal
       then transition_state flt now sid aid (s_state s) terminal (Some (error_class_as_str cls)) None None None
       else txret ())"

definition mark_failure :: "uuid \<Rightarrow> uuid \<Rightarrow> receipt_state \<Rightarrow> error_class \<Rightarrow> ('z receipt_db_scheme, unit) proc" where
  "mark_failure sid aid terminal cls = pdb (\<lambda>flt now. receipt_tx flt (mark_failure_tx flt now sid aid terminal cls))"

section \<open>Queries outside a transaction\<close>

definition pquery :: "string \<Rightarrow> ('d \<Rightarrow> 'a) \<Rightarrow> ('d, 'a) proc" where
  "pquery label f = pdb (\<lambda>flt now db. (if flt \<noteq> NoFault then Inl (dependency label) else Inr (f db), db))"

definition account_is_active :: "uuid \<Rightarrow> ('z receipt_db_scheme, bool) proc" where
  "account_is_active aid =
     pquery ''account lookup failed''
       (\<lambda>db. map_option ac_lifecycle_state (find_where (\<lambda>a. ac_id a = aid) (accounts db)) = Some Active)"

definition load_submission :: "uuid \<Rightarrow> uuid \<Rightarrow> ('z receipt_db_scheme, submission_row) proc" where
  "load_submission sid aid =
     pbind (pquery ''submission lookup failed''
              (\<lambda>db. find_where (\<lambda>s. s_id s = sid \<and> s_account_id s = aid) (submissions db))) (\<lambda>row.
       case row of
         None \<Rightarrow> pfail (receipt_not_found ''receipt submission not found'')
       | Some s \<Rightarrow>
           pbind (pquery ''attempt count failed'' (count_attempts (s_id s))) (\<lambda>n. preturn (s, n)))"

definition load_asset :: "uuid \<Rightarrow> uuid \<Rightarrow> ('z receipt_db_scheme, asset option) proc" where
  "load_asset sid aid =
     pquery ''asset lookup failed''
       (\<lambda>db. find_where (\<lambda>a. as_submission a = sid \<and> as_account a = aid) (assets db))"

definition asset_deleted :: "uuid \<Rightarrow> ('z receipt_db_scheme, bool) proc" where
  "asset_deleted sid =
     pquery ''asset state lookup failed''
       (\<lambda>db. map_option as_active (find_where (\<lambda>a. as_submission a = sid) (assets db)) = Some False)"

definition find_active_duplicate :: "uuid \<Rightarrow> string \<Rightarrow> ('z receipt_db_scheme, uuid option) proc" where
  "find_active_duplicate aid sha =
     pquery ''duplicate lookup failed''
       (\<lambda>db. map_option as_submission
          (find_where (\<lambda>a. as_account a = aid \<and> as_content_sha256 a = sha \<and> as_active a) (assets db)))"

definition load_draft :: "uuid \<Rightarrow> uuid \<Rightarrow> ('z receipt_db_scheme, draft) proc" where
  "load_draft sid aid =
     pbind (pquery ''draft lookup failed''
              (\<lambda>db. find_where (\<lambda>d. d_submission_id d = sid \<and> d_account_id d = aid) (drafts db))) (\<lambda>row.
       case row of
         None \<Rightarrow> pfail (receipt_not_found ''expense draft not found'')
       | Some d \<Rightarrow> preturn d)"

fun into_view :: "submission_row \<Rightarrow> bool \<Rightarrow> receipt_state_view" where
  "into_view (s, n) del =
     \<lparr>rv_submission_id = s_id s, rv_account_id = s_account_id s, rv_state = s_state s, rv_version = s_version s,
      rv_duplicate_of = s_duplicate_of s, rv_confirmed_expense_id = s_confirmed_expense_id s,
      rv_failure_error_class = s_failure_error_class s, rv_review_expires_at = s_review_expires_at s,
      rv_asset_deleted = del\<rparr>"

definition get_state :: "uuid \<Rightarrow> uuid \<Rightarrow> ('z receipt_db_scheme, receipt_state_view) proc" where
  "get_state aid sid =
     pbind (load_submission sid aid) (\<lambda>row. pbind (asset_deleted sid) (\<lambda>del. preturn (into_view row del)))"

definition get_draft :: "uuid \<Rightarrow> uuid \<Rightarrow> ('z receipt_db_scheme, draft) proc" where
  "get_draft aid sid = load_draft sid aid"

section \<open>Ingest\<close>

datatype persisted = PersistDone ingest_outcome | PersistConflict

definition persist_stored_ingest_tx ::
  "libs \<Rightarrow> db_fault \<Rightarrow> instant \<Rightarrow> uuid \<Rightarrow> uuid \<Rightarrow> uuid \<Rightarrow> string \<Rightarrow> validated_image \<Rightarrow> uuid \<Rightarrow>
   ('z receipt_db_scheme, receipt_error, bool \<times> persisted) tx" where
  "persist_stored_ingest_tx L flt now asset_id aid sid key v jid =
     txbind (load_submission_for_update flt sid aid) (\<lambda>(s, _).
       if s_state s \<in> {RStored, RExtracting, RReviewRequired, RConfirmed}
       then txret (True, PersistDone (AlreadyStored sid))
       else if is_terminal (s_state s) then txret (False, PersistDone (IngestTerminal (s_state s)))
       else if s_state s \<noteq> RQueued \<and> s_state s \<noteq> RFailedTransient
       then txfail (receipt_conflict ''submission not ready for ingest'')
       else txbind (transition_state flt now sid aid (s_state s) RStored None None None None) (\<lambda>_.
         txbind (insert_asset flt now asset_id sid aid key v) (\<lambda>ins.
           case ins of
             UniqueConflict \<Rightarrow> txret (False, PersistConflict)
           | AssetInserted \<Rightarrow>
               txbind (enqueue_receipt_job L flt now jid job_type_extract sid aid) (\<lambda>_.
                 txret (True, PersistDone (IngestStored sid (vi_content_sha256 v)))))))"

definition persist_stored_ingest ::
  "libs \<Rightarrow> fresh_ids \<Rightarrow> uuid \<Rightarrow> uuid \<Rightarrow> string \<Rightarrow> validated_image \<Rightarrow> uuid \<Rightarrow> ('z receipt_db_scheme, ingest_outcome) proc"
  where
  "persist_stored_ingest L ids aid sid key v jid =
     pbind (pdb (\<lambda>flt now. run_tx_choice flt (dependency ''failed to begin transaction'') (dependency ''commit failed'')
                   (persist_stored_ingest_tx L flt now (ids ''asset'') aid sid key v jid))) (\<lambda>p.
       case p of
         PersistDone oc \<Rightarrow> preturn oc
       | PersistConflict \<Rightarrow>
           pbind (find_active_duplicate aid (vi_content_sha256 v)) (\<lambda>dup.
             case dup of
               Some orig \<Rightarrow>
                 if orig \<noteq> sid
                 then pbind (absorb_duplicate sid aid orig) (\<lambda>_. preturn (DuplicateAbsorbed sid orig))
                 else preturn (AlreadyStored sid)
             | None \<Rightarrow> preturn (AlreadyStored sid)))"

definition compensate_orphan_object :: "uuid \<Rightarrow> uuid \<Rightarrow> string \<Rightarrow> ('z receipt_db_scheme, unit) proc" where
  "compensate_orphan_object aid sid key =
     pbind (ptry (load_asset sid aid)) (\<lambda>r.
       case r of
         Inr (Some _) \<Rightarrow> preturn ()
       | _ \<Rightarrow> pbind (ptry (pobjects (\<lambda>fails. object_delete fails key))) (\<lambda>_. preturn ()))"

definition ingest ::
  "libs \<Rightarrow> fresh_ids \<Rightarrow> uuid \<Rightarrow> uuid \<Rightarrow> string \<Rightarrow> string \<Rightarrow> uuid \<Rightarrow> ('z receipt_db_scheme, ingest_outcome) proc" where
  "ingest L ids aid sid bytes mime jid =
     pbind (account_is_active aid) (\<lambda>active.
       if \<not> active then preturn (IngestTerminal RDeleted)
       else pbind (load_submission sid aid) (\<lambda>(row, _).
         pbind (load_asset sid aid) (\<lambda>asset.
           if s_state row \<in> {RStored, RExtracting, RReviewRequired, RConfirmed}
             \<or> (s_state row = RFailedTransient \<and> asset \<noteq> None)
           then preturn (AlreadyStored sid)
           else if is_terminal (s_state row) then preturn (IngestTerminal (s_state row))
           else if s_state row \<noteq> RQueued \<and> s_state row \<noteq> RFailedTransient
           then pfail (receipt_conflict ''submission not ready for ingest'')
           else case validate_image L bytes mime of
             Inl e \<Rightarrow>
               pbind (mark_failure sid aid RFailedPermanent (receipt_error_class e)) (\<lambda>_. pfail e)
           | Inr v \<Rightarrow>
               pbind (find_active_duplicate aid (vi_content_sha256 v)) (\<lambda>dup.
                 if dup \<noteq> None \<and> dup \<noteq> Some sid
                 then pbind (absorb_duplicate sid aid (the dup)) (\<lambda>_. preturn (DuplicateAbsorbed sid (the dup)))
                 else let key = object_key L aid sid (vi_content_sha256 v)
                   in pbind (pobjects (\<lambda>fails. object_put fails key bytes)) (\<lambda>_.
                        pbind (ptry (persist_stored_ingest L ids aid sid key v jid)) (\<lambda>persist.
                          pbind (case persist of
                                   Inr (IngestStored _ _) \<Rightarrow> preturn ()
                                 | Inr (AlreadyStored _) \<Rightarrow> preturn ()
                                 | _ \<Rightarrow> compensate_orphan_object aid sid key)
                            (\<lambda>_. case persist of Inl e \<Rightarrow> pfail e | Inr oc \<Rightarrow> preturn oc)))))))"

section \<open>Extract\<close>

datatype extract_claim = Proceed | ClaimDone extract_outcome

definition claim_extracting_tx ::
  "db_fault \<Rightarrow> instant \<Rightarrow> uuid \<Rightarrow> uuid \<Rightarrow> ('z receipt_db_scheme, receipt_error, extract_claim) tx" where
  "claim_extracting_tx flt now aid sid =
     txbind (load_submission_for_update flt sid aid) (\<lambda>(s, _).
       if s_state s = RReviewRequired then txret (ClaimDone (AlreadyReviewRequired sid))
       else if is_terminal (s_state s) then txret (ClaimDone (ExtractTerminal (s_state s)))
       else (case s_state s of
               RStored \<Rightarrow> txbind (transition_state flt now sid aid RStored RExtracting None None None None) (\<lambda>_. txret Proceed)
             | RFailedTransient \<Rightarrow>
                 txbind (transition_state flt now sid aid RFailedTransient RExtracting None None None None) (\<lambda>_. txret Proceed)
             | RExtracting \<Rightarrow> txret Proceed
             | _ \<Rightarrow> txfail (receipt_conflict ''submission not ready for extraction'')))"

definition claim_extracting :: "uuid \<Rightarrow> uuid \<Rightarrow> ('z receipt_db_scheme, extract_claim) proc" where
  "claim_extracting aid sid = pdb (\<lambda>flt now. receipt_tx flt (claim_extracting_tx flt now aid sid))"

definition read_and_extract ::
  "(string \<Rightarrow> receipt_error + extracted_attempt) \<Rightarrow> uuid \<Rightarrow> uuid \<Rightarrow> ('z receipt_db_scheme, extracted_attempt) proc" where
  "read_and_extract extract_fn aid sid =
     pbind (load_asset sid aid) (\<lambda>asset.
       case asset of
         None \<Rightarrow> pfail (receipt_not_found ''receipt asset not found'')
       | Some a \<Rightarrow>
           pbind (pobjects (\<lambda>fails st. (object_get fails (as_object_key a) st, st))) (\<lambda>bytes.
             case bytes of
               None \<Rightarrow> pfail (receipt_not_found ''receipt object missing'')
             | Some b \<Rightarrow> (case extract_fn b of Inl e \<Rightarrow> pfail e | Inr x \<Rightarrow> preturn x)))"

definition persist_extraction_success_tx ::
  "db_fault \<Rightarrow> instant \<Rightarrow> receipt_config \<Rightarrow> fresh_ids \<Rightarrow> uuid \<Rightarrow> uuid \<Rightarrow> extraction_result \<Rightarrow> int \<Rightarrow> extraction_meta \<Rightarrow>
   ('z receipt_db_scheme, receipt_error, extract_outcome) tx" where
  "persist_extraction_success_tx flt now cfg ids aid sid x latency meta =
     txbind (load_submission_for_update flt sid aid) (\<lambda>(s, n).
       if s_state s = RReviewRequired then txret (AlreadyReviewRequired sid)
       else if is_terminal (s_state s) then txret (ExtractTerminal (s_state s))
       else if s_state s \<noteq> RExtracting then txfail (receipt_conflict ''submission not ready for extraction'')
       else txbind (record_extraction_attempt flt now (ids ''attempt'') sid (n + 1) ''success'' None latency meta) (\<lambda>_.
         txbind (upsert_draft flt (ids ''draft'') sid aid x) (\<lambda>_.
           txbind (transition_state flt now sid aid RExtracting RReviewRequired None (Some (review_expiry_hours cfg)) None None)
             (\<lambda>_. txret (ReviewReady sid (ids ''draft''))))))"

definition persist_extraction_failure_tx ::
  "db_fault \<Rightarrow> instant \<Rightarrow> fresh_ids \<Rightarrow> uuid \<Rightarrow> uuid \<Rightarrow> string \<Rightarrow> error_class \<Rightarrow> receipt_state \<Rightarrow> int \<Rightarrow> extraction_meta \<Rightarrow>
   ('z receipt_db_scheme, receipt_error, unit) tx" where
  "persist_extraction_failure_tx flt now ids aid sid oc cls terminal latency meta =
     txbind (load_submission_for_update flt sid aid) (\<lambda>(s, n).
       if s_state s \<noteq> RExtracting then txret ()
       else txbind (record_extraction_attempt flt now (ids ''attempt'') sid (n + 1) oc (Some (error_class_as_str cls)) latency meta)
         (\<lambda>_. transition_state flt now sid aid RExtracting terminal (Some (error_class_as_str cls)) None None None))"

definition persist_extraction_failure ::
  "fresh_ids \<Rightarrow> uuid \<Rightarrow> uuid \<Rightarrow> string \<Rightarrow> error_class \<Rightarrow> receipt_state \<Rightarrow> int \<Rightarrow> extraction_meta \<Rightarrow>
   ('z receipt_db_scheme, unit) proc" where
  "persist_extraction_failure ids aid sid oc cls terminal latency meta =
     pdb (\<lambda>flt now. receipt_tx flt (persist_extraction_failure_tx flt now ids aid sid oc cls terminal latency meta))"

text \<open>The quota of extracted pages is counted in a transaction of its own.\<close>

definition count_extraction_page ::
  "libs \<Rightarrow> receipt_config \<Rightarrow> instant \<Rightarrow> ('z receipt_db_scheme, quota_outcome) proc" where
  "count_extraction_page L cfg clock =
     pdb (\<lambda>flt now. run_tx flt (dependency ''failed to begin transaction'') (dependency ''quota commit failed'')
       (tx_map_err (\<lambda>_. dependency ''quota increment failed'')
         (increment_in_transaction flt now ''global'' ''global'' (lib_month L clock) ''extraction_pages''
            (min (int (monthly_extraction_pages cfg)) i64_max))))"

definition extract_receipt ::
  "libs \<Rightarrow> receipt_config \<Rightarrow> (string \<Rightarrow> receipt_error + extracted_attempt) \<Rightarrow> extraction_meta \<Rightarrow> fresh_ids \<Rightarrow>
   instant \<Rightarrow> int \<Rightarrow> uuid \<Rightarrow> uuid \<Rightarrow> ('z receipt_db_scheme, extract_outcome) proc" where
  "extract_receipt L cfg extract_fn meta ids clock latency aid sid =
     pbind (claim_extracting aid sid) (\<lambda>claim.
       case claim of
         ClaimDone oc \<Rightarrow> preturn oc
       | Proceed \<Rightarrow>
           pbind (account_is_active aid) (\<lambda>active.
             if \<not> active then preturn (ExtractTerminal RDeleted)
             else if \<not> extraction_enabled cfg
             then pbind (persist_extraction_failure ids aid sid ''failed'' EKillSwitch RFailedPermanent 0 meta)
                    (\<lambda>_. pfail (receipt_kill_switch ''extraction is disabled''))
             else pbind (count_extraction_page L cfg clock) (\<lambda>quota.
               if exceeded quota
               then pbind (persist_extraction_failure ids aid sid ''failed'' EQuotaExceeded RFailedPermanent 0 meta)
                      (\<lambda>_. pfail (receipt_quota_exceeded ''monthly extraction quota exceeded''))
               else pbind (ptry (read_and_extract extract_fn aid sid)) (\<lambda>r.
                 case r of
                   Inr x \<Rightarrow>
                     if ex_unsupported (xa_result x)
                     then pbind (persist_extraction_failure ids aid sid ''failed'' EUnsupported RFailedPermanent latency (xa_meta x))
                            (\<lambda>_. preturn Unsupported)
                     else pdb (\<lambda>flt now. receipt_tx flt
                            (persist_extraction_success_tx flt now cfg ids aid sid (xa_result x) latency (xa_meta x)))
                 | Inl e \<Rightarrow>
                     pbind (persist_extraction_failure ids aid sid ''failed'' (receipt_error_class e)
                              (failure_state_for (receipt_error_class e)) latency meta)
                       (\<lambda>_. pfail e)))))"

section \<open>Expiry, deletion, retention\<close>

definition expire_candidates :: "instant \<Rightarrow> (uuid \<Rightarrow> bool) \<Rightarrow> int \<Rightarrow> submission list \<Rightarrow> submission list" where
  "expire_candidates now locked limit ss =
     take (nat limit) (sort_key (\<lambda>s. case s_review_expires_at s of None \<Rightarrow> 0 | Some t \<Rightarrow> t)
       (filter (\<lambda>s. s_state s = RReviewRequired
                   \<and> (case s_review_expires_at s of None \<Rightarrow> False | Some t \<Rightarrow> t \<le> now)
                   \<and> \<not> locked (s_id s)) ss))"

fun expire_loop :: "db_fault \<Rightarrow> instant \<Rightarrow> submission list \<Rightarrow> ('z receipt_db_scheme, receipt_error, nat) tx" where
  "expire_loop flt now [] = txret 0"
| "expire_loop flt now (c # cs) =
     txbind (load_submission_for_update flt (s_id c) (s_account_id c)) (\<lambda>(s, _).
       if s_state s \<noteq> RReviewRequired then expire_loop flt now cs
       else txbind (transition_state flt now (s_id c) (s_account_id c) RReviewRequired RExpired None None None None) (\<lambda>_.
         txbind (expire_loop flt now cs) (\<lambda>n. txret (n + 1))))"

definition expire_reviews :: "(uuid \<Rightarrow> bool) \<Rightarrow> int \<Rightarrow> ('z receipt_db_scheme, nat) proc" where
  "expire_reviews locked limit =
     (if limit \<le> 0 then pfail (receipt_validation ''batch_limit must be positive'')
      else pdb (\<lambda>flt now. receipt_tx flt
        (txbind (stmt flt ''expire candidate lookup failed'' (dependency ''expire candidate lookup failed'')
                   (txread (\<lambda>db. expire_candidates now locked limit (submissions db))))
           (expire_loop flt now))))"

definition drop_asset :: "instant \<Rightarrow> asset \<Rightarrow> asset" where
  "drop_asset now a = a\<lparr>as_active := False, as_original_deleted_at := Some now\<rparr>"

definition delete_original_tx ::
  "db_fault \<Rightarrow> instant \<Rightarrow> uuid \<Rightarrow> uuid \<Rightarrow> ('z receipt_db_scheme, receipt_error, unit) tx" where
  "delete_original_tx flt now aid sid =
     txbind (load_submission_for_update flt sid aid) (\<lambda>(s, _).
       txbind (if s_state s \<noteq> RDeleted
               then if \<not> can_transition (s_state s) RDeleted
                    then txfail (receipt_conflict ''submission cannot delete original in current state'')
                    else transition_state flt now sid aid (s_state s) RDeleted None None None None
               else txret ())
         (\<lambda>_. stmt flt ''asset delete update failed'' (dependency ''asset delete update failed'')
            (txwrite (\<lambda>db. db\<lparr>assets := update_where (\<lambda>a. as_submission a = sid \<and> as_active a) (drop_asset now)
                                          (assets db)\<rparr>))))"

definition delete_original :: "uuid \<Rightarrow> uuid \<Rightarrow> ('z receipt_db_scheme, unit) proc" where
  "delete_original aid sid =
     pbind (load_asset sid aid) (\<lambda>asset.
       case asset of
         None \<Rightarrow> pfail (receipt_not_found ''receipt asset not found'')
       | Some a \<Rightarrow>
           if \<not> as_active a then preturn ()
           else pbind (pobjects (\<lambda>fails. object_delete fails (as_object_key a))) (\<lambda>_.
             pdb (\<lambda>flt now. receipt_tx flt (delete_original_tx flt now aid sid))))"

definition retention_due :: "instant \<Rightarrow> (uuid \<Rightarrow> bool) \<Rightarrow> 'z receipt_db_scheme \<Rightarrow> asset \<Rightarrow> bool" where
  "retention_due now locked db a \<longleftrightarrow>
     as_active a \<and> as_retention_deadline a \<le> now \<and> \<not> locked (as_id a)
     \<and> exists_where (\<lambda>s. s_id s = as_submission a \<and> s_account_id s = as_account a
          \<and> s_state s \<in> {RConfirmed, RRejected, RExpired, RFailedPermanent}) (submissions db)"

definition retention_candidates :: "instant \<Rightarrow> (uuid \<Rightarrow> bool) \<Rightarrow> int \<Rightarrow> 'z receipt_db_scheme \<Rightarrow> asset list" where
  "retention_candidates now locked limit db =
     take (nat limit) (sort_key as_retention_deadline (filter (retention_due now locked db) (assets db)))"

fun delete_objects :: "string list \<Rightarrow> ('d, unit) proc" where
  "delete_objects [] = preturn ()"
| "delete_objects (k # ks) = pbind (pobjects (\<lambda>fails. object_delete fails k)) (\<lambda>_. delete_objects ks)"

fun drop_assets :: "db_fault \<Rightarrow> instant \<Rightarrow> uuid list \<Rightarrow> ('z receipt_db_scheme, receipt_error, unit) tx" where
  "drop_assets flt now [] = txret ()"
| "drop_assets flt now (sid # sids) =
     txbind (stmt flt ''retention claim update failed'' (dependency ''retention claim update failed'')
        (txwrite (\<lambda>db. db\<lparr>assets := update_where (\<lambda>a. as_submission a = sid \<and> as_active a) (drop_asset now)
                                      (assets db)\<rparr>)))
       (\<lambda>_. drop_assets flt now sids)"

text \<open>
  One transaction: \<^verbatim>\<open>NOW()\<close> is its start throughout. The selected rows stay locked while their
  objects are deleted; object deletions are not undone when the transaction is.
\<close>

definition retention_sweep :: "(uuid \<Rightarrow> bool) \<Rightarrow> int \<Rightarrow> ('z receipt_db_scheme, nat) proc" where
  "retention_sweep locked limit =
     (if limit \<le> 0 then pfail (receipt_validation ''batch_limit must be positive'')
      else pbind (pdb (\<lambda>flt now db.
                (if flt = FaultAt ''begin'' then Inl (dependency ''failed to begin transaction'')
                 else if flt \<noteq> NoFault then Inl (dependency ''retention candidate lookup failed'')
                 else Inr (now, retention_candidates now locked limit db), db))) (\<lambda>(started, rows).
        pbind (delete_objects (map as_object_key rows)) (\<lambda>_.
          pbind (pdb (\<lambda>flt _. run_tx flt (dependency ''retention claim update failed'') (dependency ''commit failed'')
                       (drop_assets flt started (map as_submission rows))))
            (\<lambda>_. preturn (length rows)))))"

end
