(* ===== verification/Receipt_Proofs.thy ===== *)
theory Receipt_Proofs
  imports Receipt Work_Queue
begin

text \<open>
  The receipt tables under every transaction of the lifecycle: a step relation with one rule per
  transaction, the processes as sequences of such steps, the invariant, and the legality of
  every state change.
\<close>

section \<open>Transactions as steps\<close>

inductive receipt_step :: "libs \<Rightarrow> 'z receipt_db_scheme \<Rightarrow> 'z receipt_db_scheme \<Rightarrow> bool" for L where
  st_accept: "receipt_step L db (snd (receipt_tx flt (accept_submission_in_transaction L flt now rq) db))"
| st_confirm: "receipt_step L db (snd (receipt_tx flt (confirm_in_transaction flt now cq) db))"
| st_reject: "receipt_step L db (snd (receipt_tx flt (reject_in_transaction flt now jq) db))"
| st_edit: "receipt_step L db (snd (receipt_tx flt (edit_draft_in_transaction L flt ids eq) db))"
| st_fail_queued: "receipt_step L db (snd (receipt_tx flt (fail_queued_tx flt now sid aid cls) db))"
| st_absorb: "orig \<noteq> sid \<Longrightarrow> receipt_step L db (snd (receipt_tx flt (absorb_duplicate_tx flt now sid aid orig) db))"
| st_mark_failure: "receipt_step L db (snd (receipt_tx flt (mark_failure_tx flt now sid aid RFailedPermanent cls) db))"
| st_persist: "validate_image L bytes mime = Inr v \<Longrightarrow>
    receipt_step L db (snd (run_tx_choice flt (dependency ''failed to begin transaction'') (dependency ''commit failed'')
      (persist_stored_ingest_tx L flt now i aid sid key v jid) db))"
| st_claim: "receipt_step L db (snd (receipt_tx flt (claim_extracting_tx flt now aid sid) db))"
| st_success: "receipt_step L db (snd (receipt_tx flt (persist_extraction_success_tx flt now cfg ids aid sid x lat meta) db))"
| st_failure: "terminal \<in> {RFailedPermanent, RFailedTransient} \<Longrightarrow>
    receipt_step L db (snd (receipt_tx flt (persist_extraction_failure_tx flt now ids aid sid oc cls terminal lat meta) db))"
| st_quota: "receipt_step L db (snd (run_tx flt e1 e2 (tx_map_err (h :: quota_error \<Rightarrow> receipt_error)
      (increment_in_transaction flt now sc sci per met lim :: ('z receipt_db_scheme, quota_error, quota_outcome) tx)) db))"
| st_expire: "receipt_step L db (snd (receipt_tx flt
      (txbind (stmt flt ''expire candidate lookup failed'' (dependency ''expire candidate lookup failed'')
                   (txread (\<lambda>db. expire_candidates now locked limit (submissions db))))
           (expire_loop flt now)) db))"
| st_delete: "receipt_step L db (snd (receipt_tx flt (delete_original_tx flt now aid sid) db))"
| st_drop: "receipt_step L db (snd (run_tx flt e1 e2 (drop_assets flt now sids) db))"

section \<open>Processes follow the steps\<close>

text \<open>\<open>calm R sc\<close>: what others do between the awaits of the script \<open>sc\<close> are steps of \<open>R\<close>, too.\<close>

definition calm :: "('d \<Rightarrow> 'd \<Rightarrow> bool) \<Rightarrow> (nat \<Rightarrow> 'd await) \<Rightarrow> bool" where
  "calm R sc \<longleftrightarrow> (\<forall>k v. R\<^sup>*\<^sup>* (rw_db v) (rw_db (aw_others (sc k) v)))"

definition follows :: "('d \<Rightarrow> 'd \<Rightarrow> bool) \<Rightarrow> ('d, 'a) proc \<Rightarrow> bool" where
  "follows R p \<longleftrightarrow> (\<forall>sc n w. calm R sc \<longrightarrow> R\<^sup>*\<^sup>* (rw_db w) (rw_db (snd (snd (p sc n w)))))"

lemma followsD: "follows R p \<Longrightarrow> calm R sc \<Longrightarrow> R\<^sup>*\<^sup>* (rw_db w) (rw_db (snd (snd (p sc n w))))"
  unfolding follows_def by blast

lemma follows_basic [simp]: "follows R (preturn a)" "follows R (pfail e)"
  by (simp_all add: follows_def preturn_def pfail_def)

lemma follows_bind:
  assumes "follows R m" "\<And>a. follows R (k a)"
  shows "follows R (pbind m k)"
  unfolding follows_def
proof (intro allI impI)
  fix sc n w assume oth: "calm R sc"
  obtain r n' w' where m: "m sc n w = (r, n', w')" by (cases "m sc n w")
  have a: "R\<^sup>*\<^sup>* (rw_db w) (rw_db w')" using followsD [OF assms(1) oth, of w n] m by simp
  show "R\<^sup>*\<^sup>* (rw_db w) (rw_db (snd (snd (pbind m k sc n w))))"
  proof (cases r)
    case (Inl e)
    then show ?thesis using a m by (simp add: pbind_def)
  next
    case (Inr x)
    have "R\<^sup>*\<^sup>* (rw_db w') (rw_db (snd (snd (k x sc n' w'))))" by (rule followsD [OF assms(2) oth])
    then show ?thesis using a m Inr by (simp add: pbind_def)
  qed
qed

lemma follows_try: "follows R m \<Longrightarrow> follows R (ptry m)"
  unfolding follows_def ptry_def by (simp add: split_beta)

lemma follows_pdb:
  assumes "\<And>flt now d. R\<^sup>*\<^sup>* d (snd (f flt now d))"
  shows "follows R (pdb f)"
  unfolding follows_def
proof (intro allI impI)
  fix sc n w assume "calm R sc"
  then have "R\<^sup>*\<^sup>* (rw_db w) (rw_db (aw_others (sc n) w))" by (simp add: calm_def)
  also have "R\<^sup>*\<^sup>* \<dots> (snd (f (aw_fault (sc n)) (aw_now (sc n)) (rw_db (aw_others (sc n) w))))" by (rule assms)
  finally show "R\<^sup>*\<^sup>* (rw_db w) (rw_db (snd (snd (pdb f sc n w))))" by (simp add: pdb_def Let_def split_beta)
qed

lemma follows_pdb_step: "(\<And>flt now d. R d (snd (f flt now d))) \<Longrightarrow> follows R (pdb f)"
  by (rule follows_pdb) blast

lemma follows_pobjects: "follows R (pobjects f)"
  by (simp add: follows_def calm_def pobjects_def Let_def split_beta)

lemma follows_pquery: "follows R (pquery label f)"
  unfolding pquery_def by (rule follows_pdb) simp

lemmas follows_intros = follows_bind follows_try follows_pobjects follows_pquery

lemma receipt_ops_follow:
  fixes L :: libs
  shows "follows (receipt_step L) (accept_submission L rq)"
    and "follows (receipt_step L) (confirm cq)"
    and "follows (receipt_step L) (reject jq)"
    and "follows (receipt_step L) (edit_draft L ids eq)"
    and "follows (receipt_step L) (fail_queued sid aid cls)"
    and "follows (receipt_step L) (mark_failure sid aid RFailedPermanent cls)"
    and "orig \<noteq> sid \<Longrightarrow> follows (receipt_step L) (absorb_duplicate sid aid orig)"
    and "follows (receipt_step L) (claim_extracting aid sid)"
    and "follows (receipt_step L) (count_extraction_page L cfg clock)"
    and "terminal \<in> {RFailedPermanent, RFailedTransient} \<Longrightarrow>
      follows (receipt_step L) (persist_extraction_failure ids aid sid oc cls terminal lat meta)"
    and "follows (receipt_step L) (expire_reviews locked limit)"
  unfolding accept_submission_def confirm_def reject_def edit_draft_def fail_queued_def mark_failure_def
    absorb_duplicate_def claim_extracting_def count_extraction_page_def persist_extraction_failure_def expire_reviews_def
  by (auto intro!: follows_pdb_step receipt_step.intros)

lemma queries_follow:
  "follows R (account_is_active aid)" "follows R (load_submission sid aid)" "follows R (load_asset sid aid)"
  "follows R (asset_deleted sid)" "follows R (find_active_duplicate aid sha)" "follows R (load_draft sid aid)"
  "follows R (get_state aid sid)" "follows R (get_draft aid sid)" "follows R (compensate_orphan_object aid sid key)"
  unfolding account_is_active_def load_submission_def load_asset_def asset_deleted_def find_active_duplicate_def
    load_draft_def get_state_def get_draft_def compensate_orphan_object_def
  by (auto intro!: follows_intros split: option.split sum.split)

lemma persist_stored_ingest_follows:
  assumes "validate_image L bytes mime = Inr v"
  shows "follows (receipt_step L) (persist_stored_ingest L ids aid sid key v jid)"
  unfolding persist_stored_ingest_def
  by (auto intro!: follows_bind follows_pdb_step receipt_ops_follow queries_follow st_persist [OF assms]
      split: persisted.split option.split)

lemma ingest_follows: "follows (receipt_step L) (ingest L ids aid sid bytes mime jid)"
  unfolding ingest_def
  by (auto simp: Let_def intro!: follows_bind follows_try follows_pobjects receipt_ops_follow queries_follow
      persist_stored_ingest_follows split: sum.split ingest_outcome.split)

lemma extract_receipt_follows:
  "follows (receipt_step L) (extract_receipt L cfg extract_fn meta ids clock latency aid sid)"
proof -
  have read: "follows (receipt_step L) (read_and_extract extract_fn aid sid)"
    unfolding read_and_extract_def
    by (auto intro!: follows_bind follows_pobjects queries_follow split: option.split sum.split)
  show ?thesis
    unfolding extract_receipt_def
    by (auto intro!: follows_bind follows_try follows_pdb_step receipt_ops_follow queries_follow read st_success
        split: extract_claim.split sum.split simp: failure_state_for_def)
qed

lemma delete_objects_follows: "follows R (delete_objects ks)"
  by (induction ks) (auto intro!: follows_bind follows_pobjects)

lemma delete_original_follows: "follows (receipt_step L) (delete_original aid sid)"
  unfolding delete_original_def
  by (auto intro!: follows_bind follows_pobjects follows_pdb_step queries_follow st_delete split: option.split)

lemma retention_sweep_follows: "follows (receipt_step L) (retention_sweep locked limit)"
proof -
  have sel: "follows (receipt_step L) (pdb (\<lambda>flt now db.
      (if flt = FaultAt ''begin'' then Inl (dependency ''failed to begin transaction'')
       else if flt \<noteq> NoFault then Inl (dependency ''retention candidate lookup failed'')
       else Inr (now, retention_candidates now locked limit db), db)))"
    by (rule follows_pdb) simp
  show ?thesis
    unfolding retention_sweep_def
    by (auto intro!: sel follows_bind delete_objects_follows follows_pdb_step st_drop)
qed

section \<open>The invariant\<close>

text \<open>The CHECK constraints of a submission row.\<close>

definition submission_ok :: "submission \<Rightarrow> bool" where
  "submission_ok s \<longleftrightarrow>
     0 < s_version s \<and> s_version s \<le> i32_max
     \<and> s_duplicate_of s \<noteq> Some (s_id s)
     \<and> (s_state s = RConfirmed \<longrightarrow> s_confirmed_expense_id s \<noteq> None)
     \<and> (s_confirmed_expense_id s \<noteq> None \<longrightarrow> s_state s \<in> {RConfirmed, RDeleted})
     \<and> (s_state s = RReviewRequired \<longrightarrow> s_review_expires_at s \<noteq> None)
     \<and> (s_failure_error_class s \<noteq> None \<longrightarrow> s_state s \<in> {RFailedTransient, RFailedPermanent, RDeleted})
     \<and> (s_duplicate_of s \<noteq> None \<longrightarrow> s_state s \<in> {RFailedPermanent, RDeleted})"

text \<open>A confirmed submission points at the one expense that was made from it.\<close>

definition expense_linked :: "expense list \<Rightarrow> submission \<Rightarrow> bool" where
  "expense_linked es s \<longleftrightarrow>
     (\<forall>eid. s_confirmed_expense_id s = Some eid \<longrightarrow>
        (\<exists>e \<in> set es. e_id e = eid \<and> e_receipt_submission_id e = Some (s_id s)))"

definition one_expense :: "expense list \<Rightarrow> bool" where
  "one_expense es \<longleftrightarrow>
     distinct (map e_id es)
     \<and> (\<forall>e1 \<in> set es. \<forall>e2 \<in> set es.
          e_receipt_submission_id e1 \<noteq> None \<longrightarrow> e_receipt_submission_id e1 = e_receipt_submission_id e2 \<longrightarrow> e1 = e2)"

text \<open>One asset per submission, one active asset per account and content, within the size limits.\<close>

definition asset_ok :: "asset \<Rightarrow> bool" where
  "asset_ok a \<longleftrightarrow>
     0 < as_size_bytes a \<and> as_size_bytes a \<le> 10485760 \<and> 0 < as_width_px a \<and> 0 < as_height_px a
     \<and> as_pixel_count a = as_width_px a * as_height_px a \<and> as_pixel_count a \<le> 25000000
     \<and> (as_active a \<longleftrightarrow> as_original_deleted_at a = None)"

definition assets_unique :: "asset list \<Rightarrow> bool" where
  "assets_unique as \<longleftrightarrow>
     distinct (map as_submission as)
     \<and> (\<forall>a \<in> set as. \<forall>b \<in> set as. as_active a \<longrightarrow> as_active b \<longrightarrow> as_account a = as_account b \<longrightarrow>
          as_content_sha256 a = as_content_sha256 b \<longrightarrow> a = b)
     \<and> (\<forall>a \<in> set as. asset_ok a)"

definition drafts_ok :: "draft list \<Rightarrow> bool" where
  "drafts_ok ds \<longleftrightarrow>
     distinct (map d_id ds) \<and> distinct (map d_submission_id ds)
     \<and> (\<forall>d \<in> set ds. draft_row_ok d \<and> 0 < d_version d \<and> d_version d \<le> i32_max)"

definition receipt_inv :: "'z receipt_db_scheme \<Rightarrow> bool" where
  "receipt_inv db \<longleftrightarrow>
     distinct (map s_id (submissions db))
     \<and> (\<forall>s \<in> set (submissions db). submission_ok s \<and> expense_linked (expenses db) s)
     \<and> one_expense (expenses db) \<and> assets_unique (assets db) \<and> drafts_ok (drafts db)"

lemma receipt_invD:
  assumes "receipt_inv db"
  shows "distinct (map s_id (submissions db))" "s \<in> set (submissions db) \<Longrightarrow> submission_ok s"
    "s \<in> set (submissions db) \<Longrightarrow> expense_linked (expenses db) s"
    "one_expense (expenses db)" "assets_unique (assets db)" "drafts_ok (drafts db)"
  using assms by (simp_all add: receipt_inv_def)

text \<open>Statements that only read keep everything.\<close>

lemma tx_keeps_reads [simp]:
  "tx_keeps P (account_is_active_in_tx flt aid)"
  "tx_keeps P (load_submission_tuple_for_update flt sid o')"
  "tx_keeps P (load_submission_tuple_by_inbound_event flt ev)"
  "tx_keeps P (load_existing_submission flt sid evo)"
  "tx_keeps P (load_submission_for_update flt sid aid)"
  "tx_keeps P (load_draft_for_update flt sid aid)"
  "tx_keeps P (ensure_category flt k)"
  "tx_keeps P (lookup_confirmed_expense_id flt sid)"
  "tx_keeps P (check_opt f v)" "tx_keeps P (checked_merchant m)"
  unfolding account_is_active_in_tx_def load_submission_tuple_for_update_def load_existing_submission_def
    load_submission_tuple_by_inbound_event_def load_submission_for_update_def load_draft_for_update_def
    ensure_category_def lookup_confirmed_expense_id_def check_opt_def checked_merchant_def
  by (auto intro!: tx_keeps_stmt tx_keeps_bind split: option.split sum.split)

text \<open>What the other statements do to the invariant.\<close>

lemma insert_submission_keeps: "tx_keeps receipt_inv (insert_submission flt now sid aid ev)"
proof (rule tx_keepsI)
  fix db a db' assume inv: "receipt_inv db" and m: "insert_submission flt now sid aid ev db = Inr (a, db')"
  consider "db' = db" | "db' = db\<lparr>submissions := submissions db @ [new_submission now sid aid ev]\<rparr>"
      "sid \<notin> s_id ` set (submissions db)"
    using m by (fastforce simp: insert_submission_def tx_simps exists_where_iff split: if_splits)
  then show "receipt_inv db'"
  proof cases
    case 2
    then show ?thesis using inv
      by (auto simp: receipt_inv_def new_submission_def submission_ok_def expense_linked_def)
  qed (use inv in simp)
qed

lemma same_submissions_keeps:
  assumes "receipt_inv db" "submissions db' = submissions db" "expenses db' = expenses db"
    "assets db' = assets db" "drafts db' = drafts db"
  shows "receipt_inv db'"
  using assms by (simp add: receipt_inv_def)

lemma record_extraction_attempt_keeps: "tx_keeps receipt_inv (record_extraction_attempt flt now i sid n oc cls lat meta)"
  by (rule tx_keepsI) (auto simp: record_extraction_attempt_def tx_simps split: if_splits elim!: same_submissions_keeps)

lemma record_correction_keeps: "tx_keeps receipt_inv (record_correction flt i did sid f o' n)"
  by (rule tx_keepsI) (auto simp: record_correction_def tx_simps elim!: same_submissions_keeps)

lemma enqueue_receipt_job_keeps: "tx_keeps receipt_inv (enqueue_receipt_job L flt now jid jt sid aid)"
  by (rule tx_keepsI)
    (auto simp: enqueue_receipt_job_def enqueue_in_transaction_def tx_simps split: if_splits sum.splits
      elim!: same_submissions_keeps)

lemma drafts_ok_update:
  assumes ok: "drafts_ok ds" and p: "\<And>d. d \<in> set ds \<Longrightarrow> p d \<Longrightarrow>
    d_id (f d) = d_id d \<and> d_submission_id (f d) = d_submission_id d \<and> draft_row_ok (f d)
    \<and> 0 < d_version (f d) \<and> d_version (f d) \<le> i32_max"
  shows "drafts_ok (update_where p f ds)"
proof -
  have "map d_id (update_where p f ds) = map d_id ds" "map d_submission_id (update_where p f ds) = map d_submission_id ds"
    by (rule map_update_where_mem; use p in blast)+
  moreover have "draft_row_ok d \<and> 0 < d_version d \<and> d_version d \<le> i32_max" if "d \<in> set (update_where p f ds)" for d
    using that p ok by (auto simp: set_update_where drafts_ok_def)
  ultimately show ?thesis using ok by (simp add: drafts_ok_def)
qed

lemma drafts_change_keeps:
  assumes "receipt_inv db" "drafts_ok ds"
  shows "receipt_inv (db\<lparr>drafts := ds\<rparr>)"
  using assms by (simp add: receipt_inv_def)

lemma draft_row_ok_cong [simp]:
  "draft_row_ok (d\<lparr>d_id := i\<rparr>) = draft_row_ok d" "draft_row_ok (d\<lparr>d_account_id := a\<rparr>) = draft_row_ok d"
  "draft_row_ok (d\<lparr>d_version := v\<rparr>) = draft_row_ok d"
  by (simp_all add: draft_row_ok_def)

lemma upsert_draft_keeps: "tx_keeps receipt_inv (upsert_draft flt i sid aid x)"
  unfolding upsert_draft_def
proof (intro tx_keeps_bind tx_keeps_reads tx_keeps_stmt tx_keepsI)
  fix db a db'
  let ?new = "extracted_draft i sid aid x"
  let ?f = "\<lambda>d. ?new\<lparr>d_id := d_id d, d_account_id := d_account_id d, d_version := d_version d + 1\<rparr>"
  assume inv: "receipt_inv db" and m: "(let new = ?new
         in if \<not> draft_row_ok new then Inl (dependency ''draft upsert failed'')
            else case find_where (\<lambda>d. d_submission_id d = sid) (drafts db) of
              None \<Rightarrow>
                if exists_where (\<lambda>d. d_id d = i) (drafts db) then Inl (dependency ''draft upsert failed'')
                else Inr ((), db\<lparr>drafts := drafts db @ [new]\<rparr>)
            | Some old \<Rightarrow>
                if i32_max < d_version old + 1 then Inl (dependency ''draft upsert failed'')
                else Inr ((), db\<lparr>drafts := update_where (\<lambda>d. d_submission_id d = sid)
                       (\<lambda>d. new\<lparr>d_id := d_id d, d_account_id := d_account_id d, d_version := d_version d + 1\<rparr>)
                       (drafts db)\<rparr>)) = Inr (a, db')"
  have new: "d_submission_id ?new = sid" "d_id ?new = i" "d_version ?new = 1" by (simp_all add: extracted_draft_def)
  have ok: "draft_row_ok ?new" using m by (simp add: Let_def split: if_splits)
  have D: "drafts_ok (drafts db)" by (rule receipt_invD(6) [OF inv])
  show "receipt_inv db'"
  proof (cases "find_where (\<lambda>d. d_submission_id d = sid) (drafts db)")
    case None
    then have "db' = db\<lparr>drafts := drafts db @ [?new]\<rparr>" "i \<notin> d_id ` set (drafts db)"
      using m ok by (auto simp: Let_def exists_where_iff split: if_splits)
    moreover have "sid \<notin> d_submission_id ` set (drafts db)" using None by (auto simp: find_where_None)
    ultimately show ?thesis using D ok new drafts_change_keeps [OF inv, of "drafts db @ [?new]"]
      by (auto simp: drafts_ok_def)
  next
    case (Some old)
    then have db': "db' = db\<lparr>drafts := update_where (\<lambda>d. d_submission_id d = sid) ?f (drafts db)\<rparr>"
      and old: "d_version old + 1 \<le> i32_max"
      using m ok by (auto simp: Let_def split: if_splits)
    have only: "d = old" if "d \<in> set (drafts db)" "d_submission_id d = sid" for d
      using that find_where_SomeD [OF Some] D distinct_key_eq unfolding drafts_ok_def by metis
    have "drafts_ok (update_where (\<lambda>d. d_submission_id d = sid) ?f (drafts db))"
    proof (rule drafts_ok_update [OF D])
      fix d assume d: "d \<in> set (drafts db)" "d_submission_id d = sid"
      then have "0 < d_version d" "d = old" using D only by (auto simp: drafts_ok_def)
      then show "d_id (?f d) = d_id d \<and> d_submission_id (?f d) = d_submission_id d \<and> draft_row_ok (?f d)
          \<and> 0 < d_version (?f d) \<and> d_version (?f d) \<le> i32_max"
        using ok new old d(2) by simp
    qed
    then show ?thesis unfolding db' by (rule drafts_change_keeps [OF inv])
  qed
qed

lemma update_draft_keeps: "tx_keeps receipt_inv (update_draft flt d)"
proof (rule tx_keepsI)
  fix db a db' assume inv: "receipt_inv db" and m: "update_draft flt d db = Inr (a, db')"
  let ?p = "\<lambda>x. d_id x = d_id d \<and> d_version x = d_version d"
  let ?f = "\<lambda>x. x\<lparr>d_amount_minor := d_amount_minor d, d_currency := d_currency d, d_merchant := d_merchant d,
      d_category_key := d_category_key d, d_transaction_type := d_transaction_type d,
      d_occurred_at := d_occurred_at d, d_version := d_version x + 1\<rparr>"
  have D: "drafts_ok (drafts db)" by (rule receipt_invD(6) [OF inv])
  from m have db': "db' = db\<lparr>drafts := update_where ?p ?f (drafts db)\<rparr>"
    and ok: "exists_where ?p (drafts db) \<Longrightarrow> draft_row_ok d \<and> d_version d + 1 \<le> i32_max"
    by (auto simp: update_draft_def ensure_category_def tx_simps Let_def split: if_splits)
  have "drafts_ok (update_where ?p ?f (drafts db))"
  proof (rule drafts_ok_update [OF D])
    fix x assume x: "x \<in> set (drafts db)" "?p x"
    then have "draft_row_ok d" "d_version d + 1 \<le> i32_max" using ok by (auto simp: exists_where_iff)
    moreover have "draft_row_ok x" "0 < d_version x" using D x(1) by (auto simp: drafts_ok_def)
    ultimately show "d_id (?f x) = d_id x \<and> d_submission_id (?f x) = d_submission_id x \<and> draft_row_ok (?f x)
        \<and> 0 < d_version (?f x) \<and> d_version (?f x) \<le> i32_max"
      using x(2) by (simp add: draft_row_ok_def)
  qed
  then show "receipt_inv db'" unfolding db' by (rule drafts_change_keeps [OF inv])
qed

lemma expense_linked_mono: "expense_linked es s \<Longrightarrow> set es \<subseteq> set es' \<Longrightarrow> expense_linked es' s"
  unfolding expense_linked_def by blast

lemma insert_confirmed_expense_keeps: "tx_keeps receipt_inv (insert_confirmed_expense flt now eid aid sid d)"
proof (rule tx_keepsI)
  fix db a db' assume inv: "receipt_inv db" and m: "insert_confirmed_expense flt now eid aid sid d db = Inr (a, db')"
  let ?e = "confirmed_expense now eid aid sid d"
  consider "db' = db" | "db' = db\<lparr>expenses := expenses db @ [?e]\<rparr>"
      "\<forall>e \<in> set (expenses db). e_receipt_submission_id e \<noteq> Some sid" "\<forall>e \<in> set (expenses db). e_id e \<noteq> eid"
    using m by (fastforce simp: insert_confirmed_expense_def tx_simps exists_where_iff split: if_splits)
  then show "receipt_inv db'"
  proof cases
    case 2
    have "one_expense (expenses db @ [?e])"
      using receipt_invD(4) [OF inv] 2(2,3) by (auto simp: one_expense_def confirmed_expense_def)
    moreover have "expense_linked (expenses db @ [?e]) s" if "s \<in> set (submissions db)" for s
      by (rule expense_linked_mono [OF receipt_invD(3) [OF inv that]]) auto
    ultimately show ?thesis using inv 2(1) by (simp add: receipt_inv_def)
  qed (use inv in simp)
qed

lemma insert_asset_keeps:
  assumes v: "validate_image L bytes mime = Inr v"
  shows "tx_keeps receipt_inv (insert_asset flt now i sid aid key v)"
proof (rule tx_keepsI)
  fix db a db' assume inv: "receipt_inv db" and m: "insert_asset flt now i sid aid key v db = Inr (a, db')"
  consider "db' = db" | days where "db' = db\<lparr>assets := assets db @ [new_asset now days i sid aid key v]\<rparr>"
      "\<forall>x \<in> set (assets db). as_submission x \<noteq> sid"
      "\<forall>x \<in> set (assets db). as_active x \<longrightarrow> as_account x = aid \<longrightarrow> as_content_sha256 x \<noteq> vi_content_sha256 v"
    using m by (fastforce simp: insert_asset_def tx_simps exists_where_iff split: option.splits if_splits)
  then show "receipt_inv db'"
  proof cases
    case (2 days)
    let ?a = "new_asset now days i sid aid key v"
    have "asset_ok ?a" using validate_imageD [OF v] by (simp add: asset_ok_def new_asset_def)
    then have "assets_unique (assets db @ [?a])"
      using receipt_invD(5) [OF inv] 2(2,3) by (auto simp: assets_unique_def new_asset_def)
    then show ?thesis using inv 2(1) by (simp add: receipt_inv_def)
  qed (use inv in simp)
qed

lemma drop_asset_keeps:
  "receipt_inv db \<Longrightarrow> receipt_inv (db\<lparr>assets := update_where p (drop_asset now) (assets db)\<rparr>)"
proof -
  assume inv: "receipt_inv db"
  have U: "assets_unique (assets db)" by (rule receipt_invD(5) [OF inv])
  have "map as_submission (update_where p (drop_asset now) (assets db)) = map as_submission (assets db)"
    by (rule map_update_where) (simp add: drop_asset_def)
  moreover have "asset_ok a" "as_active a \<longrightarrow> a \<in> set (assets db)" if "a \<in> set (update_where p (drop_asset now) (assets db))" for a
    using that U by (auto simp: set_update_where assets_unique_def asset_ok_def drop_asset_def)
  ultimately have "assets_unique (update_where p (drop_asset now) (assets db))"
    using U unfolding assets_unique_def by auto
  then show ?thesis using inv by (simp add: receipt_inv_def)
qed

text \<open>A transition, with what it has to bring along for its target state.\<close>

lemma moved_sel [simp]:
  "s_id (moved_submission now to cls h e d s) = s_id s" "s_account_id (moved_submission now to cls h e d s) = s_account_id s"
  "s_inbound_event_id (moved_submission now to cls h e d s) = s_inbound_event_id s"
  "s_state (moved_submission now to cls h e d s) = to" "s_version (moved_submission now to cls h e d s) = s_version s + 1"
  by (simp_all add: moved_submission_def)

lemma transition_result:
  assumes "transition_state flt now sid aid from to cls hours eid dup db = Inr (a, db')"
  shows "can_transition from to"
    "db' = db\<lparr>submissions := update_where (\<lambda>s. s_id s = sid \<and> s_account_id s = aid \<and> s_state s = from)
       (moved_submission now to cls hours eid dup) (submissions db)\<rparr>"
    "s \<in> set (submissions db) \<Longrightarrow> s_id s = sid \<Longrightarrow> s_account_id s = aid \<Longrightarrow> s_state s = from \<Longrightarrow> s_version s + 1 \<le> i32_max"
  using assms by (auto simp: transition_state_def tx_simps Let_def exists_where_iff split: if_splits)

lemma moved_ok:
  assumes "submission_ok s" "can_transition (s_state s) to" "s_version s + 1 \<le> i32_max"
    and "to = RReviewRequired \<Longrightarrow> hours \<noteq> None" "to = RConfirmed \<longleftrightarrow> eid \<noteq> None"
    and "dup \<noteq> None \<Longrightarrow> to = RFailedPermanent \<and> dup \<noteq> Some (s_id s)"
  shows "submission_ok (moved_submission now to cls hours eid dup s)"
  using assms
  by (cases "s_state s"; cases to) (auto simp: submission_ok_def moved_submission_def can_transition_def split: option.splits)

lemma transition_keeps_inv:
  assumes inv: "receipt_inv db"
    and t: "transition_state flt now sid aid from to cls hours eid dup db = Inr (a, db')"
    and side: "to = RReviewRequired \<Longrightarrow> hours \<noteq> None" "to = RConfirmed \<longleftrightarrow> eid \<noteq> None"
      "dup \<noteq> None \<Longrightarrow> to = RFailedPermanent \<and> dup \<noteq> Some sid"
      "\<And>i. eid = Some i \<Longrightarrow> \<exists>e \<in> set (expenses db). e_id e = i \<and> e_receipt_submission_id e = Some sid"
  shows "receipt_inv db'"
proof -
  let ?p = "\<lambda>s. s_id s = sid \<and> s_account_id s = aid \<and> s_state s = from"
  let ?f = "moved_submission now to cls hours eid dup"
  note T = transition_result [OF t]
  have "map s_id (update_where ?p ?f (submissions db)) = map s_id (submissions db)"
    by (rule map_update_where) simp
  moreover have "submission_ok s \<and> expense_linked (expenses db) s" if mem: "s \<in> set (update_where ?p ?f (submissions db))" for s
  proof -
    from mem consider "s \<in> set (submissions db)" | x where "x \<in> set (submissions db)" "?p x" "s = ?f x"
      by (auto simp: set_update_where)
    then show ?thesis
    proof cases
      case 1
      then show ?thesis using receipt_invD(2,3) [OF inv] by blast
    next
      case 2
      have "submission_ok (?f x)"
        by (rule moved_ok [OF receipt_invD(2) [OF inv 2(1)]]) (use 2 T(1) T(3) [OF 2(1)] side in auto)
      moreover have "expense_linked (expenses db) (?f x)"
        using receipt_invD(3) [OF inv 2(1)] side(4) 2(2)
        by (auto simp: expense_linked_def moved_submission_def split: if_splits)
      ultimately show ?thesis using 2(3) by simp
    qed
  qed
  ultimately show ?thesis using inv unfolding T(2) receipt_inv_def by simp
qed

lemma transition_keeps:
  assumes "to = RReviewRequired \<Longrightarrow> hours \<noteq> None" "to \<noteq> RConfirmed" "dup \<noteq> None \<Longrightarrow> to = RFailedPermanent \<and> dup \<noteq> Some sid"
  shows "tx_keeps receipt_inv (transition_state flt now sid aid from to cls hours None dup)"
  by (rule tx_keepsI, rule transition_keeps_inv) (use assms in auto)

section \<open>Legal moves\<close>

definition legal_move :: "submission \<Rightarrow> submission \<Rightarrow> bool" where
  "legal_move s s' \<longleftrightarrow>
     can_transition (s_state s) (s_state s') \<and> s_version s' = s_version s + 1
     \<and> s_id s' = s_id s \<and> s_account_id s' = s_account_id s \<and> s_inbound_event_id s' = s_inbound_event_id s
     \<and> (s_state s = RConfirmed \<longrightarrow> s_confirmed_expense_id s' = s_confirmed_expense_id s)"

definition advanced :: "'z receipt_db_scheme \<Rightarrow> 'z receipt_db_scheme \<Rightarrow> bool" where
  "advanced db0 db \<longleftrightarrow> (\<forall>s \<in> set (submissions db0). \<exists>s' \<in> set (submissions db). legal_move\<^sup>*\<^sup>* s s')"

lemma advanced_refl [simp]: "advanced db db"
  unfolding advanced_def by blast

lemma advanced_trans: "advanced a b \<Longrightarrow> advanced b c \<Longrightarrow> advanced a c"
  unfolding advanced_def by (meson rtranclp_trans)

lemma advanced_same: "advanced db0 db \<Longrightarrow> submissions db' = submissions db \<Longrightarrow> advanced db0 db'"
  by (simp add: advanced_def)

lemma transition_advances:
  assumes "eid = None \<or> from \<noteq> RConfirmed"
  shows "tx_keeps (advanced db0) (transition_state flt now sid aid from to cls hours eid dup)"
proof (rule tx_keepsI)
  fix db a db' assume adv: "advanced db0 db"
    and t: "transition_state flt now sid aid from to cls hours eid dup db = Inr (a, db')"
  let ?p = "\<lambda>s. s_id s = sid \<and> s_account_id s = aid \<and> s_state s = from"
  let ?f = "moved_submission now to cls hours eid dup"
  note T = transition_result [OF t]
  have "\<exists>s' \<in> set (submissions db'). legal_move\<^sup>*\<^sup>* s s'" if "s \<in> set (submissions db)" for s
  proof (cases "?p s")
    case True
    then have "?f s \<in> set (submissions db')" using that by (auto simp: T(2) set_update_where)
    moreover have "legal_move s (?f s)" using True T(1) assms by (auto simp: legal_move_def moved_submission_def)
    ultimately show ?thesis by blast
  next
    case False
    then have "s \<in> set (submissions db')" using that by (simp add: T(2) set_update_where)
    then show ?thesis by blast
  qed
  then have "advanced db db'" by (simp add: advanced_def)
  with adv show "advanced db0 db'" by (rule advanced_trans)
qed

lemma statements_advance:
  "tx_keeps (advanced db0) (insert_submission flt now sid aid ev)"
  "tx_keeps (advanced db0) (record_extraction_attempt flt now i sid n oc cls lat meta)"
  "tx_keeps (advanced db0) (record_correction flt i did sid f o' nv)"
  "tx_keeps (advanced db0) (enqueue_receipt_job L flt now jid jt sid aid)"
  "tx_keeps (advanced db0) (upsert_draft flt i sid aid x)"
  "tx_keeps (advanced db0) (update_draft flt d)"
  "tx_keeps (advanced db0) (insert_confirmed_expense flt now eid aid sid d)"
  "tx_keeps (advanced db0) (insert_asset flt now i sid aid key v)"
  unfolding insert_submission_def record_extraction_attempt_def record_correction_def enqueue_receipt_job_def
    upsert_draft_def update_draft_def insert_confirmed_expense_def insert_asset_def enqueue_in_transaction_def
    ensure_category_def
  by (rule tx_keepsI;
      auto simp: tx_simps Let_def split: if_splits option.splits sum.splits elim: advanced_same;
      fastforce simp: advanced_def)+

section \<open>Every transaction keeps the invariant and moves legally\<close>

text \<open>Both properties at once: the invariant, and having advanced from a given state.\<close>

definition sound :: "'z receipt_db_scheme \<Rightarrow> 'z receipt_db_scheme \<Rightarrow> bool" where
  "sound db0 db \<longleftrightarrow> receipt_inv db \<and> advanced db0 db"

lemma tx_keeps_conj: "tx_keeps P m \<Longrightarrow> tx_keeps Q m \<Longrightarrow> tx_keeps (\<lambda>s. P s \<and> Q s) m"
  unfolding tx_keeps_def by blast

lemma sound_eq: "sound db0 = (\<lambda>db. receipt_inv db \<and> advanced db0 db)"
  by (simp add: sound_def fun_eq_iff)

lemma statements_sound:
  "tx_keeps (sound db0) (insert_submission flt now sid aid ev)"
  "tx_keeps (sound db0) (record_extraction_attempt flt now i sid n oc cls lat meta)"
  "tx_keeps (sound db0) (record_correction flt i did sid f o' nv)"
  "tx_keeps (sound db0) (enqueue_receipt_job L flt now jid jt sid aid)"
  "tx_keeps (sound db0) (upsert_draft flt i sid aid x)"
  "tx_keeps (sound db0) (update_draft flt d)"
  "tx_keeps (sound db0) (insert_confirmed_expense flt now eid aid sid d)"
  "validate_image L bytes mime = Inr v \<Longrightarrow> tx_keeps (sound db0) (insert_asset flt now i sid aid key v)"
  unfolding sound_eq
  by (intro tx_keeps_conj statements_advance insert_submission_keeps record_extraction_attempt_keeps record_correction_keeps
      enqueue_receipt_job_keeps upsert_draft_keeps update_draft_keeps insert_confirmed_expense_keeps insert_asset_keeps;
      assumption)+

lemma transition_sound:
  assumes "to = RReviewRequired \<Longrightarrow> hours \<noteq> None" "to \<noteq> RConfirmed" "dup \<noteq> None \<Longrightarrow> to = RFailedPermanent \<and> dup \<noteq> Some sid"
  shows "tx_keeps (sound db0) (transition_state flt now sid aid from to cls hours None dup)"
  unfolding sound_eq by (rule tx_keeps_conj [OF transition_keeps transition_advances]) (use assms in auto)

lemmas tx_intros = tx_keeps_bind tx_keeps_stmt statements_sound transition_sound

lemma finish_accept_sound: "tx_keeps (sound db0) (finish_accept_in_transaction L flt now sid aid jid)"
  unfolding finish_accept_in_transaction_def by (auto intro!: tx_intros)

lemma accept_sound: "tx_keeps (sound db0) (accept_submission_in_transaction L flt now r)"
  unfolding accept_submission_in_transaction_def
  by (auto intro!: tx_keeps_bind finish_accept_sound statements_sound split: option.split)

lemma reject_sound: "tx_keeps (sound db0) (reject_in_transaction flt now r)"
  unfolding reject_in_transaction_def by (auto intro!: tx_intros)

lemma edit_field_sound: "tx_keeps (sound db0) (edit_field flt ids d sid f sh old new sf nxt)"
  unfolding edit_field_def by (auto intro!: tx_intros split: option.split)

lemma edit_sound: "tx_keeps (sound db0) (edit_draft_in_transaction L flt ids r)"
  unfolding edit_draft_in_transaction_def Let_def
  by (auto intro!: tx_keeps_bind edit_field_sound statements_sound split: option.split)

lemma fail_queued_sound: "tx_keeps (sound db0) (fail_queued_tx flt now sid aid cls)"
  unfolding fail_queued_tx_def by (auto intro!: tx_intros)

lemma absorb_sound: "orig \<noteq> sid \<Longrightarrow> tx_keeps (sound db0) (absorb_duplicate_tx flt now sid aid orig)"
  unfolding absorb_duplicate_tx_def by (auto intro!: tx_intros)

lemma mark_failure_sound: "tx_keeps (sound db0) (mark_failure_tx flt now sid aid RFailedPermanent cls)"
  unfolding mark_failure_tx_def by (auto intro!: tx_intros)

lemma persist_sound:
  "validate_image L bytes mime = Inr v \<Longrightarrow> tx_keeps (sound db0) (persist_stored_ingest_tx L flt now i aid sid key v jid)"
  unfolding persist_stored_ingest_tx_def by (auto intro!: tx_intros split: asset_insert.split)

lemma claim_extracting_sound: "tx_keeps (sound db0) (claim_extracting_tx flt now aid sid)"
  unfolding claim_extracting_tx_def by (auto intro!: tx_intros split: receipt_state.split)

lemma success_sound: "tx_keeps (sound db0) (persist_extraction_success_tx flt now cfg ids aid sid x lat meta)"
  unfolding persist_extraction_success_tx_def by (auto intro!: tx_intros)

lemma failure_sound:
  "terminal \<in> {RFailedPermanent, RFailedTransient} \<Longrightarrow>
   tx_keeps (sound db0) (persist_extraction_failure_tx flt now ids aid sid oc cls terminal lat meta)"
  unfolding persist_extraction_failure_tx_def by (auto intro!: tx_intros)

lemma expire_loop_sound: "tx_keeps (sound db0) (expire_loop flt now cs)"
proof (induction cs)
  case (Cons c cs)
  then show ?case by (auto intro!: tx_intros)
qed (simp add: tx_keeps_def)

lemma drop_sound:
  "tx_keeps (sound db0) (txwrite (\<lambda>db. db\<lparr>assets := update_where p (drop_asset now) (assets db)\<rparr>))"
  by (rule tx_keepsI) (auto simp: sound_def drop_asset_keeps elim: advanced_same)

lemma delete_original_sound: "tx_keeps (sound db0) (delete_original_tx flt now aid sid)"
  unfolding delete_original_tx_def by (auto intro!: tx_intros drop_sound)

lemma drop_assets_sound: "tx_keeps (sound db0) (drop_assets flt now sids)"
proof (induction sids)
  case (Cons sid sids)
  then show ?case by (auto intro!: tx_keeps_bind tx_keeps_stmt drop_sound)
qed (simp add: tx_keeps_def)

lemma quota_sound:
  "tx_keeps (sound db0) (tx_map_err h (increment_in_transaction flt now sc sci per met lim))"
  by (rule tx_keepsI)
    (auto simp: increment_in_transaction_def tx_simps sound_def split: if_splits option.splits
      elim: advanced_same same_submissions_keeps)

text \<open>The confirming tail: the expense, its identifier, and the transition that points at it.\<close>

lemma confirm_tail_sound:
  "tx_keeps (sound db0) (txbind (insert_confirmed_expense flt now eid aid sid d) (\<lambda>_.
     txbind (lookup_confirmed_expense_id flt sid) (\<lambda>i.
       txbind (transition_state flt now sid aid RReviewRequired RConfirmed None None (Some i) None)
         (\<lambda>_. txret (Confirmed i)))))"
  (is "tx_keeps _ (txbind _ ?k)")
proof (rule tx_keepsI)
  fix db a db' assume snd: "sound db0 db" and m: "txbind (insert_confirmed_expense flt now eid aid sid d) ?k db = Inr (a, db')"
  from m obtain db1 where i: "insert_confirmed_expense flt now eid aid sid d db = Inr ((), db1)" and k: "?k () db1 = Inr (a, db')"
    by (auto simp: txbind_Inr)
  have db1: "sound db0 db1" by (rule tx_keepsD [OF statements_sound(7) i snd])
  from k obtain e where e: "e \<in> set (expenses db1)" "e_receipt_submission_id e = Some sid"
    and t: "transition_state flt now sid aid RReviewRequired RConfirmed None None (Some (e_id e)) None db1 = Inr ((), db')"
    by (auto simp: lookup_confirmed_expense_id_def tx_simps split: option.splits dest: find_where_SomeD)
  have "receipt_inv db'" by (rule transition_keeps_inv [OF _ t]) (use db1 e in \<open>auto simp: sound_def\<close>)
  moreover have "advanced db0 db'"
    by (rule tx_keepsD [OF transition_advances t]) (use db1 in \<open>auto simp: sound_def\<close>)
  ultimately show "sound db0 db'" by (simp add: sound_def)
qed

lemma confirm_sound: "tx_keeps (sound db0) (confirm_in_transaction flt now r)"
  unfolding confirm_in_transaction_def
  by (auto intro!: tx_keeps_bind [OF tx_keeps_reads(5)] tx_keeps_bind [OF tx_keeps_reads(6)] confirm_tail_sound split: option.split)

section \<open>Every step\<close>

lemma sound_self: "receipt_inv db \<Longrightarrow> sound db db"
  by (simp add: sound_def)

lemma receipt_tx_sound: "tx_keeps (sound db) m \<Longrightarrow> receipt_inv db \<Longrightarrow> sound db (snd (receipt_tx flt m db))"
  unfolding receipt_tx_def by (rule run_tx_keeps) (blast intro: sound_self tx_keepsD)+

lemma run_tx_sound: "tx_keeps (sound db) m \<Longrightarrow> receipt_inv db \<Longrightarrow> sound db (snd (run_tx flt e1 e2 m db))"
  by (rule run_tx_keeps) (blast intro: sound_self tx_keepsD)+

lemma run_tx_choice_sound:
  "tx_keeps (sound db) m \<Longrightarrow> receipt_inv db \<Longrightarrow> sound db (snd (run_tx_choice flt e1 e2 m db))"
  by (rule run_tx_choice_keeps) (blast intro: sound_self tx_keepsD)+

lemmas transactions_sound = accept_sound confirm_sound reject_sound edit_sound fail_queued_sound absorb_sound
  mark_failure_sound persist_sound claim_extracting_sound success_sound failure_sound quota_sound
  expire_loop_sound delete_original_sound drop_assets_sound

lemma receipt_step_sound: "receipt_step L db db' \<Longrightarrow> receipt_inv db \<Longrightarrow> sound db db'"
  by (induction rule: receipt_step.induct)
    (auto intro!: receipt_tx_sound run_tx_sound run_tx_choice_sound transactions_sound tx_keeps_bind tx_keeps_stmt)

lemma receipt_steps_sound: "(receipt_step L)\<^sup>*\<^sup>* db db' \<Longrightarrow> receipt_inv db \<Longrightarrow> sound db db'"
proof (induction rule: rtranclp_induct)
  case (step y z)
  then have "sound db y" "sound y z" using receipt_step_sound by (auto simp: sound_def)
  then show ?case unfolding sound_def using advanced_trans by blast
qed (simp add: sound_def)

text \<open>What legal moves never undo.\<close>

lemma legal_moves_keep: "legal_move\<^sup>*\<^sup>* s s' \<Longrightarrow> s_id s' = s_id s \<and> s_account_id s' = s_account_id s
  \<and> s_inbound_event_id s' = s_inbound_event_id s \<and> s_version s \<le> s_version s'"
  by (induction rule: rtranclp_induct) (auto simp: legal_move_def)

lemma legal_moves_terminal:
  assumes "legal_move\<^sup>*\<^sup>* s s'" "is_terminal (s_state s)"
  shows "s' = s \<or> s_state s' = RDeleted"
  using assms
proof (induction rule: rtranclp_induct)
  case (step y z)
  then show ?case by (cases "s_state y"; cases "s_state z") (auto simp: legal_move_def can_transition_def is_terminal_def)
qed simp

end
