(* ===== verification/Receipt_Review.thy ===== *)
theory Receipt_Review
  imports Receipt_Proofs
begin

text \<open>
  The review of a draft on a table that satisfies the invariant: what loading, moving and editing
  compute, as equations, and an abstract account of an edit.
\<close>

section \<open>Loading and moving a submission\<close>

lemma load_submission_Inr:
  "load_submission_for_update flt sid aid db = Inr (r, db') \<longleftrightarrow>
     flt \<noteq> FaultAt ''submission lookup failed'' \<and> flt \<noteq> FaultAt ''attempt count failed'' \<and> db' = db
     \<and> (\<exists>s. find_where (\<lambda>s. s_id s = sid \<and> s_account_id s = aid) (submissions db) = Some s
          \<and> r = (s, count_attempts (s_id s) db))"
  by (auto simp: load_submission_for_update_def load_submission_tuple_for_update_def tx_simps split: option.splits)

lemma load_submission_found:
  assumes "receipt_inv db" "s \<in> set (submissions db)"
  shows "find_where (\<lambda>x. s_id x = s_id s \<and> s_account_id x = s_account_id s) (submissions db) = Some s"
  by (rule find_where_unique [OF receipt_invD(1) [OF assms(1)] assms(2)]) auto

lemma load_submission_ok:
  assumes "receipt_inv db" "s \<in> set (submissions db)"
  shows "load_submission_for_update NoFault (s_id s) (s_account_id s) db = Inr ((s, count_attempts (s_id s) db), db)"
  using load_submission_found [OF assms] by (simp add: load_submission_Inr)

text \<open>The row that a successful load returns is the only one with its identifier.\<close>

lemma load_submission_row:
  assumes "receipt_inv db" "s \<in> set (submissions db)" "load_submission_for_update flt (s_id s) aid db = Inr ((x, n), db')"
  shows "x = s" "aid = s_account_id s" "db' = db" "n = count_attempts (s_id s) db"
proof -
  from assms(3) have x: "x \<in> set (submissions db)" "s_id x = s_id s" "s_account_id x = aid"
    and "db' = db" "n = count_attempts (s_id x) db"
    by (auto simp: load_submission_Inr dest: find_where_SomeD)
  then show "db' = db" "n = count_attempts (s_id s) db" by simp_all
  show "x = s" using x(1,2) assms(2) receipt_invD(1) [OF assms(1)] by (metis distinct_key_eq)
  then show "aid = s_account_id s" using x(3) by simp
qed

lemma transition_ok:
  assumes "receipt_inv db" "s \<in> set (submissions db)" "can_transition (s_state s) to" "s_version s < i32_max"
  shows "transition_state NoFault now (s_id s) (s_account_id s) (s_state s) to cls h e dup db =
    Inr ((), db\<lparr>submissions := put_row s_id (moved_submission now to cls h e dup s) (submissions db)\<rparr>)"
proof -
  let ?p = "\<lambda>x. s_id x = s_id s \<and> s_account_id x = s_account_id s \<and> s_state x = s_state s"
  note D = receipt_invD(1) [OF assms(1)]
  have "x = s" if "x \<in> set (submissions db)" "?p x" for x
    using that assms(2) D by (metis distinct_key_eq)
  then have "\<not> exists_where (\<lambda>x. ?p x \<and> i32_max < s_version x + 1) (submissions db)"
    using assms(4) by (fastforce simp: exists_where_iff)
  moreover have "count_where ?p (submissions db) = 1"
    by (rule count_where_unique [OF D assms(2)]) auto
  moreover have "update_where ?p (moved_submission now to cls h e dup) (submissions db)
      = put_row s_id (moved_submission now to cls h e dup s) (submissions db)"
    by (rule update_where_put_row [OF D assms(2)]) auto
  ultimately show ?thesis using assms(3) by (simp add: transition_state_def Let_def)
qed

text \<open>The draft of a submission.\<close>

lemma load_draft_Inr:
  "load_draft_for_update flt sid aid db = Inr (d, db') \<longleftrightarrow>
     flt \<noteq> FaultAt ''draft lookup failed'' \<and> db' = db
     \<and> find_where (\<lambda>d. d_submission_id d = sid \<and> d_account_id d = aid) (drafts db) = Some d"
  by (auto simp: load_draft_for_update_def tx_simps split: option.splits)

lemma load_draft_ok:
  assumes "receipt_inv db" "d \<in> set (drafts db)"
  shows "load_draft_for_update NoFault (d_submission_id d) (d_account_id d) db = Inr (d, db)"
proof -
  have "distinct (map d_submission_id (drafts db))" using receipt_invD(6) [OF assms(1)] by (simp add: drafts_ok_def)
  then have "find_where (\<lambda>x. d_submission_id x = d_submission_id d \<and> d_account_id x = d_account_id d) (drafts db) = Some d"
    by (rule find_where_unique) (use assms in auto)
  then show ?thesis by (simp add: load_draft_Inr)
qed

section \<open>Confirming\<close>

lemma find_where_last: "(\<And>x. x \<in> set t \<Longrightarrow> \<not> p x) \<Longrightarrow> p e \<Longrightarrow> find_where p (t @ [e]) = Some e"
  by (induction t) (auto simp: find_where_def)

lemma count_where_one:
  assumes "distinct t" "e \<in> set t" "p e" "\<And>x. x \<in> set t \<Longrightarrow> p x \<Longrightarrow> x = e"
  shows "count_where p t = 1"
proof -
  have set: "set (filter p t) = {e}"
  proof (intro set_eqI iffI)
    fix x assume "x \<in> set (filter p t)"
    then have "x \<in> set t" "p x" by simp_all
    then have "x = e" by (rule assms(4))
    then show "x \<in> {e}" by simp
  next
    fix x assume "x \<in> {e}"
    then show "x \<in> set (filter p t)" using assms(2,3) by simp
  qed
  have "card (set (filter p t)) = length (filter p t)" by (rule distinct_card) (simp add: assms(1))
  with set show ?thesis by (simp add: count_where_def)
qed

lemma one_expense_count:
  assumes "one_expense es" "e \<in> set es" "e_receipt_submission_id e = Some sid"
  shows "count_where (\<lambda>e. e_receipt_submission_id e = Some sid) es = 1"
proof (rule count_where_one [of es e], goal_cases)
  case 1
  show ?case using assms(1) by (auto simp: one_expense_def distinct_map)
next
  case (4 x)
  then show ?case using assms unfolding one_expense_def by (metis option.distinct(1))
qed (use assms in auto)

text \<open>What a first confirmation leaves behind.\<close>

lemma confirm_leaves:
  assumes inv: "receipt_inv db" and c: "confirm_in_transaction flt now r db = Inr (Confirmed eid, db')"
  shows "\<exists>s \<in> set (submissions db'). s_id s = cr_submission_id r \<and> s_account_id s = cr_account_id r
    \<and> s_state s = RConfirmed \<and> s_confirmed_expense_id s = Some eid"
proof -
  from c obtain s d db1 where
    s: "find_where (\<lambda>s. s_id s = cr_submission_id r \<and> s_account_id s = cr_account_id r) (submissions db) = Some s" and
    st: "s_state s = RReviewRequired" and
    i: "insert_confirmed_expense flt now (cr_expense_id r) (cr_account_id r) (cr_submission_id r) d db = Inr ((), db1)" and
    t: "transition_state flt now (cr_submission_id r) (cr_account_id r) RReviewRequired RConfirmed None None (Some eid) None db1
        = Inr ((), db')"
    by (auto simp: confirm_in_transaction_def txbind_Inr load_submission_Inr load_draft_Inr lookup_confirmed_expense_id_def
        stmt_Inr split: if_splits option.splits)
  have "s \<in> set (submissions db1)" using i find_where_SomeD [OF s]
    by (auto simp: insert_confirmed_expense_def tx_simps split: if_splits)
  then show ?thesis using transition_result(2) [OF t] find_where_SomeD [OF s] st
    by (auto simp: set_update_where intro!: bexI [of _ "moved_submission now RConfirmed None None (Some eid) None s"])
      (simp_all add: moved_submission_def)
qed

text \<open>Confirming a submission that has already moved on.\<close>

lemma confirm_again:
  assumes inv: "receipt_inv db" and s: "s \<in> set (submissions db)" "s_state s \<noteq> RReviewRequired"
    and c: "confirm_in_transaction flt now r db = Inr (oc, db')" and id: "cr_submission_id r = s_id s"
  shows "s_state s = RConfirmed" "db' = db" "s_confirmed_expense_id s = Some eid \<Longrightarrow> oc = AlreadyConfirmed eid"
proof -
  from c obtain x n db1 where l: "load_submission_for_update flt (s_id s) (cr_account_id r) db = Inr ((x, n), db1)"
    using id unfolding confirm_in_transaction_def by (auto simp: txbind_Inr)
  note L = load_submission_row [OF inv s(1) l]
  show "s_state s = RConfirmed" "db' = db" "s_confirmed_expense_id s = Some eid \<Longrightarrow> oc = AlreadyConfirmed eid"
    using c s(2) unfolding confirm_in_transaction_def id txbind_step [where m = "load_submission_for_update flt (s_id s) (cr_account_id r)", OF l]
    by (auto simp: L split: if_splits option.splits)
qed

lemma confirm_equation:
  assumes inv: "receipt_inv db" and s: "s \<in> set (submissions db)" "s_state s = RReviewRequired" "s_version s < i32_max"
    and d: "d \<in> set (drafts db)" "d_submission_id d = s_id s" "d_account_id d = s_account_id s"
    and new: "\<forall>e \<in> set (expenses db). e_receipt_submission_id e \<noteq> Some (s_id s) \<and> e_id e \<noteq> eid"
  shows "confirm_in_transaction NoFault now \<lparr>cr_account_id = s_account_id s, cr_submission_id = s_id s,
      cr_expected_draft_version = d_version d, cr_expense_id = eid\<rparr> db =
    Inr (Confirmed eid, db\<lparr>expenses := expenses db @ [confirmed_expense now eid (s_account_id s) (s_id s) d],
      submissions := put_row s_id (moved_submission now RConfirmed None None (Some eid) None s) (submissions db)\<rparr>)"
proof -
  let ?e = "confirmed_expense now eid (s_account_id s) (s_id s) d" and ?db1 = "db\<lparr>expenses := expenses db @ [confirmed_expense now eid (s_account_id s) (s_id s) d]\<rparr>"
  have i: "insert_confirmed_expense NoFault now eid (s_account_id s) (s_id s) d db = Inr ((), ?db1)"
    using new by (auto simp: insert_confirmed_expense_def exists_where_iff)
  have inv1: "receipt_inv ?db1" by (rule tx_keepsD [OF insert_confirmed_expense_keeps i inv])
  have e: "e_id ?e = eid" "e_receipt_submission_id ?e = Some (s_id s)" by (simp_all add: confirmed_expense_def)
  have "find_where (\<lambda>x. e_receipt_submission_id x = Some (s_id s)) (expenses db @ [?e]) = Some ?e"
    by (rule find_where_last) (use new e in auto)
  then have k: "lookup_confirmed_expense_id NoFault (s_id s) ?db1 = Inr (eid, ?db1)"
    using e by (simp add: lookup_confirmed_expense_id_def txbind_def)
  have t: "transition_state NoFault now (s_id s) (s_account_id s) RReviewRequired RConfirmed None None (Some eid) None ?db1 =
      Inr ((), ?db1\<lparr>submissions := put_row s_id (moved_submission now RConfirmed None None (Some eid) None s) (submissions db)\<rparr>)"
    using transition_ok [OF inv1, of s RConfirmed now None None "Some eid" None] s by (simp add: can_transition_def)
  show ?thesis
    using load_submission_ok [OF inv s(1)] load_draft_ok [OF inv d(1)] i k t s(2) d(2,3)
    by (simp add: confirm_in_transaction_def txbind_def)
qed

section \<open>Editing\<close>

text \<open>
  What an edit means: the given fields replace the old ones (a merchant is trimmed first), and the
  log gets one correction per field that really changes, in the order of the fields.
\<close>

definition given :: "'a option \<Rightarrow> 'a \<Rightarrow> 'a" where
  "given v old = (case v of None \<Rightarrow> old | Some a \<Rightarrow> a)"

definition edited :: "edit_draft_request \<Rightarrow> draft \<Rightarrow> draft" where
  "edited r d =
     d\<lparr>d_amount_minor := given (ed_amount_minor r) (d_amount_minor d),
       d_currency := given (ed_currency r) (d_currency d),
       d_merchant := given (map_option trim (ed_merchant r)) (d_merchant d),
       d_category_key := given (ed_category_key r) (d_category_key d),
       d_occurred_at := given (ed_occurred_at r) (d_occurred_at d),
       d_transaction_type := given (ed_transaction_type r) (d_transaction_type d),
       d_version := d_version d + 1\<rparr>"

definition change :: "fresh_ids \<Rightarrow> draft \<Rightarrow> string \<Rightarrow> ('a \<Rightarrow> string) \<Rightarrow> 'a \<Rightarrow> 'a option \<Rightarrow> correction list" where
  "change ids d field shown old new =
     (case new of
        None \<Rightarrow> []
      | Some v \<Rightarrow>
          if v = old then []
          else [\<lparr>c_id = ids field, c_draft_id = d_id d, c_submission_id = d_submission_id d, c_field_name = field,
                 c_old_value = Some (shown old), c_new_value = Some (shown v)\<rparr>])"

definition edit_log :: "libs \<Rightarrow> fresh_ids \<Rightarrow> edit_draft_request \<Rightarrow> draft \<Rightarrow> correction list" where
  "edit_log L ids r d =
     change ids d ''amount_minor'' show_int (d_amount_minor d) (ed_amount_minor r)
     @ change ids d ''currency'' (\<lambda>v. v) (d_currency d) (ed_currency r)
     @ change ids d ''merchant'' (\<lambda>v. v) (d_merchant d) (map_option trim (ed_merchant r))
     @ change ids d ''category_key'' (\<lambda>v. v) (d_category_key d) (ed_category_key r)
     @ change ids d ''occurred_at'' (lib_rfc3339 L) (d_occurred_at d) (ed_occurred_at r)
     @ change ids d ''transaction_type'' (\<lambda>v. v) (d_transaction_type d) (ed_transaction_type r)"

definition edit_acceptable :: "string list \<Rightarrow> edit_draft_request \<Rightarrow> bool" where
  "edit_acceptable cats r \<longleftrightarrow>
     (\<forall>a. ed_amount_minor r = Some a \<longrightarrow> 0 < a)
     \<and> (\<forall>c. ed_currency r = Some c \<longrightarrow> length c = 3 \<and> list_all is_ascii_uppercase c)
     \<and> (\<forall>m. ed_merchant r = Some m \<longrightarrow> 1 \<le> char_count (trim m) \<and> char_count (trim m) \<le> 200)
     \<and> (\<forall>k. ed_category_key r = Some k \<longrightarrow> k \<in> set cats)
     \<and> (\<forall>t. ed_transaction_type r = Some t \<longrightarrow> t \<in> set transaction_types)"

text \<open>Trimming with \<^verbatim>\<open>trim\<close> leaves nothing for the column check's \<^verbatim>\<open>btrim\<close>.\<close>

lemma trim_edges: "\<not> starts_with (trim s) '' ''" "\<not> starts_with (rev (trim s)) '' ''"
proof -
  let ?t = "trim_start_set whitespace_chars s"
  have mem: "'' '' \<in> set whitespace_chars" "'' '' \<in> set (map rev whitespace_chars)"
    by (simp_all add: whitespace_chars_def)
  have rev: "rev (trim s) = trim_start_set (map rev whitespace_chars) (rev ?t)"
    by (simp add: trim_def trim_matches_def trim_end_set_def)
  then show "\<not> starts_with (rev (trim s)) '' ''" using trim_start_set_clean [OF mem(2)] by simp
  obtain p where "rev ?t = p @ rev (trim s)" unfolding rev using trim_start_set_suffix by blast
  then have t: "?t = trim s @ rev p" by (metis rev_append rev_rev_ident)
  have "\<not> starts_with ?t '' ''" by (rule trim_start_set_clean [OF mem(1)]) simp
  then show "\<not> starts_with (trim s) '' ''" unfolding t by (cases "trim s") (auto simp: starts_with_def)
qed

lemma btrim_trim: "btrim (trim s) = trim s"
proof -
  have id: "dropWhile (\<lambda>c. c = CHR '' '') t = t" if "\<not> starts_with t '' ''" for t
    using that by (cases t) (auto simp: starts_with_def)
  show ?thesis using trim_edges [of s] by (simp add: btrim_def id)
qed

lemma edited_row_ok: "draft_row_ok d \<Longrightarrow> edit_acceptable cats r \<Longrightarrow> draft_row_ok (edited r d)"
  by (auto simp: draft_row_ok_def edit_acceptable_def edited_def given_def btrim_trim split: option.splits)

lemma edit_field_ok:
  "f old nxt = nxt \<Longrightarrow> edit_field NoFault ids d (d_submission_id d) field shown old new f nxt db =
     Inr (f (given new old) nxt, db\<lparr>corrections := corrections db @ change ids d field shown old new\<rparr>)"
  by (auto simp: edit_field_def change_def record_correction_def given_def txbind_def split: option.split)

lemma draft_set_self:
  "a = d_amount_minor d \<Longrightarrow> d\<lparr>d_amount_minor := a\<rparr> = d" "c = d_currency d \<Longrightarrow> d\<lparr>d_currency := c\<rparr> = d"
  "m = d_merchant d \<Longrightarrow> d\<lparr>d_merchant := m\<rparr> = d" "k = d_category_key d \<Longrightarrow> d\<lparr>d_category_key := k\<rparr> = d"
  "t = d_occurred_at d \<Longrightarrow> d\<lparr>d_occurred_at := t\<rparr> = d" "y = d_transaction_type d \<Longrightarrow> d\<lparr>d_transaction_type := y\<rparr> = d"
  by simp_all

lemma update_draft_ok:
  assumes "receipt_inv db" "x \<in> set (drafts db)" "d_id d = d_id x" "d_submission_id d = d_submission_id x"
    "d_account_id d = d_account_id x" "d_confidence d = d_confidence x" "d_version d = d_version x"
    "draft_row_ok d" "d_version d < i32_max" "d_category_key d \<in> set (categories db)"
  shows "update_draft NoFault d db =
    Inr ((), db\<lparr>drafts := put_row d_id (d\<lparr>d_version := d_version d + 1\<rparr>) (drafts db)\<rparr>)"
proof -
  let ?p = "\<lambda>x. d_id x = d_id d \<and> d_version x = d_version d"
  let ?f = "\<lambda>x. x\<lparr>d_amount_minor := d_amount_minor d, d_currency := d_currency d, d_merchant := d_merchant d,
      d_category_key := d_category_key d, d_transaction_type := d_transaction_type d,
      d_occurred_at := d_occurred_at d, d_version := d_version x + 1\<rparr>"
  have D: "distinct (map d_id (drafts db))" using receipt_invD(6) [OF assms(1)] by (simp add: drafts_ok_def)
  have f: "?f x = d\<lparr>d_version := d_version d + 1\<rparr>" using assms(3-7) by (cases d; cases x) simp
  have "count_where ?p (drafts db) = 1" by (rule count_where_unique [OF D assms(2)]) (use assms in auto)
  moreover have "update_where ?p ?f (drafts db) = put_row d_id (?f x) (drafts db)"
    by (rule update_where_put_row [OF D assms(2)]) (use assms in auto)
  ultimately show ?thesis using assms(8-10) unfolding f
    by (simp add: update_draft_def ensure_category_def txbind_def Let_def)
qed

lemma edit_checks_ok:
  assumes "edit_acceptable (categories db) r"
  shows "check_opt validate_amount_minor (ed_amount_minor r) db = Inr ((), db)"
    "check_opt validate_currency (ed_currency r) db = Inr ((), db)"
    "checked_merchant (ed_merchant r) db = Inr (map_option trim (ed_merchant r), db)"
    "(case ed_category_key r of None \<Rightarrow> txret () | Some k \<Rightarrow> ensure_category NoFault k) db = Inr ((), db)"
    "check_opt validate_transaction_type (ed_transaction_type r) db = Inr ((), db)"
  using assms
  by (auto simp: edit_acceptable_def check_opt_def validate_amount_minor_def validate_currency_def checked_merchant_def
      validate_merchant_def Let_def max_merchant_chars_def ensure_category_def txbind_def validate_transaction_type_def
      split: option.split)

lemma edit_equation:
  assumes inv: "receipt_inv db" and s: "s \<in> set (submissions db)" "s_state s = RReviewRequired"
    and d: "d \<in> set (drafts db)" "d_submission_id d = s_id s" "d_account_id d = s_account_id s" "d_version d < i32_max"
    and cat: "d_category_key d \<in> set (categories db)" and ok: "edit_acceptable (categories db) r"
    and r: "ed_submission_id r = s_id s" "ed_account_id r = s_account_id s" "ed_expected_version r = d_version d"
  shows "edit_draft_in_transaction L NoFault ids r db =
    Inr (edited r d, db\<lparr>corrections := corrections db @ edit_log L ids r d,
      drafts := put_row d_id (edited r d) (drafts db)\<rparr>)"
proof -
  let ?n = "(edited r d)\<lparr>d_version := d_version d\<rparr>" and ?db = "db\<lparr>corrections := corrections db @ edit_log L ids r d\<rparr>"
  have row: "draft_row_ok d" using receipt_invD(6) [OF inv] d(1) by (simp add: drafts_ok_def)
  have u: "update_draft NoFault ?n ?db = Inr ((), ?db\<lparr>drafts := put_row d_id (edited r d) (drafts ?db)\<rparr>)"
  proof -
    have "receipt_inv ?db" by (rule same_submissions_keeps [OF inv]) simp_all
    moreover have "d_category_key ?n \<in> set (categories ?db)"
      using ok cat by (auto simp: edit_acceptable_def edited_def given_def split: option.split)
    ultimately have "update_draft NoFault ?n ?db =
        Inr ((), ?db\<lparr>drafts := put_row d_id (?n\<lparr>d_version := d_version ?n + 1\<rparr>) (drafts ?db)\<rparr>)"
      by (intro update_draft_ok [where x = d]) (use d edited_row_ok [OF row ok] in \<open>simp_all add: edited_def\<close>)
    then show ?thesis by (simp add: edited_def)
  qed
  have sid: "s_id s = d_submission_id d" using d(2) by simp
  note checks = edit_checks_ok [of "db\<lparr>corrections := c\<rparr>" r for c, simplified, OF ok]
  show ?thesis
    using load_submission_ok [OF inv s(1)] load_draft_ok [OF inv d(1)] s(2) d(3) r u
    by (simp add: edit_draft_in_transaction_def Let_def txbind_def edit_checks_ok [OF ok] checks sid edit_field_ok
        draft_set_self edit_log_def edited_def)
qed

end
