(* ===== verification/Receipt_Stock.thy ===== *)
theory Receipt_Stock
  imports Receipt_Review
begin

text \<open>
  A submission that is past its ingest has the row of its asset. The transitions of the lifecycle
  keep this; the one into the stored state brings the row along in the same transaction.
\<close>

definition past_ingest :: "receipt_state \<Rightarrow> bool" where
  "past_ingest st \<longleftrightarrow> st \<in> {RStored, RExtracting, RReviewRequired, RConfirmed, RRejected, RExpired, RFailedTransient}"

definition has_asset :: "asset list \<Rightarrow> submission \<Rightarrow> bool" where
  "has_asset as s \<longleftrightarrow> (\<exists>a \<in> set as. as_submission a = s_id s \<and> as_account a = s_account_id s)"

definition stocked :: "'z receipt_db_scheme \<Rightarrow> bool" where
  "stocked db \<longleftrightarrow> (\<forall>s \<in> set (submissions db). past_ingest (s_state s) \<longrightarrow> has_asset (assets db) s)"

lemma stocked_same: "stocked db \<Longrightarrow> submissions db' = submissions db \<Longrightarrow> assets db' = assets db \<Longrightarrow> stocked db'"
  by (simp add: stocked_def)

lemma has_asset_mono: "has_asset as s \<Longrightarrow> set as \<subseteq> set as' \<Longrightarrow> has_asset as' s"
  unfolding has_asset_def by blast

lemma insert_submission_stocked: "tx_keeps stocked (insert_submission flt now sid aid ev)"
  by (rule tx_keepsI)
    (auto simp: insert_submission_def tx_simps stocked_def new_submission_def past_ingest_def split: if_splits)

lemma other_statements_stocked:
  "tx_keeps stocked (record_extraction_attempt flt now i sid n oc cls lat meta)"
  "tx_keeps stocked (record_correction flt i did sid f o' nv)"
  "tx_keeps stocked (enqueue_receipt_job L flt now jid jt sid aid)"
  "tx_keeps stocked (upsert_draft flt i sid aid x)"
  "tx_keeps stocked (update_draft flt d)"
  "tx_keeps stocked (insert_confirmed_expense flt now eid aid sid d)"
  unfolding record_extraction_attempt_def record_correction_def enqueue_receipt_job_def
    upsert_draft_def update_draft_def insert_confirmed_expense_def enqueue_in_transaction_def ensure_category_def
  by (rule tx_keepsI; auto simp: tx_simps Let_def split: if_splits option.splits sum.splits elim: stocked_same)+

lemma drop_stocked:
  "tx_keeps stocked (txwrite (\<lambda>db. db\<lparr>assets := update_where p (drop_asset now) (assets db)\<rparr>))"
proof (rule tx_keepsI)
  fix db a db' assume "stocked db" and "txwrite (\<lambda>db. db\<lparr>assets := update_where p (drop_asset now) (assets db)\<rparr>) db = Inr (a, db')"
  moreover have "has_asset (update_where p (drop_asset now) as) s" if "has_asset as s" for as s
  proof -
    from that obtain a where "a \<in> set as" "as_submission a = s_id s" "as_account a = s_account_id s"
      by (auto simp: has_asset_def)
    then show ?thesis unfolding has_asset_def
      by (intro bexI [of _ "if p a then drop_asset now a else a"]) (auto simp: update_where_def drop_asset_def)
  qed
  ultimately show "stocked db'" by (auto simp: stocked_def)
qed

lemma transition_stocked:
  assumes "past_ingest to \<Longrightarrow> past_ingest from"
  shows "tx_keeps stocked (transition_state flt now sid aid from to cls hours eid dup)"
proof (rule tx_keepsI)
  fix db a db' assume st: "stocked db"
    and t: "transition_state flt now sid aid from to cls hours eid dup db = Inr (a, db')"
  show "stocked db'"
    using st assms unfolding transition_result(2) [OF t] by (auto simp: stocked_def set_update_where has_asset_def)
qed

lemmas stock_intros = tx_keeps_bind tx_keeps_stmt insert_submission_stocked other_statements_stocked drop_stocked
  transition_stocked

text \<open>The stored state is entered together with the asset.\<close>

lemma persist_stocked:
  assumes st: "stocked db" and p: "persist_stored_ingest_tx L flt now i aid sid key v jid db = Inr ((True, x), db')"
  shows "stocked db'"
proof -
  from p obtain s n where s: "load_submission_for_update flt sid aid db = Inr ((s, n), db)"
    by (auto simp: persist_stored_ingest_tx_def txbind_Inr load_submission_Inr)
  show ?thesis
  proof (cases "s_state s \<in> {RStored, RExtracting, RReviewRequired, RConfirmed}")
    case True
    then show ?thesis using p st s by (auto simp: persist_stored_ingest_tx_def txbind_def)
  next
    case False
    from p False obtain db1 db2 oc where
      t: "transition_state flt now sid aid (s_state s) RStored None None None None db = Inr ((), db1)" and
      i: "insert_asset flt now i sid aid key v db1 = Inr (AssetInserted, db2)" and
      e: "enqueue_receipt_job L flt now jid job_type_extract sid aid db2 = Inr (oc, db')"
      using s by (auto simp: persist_stored_ingest_tx_def txbind_Inr split: if_splits asset_insert.splits)
        (metis asset_insert.exhaust)+
    from i obtain days where db2: "db2 = db1\<lparr>assets := assets db1 @ [new_asset now days i sid aid key v]\<rparr>"
      by (auto simp: insert_asset_def tx_simps split: if_splits option.splits)
    have "has_asset (assets db2) x" if "x \<in> set (submissions db2)" "past_ingest (s_state x)" for x
    proof (cases "s_id x = sid \<and> s_account_id x = aid")
      case True
      then show ?thesis by (simp add: db2 has_asset_def new_asset_def)
    next
      case False
      then have "x \<in> set (submissions db)" using that(1)
        by (auto simp: db2 transition_result(2) [OF t] set_update_where)
      then have "has_asset (assets db) x" using st that(2) by (simp add: stocked_def)
      then show ?thesis by (rule has_asset_mono) (auto simp: db2 transition_result(2) [OF t])
    qed
    then have "stocked db2" by (simp add: stocked_def)
    then show ?thesis by (rule tx_keepsD [OF other_statements_stocked(3) e])
  qed
qed

lemma edit_field_stocked: "tx_keeps stocked (edit_field flt ids d sid f sh old new sf nxt)"
  unfolding edit_field_def by (auto intro!: stock_intros split: option.split)

lemma transactions_stocked:
  "tx_keeps stocked (finish_accept_in_transaction L flt now sid aid jid)"
  "tx_keeps stocked (confirm_in_transaction flt now cq)"
  "tx_keeps stocked (reject_in_transaction flt now jq)"
  "tx_keeps stocked (fail_queued_tx flt now sid aid cls)"
  "tx_keeps stocked (absorb_duplicate_tx flt now sid aid orig)"
  "tx_keeps stocked (mark_failure_tx flt now sid aid RFailedPermanent cls)"
  "tx_keeps stocked (claim_extracting_tx flt now aid sid)"
  "tx_keeps stocked (persist_extraction_success_tx flt now cfg ids aid sid x lat meta)"
  "tx_keeps stocked (persist_extraction_failure_tx flt now ids aid sid oc cls terminal lat meta)"
  "tx_keeps stocked (delete_original_tx flt now aid sid)"
  unfolding finish_accept_in_transaction_def confirm_in_transaction_def reject_in_transaction_def
    fail_queued_tx_def absorb_duplicate_tx_def mark_failure_tx_def claim_extracting_tx_def
    persist_extraction_success_tx_def persist_extraction_failure_tx_def delete_original_tx_def
  by (auto intro!: stock_intros split: option.split receipt_state.split simp: past_ingest_def)

lemma accept_stocked: "tx_keeps stocked (accept_submission_in_transaction L flt now r)"
  unfolding accept_submission_in_transaction_def
  by (auto intro!: tx_keeps_bind transactions_stocked insert_submission_stocked split: option.split)

lemma edit_stocked: "tx_keeps stocked (edit_draft_in_transaction L flt ids r)"
  unfolding edit_draft_in_transaction_def Let_def
  by (auto intro!: tx_keeps_bind edit_field_stocked other_statements_stocked split: option.split)

lemma expire_loop_stocked: "tx_keeps stocked (expire_loop flt now cs)"
proof (induction cs)
  case (Cons c cs)
  then show ?case by (auto intro!: stock_intros simp: past_ingest_def)
qed (simp add: tx_keeps_def)

lemma drop_assets_stocked: "tx_keeps stocked (drop_assets flt now sids)"
proof (induction sids)
  case (Cons sid sids)
  then show ?case by (auto intro!: stock_intros)
qed (simp add: tx_keeps_def)

lemma quota_stocked: "tx_keeps stocked (tx_map_err h (increment_in_transaction flt now sc sci per met lim))"
  by (rule tx_keepsI)
    (auto simp: increment_in_transaction_def tx_simps split: if_splits option.splits elim: stocked_same)

lemma run_tx_stocked: "tx_keeps stocked m \<Longrightarrow> stocked db \<Longrightarrow> stocked (snd (run_tx flt e1 e2 m db))"
  by (rule run_tx_keeps) (blast intro: tx_keepsD)+

lemma receipt_step_stocked: "receipt_step L db db' \<Longrightarrow> stocked db \<Longrightarrow> stocked db'"
proof (induction rule: receipt_step.induct)
  case (st_persist bytes mime v db flt now i aid sid key jid)
  show ?case by (rule run_tx_choice_keeps [where P = stocked, OF st_persist(2)]) (rule persist_stocked [OF st_persist(2)])
qed (auto simp: receipt_tx_def intro!: run_tx_stocked transactions_stocked accept_stocked edit_stocked expire_loop_stocked
      drop_assets_stocked quota_stocked tx_keeps_bind tx_keeps_stmt)

lemma receipt_steps_stocked: "(receipt_step L)\<^sup>*\<^sup>* db db' \<Longrightarrow> stocked db \<Longrightarrow> stocked db'"
  by (induction rule: rtranclp_induct) (auto intro: receipt_step_stocked)

end
