(* ===== verification/Receipt_Pipeline.thy ===== *)
theory Receipt_Pipeline
  imports Receipt_Stock
begin

text \<open>
  Undisturbed runs of the pipeline: no fault and nobody else in between. The printed forms of
  uuids and hashes, their object and job keys, and the equations of an ingest.
\<close>

section \<open>Undisturbed awaits\<close>

definition undisturbed :: "(nat \<Rightarrow> 'd await) \<Rightarrow> bool" where
  "undisturbed sc \<longleftrightarrow> (\<forall>k. aw_fault (sc k) = NoFault \<and> aw_others (sc k) = (\<lambda>w. w))"

lemma undisturbedD: "undisturbed sc \<Longrightarrow> aw_fault (sc k) = NoFault" "undisturbed sc \<Longrightarrow> aw_others (sc k) = (\<lambda>w. w)"
  by (simp_all add: undisturbed_def)

lemma pdb_undisturbed:
  "undisturbed sc \<Longrightarrow> pdb f sc n w =
     (fst (f NoFault (aw_now (sc n)) (rw_db w)), Suc n, w\<lparr>rw_db := snd (f NoFault (aw_now (sc n)) (rw_db w))\<rparr>)"
  by (simp add: pdb_def undisturbedD Let_def split_beta)

lemma pquery_undisturbed: "undisturbed sc \<Longrightarrow> pquery label f sc n w = (Inr (f (rw_db w)), Suc n, w)"
  by (simp add: pquery_def pdb_undisturbed)

lemma pobjects_undisturbed:
  "undisturbed sc \<Longrightarrow> pobjects f sc n w =
     (fst (f False (rw_objects w)), Suc n, w\<lparr>rw_objects := snd (f False (rw_objects w))\<rparr>)"
  by (simp add: pobjects_def undisturbedD Let_def split_beta)

lemma pbind_Inr: "m sc n w = (Inr a, n', w') \<Longrightarrow> pbind m k sc n w = k a sc n' w'"
  by (simp add: pbind_def)

lemma pbind_Inl: "m sc n w = (Inl e, n', w') \<Longrightarrow> pbind m k sc n w = (Inl e, n', w')"
  by (simp add: pbind_def)

lemma load_submission_undisturbed:
  assumes "undisturbed sc" "receipt_inv (rw_db w)" "s \<in> set (submissions (rw_db w))"
  shows "load_submission (s_id s) (s_account_id s) sc n w = (Inr (s, count_attempts (s_id s) (rw_db w)), Suc (Suc n), w)"
  using load_submission_found [OF assms(2,3)]
  by (simp add: load_submission_def pbind_def pquery_undisturbed [OF assms(1)] preturn_def)

section \<open>Printed identifiers and keys\<close>

text \<open>The hyphenated form of a uuid has 36 characters; a SHA-256 has 64 hexadecimal digits.\<close>

definition hex_text :: "string \<Rightarrow> bool" where
  "hex_text s \<longleftrightarrow> set s \<subseteq> set ''0123456789abcdef-''"

definition printers_ok :: "libs \<Rightarrow> bool" where
  "printers_ok L \<longleftrightarrow>
     (\<forall>u. length (lib_show_uuid L u) = 36 \<and> hex_text (lib_show_uuid L u))
     \<and> (\<forall>b. length (lib_sha256_hex L b) = 64 \<and> hex_text (lib_sha256_hex L b))"

lemma trim_start_set_keeps:
  "c \<in> set s \<Longrightarrow> (\<And>w. w \<in> set ws \<Longrightarrow> c \<notin> set w) \<Longrightarrow> c \<in> set (trim_start_set ws s)"
proof (induction ws s rule: trim_start_set.induct)
  case (1 ws s)
  show ?case
  proof (cases "leading_char ws s")
    case None
    then show ?thesis using "1.prems"(1) by (simp add: trim_start_set.simps [of ws s])
  next
    case (Some w)
    then have "w \<in> set ws" "starts_with s w" using leading_char_SomeD by blast+
    then obtain t where "s = w @ t" by (auto simp: starts_with_append)
    then have "c \<in> set (drop (length w) s)" using "1.prems" \<open>w \<in> set ws\<close> by auto
    then show ?thesis using "1.IH" [OF Some] "1.prems"(2) Some by (simp add: trim_start_set.simps [of ws s])
  qed
qed

lemma trim_keeps_letter: "CHR ''r'' \<in> set s \<Longrightarrow> trim s \<noteq> []"
proof -
  assume r: "CHR ''r'' \<in> set s"
  have ws: "CHR ''r'' \<notin> set w" if "w \<in> set whitespace_chars" for w
    using that by (auto simp: whitespace_chars_def)
  have "CHR ''r'' \<in> set (rev (trim_start_set whitespace_chars s))" using trim_start_set_keeps [OF r ws] by simp
  then have "CHR ''r'' \<in> set (trim_start_set (map rev whitespace_chars) (rev (trim_start_set whitespace_chars s)))"
    by (rule trim_start_set_keeps) (use ws in auto)
  then show ?thesis by (auto simp: trim_def trim_matches_def trim_end_set_def)
qed

lemma char_count_le: "char_count s \<le> length s"
  by (simp add: char_count_def)

lemma hex_text_lacks: "hex_text s \<Longrightarrow> c \<notin> set ''0123456789abcdef-'' \<Longrightarrow> c \<notin> set s"
  unfolding hex_text_def by blast

lemma object_key_lacks:
  assumes "printers_ok L" "c \<notin> set ''0123456789abcdef-''" "c \<notin> set ''receipts/''"
  shows "c \<notin> set (object_key L aid sid (lib_sha256_hex L b))"
proof -
  have "hex_text (lib_show_uuid L u)" "hex_text (lib_sha256_hex L b)" for u
    using assms(1) by (simp_all add: printers_ok_def)
  then have "c \<notin> set (lib_show_uuid L u)" "c \<notin> set (lib_sha256_hex L b)" for u
    using hex_text_lacks assms(2) by blast+
  then show ?thesis using assms(3) by (simp add: object_key_def)
qed

lemma object_key_valid: "printers_ok L \<Longrightarrow> validate_object_key (object_key L aid sid (lib_sha256_hex L b)) = Inr ()"
proof -
  assume pr: "printers_ok L"
  have "CHR 0x5C \<notin> set (object_key L aid sid (lib_sha256_hex L b))"
    "CHR 0x00 \<notin> set (object_key L aid sid (lib_sha256_hex L b))" "CHR ''.'' \<notin> set (object_key L aid sid (lib_sha256_hex L b))"
    by (rule object_key_lacks [OF pr]; simp)+
  moreover have "\<not> starts_with (object_key L aid sid (lib_sha256_hex L b)) ''/''" by (simp add: object_key_def starts_with_def)
  moreover have "trim (object_key L aid sid (lib_sha256_hex L b)) \<noteq> []"
    by (rule trim_keeps_letter) (simp add: object_key_def)
  ultimately show ?thesis by (simp add: validate_object_key_def contains_str_def find_str_absent [of "CHR ''.''"])
qed

section \<open>Jobs of the pipeline\<close>

definition receipt_request :: "libs \<Rightarrow> instant \<Rightarrow> uuid \<Rightarrow> string \<Rightarrow> uuid \<Rightarrow> uuid \<Rightarrow> enqueue_request" where
  "receipt_request L now jid jt sid aid =
     \<lparr>er_id = jid, er_job_type = jt, er_payload = receipt_job_payload L sid,
      er_dedupe_key = (if jt = job_type_ingest then ingest_dedupe_key L sid else extract_dedupe_key L sid),
      er_serialization_key = Some (receipt_serialization_key L aid), er_priority = 0, er_run_at = now,
      er_max_attempts = 10\<rparr>"

lemma receipt_request_valid:
  assumes "printers_ok L" "jt \<in> {job_type_ingest, job_type_extract}"
  shows "validate_enqueue_request (receipt_request L now jid jt sid aid) = Inr 1"
proof -
  have len: "length (lib_show_uuid L u) = 36" for u using assms(1) by (simp add: printers_ok_def)
  have short: "char_count s \<le> n" if "length s \<le> n" for s n using that char_count_le [of s] by simp
  have "char_count jt \<le> 128" "char_count (er_dedupe_key (receipt_request L now jid jt sid aid)) \<le> 512"
    "char_count (receipt_serialization_key L aid) \<le> 512"
    using assms(2) len by (auto intro!: short
        simp: receipt_request_def job_type_ingest_def job_type_extract_def ingest_dedupe_key_def extract_dedupe_key_def
          receipt_serialization_key_def)
  moreover have "trim jt \<noteq> []" "trim (er_dedupe_key (receipt_request L now jid jt sid aid)) \<noteq> []"
    "trim (receipt_serialization_key L aid) \<noteq> []"
    using assms(2) by (auto intro!: trim_keeps_letter
        simp: receipt_request_def job_type_ingest_def job_type_extract_def ingest_dedupe_key_def extract_dedupe_key_def
          receipt_serialization_key_def)
  moreover have "payload_version (receipt_job_payload L sid) = Inr 1"
    by (simp add: payload_version_def receipt_job_payload_def)
  ultimately show ?thesis
    by (simp add: validate_enqueue_request_def receipt_request_def not_less)
qed

lemma enqueue_receipt_job_ok:
  assumes "printers_ok L" "jt \<in> {job_type_ingest, job_type_extract}"
    and "\<forall>j \<in> set (jobs db). j_id j \<noteq> jid \<and> j_dedupe_key j \<noteq> er_dedupe_key (receipt_request L now jid jt sid aid)"
  shows "enqueue_receipt_job L NoFault now jid jt sid aid db =
    Inr (Enqueued, db\<lparr>jobs := jobs db @ [new_job now (receipt_request L now jid jt sid aid) 1]\<rparr>)"
proof -
  let ?r = "receipt_request L now jid jt sid aid"
  let ?j = "new_job now ?r 1"
  have e: "enqueue_in_transaction NoFault now ?r db = Inr (Enqueued, db\<lparr>jobs := jobs db @ [?j]\<rparr>)"
    using receipt_request_valid [OF assms(1,2)] assms(3)
    by (auto simp: enqueue_in_transaction_def exists_where_iff receipt_request_def)
  have "update_where (\<lambda>j. j_id j = jid) (\<lambda>j. j\<lparr>j_run_at := now\<rparr>) (jobs db) = jobs db"
    by (rule update_where_none) (use assms(3) in blast)
  moreover have "update_where (\<lambda>j. j_id j = jid) (\<lambda>j. j\<lparr>j_run_at := now\<rparr>) [?j] = [?j]"
    by (simp add: update_where_def new_job_def receipt_request_def)
  ultimately show ?thesis using e
    unfolding enqueue_receipt_job_def receipt_request_def [symmetric]
    by (simp add: txbind_def tx_map_err_def)
qed

section \<open>Ingest\<close>

lemma insert_asset_ok:
  assumes "find_where (\<lambda>a. ac_id a = aid) (accounts db) = Some ac"
    and "\<forall>x \<in> set (assets db). as_id x \<noteq> i \<and> as_submission x \<noteq> sid
      \<and> \<not> (as_active x \<and> as_account x = aid \<and> as_content_sha256 x = vi_content_sha256 v)"
  shows "insert_asset NoFault now i sid aid key v db =
    Inr (AssetInserted, db\<lparr>assets := assets db @ [new_asset now (ac_retention_preference_days ac) i sid aid key v]\<rparr>)"
  using assms by (auto simp: insert_asset_def exists_where_iff)

lemma persist_ok:
  assumes inv: "receipt_inv db" and s: "s \<in> set (submissions db)" "s_state s = RQueued" "s_version s < i32_max"
    and ac: "find_where (\<lambda>a. ac_id a = s_account_id s) (accounts db) = Some ac"
    and fresh: "\<forall>x \<in> set (assets db). as_id x \<noteq> i \<and> as_submission x \<noteq> s_id s
      \<and> \<not> (as_active x \<and> as_account x = s_account_id s \<and> as_content_sha256 x = vi_content_sha256 v)"
    and pr: "printers_ok L" and job: "\<forall>j \<in> set (jobs db). j_id j \<noteq> jid \<and> j_dedupe_key j \<noteq> extract_dedupe_key L (s_id s)"
  shows "persist_stored_ingest_tx L NoFault now i (s_account_id s) (s_id s) key v jid db =
    Inr ((True, PersistDone (IngestStored (s_id s) (vi_content_sha256 v))),
      db\<lparr>submissions := put_row s_id (moved_submission now RStored None None None None s) (submissions db),
         assets := assets db @ [new_asset now (ac_retention_preference_days ac) i (s_id s) (s_account_id s) key v],
         jobs := jobs db @ [new_job now (receipt_request L now jid job_type_extract (s_id s) (s_account_id s)) 1]\<rparr>)"
proof -
  have t: "transition_state NoFault now (s_id s) (s_account_id s) RQueued RStored None None None None db =
      Inr ((), db\<lparr>submissions := put_row s_id (moved_submission now RStored None None None None s) (submissions db)\<rparr>)"
    using transition_ok [OF inv s(1), of RStored] s(2,3) by (simp add: can_transition_def)
  have key: "er_dedupe_key (receipt_request L now jid job_type_extract (s_id s) (s_account_id s)) = extract_dedupe_key L (s_id s)"
    by (simp add: receipt_request_def job_type_ingest_def job_type_extract_def)
  show ?thesis
    using load_submission_ok [OF inv s(1)] t s(2) job ac fresh
    by (simp add: persist_stored_ingest_tx_def txbind_def is_terminal_def insert_asset_ok enqueue_receipt_job_ok [OF pr] key)
qed

lemma ingest_ok:
  assumes q: "undisturbed sc" and inv: "receipt_inv (rw_db w)"
    and s: "s \<in> set (submissions (rw_db w))" "s_state s = RQueued" "s_version s < i32_max"
    and ac: "find_where (\<lambda>a. ac_id a = s_account_id s) (accounts (rw_db w)) = Some ac" "ac_lifecycle_state ac = Active"
    and v: "validate_image L bytes mime = Inr v"
    and fresh: "\<forall>x \<in> set (assets (rw_db w)). as_id x \<noteq> ids ''asset'' \<and> as_submission x \<noteq> s_id s
      \<and> \<not> (as_active x \<and> as_account x = s_account_id s \<and> as_content_sha256 x = vi_content_sha256 v)"
    and pr: "printers_ok L"
    and job: "\<forall>j \<in> set (jobs (rw_db w)). j_id j \<noteq> jid \<and> j_dedupe_key j \<noteq> extract_dedupe_key L (s_id s)"
    and key: "key = object_key L (s_account_id s) (s_id s) (vi_content_sha256 v)"
  shows "ingest L ids (s_account_id s) (s_id s) bytes mime jid sc n w =
    (Inr (IngestStored (s_id s) (vi_content_sha256 v)), n + 7,
     w\<lparr>rw_db := (rw_db w)\<lparr>
         submissions := put_row s_id (moved_submission (aw_now (sc (n + 6))) RStored None None None None s) (submissions (rw_db w)),
         assets := assets (rw_db w) @ [new_asset (aw_now (sc (n + 6))) (ac_retention_preference_days ac) (ids ''asset'')
           (s_id s) (s_account_id s) key v],
         jobs := jobs (rw_db w) @ [new_job (aw_now (sc (n + 6)))
           (receipt_request L (aw_now (sc (n + 6))) jid job_type_extract (s_id s) (s_account_id s)) 1]\<rparr>,
       rw_objects := (rw_objects w)(key \<mapsto> bytes)\<rparr>)"
proof -
  have n: "n + 6 = Suc (Suc (Suc (Suc (Suc (Suc n)))))" "n + 7 = Suc (Suc (Suc (Suc (Suc (Suc (Suc n))))))" by simp_all
  have sha: "vi_content_sha256 v = lib_sha256_hex L bytes" by (rule validate_imageD(9) [OF v])
  have act: "account_is_active (s_account_id s) sc k w = (Inr True, Suc k, w)" for k
    using ac by (simp add: account_is_active_def pquery_undisturbed [OF q])
  have noasset: "load_asset (s_id s) (s_account_id s) sc k w = (Inr None, Suc k, w)" for k
    using fresh by (auto simp: load_asset_def pquery_undisturbed [OF q] find_where_None)
  have nodup: "find_active_duplicate (s_account_id s) (vi_content_sha256 v) sc k w = (Inr None, Suc k, w)" for k
    using fresh by (auto simp: find_active_duplicate_def pquery_undisturbed [OF q] find_where_None)
  have put: "pobjects (\<lambda>fails. object_put fails key bytes) sc k w =
      (Inr (), Suc k, w\<lparr>rw_objects := (rw_objects w)(key \<mapsto> bytes)\<rparr>)" for k
    using object_key_valid [OF pr, of "s_account_id s" "s_id s" bytes]
    by (simp add: pobjects_undisturbed [OF q] object_put_def key sha)
  show ?thesis
    using s(2) v persist_ok [OF inv s ac(1) fresh pr job]
    unfolding n ingest_def Let_def key
    by (simp add: pbind_def act load_submission_undisturbed [OF q inv s(1)] noasset nodup is_terminal_def put [unfolded key]
        persist_stored_ingest_def pdb_undisturbed [OF q] run_tx_choice_def ptry_def preturn_def)
qed

text \<open>Reading a stored object back.\<close>

lemma read_and_extract_ok:
  assumes q: "undisturbed sc" and inv: "receipt_inv (rw_db w)" and a: "a \<in> set (assets (rw_db w))"
    and o: "rw_objects w (as_object_key a) = Some bytes"
  shows "fst (read_and_extract f (as_account a) (as_submission a) sc n w) = f bytes"
proof -
  have "distinct (map as_submission (assets (rw_db w)))" using receipt_invD(5) [OF inv] by (simp add: assets_unique_def)
  then have "find_where (\<lambda>x. as_submission x = as_submission a \<and> as_account x = as_account a) (assets (rw_db w)) = Some a"
    by (rule find_where_unique) (use a in auto)
  then have l: "load_asset (as_submission a) (as_account a) sc n w = (Inr (Some a), Suc n, w)"
    by (simp add: load_asset_def pquery_undisturbed [OF q])
  show ?thesis using o
    by (cases "f bytes") (simp_all add: read_and_extract_def pbind_def l pobjects_undisturbed [OF q] object_get_def pfail_def preturn_def)
qed

section \<open>Quota\<close>

definition used_pages :: "string \<Rightarrow> string \<Rightarrow> string \<Rightarrow> string \<Rightarrow> 'z receipt_db_scheme \<Rightarrow> int" where
  "used_pages sc sci per met db =
     (case find_where (counter_is sc sci per met) (usage_counters db) of None \<Rightarrow> 0 | Some u \<Rightarrow> uc_count u)"

lemma find_where_update:
  "(\<And>r. p (f r) = p r) \<Longrightarrow> find_where p (update_where p f t) = map_option f (find_where p t)"
  by (induction t) (auto simp: find_where_def update_where_def)

lemma counter_is_update [simp]:
  "counter_is sc sci per met (u\<lparr>uc_count := c, uc_limit_value := l, uc_updated_at := t\<rparr>) = counter_is sc sci per met u"
  by (simp add: counter_is_def)

lemma increment_ok:
  assumes "0 \<le> limit" "used_pages sc sci per met db + 1 \<le> i64_max"
  shows "\<exists>db'. increment_in_transaction NoFault now sc sci per met limit db =
      Inr (\<lparr>qo_count = used_pages sc sci per met db + 1, qo_limit = limit\<rparr>, db')
    \<and> used_pages sc sci per met db' = used_pages sc sci per met db + 1"
proof (cases "find_where (counter_is sc sci per met) (usage_counters db)")
  case None
  let ?u = "\<lparr>uc_scope = sc, uc_scope_id = sci, uc_period = per, uc_metric = met, uc_count = 1, uc_limit_value = limit, uc_updated_at = now\<rparr>"
  have "find_where (counter_is sc sci per met) (usage_counters db @ [?u]) = Some ?u"
    by (rule find_where_last) (use None in \<open>auto simp: find_where_None counter_is_def\<close>)
  then show ?thesis using None assms by (simp add: increment_in_transaction_def used_pages_def)
next
  case (Some u)
  then show ?thesis using assms by (simp add: increment_in_transaction_def used_pages_def find_where_update)
qed

section \<open>Retention\<close>

lemma delete_objects_ok:
  "undisturbed sc \<Longrightarrow> delete_objects ks sc n w = (Inr (), n + length ks, w\<lparr>rw_objects := rw_objects w |` (- set ks)\<rparr>)"
proof (induction ks arbitrary: n w)
  case Nil
  have "rw_objects w |` UNIV = rw_objects w" by (simp add: restrict_map_def fun_eq_iff)
  then show ?case by (simp add: preturn_def)
next
  case (Cons k ks)
  have "(m(k := None)) |` (- set ks) = m |` (- set (k # ks))" for m :: object_store
    by (auto simp: restrict_map_def fun_eq_iff)
  then show ?case using Cons by (simp add: pbind_def pobjects_undisturbed object_delete_def)
qed

lemma drop_assets_ok:
  "drop_assets NoFault now sids db =
     Inr ((), db\<lparr>assets := update_where (\<lambda>a. as_submission a \<in> set sids \<and> as_active a) (drop_asset now) (assets db)\<rparr>)"
proof (induction sids arbitrary: db)
  case Nil
  have "update_where (\<lambda>a. False) (drop_asset now) (assets db) = assets db" by (rule update_where_none) simp
  then show ?case by simp
next
  case (Cons sid sids)
  have "update_where (\<lambda>a. as_submission a \<in> set sids \<and> as_active a) (drop_asset now)
      (update_where (\<lambda>a. as_submission a = sid \<and> as_active a) (drop_asset now) t) =
    update_where (\<lambda>a. as_submission a \<in> set (sid # sids) \<and> as_active a) (drop_asset now) t" for t
    by (induction t) (auto simp: update_where_def drop_asset_def)
  then show ?case using Cons.IH by (simp add: txbind_def)
qed

lemma retention_rows:
  "a \<in> set (retention_candidates now locked limit db) \<Longrightarrow> a \<in> set (assets db) \<and> retention_due now locked db a"
  by (auto simp: retention_candidates_def dest: in_set_takeD)

lemma retention_targets:
  assumes "receipt_inv db" "a \<in> set (assets db)"
  shows "as_submission a \<in> as_submission ` set (retention_candidates now locked limit db) \<and> as_active a
    \<longleftrightarrow> a \<in> set (retention_candidates now locked limit db)"
proof
  have D: "distinct (map as_submission (assets db))" using receipt_invD(5) [OF assms(1)] by (simp add: assets_unique_def)
  assume "as_submission a \<in> as_submission ` set (retention_candidates now locked limit db) \<and> as_active a"
  then obtain b where "b \<in> set (retention_candidates now locked limit db)" "as_submission b = as_submission a" by auto
  moreover from this have "b \<in> set (assets db)" using retention_rows by blast
  ultimately show "a \<in> set (retention_candidates now locked limit db)" using assms(2) D by (metis distinct_key_eq)
next
  assume a: "a \<in> set (retention_candidates now locked limit db)"
  then show "as_submission a \<in> as_submission ` set (retention_candidates now locked limit db) \<and> as_active a"
    using retention_rows [OF a] by (auto simp: retention_due_def)
qed

end
