(* ===== verification/Receipt_Properties.thy ===== *)
theory Receipt_Properties
  imports Receipt_Pipeline
begin

text \<open>
  The properties of the receipt lifecycle: the invariant under every call and every interleaving,
  legal moves, confirmation exactly once, the review operations, and the extraction gates.
\<close>

section \<open>The calls of the lifecycle\<close>

datatype receipt_call =
  CallAccept accept_submission_request
| CallConfirm confirm_request
| CallReject reject_request
| CallEdit fresh_ids edit_draft_request
| CallFailQueued uuid uuid error_class
| CallIngest fresh_ids uuid uuid string string uuid
| CallExtract receipt_config "string \<Rightarrow> receipt_error + extracted_attempt" extraction_meta fresh_ids instant int uuid uuid
| CallExpire "uuid \<Rightarrow> bool" int
| CallDelete uuid uuid
| CallRetention "uuid \<Rightarrow> bool" int

definition ignore :: "('d, 'a) proc \<Rightarrow> ('d, unit) proc" where
  "ignore p = pbind p (\<lambda>_. preturn ())"

fun perform :: "libs \<Rightarrow> receipt_call \<Rightarrow> ('z receipt_db_scheme, unit) proc" where
  "perform L (CallAccept r) = ignore (accept_submission L r)"
| "perform L (CallConfirm r) = ignore (confirm r)"
| "perform L (CallReject r) = ignore (reject r)"
| "perform L (CallEdit ids r) = ignore (edit_draft L ids r)"
| "perform L (CallFailQueued sid aid cls) = ignore (fail_queued sid aid cls)"
| "perform L (CallIngest ids aid sid bytes mime jid) = ignore (ingest L ids aid sid bytes mime jid)"
| "perform L (CallExtract cfg f meta ids clock lat aid sid) = ignore (extract_receipt L cfg f meta ids clock lat aid sid)"
| "perform L (CallExpire locked limit) = ignore (expire_reviews locked limit)"
| "perform L (CallDelete aid sid) = ignore (delete_original aid sid)"
| "perform L (CallRetention locked limit) = ignore (retention_sweep locked limit)"

lemma follows_ignore: "follows R p \<Longrightarrow> follows R (ignore p)"
  unfolding ignore_def by (rule follows_bind) simp_all

lemma perform_follows: "follows (receipt_step L) (perform L c)"
  by (cases c)
    (auto intro!: follows_ignore receipt_ops_follow ingest_follows extract_receipt_follows delete_original_follows
      retention_sweep_follows)

section \<open>A sample review\<close>

definition fixed_width :: "nat \<Rightarrow> string \<Rightarrow> string" where
  "fixed_width n s = take n (s @ replicate n (CHR ''0''))"

definition sample_libs :: libs where
  "sample_libs =
     \<lparr>lib_show_uuid = (\<lambda>u. fixed_width 36 (show_nat u)), lib_sha256_hex = (\<lambda>b. fixed_width 64 (show_nat (length b))), lib_image_size = (\<lambda>_. Some (10, 20)),
      lib_rfc3339 = show_int, lib_month = (\<lambda>_. ''2026-07'')\<rparr>"

definition sample_account :: account where
  "sample_account =
     \<lparr>ac_id = 1, ac_lifecycle_state = Active, ac_consent_version = Some ''v1'', ac_consented_at = Some 0,
      ac_locale = ''vi'', ac_timezone = ''Asia/Ho_Chi_Minh'', ac_retention_preference_days = 7, ac_default_currency = ''VND'', ac_updated_at = 0\<rparr>"

definition sample_submission :: submission where
  "sample_submission =
     \<lparr>s_id = 5, s_account_id = 1, s_inbound_event_id = Some 9, s_state = RReviewRequired, s_version = 5,
      s_duplicate_of = None, s_confirmed_expense_id = None, s_failure_error_class = None,
      s_review_expires_at = Some 100, s_created_at = 0, s_updated_at = 4\<rparr>"

definition sample_asset :: asset where
  "sample_asset =
     \<lparr>as_id = 6, as_submission = 5, as_account = 1, as_object_key = ''receipts/1/5/h3'', as_content_sha256 = ''h3'',
      as_mime_type = ''image/jpeg'', as_size_bytes = 3, as_width_px = 10, as_height_px = 20, as_pixel_count = 200,
      as_retention_deadline = 700, as_active = True, as_original_deleted_at = None\<rparr>"

definition sample_draft :: draft where
  "sample_draft =
     \<lparr>d_id = 8, d_submission_id = 5, d_account_id = 1, d_amount_minor = 50000, d_currency = ''VND'',
      d_merchant = ''Pho'', d_category_key = ''food'', d_transaction_type = ''expense'', d_occurred_at = 3,
      d_confidence = Some (Finite 1 (-1)), d_version = 1\<rparr>"

definition sample_receipts :: receipt_db where
  "sample_receipts =
     \<lparr>jobs = [], job_attempts = [], outbound_messages = [], accounts = [sample_account], usage_counters = [],
      categories = [''food'', ''transport''], submissions = [sample_submission], assets = [sample_asset],
      drafts = [sample_draft], corrections = [], extraction_attempts = [], expenses = []\<rparr>"

definition quiet_script :: "nat \<Rightarrow> 'd await" where
  "quiet_script k = \<lparr>aw_now = 50 + int k, aw_fault = NoFault, aw_others = (\<lambda>w. w)\<rparr>"

lemma quiet_script_sel [simp]:
  "aw_now (quiet_script k) = 50 + int k" "aw_fault (quiet_script k) = NoFault" "aw_others (quiet_script k) w = w"
  by (simp_all add: quiet_script_def)

lemma calm_quiet: "calm R quiet_script"
  by (simp add: calm_def)

lemmas sample_receipt_defs = sample_account_def sample_submission_def sample_asset_def sample_draft_def sample_receipts_def

lemma sample_draft_ok: "draft_row_ok sample_draft"
  by code_simp

lemma sample_receipts_inv: "receipt_inv sample_receipts" "stocked sample_receipts"
  using sample_draft_ok
  by (simp_all add: receipt_inv_def sample_receipts_def submission_ok_def sample_submission_def expense_linked_def
      one_expense_def assets_unique_def asset_ok_def sample_asset_def drafts_ok_def stocked_def has_asset_def)
    (simp_all add: sample_draft_def)

definition sample_confirm :: confirm_request where
  "sample_confirm = \<lparr>cr_account_id = 1, cr_submission_id = 5, cr_expected_draft_version = 1, cr_expense_id = 77\<rparr>"

section \<open>The invariant\<close>

text \<open>
C8: Every call of the receipt lifecycle, whatever the other workers' calls do between its awaits and whichever
statement the database fails, keeps the tables consistent: the column constraints, one expense per receipt with a
confirmed submission pointing at it, one active asset per account and content, one draft per submission, and an
asset row for every submission past its ingest.
\<close>

theorem receipt_calls_keep_invariant:
  assumes "calm (receipt_step L) sc" "receipt_inv (rw_db w)" "stocked (rw_db w)"
  shows "receipt_inv (rw_db (snd (snd (perform L c sc n w)))) \<and> stocked (rw_db (snd (snd (perform L c sc n w))))"
proof -
  have steps: "(receipt_step L)\<^sup>*\<^sup>* (rw_db w) (rw_db (snd (snd (perform L c sc n w))))"
    by (rule followsD [OF perform_follows assms(1)])
  then show ?thesis
    using receipt_steps_sound [OF steps assms(2)] receipt_steps_stocked [OF steps assms(3)] by (simp add: sound_def)
qed

theorem receipt_calls_keep_invariant_witness:
  "receipt_inv (rw_db (snd (snd (perform sample_libs (CallConfirm sample_confirm) quiet_script 0
     \<lparr>rw_db = sample_receipts, rw_objects = Map.empty\<rparr>))))"
  using receipt_calls_keep_invariant [OF calm_quiet, of "\<lparr>rw_db = sample_receipts, rw_objects = Map.empty\<rparr>" sample_libs
      "CallConfirm sample_confirm" 0] sample_receipts_inv by simp

text \<open>
C9: Under the same conditions no submission disappears, and each changes only along the transitions the
lifecycle allows, with its version going up by one each time. A finished submission (confirmed, rejected, expired,
failed for good or deleted) never becomes anything but deleted.
\<close>

theorem receipt_moves_are_legal:
  assumes "calm (receipt_step L) sc" "receipt_inv (rw_db w)" "s \<in> set (submissions (rw_db w))"
  shows "\<exists>s' \<in> set (submissions (rw_db (snd (snd (perform L c sc n w))))).
    legal_move\<^sup>*\<^sup>* s s' \<and> s_id s' = s_id s \<and> s_version s \<le> s_version s'
    \<and> (is_terminal (s_state s) \<longrightarrow> s' = s \<or> s_state s' = RDeleted)"
proof -
  have "(receipt_step L)\<^sup>*\<^sup>* (rw_db w) (rw_db (snd (snd (perform L c sc n w))))"
    by (rule followsD [OF perform_follows assms(1)])
  from receipt_steps_sound [OF this assms(2)] obtain s'
    where "s' \<in> set (submissions (rw_db (snd (snd (perform L c sc n w)))))" "legal_move\<^sup>*\<^sup>* s s'"
    using assms(3) by (auto simp: sound_def advanced_def)
  then show ?thesis using legal_moves_keep legal_moves_terminal by blast
qed

theorem receipt_moves_are_legal_witness:
  "\<exists>s' \<in> set (submissions (rw_db (snd (snd (perform sample_libs (CallConfirm sample_confirm) quiet_script 0
       \<lparr>rw_db = sample_receipts, rw_objects = Map.empty\<rparr>))))). legal_move\<^sup>*\<^sup>* sample_submission s'"
proof -
  have "sample_submission \<in> set (submissions (rw_db \<lparr>rw_db = sample_receipts, rw_objects = Map.empty\<rparr>))"
    by (simp add: sample_receipts_def)
  from receipt_moves_are_legal [OF calm_quiet _ this, of sample_libs "CallConfirm sample_confirm" 0]
  show ?thesis using sample_receipts_inv by auto
qed

section \<open>Confirmation\<close>

text \<open>
C10: Once a confirmation has answered with an expense, every later confirmation of that submission that
succeeds, with any draft version and expense identifier and after anything else has happened, returns the same
expense and changes nothing; the receipt has exactly one expense.
\<close>

theorem confirm_exactly_once:
  assumes "receipt_inv db" "receipt_tx flt (confirm_in_transaction flt now r) db = (Inr (Confirmed eid), db1)"
    and "(receipt_step L)\<^sup>*\<^sup>* db1 db2"
    and "receipt_tx flt' (confirm_in_transaction flt' now' r') db2 = (Inr oc, db3)" "cr_submission_id r' = cr_submission_id r"
  shows "oc = AlreadyConfirmed eid \<and> db3 = db2
    \<and> count_where (\<lambda>e. e_receipt_submission_id e = Some (cr_submission_id r)) (expenses db3) = 1
    \<and> (\<exists>e \<in> set (expenses db3). e_id e = eid \<and> e_receipt_submission_id e = Some (cr_submission_id r))"
proof -
  have c: "confirm_in_transaction flt now r db = Inr (Confirmed eid, db1)"
    and c': "confirm_in_transaction flt' now' r' db2 = Inr (oc, db3)"
    using assms(2,4) unfolding receipt_tx_def by (auto dest: run_tx_Inr)
  have inv1: "receipt_inv db1" using tx_keepsD [OF confirm_sound c sound_self [OF assms(1)]] by (simp add: sound_def)
  obtain s where s: "s \<in> set (submissions db1)" "s_id s = cr_submission_id r" "s_state s = RConfirmed"
      "s_confirmed_expense_id s = Some eid"
    using confirm_leaves [OF assms(1) c] by blast
  have snd: "sound db1 db2" by (rule receipt_steps_sound [OF assms(3) inv1])
  then have inv2: "receipt_inv db2" by (simp add: sound_def)
  obtain s' where s': "s' \<in> set (submissions db2)" "legal_move\<^sup>*\<^sup>* s s'"
    using snd s(1) by (auto simp: sound_def advanced_def)
  have id: "s_id s' = cr_submission_id r" using legal_moves_keep [OF s'(2)] s(2) by simp
  have st: "s' = s \<or> s_state s' = RDeleted"
    by (rule legal_moves_terminal [OF s'(2)]) (simp add: s(3) is_terminal_def)
  then have nr: "s_state s' \<noteq> RReviewRequired" using s(3) by auto
  note A = confirm_again [OF inv2 s'(1) nr c'] assms(5) id
  have "s' = s" using A st by auto
  then have "oc = AlreadyConfirmed eid" "db3 = db2" using A s(4) by auto
  moreover obtain e where e: "e \<in> set (expenses db2)" "e_id e = eid" "e_receipt_submission_id e = Some (s_id s)"
    using receipt_invD(3) [OF inv2 s'(1)] s(4) \<open>s' = s\<close> by (auto simp: expense_linked_def)
  ultimately show ?thesis using one_expense_count [OF receipt_invD(4) [OF inv2] e(1,3)] s(2) by auto
qed

definition confirmed_receipts :: receipt_db where
  "confirmed_receipts = snd (receipt_tx NoFault (confirm_in_transaction NoFault 50 sample_confirm) sample_receipts)"

lemma confirmed_receipts_run:
  "receipt_tx NoFault (confirm_in_transaction NoFault 50 sample_confirm) sample_receipts = (Inr (Confirmed 77), confirmed_receipts)"
  "receipt_tx NoFault (confirm_in_transaction NoFault 60 (sample_confirm\<lparr>cr_expense_id := 78\<rparr>)) confirmed_receipts
     = (Inr (AlreadyConfirmed 77), confirmed_receipts)"
  by code_simp+

theorem confirm_exactly_once_witness:
  "count_where (\<lambda>e. e_receipt_submission_id e = Some 5) (expenses confirmed_receipts) = 1"
  using confirm_exactly_once [OF sample_receipts_inv(1) confirmed_receipts_run(1) rtranclp.rtrancl_refl
      confirmed_receipts_run(2)]
  by (simp add: sample_confirm_def)

text \<open>
C11: Confirming the current version of a draft under review books an expense with exactly the draft's amount,
currency, date, merchant, category and type, moves the submission to confirmed with a pointer to it, and changes
nothing else.
\<close>

theorem confirm_books_the_draft:
  assumes "receipt_inv db" "s \<in> set (submissions db)" "s_state s = RReviewRequired" "s_version s < i32_max"
    and "d \<in> set (drafts db)" "d_submission_id d = s_id s" "d_account_id d = s_account_id s"
    and "\<forall>e \<in> set (expenses db). e_receipt_submission_id e \<noteq> Some (s_id s) \<and> e_id e \<noteq> eid"
  shows "receipt_tx NoFault (confirm_in_transaction NoFault now \<lparr>cr_account_id = s_account_id s, cr_submission_id = s_id s,
      cr_expected_draft_version = d_version d, cr_expense_id = eid\<rparr>) db =
    (Inr (Confirmed eid), db\<lparr>expenses := expenses db @
        [\<lparr>e_id = eid, e_account_id = s_account_id s, e_amount_minor = d_amount_minor d, e_currency = d_currency d,
          e_occurred_at = d_occurred_at d, e_description = d_merchant d, e_source = SourceReceipt,
          e_state = ExpenseConfirmed, e_version = 1, e_receipt_submission_id = Some (s_id s),
          e_category_key = d_category_key d, e_transaction_type = d_transaction_type d,
          e_created_at = now, e_updated_at = now\<rparr>],
      submissions := put_row s_id (s\<lparr>s_state := RConfirmed, s_version := s_version s + 1, s_failure_error_class := None,
        s_confirmed_expense_id := Some eid, s_updated_at := now\<rparr>) (submissions db)\<rparr>)"
  using confirm_equation [OF assms] by (simp add: receipt_tx_def confirmed_expense_def moved_submission_def)

theorem confirm_books_the_draft_witness:
  "fst (receipt_tx NoFault (confirm_in_transaction NoFault 50 sample_confirm) sample_receipts) = Inr (Confirmed 77)"
  using confirm_books_the_draft [OF sample_receipts_inv(1), of sample_submission sample_draft 77 50]
  by (simp add: sample_receipts_def sample_submission_def sample_draft_def sample_confirm_def)

section \<open>Review of a draft\<close>

text \<open>
Confirming, rejecting or editing a draft with another version than the stored one is refused as a conflict,
and the tables stay as they are: of two reviewers who read the same version, the second learns that it is stale.
\<close>

theorem stale_review_refused:
  assumes "receipt_inv db" "s \<in> set (submissions db)" "s_state s = RReviewRequired"
    and "d \<in> set (drafts db)" "d_submission_id d = s_id s" "d_account_id d = s_account_id s" "v \<noteq> d_version d"
  shows "receipt_tx NoFault (confirm_in_transaction NoFault now \<lparr>cr_account_id = s_account_id s, cr_submission_id = s_id s,
        cr_expected_draft_version = v, cr_expense_id = eid\<rparr>) db = (Inl (receipt_conflict ''draft version mismatch''), db)
    \<and> receipt_tx NoFault (reject_in_transaction NoFault now \<lparr>rr_account_id = s_account_id s, rr_submission_id = s_id s,
        rr_expected_draft_version = v\<rparr>) db = (Inl (receipt_conflict ''draft version mismatch''), db)
    \<and> receipt_tx NoFault (edit_draft_in_transaction L NoFault ids (r\<lparr>ed_account_id := s_account_id s, ed_submission_id := s_id s,
        ed_expected_version := v\<rparr>)) db = (Inl (receipt_conflict ''draft version mismatch''), db)"
  using load_submission_ok [OF assms(1,2)] load_draft_ok [OF assms(1,4)] assms(3,5-7)
  by (simp add: receipt_tx_def confirm_in_transaction_def reject_in_transaction_def edit_draft_in_transaction_def txbind_def Let_def)

theorem stale_review_refused_witness:
  "receipt_tx NoFault (confirm_in_transaction NoFault 50 \<lparr>cr_account_id = 1, cr_submission_id = 5, cr_expected_draft_version = 2,
     cr_expense_id = 77\<rparr>) sample_receipts = (Inl (receipt_conflict ''draft version mismatch''), sample_receipts)"
  using stale_review_refused [OF sample_receipts_inv(1), of sample_submission sample_draft 2 50 77]
  by (simp add: sample_receipts_def sample_submission_def sample_draft_def)

text \<open>
C12: An acceptable edit of the current version replaces exactly the given fields (the merchant trimmed), raises
the version by one, appends one correction per field that changes, in a fixed order with the old and the new value,
and changes nothing else. In particular the checks of the program are strong enough for the checks of the table.
\<close>

theorem edit_draft_refines_edited:
  assumes "receipt_inv db" "s \<in> set (submissions db)" "s_state s = RReviewRequired"
    and "d \<in> set (drafts db)" "d_submission_id d = s_id s" "d_account_id d = s_account_id s" "d_version d < i32_max"
    and "d_category_key d \<in> set (categories db)" "edit_acceptable (categories db) r"
    and "ed_submission_id r = s_id s" "ed_account_id r = s_account_id s" "ed_expected_version r = d_version d"
  shows "receipt_tx NoFault (edit_draft_in_transaction L NoFault ids r) db =
    (Inr (edited r d), db\<lparr>corrections := corrections db @ edit_log L ids r d,
      drafts := put_row d_id (edited r d) (drafts db)\<rparr>)"
  using edit_equation [OF assms] by (simp add: receipt_tx_def)

definition sample_edit :: edit_draft_request where
  "sample_edit =
     \<lparr>ed_account_id = 1, ed_submission_id = 5, ed_expected_version = 1, ed_amount_minor = Some 60000, ed_currency = None,
      ed_merchant = Some '' Bun '', ed_category_key = None, ed_occurred_at = None, ed_transaction_type = None\<rparr>"

lemma sample_edit_acceptable: "edit_acceptable (categories sample_receipts) sample_edit"
proof -
  have "char_count (trim '' Bun '') = 3" by code_simp
  then show ?thesis by (simp add: edit_acceptable_def sample_edit_def)
qed

theorem edit_draft_refines_edited_witness:
  "fst (receipt_tx NoFault (edit_draft_in_transaction sample_libs NoFault (\<lambda>_. 90) sample_edit) sample_receipts)
     = Inr (edited sample_edit sample_draft)"
  using edit_draft_refines_edited [OF sample_receipts_inv(1), of sample_submission sample_draft sample_edit sample_libs "\<lambda>_. 90"]
    sample_edit_acceptable
  by (simp add: sample_receipts_def sample_submission_def sample_draft_def sample_edit_def)

section \<open>Ingest and extraction\<close>

text \<open>
C13: An undisturbed ingest of a valid new image for a queued submission of an active account stores it: the
submission becomes stored, an asset row and an extraction job appear, the object holds the bytes, and the extractor
is later called with exactly these bytes.
\<close>

theorem ingest_then_extract_sees_bytes:
  assumes "undisturbed sc" "receipt_inv (rw_db w)"
    and "s \<in> set (submissions (rw_db w))" "s_state s = RQueued" "s_version s < i32_max"
    and "find_where (\<lambda>a. ac_id a = s_account_id s) (accounts (rw_db w)) = Some ac" "ac_lifecycle_state ac = Active"
    and "validate_image L bytes mime = Inr v"
    and "\<forall>x \<in> set (assets (rw_db w)). as_id x \<noteq> ids ''asset'' \<and> as_submission x \<noteq> s_id s
      \<and> \<not> (as_active x \<and> as_account x = s_account_id s \<and> as_content_sha256 x = vi_content_sha256 v)"
    and "printers_ok L"
    and "\<forall>j \<in> set (jobs (rw_db w)). j_id j \<noteq> jid \<and> j_dedupe_key j \<noteq> extract_dedupe_key L (s_id s)"
  shows "case ingest L ids (s_account_id s) (s_id s) bytes mime jid sc n w of (r, n', w') \<Rightarrow>
    r = Inr (IngestStored (s_id s) (lib_sha256_hex L bytes))
    \<and> (\<exists>s' \<in> set (submissions (rw_db w')). s_id s' = s_id s \<and> s_state s' = RStored)
    \<and> (\<exists>j \<in> set (jobs (rw_db w')). j_id j = jid \<and> j_type j = ''receipt.extract'' \<and> j_state j = Queued)
    \<and> fst (read_and_extract f (s_account_id s) (s_id s) sc n' w') = f bytes"
proof -
  note I = ingest_ok [where ids = ids, OF assms refl, of n]
  let ?w = "snd (snd (ingest L ids (s_account_id s) (s_id s) bytes mime jid sc n w))"
  let ?key = "object_key L (s_account_id s) (s_id s) (vi_content_sha256 v)"
  let ?a = "new_asset (aw_now (sc (n + 6))) (ac_retention_preference_days ac) (ids ''asset'') (s_id s) (s_account_id s) ?key v"
  let ?s = "moved_submission (aw_now (sc (n + 6))) RStored None None None None s"
  have "calm (receipt_step L) sc" using assms(1) by (simp add: calm_def undisturbed_def)
  from followsD [OF ingest_follows this] have steps: "(receipt_step L)\<^sup>*\<^sup>* (rw_db w) (rw_db ?w)" by simp
  have inv: "receipt_inv (rw_db ?w)" using receipt_steps_sound [OF steps assms(2)] by (simp add: sound_def)
  have a: "?a \<in> set (assets (rw_db ?w))" "rw_objects ?w (as_object_key ?a) = Some bytes" "as_account ?a = s_account_id s"
    "as_submission ?a = s_id s"
    using I by (simp_all add: new_asset_def)
  have "fst (read_and_extract f (s_account_id s) (s_id s) sc (n + 7) ?w) = f bytes"
    using read_and_extract_ok [OF assms(1) inv a(1,2), of f "n + 7"] a(3,4) by simp
  moreover have "\<exists>s' \<in> set (submissions (rw_db ?w)). s_id s' = s_id s \<and> s_state s' = RStored"
    using I put_row_member [of s_id ?s "submissions (rw_db w)"] assms(3) by (auto intro!: bexI [of _ ?s])
  moreover have "\<exists>j \<in> set (jobs (rw_db ?w)). j_id j = jid \<and> j_type j = ''receipt.extract'' \<and> j_state j = Queued"
    using I by (auto simp: new_job_def receipt_request_def job_type_extract_def)
  ultimately show ?thesis using I validate_imageD(9) [OF assms(8)] by simp
qed

definition queued_receipts :: receipt_db where
  "queued_receipts = sample_receipts\<lparr>submissions := [sample_submission\<lparr>s_state := RQueued, s_review_expires_at := None\<rparr>],
     assets := [], drafts := []\<rparr>"

definition sample_jpeg :: string where
  "sample_jpeg = [CHR 0xFF, CHR 0xD8, CHR 0xFF]"

lemma queued_receipts_inv: "receipt_inv queued_receipts"
  by (simp add: queued_receipts_def sample_receipts_def receipt_inv_def submission_ok_def sample_submission_def
      expense_linked_def one_expense_def assets_unique_def drafts_ok_def)

lemma digits_hex: "set (show_nat n) \<subseteq> set ''0123456789''"
proof (induction n rule: show_nat.induct)
  case (1 n)
  have d: "char_of (48 + k) \<in> set ''0123456789''" if "k < 10" for k :: nat
  proof -
    have "list_all (\<lambda>k :: nat. char_of (48 + k) \<in> set ''0123456789'') [0..<10]" by code_simp
    then show ?thesis using that unfolding list_all_iff by fastforce
  qed
  show ?case using 1 d [of n] d [of "n mod 10"] by (subst show_nat.simps) auto
qed

lemma printers_sample: "printers_ok sample_libs"
proof -
  have "hex_text (fixed_width n (show_nat k))" for n k
  proof -
    have "set (fixed_width n (show_nat k)) \<subseteq> set (show_nat k) \<union> {CHR ''0''}"
      unfolding fixed_width_def using set_take_subset by fastforce
    then show ?thesis unfolding hex_text_def using digits_hex [of k] by fastforce
  qed
  then show ?thesis by (auto simp: printers_ok_def sample_libs_def fixed_width_def min_def)
qed

lemma undisturbed_quiet: "undisturbed quiet_script"
  by (simp add: undisturbed_def quiet_script_def)

theorem ingest_then_extract_sees_bytes_witness:
  "fst (ingest sample_libs (\<lambda>_. 6) 1 5 sample_jpeg ''image/jpg'' 30 quiet_script 0
     \<lparr>rw_db = queued_receipts, rw_objects = Map.empty\<rparr>) = Inr (IngestStored 5 (lib_sha256_hex sample_libs sample_jpeg))"
proof -
  have "validate_image sample_libs sample_jpeg ''image/jpg'' =
      Inr \<lparr>vi_content_sha256 = lib_sha256_hex sample_libs sample_jpeg, vi_mime_type = ''image/jpeg'', vi_size_bytes = 3,
        vi_width_px = 10, vi_height_px = 20\<rparr>"
  proof -
    have "normalize_declared_image_mime ''image/jpg'' = Some ''image/jpeg''" by code_simp
    then show ?thesis
      by (simp add: validate_image_def sniffed_image_mime_def sample_jpeg_def max_image_bytes_def max_pixel_count_def
          i32_of_nat_def sample_libs_def)
  qed
  from ingest_then_extract_sees_bytes [OF undisturbed_quiet _ _ _ _ _ _ this, where
      s = "sample_submission\<lparr>s_state := RQueued, s_review_expires_at := None\<rparr>" and ac = sample_account and
      ids = "\<lambda>_. 6" and jid = 30 and n = 0 and w = "\<lparr>rw_db = queued_receipts, rw_objects = Map.empty\<rparr>" and
      f = "\<lambda>_. Inl (receipt_validation ''x'')"]
  show ?thesis using queued_receipts_inv printers_sample
    by (simp add: queued_receipts_def sample_receipts_def sample_submission_def sample_account_def find_where_def split_beta)
qed

text \<open>
With extraction switched off the extractor is never consulted: the call behaves the same whatever the
extractor would say, and it never makes a draft ready for review.
\<close>

theorem extraction_kill_switch:
  assumes "\<not> extraction_enabled cfg"
  shows "extract_receipt L cfg f meta ids clock lat aid sid = extract_receipt L cfg g meta ids clock lat aid sid
    \<and> fst (extract_receipt L cfg f meta ids clock lat aid sid sc n w) \<noteq> Inr (ReviewReady i j)"
proof
  show "extract_receipt L cfg f meta ids clock lat aid sid = extract_receipt L cfg g meta ids clock lat aid sid"
    using assms by (simp add: extract_receipt_def)
  have claim: "r \<noteq> Inr (ClaimDone (ReviewReady i j))" if "claim_extracting aid sid sc n w = (r, n', w')" for r n' w'
    using that by (auto simp: claim_extracting_def pdb_def receipt_tx_def run_tx_def claim_extracting_tx_def Let_def txbind_def
        split: if_splits sum.splits prod.splits receipt_state.splits)
  show "fst (extract_receipt L cfg f meta ids clock lat aid sid sc n w) \<noteq> Inr (ReviewReady i j)"
    using assms claim by (auto simp: extract_receipt_def pbind_def pfail_def preturn_def
        split: prod.splits sum.splits extract_claim.splits if_splits)
qed

definition sample_meta :: extraction_meta where
  "sample_meta = \<lparr>em_provider = ''fake'', em_model = ''m'', em_profile_name = ''p'', em_prompt_version = ''1'',
     em_input_tokens = None, em_output_tokens = None\<rparr>"

definition switched_off :: receipt_config where
  "switched_off = receipt_config_default\<lparr>extraction_enabled := False\<rparr>"

theorem extraction_kill_switch_witness:
  "fst (extract_receipt sample_libs switched_off (\<lambda>_. Inl (dependency ''x'')) sample_meta (\<lambda>_. 3) 0 1 1 5 quiet_script 0
     \<lparr>rw_db = sample_receipts, rw_objects = Map.empty\<rparr>) \<noteq> Inr (ReviewReady 5 3)"
  by (rule conjunct2 [OF extraction_kill_switch]) (simp add: switched_off_def)

section \<open>Quota\<close>

text \<open>The answers of a series of increments of one counter, each in a transaction of its own.\<close>

fun increments ::
  "string \<Rightarrow> string \<Rightarrow> string \<Rightarrow> string \<Rightarrow> int \<Rightarrow> instant list \<Rightarrow> 'z receipt_db_scheme \<Rightarrow> (quota_error + quota_outcome) list" where
  "increments sco sci per met limit [] db = []"
| "increments sco sci per met limit (t # ts) db =
     (case run_tx NoFault (QuotaError ''b'') (QuotaError ''c'') (increment_in_transaction NoFault t sco sci per met limit) db of
        (r, db') \<Rightarrow> r # increments sco sci per met limit ts db')"

definition granted :: "quota_error + quota_outcome \<Rightarrow> bool" where
  "granted r = (case r of Inl _ \<Rightarrow> False | Inr q \<Rightarrow> \<not> exceeded q)"

text \<open>
C14: Of any number of increments of one usage counter within a period, exactly as many are within the limit as
the limit had left at the start (or all of them, when they are fewer): the quota is neither overspent nor wasted.
\<close>

theorem quota_grants_exactly_the_limit:
  assumes "0 \<le> limit" "used_pages sco sci per met db + int (length ts) \<le> i64_max"
  shows "count_where granted (increments sco sci per met limit ts db) =
    min (length ts) (nat (limit - used_pages sco sci per met db))"
  using assms(2)
proof (induction ts arbitrary: db)
  case (Cons t ts)
  let ?u = "used_pages sco sci per met"
  obtain db' where i: "increment_in_transaction NoFault t sco sci per met limit db = Inr (\<lparr>qo_count = ?u db + 1, qo_limit = limit\<rparr>, db')"
    and u: "?u db' = ?u db + 1"
    using increment_ok [OF assms(1), of sco sci per met db t] Cons.prems by auto
  have "count_where granted (increments sco sci per met limit ts db') = min (length ts) (nat (limit - (?u db + 1)))"
    using Cons.IH [of db'] Cons.prems u by simp
  moreover have "granted (Inr \<lparr>qo_count = ?u db + 1, qo_limit = limit\<rparr>) \<longleftrightarrow> ?u db < limit"
    by (auto simp: granted_def exceeded_def)
  ultimately show ?case using i by (auto simp: count_where_def min_def)
qed (simp add: count_where_def)

theorem quota_grants_exactly_the_limit_witness:
  "count_where granted (increments ''global'' ''global'' ''2026-07'' ''extraction_pages'' 2 [1, 2, 3] sample_receipts) = 2"
  using quota_grants_exactly_the_limit [of 2 "''global''" "''global''" "''2026-07''" "''extraction_pages''" sample_receipts "[1, 2, 3]"]
  by (simp add: used_pages_def sample_receipts_def find_where_def)

section \<open>Retries, deletion and retention\<close>

text \<open>
A receipt whose extraction failed transiently has its asset, so a repeated ingest answers that it is already
stored and changes nothing; storing it again would be refused as an illegal transition.
\<close>

theorem ingest_after_transient_failure:
  assumes "undisturbed sc" "receipt_inv (rw_db w)" "stocked (rw_db w)"
    and "s \<in> set (submissions (rw_db w))" "s_state s = RFailedTransient"
    and "find_where (\<lambda>a. ac_id a = s_account_id s) (accounts (rw_db w)) = Some ac" "ac_lifecycle_state ac = Active"
  shows "ingest L ids (s_account_id s) (s_id s) bytes mime jid sc n w = (Inr (AlreadyStored (s_id s)), n + 4, w)
    \<and> persist_stored_ingest_tx L NoFault now i (s_account_id s) (s_id s) key v jid (rw_db w) =
        Inl (receipt_conflict ''illegal lifecycle transition'')"
proof
  have act: "account_is_active (s_account_id s) sc k w = (Inr True, Suc k, w)" for k
    using assms(6,7) by (simp add: account_is_active_def pquery_undisturbed [OF assms(1)])
  have "has_asset (assets (rw_db w)) s" using assms(3-5) by (simp add: stocked_def past_ingest_def)
  then have "find_where (\<lambda>a. as_submission a = s_id s \<and> as_account a = s_account_id s) (assets (rw_db w)) \<noteq> None"
    by (auto simp: find_where_None has_asset_def)
  then obtain a where asset: "load_asset (s_id s) (s_account_id s) sc k w = (Inr (Some a), Suc k, w)" for k
    by (auto simp: load_asset_def pquery_undisturbed [OF assms(1)])
  show "ingest L ids (s_account_id s) (s_id s) bytes mime jid sc n w = (Inr (AlreadyStored (s_id s)), n + 4, w)"
    using assms(5) by (simp add: ingest_def pbind_def act load_submission_undisturbed [OF assms(1,2,4)] asset preturn_def)
  show "persist_stored_ingest_tx L NoFault now i (s_account_id s) (s_id s) key v jid (rw_db w) =
      Inl (receipt_conflict ''illegal lifecycle transition'')"
    using load_submission_ok [OF assms(2,4)] assms(5)
    by (simp add: persist_stored_ingest_tx_def txbind_def is_terminal_def transition_state_def can_transition_def)
qed

definition failed_receipts :: receipt_db where
  "failed_receipts = sample_receipts\<lparr>submissions := [sample_submission\<lparr>s_state := RFailedTransient, s_review_expires_at := None\<rparr>],
     drafts := []\<rparr>"

lemma failed_receipts_inv: "receipt_inv failed_receipts" "stocked failed_receipts"
  by (simp_all add: failed_receipts_def sample_receipts_def receipt_inv_def submission_ok_def sample_submission_def
      expense_linked_def one_expense_def assets_unique_def asset_ok_def sample_asset_def drafts_ok_def stocked_def has_asset_def)

theorem ingest_after_transient_failure_witness:
  "fst (ingest sample_libs (\<lambda>_. 6) 1 5 sample_jpeg ''image/jpeg'' 30 quiet_script 0
     \<lparr>rw_db = failed_receipts, rw_objects = Map.empty\<rparr>) = Inr (AlreadyStored 5)"
  using ingest_after_transient_failure [OF undisturbed_quiet, where w = "\<lparr>rw_db = failed_receipts, rw_objects = Map.empty\<rparr>"
      and s = "sample_submission\<lparr>s_state := RFailedTransient, s_review_expires_at := None\<rparr>" and ac = sample_account
      and L = sample_libs and ids = "\<lambda>_. 6" and bytes = sample_jpeg and mime = "''image/jpeg''" and jid = 30 and n = 0]
    failed_receipts_inv
  by (simp add: failed_receipts_def sample_receipts_def sample_submission_def sample_account_def find_where_def)

text \<open>
An undisturbed retention sweep takes at most the given number of assets, all past their deadline, active and
of a finished submission, the earliest deadlines first; it deletes their objects, marks exactly these assets as
deleted, and leaves every other object and every other table alone.
\<close>

theorem retention_sweep_takes_due_assets:
  assumes "undisturbed sc" "receipt_inv (rw_db w)" "0 < limit"
    and "due = retention_candidates (aw_now (sc n)) locked limit (rw_db w)"
  shows "retention_sweep locked limit sc n w =
    (Inr (length due), n + length due + 2,
     w\<lparr>rw_db := (rw_db w)\<lparr>assets := map (\<lambda>a. if a \<in> set due then drop_asset (aw_now (sc n)) a else a)
         (assets (rw_db w))\<rparr>,
       rw_objects := rw_objects w |` (- as_object_key ` set due)\<rparr>)
    \<and> (\<forall>a \<in> set due. retention_due (aw_now (sc n)) locked (rw_db w) a) \<and> int (length due) \<le> limit
    \<and> sorted (map as_retention_deadline due)"
proof (intro conjI ballI)
  let ?now = "aw_now (sc n)"
  have "update_where (\<lambda>a. as_submission a \<in> as_submission ` set due \<and> as_active a) (drop_asset ?now) (assets (rw_db w)) =
      map (\<lambda>a. if a \<in> set due then drop_asset ?now a else a) (assets (rw_db w))"
    unfolding update_where_def by (rule map_cong [OF refl]) (simp add: assms(4) retention_targets [OF assms(2)])
  then show "retention_sweep locked limit sc n w =
    (Inr (length due), n + length due + 2,
     w\<lparr>rw_db := (rw_db w)\<lparr>assets := map (\<lambda>a. if a \<in> set due then drop_asset ?now a else a) (assets (rw_db w))\<rparr>,
       rw_objects := rw_objects w |` (- as_object_key ` set due)\<rparr>)"
    using assms(3)
    by (simp add: retention_sweep_def pbind_def pdb_undisturbed [OF assms(1)] assms(4) [symmetric]
        delete_objects_ok [OF assms(1)] drop_assets_ok preturn_def)
  show "retention_due (aw_now (sc n)) locked (rw_db w) a" if "a \<in> set due" for a
    using retention_rows that unfolding assms(4) by blast
  show "int (length due) \<le> limit" using assms(3) unfolding assms(4) retention_candidates_def by simp
  show "sorted (map as_retention_deadline due)"
    unfolding assms(4) retention_candidates_def by (metis sorted_sort_key sorted_wrt_take take_map)
qed

definition old_receipts :: receipt_db where
  "old_receipts = sample_receipts\<lparr>submissions := [sample_submission\<lparr>s_state := RRejected\<rparr>], assets := [sample_asset\<lparr>as_retention_deadline := 10\<rparr>]\<rparr>"

lemma old_receipts_inv: "receipt_inv old_receipts"
  using sample_draft_ok
  by (simp add: old_receipts_def sample_receipts_def receipt_inv_def submission_ok_def sample_submission_def
      expense_linked_def one_expense_def assets_unique_def asset_ok_def sample_asset_def drafts_ok_def)
    (simp add: sample_draft_def)

theorem retention_sweep_takes_due_assets_witness:
  "fst (retention_sweep (\<lambda>_. False) 10 quiet_script 0 \<lparr>rw_db = old_receipts, rw_objects = Map.empty\<rparr>) = Inr 1"
proof -
  have "length (retention_candidates 50 (\<lambda>_. False) 10 old_receipts) = 1"
    by (simp add: retention_candidates_def retention_due_def old_receipts_def sample_receipts_def sample_asset_def
        sample_submission_def exists_where_def)
  then show ?thesis
    using retention_sweep_takes_due_assets [OF undisturbed_quiet, of "\<lparr>rw_db = old_receipts, rw_objects = Map.empty\<rparr>" 10 _ 0 "\<lambda>_. False"]
      old_receipts_inv by simp
qed

end
