(* ===== verification/Chat_Text.thy ===== *)
theory Chat_Text
  imports Rust_Text Bot_Prelude
begin

text \<open>
  Text of the chat: \<^verbatim>\<open>src/conversation/fold.rs\<close>, \<^verbatim>\<open>locale.rs\<close>, \<^verbatim>\<open>money.rs\<close> and
  \<^verbatim>\<open>categories.rs\<close>. The Unicode tables (case mapping, canonical decomposition without combining
  marks) and the calendar are fields of \<open>chat_libs\<close>; everything else is byte by byte.
  Slicing a \<^verbatim>\<open>str\<close> inside a character panics, so what slices returns a \<open>run\<close>.
\<close>

type_synonym date = "int \<times> nat \<times> nat"

record chat_libs =
  cl_lower :: "string \<Rightarrow> string"
  cl_upper :: "string \<Rightarrow> string"
  cl_strip_marks :: "string \<Rightarrow> string"
  cl_parse_date :: "string \<Rightarrow> string \<Rightarrow> date option"
  cl_tz_known :: "string \<Rightarrow> bool"
  cl_local_noon :: "string \<Rightarrow> date \<Rightarrow> instant option"
  cl_local_date :: "string \<Rightarrow> instant \<Rightarrow> date"
  cl_format_dmy :: "string \<Rightarrow> instant \<Rightarrow> string"

text \<open>\<^verbatim>\<open>&s[..i]\<close> and \<^verbatim>\<open>&s[i..]\<close>\<close>

definition slice_to :: "string \<Rightarrow> nat \<Rightarrow> string run" where
  "slice_to s i = (if is_char_boundary s i then Done (take i s) else Panic)"

definition slice_from :: "string \<Rightarrow> nat \<Rightarrow> string run" where
  "slice_from s i = (if is_char_boundary s i then Done (drop i s) else Panic)"

text \<open>64-bit signed multiplication and addition as the machine does them.\<close>

definition wrap64 :: "int \<Rightarrow> int" where
  "wrap64 x = (x + 2 ^ 63) mod 2 ^ 64 - 2 ^ 63"

lemma wrap64_id: "i64_min \<le> x \<Longrightarrow> x \<le> i64_max \<Longrightarrow> wrap64 x = x"
  unfolding wrap64_def by (subst mod_pos_pos_trivial) simp_all

section \<open>Folding\<close>

text \<open>\<^verbatim>\<open>replace(from, to)\<close> for a non-empty pattern: left to right, without overlaps.\<close>

function replace_str :: "string \<Rightarrow> string \<Rightarrow> string \<Rightarrow> string" where
  "replace_str from to [] = []"
| "replace_str from to (c # cs) =
     (if from \<noteq> [] \<and> starts_with (c # cs) from then to @ replace_str from to (drop (length from) (c # cs))
      else c # replace_str from to cs)"
  by pat_completeness auto
termination
  by (relation "measure (\<lambda>(f, t, s). length s)") (auto simp: less_Suc_eq_le neq_Nil_conv)

definition fold_text :: "chat_libs \<Rightarrow> string \<Rightarrow> string" where
  "fold_text L s =
     join_with '' '' (split_whitespace
       (replace_str [CHR 0xC4, CHR 0x91] ''d'' (cl_strip_marks L (cl_lower L (trim s)))))"

definition command_punctuation :: "string list" where
  "command_punctuation = [''.'', '','', ''!'', ''?'', [CHR 0xE2, CHR 0x80, CHR 0xA6], '';'', '':'']"

definition trim_command_punctuation :: "string \<Rightarrow> string" where
  "trim_command_punctuation s = trim (trim_matches command_punctuation (trim s))"

section \<open>Reply language\<close>

datatype locale_t = Vi | En

definition locale_parse :: "string \<Rightarrow> locale_t" where
  "locale_parse v = (if starts_with (to_ascii_lowercase (trim v)) ''en'' then En else Vi)"

fun as_account_value :: "locale_t \<Rightarrow> string" where
  "as_account_value Vi = ''vi-VN''"
| "as_account_value En = ''en-US''"

fun as_short :: "locale_t \<Rightarrow> string" where
  "as_short Vi = ''vi''"
| "as_short En = ''en''"

definition category_display_for :: "locale_t \<Rightarrow> string \<Rightarrow> string \<Rightarrow> string \<Rightarrow> string" where
  "category_display_for loc key name_vi name_en =
     (let preferred = (case loc of Vi \<Rightarrow> name_vi | En \<Rightarrow> name_en)
      in if trim preferred = [] then key else preferred)"

lemma locale_parse_samples:
  "locale_parse ''vi-VN'' = Vi" "locale_parse ''en-US'' = En" "locale_parse ''vi'' = Vi" "locale_parse ''en'' = En"
  by code_simp+

lemma locale_parse_code: "locale_parse (as_account_value l) = l" "locale_parse (as_short l) = l"
  by (cases l; simp add: locale_parse_samples)+

interpretation locale_codec: enum_codec as_account_value "Some \<circ> locale_parse"
  by unfold_locales (simp add: locale_parse_code)

interpretation short_locale_codec: enum_codec as_short "Some \<circ> locale_parse"
  by unfold_locales (simp add: locale_parse_code)

section \<open>Money\<close>

definition currency_decimal_places :: "chat_libs \<Rightarrow> string \<Rightarrow> nat" where
  "currency_decimal_places L currency =
     (if cl_upper L currency \<in> {''VND'', ''JPY'', ''KRW''} then 0 else 2)"

definition dong_sign :: string where
  "dong_sign = [CHR 0xE2, CHR 0x82, CHR 0xAB]"

definition currency_symbol :: "string \<Rightarrow> string" where
  "currency_symbol cur =
     (if cur = ''VND'' then dong_sign else if cur = ''AUD'' then ''A$'' else if cur = ''USD'' then ''$'' else [])"

definition group_digits :: "string \<Rightarrow> string" where
  "group_digits ds =
     concat (map (\<lambda>(i, d). (if 0 < i \<and> (length ds - i) mod 3 = 0 then ''.'' else []) @ [d]) (enumerate 0 ds))"

text \<open>\<^verbatim>\<open>{:0width$}\<close>\<close>

definition zero_padded :: "nat \<Rightarrow> nat \<Rightarrow> string" where
  "zero_padded width n = replicate (width - length (show_nat n)) (CHR ''0'') @ show_nat n"

definition format_minor :: "chat_libs \<Rightarrow> int \<Rightarrow> string \<Rightarrow> string" where
  "format_minor L amount currency =
     (let cur = cl_upper L currency; value = nat \<bar>amount\<bar>; places = currency_decimal_places L cur;
          int_part = (if places = 0 then show_nat value else show_nat (value div 10 ^ places));
          frac_part = (if places = 0 then [] else '','' @ zero_padded places (value mod 10 ^ places));
          sign = (if amount < 0 then ''-'' else []);
          symbol = currency_symbol cur
      in sign @ group_digits int_part @ frac_part @ '' '' @ (if symbol = [] then cur else symbol))"

section \<open>Categories\<close>

record category_def =
  cd_key :: string
  cd_name_vi :: string
  cd_name_en :: string

definition CATEGORIES :: "category_def list" where
  "CATEGORIES =
     [\<lparr>cd_key = ''an-uong'', cd_name_vi = [CHR 0xC4, CHR 0x82] @ ''n u'' @ [CHR 0xE1, CHR 0xBB, CHR 0x91] @ ''ng'',
       cd_name_en = ''Food & drink''\<rparr>,
      \<lparr>cd_key = ''thuc-pham'', cd_name_vi = ''Th'' @ [CHR 0xE1, CHR 0xBB, CHR 0xB1] @ ''c ph'' @ [CHR 0xE1, CHR 0xBA, CHR 0xA9] @ ''m'',
       cd_name_en = ''Groceries''\<rparr>,
      \<lparr>cd_key = ''di-lai'', cd_name_vi = [CHR 0xC4, CHR 0x90] @ ''i l'' @ [CHR 0xE1, CHR 0xBA, CHR 0xA1] @ ''i'',
       cd_name_en = ''Transport''\<rparr>,
      \<lparr>cd_key = ''hoa-don'', cd_name_vi = ''H'' @ [CHR 0xC3, CHR 0xB3] @ ''a '' @ [CHR 0xC4, CHR 0x91, CHR 0xC6, CHR 0xA1] @ ''n'',
       cd_name_en = ''Bills''\<rparr>,
      \<lparr>cd_key = ''mua-sam'', cd_name_vi = ''Mua s'' @ [CHR 0xE1, CHR 0xBA, CHR 0xAF] @ ''m'',
       cd_name_en = ''Shopping''\<rparr>,
      \<lparr>cd_key = ''suc-khoe'', cd_name_vi = ''S'' @ [CHR 0xE1, CHR 0xBB, CHR 0xA9] @ ''c kh'' @ [CHR 0xE1, CHR 0xBB, CHR 0x8F] @ ''e'',
       cd_name_en = ''Health''\<rparr>,
      \<lparr>cd_key = ''giai-tri'', cd_name_vi = ''Gi'' @ [CHR 0xE1, CHR 0xBA, CHR 0xA3] @ ''i tr'' @ [CHR 0xC3, CHR 0xAD],
       cd_name_en = ''Entertainment''\<rparr>,
      \<lparr>cd_key = ''giao-duc'', cd_name_vi = ''Gi'' @ [CHR 0xC3, CHR 0xA1] @ ''o d'' @ [CHR 0xE1, CHR 0xBB, CHR 0xA5] @ ''c'',
       cd_name_en = ''Education''\<rparr>,
      \<lparr>cd_key = ''nha-o'', cd_name_vi = ''Nh'' @ [CHR 0xC3, CHR 0xA0] @ '' '' @ [CHR 0xE1, CHR 0xBB, CHR 0x9F],
       cd_name_en = ''Housing''\<rparr>,
      \<lparr>cd_key = ''thu-nhap'', cd_name_vi = ''Thu nh'' @ [CHR 0xE1, CHR 0xBA, CHR 0xAD] @ ''p'',
       cd_name_en = ''Income''\<rparr>,
      \<lparr>cd_key = ''hoan-tien'', cd_name_vi = ''Ho'' @ [CHR 0xC3, CHR 0xA0] @ ''n ti'' @ [CHR 0xE1, CHR 0xBB, CHR 0x81] @ ''n'',
       cd_name_en = ''Refund''\<rparr>,
      \<lparr>cd_key = ''chuyen-khoan'', cd_name_vi = ''Chuy'' @ [CHR 0xE1, CHR 0xBB, CHR 0x83] @ ''n kho'' @ [CHR 0xE1, CHR 0xBA, CHR 0xA3] @ ''n'',
       cd_name_en = ''Transfer''\<rparr>,
      \<lparr>cd_key = ''khac'', cd_name_vi = ''Kh'' @ [CHR 0xC3, CHR 0xA1] @ ''c'',
       cd_name_en = ''Other''\<rparr>]"

definition category_display :: "locale_t \<Rightarrow> string \<Rightarrow> string" where
  "category_display loc key =
     (case List.find (\<lambda>c. cd_key c = key) CATEGORIES of
        None \<Rightarrow> key
      | Some c \<Rightarrow> (case loc of Vi \<Rightarrow> cd_name_vi c | En \<Rightarrow> cd_name_en c))"

definition first_word :: "string \<Rightarrow> string" where
  "first_word s = (case split_whitespace s of [] \<Rightarrow> [] | w # _ \<Rightarrow> w)"

definition resolve_category_key :: "chat_libs \<Rightarrow> string \<Rightarrow> string option" where
  "resolve_category_key L input =
     (let raw = trim input in
      if raw = [] then None
      else let folded = fold_text L raw;
        exact = List.find (\<lambda>c. folded = fold_text L (cd_key c) \<or> folded = fold_text L (cd_name_vi c)
          \<or> folded = fold_text L (cd_name_en c) \<or> folded = fold_text L (replace_char (CHR ''&'') ''and'' (cd_name_en c))) CATEGORIES;
        plain = List.find (\<lambda>c. folded = fold_text L (replace_str ''  '' '' '' (replace_char (CHR ''&'') '' '' (cd_name_en c)))) CATEGORIES;
        first = List.find (\<lambda>c. 3 \<le> length folded \<and> (folded = first_word (fold_text L (cd_name_en c))
          \<or> folded = first_word (fold_text L (cd_name_vi c)))) CATEGORIES
      in map_option cd_key (case exact of Some c \<Rightarrow> Some c | None \<Rightarrow> (case plain of Some c \<Rightarrow> Some c | None \<Rightarrow> first)))"

text \<open>One line per category: a bullet, the key, a dash and the name.\<close>

definition format_category_list :: "locale_t \<Rightarrow> string" where
  "format_category_list loc =
     join_with [CHR 0x0A] (map (\<lambda>c. [CHR 0xE2, CHR 0x80, CHR 0xA2] @ '' '' @ cd_key c @ '' '' @ [CHR 0xE2, CHR 0x80, CHR 0x94]
       @ '' '' @ (case loc of Vi \<Rightarrow> cd_name_vi c | En \<Rightarrow> cd_name_en c)) CATEGORIES)"

end
