(* ===== verification/Chat_Amount.thy ===== *)
theory Chat_Amount
  imports Chat_Text
begin

text \<open>
  Amounts in chat messages, \<^verbatim>\<open>src/conversation/amount.rs\<close>. Machine arithmetic wraps (\<open>wrap64\<close>);
  that the guards of the program keep it exact is a theorem. \<^verbatim>\<open>parse_amount\<close> and
  \<^verbatim>\<open>try_parse_compound\<close> call each other on a shorter rest: the nesting is bounded by fuel, and the
  number of digits and separators of the text is enough of it.
\<close>

datatype amount_error = AmountEmpty | Negative | InvalidCharacter | NoDigits | TooLarge | NotWholeMinorUnit

type_synonym amount_result = "amount_error + int \<times> string"

definition multipliers :: "(string \<times> int) list" where
  "multipliers =
     [(''tri'' @ [CHR 0xE1, CHR 0xBB, CHR 0x87] @ ''u'', 1000000), (''trieu'', 1000000),
      (''c'' @ [CHR 0xE1, CHR 0xBB, CHR 0xA7], 1000000), (''cu'', 1000000), (''tr'', 1000000), (''k'', 1000)]"

definition currency_symbols :: "(string \<times> string) list" where
  "currency_symbols = [(''A$'', ''AUD''), (dong_sign, ''VND''), (''$'', ''USD'')]"

definition strip_separators :: "string \<Rightarrow> string" where
  "strip_separators s = filter is_ascii_digit s"

definition parse_digits :: "string \<Rightarrow> amount_error + int" where
  "parse_digits ds = (case parse_i64 ds of None \<Rightarrow> Inl TooLarge | Some v \<Rightarrow> Inr v)"

fun detect_currency_loop :: "(string \<times> string) list \<Rightarrow> string \<Rightarrow> (string \<times> string) option" where
  "detect_currency_loop [] s = None"
| "detect_currency_loop ((token, currency) # rest) s =
     (case strip_prefix s token of
        Some r \<Rightarrow> Some (currency, trim r)
      | None \<Rightarrow>
          (case strip_suffix s token of
             Some r \<Rightarrow> Some (currency, trim r)
           | None \<Rightarrow> detect_currency_loop rest s))"

definition detect_currency :: "chat_libs \<Rightarrow> string \<Rightarrow> string \<Rightarrow> string \<times> string" where
  "detect_currency L s hint =
     (case detect_currency_loop currency_symbols s of
        Some r \<Rightarrow> r
      | None \<Rightarrow> (if hint = [] then ''VND'' else cl_upper L hint, s))"

definition finish_amount :: "chat_libs \<Rightarrow> string \<Rightarrow> string \<Rightarrow> int \<Rightarrow> amount_result" where
  "finish_amount L digits currency factor =
     (if digits = [] then Inl NoDigits
      else if 15 < length digits then Inl TooLarge
      else case parse_digits digits of
        Inl e \<Rightarrow> Inl e
      | Inr v \<Rightarrow>
          if currency_decimal_places L currency = 2 \<and> i64_max div 100 < v then Inl TooLarge
          else let value = (if currency_decimal_places L currency = 2 then wrap64 (v * 100) else v)
            in if 1 < factor \<and> i64_max div factor < value then Inl TooLarge
               else Inr (wrap64 (value * factor), cl_upper L currency))"

text \<open>The digits and separators of a body; a space is skipped, anything else refused.\<close>

fun collect_digits :: "string \<Rightarrow> amount_error + string" where
  "collect_digits [] = Inr []"
| "collect_digits (c # cs) =
     (if is_ascii_digit c \<or> c = CHR ''.'' \<or> c = CHR '',''
      then (case collect_digits cs of Inl e \<Rightarrow> Inl e | Inr ds \<Rightarrow> Inr (c # ds))
      else if c = CHR '' '' then collect_digits cs
      else Inl InvalidCharacter)"

definition is_separator :: "char \<Rightarrow> bool" where
  "is_separator c \<longleftrightarrow> c = CHR ''.'' \<or> c = CHR '',''"

fun last_separator :: "string \<Rightarrow> nat option" where
  "last_separator [] = None"
| "last_separator (c # cs) =
     (case last_separator cs of
        Some i \<Rightarrow> Some (Suc i)
      | None \<Rightarrow> if is_separator c then Some 0 else None)"

text \<open>Where the decimal part starts, if the last separator is a decimal point.\<close>

definition decimal_at :: "chat_libs \<Rightarrow> string \<Rightarrow> string \<Rightarrow> nat option" where
  "decimal_at L currency ds =
     (case last_separator ds of
        None \<Rightarrow> None
      | Some i \<Rightarrow>
          let frac = strip_separators (drop (Suc i) ds) in
          if currency_decimal_places L currency = 0
          then if frac \<noteq> [] \<and> length frac \<noteq> 3 then Some i else None
          else if ds ! i = CHR ''.'' \<and> length frac = 2 then Some i else None)"

fun pad_minor :: "nat \<Rightarrow> int \<Rightarrow> amount_error + int" where
  "pad_minor 0 minor = Inr minor"
| "pad_minor (Suc k) minor = (if i64_max div 10 < minor then Inl TooLarge else pad_minor k (wrap64 (minor * 10)))"

definition decimal_amount :: "chat_libs \<Rightarrow> string \<Rightarrow> int \<Rightarrow> string \<Rightarrow> nat \<Rightarrow> amount_result" where
  "decimal_amount L currency factor ds i =
     (let int_digits = strip_separators (take i ds); frac_digits = strip_separators (drop (Suc i) ds);
          n = length frac_digits; places = currency_decimal_places L currency in
      if 4 < n then Inl TooLarge
      else if 15 < length int_digits + n then Inl TooLarge
      else case parse_digits (int_digits @ frac_digits) of
        Inl e \<Rightarrow> Inl e
      | Inr combined \<Rightarrow>
          if places = 0 then
            if 1 < factor \<and> i64_max div factor < combined then Inl TooLarge
            else let value = wrap64 (combined * factor)
              in if value mod 10 ^ n \<noteq> 0 then Inl NotWholeMinorUnit
                 else Inr (value div 10 ^ n, currency)
          else if places < n then Inl NotWholeMinorUnit
          else case pad_minor (places - n) combined of
            Inl e \<Rightarrow> Inl e
          | Inr minor \<Rightarrow>
              if 1 < factor \<and> i64_max div factor < minor then Inl TooLarge
              else Inr (wrap64 (minor * factor), currency))"

definition factor_and_body :: "chat_libs \<Rightarrow> string \<Rightarrow> (int \<times> string) run" where
  "factor_and_body L body =
     (case List.find (\<lambda>(suffix, _). ends_with (cl_lower L body) suffix) multipliers of
        None \<Rightarrow> Done (1, body)
      | Some (suffix, mult) \<Rightarrow>
          if length body < length suffix then Panic
          else rbind (slice_to body (length body - length suffix)) (\<lambda>b. Done (mult, trim b)))"

definition parse_single_amount :: "chat_libs \<Rightarrow> string \<Rightarrow> string \<Rightarrow> amount_result run" where
  "parse_single_amount L raw currency =
     rbind (factor_and_body L (trim raw)) (\<lambda>(factor, body).
       Done (case collect_digits body of
         Inl e \<Rightarrow> Inl e
       | Inr ds \<Rightarrow>
           if ds = [] then Inl NoDigits
           else if currency_decimal_places L currency = 0 \<and> factor = 1
           then finish_amount L (strip_separators ds) currency factor
           else case decimal_at L currency ds of
             None \<Rightarrow> finish_amount L (strip_separators ds) currency factor
           | Some i \<Rightarrow> decimal_amount L currency factor ds i))"

definition amount_char :: "char \<Rightarrow> bool" where
  "amount_char c \<longleftrightarrow> is_ascii_digit c \<or> is_separator c"

text \<open>
  One multiplier word of a compound amount such as \<^verbatim>\<open>1tr5\<close> or \<^verbatim>\<open>1tr500k\<close>; \<open>parse_rest\<close> is
  the recursive call of \<^verbatim>\<open>parse_amount\<close>. \<open>Done None\<close> goes on with the next word.
\<close>

definition compound_at ::
  "(string \<Rightarrow> string \<Rightarrow> amount_result run) \<Rightarrow> chat_libs \<Rightarrow> string \<Rightarrow> string \<Rightarrow> string \<Rightarrow> amount_result option run" where
  "compound_at parse_rest L currency lower word =
     (case find_str lower word of
        None \<Rightarrow> Done None
      | Some pos \<Rightarrow>
          if pos = 0 then Done None
          else let before = trim (take pos lower); after = trim (drop (pos + length word) lower) in
            if before = [] \<or> after = [] then Done None
            else if \<not> list_all amount_char before then Done None
            else if list_all is_ascii_digit after
            then rbind (parse_single_amount L (before @ ''.'' @ after @ word) currency) (\<lambda>r. Done (Some r))
            else rbind (parse_single_amount L (before @ word) currency) (\<lambda>r1.
              case r1 of
                Inl _ \<Rightarrow> Done None
              | Inr (v1, _) \<Rightarrow> rbind (parse_rest after currency) (\<lambda>r2.
                  case r2 of
                    Inl _ \<Rightarrow> Done None
                  | Inr (v2, _) \<Rightarrow>
                      Done (Some (if v1 + v2 \<le> i64_max then Inr (v1 + v2, currency) else Inl TooLarge)))))"

fun compound_loop ::
  "(string \<Rightarrow> string \<Rightarrow> amount_result run) \<Rightarrow> chat_libs \<Rightarrow> (string \<times> int) list \<Rightarrow> string \<Rightarrow> string \<Rightarrow>
   amount_result option run" where
  "compound_loop parse_rest L [] lower currency = Done None"
| "compound_loop parse_rest L ((word, _) # ws) lower currency =
     rbind (compound_at parse_rest L currency lower word) (\<lambda>r.
       case r of Some x \<Rightarrow> Done (Some x) | None \<Rightarrow> compound_loop parse_rest L ws lower currency)"

definition try_parse_compound ::
  "(string \<Rightarrow> string \<Rightarrow> amount_result run) \<Rightarrow> chat_libs \<Rightarrow> string \<Rightarrow> string \<Rightarrow> amount_result option run" where
  "try_parse_compound parse_rest L body currency = compound_loop parse_rest L multipliers (cl_lower L body) currency"

fun parse_amount_fuel :: "nat \<Rightarrow> chat_libs \<Rightarrow> string \<Rightarrow> string \<Rightarrow> amount_result run" where
  "parse_amount_fuel 0 L raw hint = NoFuel"
| "parse_amount_fuel (Suc n) L raw hint =
     (let s = trim raw in
      if s = [] then Done (Inl AmountEmpty)
      else if CHR ''-'' \<in> set s then Done (Inl Negative)
      else case detect_currency L s hint of (currency, body) \<Rightarrow>
        rbind (try_parse_compound (parse_amount_fuel n L) L body currency) (\<lambda>r.
          case r of Some x \<Rightarrow> Done x | None \<Rightarrow> parse_single_amount L body currency))"

definition amount_chars :: "string \<Rightarrow> nat" where
  "amount_chars s = length (filter amount_char s)"

definition parse_amount :: "chat_libs \<Rightarrow> string \<Rightarrow> string \<Rightarrow> amount_result run" where
  "parse_amount L raw hint = parse_amount_fuel (Suc (amount_chars raw)) L raw hint"

end
