(* ===== verification/Chat_Parse.thy ===== *)
theory Chat_Parse
  imports Chat_Amount
begin

text \<open>
  The intent of a chat message, \<^verbatim>\<open>src/conversation/parse.rs\<close>. The result is a \<open>run\<close>, since
  reading an amount and cutting the text after a keyword may panic.
\<close>

datatype intent_kind =
  IkNone | IkStart | IkConfirm | IkDiscard | IkHelp | IkPrivacy | IkToday | IkWeek | IkMonth | IkRecent | IkSettings
| IkTimezone | IkSchedule | IkExport | IkDelete | IkManualEntry | IkEditAmount | IkEditMerchant | IkEditCategory
| IkEditDate | IkEditType | IkListCategories | IkRecategorizeLatest | IkSetLanguage

record intent =
  i_kind :: intent_kind
  i_amount_minor :: int
  i_currency :: string
  i_description :: string
  i_amount_text :: string
  i_timezone :: string
  i_schedule_frequency :: string
  i_delivery_minute :: int
  i_disable_all_schedules :: bool
  i_disable_schedule :: bool
  i_merchant :: string
  i_category_key :: string
  i_transaction_type :: string
  i_occurred_on :: "date option"
  i_locale :: string

definition intent_of :: "intent_kind \<Rightarrow> intent" where
  "intent_of kind =
     \<lparr>i_kind = kind, i_amount_minor = 0, i_currency = [], i_description = [], i_amount_text = [], i_timezone = [],
      i_schedule_frequency = [], i_delivery_minute = 0, i_disable_all_schedules = False, i_disable_schedule = False,
      i_merchant = [], i_category_key = [], i_transaction_type = [], i_occurred_on = None, i_locale = []\<rparr>"

definition slash_commands :: "(string \<times> intent_kind) list" where
  "slash_commands =
     [(''start'', IkStart), (''batdau'', IkStart), (''xinchao'', IkStart), (''help'', IkHelp), (''trogiup'', IkHelp),
      (''privacy'', IkPrivacy), (''consent'', IkPrivacy), (''today'', IkToday), (''homnay'', IkToday), (''week'', IkWeek),
      (''tuan'', IkWeek), (''month'', IkMonth), (''thang'', IkMonth), (''recent'', IkRecent), (''history'', IkRecent),
      (''ganday'', IkRecent), (''export'', IkExport), (''xuatdulieu'', IkExport), (''delete'', IkDelete),
      (''xoadulieu'', IkDelete), (''ok'', IkConfirm), (''y'', IkConfirm), (''no'', IkDiscard), (''n'', IkDiscard),
      (''categories'', IkListCategories), (''danhmuc'', IkListCategories), (''cats'', IkListCategories),
      (''recat'', IkRecategorizeLatest)]"

definition confirm_words :: "string \<Rightarrow> bool" where
  "confirm_words s \<longleftrightarrow>
     s \<in> set [''xac nhan'', ''dung'', ''dung roi'', ''dong y'', ''ok'', ''okay'', ''yes'', ''y'', ''co'', ''confirm'']"

definition discard_words :: "string \<Rightarrow> bool" where
  "discard_words s \<longleftrightarrow> s \<in> set [''bo qua'', ''huy'', ''khong'', ''skip'', ''thoi'', ''no'', ''n'', ''discard'']"

definition edit_phrases :: "string list" where
  "edit_phrases = [''edit'', ''fix'', ''sua so tien'', ''sai so tien'']"

definition help_words :: "string list" where
  "help_words = [''help'', ''giup'', ''huong dan'', ''tro giup'']"

definition is_explicit_slash_command :: "intent_kind \<Rightarrow> bool" where
  "is_explicit_slash_command k \<longleftrightarrow>
     k \<in> {IkStart, IkHelp, IkToday, IkWeek, IkMonth, IkRecent, IkPrivacy, IkSettings, IkTimezone, IkSchedule, IkExport,
          IkDelete, IkListCategories, IkSetLanguage, IkRecategorizeLatest}"

definition has_word :: "string \<Rightarrow> string \<Rightarrow> bool" where
  "has_word folded needle \<longleftrightarrow> contains_str ('' '' @ folded @ '' '') ('' '' @ needle @ '' '')"

definition slash_command :: "string \<Rightarrow> intent_kind option" where
  "slash_command body =
     map_option snd (List.find (\<lambda>(name, _). name = trim_command_punctuation (trim body)) slash_commands)"

section \<open>Commands with parameters\<close>

definition parse_language_intent :: "string list \<Rightarrow> intent option" where
  "parse_language_intent ff =
     (if length ff = 1 then Some (intent_of IkSetLanguage)
      else if length ff \<noteq> 2 then None
      else if ff ! 1 \<in> set [''vi'', ''vn'', ''vie'', ''vietnamese'']
      then Some ((intent_of IkSetLanguage)\<lparr>i_locale := as_account_value Vi\<rparr>)
      else if ff ! 1 \<in> set [''en'', ''eng'', ''english'']
      then Some ((intent_of IkSetLanguage)\<lparr>i_locale := as_account_value En\<rparr>)
      else Some (intent_of IkSetLanguage))"

definition or_empty :: "string option \<Rightarrow> string" where
  "or_empty v = (case v of None \<Rightarrow> [] | Some s \<Rightarrow> s)"

definition parse_recat_slash :: "chat_libs \<Rightarrow> string list \<Rightarrow> string list \<Rightarrow> intent option" where
  "parse_recat_slash L rf ff =
     (if length ff < 2 then Some (intent_of IkRecategorizeLatest)
      else let value = join_with '' '' (drop 1 rf)
        in Some ((intent_of IkRecategorizeLatest)\<lparr>i_category_key := or_empty (resolve_category_key L value),
                 i_description := value\<rparr>))"

definition parse_timezone_intent :: "string list \<Rightarrow> string list \<Rightarrow> intent option" where
  "parse_timezone_intent rf ff =
     (case (if length ff = 2 \<and> ff ! 0 \<in> set [''tz'', ''timezone'', ''muigio''] then Some 1
            else if length ff = 3 \<and> ff ! 0 = ''mui'' \<and> ff ! 1 = ''gio'' then Some 2 else None) of
        None \<Rightarrow> None
      | Some at \<Rightarrow>
          if length rf \<le> at then None else Some ((intent_of IkTimezone)\<lparr>i_timezone := rf ! at\<rparr>))"

definition parse_settings_intent :: "string list \<Rightarrow> string list \<Rightarrow> intent option" where
  "parse_settings_intent rf ff =
     (if ff = [] then None
      else if length ff = 1 then Some (intent_of IkSettings)
      else case (if ff ! 0 \<in> set [''tz'', ''timezone'', ''muigio''] \<and> length ff = 2 then Some 1
                 else if length ff = 3 \<and> ff ! 0 = ''mui'' \<and> ff ! 1 = ''gio'' then Some 2 else None) of
        None \<Rightarrow> None
      | Some at \<Rightarrow>
          if length rf \<le> at then None else Some ((intent_of IkTimezone)\<lparr>i_timezone := rf ! at\<rparr>))"

definition parse_schedule_frequency :: "string \<Rightarrow> string option" where
  "parse_schedule_frequency t =
     (if t = ''daily'' \<or> t = ''ngay'' then Some ''daily''
      else if t = ''weekly'' \<or> t = ''tuan'' then Some ''weekly''
      else if t = ''monthly'' \<or> t = ''thang'' then Some ''monthly''
      else None)"

definition parse_delivery_minute :: "string \<Rightarrow> int option" where
  "parse_delivery_minute token =
     (case split_char (CHR '':'') token of
        [h, m] \<Rightarrow>
          (case (parse_i32 h, parse_i32 m) of
             (Some hour, Some minute) \<Rightarrow>
               if 0 \<le> hour \<and> hour \<le> 23 \<and> 0 \<le> minute \<and> minute \<le> 59 then Some (hour * 60 + minute) else None
           | _ \<Rightarrow> None)
      | _ \<Rightarrow> None)"

text \<open>\<^verbatim>\<open>raw_fields[1]\<close> out of range panics.\<close>

definition field_at :: "string list \<Rightarrow> nat \<Rightarrow> string run" where
  "field_at xs i = (if i < length xs then Done (xs ! i) else Panic)"

definition parse_schedule_intent :: "string list \<Rightarrow> string list \<Rightarrow> intent option run" where
  "parse_schedule_intent rf0 ff0 =
     rbind (field_at ff0 0) (\<lambda>name.
       rbind (if name \<in> set [''sched'', ''tongket'']
              then (if rf0 = [] then Panic else Done (tl rf0, tl ff0)) else Done (rf0, ff0)) (\<lambda>(rf, ff).
         if ff = [] then Done (Some (intent_of IkSchedule))
         else if ff ! 0 \<in> set [''off'', ''tat''] then
           (if length ff = 1 \<or> (length ff = 2 \<and> ff ! 1 \<in> set [''all'', ''ca''])
            then Done (Some ((intent_of IkSchedule)\<lparr>i_disable_all_schedules := True\<rparr>))
            else if length ff \<noteq> 2 then Done None
            else Done (map_option (\<lambda>f. (intent_of IkSchedule)\<lparr>i_schedule_frequency := f, i_disable_schedule := True\<rparr>)
                   (parse_schedule_frequency (ff ! 1))))
         else if length ff \<noteq> 2 then Done None
         else case parse_schedule_frequency (ff ! 0) of
           None \<Rightarrow> Done None
         | Some f \<Rightarrow> rbind (field_at rf 1) (\<lambda>t.
             Done (map_option (\<lambda>m. (intent_of IkSchedule)\<lparr>i_schedule_frequency := f, i_delivery_minute := m\<rparr>)
               (parse_delivery_minute t)))))"

fun trim_start_slashes :: "string \<Rightarrow> string" where
  "trim_start_slashes [] = []"
| "trim_start_slashes (c # cs) = (if c = CHR ''/'' then trim_start_slashes cs else c # cs)"

definition parse_parameterized_slash :: "chat_libs \<Rightarrow> string \<Rightarrow> intent option run" where
  "parse_parameterized_slash L text =
     (let raw = trim_start_slashes (trim_command_punctuation text);
          rf = split_whitespace raw; ff = split_whitespace (fold_text L raw)
      in case ff of
        [] \<Rightarrow> Done None
      | name # _ \<Rightarrow>
          if name \<in> set [''tz'', ''timezone'', ''muigio''] then Done (parse_timezone_intent rf ff)
          else if name \<in> set [''settings'', ''caidat'', ''cai dat''] then Done (parse_settings_intent rf ff)
          else if name \<in> set [''sched'', ''tongket'', ''tong ket''] then parse_schedule_intent rf ff
          else if name \<in> set [''lang'', ''language'', ''ngonngu''] then Done (parse_language_intent ff)
          else if name \<in> set [''recat'', ''phanloai'', ''category''] then Done (parse_recat_slash L rf ff)
          else Done None)"

section \<open>Edits\<close>

fun strip_prefix_any :: "string \<Rightarrow> string list \<Rightarrow> string option" where
  "strip_prefix_any text [] = None"
| "strip_prefix_any text (p # ps) =
     (case strip_prefix text p of Some r \<Rightarrow> Some (trim r) | None \<Rightarrow> strip_prefix_any text ps)"

fun extract_after_keywords :: "string \<Rightarrow> string \<Rightarrow> string list \<Rightarrow> string option run" where
  "extract_after_keywords lowered raw [] = Done None"
| "extract_after_keywords lowered raw (k # ks) =
     (case find_str lowered k of
        None \<Rightarrow> extract_after_keywords lowered raw ks
      | Some i \<Rightarrow> rbind (slice_from raw (i + length k)) (\<lambda>r.
          if trim r \<noteq> [] then Done (Some (trim r)) else extract_after_keywords lowered raw ks))"

definition parse_date_token :: "chat_libs \<Rightarrow> string \<Rightarrow> date option" where
  "parse_date_token L token =
     (let t = trim token in
      case cl_parse_date L ''%Y-%m-%d'' t of
        Some d \<Rightarrow> Some d
      | None \<Rightarrow>
          (case cl_parse_date L ''%d/%m/%Y'' t of
             Some d \<Rightarrow> Some d
           | None \<Rightarrow>
               (case cl_parse_date L ''%d-%m-%Y'' t of
                  Some d \<Rightarrow> Some d
                | None \<Rightarrow> cl_parse_date L ''%d/%m/%y'' t)))"

definition parse_transaction_type :: "chat_libs \<Rightarrow> string \<Rightarrow> string option" where
  "parse_transaction_type L token =
     (let f = fold_text L token in
      if f \<in> set [''chi'', ''chi tieu'', ''expense'', ''spend'', ''out''] then Some ''expense''
      else if f \<in> set [''thu'', ''thu nhap'', ''income'', ''in''] then Some ''income''
      else if f \<in> set [''hoan'', ''hoan tien'', ''refund''] then Some ''refund''
      else if f \<in> set [''chuyen'', ''chuyen khoan'', ''transfer''] then Some ''transfer''
      else if f \<in> set [''dieu chinh'', ''adjustment''] then Some ''adjustment''
      else None)"

text \<open>\<^verbatim>\<open>if let Ok(..) = parse_amount(..)\<close>\<close>

definition with_amount :: "chat_libs \<Rightarrow> string \<Rightarrow> string \<Rightarrow> (int \<Rightarrow> string \<Rightarrow> intent) \<Rightarrow> intent option run" where
  "with_amount L text currency k =
     rbind (parse_amount L text currency) (\<lambda>r. Done (case r of Inl _ \<Rightarrow> None | Inr (v, c) \<Rightarrow> Some (k v c)))"

definition cua_hang :: string where
  "cua_hang = ''c'' @ [CHR 0xE1, CHR 0xBB, CHR 0xAD] @ ''a h'' @ [CHR 0xC3, CHR 0xA0] @ ''ng''"

definition edit_rest :: "string \<Rightarrow> string option" where
  "edit_rest folded =
     strip_prefix_any folded [''sua so tien '', ''sai so tien '', ''sua '', ''edit '', ''fix '']"

definition parse_field_edit :: "chat_libs \<Rightarrow> string \<Rightarrow> string \<Rightarrow> string \<Rightarrow> intent option run" where
  "parse_field_edit L trimmed rest currency =
     (case strip_prefix_any rest [''cua hang '', ''merchant '', ''ten cua hang '', ''shop '', ''store ''] of
        Some value \<Rightarrow>
          if value = [] then Done None
          else rbind (extract_after_keywords (cl_lower L trimmed) trimmed
                        [''cua hang'', cua_hang, ''merchant'', ''ten cua hang'', ''shop'', ''store'']) (\<lambda>m.
            Done (Some ((intent_of IkEditMerchant)\<lparr>i_merchant := trim (case m of Some x \<Rightarrow> x | None \<Rightarrow> value)\<rparr>)))
      | None \<Rightarrow>
          (case strip_prefix_any rest [''danh muc '', ''category '', ''cat '', ''loai chi tieu ''] of
             Some value \<Rightarrow>
               Done (Some ((intent_of IkEditCategory)\<lparr>i_category_key := or_empty (resolve_category_key L value),
                 i_description := value\<rparr>))
           | None \<Rightarrow>
               (case strip_prefix_any rest [''ngay '', ''date '', ''ng'' @ [CHR 0xC3, CHR 0xA0] @ ''y ''] of
                  Some value \<Rightarrow>
                    Done (map_option (\<lambda>d. (intent_of IkEditDate)\<lparr>i_occurred_on := Some d, i_description := value\<rparr>)
                      (parse_date_token L value))
                | None \<Rightarrow>
                    (case strip_prefix_any rest [''loai '', ''type '', ''tx ''] of
                       Some value \<Rightarrow>
                         Done (map_option (\<lambda>t. (intent_of IkEditType)\<lparr>i_transaction_type := t\<rparr>)
                           (parse_transaction_type L value))
                     | None \<Rightarrow>
                         with_amount L rest currency (\<lambda>v c. (intent_of IkEditAmount)\<lparr>i_amount_minor := v, i_currency := c,
                           i_amount_text := rest\<rparr>)))))"

definition parse_edit_or_recat :: "chat_libs \<Rightarrow> string \<Rightarrow> string \<Rightarrow> intent option run" where
  "parse_edit_or_recat L text currency =
     (let trimmed = trim_command_punctuation text; folded = fold_text L trimmed in
      if folded = [] then Done None
      else case strip_prefix_any folded [''phan loai '', ''doi danh muc '', ''recat ''] of
        Some rest \<Rightarrow>
          Done (Some ((intent_of IkRecategorizeLatest)\<lparr>i_category_key := or_empty (resolve_category_key L rest),
            i_description := rest\<rparr>))
      | None \<Rightarrow>
          (case edit_rest folded of
             None \<Rightarrow> Done None
           | Some rest \<Rightarrow>
               if rest = [] \<or> folded \<in> set edit_phrases then Done None
               else parse_field_edit L trimmed rest currency))"

section \<open>Manual entries\<close>

definition command_like_description :: "chat_libs \<Rightarrow> string \<Rightarrow> bool" where
  "command_like_description L desc =
     (let f = fold_text L desc in
      f \<noteq> [] \<and> (f \<in> set edit_phrases \<or> confirm_words f \<or> discard_words f
        \<or> f \<in> set [''help'', ''today'', ''recent'', ''settings'', ''sched'']))"

definition manual_from_amount :: "chat_libs \<Rightarrow> string \<Rightarrow> string \<Rightarrow> string \<Rightarrow> intent option run" where
  "manual_from_amount L token desc0 currency =
     (let desc = trim_command_punctuation desc0 in
      if desc = [] then Done None
      else with_amount L token currency (\<lambda>v c. (intent_of IkManualEntry)\<lparr>i_amount_minor := v, i_currency := c,
        i_description := desc, i_amount_text := token\<rparr>))"

definition desc_or_empty :: "string option \<Rightarrow> string" where
  "desc_or_empty r = (case r of None \<Rightarrow> [] | Some s \<Rightarrow> trim_command_punctuation s)"

definition parse_manual_entry :: "chat_libs \<Rightarrow> string \<Rightarrow> string \<Rightarrow> intent option run" where
  "parse_manual_entry L text currency =
     (let fields = split_whitespace text in
      if length fields < 2 then Done None
      else let first_desc = desc_or_empty (strip_prefix (trim text) (hd fields)) in
        rbind (manual_from_amount L (hd fields) first_desc currency) (\<lambda>r.
          if r \<noteq> None \<and> \<not> command_like_description L first_desc then Done r
          else let desc = desc_or_empty (strip_suffix (trim text) (last fields)) in
            if command_like_description L desc then Done None
            else manual_from_amount L (trim_command_punctuation (last fields)) desc currency))"

section \<open>The intent of a message\<close>

definition parse_intent :: "chat_libs \<Rightarrow> string \<Rightarrow> string \<Rightarrow> intent run" where
  "parse_intent L text currency =
     (let trimmed = trim_command_punctuation text; f = fold_text L trimmed in
      if f = [] then Done (intent_of IkNone)
      else if starts_with f ''/'' then
        (case slash_command (trim_start_slashes f) of
           Some kind \<Rightarrow> Done (intent_of kind)
         | None \<Rightarrow> rbind (parse_parameterized_slash L trimmed) (\<lambda>r.
             Done (case r of Some i \<Rightarrow> i | None \<Rightarrow> intent_of IkNone)))
      else if f = ''help'' then Done (intent_of IkHelp)
      else if f = ''privacy'' then Done (intent_of IkPrivacy)
      else if f = ''today'' then Done (intent_of IkToday)
      else if f = ''recent'' then Done (intent_of IkRecent)
      else if confirm_words f then Done (intent_of IkConfirm)
      else if discard_words f then Done (intent_of IkDiscard)
      else rbind (parse_edit_or_recat L trimmed currency) (\<lambda>r.
        case r of
          Some i \<Rightarrow> Done i
        | None \<Rightarrow>
            if has_word f ''lich su'' \<or> has_word f ''gan day'' then Done (intent_of IkRecent)
            else if list_ex (\<lambda>w. f = w \<or> starts_with f (w @ '' '')) help_words then Done (intent_of IkHelp)
            else rbind (parse_manual_entry L trimmed currency) (\<lambda>r.
              Done (case r of Some i \<Rightarrow> i | None \<Rightarrow> intent_of IkNone))))"

end
