(* ===== verification/Chat_Templates.thy ===== *)
theory Chat_Templates
  imports Chat_Text
begin

text \<open>
  The reply texts, \<^verbatim>\<open>src/conversation/templates.rs\<close>, byte for byte in UTF-8.
\<close>

definition not_allowed_text :: "locale_t \<Rightarrow> string" where
  "not_allowed_text loc =
     (case loc of
        Vi \<Rightarrow>
          ''Xin l'' @ [CHR 0xE1, CHR 0xBB, CHR 0x97] @ ''i, t'' @ [CHR 0xC3, CHR 0xA0] @ ''i kho''
          @ [CHR 0xE1, CHR 0xBA, CHR 0xA3] @ ''n c'' @ [CHR 0xE1, CHR 0xBB, CHR 0xA7] @ ''a b''
          @ [CHR 0xE1, CHR 0xBA, CHR 0xA1] @ ''n ch'' @ [CHR 0xC6, CHR 0xB0] @ ''a ''
          @ [CHR 0xC4, CHR 0x91, CHR 0xC6, CHR 0xB0, CHR 0xE1, CHR 0xBB, CHR 0xA3] @ ''c c''
          @ [CHR 0xE1, CHR 0xBA, CHR 0xA5] @ ''p quy'' @ [CHR 0xE1, CHR 0xBB, CHR 0x81] @ ''n d''
          @ [CHR 0xC3, CHR 0xB9] @ ''ng bot trong giai '' @ [CHR 0xC4, CHR 0x91] @ ''o''
          @ [CHR 0xE1, CHR 0xBA, CHR 0xA1] @ ''n th'' @ [CHR 0xE1, CHR 0xBB, CHR 0xAD] @ '' nghi''
          @ [CHR 0xE1, CHR 0xBB, CHR 0x87] @ ''m.''
      | En \<Rightarrow>
          ''Sorry, your account is not allowlisted for this pilot yet.'')"

definition suspended_text :: "locale_t \<Rightarrow> string" where
  "suspended_text loc =
     (case loc of
        Vi \<Rightarrow>
          ''T'' @ [CHR 0xC3, CHR 0xA0] @ ''i kho'' @ [CHR 0xE1, CHR 0xBA, CHR 0xA3] @ ''n c''
          @ [CHR 0xE1, CHR 0xBB, CHR 0xA7] @ ''a b'' @ [CHR 0xE1, CHR 0xBA, CHR 0xA1] @ ''n ''
          @ [CHR 0xC4, CHR 0x91] @ ''ang t'' @ [CHR 0xE1, CHR 0xBA, CHR 0xA1] @ ''m d''
          @ [CHR 0xE1, CHR 0xBB, CHR 0xAB] @ ''ng. Vui l'' @ [CHR 0xC3, CHR 0xB2] @ ''ng li''
          @ [CHR 0xC3, CHR 0xAA] @ ''n h'' @ [CHR 0xE1, CHR 0xBB, CHR 0x87] @ '' qu''
          @ [CHR 0xE1, CHR 0xBA, CHR 0xA3] @ ''n tr'' @ [CHR 0xE1, CHR 0xBB, CHR 0x8B] @ '' vi''
          @ [CHR 0xC3, CHR 0xAA] @ ''n '' @ [CHR 0xC4, CHR 0x91, CHR 0xE1, CHR 0xBB, CHR 0x83] @ '' ''
          @ [CHR 0xC4, CHR 0x91, CHR 0xC6, CHR 0xB0, CHR 0xE1, CHR 0xBB, CHR 0xA3] @ ''c h''
          @ [CHR 0xE1, CHR 0xBB, CHR 0x97] @ '' tr'' @ [CHR 0xE1, CHR 0xBB, CHR 0xA3] @ ''.''
      | En \<Rightarrow>
          ''Your account is suspended. Please contact an admin for help.'')"

definition consent_card_text :: "locale_t \<Rightarrow> string" where
  "consent_card_text loc =
     (case loc of
        Vi \<Rightarrow>
          ''Xin ch'' @ [CHR 0xC3, CHR 0xA0] @ ''o! T'' @ [CHR 0xC3, CHR 0xB4] @ ''i gi'' @ [CHR 0xC3, CHR 0xBA]
          @ ''p ghi nh'' @ [CHR 0xE1, CHR 0xBA, CHR 0xAD] @ ''n v'' @ [CHR 0xC3, CHR 0xA0] @ '' t''
          @ [CHR 0xE1, CHR 0xBB, CHR 0x95] @ ''ng h'' @ [CHR 0xE1, CHR 0xBB, CHR 0xA3] @ ''p c''
          @ [CHR 0xC3, CHR 0xA1] @ ''c kho'' @ [CHR 0xE1, CHR 0xBA, CHR 0xA3] @ ''n chi t''
          @ [CHR 0xE1, CHR 0xBB, CHR 0xAB] @ '' '' @ [CHR 0xE1, CHR 0xBA, CHR 0xA3] @ ''nh h''
          @ [CHR 0xC3, CHR 0xB3] @ ''a '' @ [CHR 0xC4, CHR 0x91, CHR 0xC6, CHR 0xA1] @ ''n.''
          @ [CHR 0x0A, CHR 0x0A] @ ''B'' @ [CHR 0xE1, CHR 0xBA, CHR 0xA1] @ ''n ch''
          @ [CHR 0xE1, CHR 0xBB, CHR 0x89] @ '' c'' @ [CHR 0xE1, CHR 0xBA, CHR 0xA7] @ ''n g''
          @ [CHR 0xE1, CHR 0xBB, CHR 0xAD] @ ''i '' @ [CHR 0xE1, CHR 0xBA, CHR 0xA3] @ ''nh h''
          @ [CHR 0xC3, CHR 0xB3] @ ''a '' @ [CHR 0xC4, CHR 0x91, CHR 0xC6, CHR 0xA1] @ ''n, ho''
          @ [CHR 0xE1, CHR 0xBA, CHR 0xB7] @ ''c nh'' @ [CHR 0xE1, CHR 0xBA, CHR 0xAD] @ ''p nhanh m''
          @ [CHR 0xE1, CHR 0xBB, CHR 0x99] @ ''t kho'' @ [CHR 0xE1, CHR 0xBA, CHR 0xA3] @ ''n nh''
          @ [CHR 0xC6, CHR 0xB0] @ '' '' @ [CHR 0x22] @ ''an sang 500k'' @ [CHR 0x22] @ ''.''
          @ [CHR 0x0A, CHR 0x0A] @ ''D'' @ [CHR 0xE1, CHR 0xBB, CHR 0xAF] @ '' li''
          @ [CHR 0xE1, CHR 0xBB, CHR 0x87] @ ''u c'' @ [CHR 0xC3, CHR 0xB3] @ '' th''
          @ [CHR 0xE1, CHR 0xBB, CHR 0x83] @ '' bao g'' @ [CHR 0xE1, CHR 0xBB, CHR 0x93] @ ''m th''
          @ [CHR 0xC3, CHR 0xB4] @ ''ng tin mua h'' @ [CHR 0xC3, CHR 0xA0] @ ''ng v'' @ [CHR 0xC3, CHR 0xA0]
          @ '' '' @ [CHR 0xC4, CHR 0x91, CHR 0xC6, CHR 0xB0, CHR 0xE1, CHR 0xBB, CHR 0xA3] @ ''c l''
          @ [CHR 0xC6, CHR 0xB0] @ ''u '' @ [CHR 0xC4, CHR 0x91, CHR 0xE1, CHR 0xBB, CHR 0x83] @ '' t''
          @ [CHR 0xE1, CHR 0xBA, CHR 0xA1] @ ''o b'' @ [CHR 0xC3, CHR 0xA1] @ ''o c'' @ [CHR 0xC3, CHR 0xA1]
          @ ''o chi ti'' @ [CHR 0xC3, CHR 0xAA] @ ''u. B'' @ [CHR 0xE1, CHR 0xBA, CHR 0xA1] @ ''n c''
          @ [CHR 0xC3, CHR 0xB3] @ '' th'' @ [CHR 0xE1, CHR 0xBB, CHR 0x83] @ '' x'' @ [CHR 0xC3, CHR 0xB3]
          @ ''a d'' @ [CHR 0xE1, CHR 0xBB, CHR 0xAF] @ '' li'' @ [CHR 0xE1, CHR 0xBB, CHR 0x87] @ ''u b''
          @ [CHR 0xE1, CHR 0xBA, CHR 0xA5] @ ''t k'' @ [CHR 0xE1, CHR 0xBB, CHR 0xB3] @ '' l''
          @ [CHR 0xC3, CHR 0xBA] @ ''c n'' @ [CHR 0xC3, CHR 0xA0] @ ''o b'' @ [CHR 0xE1, CHR 0xBA, CHR 0xB1]
          @ ''ng /delete.'' @ [CHR 0x0A, CHR 0x0A] @ ''Tr'' @ [CHR 0xE1, CHR 0xBA, CHR 0xA3] @ '' l''
          @ [CHR 0xE1, CHR 0xBB, CHR 0x9D] @ ''i ok (ho'' @ [CHR 0xE1, CHR 0xBA, CHR 0xB7] @ ''c ''
          @ [CHR 0x22, CHR 0xC4, CHR 0x91, CHR 0xE1, CHR 0xBB, CHR 0x93] @ ''ng ''
          @ [CHR 0xC3, CHR 0xBD, CHR 0x22] @ '') '' @ [CHR 0xC4, CHR 0x91, CHR 0xE1, CHR 0xBB, CHR 0x83]
          @ '' b'' @ [CHR 0xE1, CHR 0xBA, CHR 0xAF] @ ''t ''
          @ [CHR 0xC4, CHR 0x91, CHR 0xE1, CHR 0xBA, CHR 0xA7] @ ''u, ho'' @ [CHR 0xE1, CHR 0xBA, CHR 0xB7]
          @ ''c /privacy '' @ [CHR 0xC4, CHR 0x91, CHR 0xE1, CHR 0xBB, CHR 0x83] @ '' xem c''
          @ [CHR 0xC3, CHR 0xA1] @ ''ch d'' @ [CHR 0xE1, CHR 0xBB, CHR 0xAF] @ '' li''
          @ [CHR 0xE1, CHR 0xBB, CHR 0x87] @ ''u ''
          @ [CHR 0xC4, CHR 0x91, CHR 0xC6, CHR 0xB0, CHR 0xE1, CHR 0xBB, CHR 0xA3] @ ''c s''
          @ [CHR 0xE1, CHR 0xBB, CHR 0xAD] @ '' d'' @ [CHR 0xE1, CHR 0xBB, CHR 0xA5] @ ''ng.''
      | En \<Rightarrow>
          ''Hi! I help log and summarize expenses from receipt photos.'' @ [CHR 0x0A, CHR 0x0A]
          @ ''Send a receipt image, or type a quick entry like '' @ [CHR 0x22] @ ''coffee 45k'' @ [CHR 0x22]
          @ ''.'' @ [CHR 0x0A, CHR 0x0A]
          @ ''Purchase details may be stored so I can build your private spending reports. Delete everything anytime with /delete.''
          @ [CHR 0x0A, CHR 0x0A] @ ''Reply ok (or '' @ [CHR 0x22] @ ''agree'' @ [CHR 0x22]
          @ '') to start, or /privacy to see how data is used.'')"

definition welcome_text :: "locale_t \<Rightarrow> string" where
  "welcome_text loc =
     (case loc of
        Vi \<Rightarrow>
          ''C'' @ [CHR 0xE1, CHR 0xBA, CHR 0xA3] @ ''m '' @ [CHR 0xC6, CHR 0xA1] @ ''n b''
          @ [CHR 0xE1, CHR 0xBA, CHR 0xA1] @ ''n! T'' @ [CHR 0xE1, CHR 0xBB, CHR 0xAB] @ '' gi''
          @ [CHR 0xE1, CHR 0xBB, CHR 0x9D] @ '' b'' @ [CHR 0xE1, CHR 0xBA, CHR 0xA1] @ ''n c''
          @ [CHR 0xC3, CHR 0xB3] @ '' th'' @ [CHR 0xE1, CHR 0xBB, CHR 0x83] @ '':''
          @ [CHR 0x0A, CHR 0x0A, CHR 0xE2, CHR 0x80, CHR 0xA2] @ '' G'' @ [CHR 0xE1, CHR 0xBB, CHR 0xAD]
          @ ''i '' @ [CHR 0xE1, CHR 0xBA, CHR 0xA3] @ ''nh h'' @ [CHR 0xC3, CHR 0xB3] @ ''a ''
          @ [CHR 0xC4, CHR 0x91, CHR 0xC6, CHR 0xA1] @ ''n ''
          @ [CHR 0xC4, CHR 0x91, CHR 0xE1, CHR 0xBB, CHR 0x83] @ '' t'' @ [CHR 0xC3, CHR 0xB4] @ ''i ''
          @ [CHR 0xC4, CHR 0x91, CHR 0xE1, CHR 0xBB, CHR 0x8D] @ ''c v'' @ [CHR 0xC3, CHR 0xA0] @ '' ghi nh''
          @ [CHR 0xE1, CHR 0xBA, CHR 0xAD] @ ''n.'' @ [CHR 0x0A, CHR 0xE2, CHR 0x80, CHR 0xA2] @ '' Nh''
          @ [CHR 0xE1, CHR 0xBA, CHR 0xAD] @ ''p nhanh: '' @ [CHR 0x22] @ ''an sang 500k'' @ [CHR 0x22] @ '', ''
          @ [CHR 0x22] @ ''cafe 45k'' @ [CHR 0x22] @ ''.'' @ [CHR 0x0A, CHR 0xE2, CHR 0x80, CHR 0xA2]
          @ '' Xem t'' @ [CHR 0xE1, CHR 0xBB, CHR 0x95] @ ''ng h'' @ [CHR 0xE1, CHR 0xBB, CHR 0xA3]
          @ ''p: /today, /week, /month.'' @ [CHR 0x0A, CHR 0xE2, CHR 0x80, CHR 0xA2] @ '' ''
          @ [CHR 0xC4, CHR 0x90, CHR 0xE1, CHR 0xBB, CHR 0x95] @ ''i ng'' @ [CHR 0xC3, CHR 0xB4] @ ''n ng''
          @ [CHR 0xE1, CHR 0xBB, CHR 0xAF] @ '': /lang en ho'' @ [CHR 0xE1, CHR 0xBA, CHR 0xB7]
          @ ''c /lang vi.'' @ [CHR 0x0A, CHR 0xE2, CHR 0x80, CHR 0xA2] @ '' Xem m'' @ [CHR 0xC3, CHR 0xBA]
          @ ''i gi'' @ [CHR 0xE1, CHR 0xBB, CHR 0x9D] @ '', ti'' @ [CHR 0xE1, CHR 0xBB, CHR 0x81] @ ''n t''
          @ [CHR 0xE1, CHR 0xBB, CHR 0x87] @ '' v'' @ [CHR 0xC3, CHR 0xA0] @ '' l''
          @ [CHR 0xE1, CHR 0xBB, CHR 0x8B] @ ''ch t'' @ [CHR 0xE1, CHR 0xBB, CHR 0x95] @ ''ng k''
          @ [CHR 0xE1, CHR 0xBA, CHR 0xBF] @ ''t b'' @ [CHR 0xE1, CHR 0xBA, CHR 0xB1] @ ''ng /settings.''
          @ [CHR 0x0A, CHR 0x0A] @ ''G'' @ [CHR 0xC3, CHR 0xB5] @ '' /help ''
          @ [CHR 0xC4, CHR 0x91, CHR 0xE1, CHR 0xBB, CHR 0x83] @ '' xem t'' @ [CHR 0xE1, CHR 0xBA, CHR 0xA5]
          @ ''t c'' @ [CHR 0xE1, CHR 0xBA, CHR 0xA3] @ '' l'' @ [CHR 0xE1, CHR 0xBB, CHR 0x87] @ ''nh.''
      | En \<Rightarrow>
          ''Thanks! You can now:'' @ [CHR 0x0A, CHR 0x0A, CHR 0xE2, CHR 0x80, CHR 0xA2]
          @ '' Send a receipt photo for me to read and log.'' @ [CHR 0x0A, CHR 0xE2, CHR 0x80, CHR 0xA2]
          @ '' Quick entry: '' @ [CHR 0x22] @ ''lunch 500k'' @ [CHR 0x22] @ '', '' @ [CHR 0x22] @ ''coffee 45k''
          @ [CHR 0x22] @ ''.'' @ [CHR 0x0A, CHR 0xE2, CHR 0x80, CHR 0xA2]
          @ '' Summaries: /today, /week, /month.'' @ [CHR 0x0A, CHR 0xE2, CHR 0x80, CHR 0xA2]
          @ '' Language: /lang en or /lang vi.'' @ [CHR 0x0A, CHR 0xE2, CHR 0x80, CHR 0xA2]
          @ '' Timezone, currency, and schedules via /settings.'' @ [CHR 0x0A, CHR 0x0A]
          @ ''Type /help for all commands.'')"

definition privacy_text :: "locale_t \<Rightarrow> nat \<Rightarrow> string" where
  "privacy_text loc retention_days =
     (case loc of
        Vi \<Rightarrow>
          ''C'' @ [CHR 0xC3, CHR 0xA1] @ ''ch t'' @ [CHR 0xC3, CHR 0xB4] @ ''i d'' @ [CHR 0xC3, CHR 0xB9]
          @ ''ng d'' @ [CHR 0xE1, CHR 0xBB, CHR 0xAF] @ '' li'' @ [CHR 0xE1, CHR 0xBB, CHR 0x87] @ ''u c''
          @ [CHR 0xE1, CHR 0xBB, CHR 0xA7] @ ''a b'' @ [CHR 0xE1, CHR 0xBA, CHR 0xA1] @ ''n:''
          @ [CHR 0x0A, CHR 0x0A, CHR 0xE2, CHR 0x80, CHR 0xA2] @ '' '' @ [CHR 0xE1, CHR 0xBA, CHR 0xA2]
          @ ''nh h'' @ [CHR 0xC3, CHR 0xB3] @ ''a '' @ [CHR 0xC4, CHR 0x91, CHR 0xC6, CHR 0xA1] @ ''n ch''
          @ [CHR 0xE1, CHR 0xBB, CHR 0x89] @ '' d'' @ [CHR 0xC3, CHR 0xB9] @ ''ng ''
          @ [CHR 0xC4, CHR 0x91, CHR 0xE1, CHR 0xBB, CHR 0x83] @ '' ''
          @ [CHR 0xC4, CHR 0x91, CHR 0xE1, CHR 0xBB, CHR 0x8D] @ ''c th'' @ [CHR 0xC3, CHR 0xB4]
          @ ''ng tin giao d'' @ [CHR 0xE1, CHR 0xBB, CHR 0x8B] @ ''ch; '' @ [CHR 0xE1, CHR 0xBA, CHR 0xA3]
          @ ''nh g'' @ [CHR 0xE1, CHR 0xBB, CHR 0x91] @ ''c ''
          @ [CHR 0xC4, CHR 0x91, CHR 0xC6, CHR 0xB0, CHR 0xE1, CHR 0xBB, CHR 0xA3] @ ''c x''
          @ [CHR 0xC3, CHR 0xB3] @ ''a sau '' @ show_nat retention_days @ '' ng'' @ [CHR 0xC3, CHR 0xA0]
          @ ''y.'' @ [CHR 0x0A, CHR 0xE2, CHR 0x80, CHR 0xA2] @ '' Giao d'' @ [CHR 0xE1, CHR 0xBB, CHR 0x8B]
          @ ''ch '' @ [CHR 0xC4, CHR 0x91, CHR 0xC3, CHR 0xA3] @ '' ghi nh'' @ [CHR 0xE1, CHR 0xBA, CHR 0xAD]
          @ ''n '' @ [CHR 0xC4, CHR 0x91, CHR 0xC6, CHR 0xB0, CHR 0xE1, CHR 0xBB, CHR 0xA3] @ ''c l''
          @ [CHR 0xC6, CHR 0xB0] @ ''u '' @ [CHR 0xC4, CHR 0x91, CHR 0xE1, CHR 0xBB, CHR 0x83] @ '' t''
          @ [CHR 0xE1, CHR 0xBB, CHR 0x95] @ ''ng h'' @ [CHR 0xE1, CHR 0xBB, CHR 0xA3] @ ''p b''
          @ [CHR 0xC3, CHR 0xA1] @ ''o c'' @ [CHR 0xC3, CHR 0xA1] @ ''o chi ti'' @ [CHR 0xC3, CHR 0xAA]
          @ ''u cho ri'' @ [CHR 0xC3, CHR 0xAA] @ ''ng b'' @ [CHR 0xE1, CHR 0xBA, CHR 0xA1] @ ''n.''
          @ [CHR 0x0A, CHR 0x0A] @ ''G'' @ [CHR 0xE1, CHR 0xBB, CHR 0xAD] @ ''i /export ''
          @ [CHR 0xC4, CHR 0x91, CHR 0xE1, CHR 0xBB, CHR 0x83] @ '' t'' @ [CHR 0xE1, CHR 0xBA, CHR 0xA3]
          @ ''i v'' @ [CHR 0xE1, CHR 0xBB, CHR 0x81] @ '' to'' @ [CHR 0xC3, CHR 0xA0] @ ''n b''
          @ [CHR 0xE1, CHR 0xBB, CHR 0x99] @ '' d'' @ [CHR 0xE1, CHR 0xBB, CHR 0xAF] @ '' li''
          @ [CHR 0xE1, CHR 0xBB, CHR 0x87] @ ''u, /delete ''
          @ [CHR 0xC4, CHR 0x91, CHR 0xE1, CHR 0xBB, CHR 0x83] @ '' x'' @ [CHR 0xC3, CHR 0xB3] @ ''a v''
          @ [CHR 0xC4, CHR 0xA9] @ ''nh vi'' @ [CHR 0xE1, CHR 0xBB, CHR 0x85] @ ''n.''
      | En \<Rightarrow>
          ''How I use your data:'' @ [CHR 0x0A, CHR 0x0A, CHR 0xE2, CHR 0x80, CHR 0xA2]
          @ '' Receipt images are only used to read transaction fields; originals are deleted after ''
          @ show_nat retention_days @ '' days.'' @ [CHR 0x0A, CHR 0xE2, CHR 0x80, CHR 0xA2]
          @ '' Confirmed transactions are kept so I can build your private spending reports.''
          @ [CHR 0x0A, CHR 0x0A] @ ''Send /export to download everything, or /delete to erase it permanently.'')"

definition help_text :: "locale_t \<Rightarrow> string" where
  "help_text loc =
     (case loc of
        Vi \<Rightarrow>
          ''T'' @ [CHR 0xC3, CHR 0xB4] @ ''i c'' @ [CHR 0xC3, CHR 0xB3] @ '' th''
          @ [CHR 0xE1, CHR 0xBB, CHR 0x83] @ '' gi'' @ [CHR 0xC3, CHR 0xBA] @ ''p b''
          @ [CHR 0xE1, CHR 0xBA, CHR 0xA1] @ ''n:'' @ [CHR 0x0A, CHR 0x0A, CHR 0xE2, CHR 0x80, CHR 0xA2]
          @ '' G'' @ [CHR 0xE1, CHR 0xBB, CHR 0xAD] @ ''i '' @ [CHR 0xE1, CHR 0xBA, CHR 0xA3] @ ''nh h''
          @ [CHR 0xC3, CHR 0xB3] @ ''a '' @ [CHR 0xC4, CHR 0x91, CHR 0xC6, CHR 0xA1] @ ''n ''
          @ [CHR 0xE2, CHR 0x80, CHR 0x94] @ '' t'' @ [CHR 0xC3, CHR 0xB4] @ ''i ''
          @ [CHR 0xC4, CHR 0x91, CHR 0xE1, CHR 0xBB, CHR 0x8D] @ ''c v'' @ [CHR 0xC3, CHR 0xA0] @ '' g''
          @ [CHR 0xE1, CHR 0xBB, CHR 0xAD] @ ''i th'' @ [CHR 0xE1, CHR 0xBA, CHR 0xBB] @ '' x''
          @ [CHR 0xC3, CHR 0xA1] @ ''c nh'' @ [CHR 0xE1, CHR 0xBA, CHR 0xAD] @ ''n.''
          @ [CHR 0x0A, CHR 0xE2, CHR 0x80, CHR 0xA2] @ '' Nh'' @ [CHR 0xE1, CHR 0xBA, CHR 0xAD] @ ''p nhanh: ''
          @ [CHR 0x22] @ ''an sang 500k'' @ [CHR 0x22] @ '', '' @ [CHR 0x22] @ ''cafe 45k'' @ [CHR 0x22] @ ''.''
          @ [CHR 0x0A, CHR 0x0A] @ ''Khi c'' @ [CHR 0xC3, CHR 0xB3] @ '' th'' @ [CHR 0xE1, CHR 0xBA, CHR 0xBB]
          @ '' x'' @ [CHR 0xC3, CHR 0xA1] @ ''c nh'' @ [CHR 0xE1, CHR 0xBA, CHR 0xAD] @ ''n (ch''
          @ [CHR 0xC6, CHR 0xB0] @ ''a ok):'' @ [CHR 0x0A, CHR 0xE2, CHR 0x80, CHR 0xA2]
          @ '' sua 45k / edit 45000 '' @ [CHR 0xE2, CHR 0x80, CHR 0x94] @ '' s''
          @ [CHR 0xE1, CHR 0xBB, CHR 0xAD] @ ''a s'' @ [CHR 0xE1, CHR 0xBB, CHR 0x91] @ '' ti''
          @ [CHR 0xE1, CHR 0xBB, CHR 0x81] @ ''n'' @ [CHR 0x0A, CHR 0xE2, CHR 0x80, CHR 0xA2]
          @ '' sua cua hang X / edit merchant X '' @ [CHR 0xE2, CHR 0x80, CHR 0x94] @ '' s''
          @ [CHR 0xE1, CHR 0xBB, CHR 0xAD] @ ''a c'' @ [CHR 0xE1, CHR 0xBB, CHR 0xAD] @ ''a h''
          @ [CHR 0xC3, CHR 0xA0] @ ''ng'' @ [CHR 0x0A, CHR 0xE2, CHR 0x80, CHR 0xA2]
          @ '' sua danh muc an-uong / edit category Food '' @ [CHR 0xE2, CHR 0x80, CHR 0x94] @ '' s''
          @ [CHR 0xE1, CHR 0xBB, CHR 0xAD] @ ''a danh m'' @ [CHR 0xE1, CHR 0xBB, CHR 0xA5] @ ''c''
          @ [CHR 0x0A, CHR 0xE2, CHR 0x80, CHR 0xA2] @ '' sua ngay 20/08/2026 / edit date 2026-08-20 ''
          @ [CHR 0xE2, CHR 0x80, CHR 0x94] @ '' s'' @ [CHR 0xE1, CHR 0xBB, CHR 0xAD] @ ''a ng''
          @ [CHR 0xC3, CHR 0xA0] @ ''y'' @ [CHR 0x0A, CHR 0xE2, CHR 0x80, CHR 0xA2]
          @ '' sua loai chi|thu / edit type expense|income '' @ [CHR 0xE2, CHR 0x80, CHR 0x94] @ '' s''
          @ [CHR 0xE1, CHR 0xBB, CHR 0xAD] @ ''a lo'' @ [CHR 0xE1, CHR 0xBA, CHR 0xA1] @ ''i''
          @ [CHR 0x0A, CHR 0xE2, CHR 0x80, CHR 0xA2] @ '' ok / y '' @ [CHR 0xE2, CHR 0x80, CHR 0x94] @ '' l''
          @ [CHR 0xC6, CHR 0xB0] @ ''u '' @ [CHR 0xC2, CHR 0xB7] @ '' no / n '' @ [CHR 0xE2, CHR 0x80, CHR 0x94]
          @ '' h'' @ [CHR 0xE1, CHR 0xBB, CHR 0xA7] @ ''y'' @ [CHR 0x0A, CHR 0x0A] @ ''Sau khi ''
          @ [CHR 0xC4, CHR 0x91, CHR 0xC3, CHR 0xA3] @ '' l'' @ [CHR 0xC6, CHR 0xB0] @ ''u:''
          @ [CHR 0x0A, CHR 0xE2, CHR 0x80, CHR 0xA2] @ '' /recat an-uong ho'' @ [CHR 0xE1, CHR 0xBA, CHR 0xB7]
          @ ''c '' @ [CHR 0x22] @ ''phan loai Food'' @ [CHR 0x22] @ '' '' @ [CHR 0xE2, CHR 0x80, CHR 0x94]
          @ '' '' @ [CHR 0xC4, CHR 0x91, CHR 0xE1, CHR 0xBB, CHR 0x95] @ ''i danh m''
          @ [CHR 0xE1, CHR 0xBB, CHR 0xA5] @ ''c kho'' @ [CHR 0xE1, CHR 0xBA, CHR 0xA3] @ ''n g''
          @ [CHR 0xE1, CHR 0xBA, CHR 0xA7] @ ''n nh'' @ [CHR 0xE1, CHR 0xBA, CHR 0xA5] @ ''t''
          @ [CHR 0x0A, CHR 0xE2, CHR 0x80, CHR 0xA2] @ '' /categories '' @ [CHR 0xE2, CHR 0x80, CHR 0x94]
          @ '' xem danh m'' @ [CHR 0xE1, CHR 0xBB, CHR 0xA5] @ ''c'' @ [CHR 0x0A, CHR 0x0A] @ ''L''
          @ [CHR 0xE1, CHR 0xBB, CHR 0x87] @ ''nh:'' @ [CHR 0x0A] @ ''/help '' @ [CHR 0xC2, CHR 0xB7]
          @ '' /today '' @ [CHR 0xC2, CHR 0xB7] @ '' /week '' @ [CHR 0xC2, CHR 0xB7] @ '' /month ''
          @ [CHR 0xC2, CHR 0xB7] @ '' /recent'' @ [CHR 0x0A] @ ''/settings '' @ [CHR 0xC2, CHR 0xB7]
          @ '' /tz Asia/Ho_Chi_Minh '' @ [CHR 0xC2, CHR 0xB7] @ '' /sched'' @ [CHR 0x0A] @ ''/export ''
          @ [CHR 0xC2, CHR 0xB7] @ '' /delete '' @ [CHR 0xC2, CHR 0xB7] @ '' /privacy'' @ [CHR 0x0A]
          @ ''/lang en | /lang vi '' @ [CHR 0xE2, CHR 0x80, CHR 0x94] @ '' ''
          @ [CHR 0xC4, CHR 0x91, CHR 0xE1, CHR 0xBB, CHR 0x95] @ ''i ng'' @ [CHR 0xC3, CHR 0xB4] @ ''n ng''
          @ [CHR 0xE1, CHR 0xBB, CHR 0xAF, CHR 0x0A] @ ''/categories '' @ [CHR 0xC2, CHR 0xB7]
          @ '' /recat <danh-muc>''
      | En \<Rightarrow>
          ''I can help you:'' @ [CHR 0x0A, CHR 0x0A, CHR 0xE2, CHR 0x80, CHR 0xA2] @ '' Send a receipt photo ''
          @ [CHR 0xE2, CHR 0x80, CHR 0x94] @ '' I read it and send a review card.''
          @ [CHR 0x0A, CHR 0xE2, CHR 0x80, CHR 0xA2] @ '' Quick entry: '' @ [CHR 0x22] @ ''lunch 500k''
          @ [CHR 0x22] @ '', '' @ [CHR 0x22] @ ''coffee 45k'' @ [CHR 0x22] @ ''.'' @ [CHR 0x0A, CHR 0x0A]
          @ ''While a review card is open (before ok):'' @ [CHR 0x0A, CHR 0xE2, CHR 0x80, CHR 0xA2]
          @ '' edit 45000 / sua 45k '' @ [CHR 0xE2, CHR 0x80, CHR 0x94] @ '' change amount''
          @ [CHR 0x0A, CHR 0xE2, CHR 0x80, CHR 0xA2] @ '' edit merchant X / sua cua hang X ''
          @ [CHR 0xE2, CHR 0x80, CHR 0x94] @ '' change merchant'' @ [CHR 0x0A, CHR 0xE2, CHR 0x80, CHR 0xA2]
          @ '' edit category Food / sua danh muc an-uong '' @ [CHR 0xE2, CHR 0x80, CHR 0x94]
          @ '' change category'' @ [CHR 0x0A, CHR 0xE2, CHR 0x80, CHR 0xA2]
          @ '' edit date 2026-08-20 / sua ngay 20/08/2026 '' @ [CHR 0xE2, CHR 0x80, CHR 0x94] @ '' change date''
          @ [CHR 0x0A, CHR 0xE2, CHR 0x80, CHR 0xA2] @ '' edit type expense|income / sua loai chi|thu ''
          @ [CHR 0xE2, CHR 0x80, CHR 0x94] @ '' change type'' @ [CHR 0x0A, CHR 0xE2, CHR 0x80, CHR 0xA2]
          @ '' ok / y '' @ [CHR 0xE2, CHR 0x80, CHR 0x94] @ '' save '' @ [CHR 0xC2, CHR 0xB7] @ '' no / n ''
          @ [CHR 0xE2, CHR 0x80, CHR 0x94] @ '' discard'' @ [CHR 0x0A, CHR 0x0A] @ ''After saving:''
          @ [CHR 0x0A, CHR 0xE2, CHR 0x80, CHR 0xA2] @ '' /recat Food or '' @ [CHR 0x22] @ ''phan loai an-uong''
          @ [CHR 0x22] @ '' '' @ [CHR 0xE2, CHR 0x80, CHR 0x94] @ '' recategorize the latest expense''
          @ [CHR 0x0A, CHR 0xE2, CHR 0x80, CHR 0xA2] @ '' /categories '' @ [CHR 0xE2, CHR 0x80, CHR 0x94]
          @ '' list categories'' @ [CHR 0x0A, CHR 0x0A] @ ''Commands:'' @ [CHR 0x0A] @ ''/help ''
          @ [CHR 0xC2, CHR 0xB7] @ '' /today '' @ [CHR 0xC2, CHR 0xB7] @ '' /week '' @ [CHR 0xC2, CHR 0xB7]
          @ '' /month '' @ [CHR 0xC2, CHR 0xB7] @ '' /recent'' @ [CHR 0x0A] @ ''/settings ''
          @ [CHR 0xC2, CHR 0xB7] @ '' /tz Asia/Ho_Chi_Minh '' @ [CHR 0xC2, CHR 0xB7] @ '' /sched'' @ [CHR 0x0A]
          @ ''/export '' @ [CHR 0xC2, CHR 0xB7] @ '' /delete '' @ [CHR 0xC2, CHR 0xB7] @ '' /privacy''
          @ [CHR 0x0A] @ ''/lang en | /lang vi '' @ [CHR 0xE2, CHR 0x80, CHR 0x94] @ '' switch language''
          @ [CHR 0x0A] @ ''/categories '' @ [CHR 0xC2, CHR 0xB7] @ '' /recat <category>'')"

definition unknown_text :: "locale_t \<Rightarrow> string" where
  "unknown_text loc =
     (case loc of
        Vi \<Rightarrow>
          ''T'' @ [CHR 0xC3, CHR 0xB4] @ ''i ch'' @ [CHR 0xC6, CHR 0xB0] @ ''a hi''
          @ [CHR 0xE1, CHR 0xBB, CHR 0x83] @ ''u tin nh'' @ [CHR 0xE1, CHR 0xBA, CHR 0xAF] @ ''n n''
          @ [CHR 0xC3, CHR 0xA0] @ ''y. G'' @ [CHR 0xC3, CHR 0xB5] @ '' /help ''
          @ [CHR 0xC4, CHR 0x91, CHR 0xE1, CHR 0xBB, CHR 0x83] @ '' xem c'' @ [CHR 0xC3, CHR 0xA1] @ ''ch d''
          @ [CHR 0xC3, CHR 0xB9] @ ''ng, ho'' @ [CHR 0xE1, CHR 0xBA, CHR 0xB7] @ ''c nh''
          @ [CHR 0xE1, CHR 0xBA, CHR 0xAD] @ ''p m'' @ [CHR 0xE1, CHR 0xBB, CHR 0x99] @ ''t kho''
          @ [CHR 0xE1, CHR 0xBA, CHR 0xA3] @ ''n nh'' @ [CHR 0xC6, CHR 0xB0] @ '' '' @ [CHR 0x22]
          @ ''an sang 500k'' @ [CHR 0x22] @ ''.''
      | En \<Rightarrow>
          ''I didn'' @ [CHR 0x27] @ ''t understand that. Type /help for usage, or enter something like ''
          @ [CHR 0x22] @ ''coffee 45k'' @ [CHR 0x22] @ ''.'')"

definition pending_expired_text :: "locale_t \<Rightarrow> string" where
  "pending_expired_text loc =
     (case loc of
        Vi \<Rightarrow>
          ''Y'' @ [CHR 0xC3, CHR 0xAA] @ ''u c'' @ [CHR 0xE1, CHR 0xBA, CHR 0xA7] @ ''u tr''
          @ [CHR 0xC6, CHR 0xB0, CHR 0xE1, CHR 0xBB, CHR 0x9B] @ ''c ''
          @ [CHR 0xC4, CHR 0x91, CHR 0xC3, CHR 0xB3] @ '' '' @ [CHR 0xC4, CHR 0x91, CHR 0xC3, CHR 0xA3] @ '' h''
          @ [CHR 0xE1, CHR 0xBA, CHR 0xBF] @ ''t h'' @ [CHR 0xE1, CHR 0xBA, CHR 0xA1] @ ''n. B''
          @ [CHR 0xE1, CHR 0xBA, CHR 0xA1] @ ''n g'' @ [CHR 0xE1, CHR 0xBB, CHR 0xAD] @ ''i l''
          @ [CHR 0xE1, CHR 0xBA, CHR 0xA1] @ ''i '' @ [CHR 0xE1, CHR 0xBA, CHR 0xA3] @ ''nh ho''
          @ [CHR 0xE1, CHR 0xBA, CHR 0xB7] @ ''c nh'' @ [CHR 0xE1, CHR 0xBA, CHR 0xAD] @ ''p l''
          @ [CHR 0xE1, CHR 0xBA, CHR 0xA1] @ ''i nh'' @ [CHR 0xC3, CHR 0xA9] @ ''.''
      | En \<Rightarrow>
          ''That confirmation expired. Please send the receipt or entry again.'')"

definition discarded_text :: "locale_t \<Rightarrow> string" where
  "discarded_text loc =
     (case loc of
        Vi \<Rightarrow>
          [CHR 0xC4, CHR 0x90, CHR 0xC3, CHR 0xA3] @ '' b'' @ [CHR 0xE1, CHR 0xBB, CHR 0x8F] @ '' qua, kh''
          @ [CHR 0xC3, CHR 0xB4] @ ''ng ghi nh'' @ [CHR 0xE1, CHR 0xBA, CHR 0xAD] @ ''n kho''
          @ [CHR 0xE1, CHR 0xBA, CHR 0xA3] @ ''n n'' @ [CHR 0xC3, CHR 0xA0] @ ''y.''
      | En \<Rightarrow>
          ''Discarded '' @ [CHR 0xE2, CHR 0x80, CHR 0x94] @ '' this expense was not saved.'')"

definition confirmed_text :: "locale_t \<Rightarrow> string \<Rightarrow> string \<Rightarrow> string \<Rightarrow> string" where
  "confirmed_text loc amount merchant category =
     (case loc of
        Vi \<Rightarrow>
          [CHR 0xC4, CHR 0x90, CHR 0xC3, CHR 0xA3] @ '' ghi nh'' @ [CHR 0xE1, CHR 0xBA, CHR 0xAD] @ ''n: ''
          @ amount @ '' t'' @ [CHR 0xE1, CHR 0xBA, CHR 0xA1] @ ''i '' @ merchant @ '' ('' @ category @ '').''
      | En \<Rightarrow>
          ''Saved: '' @ amount @ '' at '' @ merchant @ '' ('' @ category @ '').'')"

definition manual_confirmation_card :: "locale_t \<Rightarrow> string \<Rightarrow> string \<Rightarrow> string \<Rightarrow> string \<Rightarrow> string \<Rightarrow> string" where
  "manual_confirmation_card loc merchant amount date type_label category =
     (case loc of
        Vi \<Rightarrow>
          ''T'' @ [CHR 0xC3, CHR 0xB4] @ ''i '' @ [CHR 0xC4, CHR 0x91, CHR 0xE1, CHR 0xBB, CHR 0x8D] @ ''c ''
          @ [CHR 0xC4, CHR 0x91, CHR 0xC6, CHR 0xB0, CHR 0xE1, CHR 0xBB, CHR 0xA3] @ ''c:''
          @ [CHR 0x0A, CHR 0x0A] @ ''C'' @ [CHR 0xE1, CHR 0xBB, CHR 0xAD] @ ''a h'' @ [CHR 0xC3, CHR 0xA0]
          @ ''ng: '' @ merchant @ [CHR 0x0A] @ ''S'' @ [CHR 0xE1, CHR 0xBB, CHR 0x91] @ '' ti''
          @ [CHR 0xE1, CHR 0xBB, CHR 0x81] @ ''n: '' @ amount @ [CHR 0x0A] @ ''Ng'' @ [CHR 0xC3, CHR 0xA0]
          @ ''y: '' @ date @ [CHR 0x0A] @ ''Lo'' @ [CHR 0xE1, CHR 0xBA, CHR 0xA1] @ ''i: '' @ type_label
          @ [CHR 0x0A] @ ''Danh m'' @ [CHR 0xE1, CHR 0xBB, CHR 0xA5] @ ''c: '' @ category @ [CHR 0x0A, CHR 0x0A]
          @ ''Tr'' @ [CHR 0xE1, CHR 0xBA, CHR 0xA3] @ '' l'' @ [CHR 0xE1, CHR 0xBB, CHR 0x9D] @ ''i: ok / y ''
          @ [CHR 0xC4, CHR 0x91, CHR 0xE1, CHR 0xBB, CHR 0x83] @ '' l'' @ [CHR 0xC6, CHR 0xB0] @ ''u ''
          @ [CHR 0xC2, CHR 0xB7] @ '' no / n '' @ [CHR 0xC4, CHR 0x91, CHR 0xE1, CHR 0xBB, CHR 0x83] @ '' h''
          @ [CHR 0xE1, CHR 0xBB, CHR 0xA7] @ ''y'' @ [CHR 0x0A] @ ''S'' @ [CHR 0xE1, CHR 0xBB, CHR 0xAD]
          @ ''a: sua 45k '' @ [CHR 0xC2, CHR 0xB7] @ '' sua cua hang X '' @ [CHR 0xC2, CHR 0xB7]
          @ '' sua danh muc an-uong '' @ [CHR 0xC2, CHR 0xB7] @ '' sua ngay 20/08/2026 '' @ [CHR 0xC2, CHR 0xB7]
          @ '' sua loai chi|thu'' @ [CHR 0x0A] @ ''(EN: edit amount/merchant/category/date/type)''
      | En \<Rightarrow>
          ''I read:'' @ [CHR 0x0A, CHR 0x0A] @ ''Merchant: '' @ merchant @ [CHR 0x0A] @ ''Amount: '' @ amount
          @ [CHR 0x0A] @ ''Date: '' @ date @ [CHR 0x0A] @ ''Type: '' @ type_label @ [CHR 0x0A] @ ''Category: ''
          @ category @ [CHR 0x0A, CHR 0x0A] @ ''Reply: ok / y to save '' @ [CHR 0xC2, CHR 0xB7]
          @ '' no / n to discard'' @ [CHR 0x0A] @ ''Edit: edit 45000 '' @ [CHR 0xC2, CHR 0xB7]
          @ '' edit merchant X '' @ [CHR 0xC2, CHR 0xB7] @ '' edit category Food '' @ [CHR 0xC2, CHR 0xB7]
          @ '' edit date 2026-08-20 '' @ [CHR 0xC2, CHR 0xB7] @ '' edit type expense|income'' @ [CHR 0x0A]
          @ ''(VN: sua '' @ [CHR 0xE2, CHR 0x80, CHR 0xA6] @ '')'')"

definition empty_summary_text :: "locale_t \<Rightarrow> string \<Rightarrow> string" where
  "empty_summary_text loc period_label =
     (case loc of
        Vi \<Rightarrow>
          period_label @ '': ch'' @ [CHR 0xC6, CHR 0xB0] @ ''a c'' @ [CHR 0xC3, CHR 0xB3] @ '' kho''
          @ [CHR 0xE1, CHR 0xBA, CHR 0xA3] @ ''n chi ti'' @ [CHR 0xC3, CHR 0xAA] @ ''u n''
          @ [CHR 0xC3, CHR 0xA0] @ ''o ''
          @ [CHR 0xC4, CHR 0x91, CHR 0xC6, CHR 0xB0, CHR 0xE1, CHR 0xBB, CHR 0xA3] @ ''c ghi nh''
          @ [CHR 0xE1, CHR 0xBA, CHR 0xAD] @ ''n. G'' @ [CHR 0xE1, CHR 0xBB, CHR 0xAD] @ ''i ''
          @ [CHR 0xE1, CHR 0xBA, CHR 0xA3] @ ''nh h'' @ [CHR 0xC3, CHR 0xB3] @ ''a ''
          @ [CHR 0xC4, CHR 0x91, CHR 0xC6, CHR 0xA1] @ ''n ho'' @ [CHR 0xE1, CHR 0xBA, CHR 0xB7] @ ''c nh''
          @ [CHR 0xE1, CHR 0xBA, CHR 0xAD] @ ''p: '' @ [CHR 0x22] @ ''an sang 500k'' @ [CHR 0x22] @ ''.''
      | En \<Rightarrow>
          period_label @ '': no expenses logged yet. Send a receipt photo or type: '' @ [CHR 0x22]
          @ ''coffee 45k'' @ [CHR 0x22] @ ''.'')"

definition language_updated_text :: "locale_t \<Rightarrow> string" where
  "language_updated_text loc =
     (case loc of
        Vi \<Rightarrow>
          [CHR 0xC4, CHR 0x90, CHR 0xC3, CHR 0xA3] @ '' chuy'' @ [CHR 0xE1, CHR 0xBB, CHR 0x83] @ ''n sang ti''
          @ [CHR 0xE1, CHR 0xBA, CHR 0xBF] @ ''ng Vi'' @ [CHR 0xE1, CHR 0xBB, CHR 0x87] @ ''t. G''
          @ [CHR 0xC3, CHR 0xB5] @ '' /help '' @ [CHR 0xC4, CHR 0x91, CHR 0xE1, CHR 0xBB, CHR 0x83] @ '' xem h''
          @ [CHR 0xC6, CHR 0xB0, CHR 0xE1, CHR 0xBB, CHR 0x9B] @ ''ng d'' @ [CHR 0xE1, CHR 0xBA, CHR 0xAB]
          @ ''n.''
      | En \<Rightarrow>
          ''Switched to English. Type /help for instructions.'')"

definition invalid_timezone_text :: "locale_t \<Rightarrow> string" where
  "invalid_timezone_text loc =
     (case loc of
        Vi \<Rightarrow>
          ''M'' @ [CHR 0xC3, CHR 0xBA] @ ''i gi'' @ [CHR 0xE1, CHR 0xBB, CHR 0x9D] @ '' kh''
          @ [CHR 0xC3, CHR 0xB4] @ ''ng h'' @ [CHR 0xE1, CHR 0xBB, CHR 0xA3] @ ''p l''
          @ [CHR 0xE1, CHR 0xBB, CHR 0x87] @ ''. H'' @ [CHR 0xC3, CHR 0xA3] @ ''y d'' @ [CHR 0xC3, CHR 0xB9]
          @ ''ng t'' @ [CHR 0xC3, CHR 0xAA] @ ''n IANA, v'' @ [CHR 0xC3, CHR 0xAD] @ '' d''
          @ [CHR 0xE1, CHR 0xBB, CHR 0xA5] @ '' Asia/Ho_Chi_Minh, Asia/Bangkok ho''
          @ [CHR 0xE1, CHR 0xBA, CHR 0xB7] @ ''c UTC.''
      | En \<Rightarrow>
          ''Invalid timezone. Use an IANA name like Asia/Ho_Chi_Minh, Asia/Bangkok, or UTC.'')"

definition invalid_settings_text :: "locale_t \<Rightarrow> string" where
  "invalid_settings_text loc =
     (case loc of
        Vi \<Rightarrow>
          ''C'' @ [CHR 0xC3, CHR 0xBA] @ '' ph'' @ [CHR 0xC3, CHR 0xA1] @ ''p ch'' @ [CHR 0xC6, CHR 0xB0]
          @ ''a '' @ [CHR 0xC4, CHR 0x91, CHR 0xC3, CHR 0xBA] @ ''ng. D'' @ [CHR 0xC3, CHR 0xB9]
          @ ''ng /settings '' @ [CHR 0xC4, CHR 0x91, CHR 0xE1, CHR 0xBB, CHR 0x83]
          @ '' xem, /tz Asia/Ho_Chi_Minh '' @ [CHR 0xC4, CHR 0x91, CHR 0xE1, CHR 0xBB, CHR 0x83] @ '' thay ''
          @ [CHR 0xC4, CHR 0x91, CHR 0xE1, CHR 0xBB, CHR 0x95] @ ''i m'' @ [CHR 0xC3, CHR 0xBA] @ ''i gi''
          @ [CHR 0xE1, CHR 0xBB, CHR 0x9D] @ ''.''
      | En \<Rightarrow>
          ''Invalid syntax. Use /settings to view, /tz Asia/Ho_Chi_Minh to change timezone.'')"

definition schedule_invalid_text :: "locale_t \<Rightarrow> string" where
  "schedule_invalid_text loc =
     (case loc of
        Vi \<Rightarrow>
          ''C'' @ [CHR 0xC3, CHR 0xBA] @ '' ph'' @ [CHR 0xC3, CHR 0xA1] @ ''p ch'' @ [CHR 0xC6, CHR 0xB0]
          @ ''a '' @ [CHR 0xC4, CHR 0x91, CHR 0xC3, CHR 0xBA] @ ''ng. V'' @ [CHR 0xC3, CHR 0xAD] @ '' d''
          @ [CHR 0xE1, CHR 0xBB, CHR 0xA5] @ '': /sched daily 20:00, /sched weekly 08:00, ho''
          @ [CHR 0xE1, CHR 0xBA, CHR 0xB7] @ ''c /sched off.''
      | En \<Rightarrow>
          ''Invalid syntax. Examples: /sched daily 20:00, /sched weekly 08:00, or /sched off.'')"

definition delete_confirm_text :: "locale_t \<Rightarrow> nat \<Rightarrow> string" where
  "delete_confirm_text loc expense_count =
     (case loc of
        Vi \<Rightarrow>
          ''B'' @ [CHR 0xE1, CHR 0xBA, CHR 0xA1] @ ''n s'' @ [CHR 0xE1, CHR 0xBA, CHR 0xAF] @ ''p x''
          @ [CHR 0xC3, CHR 0xB3] @ ''a to'' @ [CHR 0xC3, CHR 0xA0] @ ''n b'' @ [CHR 0xE1, CHR 0xBB, CHR 0x99]
          @ '' d'' @ [CHR 0xE1, CHR 0xBB, CHR 0xAF] @ '' li'' @ [CHR 0xE1, CHR 0xBB, CHR 0x87] @ ''u (''
          @ show_nat expense_count @ '' kho'' @ [CHR 0xE1, CHR 0xBA, CHR 0xA3] @ ''n chi). Tr''
          @ [CHR 0xE1, CHR 0xBA, CHR 0xA3] @ '' l'' @ [CHR 0xE1, CHR 0xBB, CHR 0x9D] @ ''i ok ''
          @ [CHR 0xC4, CHR 0x91, CHR 0xE1, CHR 0xBB, CHR 0x83] @ '' x'' @ [CHR 0xC3, CHR 0xA1] @ ''c nh''
          @ [CHR 0xE1, CHR 0xBA, CHR 0xAD] @ ''n, no '' @ [CHR 0xC4, CHR 0x91, CHR 0xE1, CHR 0xBB, CHR 0x83]
          @ '' h'' @ [CHR 0xE1, CHR 0xBB, CHR 0xA7] @ ''y. Kh'' @ [CHR 0xC3, CHR 0xB4] @ ''ng th''
          @ [CHR 0xE1, CHR 0xBB, CHR 0x83] @ '' ho'' @ [CHR 0xC3, CHR 0xA0] @ ''n t'' @ [CHR 0xC3, CHR 0xA1]
          @ ''c.''
      | En \<Rightarrow>
          ''You are about to delete all data ('' @ show_nat expense_count
          @ '' expenses). Reply ok to confirm, no to cancel. This cannot be undone.'')"

definition delete_accepted_text :: "locale_t \<Rightarrow> nat \<Rightarrow> string" where
  "delete_accepted_text loc expense_count =
     (case loc of
        Vi \<Rightarrow>
          [CHR 0xC4, CHR 0x90, CHR 0xC3, CHR 0xA3] @ '' nh'' @ [CHR 0xE1, CHR 0xBA, CHR 0xAD] @ ''n y''
          @ [CHR 0xC3, CHR 0xAA] @ ''u c'' @ [CHR 0xE1, CHR 0xBA, CHR 0xA7] @ ''u x'' @ [CHR 0xC3, CHR 0xB3]
          @ ''a ('' @ show_nat expense_count @ '' kho'' @ [CHR 0xE1, CHR 0xBA, CHR 0xA3] @ ''n chi). D''
          @ [CHR 0xE1, CHR 0xBB, CHR 0xAF] @ '' li'' @ [CHR 0xE1, CHR 0xBB, CHR 0x87] @ ''u s''
          @ [CHR 0xE1, CHR 0xBA, CHR 0xBD] @ '' ''
          @ [CHR 0xC4, CHR 0x91, CHR 0xC6, CHR 0xB0, CHR 0xE1, CHR 0xBB, CHR 0xA3] @ ''c g''
          @ [CHR 0xE1, CHR 0xBB, CHR 0xA1] @ '' trong '' @ [CHR 0xC3, CHR 0xAD] @ ''t ph''
          @ [CHR 0xC3, CHR 0xBA] @ ''t.''
      | En \<Rightarrow>
          ''Deletion requested ('' @ show_nat expense_count @ '' expenses). Data will be removed shortly.'')"

definition delete_cancelled_text :: "locale_t \<Rightarrow> string" where
  "delete_cancelled_text loc =
     (case loc of
        Vi \<Rightarrow>
          [CHR 0xC4, CHR 0x90, CHR 0xC3, CHR 0xA3] @ '' h'' @ [CHR 0xE1, CHR 0xBB, CHR 0xA7] @ ''y y''
          @ [CHR 0xC3, CHR 0xAA] @ ''u c'' @ [CHR 0xE1, CHR 0xBA, CHR 0xA7] @ ''u x'' @ [CHR 0xC3, CHR 0xB3]
          @ ''a d'' @ [CHR 0xE1, CHR 0xBB, CHR 0xAF] @ '' li'' @ [CHR 0xE1, CHR 0xBB, CHR 0x87] @ ''u.''
      | En \<Rightarrow>
          ''Account deletion cancelled.'')"

definition export_accepted_text :: "locale_t \<Rightarrow> string" where
  "export_accepted_text loc =
     (case loc of
        Vi \<Rightarrow>
          [CHR 0xC4, CHR 0x90, CHR 0xC3, CHR 0xA3] @ '' ghi nh'' @ [CHR 0xE1, CHR 0xBA, CHR 0xAD] @ ''n y''
          @ [CHR 0xC3, CHR 0xAA] @ ''u c'' @ [CHR 0xE1, CHR 0xBA, CHR 0xA7] @ ''u xu''
          @ [CHR 0xE1, CHR 0xBA, CHR 0xA5] @ ''t d'' @ [CHR 0xE1, CHR 0xBB, CHR 0xAF] @ '' li''
          @ [CHR 0xE1, CHR 0xBB, CHR 0x87] @ ''u. File s'' @ [CHR 0xE1, CHR 0xBA, CHR 0xBD] @ '' ''
          @ [CHR 0xC4, CHR 0x91, CHR 0xC6, CHR 0xB0, CHR 0xE1, CHR 0xBB, CHR 0xA3] @ ''c giao qua k''
          @ [CHR 0xC3, CHR 0xAA] @ ''nh qu'' @ [CHR 0xE1, CHR 0xBA, CHR 0xA3] @ ''n tr''
          @ [CHR 0xE1, CHR 0xBB, CHR 0x8B] @ '' vi'' @ [CHR 0xC3, CHR 0xAA] @ ''n, kh'' @ [CHR 0xC3, CHR 0xB4]
          @ ''ng g'' @ [CHR 0xE1, CHR 0xBB, CHR 0xAD] @ ''i ''
          @ [CHR 0xC4, CHR 0x91, CHR 0xC6, CHR 0xB0, CHR 0xE1, CHR 0xBB, CHR 0x9D] @ ''ng d''
          @ [CHR 0xE1, CHR 0xBA, CHR 0xAB] @ ''n trong chat.''
      | En \<Rightarrow>
          ''Export requested. The file will be delivered via an admin channel ''
          @ [CHR 0xE2, CHR 0x80, CHR 0x94] @ '' no paths in chat.'')"

definition no_recent_text :: "locale_t \<Rightarrow> string" where
  "no_recent_text loc =
     (case loc of
        Vi \<Rightarrow>
          ''Ch'' @ [CHR 0xC6, CHR 0xB0] @ ''a c'' @ [CHR 0xC3, CHR 0xB3] @ '' giao d''
          @ [CHR 0xE1, CHR 0xBB, CHR 0x8B] @ ''ch n'' @ [CHR 0xC3, CHR 0xA0] @ ''o ''
          @ [CHR 0xC4, CHR 0x91, CHR 0xC6, CHR 0xB0, CHR 0xE1, CHR 0xBB, CHR 0xA3] @ ''c ghi nh''
          @ [CHR 0xE1, CHR 0xBA, CHR 0xAD] @ ''n. G'' @ [CHR 0xE1, CHR 0xBB, CHR 0xAD] @ ''i ''
          @ [CHR 0xE1, CHR 0xBA, CHR 0xA3] @ ''nh h'' @ [CHR 0xC3, CHR 0xB3] @ ''a ''
          @ [CHR 0xC4, CHR 0x91, CHR 0xC6, CHR 0xA1] @ ''n ho'' @ [CHR 0xE1, CHR 0xBA, CHR 0xB7] @ ''c nh''
          @ [CHR 0xE1, CHR 0xBA, CHR 0xAD] @ ''p: '' @ [CHR 0x22] @ ''an sang 500k'' @ [CHR 0x22] @ ''.''
      | En \<Rightarrow>
          ''No transactions yet. Send a receipt photo or type: '' @ [CHR 0x22] @ ''coffee 45k'' @ [CHR 0x22]
          @ ''.'')"

definition default_category_display :: "locale_t \<Rightarrow> string" where
  "default_category_display loc =
     (case loc of
        Vi \<Rightarrow>
          ''Kh'' @ [CHR 0xC3, CHR 0xA1] @ ''c''
      | En \<Rightarrow>
          ''Other'')"

definition categories_list_text :: "locale_t \<Rightarrow> string \<Rightarrow> string" where
  "categories_list_text loc body =
     (case loc of
        Vi \<Rightarrow>
          ''Danh m'' @ [CHR 0xE1, CHR 0xBB, CHR 0xA5] @ ''c (d'' @ [CHR 0xC3, CHR 0xB9] @ ''ng key ho''
          @ [CHR 0xE1, CHR 0xBA, CHR 0xB7] @ ''c t'' @ [CHR 0xC3, CHR 0xAA] @ ''n):'' @ [CHR 0x0A] @ body
          @ [CHR 0x0A, CHR 0x0A] @ ''V'' @ [CHR 0xC3, CHR 0xAD] @ '' d'' @ [CHR 0xE1, CHR 0xBB, CHR 0xA5]
          @ '' khi '' @ [CHR 0xC4, CHR 0x91] @ ''ang x'' @ [CHR 0xC3, CHR 0xA1] @ ''c nh''
          @ [CHR 0xE1, CHR 0xBA, CHR 0xAD] @ ''n: sua danh muc an-uong'' @ [CHR 0x0A] @ ''Sau khi l''
          @ [CHR 0xC6, CHR 0xB0] @ ''u: /recat an-uong''
      | En \<Rightarrow>
          ''Categories (use key or name):'' @ [CHR 0x0A] @ body @ [CHR 0x0A, CHR 0x0A]
          @ ''While reviewing: edit category Food'' @ [CHR 0x0A] @ ''After save: /recat Food'')"

definition invalid_category_text :: "locale_t \<Rightarrow> string \<Rightarrow> string" where
  "invalid_category_text loc body =
     (case loc of
        Vi \<Rightarrow>
          ''Kh'' @ [CHR 0xC3, CHR 0xB4] @ ''ng nh'' @ [CHR 0xE1, CHR 0xBA, CHR 0xAD] @ ''n ra danh m''
          @ [CHR 0xE1, CHR 0xBB, CHR 0xA5] @ ''c '' @ [CHR 0xC4, CHR 0x91, CHR 0xC3, CHR 0xB3] @ ''.''
          @ [CHR 0x0A, CHR 0x0A] @ body
      | En \<Rightarrow>
          ''I don'' @ [CHR 0x27] @ ''t recognize that category.'' @ [CHR 0x0A, CHR 0x0A] @ body)"

definition invalid_edit_text :: "locale_t \<Rightarrow> string" where
  "invalid_edit_text loc =
     (case loc of
        Vi \<Rightarrow>
          ''C'' @ [CHR 0xC3, CHR 0xBA] @ '' ph'' @ [CHR 0xC3, CHR 0xA1] @ ''p s''
          @ [CHR 0xE1, CHR 0xBB, CHR 0xAD] @ ''a ch'' @ [CHR 0xC6, CHR 0xB0] @ ''a ''
          @ [CHR 0xC4, CHR 0x91, CHR 0xC3, CHR 0xBA] @ ''ng. V'' @ [CHR 0xC3, CHR 0xAD] @ '' d''
          @ [CHR 0xE1, CHR 0xBB, CHR 0xA5] @ '': sua 45k '' @ [CHR 0xC2, CHR 0xB7] @ '' sua danh muc an-uong ''
          @ [CHR 0xC2, CHR 0xB7] @ '' sua cua hang X '' @ [CHR 0xC2, CHR 0xB7] @ '' sua ngay 20/08/2026 ''
          @ [CHR 0xC2, CHR 0xB7] @ '' sua loai chi''
      | En \<Rightarrow>
          ''Invalid edit. Examples: edit 45000 '' @ [CHR 0xC2, CHR 0xB7] @ '' edit category Food ''
          @ [CHR 0xC2, CHR 0xB7] @ '' edit merchant X '' @ [CHR 0xC2, CHR 0xB7] @ '' edit date 2026-08-20 ''
          @ [CHR 0xC2, CHR 0xB7] @ '' edit type expense'')"

definition invalid_language_text :: "locale_t \<Rightarrow> string" where
  "invalid_language_text loc =
     (case loc of
        Vi \<Rightarrow>
          ''D'' @ [CHR 0xC3, CHR 0xB9] @ ''ng /lang vi ho'' @ [CHR 0xE1, CHR 0xBA, CHR 0xB7] @ ''c /lang en.''
      | En \<Rightarrow>
          ''Use /lang vi or /lang en.'')"

definition recategorized_text :: "locale_t \<Rightarrow> string \<Rightarrow> string \<Rightarrow> string" where
  "recategorized_text loc merchant category =
     (case loc of
        Vi \<Rightarrow>
          [CHR 0xC4, CHR 0x90, CHR 0xC3, CHR 0xA3] @ '' '' @ [CHR 0xC4, CHR 0x91, CHR 0xE1, CHR 0xBB, CHR 0x95]
          @ ''i danh m'' @ [CHR 0xE1, CHR 0xBB, CHR 0xA5] @ ''c kho'' @ [CHR 0xE1, CHR 0xBA, CHR 0xA3] @ ''n g''
          @ [CHR 0xE1, CHR 0xBA, CHR 0xA7] @ ''n nh'' @ [CHR 0xE1, CHR 0xBA, CHR 0xA5] @ ''t ('' @ merchant
          @ '') '' @ [CHR 0xE2, CHR 0x86, CHR 0x92] @ '' '' @ category @ ''.''
      | En \<Rightarrow>
          ''Updated latest expense ('' @ merchant @ '') '' @ [CHR 0xE2, CHR 0x86, CHR 0x92] @ '' '' @ category
          @ ''.'')"

definition no_expense_to_recategorize_text :: "locale_t \<Rightarrow> string" where
  "no_expense_to_recategorize_text loc =
     (case loc of
        Vi \<Rightarrow>
          ''Ch'' @ [CHR 0xC6, CHR 0xB0] @ ''a c'' @ [CHR 0xC3, CHR 0xB3] @ '' kho''
          @ [CHR 0xE1, CHR 0xBA, CHR 0xA3] @ ''n '' @ [CHR 0xC4, CHR 0x91, CHR 0xC3, CHR 0xA3] @ '' l''
          @ [CHR 0xC6, CHR 0xB0] @ ''u '' @ [CHR 0xC4, CHR 0x91, CHR 0xE1, CHR 0xBB, CHR 0x83] @ '' ''
          @ [CHR 0xC4, CHR 0x91, CHR 0xE1, CHR 0xBB, CHR 0x95] @ ''i danh m'' @ [CHR 0xE1, CHR 0xBB, CHR 0xA5]
          @ ''c. Ghi nh'' @ [CHR 0xE1, CHR 0xBA, CHR 0xAD] @ ''n m'' @ [CHR 0xE1, CHR 0xBB, CHR 0x99]
          @ ''t kho'' @ [CHR 0xE1, CHR 0xBA, CHR 0xA3] @ ''n tr''
          @ [CHR 0xC6, CHR 0xB0, CHR 0xE1, CHR 0xBB, CHR 0x9B] @ ''c ''
          @ [CHR 0xC4, CHR 0x91, CHR 0xC3, CHR 0xA3] @ ''.''
      | En \<Rightarrow>
          ''No saved expense to recategorize yet. Log one first.'')"

definition image_received_text :: "locale_t \<Rightarrow> string" where
  "image_received_text loc =
     (case loc of
        Vi \<Rightarrow>
          [CHR 0xC4, CHR 0x90, CHR 0xC3, CHR 0xA3] @ '' nh'' @ [CHR 0xE1, CHR 0xBA, CHR 0xAD] @ ''n ''
          @ [CHR 0xE1, CHR 0xBA, CHR 0xA3] @ ''nh h'' @ [CHR 0xC3, CHR 0xB3] @ ''a ''
          @ [CHR 0xC4, CHR 0x91, CHR 0xC6, CHR 0xA1] @ ''n. T'' @ [CHR 0xC3, CHR 0xB4] @ ''i s''
          @ [CHR 0xE1, CHR 0xBA, CHR 0xBD] @ '' '' @ [CHR 0xC4, CHR 0x91, CHR 0xE1, CHR 0xBB, CHR 0x8D]
          @ ''c v'' @ [CHR 0xC3, CHR 0xA0] @ '' g'' @ [CHR 0xE1, CHR 0xBB, CHR 0xAD] @ ''i l''
          @ [CHR 0xE1, CHR 0xBA, CHR 0xA1] @ ''i '' @ [CHR 0xC4, CHR 0x91, CHR 0xE1, CHR 0xBB, CHR 0x83]
          @ '' b'' @ [CHR 0xE1, CHR 0xBA, CHR 0xA1] @ ''n x'' @ [CHR 0xC3, CHR 0xA1] @ ''c nh''
          @ [CHR 0xE1, CHR 0xBA, CHR 0xAD] @ ''n.''
      | En \<Rightarrow>
          ''Got the receipt photo. I'' @ [CHR 0x27] @ ''ll read it and send a confirmation card.'')"

definition daily_receipt_quota_text :: "locale_t \<Rightarrow> string" where
  "daily_receipt_quota_text loc =
     (case loc of
        Vi \<Rightarrow>
          ''B'' @ [CHR 0xE1, CHR 0xBA, CHR 0xA1] @ ''n '' @ [CHR 0xC4, CHR 0x91, CHR 0xC3, CHR 0xA3] @ '' ''
          @ [CHR 0xC4, CHR 0x91, CHR 0xE1, CHR 0xBA, CHR 0xA1] @ ''t gi'' @ [CHR 0xE1, CHR 0xBB, CHR 0x9B]
          @ ''i h'' @ [CHR 0xE1, CHR 0xBA, CHR 0xA1] @ ''n h'' @ [CHR 0xC3, CHR 0xB3] @ ''a ''
          @ [CHR 0xC4, CHR 0x91, CHR 0xC6, CHR 0xA1] @ ''n h'' @ [CHR 0xC3, CHR 0xB4] @ ''m nay. Mai g''
          @ [CHR 0xE1, CHR 0xBB, CHR 0xAD] @ ''i ti'' @ [CHR 0xE1, CHR 0xBA, CHR 0xBF] @ ''p nh''
          @ [CHR 0xC3, CHR 0xA9] @ ''.''
      | En \<Rightarrow>
          ''You'' @ [CHR 0x27] @ ''ve hit today'' @ [CHR 0x27] @ ''s receipt limit. Try again tomorrow.'')"

definition extraction_kill_switch_text :: "locale_t \<Rightarrow> string" where
  "extraction_kill_switch_text loc =
     (case loc of
        Vi \<Rightarrow>
          ''Tr'' @ [CHR 0xC3, CHR 0xAD] @ ''ch xu'' @ [CHR 0xE1, CHR 0xBA, CHR 0xA5] @ ''t h''
          @ [CHR 0xC3, CHR 0xB3] @ ''a '' @ [CHR 0xC4, CHR 0x91, CHR 0xC6, CHR 0xA1] @ ''n ''
          @ [CHR 0xC4, CHR 0x91] @ ''ang t'' @ [CHR 0xE1, CHR 0xBA, CHR 0xA1] @ ''m t''
          @ [CHR 0xE1, CHR 0xBA, CHR 0xAF] @ ''t.''
      | En \<Rightarrow>
          ''Receipt extraction is temporarily disabled.'')"

definition extraction_failed_text :: "locale_t \<Rightarrow> string" where
  "extraction_failed_text loc =
     (case loc of
        Vi \<Rightarrow>
          ''T'' @ [CHR 0xC3, CHR 0xB4] @ ''i ch'' @ [CHR 0xC6, CHR 0xB0] @ ''a ''
          @ [CHR 0xC4, CHR 0x91, CHR 0xE1, CHR 0xBB, CHR 0x8D] @ ''c ''
          @ [CHR 0xC4, CHR 0x91, CHR 0xC6, CHR 0xB0, CHR 0xE1, CHR 0xBB, CHR 0xA3] @ ''c h''
          @ [CHR 0xC3, CHR 0xB3] @ ''a '' @ [CHR 0xC4, CHR 0x91, CHR 0xC6, CHR 0xA1] @ ''n n''
          @ [CHR 0xC3, CHR 0xA0] @ ''y. B'' @ [CHR 0xE1, CHR 0xBA, CHR 0xA1] @ ''n g''
          @ [CHR 0xE1, CHR 0xBB, CHR 0xAD] @ ''i l'' @ [CHR 0xE1, CHR 0xBA, CHR 0xA1] @ ''i ''
          @ [CHR 0xE1, CHR 0xBA, CHR 0xA3] @ ''nh r'' @ [CHR 0xC3, CHR 0xB5] @ '' h'' @ [CHR 0xC6, CHR 0xA1]
          @ ''n, ho'' @ [CHR 0xE1, CHR 0xBA, CHR 0xB7] @ ''c nh'' @ [CHR 0xE1, CHR 0xBA, CHR 0xAD]
          @ ''p tay ki'' @ [CHR 0xE1, CHR 0xBB, CHR 0x83] @ ''u '' @ [CHR 0x22] @ ''cafe 45k'' @ [CHR 0x22]
          @ '' nh'' @ [CHR 0xC3, CHR 0xA9] @ ''.''
      | En \<Rightarrow>
          ''I couldn'' @ [CHR 0x27] @ ''t read that receipt. Send a clearer photo, or type something like ''
          @ [CHR 0x22] @ ''coffee 45k'' @ [CHR 0x22] @ ''.'')"

definition extraction_unsupported_text :: "locale_t \<Rightarrow> string" where
  "extraction_unsupported_text loc =
     (case loc of
        Vi \<Rightarrow>
          [CHR 0xE1, CHR 0xBA, CHR 0xA2] @ ''nh n'' @ [CHR 0xC3, CHR 0xA0] @ ''y kh'' @ [CHR 0xC3, CHR 0xB4]
          @ ''ng gi'' @ [CHR 0xE1, CHR 0xBB, CHR 0x91] @ ''ng h'' @ [CHR 0xC3, CHR 0xB3] @ ''a ''
          @ [CHR 0xC4, CHR 0x91, CHR 0xC6, CHR 0xA1] @ ''n. G'' @ [CHR 0xE1, CHR 0xBB, CHR 0xAD] @ ''i l''
          @ [CHR 0xE1, CHR 0xBA, CHR 0xA1] @ ''i '' @ [CHR 0xE1, CHR 0xBA, CHR 0xA3] @ ''nh h''
          @ [CHR 0xC3, CHR 0xB3] @ ''a '' @ [CHR 0xC4, CHR 0x91, CHR 0xC6, CHR 0xA1] @ ''n, ho''
          @ [CHR 0xE1, CHR 0xBA, CHR 0xB7] @ ''c nh'' @ [CHR 0xE1, CHR 0xBA, CHR 0xAD] @ ''p tay ki''
          @ [CHR 0xE1, CHR 0xBB, CHR 0x83] @ ''u '' @ [CHR 0x22] @ ''cafe 45k'' @ [CHR 0x22] @ ''.''
      | En \<Rightarrow>
          ''That doesn'' @ [CHR 0x27] @ ''t look like a receipt. Send a receipt photo, or type '' @ [CHR 0x22]
          @ ''coffee 45k'' @ [CHR 0x22] @ ''.'')"

definition period_label_today :: "locale_t \<Rightarrow> string" where
  "period_label_today loc =
     (case loc of
        Vi \<Rightarrow>
          ''H'' @ [CHR 0xC3, CHR 0xB4] @ ''m nay''
      | En \<Rightarrow>
          ''Today'')"

definition period_label_week :: "locale_t \<Rightarrow> string" where
  "period_label_week loc =
     (case loc of
        Vi \<Rightarrow>
          ''Tu'' @ [CHR 0xE1, CHR 0xBA, CHR 0xA7] @ ''n n'' @ [CHR 0xC3, CHR 0xA0] @ ''y''
      | En \<Rightarrow>
          ''This week'')"

definition period_label_month :: "locale_t \<Rightarrow> string" where
  "period_label_month loc =
     (case loc of
        Vi \<Rightarrow>
          ''Th'' @ [CHR 0xC3, CHR 0xA1] @ ''ng n'' @ [CHR 0xC3, CHR 0xA0] @ ''y''
      | En \<Rightarrow>
          ''This month'')"

definition settings_label_timezone :: "locale_t \<Rightarrow> string" where
  "settings_label_timezone loc =
     (case loc of
        Vi \<Rightarrow>
          ''m'' @ [CHR 0xC3, CHR 0xBA] @ ''i gi'' @ [CHR 0xE1, CHR 0xBB, CHR 0x9D]
      | En \<Rightarrow>
          ''timezone'')"

definition transaction_type_label :: "locale_t \<Rightarrow> string \<Rightarrow> string" where
  "transaction_type_label loc t =
     (case loc of
        Vi \<Rightarrow>
          if t = ''income'' then ''Thu nh'' @ [CHR 0xE1, CHR 0xBA, CHR 0xAD] @ ''p''
          else if t = ''refund'' then ''Ho'' @ [CHR 0xC3, CHR 0xA0] @ ''n ti'' @ [CHR 0xE1, CHR 0xBB, CHR 0x81] @ ''n''
          else if t = ''transfer'' then ''Chuy'' @ [CHR 0xE1, CHR 0xBB, CHR 0x83] @ ''n kho'' @ [CHR 0xE1, CHR 0xBA, CHR 0xA3] @ ''n''
          else if t = ''adjustment'' then [CHR 0xC4, CHR 0x90] @ ''i'' @ [CHR 0xE1, CHR 0xBB, CHR 0x81] @ ''u ch'' @ [CHR 0xE1, CHR 0xBB, CHR 0x89] @ ''nh''
          else ''Chi ti'' @ [CHR 0xC3, CHR 0xAA] @ ''u''
      | En \<Rightarrow>
          if t = ''income'' then ''Income'' else if t = ''refund'' then ''Refund'' else if t = ''transfer'' then ''Transfer''
          else if t = ''adjustment'' then ''Adjustment'' else ''Expense'')"

definition default_type_label :: "locale_t \<Rightarrow> string" where
  "default_type_label loc = transaction_type_label loc ''expense''"

definition today_summary_text :: "chat_libs \<Rightarrow> locale_t \<Rightarrow> string \<Rightarrow> string \<Rightarrow> int \<Rightarrow> string" where
  "today_summary_text L loc label currency total_minor =
     (case loc of
        Vi \<Rightarrow> label @ '' '' @ [CHR 0xE2, CHR 0x80, CHR 0x94] @ '' chi ti'' @ [CHR 0xC3, CHR 0xAA] @ ''u '' @ [CHR 0xC4, CHR 0x91, CHR 0xC3, CHR 0xA3] @ '' ghi nh'' @ [CHR 0xE1, CHR 0xBA, CHR 0xAD] @ ''n:'' @
               [CHR 0x0A, CHR 0x0A] @ ''T'' @ [CHR 0xE1, CHR 0xBB, CHR 0x95] @ ''ng: '' @ format_minor L total_minor currency
      | En \<Rightarrow> label @ '' '' @ [CHR 0xE2, CHR 0x80, CHR 0x94] @ '' logged spending:'' @
               [CHR 0x0A, CHR 0x0A] @ ''Total: '' @ format_minor L total_minor currency)"

definition period_summary_text ::
  "chat_libs \<Rightarrow> locale_t \<Rightarrow> string \<Rightarrow> string \<Rightarrow> int \<Rightarrow> (string \<times> int) list \<Rightarrow> string" where
  "period_summary_text L loc label currency total_minor cats =
     today_summary_text L loc label currency total_minor @
     concat (map (\<lambda>(display, minor). [CHR 0x0A] @ [CHR 0xE2, CHR 0x80, CHR 0xA2] @ '' '' @ display @ '': '' @ format_minor L minor currency)
       (take 3 cats))"

definition schedule_frequency_label :: "locale_t \<Rightarrow> string \<Rightarrow> string" where
  "schedule_frequency_label loc f =
     (case loc of
        Vi \<Rightarrow>
          if f = ''daily'' then ''h'' @ [CHR 0xC3, CHR 0xA0] @ ''ng ng'' @ [CHR 0xC3, CHR 0xA0] @ ''y''
          else if f = ''weekly'' then ''h'' @ [CHR 0xC3, CHR 0xA0] @ ''ng tu'' @ [CHR 0xE1, CHR 0xBA, CHR 0xA7] @ ''n''
          else if f = ''monthly'' then ''h'' @ [CHR 0xC3, CHR 0xA0] @ ''ng th'' @ [CHR 0xC3, CHR 0xA1] @ ''ng''
          else f
      | En \<Rightarrow> f)"

text \<open>\<^verbatim>\<open>{:02}\<close> of a signed number\<close>

definition padded2 :: "int \<Rightarrow> string" where
  "padded2 i = (if i < 0 then ''-'' @ zero_padded 1 (nat (- i)) else zero_padded 2 (nat i))"

text \<open>Division and remainder that truncate, as on \<^verbatim>\<open>i32\<close>.\<close>

definition clock_text :: "int \<Rightarrow> string" where
  "clock_text minute =
     (let h = sgn minute * (\<bar>minute\<bar> div 60); m = sgn minute * (\<bar>minute\<bar> mod 60) in padded2 h @ '':'' @ padded2 m)"

record schedule_line =
  sl_frequency :: string
  sl_delivery_minute :: int
  sl_enabled :: bool

definition settings_text :: "locale_t \<Rightarrow> string \<Rightarrow> string \<Rightarrow> schedule_line list \<Rightarrow> string" where
  "settings_text loc timezone currency schedules =
     (let active = filter sl_enabled schedules in
      (case loc of Vi \<Rightarrow> ''C'' @ [CHR 0xC3, CHR 0xA0] @ ''i '' @ [CHR 0xC4, CHR 0x91, CHR 0xE1, CHR 0xBA, CHR 0xB7] @ ''t c'' @ [CHR 0xE1, CHR 0xBB, CHR 0xA7] @ ''a b'' @ [CHR 0xE1, CHR 0xBA, CHR 0xA1] @ ''n:'' @ [CHR 0x0A, CHR 0x0A] | En \<Rightarrow> ''Your settings:'' @ [CHR 0x0A, CHR 0x0A]) @
      (case loc of
         Vi \<Rightarrow> [CHR 0xE2, CHR 0x80, CHR 0xA2] @ '' M'' @ [CHR 0xC3, CHR 0xBA] @ ''i gi'' @ [CHR 0xE1, CHR 0xBB, CHR 0x9D] @ '': '' @ timezone @ [CHR 0x0A] @
                [CHR 0xE2, CHR 0x80, CHR 0xA2] @ '' Ti'' @ [CHR 0xE1, CHR 0xBB, CHR 0x81] @ ''n t'' @ [CHR 0xE1, CHR 0xBB, CHR 0x87] @ '' m'' @ [CHR 0xE1, CHR 0xBA, CHR 0xB7] @ ''c '' @ [CHR 0xC4, CHR 0x91, CHR 0xE1, CHR 0xBB, CHR 0x8B] @ ''nh: '' @ currency @ [CHR 0x0A] @
                [CHR 0xE2, CHR 0x80, CHR 0xA2] @ '' T'' @ [CHR 0xE1, CHR 0xBB, CHR 0x95] @ ''ng k'' @ [CHR 0xE1, CHR 0xBA, CHR 0xBF] @ ''t t'' @ [CHR 0xE1, CHR 0xBB, CHR 0xB1] @ '' '' @ [CHR 0xC4, CHR 0x91, CHR 0xE1, CHR 0xBB, CHR 0x99] @ ''ng: ''
       | En \<Rightarrow> [CHR 0xE2, CHR 0x80, CHR 0xA2] @ '' Timezone: '' @ timezone @ [CHR 0x0A] @
                [CHR 0xE2, CHR 0x80, CHR 0xA2] @ '' Default currency: '' @ currency @ [CHR 0x0A] @ [CHR 0xE2, CHR 0x80, CHR 0xA2] @ '' Scheduled summaries: '') @
      (if active = [] then (case loc of Vi \<Rightarrow> ''ch'' @ [CHR 0xC6, CHR 0xB0] @ ''a b'' @ [CHR 0xE1, CHR 0xBA, CHR 0xAD] @ ''t'' | En \<Rightarrow> ''off'')
       else join_with '','' (map (\<lambda>l. '' '' @ schedule_frequency_label loc (sl_frequency l) @ '' '' @ clock_text (sl_delivery_minute l)) active)) @
      (case loc of
         Vi \<Rightarrow> [CHR 0x0A, CHR 0x0A] @ ''Thay '' @ [CHR 0xC4, CHR 0x91, CHR 0xE1, CHR 0xBB, CHR 0x95] @ ''i:'' @ [CHR 0x0A] @ ''/tz Asia/Ho_Chi_Minh'' @ [CHR 0x0A] @
                ''/sched daily 20:00'' @ [CHR 0x0A] @ ''/lang en''
       | En \<Rightarrow> [CHR 0x0A, CHR 0x0A] @ ''Change:'' @ [CHR 0x0A] @ ''/tz Asia/Ho_Chi_Minh'' @ [CHR 0x0A] @
                ''/sched daily 20:00'' @ [CHR 0x0A] @ ''/lang vi''))"

definition settings_updated_text :: "locale_t \<Rightarrow> string \<Rightarrow> string \<Rightarrow> string \<Rightarrow> string \<Rightarrow> schedule_line list \<Rightarrow> string" where
  "settings_updated_text loc label value timezone currency schedules =
     (case loc of Vi \<Rightarrow> [CHR 0xC4, CHR 0x90, CHR 0xC3, CHR 0xA3] @ '' c'' @ [CHR 0xE1, CHR 0xBA, CHR 0xAD] @ ''p nh'' @ [CHR 0xE1, CHR 0xBA, CHR 0xAD] @ ''t '' | En \<Rightarrow> ''Updated '') @
     label @ '': '' @ value @ ''.'' @ [CHR 0x0A, CHR 0x0A] @ settings_text loc timezone currency schedules"

definition schedule_text :: "locale_t \<Rightarrow> schedule_line list \<Rightarrow> string" where
  "schedule_text loc schedules =
     (let active = filter sl_enabled schedules in
      (case loc of Vi \<Rightarrow> ''T'' @ [CHR 0xE1, CHR 0xBB, CHR 0x95] @ ''ng k'' @ [CHR 0xE1, CHR 0xBA, CHR 0xBF] @ ''t t'' @ [CHR 0xE1, CHR 0xBB, CHR 0xB1] @ '' '' @ [CHR 0xC4, CHR 0x91, CHR 0xE1, CHR 0xBB, CHR 0x99] @ ''ng:'' @ [CHR 0x0A] | En \<Rightarrow> ''Scheduled summaries:'' @ [CHR 0x0A]) @
      (if active = []
       then (case loc of
               Vi \<Rightarrow> [CHR 0xE2, CHR 0x80, CHR 0xA2] @ '' Ch'' @ [CHR 0xC6, CHR 0xB0] @ ''a b'' @ [CHR 0xE1, CHR 0xBA, CHR 0xAD] @ ''t l'' @ [CHR 0xE1, CHR 0xBB, CHR 0x8B] @ ''ch n'' @ [CHR 0xC3, CHR 0xA0] @ ''o.'' @ [CHR 0x0A]
             | En \<Rightarrow> [CHR 0xE2, CHR 0x80, CHR 0xA2] @ '' No schedules enabled.'' @ [CHR 0x0A])
       else concat (map (\<lambda>l. [CHR 0xE2, CHR 0x80, CHR 0xA2] @ '' '' @ schedule_frequency_label loc (sl_frequency l) @ '' l'' @ [CHR 0xC3, CHR 0xBA] @ ''c '' @
              clock_text (sl_delivery_minute l) @ [CHR 0x0A]) active)) @
      (case loc of
         Vi \<Rightarrow> [CHR 0x0A] @ ''C'' @ [CHR 0xC3, CHR 0xA0] @ ''i '' @ [CHR 0xC4, CHR 0x91, CHR 0xE1, CHR 0xBA, CHR 0xB7] @ ''t:'' @ [CHR 0x0A] @ ''/sched daily 20:00'' @ [CHR 0x0A] @
                ''/sched weekly 08:00'' @ [CHR 0x0A] @ ''/sched monthly 09:00'' @ [CHR 0x0A] @
                ''/sched off daily '' @ [CHR 0xE2, CHR 0x80, CHR 0x94] @ '' t'' @ [CHR 0xE1, CHR 0xBA, CHR 0xAF] @ ''t m'' @ [CHR 0xE1, CHR 0xBB, CHR 0x99] @ ''t l'' @ [CHR 0xE1, CHR 0xBB, CHR 0x8B] @ ''ch'' @ [CHR 0x0A] @ ''/sched off '' @ [CHR 0xE2, CHR 0x80, CHR 0x94] @ '' t'' @ [CHR 0xE1, CHR 0xBA, CHR 0xAF] @ ''t t'' @ [CHR 0xE1, CHR 0xBA, CHR 0xA5] @ ''t c'' @ [CHR 0xE1, CHR 0xBA, CHR 0xA3]
       | En \<Rightarrow> [CHR 0x0A] @ ''Setup:'' @ [CHR 0x0A] @ ''/sched daily 20:00'' @ [CHR 0x0A] @
                ''/sched weekly 08:00'' @ [CHR 0x0A] @ ''/sched monthly 09:00'' @ [CHR 0x0A] @
                ''/sched off daily '' @ [CHR 0xE2, CHR 0x80, CHR 0x94] @ '' disable one'' @ [CHR 0x0A] @ ''/sched off '' @ [CHR 0xE2, CHR 0x80, CHR 0x94] @ '' disable all''))"

definition schedule_set_text :: "locale_t \<Rightarrow> string \<Rightarrow> int \<Rightarrow> string" where
  "schedule_set_text loc f minute =
     (case loc of
        Vi \<Rightarrow> [CHR 0xC4, CHR 0x90, CHR 0xC3, CHR 0xA3] @ '' b'' @ [CHR 0xE1, CHR 0xBA, CHR 0xAD] @ ''t t'' @ [CHR 0xE1, CHR 0xBB, CHR 0x95] @ ''ng k'' @ [CHR 0xE1, CHR 0xBA, CHR 0xBF] @ ''t '' @ schedule_frequency_label loc f @
               '' l'' @ [CHR 0xC3, CHR 0xBA] @ ''c '' @ clock_text minute @ ''.''
      | En \<Rightarrow> ''Enabled '' @ schedule_frequency_label loc f @ '' summary at '' @ clock_text minute @ ''.'')"

definition schedule_disabled_text :: "locale_t \<Rightarrow> string option \<Rightarrow> string" where
  "schedule_disabled_text loc f =
     (case (loc, f) of
        (Vi, Some x) \<Rightarrow> [CHR 0xC4, CHR 0x90, CHR 0xC3, CHR 0xA3] @ '' t'' @ [CHR 0xE1, CHR 0xBA, CHR 0xAF] @ ''t t'' @ [CHR 0xE1, CHR 0xBB, CHR 0x95] @ ''ng k'' @ [CHR 0xE1, CHR 0xBA, CHR 0xBF] @ ''t '' @ schedule_frequency_label loc x @ ''.''
      | (Vi, None) \<Rightarrow> [CHR 0xC4, CHR 0x90, CHR 0xC3, CHR 0xA3] @ '' t'' @ [CHR 0xE1, CHR 0xBA, CHR 0xAF] @ ''t t'' @ [CHR 0xE1, CHR 0xBA, CHR 0xA5] @ ''t c'' @ [CHR 0xE1, CHR 0xBA, CHR 0xA3] @ '' l'' @ [CHR 0xE1, CHR 0xBB, CHR 0x8B] @ ''ch t'' @ [CHR 0xE1, CHR 0xBB, CHR 0x95] @ ''ng k'' @ [CHR 0xE1, CHR 0xBA, CHR 0xBF] @ ''t.''
      | (En, Some x) \<Rightarrow> ''Disabled '' @ schedule_frequency_label loc x @ '' summary.''
      | (En, None) \<Rightarrow> ''Disabled all scheduled summaries.'')"

record recent_expense_line =
  rl_date_display :: string
  rl_amount_minor :: int
  rl_currency :: string
  rl_merchant :: string
  rl_category_display :: string
  rl_type_label :: "string option"

definition recent_line :: "chat_libs \<Rightarrow> locale_t \<Rightarrow> recent_expense_line \<Rightarrow> string" where
  "recent_line L loc l =
     (case rl_type_label l of
        Some t \<Rightarrow> if t \<noteq> transaction_type_label loc ''expense'' then ''['' @ t @ ''] '' else []
      | None \<Rightarrow> []) @
     rl_date_display l @ '' '' @ [CHR 0xC2, CHR 0xB7] @ '' '' @ format_minor L (rl_amount_minor l) (rl_currency l) @
     '' '' @ [CHR 0xC2, CHR 0xB7] @ '' '' @ rl_merchant l @ '' '' @ [CHR 0xC2, CHR 0xB7] @ '' '' @
     rl_category_display l @ [CHR 0x0A]"

definition recent_text :: "chat_libs \<Rightarrow> locale_t \<Rightarrow> recent_expense_line list \<Rightarrow> string" where
  "recent_text L loc ls =
     (if ls = [] then no_recent_text loc
      else trim_end_set whitespace_chars
        ((case loc of Vi \<Rightarrow> ''C'' @ [CHR 0xC3, CHR 0xA1] @ ''c kho'' @ [CHR 0xE1, CHR 0xBA, CHR 0xA3] @ ''n g'' @ [CHR 0xE1, CHR 0xBA, CHR 0xA7] @ ''n '' @ [CHR 0xC4, CHR 0x91, CHR 0xC3, CHR 0xA2] @ ''y:'' | En \<Rightarrow> ''Recent expenses:'') @
         [CHR 0x0A] @ concat (map (recent_line L loc) ls)))"

end
