(* ===== verification/Schedule.thy ===== *)
theory Schedule
  imports Bot_Prelude Rust_Text
begin

text \<open>
  Delivery instants and spending periods: \<^verbatim>\<open>src/schedule/types.rs\<close>, \<^verbatim>\<open>next_run.rs\<close>.

  The calendar and the time zone database are the crates chrono and chrono-tz; they are the
  fields of \<open>zone_libs\<close>. A \<^verbatim>\<open>NaiveDate\<close> is a day number, a \<^verbatim>\<open>NaiveDateTime\<close> (always a whole
  minute here) the number of minutes since day 0, and a \<^verbatim>\<open>DateTime<Tz>\<close> its instant, its zone being
  the one the caller passed. Where the code calls \<^verbatim>\<open>expect\<close> the model has \<open>Panic\<close>.
\<close>

section \<open>Types\<close>

datatype frequency = Daily | Weekly | Monthly

fun frequency_as_str :: "frequency \<Rightarrow> string" where
  "frequency_as_str Daily = ''daily''"
| "frequency_as_str Weekly = ''weekly''"
| "frequency_as_str Monthly = ''monthly''"

definition frequency_parse :: "string \<Rightarrow> frequency option" where
  "frequency_parse v =
     (if v = ''daily'' \<or> v = ''ngay'' then Some Daily
      else if v = ''weekly'' \<or> v = ''tuan'' then Some Weekly
      else if v = ''monthly'' \<or> v = ''thang'' then Some Monthly
      else None)"

interpretation frequency_codec: enum_codec frequency_as_str frequency_parse
proof
  show "frequency_parse (frequency_as_str f) = Some f" for f
    by (cases f) (simp_all add: frequency_parse_def)
qed

record period =
  p_start :: instant
  p_end :: instant

datatype schedule_error = InvalidTimezone | InvalidDeliveryMinute | UnsupportedFrequency

fun schedule_error_text :: "schedule_error \<Rightarrow> string" where
  "schedule_error_text InvalidTimezone = ''invalid timezone''"
| "schedule_error_text InvalidDeliveryMinute = ''invalid delivery minute''"
| "schedule_error_text UnsupportedFrequency = ''unsupported frequency''"

section \<open>The calendar and the time zones\<close>

datatype local_result = LSingle instant | LAmbiguous instant instant | LNone

record zone_libs =
  zl_known :: "string \<Rightarrow> bool"
  zl_ymd :: "int \<Rightarrow> int \<times> nat \<times> nat"
  zl_from_ymd :: "int \<Rightarrow> nat \<Rightarrow> nat \<Rightarrow> int option"
  zl_weekday :: "int \<Rightarrow> int"
  zl_local_date :: "string \<Rightarrow> instant \<Rightarrow> int"
  zl_from_local :: "string \<Rightarrow> int \<Rightarrow> local_result"

definition year_of :: "zone_libs \<Rightarrow> int \<Rightarrow> int" where
  "year_of Z d = fst (zl_ymd Z d)"

definition month_of :: "zone_libs \<Rightarrow> int \<Rightarrow> nat" where
  "month_of Z d = fst (snd (zl_ymd Z d))"

definition day_of :: "zone_libs \<Rightarrow> int \<Rightarrow> nat" where
  "day_of Z d = snd (snd (zl_ymd Z d))"

text \<open>\<^verbatim>\<open>?\<close> and \<^verbatim>\<open>expect\<close> on a \<^verbatim>\<open>Result<_, ScheduleError>\<close>\<close>

definition sbind ::
  "(schedule_error + 'a) run \<Rightarrow> ('a \<Rightarrow> (schedule_error + 'b) run) \<Rightarrow> (schedule_error + 'b) run" where
  "sbind m f = rbind m (\<lambda>r. case r of Inl e \<Rightarrow> Done (Inl e) | Inr a \<Rightarrow> f a)"

definition sexpect :: "(schedule_error + 'a) run \<Rightarrow> 'a run" where
  "sexpect m = rbind m (\<lambda>r. case r of Inl e \<Rightarrow> Panic | Inr a \<Rightarrow> Done a)"

definition oexpect :: "'a option \<Rightarrow> 'a run" where
  "oexpect v = (case v of None \<Rightarrow> Panic | Some a \<Rightarrow> Done a)"

definition sok :: "'a run \<Rightarrow> (schedule_error + 'a) run" where
  "sok m = rbind m (\<lambda>a. Done (Inr a))"

lemma sbind_simps [simp]:
  "sbind (Done (Inr a)) f = f a" "sbind (Done (Inl e)) f = Done (Inl e)" "sbind Panic f = Panic" "sbind NoFuel f = NoFuel"
  by (simp_all add: sbind_def)

lemma sexpect_simps [simp]:
  "sexpect (Done (Inr a)) = Done a" "sexpect (Done (Inl e)) = Panic" "sexpect Panic = Panic"
  by (simp_all add: sexpect_def)

lemma oexpect_simps [simp]: "oexpect (Some a) = Done a" "oexpect None = Panic"
  by (simp_all add: oexpect_def)

lemma sok_simps [simp]: "sok (Done a) = Done (Inr a)" "sok Panic = Panic"
  by (simp_all add: sok_def)

section \<open>Validation\<close>

definition parse_timezone :: "(string \<Rightarrow> bool) \<Rightarrow> string \<Rightarrow> schedule_error + string" where
  "parse_timezone known value =
     (if to_ascii_lowercase value = ''local'' then Inl InvalidTimezone
      else if known value then Inr value else Inl InvalidTimezone)"

definition validate_delivery_minute :: "int \<Rightarrow> schedule_error + unit" where
  "validate_delivery_minute minute = (if 0 \<le> minute \<and> minute < 24 * 60 then Inr () else Inl InvalidDeliveryMinute)"

section \<open>Local times\<close>

text \<open>The loop \<^verbatim>\<open>for step in 1..=180\<close>, from \<open>step\<close> on.\<close>

function scan_steps :: "zone_libs \<Rightarrow> string \<Rightarrow> int \<Rightarrow> nat \<Rightarrow> schedule_error + instant" where
  "scan_steps Z tz naive step =
     (if 180 < step then Inl InvalidTimezone
      else case zl_from_local Z tz (naive + int step) of
        LSingle t \<Rightarrow> Inr t
      | LAmbiguous t _ \<Rightarrow> Inr t
      | LNone \<Rightarrow> scan_steps Z tz naive (step + 1))"
  by pat_completeness auto
termination
  by (relation "measure (\<lambda>(Z, tz, naive, step). 181 - step)") auto

declare scan_steps.simps [simp del]

definition scan_forward_local :: "zone_libs \<Rightarrow> int \<Rightarrow> string \<Rightarrow> schedule_error + instant" where
  "scan_forward_local Z naive tz = scan_steps Z tz naive 1"

definition resolve_local_datetime :: "zone_libs \<Rightarrow> int \<Rightarrow> string \<Rightarrow> schedule_error + instant" where
  "resolve_local_datetime Z naive tz =
     (case zl_from_local Z tz naive of
        LSingle t \<Rightarrow> Inr t
      | LAmbiguous earlier _ \<Rightarrow> Inr earlier
      | LNone \<Rightarrow>
          (case zl_from_local Z tz (naive + 60) of
             LSingle t \<Rightarrow> Inr t
           | LAmbiguous earlier _ \<Rightarrow> Inr earlier
           | LNone \<Rightarrow> scan_forward_local Z naive tz))"

definition local_delivery_datetime ::
  "zone_libs \<Rightarrow> int \<Rightarrow> nat \<Rightarrow> nat \<Rightarrow> int \<Rightarrow> string \<Rightarrow> (schedule_error + instant) run" where
  "local_delivery_datetime Z year month day minute tz =
     sbind (Done (validate_delivery_minute minute)) (\<lambda>_.
       rbind (oexpect (zl_from_ymd Z year month day)) (\<lambda>date.
         rbind (oexpect (if 0 \<le> minute div 60 \<and> minute div 60 < 24 then Some (date * 1440 + minute div 60 * 60 + minute mod 60)
                         else None)) (\<lambda>naive.
           Done (resolve_local_datetime Z naive tz))))"

text \<open>The delivery of one day, the day given as a date whose year, month and day are read off.\<close>

definition delivery_on :: "zone_libs \<Rightarrow> string \<Rightarrow> int \<Rightarrow> int \<Rightarrow> (schedule_error + instant) run" where
  "delivery_on Z tz minute date =
     local_delivery_datetime Z (year_of Z date) (month_of Z date) (day_of Z date) minute tz"

section \<open>Deliveries\<close>

definition next_delivery ::
  "zone_libs \<Rightarrow> instant \<Rightarrow> string \<Rightarrow> frequency \<Rightarrow> int \<Rightarrow> (schedule_error + instant) run" where
  "next_delivery Z now timezone frequency minute =
     sbind (Done (validate_delivery_minute minute)) (\<lambda>_.
     sbind (Done (parse_timezone (zl_known Z) timezone)) (\<lambda>tz.
       let today = zl_local_date Z tz now; year = year_of Z today; month = month_of Z today in
       sbind (local_delivery_datetime Z year month (day_of Z today) minute tz) (\<lambda>candidate.
         case frequency of
           Daily \<Rightarrow>
             if \<not> candidate > now then delivery_on Z tz minute (zl_local_date Z tz candidate + 1)
             else Done (Inr candidate)
         | Weekly \<Rightarrow>
             (let until_monday = (0 - zl_weekday Z (zl_local_date Z tz candidate) + 7) mod 7 in
              sbind (if until_monday > 0 then delivery_on Z tz minute (zl_local_date Z tz candidate + until_monday)
                     else Done (Inr candidate)) (\<lambda>candidate.
                if \<not> candidate > now then delivery_on Z tz minute (zl_local_date Z tz candidate + 7)
                else Done (Inr candidate)))
         | Monthly \<Rightarrow>
             sbind (local_delivery_datetime Z year month 1 minute tz) (\<lambda>candidate.
               if \<not> candidate > now then
                 rbind (oexpect (if month = 12 then zl_from_ymd Z (year + 1) 1 1 else zl_from_ymd Z year (month + 1) 1))
                   (\<lambda>next_month. delivery_on Z tz minute next_month)
               else Done (Inr candidate)))))"

definition latest_delivery ::
  "zone_libs \<Rightarrow> instant \<Rightarrow> string \<Rightarrow> frequency \<Rightarrow> int \<Rightarrow> (schedule_error + instant) run" where
  "latest_delivery Z now timezone frequency minute =
     sbind (Done (validate_delivery_minute minute)) (\<lambda>_.
     sbind (Done (parse_timezone (zl_known Z) timezone)) (\<lambda>tz.
       let today = zl_local_date Z tz now; year = year_of Z today; month = month_of Z today in
       sbind (local_delivery_datetime Z year month (day_of Z today) minute tz) (\<lambda>candidate.
         case frequency of
           Daily \<Rightarrow>
             if candidate > now then delivery_on Z tz minute (zl_local_date Z tz candidate - 1)
             else Done (Inr candidate)
         | Weekly \<Rightarrow>
             (let date = zl_local_date Z tz candidate in
              sbind (delivery_on Z tz minute (date - zl_weekday Z date)) (\<lambda>candidate.
                if candidate > now then delivery_on Z tz minute (zl_local_date Z tz candidate - 7)
                else Done (Inr candidate)))
         | Monthly \<Rightarrow>
             sbind (local_delivery_datetime Z year month 1 minute tz) (\<lambda>candidate.
               if candidate > now then
                 rbind (oexpect (if month = 1 then zl_from_ymd Z (year - 1) 12 1 else zl_from_ymd Z year (month - 1) 1))
                   (\<lambda>prev_month. delivery_on Z tz minute prev_month)
               else Done (Inr candidate)))))"

section \<open>Periods\<close>

definition local_date_start :: "zone_libs \<Rightarrow> int \<Rightarrow> string \<Rightarrow> instant run" where
  "local_date_start Z date tz = sexpect (Done (resolve_local_datetime Z (date * 1440) tz))"

definition period_today :: "zone_libs \<Rightarrow> instant \<Rightarrow> string \<Rightarrow> period run" where
  "period_today Z now tz =
     (let start_date = zl_local_date Z tz now in
      rbind (local_date_start Z start_date tz) (\<lambda>start.
      rbind (local_date_start Z (start_date + 1) tz) (\<lambda>stop.
        Done \<lparr>p_start = start, p_end = stop\<rparr>)))"

definition period_yesterday :: "zone_libs \<Rightarrow> instant \<Rightarrow> string \<Rightarrow> period run" where
  "period_yesterday Z anchor tz =
     (let end_date = zl_local_date Z tz anchor in
      rbind (local_date_start Z (end_date - 1) tz) (\<lambda>start.
      rbind (local_date_start Z end_date tz) (\<lambda>stop.
        Done \<lparr>p_start = start, p_end = stop\<rparr>)))"

definition week_start :: "zone_libs \<Rightarrow> instant \<Rightarrow> string \<Rightarrow> instant run" where
  "week_start Z anchor tz =
     (let date = zl_local_date Z tz anchor in local_date_start Z (date - zl_weekday Z date) tz)"

definition this_week :: "zone_libs \<Rightarrow> instant \<Rightarrow> string \<Rightarrow> period run" where
  "this_week Z anchor tz =
     rbind (week_start Z anchor tz) (\<lambda>start.
     rbind (local_date_start Z (zl_local_date Z tz start + 7) tz) (\<lambda>full_end.
     rbind (local_date_start Z (zl_local_date Z tz anchor + 1) tz) (\<lambda>tomorrow.
       Done \<lparr>p_start = start, p_end = (if full_end > tomorrow then tomorrow else full_end)\<rparr>)))"

definition last_week :: "zone_libs \<Rightarrow> instant \<Rightarrow> string \<Rightarrow> period run" where
  "last_week Z anchor tz =
     rbind (week_start Z anchor tz) (\<lambda>this_start.
     rbind (local_date_start Z (zl_local_date Z tz this_start - 7) tz) (\<lambda>start.
       Done \<lparr>p_start = start, p_end = this_start\<rparr>))"

definition month_start :: "zone_libs \<Rightarrow> instant \<Rightarrow> string \<Rightarrow> instant run" where
  "month_start Z anchor tz =
     (let date = zl_local_date Z tz anchor in
      rbind (oexpect (zl_from_ymd Z (year_of Z date) (month_of Z date) 1)) (\<lambda>first. local_date_start Z first tz))"

definition this_month :: "zone_libs \<Rightarrow> instant \<Rightarrow> string \<Rightarrow> period run" where
  "this_month Z anchor tz =
     rbind (month_start Z anchor tz) (\<lambda>start.
       let date = zl_local_date Z tz start; year = year_of Z date; month = month_of Z date in
       rbind (rbind (oexpect (if month = 12 then zl_from_ymd Z (year + 1) 1 1 else zl_from_ymd Z year (month + 1) 1))
                (\<lambda>first. sexpect (Done (resolve_local_datetime Z (first * 1440) tz)))) (\<lambda>full_end.
       rbind (local_date_start Z (zl_local_date Z tz anchor + 1) tz) (\<lambda>tomorrow.
         Done \<lparr>p_start = start, p_end = (if full_end > tomorrow then tomorrow else full_end)\<rparr>)))"

definition last_month :: "zone_libs \<Rightarrow> instant \<Rightarrow> string \<Rightarrow> period run" where
  "last_month Z anchor tz =
     rbind (month_start Z anchor tz) (\<lambda>this_start.
       let date = zl_local_date Z tz this_start; year = year_of Z date; month = month_of Z date in
       rbind (oexpect (if month = 1 then zl_from_ymd Z (year - 1) 12 1 else zl_from_ymd Z year (month - 1) 1)) (\<lambda>first.
       rbind (sexpect (Done (resolve_local_datetime Z (first * 1440) tz))) (\<lambda>start.
         Done \<lparr>p_start = start, p_end = this_start\<rparr>)))"

text \<open>The labels are the UTF-8 bytes of the Vietnamese literals.\<close>

definition interactive_label :: "frequency \<Rightarrow> string" where
  "interactive_label f =
     (case f of
        Daily \<Rightarrow> ''H'' @ [CHR 0xC3, CHR 0xB4] @ ''m nay''
      | Weekly \<Rightarrow> ''Tu'' @ [CHR 0xE1, CHR 0xBA, CHR 0xA7] @ ''n n'' @ [CHR 0xC3, CHR 0xA0] @ ''y''
      | Monthly \<Rightarrow> ''Th'' @ [CHR 0xC3, CHR 0xA1] @ ''ng n'' @ [CHR 0xC3, CHR 0xA0] @ ''y'')"

definition scheduled_label :: "frequency \<Rightarrow> string" where
  "scheduled_label f =
     (case f of
        Daily \<Rightarrow> ''H'' @ [CHR 0xC3, CHR 0xB4] @ ''m qua''
      | Weekly \<Rightarrow> ''Tu'' @ [CHR 0xE1, CHR 0xBA, CHR 0xA7] @ ''n tr'' @ [CHR 0xC6, CHR 0xB0, CHR 0xE1, CHR 0xBB, CHR 0x9B] @ ''c''
      | Monthly \<Rightarrow> ''Th'' @ [CHR 0xC3, CHR 0xA1] @ ''ng tr'' @ [CHR 0xC6, CHR 0xB0, CHR 0xE1, CHR 0xBB, CHR 0x9B] @ ''c'')"

definition interactive_period ::
  "zone_libs \<Rightarrow> frequency \<Rightarrow> instant \<Rightarrow> string \<Rightarrow> (schedule_error + period \<times> string) run" where
  "interactive_period Z frequency now timezone =
     sbind (Done (parse_timezone (zl_known Z) timezone)) (\<lambda>tz.
       sok (rbind (case frequency of
              Daily \<Rightarrow> period_today Z now tz | Weekly \<Rightarrow> this_week Z now tz | Monthly \<Rightarrow> this_month Z now tz)
         (\<lambda>p. Done (p, interactive_label frequency))))"

definition scheduled_period ::
  "zone_libs \<Rightarrow> frequency \<Rightarrow> instant \<Rightarrow> string \<Rightarrow> (schedule_error + period \<times> string) run" where
  "scheduled_period Z frequency scheduled_for timezone =
     sbind (Done (parse_timezone (zl_known Z) timezone)) (\<lambda>tz.
       sok (rbind (case frequency of
              Daily \<Rightarrow> period_yesterday Z scheduled_for tz
            | Weekly \<Rightarrow> last_week Z scheduled_for tz
            | Monthly \<Rightarrow> last_month Z scheduled_for tz)
         (\<lambda>p. Done (p, scheduled_label frequency))))"

end
