(* ===== verification/Chat_Decide.thy ===== *)
theory Chat_Decide
  imports Chat_Parse Chat_Templates Schedule
begin

text \<open>
  The conversation decision, \<^verbatim>\<open>src/conversation/types.rs\<close> and \<^verbatim>\<open>decide.rs\<close>: from the account's
  context, a text and the clock to replies and commands. A message whose parse panics panics here.
\<close>

section \<open>Types\<close>

datatype lifecycle_state = LsPendingConsent | LsActive | LsSuspended

datatype pending_kind = PkManualExpense | PkReceiptReview | PkAccountDeletion

record manual_draft_view =
  dv_version :: nat
  dv_amount_minor :: int
  dv_currency :: string
  dv_merchant :: string
  dv_category_key :: string
  dv_category_display :: string
  dv_transaction_type :: string
  dv_type_label :: string
  dv_date_display :: string
  dv_occurred_at :: instant

record pending_confirmation =
  pc_kind :: pending_kind
  pc_reference_id :: uuid
  pc_optimistic_version :: nat
  pc_expires_at :: instant
  pc_draft :: manual_draft_view

record period_summary =
  ps_label :: string
  ps_currency :: string
  ps_total_minor :: int
  ps_tx_count :: nat

record account_context =
  cx_next_expense_id :: uuid
  cx_next_submission_id :: uuid
  cx_next_ingest_job_id :: uuid
  cx_lifecycle :: lifecycle_state
  cx_allowlisted :: bool
  cx_default_currency :: string
  cx_timezone :: string
  cx_locale :: string
  cx_retention_days :: nat
  cx_remaining_daily_receipts :: int
  cx_confirmed_expense_count :: nat
  cx_pending :: "pending_confirmation option"
  cx_today_summary :: "period_summary option"
  cx_week_summary :: "period_summary option"
  cx_month_summary :: "period_summary option"
  cx_schedules :: "schedule_line list"
  cx_recent_lines :: "recent_expense_line list"

datatype domain_command =
  GrantConsent string
| CreateManualAwaitingConfirmation uuid int string string string instant nat instant
| ConfirmExpense uuid nat
| RejectExpense uuid nat
| AcceptReceiptSubmission uuid uuid
| ConfirmReceipt uuid uuid nat
| RejectReceipt uuid nat
| EditReceiptDraft uuid nat "int option" "string option" "string option" "instant option" "string option"
| EditManualExpense uuid nat "int option" "string option" "string option" "instant option" "string option"
| RecategorizeLatest string
| ClearPending
| SetLocale string
| SetTimezone string
| UpsertSchedule string int
| DisableSchedule "string option"
| RequestAccountDeletion instant
| ConfirmAccountDeletion
| RequestAccountExport
| RecordInsightSnapshot string

text \<open>A \<^verbatim>\<open>ReplyPlan\<close> is its body.\<close>

record conversation_outcome =
  co_replies :: "string list"
  co_commands :: "domain_command list"

definition CONSENT_VERSION :: string where
  "CONSENT_VERSION = ''consent-v1''"

definition PENDING_CONFIRMATION_TTL_SECS :: int where
  "PENDING_CONFIRMATION_TTL_SECS = 15 * 60"

section \<open>Replies without a decision\<close>

definition context_locale :: "account_context \<Rightarrow> locale_t" where
  "context_locale ctx = locale_parse (cx_locale ctx)"

definition reply_with :: "string \<Rightarrow> domain_command list \<Rightarrow> conversation_outcome" where
  "reply_with body commands = \<lparr>co_replies = [body], co_commands = commands\<rparr>"

definition reply_only :: "string \<Rightarrow> conversation_outcome" where
  "reply_only body = \<lparr>co_replies = [body], co_commands = []\<rparr>"

definition expired_outcome :: "locale_t \<Rightarrow> bool \<Rightarrow> conversation_outcome" where
  "expired_outcome loc clear_pending =
     \<lparr>co_replies = [pending_expired_text loc], co_commands = (if clear_pending then [ClearPending] else [])\<rparr>"

definition is_pending_stale :: "pending_confirmation \<Rightarrow> instant \<Rightarrow> bool" where
  "is_pending_stale pending now \<longleftrightarrow>
     now \<ge> pc_expires_at pending \<or> pc_optimistic_version pending \<noteq> dv_version (pc_draft pending)"

text \<open>\<^verbatim>\<open>timezone.parse().unwrap_or(chrono_tz::UTC)\<close>\<close>

definition tz_or_utc :: "chat_libs \<Rightarrow> string \<Rightarrow> string" where
  "tz_or_utc L timezone = (if cl_tz_known L timezone then timezone else ''UTC'')"

definition format_date_vn :: "chat_libs \<Rightarrow> instant \<Rightarrow> string \<Rightarrow> string" where
  "format_date_vn L now timezone = cl_format_dmy L (tz_or_utc L timezone) now"

definition local_date_to_utc :: "chat_libs \<Rightarrow> date \<Rightarrow> string \<Rightarrow> instant \<Rightarrow> instant option" where
  "local_date_to_utc L date timezone fallback_now =
     (let tz = tz_or_utc L timezone in
      case cl_local_noon L tz date of
        Some t \<Rightarrow> Some t
      | None \<Rightarrow> cl_local_noon L tz (cl_local_date L tz fallback_now))"

definition reshow_card :: "chat_libs \<Rightarrow> locale_t \<Rightarrow> pending_confirmation \<Rightarrow> conversation_outcome" where
  "reshow_card L loc pending =
     (let d = pc_draft pending in
      reply_with (manual_confirmation_card loc (dv_merchant d) (format_minor L (dv_amount_minor d) (dv_currency d))
        (dv_date_display d) (dv_type_label d) (dv_category_display d)) [])"

section \<open>Edits of an open draft\<close>

record draft_patch =
  dp_amount_minor :: int
  dp_amount_minor_opt :: "int option"
  dp_merchant :: string
  dp_merchant_opt :: "string option"
  dp_category_display :: string
  dp_category_key_opt :: "string option"
  dp_type_label :: string
  dp_transaction_type_opt :: "string option"
  dp_date_display :: string
  dp_occurred_at_opt :: "instant option"

definition draft_patch_from_intent ::
  "chat_libs \<Rightarrow> locale_t \<Rightarrow> pending_confirmation \<Rightarrow> intent \<Rightarrow> instant \<Rightarrow> string \<Rightarrow> draft_patch option" where
  "draft_patch_from_intent L loc pending i now timezone =
     (let d = pc_draft pending;
          patch = \<lparr>dp_amount_minor = dv_amount_minor d, dp_amount_minor_opt = None, dp_merchant = dv_merchant d,
            dp_merchant_opt = None, dp_category_display = dv_category_display d, dp_category_key_opt = None,
            dp_type_label = dv_type_label d, dp_transaction_type_opt = None, dp_date_display = dv_date_display d,
            dp_occurred_at_opt = None\<rparr>
      in case i_kind i of
        IkEditAmount \<Rightarrow>
          Some (patch\<lparr>dp_amount_minor := i_amount_minor i, dp_amount_minor_opt := Some (i_amount_minor i)\<rparr>)
      | IkEditMerchant \<Rightarrow>
          if trim (i_merchant i) = [] then None
          else Some (patch\<lparr>dp_merchant := i_merchant i, dp_merchant_opt := Some (i_merchant i)\<rparr>)
      | IkEditCategory \<Rightarrow>
          if i_category_key i = [] then None
          else Some (patch\<lparr>dp_category_display := category_display loc (i_category_key i),
                 dp_category_key_opt := Some (i_category_key i)\<rparr>)
      | IkEditDate \<Rightarrow>
          (case i_occurred_on i of
             None \<Rightarrow> None
           | Some date \<Rightarrow>
               (case local_date_to_utc L date timezone now of
                  None \<Rightarrow> None
                | Some at \<Rightarrow> Some (patch\<lparr>dp_date_display := format_date_vn L at timezone, dp_occurred_at_opt := Some at\<rparr>)))
      | IkEditType \<Rightarrow>
          if i_transaction_type i = [] then None
          else Some (patch\<lparr>dp_type_label := transaction_type_label loc (i_transaction_type i),
                 dp_transaction_type_opt := Some (i_transaction_type i)\<rparr>)
      | _ \<Rightarrow> None)"

definition invalid_edit_or_category :: "locale_t \<Rightarrow> intent \<Rightarrow> string" where
  "invalid_edit_or_category loc i =
     (if i_kind i = IkEditCategory then invalid_category_text loc (format_category_list loc) else invalid_edit_text loc)"

definition patched_card :: "chat_libs \<Rightarrow> locale_t \<Rightarrow> pending_confirmation \<Rightarrow> draft_patch \<Rightarrow> string" where
  "patched_card L loc pending patch =
     manual_confirmation_card loc (dp_merchant patch)
       (format_minor L (dp_amount_minor patch) (dv_currency (pc_draft pending))) (dp_date_display patch)
       (dp_type_label patch) (dp_category_display patch)"

definition apply_receipt_edit ::
  "chat_libs \<Rightarrow> account_context \<Rightarrow> pending_confirmation \<Rightarrow> intent \<Rightarrow> instant \<Rightarrow> conversation_outcome" where
  "apply_receipt_edit L ctx pending i now =
     (let loc = context_locale ctx in
      case draft_patch_from_intent L loc pending i now (cx_timezone ctx) of
        None \<Rightarrow> reply_only (invalid_edit_or_category loc i)
      | Some patch \<Rightarrow>
          reply_with (patched_card L loc pending patch)
            [EditReceiptDraft (pc_reference_id pending) (pc_optimistic_version pending) (dp_amount_minor_opt patch)
               (dp_merchant_opt patch) (dp_category_key_opt patch) (dp_occurred_at_opt patch)
               (dp_transaction_type_opt patch)])"

definition apply_manual_edit ::
  "chat_libs \<Rightarrow> account_context \<Rightarrow> pending_confirmation \<Rightarrow> intent \<Rightarrow> instant \<Rightarrow> conversation_outcome" where
  "apply_manual_edit L ctx pending i now =
     (let loc = context_locale ctx in
      case draft_patch_from_intent L loc pending i now (cx_timezone ctx) of
        None \<Rightarrow> reply_only (invalid_edit_or_category loc i)
      | Some patch \<Rightarrow>
          reply_with (patched_card L loc pending patch)
            [EditManualExpense (pc_reference_id pending) (pc_optimistic_version pending) (dp_amount_minor_opt patch)
               (dp_merchant_opt patch) (dp_category_key_opt patch) (dp_occurred_at_opt patch)
               (dp_transaction_type_opt patch)])"

section \<open>Answers to an open confirmation\<close>

definition draft_confirmed_text :: "chat_libs \<Rightarrow> locale_t \<Rightarrow> manual_draft_view \<Rightarrow> string" where
  "draft_confirmed_text L loc d =
     confirmed_text loc (format_minor L (dv_amount_minor d) (dv_currency d)) (dv_merchant d) (dv_category_display d)"

definition resolve_deletion_pending ::
  "account_context \<Rightarrow> pending_confirmation \<Rightarrow> intent \<Rightarrow> conversation_outcome" where
  "resolve_deletion_pending ctx pending i =
     (let loc = context_locale ctx in
      case i_kind i of
        IkConfirm \<Rightarrow> reply_with (delete_accepted_text loc (cx_confirmed_expense_count ctx)) [ConfirmAccountDeletion]
      | IkDiscard \<Rightarrow> reply_with (delete_cancelled_text loc) [ClearPending]
      | _ \<Rightarrow> reply_with (delete_confirm_text loc (cx_confirmed_expense_count ctx)) [])"

definition resolve_manual_pending ::
  "chat_libs \<Rightarrow> account_context \<Rightarrow> pending_confirmation \<Rightarrow> intent \<Rightarrow> instant \<Rightarrow> conversation_outcome" where
  "resolve_manual_pending L ctx pending i now =
     (let loc = context_locale ctx in
      if i_kind i = IkConfirm then
        reply_with (draft_confirmed_text L loc (pc_draft pending))
          [ConfirmExpense (pc_reference_id pending) (pc_optimistic_version pending), ClearPending]
      else if i_kind i = IkDiscard then
        reply_with (discarded_text loc)
          [RejectExpense (pc_reference_id pending) (pc_optimistic_version pending), ClearPending]
      else if i_kind i \<in> {IkEditAmount, IkEditMerchant, IkEditCategory, IkEditDate, IkEditType} then
        apply_manual_edit L ctx pending i now
      else reshow_card L loc pending)"

definition resolve_receipt_pending ::
  "chat_libs \<Rightarrow> account_context \<Rightarrow> pending_confirmation \<Rightarrow> intent \<Rightarrow> instant \<Rightarrow> conversation_outcome" where
  "resolve_receipt_pending L ctx pending i now =
     (let loc = context_locale ctx in
      if i_kind i = IkConfirm then
        reply_with (draft_confirmed_text L loc (pc_draft pending))
          [ConfirmReceipt (pc_reference_id pending) (cx_next_expense_id ctx) (pc_optimistic_version pending), ClearPending]
      else if i_kind i = IkDiscard then
        reply_with (discarded_text loc)
          [RejectReceipt (pc_reference_id pending) (pc_optimistic_version pending), ClearPending]
      else if i_kind i \<in> {IkEditAmount, IkEditMerchant, IkEditCategory, IkEditDate, IkEditType} then
        apply_receipt_edit L ctx pending i now
      else reshow_card L loc pending)"

definition resolve_pending ::
  "chat_libs \<Rightarrow> account_context \<Rightarrow> pending_confirmation \<Rightarrow> intent \<Rightarrow> instant \<Rightarrow> conversation_outcome" where
  "resolve_pending L ctx pending i now =
     (if pc_optimistic_version pending \<noteq> dv_version (pc_draft pending) then expired_outcome (context_locale ctx) True
      else case pc_kind pending of
        PkAccountDeletion \<Rightarrow> resolve_deletion_pending ctx pending i
      | PkManualExpense \<Rightarrow> resolve_manual_pending L ctx pending i now
      | PkReceiptReview \<Rightarrow> resolve_receipt_pending L ctx pending i now)"

section \<open>Commands\<close>

definition handle_set_language :: "account_context \<Rightarrow> intent \<Rightarrow> conversation_outcome" where
  "handle_set_language ctx i =
     (if i_locale i = [] then reply_only (invalid_language_text (context_locale ctx))
      else let next = locale_parse (i_locale i)
        in reply_with (language_updated_text next) [SetLocale (as_account_value next)])"

definition handle_recategorize :: "account_context \<Rightarrow> intent \<Rightarrow> conversation_outcome" where
  "handle_recategorize ctx i =
     (let loc = context_locale ctx in
      if i_category_key i = [] then reply_only (invalid_category_text loc (format_category_list loc))
      else
        let display = category_display loc (i_category_key i);
            merchant = (case cx_recent_lines ctx of [] \<Rightarrow> [] | l # _ \<Rightarrow> rl_merchant l)
        in if merchant = [] \<and> cx_recent_lines ctx = [] then reply_only (no_expense_to_recategorize_text loc)
           else reply_with
             (recategorized_text loc (if merchant = [] then [CHR 0xE2, CHR 0x80, CHR 0x94] else merchant) display)
             [RecategorizeLatest (i_category_key i)])"

definition handle_export :: "locale_t \<Rightarrow> conversation_outcome" where
  "handle_export loc = reply_with (export_accepted_text loc) [RequestAccountExport]"

definition handle_delete :: "account_context \<Rightarrow> instant \<Rightarrow> conversation_outcome" where
  "handle_delete ctx now =
     reply_with (delete_confirm_text (context_locale ctx) (cx_confirmed_expense_count ctx))
       [RequestAccountDeletion (now + secs PENDING_CONFIRMATION_TTL_SECS)]"

definition create_manual :: "chat_libs \<Rightarrow> account_context \<Rightarrow> intent \<Rightarrow> instant \<Rightarrow> conversation_outcome" where
  "create_manual L ctx i now =
     (let loc = context_locale ctx; merchant = i_description i in
      reply_with
        (manual_confirmation_card loc merchant (format_minor L (i_amount_minor i) (i_currency i))
           (format_date_vn L now (cx_timezone ctx)) (default_type_label loc) (default_category_display loc))
        [CreateManualAwaitingConfirmation (cx_next_expense_id ctx) (i_amount_minor i) (i_currency i) (i_description i)
           merchant now 1 (now + secs PENDING_CONFIRMATION_TTL_SECS)])"

definition render_period_summary ::
  "chat_libs \<Rightarrow> locale_t \<Rightarrow> period_summary option \<Rightarrow> string \<Rightarrow> conversation_outcome" where
  "render_period_summary L loc summary fallback_label =
     reply_only (case summary of
       Some s \<Rightarrow> if ps_tx_count s = 0 then empty_summary_text loc (ps_label s)
                 else today_summary_text L loc (ps_label s) (ps_currency s) (ps_total_minor s)
     | None \<Rightarrow> empty_summary_text loc fallback_label)"

definition with_insight_snapshot :: "conversation_outcome \<Rightarrow> string \<Rightarrow> conversation_outcome" where
  "with_insight_snapshot outcome period_kind =
     outcome\<lparr>co_commands := co_commands outcome @ [RecordInsightSnapshot period_kind]\<rparr>"

definition render_today :: "chat_libs \<Rightarrow> account_context \<Rightarrow> conversation_outcome" where
  "render_today L ctx =
     (let loc = context_locale ctx in
      with_insight_snapshot (render_period_summary L loc (cx_today_summary ctx) (period_label_today loc)) ''day'')"

definition render_week :: "chat_libs \<Rightarrow> account_context \<Rightarrow> conversation_outcome" where
  "render_week L ctx =
     (let loc = context_locale ctx in
      with_insight_snapshot (render_period_summary L loc (cx_week_summary ctx) (period_label_week loc)) ''week'')"

definition render_month :: "chat_libs \<Rightarrow> account_context \<Rightarrow> conversation_outcome" where
  "render_month L ctx =
     (let loc = context_locale ctx in
      with_insight_snapshot (render_period_summary L loc (cx_month_summary ctx) (period_label_month loc)) ''month'')"

definition handle_settings :: "account_context \<Rightarrow> intent \<Rightarrow> conversation_outcome" where
  "handle_settings ctx i =
     (let loc = context_locale ctx in
      if i_timezone i = []
      then reply_only (settings_text loc (cx_timezone ctx) (cx_default_currency ctx) (cx_schedules ctx))
      else reply_only (invalid_settings_text loc))"

definition handle_timezone :: "chat_libs \<Rightarrow> account_context \<Rightarrow> intent \<Rightarrow> conversation_outcome" where
  "handle_timezone L ctx i =
     (let loc = context_locale ctx in
      if i_timezone i = [] \<or> isl (parse_timezone (cl_tz_known L) (i_timezone i))
      then reply_only (invalid_timezone_text loc)
      else reply_with
        (settings_updated_text loc (settings_label_timezone loc) (i_timezone i) (i_timezone i) (cx_default_currency ctx)
           (cx_schedules ctx))
        [SetTimezone (i_timezone i)])"

definition handle_schedule :: "account_context \<Rightarrow> intent \<Rightarrow> conversation_outcome" where
  "handle_schedule ctx i =
     (let loc = context_locale ctx in
      if i_disable_all_schedules i then reply_with (schedule_disabled_text loc None) [DisableSchedule None]
      else if i_disable_schedule i then
        reply_with (schedule_disabled_text loc (Some (i_schedule_frequency i)))
          [DisableSchedule (Some (i_schedule_frequency i))]
      else if i_schedule_frequency i = [] then reply_only (schedule_text loc (cx_schedules ctx))
      else if isl (validate_delivery_minute (i_delivery_minute i)) then reply_only (schedule_invalid_text loc)
      else reply_with (schedule_set_text loc (i_schedule_frequency i) (i_delivery_minute i))
        [UpsertSchedule (i_schedule_frequency i) (i_delivery_minute i)])"

section \<open>The decision\<close>

definition handle_pending_consent :: "chat_libs \<Rightarrow> account_context \<Rightarrow> string \<Rightarrow> conversation_outcome run" where
  "handle_pending_consent L ctx text =
     (let loc = context_locale ctx in
      rbind (parse_intent L text ''VND'') (\<lambda>i. Done (
        case i_kind i of
          IkConfirm \<Rightarrow> reply_with (welcome_text loc) [GrantConsent CONSENT_VERSION]
        | IkPrivacy \<Rightarrow> reply_only (privacy_text loc (cx_retention_days ctx))
        | IkSetLanguage \<Rightarrow> handle_set_language ctx i
        | _ \<Rightarrow> reply_with (consent_card_text loc) [])))"

text \<open>The last \<^verbatim>\<open>match\<close> of \<^verbatim>\<open>handle_active\<close>, for a message that answers no open confirmation.\<close>

definition handle_active_intent ::
  "chat_libs \<Rightarrow> account_context \<Rightarrow> intent \<Rightarrow> instant \<Rightarrow> conversation_outcome" where
  "handle_active_intent L ctx i now =
     (let loc = context_locale ctx in
      case i_kind i of
        IkStart \<Rightarrow> reply_only (help_text loc)
      | IkHelp \<Rightarrow> reply_only (help_text loc)
      | IkPrivacy \<Rightarrow> reply_only (privacy_text loc (cx_retention_days ctx))
      | IkToday \<Rightarrow> render_today L ctx
      | IkWeek \<Rightarrow> render_week L ctx
      | IkMonth \<Rightarrow> render_month L ctx
      | IkRecent \<Rightarrow> reply_only (recent_text L loc (cx_recent_lines ctx))
      | IkSettings \<Rightarrow> handle_settings ctx i
      | IkTimezone \<Rightarrow> handle_timezone L ctx i
      | IkSchedule \<Rightarrow> handle_schedule ctx i
      | IkExport \<Rightarrow> handle_export loc
      | IkDelete \<Rightarrow> handle_delete ctx now
      | IkManualEntry \<Rightarrow> create_manual L ctx i now
      | IkListCategories \<Rightarrow> reply_only (categories_list_text loc (format_category_list loc))
      | IkSetLanguage \<Rightarrow> handle_set_language ctx i
      | IkRecategorizeLatest \<Rightarrow> handle_recategorize ctx i
      | IkNone \<Rightarrow> reply_only (unknown_text loc)
      | _ \<Rightarrow> expired_outcome loc False)"

definition handle_active ::
  "chat_libs \<Rightarrow> account_context \<Rightarrow> string \<Rightarrow> instant \<Rightarrow> conversation_outcome run" where
  "handle_active L ctx text now =
     (let loc = context_locale ctx in
      rbind (parse_intent L text (cx_default_currency ctx)) (\<lambda>i. Done (
        case cx_pending ctx of
          Some pending \<Rightarrow>
            if \<not> (starts_with (trim_start text) ''/'' \<and> is_explicit_slash_command (i_kind i)) then
              (if is_pending_stale pending now then expired_outcome loc True
               else resolve_pending L ctx pending i now)
            else handle_active_intent L ctx i now
        | None \<Rightarrow> handle_active_intent L ctx i now)))"

definition decide :: "chat_libs \<Rightarrow> account_context \<Rightarrow> string \<Rightarrow> instant \<Rightarrow> conversation_outcome run" where
  "decide L ctx text now =
     (let loc = context_locale ctx in
      if \<not> cx_allowlisted ctx then Done (reply_with (not_allowed_text loc) [])
      else case cx_lifecycle ctx of
        LsSuspended \<Rightarrow> Done (reply_with (suspended_text loc) [])
      | LsPendingConsent \<Rightarrow> handle_pending_consent L ctx text
      | LsActive \<Rightarrow> handle_active L ctx text now)"

definition decide_image :: "account_context \<Rightarrow> conversation_outcome" where
  "decide_image ctx =
     (let loc = context_locale ctx in
      if \<not> cx_allowlisted ctx then reply_with (not_allowed_text loc) []
      else case cx_lifecycle ctx of
        LsSuspended \<Rightarrow> reply_with (suspended_text loc) []
      | LsPendingConsent \<Rightarrow> reply_with (consent_card_text loc) []
      | LsActive \<Rightarrow>
          if cx_remaining_daily_receipts ctx \<le> 0 then reply_with (daily_receipt_quota_text loc) []
          else reply_with (image_received_text loc)
            [AcceptReceiptSubmission (cx_next_submission_id ctx) (cx_next_ingest_job_id ctx)])"

end
