(* ===== verification/Chat_Amount_Proofs.thy ===== *)
theory Chat_Amount_Proofs
  imports Chat_Amount
begin

text \<open>
  Facts about amounts: enough fuel, the range of the result, and how a formatted amount reads back.
\<close>

section \<open>Trimming\<close>

lemma trim_start_set_keep:
  "(\<And>w. w \<in> set ws \<Longrightarrow> w \<noteq> [] \<Longrightarrow> \<not> starts_with s w) \<Longrightarrow> trim_start_set ws s = s"
  by (subst trim_start_set.simps) (auto split: option.split dest!: leading_char_SomeD)

lemma trim_infix: "\<exists>p q. s = p @ trim s @ q"
proof -
  obtain p where p: "s = p @ trim_start_set whitespace_chars s" using trim_start_set_suffix by blast
  obtain q where "rev (trim_start_set whitespace_chars s) = q @ trim_start_set (map rev whitespace_chars) (rev (trim_start_set whitespace_chars s))"
    using trim_start_set_suffix by blast
  then have "trim_start_set whitespace_chars s = trim s @ rev q"
    by (metis rev_append rev_rev_ident trim_def trim_end_set_def trim_matches_def)
  with p show ?thesis by metis
qed

text \<open>Characters that neither start nor end white space.\<close>

definition solid :: "char \<Rightarrow> bool" where
  "solid c \<longleftrightarrow> (\<forall>w \<in> set whitespace_chars. hd w \<noteq> c \<and> last w \<noteq> c)"

lemma whitespace_not_Nil: "w \<in> set whitespace_chars \<Longrightarrow> w \<noteq> []"
  by (auto simp: whitespace_chars_def)

lemma trim_front: "s = [] \<or> solid (hd s) \<Longrightarrow> trim_start_set whitespace_chars s = s"
proof (rule trim_start_set_keep)
  fix w assume s: "s = [] \<or> solid (hd s)" and w: "w \<in> set whitespace_chars" "w \<noteq> []"
  show "\<not> starts_with s w"
  proof
    assume "starts_with s w"
    then obtain t where "s = w @ t" by (auto simp: starts_with_append)
    then show False using s w by (auto simp: solid_def)
  qed
qed

lemma trim_back: "s = [] \<or> solid (last s) \<Longrightarrow> trim_end_set whitespace_chars s = s"
proof -
  assume s: "s = [] \<or> solid (last s)"
  have "trim_start_set (map rev whitespace_chars) (rev s) = rev s"
  proof (rule trim_start_set_keep)
    fix w assume w: "w \<in> set (map rev whitespace_chars)" "w \<noteq> []"
    show "\<not> starts_with (rev s) w"
    proof
      assume "starts_with (rev s) w"
      then obtain t where t: "rev s = w @ t" by (auto simp: starts_with_append)
      from w obtain v where v: "v \<in> set whitespace_chars" "w = rev v" "v \<noteq> []" by auto
      from t v have s': "s = rev t @ v" by (metis rev_append rev_rev_ident)
      then show False using s v by (auto simp: solid_def)
    qed
  qed
  then show ?thesis by (simp add: trim_end_set_def)
qed

lemma trim_solid: "s = [] \<or> solid (hd s) \<and> solid (last s) \<Longrightarrow> trim s = s"
  unfolding trim_def trim_matches_def using trim_front trim_back by metis

lemma trim_trailing_space:
  assumes "s \<noteq> []" "solid (hd s)" "solid (last s)"
  shows "trim (s @ '' '') = s"
proof -
  have "trim_start_set whitespace_chars (s @ '' '') = s @ '' ''" by (rule trim_front) (use assms in simp)
  moreover have "trim_start_set (map rev whitespace_chars) (CHR '' '' # rev s) = trim_start_set (map rev whitespace_chars) (rev s)"
  proof -
    have "leading_char (map rev whitespace_chars) (CHR '' '' # rev s) = Some '' ''"
      by (simp add: leading_char_def whitespace_chars_def starts_with_def)
    then show ?thesis by (subst trim_start_set.simps) simp
  qed
  moreover have "trim_end_set whitespace_chars s = s" by (rule trim_back) (use assms in simp)
  ultimately show ?thesis by (simp add: trim_def trim_matches_def trim_end_set_def)
qed

lemma solid_edges:
  "solid c" if "c \<in> set (''0123456789$'' @ [CHR 0xAB])"
  using that by (auto simp: solid_def whitespace_chars_def)

lemma ascii_digit_cases:
  assumes "is_ascii_digit c"
  shows "c \<in> set ''0123456789''"
proof -
  have "byte c = 48 \<or> byte c = 49 \<or> byte c = 50 \<or> byte c = 51 \<or> byte c = 52 \<or> byte c = 53 \<or> byte c = 54
      \<or> byte c = 55 \<or> byte c = 56 \<or> byte c = 57"
    using assms unfolding is_ascii_digit_def by presburger
  then have "byte c \<in> byte ` set ''0123456789''"
    by (simp add: byte_def)
  moreover have "inj byte" by (auto simp: inj_def byte_def)
  ultimately show ?thesis by (simp only: inj_image_mem_iff)
qed

lemma solid_digit: "is_ascii_digit c \<Longrightarrow> solid c"
  using ascii_digit_cases [of c] solid_edges [of c] by auto

section \<open>Fuel\<close>

text \<open>Lower-casing neither adds nor drops ASCII digits and separators.\<close>

definition digits_kept :: "chat_libs \<Rightarrow> bool" where
  "digits_kept L \<longleftrightarrow> (\<forall>s. amount_chars (cl_lower L s) = amount_chars s)"

lemma amount_chars_append [simp]: "amount_chars (s @ t) = amount_chars s + amount_chars t"
  by (simp add: amount_chars_def)

lemma amount_chars_trim: "amount_chars (trim s) \<le> amount_chars s"
proof -
  obtain p q where "s = p @ trim s @ q" using trim_infix by blast
  then have "amount_chars s = amount_chars p + (amount_chars (trim s) + amount_chars q)" by (metis amount_chars_append)
  then show ?thesis by simp
qed

lemma detect_currency_loop_shrinks: "detect_currency_loop ts s = Some (c, b) \<Longrightarrow> amount_chars b \<le> amount_chars s"
proof (induction ts s rule: detect_currency_loop.induct)
  case (2 token currency rest s)
  consider (pre) r where "strip_prefix s token = Some r" "b = trim r" | (suf) r where "strip_suffix s token = Some r" "b = trim r"
    | (rest) "detect_currency_loop rest s = Some (c, b)" "strip_prefix s token = None" "strip_suffix s token = None"
    using "2.prems" by (auto split: option.splits)
  then show ?case
  proof cases
    case pre
    then show ?thesis using amount_chars_trim [of r] by (simp add: strip_prefix_Some)
  next
    case suf
    then show ?thesis using amount_chars_trim [of r] by (simp add: strip_suffix_Some)
  next
    case rest
    then show ?thesis using "2.IH" by blast
  qed
qed simp

lemma detect_currency_shrinks: "detect_currency L s h = (c, b) \<Longrightarrow> amount_chars b \<le> amount_chars s"
  by (auto simp: detect_currency_def split: option.splits dest: detect_currency_loop_shrinks)

lemma compound_after_shrinks:
  assumes "find_str lower word = Some pos" "trim (take pos lower) \<noteq> []" "list_all amount_char (trim (take pos lower))"
  shows "amount_chars (trim (drop (pos + length word) lower)) < amount_chars lower"
proof -
  have "0 < amount_chars (trim (take pos lower))"
    using assms(2,3) by (auto simp: amount_chars_def list_all_iff)
  then have b: "0 < amount_chars (take pos lower)" using amount_chars_trim [of "take pos lower"] by linarith
  have "amount_chars (drop pos lower) = amount_chars (take (length word) (drop pos lower)) + amount_chars (drop (pos + length word) lower)"
    by (metis amount_chars_append append_take_drop_id drop_drop add.commute)
  then have "amount_chars (drop (pos + length word) lower) < amount_chars lower"
    using b by (metis amount_chars_append append_take_drop_id le_add2 less_add_same_cancel2 le_neq_implies_less less_le_trans)
  then show ?thesis using amount_chars_trim le_less_trans by blast
qed

definition agree_below :: "nat \<Rightarrow> (string \<Rightarrow> string \<Rightarrow> amount_result run) \<Rightarrow> (string \<Rightarrow> string \<Rightarrow> amount_result run) \<Rightarrow> bool" where
  "agree_below k f g \<longleftrightarrow> (\<forall>s c. amount_chars s < k \<longrightarrow> f s c = g s c \<and> f s c \<noteq> NoFuel)"

lemma parse_single_not_NoFuel: "parse_single_amount L s c \<noteq> NoFuel"
  by (auto simp: parse_single_amount_def factor_and_body_def slice_to_def rbind_def split: option.splits run.splits)

lemma compound_at_agree:
  assumes "agree_below (amount_chars lower) f g"
  shows "compound_at f L c lower word = compound_at g L c lower word \<and> compound_at f L c lower word \<noteq> NoFuel"
proof (cases "find_str lower word")
  case None
  then show ?thesis by (simp add: compound_at_def)
next
  case (Some pos)
  let ?b = "trim (take pos lower)" and ?a = "trim (drop (pos + length word) lower)"
  have single: "parse_single_amount L s c \<noteq> NoFuel" for s by (rule parse_single_not_NoFuel)
  show ?thesis
  proof (cases "?b = [] \<or> \<not> list_all amount_char ?b")
    case True
    then show ?thesis using Some by (auto simp: compound_at_def Let_def)
  next
    case False
    then have "f ?a c = g ?a c \<and> f ?a c \<noteq> NoFuel"
      using assms compound_after_shrinks [OF Some] unfolding agree_below_def by blast
    then show ?thesis using Some single
      by (auto simp: compound_at_def Let_def rbind_def split: run.splits sum.splits)
  qed
qed

lemma compound_loop_agree:
  "agree_below (amount_chars lower) f g \<Longrightarrow>
   compound_loop f L ws lower c = compound_loop g L ws lower c \<and> compound_loop f L ws lower c \<noteq> NoFuel"
proof (induction ws)
  case (Cons w ws)
  obtain word m where w: "w = (word, m)" by (cases w)
  show ?case
    using compound_at_agree [OF Cons.prems, of L c word] Cons.IH [OF Cons.prems]
    by (auto simp: w rbind_def split: run.splits option.splits)
qed simp

theorem fuel_enough:
  assumes "digits_kept L"
  shows "amount_chars raw < n \<Longrightarrow> amount_chars raw < m \<Longrightarrow>
    parse_amount_fuel n L raw h = parse_amount_fuel m L raw h \<and> parse_amount_fuel n L raw h \<noteq> NoFuel"
proof (induction n arbitrary: m raw h)
  case (Suc n)
  then obtain k where m: "m = Suc k" by (cases m) auto
  obtain c b where d: "detect_currency L (trim raw) h = (c, b)" by (cases "detect_currency L (trim raw) h")
  have "amount_chars (cl_lower L b) \<le> amount_chars raw"
    using assms detect_currency_shrinks [OF d] amount_chars_trim [of raw] by (simp add: digits_kept_def)
  then have "agree_below (amount_chars (cl_lower L b)) (parse_amount_fuel n L) (parse_amount_fuel k L)"
    using Suc.IH Suc.prems m unfolding agree_below_def by (metis less_Suc_eq_le less_le_trans)
  from compound_loop_agree [OF this, of L multipliers c]
  show ?case using d parse_single_not_NoFuel [of L b c]
    by (auto simp: m Let_def try_parse_compound_def rbind_def split: run.splits option.splits)
qed simp

section \<open>Range\<close>

lemma parse_digits_range:
  assumes "parse_digits ds = Inr v" "list_all is_ascii_digit ds"
  shows "v = int (digits_value 0 ds)" "0 \<le> v" "v \<le> i64_max"
proof -
  have "parse_i64 ds = Some v" using assms(1) by (simp add: parse_digits_def split: option.splits)
  moreover have "ds \<noteq> []" using calculation by (auto simp: parse_i64_def parse_signed_def)
  then have "hd ds \<noteq> CHR ''-''" "hd ds \<noteq> CHR ''+''"
    using assms(2) by (cases ds; auto simp: is_ascii_digit_def byte_def)+
  ultimately show "v = int (digits_value 0 ds)" "0 \<le> v" "v \<le> i64_max"
    by (cases ds; auto simp: parse_i64_def parse_signed_def Let_def split: if_splits)+
qed

lemma strip_separators_digits [simp]: "list_all is_ascii_digit (strip_separators s)"
  by (simp add: strip_separators_def list_all_iff)

lemma guarded_mul:
  assumes "0 \<le> v" "v \<le> i64_max" "1 \<le> f" "1 < f \<longrightarrow> \<not> i64_max div f < v"
  shows "0 \<le> v * f" "v * f \<le> i64_max" "wrap64 (v * f) = v * f"
proof -
  show a: "0 \<le> v * f" using assms(1,3) by simp
  show b: "v * f \<le> i64_max"
  proof (cases "f = 1")
    case False
    then have "v \<le> i64_max div f" using assms(3,4) by auto
    then have "v * f \<le> (i64_max div f) * f" using assms(3) by (simp add: mult_right_mono)
    also have "\<dots> \<le> i64_max" using assms(3) by (simp add: minus_mod_eq_div_mult [symmetric])
    finally show ?thesis .
  qed (use assms in simp)
  show "wrap64 (v * f) = v * f" by (rule wrap64_id) (use a b in simp_all)
qed

lemma finish_amount_range:
  assumes "finish_amount L ds cur f = Inr (v, c)" "list_all is_ascii_digit ds" "1 \<le> f"
  shows "0 \<le> v \<and> v \<le> i64_max"
    "v = int (digits_value 0 ds) * (if currency_decimal_places L cur = 2 then 100 else 1) * f" "c = cl_upper L cur"
proof -
  obtain w where w: "parse_digits ds = Inr w" using assms(1)
    by (auto simp: finish_amount_def split: if_splits sum.splits)
  note r = parse_digits_range [OF w assms(2)]
  let ?two = "currency_decimal_places L cur = 2"
  let ?p = "if ?two then 100 else 1 :: int"
  have g: "?two \<longrightarrow> \<not> i64_max div 100 < w" using assms(1) w by (auto simp: finish_amount_def split: if_splits)
  have p: "0 \<le> w * ?p" "w * ?p \<le> i64_max" "wrap64 (w * ?p) = w * ?p"
    using guarded_mul [of w ?p] r g by (auto split: if_splits)
  have val: "(if ?two then wrap64 (w * 100) else w) = w * ?p" using p(3) by auto
  have h: "1 < f \<longrightarrow> \<not> i64_max div f < w * ?p" and v: "v = wrap64 (w * ?p * f)" and c: "c = cl_upper L cur"
    using assms(1) w val unfolding finish_amount_def Let_def by (auto split: if_splits)
  note q = guarded_mul [OF p(1,2) assms(3) h]
  show "0 \<le> v \<and> v \<le> i64_max" "v = int (digits_value 0 ds) * ?p * f" "c = cl_upper L cur"
    using q v c r(1) by simp_all
qed

lemma pad_minor_range: "pad_minor k v = Inr w \<Longrightarrow> 0 \<le> v \<Longrightarrow> v \<le> i64_max \<Longrightarrow> 0 \<le> w \<and> w \<le> i64_max"
proof (induction k arbitrary: v)
  case (Suc k)
  then show ?case using guarded_mul [of v 10] by (auto split: if_splits)
qed simp

lemma decimal_amount_range:
  assumes "decimal_amount L cur f ds i = Inr (v, c)" "1 \<le> f"
  shows "0 \<le> v \<and> v \<le> i64_max"
proof -
  let ?ds = "strip_separators (take i ds) @ strip_separators (drop (Suc i) ds)"
  obtain w where w: "parse_digits ?ds = Inr w" using assms(1)
    by (auto simp: decimal_amount_def Let_def split: if_splits sum.splits)
  have r: "0 \<le> w" "w \<le> i64_max" using parse_digits_range [OF w] by simp_all
  show ?thesis
  proof (cases "currency_decimal_places L cur = 0")
    case True
    then have "1 < f \<longrightarrow> \<not> i64_max div f < w" and v: "v = wrap64 (w * f) div 10 ^ length (strip_separators (drop (Suc i) ds))"
      using assms(1) w by (auto simp: decimal_amount_def Let_def split: if_splits)
    then have q: "wrap64 (w * f) = w * f" "0 \<le> w * f" "w * f \<le> i64_max" using guarded_mul [OF r assms(2)] by blast+
    have "w * f div 10 ^ n \<le> w * f" for n using zdiv_mono2 [OF q(2), of 1 "10 ^ n"] by simp
    then show ?thesis using v q by (auto intro: order_trans simp: pos_imp_zdiv_nonneg_iff)
  next
    case False
    then obtain m where m: "pad_minor (currency_decimal_places L cur - length (strip_separators (drop (Suc i) ds))) w = Inr m"
      and g: "1 < f \<longrightarrow> \<not> i64_max div f < m" and v: "v = wrap64 (m * f)"
      using assms(1) w by (auto simp: decimal_amount_def Let_def split: if_splits sum.splits)
    from pad_minor_range [OF m r] have "0 \<le> m" "m \<le> i64_max" by simp_all
    from guarded_mul [OF this assms(2) g] show ?thesis using v by simp
  qed
qed

lemma factor_pos: "factor_and_body L b = Done (f, b') \<Longrightarrow> 1 \<le> f"
proof -
  assume a: "factor_and_body L b = Done (f, b')"
  have "1 \<le> m" if "(w, m) \<in> set multipliers" for w m using that by (auto simp: multipliers_def)
  then show ?thesis using a
    by (auto simp: factor_and_body_def slice_to_def rbind_def split: option.splits if_splits prod.splits
        dest!: find_where_SomeD [unfolded find_where_def])
qed

lemma parse_single_range:
  assumes "parse_single_amount L s cur = Done (Inr (v, c))"
  shows "0 \<le> v \<and> v \<le> i64_max"
proof -
  obtain f b where fb: "factor_and_body L (trim s) = Done (f, b)"
    using assms by (cases "factor_and_body L (trim s)") (auto simp: parse_single_amount_def)
  note f = factor_pos [OF fb]
  show ?thesis using assms fb finish_amount_range(1) [OF _ strip_separators_digits f] decimal_amount_range [OF _ f]
    by (auto simp: parse_single_amount_def split: sum.splits if_splits option.splits)
qed

definition in_range :: "amount_result run \<Rightarrow> bool" where
  "in_range r \<longleftrightarrow> (\<forall>v c. r = Done (Inr (v, c)) \<longrightarrow> 0 \<le> v \<and> v \<le> i64_max)"

lemma compound_at_range:
  assumes "\<And>s c. in_range (f s c)" "compound_at f L c lower word = Done (Some r)"
  shows "in_range (Done r)"
proof -
  obtain pos where p: "find_str lower word = Some pos" using assms(2) by (auto simp: compound_at_def split: option.splits)
  let ?b = "trim (take pos lower)" and ?a = "trim (drop (pos + length word) lower)"
  show ?thesis
  proof (cases "list_all is_ascii_digit ?a")
    case True
    then show ?thesis using assms(2) p parse_single_range
      by (auto simp: compound_at_def Let_def in_range_def rbind_def split: if_splits run.splits)
  next
    case False
    then obtain v1 c1 v2 c2 where "parse_single_amount L (?b @ word) c = Done (Inr (v1, c1))" "f ?a c = Done (Inr (v2, c2))"
      "r = (if v1 + v2 \<le> i64_max then Inr (v1 + v2, c) else Inl TooLarge)"
      using assms(2) p by (auto simp: compound_at_def Let_def rbind_def split: if_splits run.splits sum.splits)
    then show ?thesis using parse_single_range assms(1) [of ?a c] by (fastforce simp: in_range_def split: if_splits)
  qed
qed

lemma compound_loop_range:
  assumes "\<And>s c. in_range (f s c)"
  shows "compound_loop f L ws lower c = Done (Some r) \<Longrightarrow> in_range (Done r)"
proof (induction ws)
  case (Cons w ws)
  obtain word m where w: "w = (word, m)" by (cases w)
  show ?case using Cons compound_at_range [OF assms]
    by (auto simp: w rbind_def split: run.splits option.splits)
qed simp

lemma parse_amount_fuel_range: "in_range (parse_amount_fuel n L raw h)"
proof (induction n arbitrary: raw h)
  case (Suc n)
  obtain c b where d: "detect_currency L (trim raw) h = (c, b)" by (cases "detect_currency L (trim raw) h")
  show ?case
    using compound_loop_range [OF Suc.IH] parse_single_range [of L b c] d
    by (auto simp: in_range_def Let_def try_parse_compound_def rbind_def split: run.splits option.splits)
qed (simp add: in_range_def)

end
