(* ===== verification/Chat_Money_Properties.thy ===== *)
theory Chat_Money_Properties
  imports Chat_Amount_Proofs
begin

text \<open>
  The properties of amounts: a formatted amount read back, the range of what is read, that the
  reader returns, and where it panics.
\<close>

section \<open>ASCII text under the case mapping\<close>

definition is_ascii :: "char \<Rightarrow> bool" where
  "is_ascii c \<longleftrightarrow> byte c < 128"

definition ascii_upper_char :: "char \<Rightarrow> char" where
  "ascii_upper_char c = (if 97 \<le> byte c \<and> byte c \<le> 122 then char_of (byte c - 32) else c)"

text \<open>The Unicode case mapping restricted to ASCII text.\<close>

definition ascii_case :: "chat_libs \<Rightarrow> bool" where
  "ascii_case L \<longleftrightarrow>
     (\<forall>s. list_all is_ascii s \<longrightarrow> cl_lower L s = to_ascii_lowercase s \<and> cl_upper L s = map ascii_upper_char s)"

lemma amount_text_ascii: "list_all amount_char s \<Longrightarrow> list_all is_ascii s"
  by (induction s) (auto simp: amount_char_def is_ascii_def is_ascii_digit_def is_separator_def byte_def)

lemma amount_text_lower: "ascii_case L \<Longrightarrow> list_all amount_char s \<Longrightarrow> cl_lower L s = s"
proof -
  assume L: "ascii_case L" and s: "list_all amount_char s"
  have "ascii_lower_char c = c" if "amount_char c" for c
    using that by (auto simp: amount_char_def ascii_lower_char_def is_ascii_uppercase_def is_ascii_digit_def is_separator_def byte_def)
  then have "to_ascii_lowercase s = s" using s by (auto simp: to_ascii_lowercase_def list_all_iff intro: map_idI)
  then show ?thesis using L amount_text_ascii [OF s] by (simp add: ascii_case_def)
qed

lemma upper_codes: "ascii_case L \<Longrightarrow> cl_upper L ''VND'' = ''VND''" "ascii_case L \<Longrightarrow> cl_upper L ''USD'' = ''USD''"
  by (simp_all add: ascii_case_def is_ascii_def byte_def ascii_upper_char_def)

section \<open>Plain amount text\<close>

lemma multiplier_letters:
  assumes "(w, m) \<in> set multipliers"
  shows "\<exists>c \<in> set w. \<not> amount_char c"
  using assms by (auto simp: multipliers_def amount_char_def is_ascii_digit_def is_separator_def byte_def)

lemma no_multiplier_inside:
  assumes "list_all amount_char s" "(w, m) \<in> set multipliers"
  shows "find_str s w = None" "\<not> ends_with s w"
proof -
  obtain c where c: "c \<in> set w" "c \<notin> set s"
    using multiplier_letters [OF assms(2)] assms(1) by (auto simp: list_all_iff)
  show "find_str s w = None" by (rule find_str_absent [OF c])
  show "\<not> ends_with s w" using c by (auto simp: ends_with_append)
qed

lemma compound_loop_plain:
  "list_all amount_char s \<Longrightarrow> set ws \<subseteq> set multipliers \<Longrightarrow> compound_loop f L ws s c = Done None"
proof (induction ws)
  case (Cons w ws)
  obtain word m where w: "w = (word, m)" by (cases w)
  then have "find_str s word = None" using no_multiplier_inside(1) Cons.prems by auto
  then show ?case using Cons w by (simp add: compound_at_def)
qed simp

lemma collect_digits_plain: "list_all amount_char s \<Longrightarrow> collect_digits s = Inr s"
  by (induction s) (auto simp: amount_char_def is_separator_def)

lemma parse_single_plain:
  assumes L: "ascii_case L" and s: "list_all amount_char s" "s \<noteq> []" "solid (hd s)" "solid (last s)"
    and d: "currency_decimal_places L c = 0 \<or> decimal_at L c s = None"
  shows "parse_single_amount L s c = Done (finish_amount L (strip_separators s) c 1)"
proof -
  have t: "trim s = s" by (rule trim_solid) (use s in simp)
  have "List.find (\<lambda>(suffix, _). ends_with s suffix) multipliers = None"
    using no_multiplier_inside(2) [OF s(1)] by (auto simp: find_None_iff)
  then have "factor_and_body L (trim s) = Done (1, s)"
    using amount_text_lower [OF L s(1)] by (simp add: factor_and_body_def t)
  then show ?thesis using s(2) d collect_digits_plain [OF s(1)] by (auto simp: parse_single_amount_def)
qed

text \<open>A text that ends in a currency sign.\<close>

lemma parse_amount_signed:
  assumes L: "ascii_case L" and s: "list_all amount_char s" "s \<noteq> []" "solid (hd s)" "solid (last s)"
    and sign: "(sign, cur) \<in> {(dong_sign, ''VND''), (''$'', ''USD'')}"
    and d: "currency_decimal_places L cur = 0 \<or> decimal_at L cur s = None"
  shows "parse_amount L (s @ '' '' @ sign) h = Done (finish_amount L (strip_separators s) cur 1)"
proof -
  let ?t = "s @ '' '' @ sign"
  obtain c cs where sc: "s = c # cs" using s(2) by (cases s) auto
  have c: "amount_char c" using s(1) sc by simp
  have "trim ?t = ?t"
    by (rule trim_solid) (use s(2,3) sign in \<open>auto simp: dong_sign_def intro: solid_edges\<close>)
  moreover have "CHR ''-'' \<notin> set ?t"
    using s(1) sign by (auto simp: list_all_iff amount_char_def is_ascii_digit_def is_separator_def byte_def dong_sign_def)
  moreover have "detect_currency L ?t h = (cur, s)"
  proof -
    have tr: "trim (s @ '' '') = s" by (rule trim_trailing_space [OF s(2-4)])
    have pre: "strip_prefix ?t ''A$'' = None" "strip_prefix ?t dong_sign = None" "strip_prefix ?t ''$'' = None"
      using c by (auto simp: sc strip_prefix_def starts_with_def dong_sign_def amount_char_def is_ascii_digit_def is_separator_def byte_def)
    have suf: "strip_suffix ?t sign = Some (s @ '' '')" by (simp add: strip_suffix_Some)
    have "strip_suffix ?t ''A$'' = None"
      using sign by (auto simp: strip_suffix_def ends_with_append dong_sign_def append_eq_append_conv2 Cons_eq_append_conv append_eq_Cons_conv)
    moreover have "sign = ''$'' \<Longrightarrow> strip_suffix ?t dong_sign = None"
      by (auto simp: strip_suffix_def ends_with_append dong_sign_def append_eq_append_conv2 Cons_eq_append_conv append_eq_Cons_conv)
    ultimately show ?thesis using sign pre suf tr by (auto simp: detect_currency_def currency_symbols_def)
  qed
  moreover have "compound_loop f L multipliers (cl_lower L s) cur = Done None" for f
    using compound_loop_plain [OF s(1)] amount_text_lower [OF L s(1)] by simp
  ultimately show ?thesis
    using parse_single_plain [OF L s d]
    by (simp add: parse_amount_def Let_def try_parse_compound_def sc)
qed

section \<open>Formatted amounts\<close>

definition grouped_from :: "nat \<Rightarrow> nat \<Rightarrow> string \<Rightarrow> string" where
  "grouped_from n k ds =
     concat (map (\<lambda>(i, d). (if 0 < i \<and> (n - i) mod 3 = 0 then ''.'' else []) @ [d]) (enumerate k ds))"

lemma grouped_from_facts:
  assumes "list_all is_ascii_digit ds"
  shows "list_all amount_char (grouped_from n k ds)" "strip_separators (grouped_from n k ds) = ds"
    "ds \<noteq> [] \<Longrightarrow> last (grouped_from n k ds) = last ds" "ds \<noteq> [] \<Longrightarrow> grouped_from n k ds \<noteq> []"
  using assms
proof (induction ds arbitrary: k)
  case (Cons d ds)
  { case 1 then show ?case using Cons(1) by (auto simp: grouped_from_def amount_char_def is_separator_def) }
  { case 2 then show ?case using Cons(2)
      by (auto simp: grouped_from_def strip_separators_def is_ascii_digit_def byte_def) }
  { case 3 then show ?case using Cons(3) [of "Suc k"] Cons(4) [of "Suc k"] by (cases ds) (auto simp: grouped_from_def) }
  { case 4 then show ?case by (simp add: grouped_from_def) }
qed (simp_all add: grouped_from_def strip_separators_def)

lemma group_digits_eq: "group_digits ds = grouped_from (length ds) 0 ds"
  by (simp add: group_digits_def grouped_from_def)

lemmas group_digits_facts = grouped_from_facts [of ds "length ds" 0 for ds, folded group_digits_eq]

lemma hd_group_digits: "ds \<noteq> [] \<Longrightarrow> hd (group_digits ds) = hd ds"
  by (cases ds) (simp_all add: group_digits_def)

lemma show_nat_length: "n < 10 ^ k \<Longrightarrow> 0 < k \<Longrightarrow> length (show_nat n) \<le> k"
proof (induction n arbitrary: k rule: show_nat.induct)
  case (1 n)
  show ?case
  proof (cases "n < 10")
    case True
    then show ?thesis using "1.prems" by (subst show_nat.simps) simp
  next
    case False
    then obtain j where k: "k = Suc j" "0 < j" using "1.prems" by (cases k; cases "k - 1") auto
    have "n div 10 < 10 ^ j" using "1.prems" k(1) by (simp add: less_mult_imp_div_less)
    then have "length (show_nat (n div 10)) \<le> j" using "1.IH" [OF False] k(2) by blast
    then show ?thesis using False k by (subst show_nat.simps) simp
  qed
qed

lemma finish_digits:
  assumes "list_all is_ascii_digit ds" "ds \<noteq> []" "length ds \<le> 15"
    and p: "p = (if currency_decimal_places L c = 2 then 100 else 1)"
  shows "finish_amount L ds c 1 = Inr (int (digits_value 0 ds) * p, cl_upper L c)"
proof -
  have "parse_i64 ds = Some (int (digits_value 0 ds))" by (rule parse_i64_digits) (use assms in auto)
  moreover have "digits_value 0 ds < 10 ^ length ds" using digits_value_bound [OF assms(1), of 0] by simp
  then have "digits_value 0 ds < 10 ^ 15"
    using assms(3) by (meson order_less_le_trans power_increasing one_le_numeral)
  ultimately show ?thesis using assms(2,3) by (auto simp: finish_amount_def parse_digits_def p wrap64_id)
qed

text \<open>
C20: An amount of dong that the bot prints is read back as the same amount: for every amount of at most fifteen
digits, parsing the formatted text yields it, whatever the default currency.
\<close>

theorem dong_amount_roundtrip:
  assumes "ascii_case L" "0 \<le> a" "a < 10 ^ 15"
  shows "parse_amount L (format_minor L a ''VND'') hint = Done (Inr (a, ''VND''))"
proof -
  let ?ds = "show_nat (nat a)"
  note G = group_digits_facts [OF show_nat_digits, of "nat a"]
  have V: "currency_decimal_places L ''VND'' = 0" using upper_codes [OF assms(1)] by (simp add: currency_decimal_places_def)
  have sol: "solid (hd (group_digits ?ds))" "solid (last (group_digits ?ds))"
    using G(3) hd_group_digits [of ?ds] show_nat_digits [of "nat a"] by (auto simp: list_all_iff intro!: solid_digit)
  have "nat a < 10 ^ 15" using assms(2,3) by (simp add: nat_less_iff)
  then have "length ?ds \<le> 15" by (rule show_nat_length) simp
  then have f: "finish_amount L ?ds ''VND'' 1 = Inr (a, ''VND'')"
    using finish_digits [OF show_nat_digits, of "nat a" 1 L "''VND''"] V assms(2) digits_value_show_nat [of "nat a"] upper_codes [OF assms(1)]
    by simp
  have "format_minor L a ''VND'' = group_digits ?ds @ '' '' @ dong_sign"
    using V upper_codes [OF assms(1)] assms(2) by (simp add: format_minor_def Let_def currency_symbol_def dong_sign_def)
  then show ?thesis
    using parse_amount_signed [OF assms(1) G(1) G(4) sol, of dong_sign "''VND''"] V G(2) f by simp
qed

definition sample_chat_libs :: chat_libs where
  "sample_chat_libs =
     \<lparr>cl_lower = to_ascii_lowercase, cl_upper = map ascii_upper_char, cl_strip_marks = (\<lambda>s. s),
      cl_parse_date = (\<lambda>f s. None), cl_tz_known = (\<lambda>z. True), cl_local_noon = (\<lambda>z d. Some 0),
      cl_local_date = (\<lambda>z t. (2026, 7, 1)), cl_format_dmy = (\<lambda>z t. ''01/07/2026'')\<rparr>"

lemma sample_ascii_case: "ascii_case sample_chat_libs"
  by (simp add: ascii_case_def sample_chat_libs_def)

theorem dong_amount_roundtrip_witness:
  "parse_amount sample_chat_libs (format_minor sample_chat_libs 325000 ''VND'') ''USD'' = Done (Inr (325000, ''VND''))"
  by (rule dong_amount_roundtrip [OF sample_ascii_case]) simp_all

lemma zero_padded_2: "r < 100 \<Longrightarrow> length (zero_padded 2 r) = 2" "list_all is_ascii_digit (zero_padded 2 r)"
  "digits_value acc (zero_padded 2 r) = acc * 10 ^ length (zero_padded 2 r) + r"
proof -
  show "r < 100 \<Longrightarrow> length (zero_padded 2 r) = 2"
    using show_nat_length [of r 2] by (simp add: zero_padded_def)
  show "list_all is_ascii_digit (zero_padded 2 r)"
    using show_nat_digits [of r] by (auto simp: zero_padded_def list_all_iff is_ascii_digit_def byte_def)
  have shift: "digits_value acc s = acc * 10 ^ length s + digits_value 0 s" for acc s
  proof (induction s arbitrary: acc)
    case (Cons c cs)
    show ?case using Cons.IH [of "10 * acc + digit_val c"] Cons.IH [of "digit_val c"] by (simp add: algebra_simps)
  qed simp
  have "digits_value 0 (replicate n (CHR ''0'')) = 0" for n
    by (induction n) (simp_all add: digit_val_def byte_def)
  then have "digits_value 0 (zero_padded 2 r) = r"
    by (simp add: zero_padded_def digits_value_append digits_value_show_nat)
  then show "digits_value acc (zero_padded 2 r) = acc * 10 ^ length (zero_padded 2 r) + r" using shift [of acc "zero_padded 2 r"] by simp
qed

lemma last_separator_plain: "list_all is_ascii_digit s \<Longrightarrow> last_separator s = None"
  by (induction s) (auto simp: is_separator_def is_ascii_digit_def byte_def)

lemma last_separator_append:
  "list_all is_ascii_digit t \<Longrightarrow> is_separator c \<Longrightarrow> last_separator (s @ c # t) = Some (length s)"
  by (induction s) (simp_all add: last_separator_plain)

lemma format_dollars:
  assumes "ascii_case L" "0 \<le> a"
  shows "format_minor L a ''USD'' =
    (group_digits (show_nat (nat a div 100)) @ '','' @ zero_padded 2 (nat a mod 100)) @ '' '' @ ''$''"
  using assms upper_codes [OF assms(1)] by (simp add: format_minor_def Let_def currency_symbol_def currency_decimal_places_def)

lemma dollar_body:
  assumes "s = group_digits (show_nat n) @ '','' @ zero_padded 2 r" "r < 100"
  shows "list_all amount_char s" "s \<noteq> []" "solid (hd s)" "solid (last s)"
    "strip_separators s = show_nat n @ zero_padded 2 r" "last_separator s = Some (length (group_digits (show_nat n)))"
proof -
  note G = group_digits_facts [OF show_nat_digits, of n]
  note Z = zero_padded_2(1) [OF assms(2)] zero_padded_2(2) [of r]
  obtain x y where z: "zero_padded 2 r = [x, y]" using Z(1) by (auto simp: length_Suc_conv numeral_2_eq_2)
  show "list_all amount_char s" using G(1) Z(2) by (auto simp: assms(1) z amount_char_def is_separator_def)
  show "s \<noteq> []" by (simp add: assms(1))
  show "solid (hd s)" using G(4) hd_group_digits [of "show_nat n"] show_nat_digits [of n]
    by (auto simp: assms(1) list_all_iff intro!: solid_digit)
  show "solid (last s)" using Z(2) by (auto simp: assms(1) z intro!: solid_digit)
  show "strip_separators s = show_nat n @ zero_padded 2 r"
    using G(2) Z(2) by (simp add: assms(1) z strip_separators_def is_ascii_digit_def byte_def)
  show "last_separator s = Some (length (group_digits (show_nat n)))"
    using last_separator_append [OF Z(2), of "CHR '',''" "group_digits (show_nat n)"] by (simp add: assms(1) is_separator_def)
qed

text \<open>
For dollars the two do not agree: the printed form has a decimal comma, the reader takes only a decimal point,
so every amount the bot prints in dollars is read back a hundred times as large.
\<close>

theorem dollar_amount_reads_back_hundredfold:
  assumes "ascii_case L" "0 \<le> a" "a < 10 ^ 15"
  shows "parse_amount L (format_minor L a ''USD'') hint = Done (Inr (a * 100, ''USD''))"
proof -
  let ?n = "nat a div 100" and ?r = "nat a mod 100"
  let ?s = "group_digits (show_nat ?n) @ '','' @ zero_padded 2 ?r"
  note B = dollar_body [OF refl, of ?r ?n]
  have two: "currency_decimal_places L ''USD'' = 2" using upper_codes [OF assms(1)] by (simp add: currency_decimal_places_def)
  have r: "?r < 100" by simp
  have dec: "decimal_at L ''USD'' ?s = None" using B(6) [OF r] two by (simp add: decimal_at_def Let_def nth_append)
  have "nat a < 10 ^ 15" using assms(2,3) by (simp add: nat_less_iff)
  then have "?n < 10 ^ 13" by (simp add: less_mult_imp_div_less)
  then have "length (show_nat ?n) \<le> 13" by (rule show_nat_length) simp
  then have len: "length (show_nat ?n @ zero_padded 2 ?r) \<le> 15" using zero_padded_2(1) [OF r] by simp
  have val: "digits_value 0 (show_nat ?n @ zero_padded 2 ?r) = nat a"
    using zero_padded_2(1) [OF r] zero_padded_2(3) [of "digits_value 0 (show_nat ?n)" ?r]
    by (simp add: digits_value_append digits_value_show_nat)
  have "finish_amount L (show_nat ?n @ zero_padded 2 ?r) ''USD'' 1 = Inr (a * 100, ''USD'')"
    using finish_digits [OF _ _ len, of 100 L "''USD''"] show_nat_digits [of ?n] zero_padded_2(2) [of ?r] two val assms(2)
      upper_codes [OF assms(1)] by simp
  then show ?thesis
    using parse_amount_signed [OF assms(1) B(1-4) [OF r], of "''$''" "''USD''" hint] dec B(5) [OF r]
    unfolding format_dollars [OF assms(1,2)] by simp
qed

theorem dollar_amount_reads_back_hundredfold_witness:
  "parse_amount sample_chat_libs (format_minor sample_chat_libs 1250 ''USD'') ''VND'' = Done (Inr (125000, ''USD''))"
  using dollar_amount_reads_back_hundredfold [OF sample_ascii_case, of 1250] by simp

section \<open>Range, termination and panics\<close>

text \<open>
Whatever the text, an amount that is read is between zero and the largest 64-bit number: the guards keep every
multiplication from wrapping around.
\<close>

theorem amount_in_range:
  assumes "parse_amount L raw hint = Done (Inr (v, c))"
  shows "0 \<le> v \<and> v \<le> i64_max"
  using parse_amount_fuel_range [of "Suc (amount_chars raw)" L raw hint] assms by (simp add: in_range_def parse_amount_def)

lemma sample_amounts:
  "parse_amount sample_chat_libs ''1tr5'' ''VND'' = Done (Inr (1500000, ''VND''))"
  "parse_amount sample_chat_libs ''1tr500k'' ''VND'' = Done (Inr (1500000, ''VND''))"
  "parse_amount sample_chat_libs ''1tr500'' ''VND'' = Done (Inr (1500000000, ''VND''))"
  by code_simp+

theorem amount_in_range_witness: "0 \<le> (1500000 :: int) \<and> (1500000 :: int) \<le> i64_max"
  by (rule amount_in_range [OF sample_amounts(1)])

text \<open>
Reading an amount always comes to an end: the calls nest at most once per digit or separator of the text, and
more fuel than that changes nothing.
\<close>

theorem parse_amount_returns:
  assumes "digits_kept L" "amount_chars raw < n"
  shows "parse_amount_fuel n L raw hint = parse_amount L raw hint \<and> parse_amount L raw hint \<noteq> NoFuel"
  using fuel_enough [OF assms(1), of raw "Suc (amount_chars raw)" n hint] assms(2) unfolding parse_amount_def
  by (metis lessI)

lemma sample_digits_kept: "digits_kept sample_chat_libs"
proof -
  have sep: "is_separator c \<longleftrightarrow> byte c = byte (CHR ''.'') \<or> byte c = byte (CHR '','')" for c
    unfolding is_separator_def byte_def of_char_eq_iff ..
  have "amount_char (ascii_lower_char c) = amount_char c" for c
    by (auto simp: ascii_lower_char_def is_ascii_uppercase_def amount_char_def is_ascii_digit_def sep)
      (auto simp: byte_def)
  then show ?thesis
    by (simp add: digits_kept_def sample_chat_libs_def amount_chars_def to_ascii_lowercase_def filter_map comp_def)
qed

theorem parse_amount_returns_witness: "parse_amount_fuel 20 sample_chat_libs ''1tr500k'' ''VND'' = Done (Inr (1500000, ''VND''))"
proof -
  have "amount_chars ''1tr500k'' < 20" by code_simp
  from parse_amount_returns [OF sample_digits_kept this, of "''VND''"] show ?thesis by (simp add: sample_amounts)
qed

definition kelvin_sign :: string where
  "kelvin_sign = [CHR 0xE2, CHR 0x84, CHR 0xAA]"

lemma digits_trim: "list_all is_ascii_digit ds \<Longrightarrow> ds \<noteq> [] \<Longrightarrow> trim (ds @ kelvin_sign) = ds @ kelvin_sign"
proof (rule trim_solid)
  assume d: "list_all is_ascii_digit ds" "ds \<noteq> []"
  have "solid (CHR 0xAA)" by (auto simp: solid_def whitespace_chars_def)
  then have "solid (last (ds @ kelvin_sign))" by (simp add: kelvin_sign_def)
  moreover have "solid (hd (ds @ kelvin_sign))" using d by (auto simp: list_all_iff intro!: solid_digit)
  ultimately show "ds @ kelvin_sign = [] \<or> solid (hd (ds @ kelvin_sign)) \<and> solid (last (ds @ kelvin_sign))" by blast
qed

lemma kelvin_single:
  assumes "list_all is_ascii_digit ds" "ds \<noteq> []" "cl_lower L (ds @ kelvin_sign) = ds @ ''k''"
  shows "parse_single_amount L (ds @ kelvin_sign) cur = Panic"
proof -
  have "List.find (\<lambda>(suffix, _). ends_with (ds @ ''k'') suffix) multipliers = Some (''k'', 1000)"
    by (simp add: multipliers_def ends_with_def)
  moreover have "\<not> is_char_boundary (ds @ kelvin_sign) (length (ds @ kelvin_sign) - 1)"
    by (simp add: is_char_boundary_def kelvin_sign_def is_continuation_def byte_def nth_append)
  ultimately show ?thesis
    using digits_trim [OF assms(1,2)] assms(3) by (simp add: parse_single_amount_def factor_and_body_def slice_to_def)
qed

lemma kelvin_compound:
  assumes "list_all is_ascii_digit ds"
  shows "compound_loop f L multipliers (ds @ ''k'') cur = Done None"
proof -
  have lacks: "c \<notin> set (ds @ ''k'')" if "c \<in> {CHR ''t'', CHR ''c''}" for c
    using assms that by (auto simp: list_all_iff is_ascii_digit_def byte_def)
  have "find_str (ds @ ''k'') w = None" if "(w, m) \<in> set multipliers" "w \<noteq> ''k''" for w m
  proof -
    have "hd w \<in> {CHR ''t'', CHR ''c''}" "hd w \<in> set w" using that by (auto simp: multipliers_def)
    then show ?thesis using find_str_absent lacks by blast
  qed
  then have "compound_at f L cur (ds @ ''k'') w = Done None" if "(w, m) \<in> set multipliers" "w \<noteq> ''k''" for w m
    using that by (simp add: compound_at_def)
  moreover have "compound_at f L cur (ds @ ''k'') ''k'' = Done None"
  proof -
    have "find_str (ds @ ''k'') ''k'' = Some (length ds)"
      using assms by (induction ds) (auto simp: starts_with_def is_ascii_digit_def byte_def)
    then show ?thesis by (simp add: compound_at_def Let_def trim_solid)
  qed
  ultimately have "compound_loop f L ws (ds @ ''k'') cur = Done None" if "set ws \<subseteq> set multipliers" for ws
    using that by (induction ws) (auto, metis option.simps(4) rbind_simps(1))
  then show ?thesis by blast
qed

text \<open>
A number that ends in the Kelvin sign makes the reader panic, as the sign's lower-case form is the one-byte letter
k while the sign itself takes three bytes: cutting one byte off ends inside a character.
\<close>

theorem kelvin_amount_panics:
  assumes "list_all is_ascii_digit ds" "ds \<noteq> []" "cl_lower L (ds @ kelvin_sign) = ds @ ''k''"
  shows "parse_amount L (ds @ kelvin_sign) hint = Panic"
proof -
  let ?s = "ds @ kelvin_sign"
  have "detect_currency_loop currency_symbols ?s = None"
    using assms(1,2)
    by (cases ds) (auto simp: currency_symbols_def strip_prefix_def strip_suffix_def starts_with_def ends_with_def dong_sign_def
        kelvin_sign_def is_ascii_digit_def byte_def Suc_diff_le)
  then have "snd (detect_currency L ?s hint) = ?s" by (simp add: detect_currency_def)
  moreover have "CHR ''-'' \<notin> set ?s"
    using assms(1) by (auto simp: list_all_iff is_ascii_digit_def byte_def kelvin_sign_def)
  ultimately show ?thesis
    using digits_trim [OF assms(1,2)] kelvin_single [OF assms] kelvin_compound [OF assms(1)] assms(2,3)
    by (simp add: parse_amount_def Let_def split_beta try_parse_compound_def)
qed

definition kelvin_libs :: chat_libs where
  "kelvin_libs = sample_chat_libs\<lparr>cl_lower := replace_str kelvin_sign ''k''\<rparr>"

theorem kelvin_amount_panics_witness: "parse_amount kelvin_libs (''50'' @ kelvin_sign) ''VND'' = Panic"
proof (rule kelvin_amount_panics)
  show "cl_lower kelvin_libs (''50'' @ kelvin_sign) = ''50'' @ ''k''" by code_simp
qed (simp_all add: is_ascii_digit_def byte_def)

end
