(* ===== verification/Chat_Properties.thy ===== *)
theory Chat_Properties
  imports Chat_Decide Chat_Money_Properties
begin

text \<open>
  The conversation's properties: who may cause which command, what an answer to an open confirmation
  is bound to, that every command carries validated values, and that every message is answered.
\<close>

named_theorems outcome_simps \<open>the replies and commands of the handlers\<close>

declare reply_with_def [outcome_simps] reply_only_def [outcome_simps] expired_outcome_def [outcome_simps]
  reshow_card_def [outcome_simps] Let_def [outcome_simps]
  handle_set_language_def [outcome_simps] handle_recategorize_def [outcome_simps] handle_export_def [outcome_simps]
  handle_delete_def [outcome_simps] create_manual_def [outcome_simps] render_period_summary_def [outcome_simps]
  with_insight_snapshot_def [outcome_simps] render_today_def [outcome_simps] render_week_def [outcome_simps]
  render_month_def [outcome_simps] handle_settings_def [outcome_simps] handle_timezone_def [outcome_simps]
  handle_schedule_def [outcome_simps] apply_receipt_edit_def [outcome_simps] apply_manual_edit_def [outcome_simps]
  resolve_deletion_pending_def [outcome_simps] resolve_manual_pending_def [outcome_simps]
  resolve_receipt_pending_def [outcome_simps]

lemma rbind_Done: "rbind m f = Done b \<longleftrightarrow> (\<exists>a. m = Done a \<and> f a = Done b)"
  by (cases m) auto

lemma rbind_NoFuel: "rbind m f = NoFuel \<longleftrightarrow> m = NoFuel \<or> (\<exists>a. m = Done a \<and> f a = NoFuel)"
  by (cases m) auto

section \<open>Answers to an open confirmation\<close>

text \<open>The commands that settle or change what a confirmation is about, with what they must be bound to.\<close>

fun is_answer :: "domain_command \<Rightarrow> bool" where
  "is_answer (ConfirmExpense _ _) = True"
| "is_answer (RejectExpense _ _) = True"
| "is_answer (ConfirmReceipt _ _ _) = True"
| "is_answer (RejectReceipt _ _) = True"
| "is_answer (EditReceiptDraft _ _ _ _ _ _ _) = True"
| "is_answer (EditManualExpense _ _ _ _ _ _ _) = True"
| "is_answer ConfirmAccountDeletion = True"
| "is_answer _ = False"

fun answers :: "domain_command \<Rightarrow> pending_confirmation \<Rightarrow> bool" where
  "answers (ConfirmExpense e v) p \<longleftrightarrow>
     pc_kind p = PkManualExpense \<and> e = pc_reference_id p \<and> v = dv_version (pc_draft p)"
| "answers (RejectExpense e v) p \<longleftrightarrow>
     pc_kind p = PkManualExpense \<and> e = pc_reference_id p \<and> v = dv_version (pc_draft p)"
| "answers (ConfirmReceipt s e v) p \<longleftrightarrow>
     pc_kind p = PkReceiptReview \<and> s = pc_reference_id p \<and> v = dv_version (pc_draft p)"
| "answers (RejectReceipt s v) p \<longleftrightarrow>
     pc_kind p = PkReceiptReview \<and> s = pc_reference_id p \<and> v = dv_version (pc_draft p)"
| "answers (EditReceiptDraft s v _ _ _ _ _) p \<longleftrightarrow>
     pc_kind p = PkReceiptReview \<and> s = pc_reference_id p \<and> v = dv_version (pc_draft p)"
| "answers (EditManualExpense e v _ _ _ _ _) p \<longleftrightarrow>
     pc_kind p = PkManualExpense \<and> e = pc_reference_id p \<and> v = dv_version (pc_draft p)"
| "answers ConfirmAccountDeletion p \<longleftrightarrow> pc_kind p = PkAccountDeletion"
| "answers _ p \<longleftrightarrow> False"

lemma active_intent_no_answer:
  "c \<in> set (co_commands (handle_active_intent L ctx i now)) \<Longrightarrow> \<not> is_answer c"
  unfolding handle_active_intent_def
  by (cases "i_kind i") (auto simp: outcome_simps split: if_splits option.splits list.splits)

lemma resolve_answers:
  "c \<in> set (co_commands (resolve_pending L ctx p i now)) \<Longrightarrow> c = ClearPending \<or> answers c p"
  unfolding resolve_pending_def
  by (cases "pc_kind p") (auto simp: outcome_simps split: if_splits option.splits intent_kind.splits)

section \<open>Validated values\<close>

definition catalog_key :: "string \<Rightarrow> bool" where
  "catalog_key k \<longleftrightarrow> k \<in> set (map cd_key CATEGORIES)"

definition known_type :: "string \<Rightarrow> bool" where
  "known_type t \<longleftrightarrow> t \<in> set [''expense'', ''income'', ''refund'', ''transfer'', ''adjustment'']"

definition amount_ok :: "int \<Rightarrow> bool" where
  "amount_ok a \<longleftrightarrow> 0 \<le> a \<and> a \<le> i64_max"

text \<open>What the values of a parsed intent satisfy.\<close>

definition valid_intent :: "intent \<Rightarrow> bool" where
  "valid_intent i \<longleftrightarrow>
     amount_ok (i_amount_minor i)
   \<and> (i_category_key i = [] \<or> catalog_key (i_category_key i))
   \<and> (i_locale i = [] \<or> i_locale i = ''vi-VN'' \<or> i_locale i = ''en-US'')
   \<and> (i_transaction_type i = [] \<or> known_type (i_transaction_type i))
   \<and> (i_schedule_frequency i = [] \<or> frequency_parse (i_schedule_frequency i) \<noteq> None)
   \<and> (i_disable_schedule i \<longrightarrow> i_schedule_frequency i \<noteq> [])
   \<and> 0 \<le> i_delivery_minute i \<and> i_delivery_minute i < 1440
   \<and> (i_kind i = IkManualEntry \<longrightarrow> i_description i \<noteq> [])"

definition valid_option :: "intent option \<Rightarrow> bool" where
  "valid_option r \<longleftrightarrow> (\<forall>i. r = Some i \<longrightarrow> valid_intent i)"

lemma valid_option_simps [simp]: "valid_option None" "valid_option (Some i) \<longleftrightarrow> valid_intent i"
  by (simp_all add: valid_option_def)

lemma valid_intent_of [simp]: "k \<noteq> IkManualEntry \<Longrightarrow> valid_intent (intent_of k)"
  by (simp add: valid_intent_def intent_of_def amount_ok_def)

lemma resolve_category_key_valid: "or_empty (resolve_category_key L s) = [] \<or> catalog_key (or_empty (resolve_category_key L s))"
proof -
  have "resolve_category_key L s = Some k \<Longrightarrow> catalog_key k" for k
    unfolding resolve_category_key_def Let_def catalog_key_def
    by (auto dest!: find_where_SomeD [unfolded find_where_def] split: if_splits option.splits)
  then show ?thesis by (cases "resolve_category_key L s") (auto simp: or_empty_def)
qed

lemma parse_schedule_frequency_valid:
  "parse_schedule_frequency t = Some f \<Longrightarrow> f \<noteq> [] \<and> frequency_parse f \<noteq> None"
  by (auto simp: parse_schedule_frequency_def frequency_parse_def split: if_splits)

lemma parse_delivery_minute_range: "parse_delivery_minute t = Some m \<Longrightarrow> 0 \<le> m \<and> m < 1440"
  by (auto simp: parse_delivery_minute_def split: list.splits option.splits if_splits)

lemma parse_transaction_type_valid: "parse_transaction_type L t = Some ty \<Longrightarrow> known_type ty"
  by (auto simp: parse_transaction_type_def known_type_def Let_def split: if_splits)

lemma slash_command_kind: "slash_command b = Some k \<Longrightarrow> k \<noteq> IkManualEntry"
  by (auto simp: slash_command_def slash_commands_def split: if_splits)

text \<open>A property of what a computation returns, by the structure of the computation.\<close>

definition yields :: "('a \<Rightarrow> bool) \<Rightarrow> 'a run \<Rightarrow> bool" where
  "yields P m \<longleftrightarrow> (\<forall>a. m = Done a \<longrightarrow> P a)"

lemma yields_intros:
  "P a \<Longrightarrow> yields P (Done a)"
  "(\<And>a. m = Done a \<Longrightarrow> yields P (f a)) \<Longrightarrow> yields P (rbind m f)"
  "(b \<Longrightarrow> yields P x) \<Longrightarrow> (\<not> b \<Longrightarrow> yields P y) \<Longrightarrow> yields P (if b then x else y)"
  "(v = None \<Longrightarrow> yields P x) \<Longrightarrow> (\<And>a. v = Some a \<Longrightarrow> yields P (g a)) \<Longrightarrow> yields P (case v of None \<Rightarrow> x | Some a \<Rightarrow> g a)"
  by (auto simp: yields_def rbind_Done split: option.splits)

lemma case_prod_yields: "(\<And>a b. p = (a, b) \<Longrightarrow> yields P (f a b)) \<Longrightarrow> yields P (case p of (a, b) \<Rightarrow> f a b)"
  by (cases p) simp

lemma valid_option_intros:
  "valid_option x \<Longrightarrow> valid_option y \<Longrightarrow> valid_option (if b then x else y)"
  "(\<And>a. v = Some a \<Longrightarrow> valid_intent (h a)) \<Longrightarrow> valid_option (map_option h v)"
  "(\<And>a. v = Some a \<Longrightarrow> valid_option (g a)) \<Longrightarrow> valid_option (case v of None \<Rightarrow> None | Some a \<Rightarrow> g a)"
  by (auto simp: valid_option_def split: option.splits)

lemma extracted_intents [simp]:
  "valid_intent ((intent_of IkTimezone)\<lparr>i_timezone := z\<rparr>)"
  "valid_intent ((intent_of IkSetLanguage)\<lparr>i_locale := ''vi-VN''\<rparr>)"
  "valid_intent ((intent_of IkSetLanguage)\<lparr>i_locale := ''en-US''\<rparr>)"
  "valid_intent ((intent_of IkSchedule)\<lparr>i_disable_all_schedules := True\<rparr>)"
  "parse_schedule_frequency w = Some f \<Longrightarrow> valid_intent ((intent_of IkSchedule)\<lparr>i_schedule_frequency := f, i_disable_schedule := True\<rparr>)"
  "parse_schedule_frequency w = Some f \<Longrightarrow> parse_delivery_minute u = Some n \<Longrightarrow>
     valid_intent ((intent_of IkSchedule)\<lparr>i_schedule_frequency := f, i_delivery_minute := n\<rparr>)"
  "valid_intent ((intent_of IkEditMerchant)\<lparr>i_merchant := m\<rparr>)"
  "valid_intent ((intent_of IkEditDate)\<lparr>i_occurred_on := on, i_description := s\<rparr>)"
  "valid_intent ((intent_of IkEditCategory)\<lparr>i_category_key := or_empty (resolve_category_key L v), i_description := s\<rparr>)"
  "valid_intent ((intent_of IkRecategorizeLatest)\<lparr>i_category_key := or_empty (resolve_category_key L v), i_description := s\<rparr>)"
  "known_type t \<Longrightarrow> valid_intent ((intent_of IkEditType)\<lparr>i_transaction_type := t\<rparr>)"
  "amount_ok v' \<Longrightarrow> valid_intent ((intent_of IkEditAmount)\<lparr>i_amount_minor := v', i_currency := c, i_amount_text := s\<rparr>)"
  "amount_ok v' \<Longrightarrow> d \<noteq> [] \<Longrightarrow> valid_intent ((intent_of IkManualEntry)\<lparr>i_amount_minor := v', i_currency := c,
     i_description := d, i_amount_text := s\<rparr>)"
  using resolve_category_key_valid [of L v]
  by (auto simp: valid_intent_def intent_of_def amount_ok_def dest: parse_schedule_frequency_valid parse_delivery_minute_range)

lemma parse_schedule_intent_valid: "yields valid_option (parse_schedule_intent rf ff)"
  unfolding parse_schedule_intent_def
  by (intro yields_intros valid_option_intros case_prod_yields) simp_all

lemma parse_parameterized_valid: "yields valid_option (parse_parameterized_slash L s)"
proof -
  have "valid_option (parse_timezone_intent rf ff)" for rf ff
    unfolding parse_timezone_intent_def by (intro valid_option_intros) simp_all
  moreover have "valid_option (parse_settings_intent rf ff)" for rf ff
    unfolding parse_settings_intent_def by (intro valid_option_intros) simp_all
  moreover have "valid_option (parse_language_intent ff)" for ff
    unfolding parse_language_intent_def by (intro valid_option_intros) simp_all
  moreover have "valid_option (parse_recat_slash L rf ff)" for rf ff
    unfolding parse_recat_slash_def Let_def by (intro valid_option_intros) simp_all
  ultimately show ?thesis
    unfolding parse_parameterized_slash_def Let_def
    by (cases "split_whitespace (fold_text L (trim_start_slashes (trim_command_punctuation s)))")
      (simp_all only: list.case, (intro yields_intros parse_schedule_intent_valid; simp)+)
qed

lemma with_amount_valid:
  assumes "\<And>v c. amount_ok v \<Longrightarrow> valid_intent (k v c)"
  shows "yields valid_option (with_amount L s cur k)"
proof -
  have "valid_option (case r of Inl _ \<Rightarrow> None | Inr (v, c) \<Rightarrow> Some (k v c))" if "parse_amount L s cur = Done r" for r
    using that assms parse_amount_fuel_range [of "Suc (amount_chars s)" L s cur]
    by (cases r) (auto simp: parse_amount_def in_range_def amount_ok_def simp del: parse_amount_fuel.simps)
  then show ?thesis by (auto simp: yields_def with_amount_def rbind_Done)
qed

lemma parse_field_edit_valid: "yields valid_option (parse_field_edit L t rest cur)"
  unfolding parse_field_edit_def
  by (intro yields_intros valid_option_intros with_amount_valid) (simp_all add: parse_transaction_type_valid)

lemma parse_edit_or_recat_valid: "yields valid_option (parse_edit_or_recat L t cur)"
  unfolding parse_edit_or_recat_def Let_def
  by (intro yields_intros parse_field_edit_valid) simp_all

lemma manual_from_amount_valid: "yields valid_option (manual_from_amount L tok d cur)"
  unfolding manual_from_amount_def Let_def by (intro yields_intros with_amount_valid) simp_all

lemma parse_manual_entry_valid: "yields valid_option (parse_manual_entry L t cur)"
  unfolding parse_manual_entry_def Let_def
  by (intro yields_intros manual_from_amount_valid) (use manual_from_amount_valid in \<open>auto simp: yields_def\<close>)

lemma parse_intent_valid: "yields valid_intent (parse_intent L s cur)"
  unfolding parse_intent_def Let_def
  using parse_parameterized_valid [of L] parse_edit_or_recat_valid [of L] parse_manual_entry_valid [of L]
  by (intro yields_intros) (auto simp: yields_def valid_option_def dest: slash_command_kind split: option.splits)

text \<open>What a command of a decision promises of its values.\<close>

definition valid_edit :: "int option \<Rightarrow> string option \<Rightarrow> string option \<Rightarrow> string option \<Rightarrow> bool" where
  "valid_edit a m k t \<longleftrightarrow>
     pred_option amount_ok a \<and> pred_option (\<lambda>s. trim s \<noteq> []) m \<and> pred_option catalog_key k \<and> pred_option known_type t"

fun valid_command :: "chat_libs \<Rightarrow> instant \<Rightarrow> domain_command \<Rightarrow> bool" where
  "valid_command L now (GrantConsent v) \<longleftrightarrow> v = CONSENT_VERSION"
| "valid_command L now (CreateManualAwaitingConfirmation _ a _ d m at v e) \<longleftrightarrow>
     amount_ok a \<and> d \<noteq> [] \<and> m = d \<and> v = 1 \<and> at = now \<and> e = now + secs 900"
| "valid_command L now (EditReceiptDraft _ _ a m k _ t) \<longleftrightarrow> valid_edit a m k t"
| "valid_command L now (EditManualExpense _ _ a m k _ t) \<longleftrightarrow> valid_edit a m k t"
| "valid_command L now (RecategorizeLatest k) \<longleftrightarrow> catalog_key k"
| "valid_command L now (SetLocale l) \<longleftrightarrow> l = ''vi-VN'' \<or> l = ''en-US''"
| "valid_command L now (SetTimezone z) \<longleftrightarrow> cl_tz_known L z \<and> to_ascii_lowercase z \<noteq> ''local''"
| "valid_command L now (UpsertSchedule f m) \<longleftrightarrow> frequency_parse f \<noteq> None \<and> 0 \<le> m \<and> m < 1440"
| "valid_command L now (DisableSchedule f) \<longleftrightarrow> pred_option (\<lambda>f. frequency_parse f \<noteq> None) f"
| "valid_command L now (RequestAccountDeletion e) \<longleftrightarrow> e = now + secs 900"
| "valid_command L now (RecordInsightSnapshot k) \<longleftrightarrow> k = ''day'' \<or> k = ''week'' \<or> k = ''month''"
| "valid_command L now _ \<longleftrightarrow> True"

lemma as_account_value_range: "as_account_value l = ''vi-VN'' \<or> as_account_value l = ''en-US''"
  by (cases l) simp_all

lemma active_intent_valid:
  assumes "valid_intent i" "c \<in> set (co_commands (handle_active_intent L ctx i now))"
  shows "valid_command L now c"
  using assms as_account_value_range [of "locale_parse (i_locale i)"] unfolding handle_active_intent_def
  by (cases "i_kind i")
    (auto simp: outcome_simps valid_intent_def parse_timezone_def PENDING_CONFIRMATION_TTL_SECS_def
      split: if_splits option.splits list.splits)

lemma draft_patch_valid:
  assumes "valid_intent i" "draft_patch_from_intent L loc p i now tz = Some d"
  shows "valid_edit (dp_amount_minor_opt d) (dp_merchant_opt d) (dp_category_key_opt d) (dp_transaction_type_opt d)"
  using assms unfolding draft_patch_from_intent_def Let_def
  by (cases "i_kind i") (auto simp: valid_edit_def valid_intent_def split: if_splits option.splits)

lemma resolve_valid:
  assumes "valid_intent i" "c \<in> set (co_commands (resolve_pending L ctx p i now))"
  shows "valid_command L now c"
  using assms(2) draft_patch_valid [OF assms(1)] unfolding resolve_pending_def
  by (cases "pc_kind p") (auto simp: outcome_simps split: if_splits option.splits intent_kind.splits)

section \<open>The whole decision\<close>

lemma decide_active:
  "cx_allowlisted ctx \<Longrightarrow> cx_lifecycle ctx = LsActive \<Longrightarrow> decide L ctx s now = handle_active L ctx s now"
  by (simp add: decide_def Let_def)

text \<open>A decision that is not made at the gates or at the consent card.\<close>

lemma decide_cases:
  assumes "decide L ctx s now = Done out"
  obtains (gate) "\<not> cx_allowlisted ctx \<or> cx_lifecycle ctx = LsSuspended" "co_commands out = []"
  | (consent) i where "cx_allowlisted ctx" "cx_lifecycle ctx = LsPendingConsent" "parse_intent L s ''VND'' = Done i"
      "handle_pending_consent L ctx s = Done out"
  | (stale) p where "cx_allowlisted ctx" "cx_lifecycle ctx = LsActive" "cx_pending ctx = Some p" "co_commands out = [ClearPending]"
  | (answer) p i where "cx_allowlisted ctx" "cx_lifecycle ctx = LsActive" "cx_pending ctx = Some p" "\<not> is_pending_stale p now"
      "parse_intent L s (cx_default_currency ctx) = Done i" "out = resolve_pending L ctx p i now"
  | (command) i where "cx_allowlisted ctx" "cx_lifecycle ctx = LsActive" "parse_intent L s (cx_default_currency ctx) = Done i"
      "out = handle_active_intent L ctx i now"
  using assms that unfolding decide_def Let_def
  by (cases "cx_lifecycle ctx"; cases "cx_pending ctx")
    (auto simp: reply_with_def rbind_Done handle_pending_consent_def handle_active_def expired_outcome_def Let_def
      split: if_splits)

lemma consent_commands:
  assumes "handle_pending_consent L ctx s = Done out" "c \<in> set (co_commands out)"
  shows "c = GrantConsent CONSENT_VERSION \<or> c = SetLocale ''vi-VN'' \<or> c = SetLocale ''en-US''"
proof -
  obtain i where i: "parse_intent L s ''VND'' = Done i"
    using assms(1) by (auto simp: handle_pending_consent_def rbind_Done Let_def)
  then show ?thesis
    using assms as_account_value_range [of "locale_parse (i_locale i)"]
    by (cases "i_kind i") (auto simp: handle_pending_consent_def outcome_simps split: if_splits)
qed

text \<open>
C15: a command that confirms, rejects or edits an expense or a receipt, or deletes the account, is only decided for
an allow-listed, active account with an open confirmation of that kind that has not expired, and it names the
expense or receipt and the draft version that the confirmation shows.
\<close>

theorem answers_bound_to_pending:
  assumes "decide L ctx s now = Done out" "c \<in> set (co_commands out)" "is_answer c"
  shows "cx_allowlisted ctx \<and> cx_lifecycle ctx = LsActive
    \<and> (\<exists>p. cx_pending ctx = Some p \<and> now < pc_expires_at p \<and> answers c p)"
  using assms(1)
proof (cases rule: decide_cases)
  case (answer p i)
  with resolve_answers [of c L ctx p i now] assms(2,3) show ?thesis by (auto simp: is_pending_stale_def)
next
  case (consent i)
  with consent_commands [OF consent(4) assms(2)] assms(3) show ?thesis by auto
qed (use assms active_intent_no_answer in auto)

text \<open>
C16: an account that is not allow-listed or is suspended causes no command, by text or by image; one that has not
consented causes only the consent itself or a change of language; and an image is accepted only for an active
account with receipts left in its daily quota.
\<close>

theorem commands_are_gated:
  assumes "decide L ctx s now = Done out"
  shows "(\<not> cx_allowlisted ctx \<or> cx_lifecycle ctx = LsSuspended \<longrightarrow> co_commands out = [])
    \<and> (cx_lifecycle ctx = LsPendingConsent \<longrightarrow>
         set (co_commands out) \<subseteq> {GrantConsent CONSENT_VERSION, SetLocale ''vi-VN'', SetLocale ''en-US''})
    \<and> co_commands (decide_image ctx) =
        (if cx_allowlisted ctx \<and> cx_lifecycle ctx = LsActive \<and> 0 < cx_remaining_daily_receipts ctx
         then [AcceptReceiptSubmission (cx_next_submission_id ctx) (cx_next_ingest_job_id ctx)] else [])"
proof (intro conjI)
  show "\<not> cx_allowlisted ctx \<or> cx_lifecycle ctx = LsSuspended \<longrightarrow> co_commands out = []"
    using assms by (cases rule: decide_cases) auto
  show "cx_lifecycle ctx = LsPendingConsent \<longrightarrow>
      set (co_commands out) \<subseteq> {GrantConsent CONSENT_VERSION, SetLocale ''vi-VN'', SetLocale ''en-US''}"
    using assms by (cases rule: decide_cases) (auto dest: consent_commands)
  show "co_commands (decide_image ctx) =
      (if cx_allowlisted ctx \<and> cx_lifecycle ctx = LsActive \<and> 0 < cx_remaining_daily_receipts ctx
       then [AcceptReceiptSubmission (cx_next_submission_id ctx) (cx_next_ingest_job_id ctx)] else [])"
    by (cases "cx_lifecycle ctx") (simp_all add: decide_image_def outcome_simps)
qed

text \<open>
C17: every command of a decision carries values that were checked: amounts are within a signed 64-bit integer and not
negative, categories are of the catalogue, time zones are known, schedules have a frequency and a minute of the day,
drafts and deletions expire after fifteen minutes.
\<close>

theorem commands_are_validated:
  assumes "decide L ctx s now = Done out" "c \<in> set (co_commands out)"
  shows "valid_command L now c"
  using assms(1)
proof (cases rule: decide_cases)
  case (answer p i)
  moreover from answer(5) have "valid_intent i" using parse_intent_valid by (auto simp: yields_def)
  ultimately show ?thesis using resolve_valid assms(2) by blast
next
  case (command i)
  moreover from command(3) have "valid_intent i" using parse_intent_valid by (auto simp: yields_def)
  ultimately show ?thesis using active_intent_valid assms(2) by blast
next
  case (consent i)
  with consent_commands [OF consent(4) assms(2)] show ?thesis by auto
qed (use assms(2) in auto)

text \<open>What confirming an open confirmation is to do, by its kind.\<close>

definition settle :: "account_context \<Rightarrow> pending_confirmation \<Rightarrow> domain_command list" where
  "settle ctx p =
     (case pc_kind p of
        PkManualExpense \<Rightarrow> [ConfirmExpense (pc_reference_id p) (pc_optimistic_version p), ClearPending]
      | PkReceiptReview \<Rightarrow> [ConfirmReceipt (pc_reference_id p) (cx_next_expense_id ctx) (pc_optimistic_version p), ClearPending]
      | PkAccountDeletion \<Rightarrow> [ConfirmAccountDeletion])"

text \<open>
while a confirmation is open, unexpired and shows the current version of its draft, each of the confirming
words settles it: the decision is exactly the command of its kind, and the confirmation is closed.
\<close>

theorem confirming_word_settles:
  assumes "cx_allowlisted ctx" "cx_lifecycle ctx = LsActive" "cx_pending ctx = Some p"
    and "now < pc_expires_at p" "pc_optimistic_version p = dv_version (pc_draft p)"
    and "confirm_words (fold_text L (trim_command_punctuation s))"
  shows "\<exists>reply. decide L ctx s now = Done \<lparr>co_replies = [reply], co_commands = settle ctx p\<rparr>"
proof -
  have "parse_intent L s (cx_default_currency ctx) = Done (intent_of IkConfirm)"
    using assms(6) by (auto simp: parse_intent_def Let_def confirm_words_def starts_with_def)
  with assms show ?thesis
    by (cases "pc_kind p")
      (simp_all add: decide_active handle_active_def is_explicit_slash_command_def is_pending_stale_def
        resolve_pending_def outcome_simps settle_def intent_of_def)
qed

section \<open>Every message is answered\<close>

definition ends :: "'a run \<Rightarrow> bool" where
  "ends m \<longleftrightarrow> m \<noteq> NoFuel"

lemma ends_intros:
  "ends (Done a)"
  "ends m \<Longrightarrow> (\<And>a. ends (f a)) \<Longrightarrow> ends (rbind m f)"
  "ends x \<Longrightarrow> ends y \<Longrightarrow> ends (if b then x else y)"
  "ends x \<Longrightarrow> (\<And>a. ends (g a)) \<Longrightarrow> ends (case v of None \<Rightarrow> x | Some a \<Rightarrow> g a)"
  "(\<And>a b. ends (h a b)) \<Longrightarrow> ends (case p of (a, b) \<Rightarrow> h a b)"
  "ends (slice_from t n)" "ends (field_at ss n)" "ends Panic"
  by (auto simp: ends_def rbind_NoFuel slice_from_def field_at_def split: option.splits prod.splits)

lemma extract_ends: "ends (extract_after_keywords low raw ks)"
proof (induction ks)
  case (Cons k ks)
  then show ?case unfolding extract_after_keywords.simps by (intro ends_intros)
qed (simp add: ends_def)

lemma with_amount_ends: "digits_kept L \<Longrightarrow> ends (with_amount L t cur k)"
  using fuel_enough [of L t "Suc (amount_chars t)" "Suc (amount_chars t)" cur] unfolding with_amount_def
  by (intro ends_intros) (auto simp: ends_def parse_amount_def simp del: parse_amount_fuel.simps)

lemma parse_schedule_intent_ends: "ends (parse_schedule_intent rf ff)"
  unfolding parse_schedule_intent_def by (intro ends_intros)

lemma parse_parameterized_ends: "ends (parse_parameterized_slash L s)"
  unfolding parse_parameterized_slash_def Let_def
  by (cases "split_whitespace (fold_text L (trim_start_slashes (trim_command_punctuation s)))")
    (simp_all only: list.case, (intro ends_intros parse_schedule_intent_ends)+)

lemma parse_intent_ends:
  assumes "digits_kept L"
  shows "ends (parse_intent L s cur)"
proof -
  note amount = with_amount_ends [OF assms]
  have edit: "ends (parse_edit_or_recat L t cur)" for t
    unfolding parse_edit_or_recat_def parse_field_edit_def Let_def by (intro ends_intros extract_ends amount)
  have manual: "ends (manual_from_amount L tok d cur)" for tok d
    unfolding manual_from_amount_def Let_def by (intro ends_intros amount)
  have entry: "ends (parse_manual_entry L t cur)" for t
    unfolding parse_manual_entry_def Let_def by (intro ends_intros manual)
  show ?thesis
    unfolding parse_intent_def Let_def by (intro ends_intros parse_parameterized_ends edit entry)
qed

lemma one_reply:
  "length (co_replies (handle_active_intent L ctx i now)) = 1" "length (co_replies (resolve_pending L ctx p i now)) = 1"
  unfolding handle_active_intent_def resolve_pending_def
  by (cases "i_kind i"; auto simp: outcome_simps split: option.splits pending_kind.splits list.splits)+

text \<open>
C18: every message is answered: the decision comes to an end, and unless the parser panics the account gets exactly
one reply.
\<close>

theorem every_message_answered:
  assumes "digits_kept L"
  shows "decide L ctx s now = Panic \<or> (\<exists>reply cmds. decide L ctx s now = Done \<lparr>co_replies = [reply], co_commands = cmds\<rparr>)"
proof (cases "decide L ctx s now")
  case (Done out)
  have "length (co_replies out) = 1" using Done
  proof (cases rule: decide_cases)
    case (consent i)
    then show ?thesis
      by (cases "i_kind i") (auto simp: handle_pending_consent_def outcome_simps)
  qed (use Done one_reply in \<open>auto simp: decide_def handle_active_def outcome_simps rbind_Done
        split: if_splits lifecycle_state.splits\<close>)
  then obtain r where "co_replies out = [r]" by (auto simp: length_Suc_conv)
  then show ?thesis using Done by (cases out) auto
next
  case NoFuel
  have "ends (decide L ctx s now)"
    unfolding decide_def handle_pending_consent_def handle_active_def Let_def
    by (cases "cx_lifecycle ctx") (simp_all only: lifecycle_state.case, (intro ends_intros parse_intent_ends [OF assms])+)
  with NoFuel show ?thesis by (simp add: ends_def)
qed simp

section \<open>Samples\<close>

definition sample_draft :: manual_draft_view where
  "sample_draft =
     \<lparr>dv_version = 3, dv_amount_minor = 50000, dv_currency = ''VND'', dv_merchant = ''Pho 24'', dv_category_key = ''dining'',
      dv_category_display = ''Dining'', dv_transaction_type = ''expense'', dv_type_label = ''Expense'',
      dv_date_display = ''01/07/2026'', dv_occurred_at = 0\<rparr>"

definition sample_pending :: pending_confirmation where
  "sample_pending =
     \<lparr>pc_kind = PkReceiptReview, pc_reference_id = 7, pc_optimistic_version = 3, pc_expires_at = secs 900,
      pc_draft = sample_draft\<rparr>"

definition sample_context :: "pending_confirmation option \<Rightarrow> account_context" where
  "sample_context p =
     \<lparr>cx_next_expense_id = 11, cx_next_submission_id = 12, cx_next_ingest_job_id = 13, cx_lifecycle = LsActive,
      cx_allowlisted = True, cx_default_currency = ''VND'', cx_timezone = ''UTC'', cx_locale = ''en-US'', cx_retention_days = 30,
      cx_remaining_daily_receipts = 5, cx_confirmed_expense_count = 0, cx_pending = p, cx_today_summary = None,
      cx_week_summary = None, cx_month_summary = None, cx_schedules = [], cx_recent_lines = []\<rparr>"

lemma sample_confirm_word: "confirm_words (fold_text sample_chat_libs (trim_command_punctuation ''OK!''))"
  by code_simp

lemma sample_locale: "locale_parse ''en-US'' = En"
  by code_simp

lemma sample_confirm:
  "\<exists>reply. decide sample_chat_libs (sample_context (Some sample_pending)) ''OK!'' 0
    = Done \<lparr>co_replies = [reply], co_commands = [ConfirmReceipt 7 11 3, ClearPending]\<rparr>"
proof -
  have "parse_intent sample_chat_libs ''OK!'' ''VND'' = Done (intent_of IkConfirm)" by code_simp
  then show ?thesis
    by (simp add: decide_active handle_active_def is_explicit_slash_command_def is_pending_stale_def resolve_pending_def
        outcome_simps intent_of_def sample_context_def sample_pending_def sample_draft_def secs_def)
qed

theorem answers_bound_to_pending_witness:
  "cx_allowlisted (sample_context (Some sample_pending)) \<and> cx_lifecycle (sample_context (Some sample_pending)) = LsActive
    \<and> (\<exists>p. cx_pending (sample_context (Some sample_pending)) = Some p \<and> 0 < pc_expires_at p \<and> answers (ConfirmReceipt 7 11 3) p)"
proof -
  obtain reply where "decide sample_chat_libs (sample_context (Some sample_pending)) ''OK!'' 0
      = Done \<lparr>co_replies = [reply], co_commands = [ConfirmReceipt 7 11 3, ClearPending]\<rparr>"
    using sample_confirm by blast
  from answers_bound_to_pending [OF this, of "ConfirmReceipt 7 11 3"] show ?thesis by simp
qed

theorem commands_are_gated_witness:
  "\<exists>out. decide sample_chat_libs ((sample_context None)\<lparr>cx_lifecycle := LsSuspended\<rparr>) ''50k pho'' 0 = Done out
    \<and> co_commands out = []"
proof -
  have "decide sample_chat_libs ((sample_context None)\<lparr>cx_lifecycle := LsSuspended\<rparr>) ''50k pho'' 0
      = Done (reply_with (suspended_text En) [])"
    using sample_locale by (simp add: decide_def sample_context_def context_locale_def)
  from commands_are_gated [OF this] this show ?thesis by (simp add: sample_context_def)
qed

lemma sample_entry:
  "\<exists>reply. decide sample_chat_libs (sample_context None) ''50k pho'' 0
    = Done \<lparr>co_replies = [reply], co_commands =
        [CreateManualAwaitingConfirmation 11 50000 ''VND'' ''pho'' ''pho'' 0 1 (secs 900)]\<rparr>"
proof -
  have "parse_intent sample_chat_libs ''50k pho'' ''VND'' = Done ((intent_of IkManualEntry)\<lparr>i_amount_minor := 50000,
      i_currency := ''VND'', i_description := ''pho'', i_amount_text := ''50k''\<rparr>)" by code_simp
  then show ?thesis
    by (simp add: decide_active handle_active_def handle_active_intent_def outcome_simps intent_of_def sample_context_def
        PENDING_CONFIRMATION_TTL_SECS_def)
qed

theorem commands_are_validated_witness:
  "valid_command sample_chat_libs 0 (CreateManualAwaitingConfirmation 11 50000 ''VND'' ''pho'' ''pho'' 0 1 (secs 900))"
proof -
  obtain reply where "decide sample_chat_libs (sample_context None) ''50k pho'' 0
      = Done \<lparr>co_replies = [reply], co_commands =
          [CreateManualAwaitingConfirmation 11 50000 ''VND'' ''pho'' ''pho'' 0 1 (secs 900)]\<rparr>"
    using sample_entry by blast
  from commands_are_validated [OF this] show ?thesis by simp
qed

theorem confirming_word_settles_witness:
  "\<exists>reply. decide sample_chat_libs (sample_context (Some sample_pending)) ''OK!'' 0
    = Done \<lparr>co_replies = [reply], co_commands = [ConfirmReceipt 7 11 3, ClearPending]\<rparr>"
  using confirming_word_settles [of "sample_context (Some sample_pending)" sample_pending 0, OF _ _ _ _ _ sample_confirm_word]
  by (simp add: sample_context_def sample_pending_def sample_draft_def secs_def settle_def)

theorem every_message_answered_witness:
  "decide sample_chat_libs (sample_context None) ''50k pho'' 0 = Panic
   \<or> (\<exists>reply cmds. decide sample_chat_libs (sample_context None) ''50k pho'' 0 = Done \<lparr>co_replies = [reply], co_commands = cmds\<rparr>)"
  by (rule every_message_answered [OF sample_digits_kept])

end
