(* ===== verification/Schedule_Proofs.thy ===== *)
theory Schedule_Proofs
  imports Schedule
begin

text \<open>
  What the schedule code relies on of the calendar and of a time zone (\<open>calendar_ok\<close>, \<open>zone_ok\<close>),
  the days on which a frequency delivers, and the delivery instant of a day (\<open>slot\<close>). The lemmas
  rewrite the code's date arithmetic into slots; slots of later days are later.
\<close>

section \<open>What is relied on\<close>

definition next_first :: "int \<Rightarrow> nat \<Rightarrow> int \<times> nat \<times> nat" where
  "next_first y m = (if m = 12 then (y + 1, 1, 1) else (y, m + 1, 1))"

definition prev_month_of :: "int \<Rightarrow> nat \<Rightarrow> int \<times> nat" where
  "prev_month_of y m = (if m = 1 then (y - 1, 12) else (y, m - 1))"

text \<open>
  chrono represents every date within 262,000 years of the epoch; the laws are asked of the day
  numbers up to ninety million only.
\<close>

abbreviation day_limit :: int where
  "day_limit \<equiv> 90000000"

definition calendar_ok :: "zone_libs \<Rightarrow> bool" where
  "calendar_ok Z \<longleftrightarrow>
     (\<forall>n. \<bar>n\<bar> \<le> day_limit \<longrightarrow>
        zl_from_ymd Z (year_of Z n) (month_of Z n) (day_of Z n) = Some n
      \<and> zl_weekday Z n = (zl_weekday Z 0 + n) mod 7
      \<and> 1 \<le> day_of Z n \<and> day_of Z n \<le> 31
      \<and> (\<forall>k < day_of Z n. zl_ymd Z (n - int k) = (year_of Z n, month_of Z n, day_of Z n - k))
      \<and> (year_of Z (n - int (day_of Z n)), month_of Z (n - int (day_of Z n))) = prev_month_of (year_of Z n) (month_of Z n)
      \<and> (\<exists>g > n. g \<le> n + 31 \<and> zl_ymd Z g = next_first (year_of Z n) (month_of Z n)
           \<and> (\<forall>k. n < k \<and> k < g \<longrightarrow> day_of Z k \<noteq> 1)))"

text \<open>
  A zone: later instants have no earlier local date; a local time that exists has its own date;
  a skipped local time is followed within three hours of the same day by one that exists, and the
  time an hour later, if it exists, is on the same day.
\<close>

definition zone_ok :: "zone_libs \<Rightarrow> string \<Rightarrow> bool" where
  "zone_ok Z tz \<longleftrightarrow>
     (\<forall>i j. i \<le> j \<longrightarrow> zl_local_date Z tz i \<le> zl_local_date Z tz j)
   \<and> (\<forall>n t. zl_from_local Z tz n = LSingle t \<longrightarrow> zl_local_date Z tz t = n div 1440)
   \<and> (\<forall>n t u. zl_from_local Z tz n = LAmbiguous t u \<longrightarrow> zl_local_date Z tz t = n div 1440)
   \<and> (\<forall>n. zl_from_local Z tz n = LNone \<longrightarrow>
        (\<exists>k. 1 \<le> k \<and> k \<le> (180 :: nat) \<and> zl_from_local Z tz (n + int k) \<noteq> LNone \<and> (n + int k) div 1440 = n div 1440)
      \<and> (zl_from_local Z tz (n + 60) \<noteq> LNone \<longrightarrow> (n + 60) div 1440 = n div 1440))"

section \<open>Specification\<close>

definition delivery_day :: "zone_libs \<Rightarrow> frequency \<Rightarrow> int \<Rightarrow> bool" where
  "delivery_day Z f d =
     (case f of Daily \<Rightarrow> True | Weekly \<Rightarrow> zl_weekday Z d = 0 | Monthly \<Rightarrow> day_of Z d = 1)"

definition slot :: "zone_libs \<Rightarrow> string \<Rightarrow> int \<Rightarrow> int \<Rightarrow> instant" where
  "slot Z tz minute d = projr (resolve_local_datetime Z (d * 1440 + minute) tz)"

section \<open>Local times\<close>

lemma zone_mono: "zone_ok Z tz \<Longrightarrow> i \<le> j \<Longrightarrow> zl_local_date Z tz i \<le> zl_local_date Z tz j"
  by (simp add: zone_ok_def)

lemma zone_existing:
  assumes "zone_ok Z tz"
  shows "zl_from_local Z tz n = LSingle t \<Longrightarrow> zl_local_date Z tz t = n div 1440"
    and "zl_from_local Z tz n = LAmbiguous t u \<Longrightarrow> zl_local_date Z tz t = n div 1440"
  using assms by (auto simp: zone_ok_def)

lemma scan_steps_finds:
  assumes zone: "zone_ok Z tz"
    and k: "step \<le> k" "k \<le> 180" "zl_from_local Z tz (n + int k) \<noteq> LNone" "(n + int k) div 1440 = n div 1440"
  shows "\<exists>t. scan_steps Z tz n step = Inr t \<and> zl_local_date Z tz t = n div 1440"
  using k
proof (induction "k - step" arbitrary: step)
  case 0
  then have "step = k" by simp
  with 0 show ?case
    using zone_existing [OF zone, of "n + int k"]
    by (cases "zl_from_local Z tz (n + int k)") (auto simp: scan_steps.simps [of Z tz n k])
next
  case (Suc x)
  then have "step < k" by simp
  show ?case
  proof (cases "zl_from_local Z tz (n + int step)")
    case LNone
    moreover have "\<exists>t. scan_steps Z tz n (step + 1) = Inr t \<and> zl_local_date Z tz t = n div 1440"
      using Suc \<open>step < k\<close> by (intro Suc.hyps(1)) auto
    ultimately show ?thesis using \<open>step < k\<close> Suc.prems by (simp add: scan_steps.simps [of Z tz n step])
  next
    case (LSingle t)
    have "(n + int step) div 1440 = n div 1440"
      using Suc.prems(4) \<open>step < k\<close> zdiv_mono1 [of "n + int step" "n + int k" 1440] zdiv_mono1 [of n "n + int step" 1440] by simp
    with LSingle show ?thesis
      using Suc.prems \<open>step < k\<close> zone_existing(1) [OF zone LSingle] by (simp add: scan_steps.simps [of Z tz n step])
  next
    case (LAmbiguous t u)
    have "(n + int step) div 1440 = n div 1440"
      using Suc.prems(4) \<open>step < k\<close> zdiv_mono1 [of "n + int step" "n + int k" 1440] zdiv_mono1 [of n "n + int step" 1440] by simp
    with LAmbiguous show ?thesis
      using Suc.prems \<open>step < k\<close> zone_existing(2) [OF zone LAmbiguous] by (simp add: scan_steps.simps [of Z tz n step])
  qed
qed

text \<open>Every local time resolves, to an instant of the same local day.\<close>

lemma resolve_ok:
  assumes zone: "zone_ok Z tz"
  shows "\<exists>t. resolve_local_datetime Z n tz = Inr t \<and> zl_local_date Z tz t = n div 1440"
proof (cases "zl_from_local Z tz n")
  case LNone
  with zone obtain k where k: "1 \<le> k" "k \<le> (180 :: nat)" "zl_from_local Z tz (n + int k) \<noteq> LNone" "(n + int k) div 1440 = n div 1440"
    and hour: "zl_from_local Z tz (n + 60) \<noteq> LNone \<longrightarrow> (n + 60) div 1440 = n div 1440"
    unfolding zone_ok_def by blast
  from scan_steps_finds [OF zone k] hour LNone show ?thesis
    using zone_existing [OF zone, of "n + 60"]
    by (cases "zl_from_local Z tz (n + 60)") (auto simp: resolve_local_datetime_def scan_forward_local_def)
qed (use zone_existing [OF zone] in \<open>auto simp: resolve_local_datetime_def\<close>)

lemma resolve_slot:
  assumes "zone_ok Z tz" "0 \<le> minute" "minute < 1440"
  shows "resolve_local_datetime Z (d * 1440 + minute) tz = Inr (slot Z tz minute d)"
    and "zl_local_date Z tz (slot Z tz minute d) = d"
proof -
  from resolve_ok [OF assms(1)] obtain t
    where "resolve_local_datetime Z (d * 1440 + minute) tz = Inr t" "zl_local_date Z tz t = (d * 1440 + minute) div 1440"
    by blast
  with assms(2,3) show "resolve_local_datetime Z (d * 1440 + minute) tz = Inr (slot Z tz minute d)"
    and "zl_local_date Z tz (slot Z tz minute d) = d"
    by (simp_all add: slot_def)
qed

lemma slot_less:
  assumes "zone_ok Z tz" "0 \<le> minute" "minute < 1440" "0 \<le> minute'" "minute' < 1440" "d < d'"
  shows "slot Z tz minute d < slot Z tz minute' d'"
  using zone_mono [OF assms(1), of "slot Z tz minute' d'" "slot Z tz minute d"] resolve_slot(2) [OF assms(1)] assms(2-)
  by (metis linorder_not_le)

lemma slot_le:
  assumes "zone_ok Z tz" "0 \<le> minute" "minute < 1440" "d \<le> d'"
  shows "slot Z tz minute d \<le> slot Z tz minute d'"
  using slot_less [OF assms(1,2,3,2,3), of d d'] assms(4) by (cases "d = d'") auto

text \<open>An instant against a slot, by the local dates.\<close>

lemma slot_after_date:
  assumes "zone_ok Z tz" "0 \<le> minute" "minute < 1440"
  shows "now < slot Z tz minute d \<Longrightarrow> zl_local_date Z tz now \<le> d"
    and "slot Z tz minute d \<le> now \<Longrightarrow> d \<le> zl_local_date Z tz now"
    and "zl_local_date Z tz now < d \<Longrightarrow> now < slot Z tz minute d"
    and "d < zl_local_date Z tz now \<Longrightarrow> slot Z tz minute d < now"
  using zone_mono [OF assms(1), of now "slot Z tz minute d"] zone_mono [OF assms(1), of "slot Z tz minute d" now]
    resolve_slot(2) [OF assms, of d]
  by (force simp: not_le [symmetric])+

section \<open>The calendar\<close>

lemma calendar_day:
  assumes "calendar_ok Z" "\<bar>n\<bar> \<le> day_limit"
  shows "zl_from_ymd Z (year_of Z n) (month_of Z n) (day_of Z n) = Some n"
    and "zl_weekday Z n = (zl_weekday Z 0 + n) mod 7"
    and "1 \<le> day_of Z n" "day_of Z n \<le> 31"
    and "k < day_of Z n \<Longrightarrow> zl_ymd Z (n - int k) = (year_of Z n, month_of Z n, day_of Z n - k)"
    and "(year_of Z (n - int (day_of Z n)), month_of Z (n - int (day_of Z n))) = prev_month_of (year_of Z n) (month_of Z n)"
    and "\<exists>g > n. g \<le> n + 31 \<and> zl_ymd Z g = next_first (year_of Z n) (month_of Z n)
           \<and> (\<forall>k. n < k \<and> k < g \<longrightarrow> day_of Z k \<noteq> 1)"
  using assms unfolding calendar_ok_def by blast+

definition first_of_month :: "zone_libs \<Rightarrow> int \<Rightarrow> int" where
  "first_of_month Z n = n - int (day_of Z n - 1)"

lemma from_ymd_of: "calendar_ok Z \<Longrightarrow> \<bar>n\<bar> \<le> day_limit \<Longrightarrow> zl_ymd Z n = (y, m, d) \<Longrightarrow> zl_from_ymd Z y m d = Some n"
  using calendar_day(1) [of Z n] by (simp add: year_of_def month_of_def day_of_def)

lemma first_of_month:
  assumes "calendar_ok Z" "\<bar>n\<bar> \<le> 80000000"
  shows "zl_ymd Z (first_of_month Z n) = (year_of Z n, month_of Z n, 1)"
    and "zl_from_ymd Z (year_of Z n) (month_of Z n) 1 = Some (first_of_month Z n)"
    and "first_of_month Z n \<le> n" "n - 31 < first_of_month Z n"
    and "day_of Z (first_of_month Z n) = 1"
proof -
  note day = calendar_day [OF assms(1), of n]
  have n: "\<bar>n\<bar> \<le> day_limit" using assms(2) by simp
  show bounds: "first_of_month Z n \<le> n" "n - 31 < first_of_month Z n"
    using day(3,4) [OF n] by (auto simp: first_of_month_def)
  show ymd: "zl_ymd Z (first_of_month Z n) = (year_of Z n, month_of Z n, 1)"
    using day(5) [OF n, of "day_of Z n - 1"] day(3) [OF n] by (simp add: first_of_month_def)
  show "zl_from_ymd Z (year_of Z n) (month_of Z n) 1 = Some (first_of_month Z n)"
    by (rule from_ymd_of [OF assms(1) _ ymd]) (use bounds assms(2) in linarith)
  show "day_of Z (first_of_month Z n) = 1" using ymd by (simp add: day_of_def)
qed

lemma day_in_month:
  assumes "calendar_ok Z" "\<bar>n\<bar> \<le> 80000000" "first_of_month Z n < k" "k \<le> n"
  shows "day_of Z k \<noteq> 1"
  using calendar_day(5) [OF assms(1), of n "nat (n - k)"] assms by (auto simp: day_of_def first_of_month_def)

text \<open>The first of the next month and of the month before.\<close>

lemma next_month_first:
  assumes "calendar_ok Z" "\<bar>n\<bar> \<le> 80000000"
  obtains g where "n < g" "g \<le> n + 31" "day_of Z g = 1"
    and "(if month_of Z n = 12 then zl_from_ymd Z (year_of Z n + 1) 1 1 else zl_from_ymd Z (year_of Z n) (month_of Z n + 1) 1) = Some g"
    and "\<And>k. n < k \<Longrightarrow> k < g \<Longrightarrow> day_of Z k \<noteq> 1"
proof -
  have n: "\<bar>n\<bar> \<le> day_limit" using assms(2) by simp
  obtain g where g: "n < g" "g \<le> n + 31" "zl_ymd Z g = next_first (year_of Z n) (month_of Z n)"
      "\<And>k. n < k \<Longrightarrow> k < g \<Longrightarrow> day_of Z k \<noteq> 1"
    using calendar_day(7) [OF assms(1) n] by blast
  have "\<bar>g\<bar> \<le> day_limit" using g(1,2) assms(2) by linarith
  from from_ymd_of [OF assms(1) this] g(3)
  have "(if month_of Z n = 12 then zl_from_ymd Z (year_of Z n + 1) 1 1 else zl_from_ymd Z (year_of Z n) (month_of Z n + 1) 1) = Some g"
    by (simp add: next_first_def split: if_splits)
  moreover have "day_of Z g = 1" using g(3) by (simp add: next_first_def day_of_def split: if_splits)
  ultimately show ?thesis using g that by blast
qed

lemma prev_month_first:
  assumes "calendar_ok Z" "\<bar>n\<bar> \<le> 80000000" "day_of Z n = 1"
  obtains h where "h < n" "n - 32 < h" "day_of Z h = 1"
    and "(if month_of Z n = 1 then zl_from_ymd Z (year_of Z n - 1) 12 1 else zl_from_ymd Z (year_of Z n) (month_of Z n - 1) 1) = Some h"
    and "\<And>k. h < k \<Longrightarrow> k < n \<Longrightarrow> day_of Z k \<noteq> 1"
proof -
  have n: "\<bar>n\<bar> \<le> day_limit" using assms(2) by simp
  let ?p = "n - 1"
  have p: "\<bar>?p\<bar> \<le> day_limit" using assms(2) by linarith
  let ?h = "first_of_month Z ?p"
  have day: "1 \<le> day_of Z ?p" "day_of Z ?p \<le> 31" using calendar_day(3,4) [OF assms(1) p] .
  have pm: "(year_of Z ?p, month_of Z ?p) = prev_month_of (year_of Z n) (month_of Z n)"
    using calendar_day(6) [OF assms(1) n] assms(3) by simp
  have "day_of Z ?p - 1 < day_of Z ?p" using day(1) by simp
  from calendar_day(5) [OF assms(1) p this] have ymd: "zl_ymd Z ?h = (year_of Z ?p, month_of Z ?p, 1)"
    using day(1) by (simp add: first_of_month_def)
  have bounds: "?h < n" "n - 32 < ?h" using day by (auto simp: first_of_month_def)
  have "zl_from_ymd Z (year_of Z ?p) (month_of Z ?p) 1 = Some ?h"
    by (rule from_ymd_of [OF assms(1) _ ymd]) (use bounds assms(2) in linarith)
  with pm have "(if month_of Z n = 1 then zl_from_ymd Z (year_of Z n - 1) 12 1 else zl_from_ymd Z (year_of Z n) (month_of Z n - 1) 1) = Some ?h"
    by (simp add: prev_month_of_def split: if_splits)
  moreover have "day_of Z k \<noteq> 1" if "?h < k" "k < n" for k
    using calendar_day(5) [OF assms(1) p, of "nat (?p - k)"] that by (auto simp: day_of_def first_of_month_def)
  moreover have "day_of Z ?h = 1" using ymd by (simp add: day_of_def)
  ultimately show ?thesis using that [OF bounds] by blast
qed

lemma weekday_range: "calendar_ok Z \<Longrightarrow> \<bar>n\<bar> \<le> day_limit \<Longrightarrow> 0 \<le> zl_weekday Z n \<and> zl_weekday Z n < 7"
  using calendar_day(2) [of Z n] by simp

lemma weekday_add:
  "calendar_ok Z \<Longrightarrow> \<bar>n\<bar> \<le> day_limit \<Longrightarrow> \<bar>n + k\<bar> \<le> day_limit \<Longrightarrow> zl_weekday Z (n + k) = (zl_weekday Z n + k) mod 7"
  using calendar_day(2) [of Z n] calendar_day(2) [of Z "n + k"] by (simp add: mod_add_left_eq add.assoc)

section \<open>The delivery of a day\<close>

lemma local_delivery_ok:
  assumes "zone_ok Z tz" "0 \<le> minute" "minute < 1440" "zl_from_ymd Z y m d = Some n"
  shows "local_delivery_datetime Z y m d minute tz = Done (Inr (slot Z tz minute n))"
proof -
  have "n * 1440 + minute div 60 * 60 + minute mod 60 = n * 1440 + minute" by (simp add: add.assoc)
  moreover have "0 \<le> minute div 60" "minute div 60 < 24" using assms(2,3) by auto
  ultimately show ?thesis
    using assms(2,3,4) resolve_slot(1) [OF assms(1-3), of n]
    by (simp add: add.commute local_delivery_datetime_def validate_delivery_minute_def)
qed

lemma delivery_on_ok:
  assumes "calendar_ok Z" "zone_ok Z tz" "0 \<le> minute" "minute < 1440" "\<bar>n\<bar> \<le> day_limit"
  shows "delivery_on Z tz minute n = Done (Inr (slot Z tz minute n))"
  unfolding delivery_on_def by (rule local_delivery_ok [OF assms(2-4) calendar_day(1) [OF assms(1,5)]])

lemma local_date_start_ok:
  assumes "zone_ok Z tz"
  shows "local_date_start Z d tz = Done (slot Z tz 0 d)"
  using resolve_slot(1) [OF assms, of 0 d] by (simp add: local_date_start_def)

end
