(* ===== verification/Schedule_Properties.thy ===== *)
theory Schedule_Properties
  imports Schedule_Proofs
begin

text \<open>
  The schedule component's properties: the next and the latest delivery are the first and the last
  scheduled instants around the clock, the periods reported by consecutive deliveries adjoin, and
  an interactive period contains the present.
\<close>

section \<open>Deliveries as slots\<close>

text \<open>What every property below assumes of a schedule and of the clock.\<close>

definition schedulable :: "zone_libs \<Rightarrow> string \<Rightarrow> int \<Rightarrow> instant \<Rightarrow> bool" where
  "schedulable Z tz minute now \<longleftrightarrow>
     calendar_ok Z \<and> zone_ok Z tz \<and> zl_known Z tz \<and> to_ascii_lowercase tz \<noteq> ''local''
   \<and> 0 \<le> minute \<and> minute < 1440 \<and> \<bar>zl_local_date Z tz now\<bar> \<le> 70000000"

lemma schedulableD:
  assumes "schedulable Z tz minute now"
  shows "calendar_ok Z" "zone_ok Z tz" "0 \<le> minute" "minute < 1440" "\<bar>zl_local_date Z tz now\<bar> \<le> 70000000"
    "parse_timezone (zl_known Z) tz = Inr tz" "validate_delivery_minute minute = Inr ()"
  using assms by (auto simp: schedulable_def parse_timezone_def validate_delivery_minute_def)

lemma today_candidate:
  assumes "schedulable Z tz minute now"
  defines "today \<equiv> zl_local_date Z tz now"
  shows "local_delivery_datetime Z (year_of Z today) (month_of Z today) (day_of Z today) minute tz
    = Done (Inr (slot Z tz minute today))"
  using schedulableD [OF assms(1)] unfolding today_def
  by (intro local_delivery_ok calendar_day(1)) simp_all

lemma month_candidate:
  assumes "schedulable Z tz minute now"
  defines "today \<equiv> zl_local_date Z tz now"
  shows "local_delivery_datetime Z (year_of Z today) (month_of Z today) 1 minute tz
    = Done (Inr (slot Z tz minute (first_of_month Z today)))"
  using schedulableD [OF assms(1)] unfolding today_def
  by (intro local_delivery_ok first_of_month(2)) simp_all

text \<open>The days the code chooses.\<close>

definition next_day :: "zone_libs \<Rightarrow> string \<Rightarrow> frequency \<Rightarrow> int \<Rightarrow> instant \<Rightarrow> int \<Rightarrow> bool" where
  "next_day Z tz f minute now d \<longleftrightarrow>
     delivery_day Z f d \<and> now < slot Z tz minute d \<and> \<bar>d\<bar> \<le> 70000040
   \<and> (\<forall>d'. delivery_day Z f d' \<and> now < slot Z tz minute d' \<longrightarrow> d \<le> d')"

definition last_day :: "zone_libs \<Rightarrow> string \<Rightarrow> frequency \<Rightarrow> int \<Rightarrow> instant \<Rightarrow> int \<Rightarrow> bool" where
  "last_day Z tz f minute now d \<longleftrightarrow>
     delivery_day Z f d \<and> slot Z tz minute d \<le> now \<and> \<bar>d\<bar> \<le> 70000040
   \<and> (\<forall>d'. delivery_day Z f d' \<and> slot Z tz minute d' \<le> now \<longrightarrow> d' \<le> d)"

lemma next_day_daily:
  assumes ok: "schedulable Z tz minute now"
  defines "today \<equiv> zl_local_date Z tz now"
  shows "next_day Z tz Daily minute now (if now < slot Z tz minute today then today else today + 1)"
proof -
  note s = schedulableD [OF ok]
  note cmp = slot_after_date [OF s(2-4), where now = now]
  show ?thesis
    using cmp(1) cmp(3) [of "today + 1"] s(5)
    by (force simp: next_day_def delivery_day_def today_def not_less order_le_less)
qed

lemma last_day_daily:
  assumes ok: "schedulable Z tz minute now"
  defines "today \<equiv> zl_local_date Z tz now"
  shows "last_day Z tz Daily minute now (if now < slot Z tz minute today then today - 1 else today)"
proof -
  note s = schedulableD [OF ok]
  note cmp = slot_after_date [OF s(2-4), where now = now]
  show ?thesis
    using cmp(2) cmp(4) [of "today - 1"] s(5)
    by (force simp: last_day_def delivery_day_def today_def not_less order_le_less)
qed

lemma monday_gap:
  assumes "calendar_ok Z" "\<bar>n\<bar> \<le> 70000040" "zl_weekday Z n = 0" "zl_weekday Z d = 0" "n < d" "d < n + 7"
  shows False
proof -
  have "\<bar>d\<bar> \<le> day_limit" using assms(2,5,6) by linarith
  then show False using weekday_add [OF assms(1), of n "d - n"] assms by (auto simp: zmod_trivial_iff)
qed

lemma next_day_weekly:
  assumes ok: "schedulable Z tz minute now"
  defines "today \<equiv> zl_local_date Z tz now"
  defines "monday \<equiv> today + (0 - zl_weekday Z today + 7) mod 7"
  shows "next_day Z tz Weekly minute now (if now < slot Z tz minute monday then monday else monday + 7)"
    and "\<bar>monday\<bar> \<le> 70000010" and "zl_weekday Z monday = 0" and "today \<le> monday"
proof -
  note s = schedulableD [OF ok]
  note cmp = slot_after_date [OF s(2-4), where now = now]
  have range: "\<bar>today\<bar> \<le> 70000000" using s(5) by (simp add: today_def)
  have wd: "0 \<le> zl_weekday Z today" "zl_weekday Z today < 7"
    using weekday_range [OF s(1), of today] range by auto
  have step: "0 \<le> (0 - zl_weekday Z today + 7) mod 7" "(0 - zl_weekday Z today + 7) mod 7 < 7" by simp_all
  show near: "\<bar>monday\<bar> \<le> 70000010" "today \<le> monday" using range step by (auto simp: monday_def)
  have "(zl_weekday Z today + (0 - zl_weekday Z today + 7) mod 7) mod 7 = 0"
    by (simp add: mod_add_right_eq)
  then show monday: "zl_weekday Z monday = 0"
    unfolding monday_def using weekday_add [OF s(1), of today] range step near(1) by (simp add: monday_def)
  have monday7: "zl_weekday Z (monday + 7) = 0"
    using weekday_add [OF s(1), of monday 7] monday near(1) by simp
  have first: "monday \<le> d" if d: "zl_weekday Z d = 0" "today \<le> d" for d
  proof (rule ccontr)
    assume "\<not> monday \<le> d"
    then have "d < monday" "monday < d + 7" using step d(2) by (auto simp: monday_def)
    moreover have "\<bar>d\<bar> \<le> 70000040" using d(2) range \<open>d < monday\<close> near(1) by linarith
    ultimately show False using monday_gap [OF s(1) _ d(1) monday] by simp
  qed
  have second: "monday + 7 \<le> d" if "zl_weekday Z d = 0" "monday < d" for d
    using monday_gap [OF s(1) _ monday that(1,2)] near(1) by fastforce
  show "next_day Z tz Weekly minute now (if now < slot Z tz minute monday then monday else monday + 7)"
  proof (cases "now < slot Z tz minute monday")
    case True
    with monday near first cmp(1) show ?thesis by (auto simp: next_day_def delivery_day_def today_def)
  next
    case False
    have "monday + 7 \<le> d" if "zl_weekday Z d = 0" "now < slot Z tz minute d" for d
      using second [OF that(1)] first [OF that(1)] cmp(1) [OF that(2)] False that(2)
      by (cases "d = monday") (auto simp: today_def)
    moreover have "now < slot Z tz minute (monday + 7)"
      using cmp(3) [of "monday + 7"] near(2) by (simp add: today_def)
    ultimately show ?thesis using False monday7 near(1) by (auto simp: next_day_def delivery_day_def)
  qed
qed

lemma last_day_weekly:
  assumes ok: "schedulable Z tz minute now"
  defines "today \<equiv> zl_local_date Z tz now"
  defines "monday \<equiv> today - zl_weekday Z today"
  shows "last_day Z tz Weekly minute now (if now < slot Z tz minute monday then monday - 7 else monday)"
    and "\<bar>monday\<bar> \<le> 70000010" and "zl_weekday Z monday = 0" and "monday \<le> today" and "today < monday + 7"
proof -
  note s = schedulableD [OF ok]
  note cmp = slot_after_date [OF s(2-4), where now = now]
  have range: "\<bar>today\<bar> \<le> 70000000" using s(5) by (simp add: today_def)
  have wd: "0 \<le> zl_weekday Z today" "zl_weekday Z today < 7"
    using weekday_range [OF s(1), of today] range by auto
  show near: "\<bar>monday\<bar> \<le> 70000010" "monday \<le> today" "today < monday + 7"
    using range wd by (auto simp: monday_def)
  show monday: "zl_weekday Z monday = 0"
    using weekday_add [OF s(1), of today "- zl_weekday Z today"] range near(1) by (simp add: monday_def)
  have monday7: "zl_weekday Z (monday - 7) = 0"
    using weekday_add [OF s(1), of monday "- 7"] monday near(1) by simp
  have last: "d \<le> monday" if d: "zl_weekday Z d = 0" "d \<le> today" for d
    using monday_gap [OF s(1) _ monday d(1)] near d(2) by fastforce
  have before: "d \<le> monday - 7" if d: "zl_weekday Z d = 0" "d < monday" for d
  proof (rule ccontr)
    assume "\<not> d \<le> monday - 7"
    then have "monday < d + 7" "\<bar>d\<bar> \<le> 70000040" using d(2) near(1) by linarith+
    with monday_gap [OF s(1) _ d(1) monday d(2)] show False by simp
  qed
  show "last_day Z tz Weekly minute now (if now < slot Z tz minute monday then monday - 7 else monday)"
  proof (cases "now < slot Z tz minute monday")
    case False
    with monday near last cmp(2) show ?thesis by (auto simp: last_day_def delivery_day_def today_def)
  next
    case True
    have "d \<le> monday - 7" if "zl_weekday Z d = 0" "slot Z tz minute d \<le> now" for d
      using before [OF that(1)] last [OF that(1)] cmp(2) [OF that(2)] True that(2)
      by (cases "d = monday") (auto simp: today_def)
    moreover have "slot Z tz minute (monday - 7) \<le> now"
      using cmp(4) [of "monday - 7"] near(2) by (simp add: today_def)
    ultimately show ?thesis using True monday7 near(1) by (auto simp: last_day_def delivery_day_def)
  qed
qed

lemma next_day_monthly:
  assumes ok: "schedulable Z tz minute now"
  defines "today \<equiv> zl_local_date Z tz now"
  defines "first \<equiv> first_of_month Z today"
  shows "now < slot Z tz minute first \<Longrightarrow> next_day Z tz Monthly minute now first"
    and "\<not> now < slot Z tz minute first \<Longrightarrow> today < g \<Longrightarrow> g \<le> today + 31 \<Longrightarrow> day_of Z g = 1 \<Longrightarrow>
      (\<And>k. today < k \<Longrightarrow> k < g \<Longrightarrow> day_of Z k \<noteq> 1) \<Longrightarrow> next_day Z tz Monthly minute now g"
proof -
  note s = schedulableD [OF ok]
  note cmp = slot_after_date [OF s(2-4), where now = now]
  have range: "\<bar>today\<bar> \<le> 80000000" "\<bar>today\<bar> \<le> 70000000" using s(5) by (simp_all add: today_def)
  note f = first_of_month [OF s(1) range(1), folded first_def]
  have near: "\<bar>first\<bar> \<le> 70000040" using f(3,4) range(2) by linarith
  show "next_day Z tz Monthly minute now first" if "now < slot Z tz minute first"
    using that near f(3,5) cmp(1) by (auto simp: next_day_def delivery_day_def today_def intro: order_trans)
  assume g: "\<not> now < slot Z tz minute first" "today < g" "g \<le> today + 31" "day_of Z g = 1"
    and none: "\<And>k. today < k \<Longrightarrow> k < g \<Longrightarrow> day_of Z k \<noteq> 1"
  have "g \<le> d" if d: "day_of Z d = 1" "now < slot Z tz minute d" for d
  proof (rule ccontr)
    assume "\<not> g \<le> d"
    with none [of d] d(1) have "d \<le> today" by force
    moreover have "today \<le> d" using cmp(1) [OF d(2)] by (simp add: today_def)
    ultimately have "first = d" using day_in_month [OF s(1) range(1), of d] d(1) f(3) by (force simp: first_def)
    with g(1) d(2) show False by simp
  qed
  moreover have "now < slot Z tz minute g" using cmp(3) g(2) by (simp add: today_def)
  moreover have "\<bar>g\<bar> \<le> 70000040" using g(2,3) range(2) by linarith
  ultimately show "next_day Z tz Monthly minute now g" using g(4) by (auto simp: next_day_def delivery_day_def)
qed

lemma last_day_monthly:
  assumes ok: "schedulable Z tz minute now"
  defines "today \<equiv> zl_local_date Z tz now"
  defines "first \<equiv> first_of_month Z today"
  shows "\<not> now < slot Z tz minute first \<Longrightarrow> last_day Z tz Monthly minute now first"
    and "now < slot Z tz minute first \<Longrightarrow> today = first"
    and "now < slot Z tz minute first \<Longrightarrow> h < today \<Longrightarrow> today - 32 < h \<Longrightarrow> day_of Z h = 1 \<Longrightarrow>
      (\<And>k. h < k \<Longrightarrow> k < today \<Longrightarrow> day_of Z k \<noteq> 1) \<Longrightarrow> last_day Z tz Monthly minute now h"
proof -
  note s = schedulableD [OF ok]
  note cmp = slot_after_date [OF s(2-4), where now = now]
  have range: "\<bar>today\<bar> \<le> 80000000" "\<bar>today\<bar> \<le> 70000000" using s(5) by (simp_all add: today_def)
  note f = first_of_month [OF s(1) range(1), folded first_def]
  have near: "\<bar>first\<bar> \<le> 70000040" using f(3,4) range(2) by linarith
  have last: "d \<le> first" if d: "day_of Z d = 1" "slot Z tz minute d \<le> now" for d
    using day_in_month [OF s(1) range(1), of d] d(1) cmp(2) [OF d(2)] by (force simp: first_def today_def)
  show "last_day Z tz Monthly minute now first" if "\<not> now < slot Z tz minute first"
    using that near f(5) last by (auto simp: last_day_def delivery_day_def)
  show eq: "today = first" if "now < slot Z tz minute first"
    using cmp(1) [OF that] f(3) by (simp add: today_def)
  assume h: "now < slot Z tz minute first" "h < today" "today - 32 < h" "day_of Z h = 1"
    and none: "\<And>k. h < k \<Longrightarrow> k < today \<Longrightarrow> day_of Z k \<noteq> 1"
  have "d \<le> h" if d: "day_of Z d = 1" "slot Z tz minute d \<le> now" for d
    using none [of d] d last [OF d] eq [OF h(1)] h(1) by (cases "d = first") force+
  moreover have "slot Z tz minute h \<le> now" using cmp(4) [of h] h(2) by (simp add: today_def)
  moreover have "\<bar>h\<bar> \<le> 70000040" using h(2,3) range(2) by linarith
  ultimately show "last_day Z tz Monthly minute now h" using h(4) by (auto simp: last_day_def delivery_day_def)
qed

text \<open>The code's delivery is the slot of the day that the specification names.\<close>

lemma next_delivery_slot:
  assumes ok: "schedulable Z tz minute now"
  obtains d where "next_day Z tz f minute now d" "next_delivery Z now tz f minute = Done (Inr (slot Z tz minute d))"
proof -
  note s = schedulableD [OF ok]
  let ?today = "zl_local_date Z tz now"
  note date = resolve_slot(2) [OF s(2-4)]
  note run = delivery_on_ok [OF s(1-4)]
  note code = next_delivery_def s(6,7) today_candidate [OF ok] month_candidate [OF ok] date Let_def
  show ?thesis
  proof (cases f)
    case Daily
    have "next_delivery Z now tz f minute
        = Done (Inr (slot Z tz minute (if now < slot Z tz minute ?today then ?today else ?today + 1)))"
      using Daily s(5) by (simp add: code run)
    with next_day_daily [OF ok] Daily that show ?thesis by blast
  next
    case Weekly
    let ?monday = "?today + (0 - zl_weekday Z ?today + 7) mod 7"
    note w = next_day_weekly [OF ok]
    have "next_delivery Z now tz f minute
        = Done (Inr (slot Z tz minute (if now < slot Z tz minute ?monday then ?monday else ?monday + 7)))"
    proof (cases "(0 - zl_weekday Z ?today + 7) mod 7 > 0")
      case True
      then show ?thesis using Weekly w(2) by (simp add: code run)
    next
      case False
      then have "(0 - zl_weekday Z ?today + 7) mod 7 = 0"
        using pos_mod_sign [of 7 "0 - zl_weekday Z ?today + 7"] by linarith
      then show ?thesis using Weekly s(5) by (simp add: code run)
    qed
    with w(1) Weekly that show ?thesis by blast
  next
    case Monthly
    have "\<bar>?today\<bar> \<le> 80000000" using s(5) by simp
    from next_month_first [OF s(1) this] obtain g where g: "?today < g" "g \<le> ?today + 31" "day_of Z g = 1"
      and next_g: "(if month_of Z ?today = 12 then zl_from_ymd Z (year_of Z ?today + 1) 1 1
             else zl_from_ymd Z (year_of Z ?today) (month_of Z ?today + 1) 1) = Some g"
      and none: "\<And>k. ?today < k \<Longrightarrow> k < g \<Longrightarrow> day_of Z k \<noteq> 1" by blast
    have "\<bar>g\<bar> \<le> day_limit" using g(1,2) s(5) by linarith
    with Monthly have "next_delivery Z now tz f minute
        = Done (Inr (slot Z tz minute (if now < slot Z tz minute (first_of_month Z ?today) then first_of_month Z ?today else g)))"
      by (simp only: code sbind_simps frequency.case next_g oexpect_simps rbind_simps run) simp
    with next_day_monthly [OF ok] g none Monthly that show ?thesis by (metis (full_types))
  qed
qed

lemma latest_delivery_slot:
  assumes ok: "schedulable Z tz minute now"
  obtains d where "last_day Z tz f minute now d" "latest_delivery Z now tz f minute = Done (Inr (slot Z tz minute d))"
proof -
  note s = schedulableD [OF ok]
  let ?today = "zl_local_date Z tz now"
  note date = resolve_slot(2) [OF s(2-4)]
  note run = delivery_on_ok [OF s(1-4)]
  note code = latest_delivery_def s(6,7) today_candidate [OF ok] month_candidate [OF ok] date Let_def
  show ?thesis
  proof (cases f)
    case Daily
    have "latest_delivery Z now tz f minute
        = Done (Inr (slot Z tz minute (if now < slot Z tz minute ?today then ?today - 1 else ?today)))"
      using Daily s(5) by (simp add: code run)
    with last_day_daily [OF ok] Daily that show ?thesis by blast
  next
    case Weekly
    let ?monday = "?today - zl_weekday Z ?today"
    note w = last_day_weekly [OF ok]
    have "latest_delivery Z now tz f minute
        = Done (Inr (slot Z tz minute (if now < slot Z tz minute ?monday then ?monday - 7 else ?monday)))"
      using Weekly w(2) by (simp add: code run)
    with w(1) Weekly that show ?thesis by blast
  next
    case Monthly
    let ?first = "first_of_month Z ?today"
    show ?thesis
    proof (cases "now < slot Z tz minute ?first")
      case True
      note today = last_day_monthly(2) [OF ok True]
      have "\<bar>?today\<bar> \<le> 80000000" using s(5) by simp
      moreover from first_of_month(5) [OF s(1) this] have "day_of Z ?today = 1" by (simp flip: today)
      ultimately obtain h where h: "h < ?today" "?today - 32 < h" "day_of Z h = 1"
        and prev_h: "(if month_of Z ?today = 1 then zl_from_ymd Z (year_of Z ?today - 1) 12 1
             else zl_from_ymd Z (year_of Z ?today) (month_of Z ?today - 1) 1) = Some h"
        and none: "\<And>k. h < k \<Longrightarrow> k < ?today \<Longrightarrow> day_of Z k \<noteq> 1" by (rule prev_month_first [OF s(1)]) blast
      have "\<bar>h\<bar> \<le> day_limit" using h(1,2) s(5) by linarith
      with Monthly True have "latest_delivery Z now tz f minute = Done (Inr (slot Z tz minute h))"
        by (simp only: code sbind_simps frequency.case prev_h oexpect_simps rbind_simps run) simp
      with last_day_monthly(3) [OF ok True h none] Monthly that show ?thesis by blast
    next
      case False
      with Monthly have "latest_delivery Z now tz f minute = Done (Inr (slot Z tz minute ?first))"
        by (simp only: code sbind_simps frequency.case) simp
      with last_day_monthly(1) [OF ok False] Monthly that show ?thesis by blast
    qed
  qed
qed

text \<open>What \<open>slot\<close> stands for.\<close>

lemma slot_resolved:
  assumes "schedulable Z tz minute now"
  shows "resolve_local_datetime Z (d * 1440 + minute) tz = Inr t \<longleftrightarrow> t = slot Z tz minute d"
  using resolve_slot(1) [of Z tz minute d] schedulableD [OF assms] by auto

section \<open>Periods\<close>

text \<open>The first day of the period that contains a day, and of the period before it.\<close>

definition period_first :: "zone_libs \<Rightarrow> frequency \<Rightarrow> int \<Rightarrow> int" where
  "period_first Z f d =
     (case f of Daily \<Rightarrow> d | Weekly \<Rightarrow> d - zl_weekday Z d | Monthly \<Rightarrow> first_of_month Z d)"

lemma period_first_bounds:
  assumes "calendar_ok Z" "\<bar>d\<bar> \<le> 80000000"
  shows "period_first Z f d \<le> d" "d - 31 \<le> period_first Z f d" "delivery_day Z f (period_first Z f d)"
    and "delivery_day Z f d \<Longrightarrow> period_first Z f d = d"
proof -
  have wd: "0 \<le> zl_weekday Z d" "zl_weekday Z d < 7"
    using weekday_range [OF assms(1), of d] assms(2) by auto
  note first = first_of_month [OF assms]
  show bounds: "period_first Z f d \<le> d" "d - 31 \<le> period_first Z f d"
    using wd first by (auto simp: period_first_def split: frequency.splits)
  have "zl_weekday Z (d - zl_weekday Z d) = 0"
    using weekday_add [OF assms(1), of d "- zl_weekday Z d"] wd assms(2) by simp
  then show "delivery_day Z f (period_first Z f d)"
    using first(5) by (auto simp: period_first_def delivery_day_def split: frequency.splits)
  show "period_first Z f d = d" if "delivery_day Z f d"
    using that by (auto simp: period_first_def delivery_day_def first_of_month_def split: frequency.splits)
qed

text \<open>
  The period of a delivery ends when the current day, week or month starts, and starts a delivery
  day before that.
\<close>

lemma scheduled_period_slots:
  fixes f :: frequency
  assumes ok: "schedulable Z tz minute t"
  defines "now_first \<equiv> period_first Z f (zl_local_date Z tz t)"
  obtains d where "d < now_first" "now_first - 32 < d" "delivery_day Z f d"
    and "\<And>k. d < k \<Longrightarrow> k < now_first \<Longrightarrow> \<not> delivery_day Z f k"
    and "scheduled_period Z f t tz
      = Done (Inr (\<lparr>p_start = slot Z tz 0 d, p_end = slot Z tz 0 now_first\<rparr>, scheduled_label f))"
proof -
  note s = schedulableD [OF ok]
  let ?today = "zl_local_date Z tz t"
  have range: "\<bar>?today\<bar> \<le> 80000000" "\<bar>?today\<bar> \<le> 70000000" using s(5) by simp_all
  note start = local_date_start_ok [OF s(2)]
  note date = resolve_slot(2) [OF s(2), of 0]
  note code = scheduled_period_def s(6) period_yesterday_def last_week_def last_month_def week_start_def
    month_start_def start date Let_def period_first_def now_first_def
  note bounds = period_first_bounds [OF s(1) range(1), of f]
  show ?thesis
  proof (cases f)
    case Daily
    then show ?thesis using that [of "now_first - 1"] by (simp add: code delivery_day_def)
  next
    case Weekly
    have monday: "zl_weekday Z now_first = 0" using bounds(3) Weekly by (simp add: delivery_day_def now_first_def)
    have near: "\<bar>now_first - 7\<bar> \<le> 70000040" "\<bar>now_first\<bar> \<le> day_limit" using bounds(1,2) range(2) by (auto simp: now_first_def)
    have before: "zl_weekday Z (now_first - 7) = 0"
      using weekday_add [OF s(1), of now_first "- 7"] monday near by simp
    have "\<not> delivery_day Z f k" if "now_first - 7 < k" "k < now_first" for k
      using monday_gap [OF s(1) near(1) before, of k] that Weekly by (auto simp: delivery_day_def)
    then show ?thesis using that [of "now_first - 7"] before Weekly by (simp add: code delivery_day_def)
  next
    case Monthly
    have near: "\<bar>now_first\<bar> \<le> 80000000" using bounds(1,2) range(2) by (auto simp: now_first_def)
    have "day_of Z now_first = 1" using bounds(3) Monthly by (simp add: delivery_day_def now_first_def)
    with near obtain h where h: "h < now_first" "now_first - 32 < h" "day_of Z h = 1"
      and prev_h: "(if month_of Z now_first = 1 then zl_from_ymd Z (year_of Z now_first - 1) 12 1
             else zl_from_ymd Z (year_of Z now_first) (month_of Z now_first - 1) 1) = Some h"
      and none: "\<And>k. h < k \<Longrightarrow> k < now_first \<Longrightarrow> day_of Z k \<noteq> 1" by (rule prev_month_first [OF s(1)]) blast
    have first: "now_first = first_of_month Z ?today" using Monthly by (simp add: now_first_def period_first_def)
    note resolved = resolve_slot(1) [OF s(2), of 0 h, simplified]
    have "month_start Z t tz = Done (slot Z tz 0 now_first)"
      using first_of_month(2) [OF s(1) range(1)] by (simp add: month_start_def start first)
    with Monthly prev_h resolved have "scheduled_period Z f t tz
        = Done (Inr (\<lparr>p_start = slot Z tz 0 h, p_end = slot Z tz 0 now_first\<rparr>, scheduled_label f))"
      by (simp only: scheduled_period_def s(6) last_month_def date Let_def sbind_simps frequency.case rbind_simps
          oexpect_simps) simp
    with h none Monthly show ?thesis using that [of h] by (simp add: delivery_day_def)
  qed
qed

text \<open>No instant of a local day precedes the day's midnight.\<close>

definition midnight_first :: "zone_libs \<Rightarrow> string \<Rightarrow> bool" where
  "midnight_first Z tz \<longleftrightarrow> (\<forall>i. slot Z tz 0 (zl_local_date Z tz i) \<le> i)"

lemma interactive_period_slots:
  fixes f :: frequency
  assumes ok: "schedulable Z tz minute now"
  defines "today \<equiv> zl_local_date Z tz now"
  shows "interactive_period Z f now tz
    = Done (Inr (\<lparr>p_start = slot Z tz 0 (period_first Z f today), p_end = slot Z tz 0 (today + 1)\<rparr>, interactive_label f))"
proof -
  note s = schedulableD [OF ok]
  have range: "\<bar>today\<bar> \<le> 80000000" "\<bar>today\<bar> \<le> 70000000" using s(5) by (simp_all add: today_def)
  note start = local_date_start_ok [OF s(2)]
  note date = resolve_slot(2) [OF s(2), of 0, simplified]
  note le = slot_le [OF s(2), of 0, simplified]
  show ?thesis
  proof (cases f)
    case Daily
    then show ?thesis by (simp add: interactive_period_def s(6) period_today_def start Let_def period_first_def today_def)
  next
    case Weekly
    have "today < today - zl_weekday Z today + 7" using last_day_weekly(5) [OF ok] by (simp add: today_def)
    then have "\<not> slot Z tz 0 (today - zl_weekday Z today + 7) < slot Z tz 0 (today + 1)"
      using le [of "today + 1" "today - zl_weekday Z today + 7"] by simp
    then show ?thesis using Weekly
      by (auto simp: interactive_period_def s(6) this_week_def week_start_def start date Let_def period_first_def today_def)
  next
    case Monthly
    let ?first = "first_of_month Z today"
    note f = first_of_month [OF s(1) range(1)]
    have near: "\<bar>?first\<bar> \<le> 80000000" using f(3,4) range(2) by linarith
    obtain g where g: "?first < g" "day_of Z g = 1"
      and next_g: "(if month_of Z ?first = 12 then zl_from_ymd Z (year_of Z ?first + 1) 1 1
             else zl_from_ymd Z (year_of Z ?first) (month_of Z ?first + 1) 1) = Some g"
      by (rule next_month_first [OF s(1) near]) blast
    have "today < g" using day_in_month [OF s(1) range(1), of g] g by force
    then have "\<not> slot Z tz 0 g < slot Z tz 0 (today + 1)" using le [of "today + 1" g] by simp
    moreover have "month_start Z now tz = Done (slot Z tz 0 ?first)"
      using f(2) by (simp add: month_start_def start today_def)
    moreover note resolved = resolve_slot(1) [OF s(2), of 0 g, simplified]
    ultimately have "this_month Z now tz = Done \<lparr>p_start = slot Z tz 0 ?first, p_end = slot Z tz 0 (today + 1)\<rparr>"
      by (simp only: this_month_def Let_def rbind_simps date next_g oexpect_simps resolved sexpect_simps start
          today_def [symmetric]) auto
    with Monthly show ?thesis by (simp add: interactive_period_def s(6) period_first_def)
  qed
qed

section \<open>Properties\<close>


text \<open>
\<^verbatim>\<open>latest_delivery\<close> returns the last scheduled instant that is not after the clock.
\<close>

theorem latest_delivery_is_last:
  assumes "schedulable Z tz minute now"
  shows "\<exists>d r. latest_delivery Z now tz f minute = Done (Inr r)
    \<and> delivery_day Z f d \<and> resolve_local_datetime Z (d * 1440 + minute) tz = Inr r \<and> r \<le> now
    \<and> (\<forall>d' r'. delivery_day Z f d' \<and> resolve_local_datetime Z (d' * 1440 + minute) tz = Inr r' \<and> r' \<le> now \<longrightarrow> r' \<le> r)"
proof -
  obtain d where d: "last_day Z tz f minute now d" "latest_delivery Z now tz f minute = Done (Inr (slot Z tz minute d))"
    by (rule latest_delivery_slot [OF assms])
  then show ?thesis
    using slot_resolved [OF assms] slot_le [OF schedulableD(2-4) [OF assms]] by (auto simp: last_day_def intro!: exI [of _ d])
qed

text \<open>
the summaries of two consecutive deliveries cover adjoining periods: the second period starts where the first
one ends, so that no expense falls between two summaries or into both.
\<close>

theorem scheduled_periods_adjoin:
  assumes "schedulable Z tz minute now"
    and first: "next_delivery Z now tz f minute = Done (Inr r)" and "schedulable Z tz minute r"
    and second: "next_delivery Z r tz f minute = Done (Inr r')" and "schedulable Z tz minute r'"
  shows "\<exists>p p'. scheduled_period Z f r tz = Done (Inr (p, scheduled_label f))
    \<and> scheduled_period Z f r' tz = Done (Inr (p', scheduled_label f))
    \<and> p_start p < p_end p \<and> p_end p = p_start p' \<and> p_start p' < p_end p'"
proof -
  note s = schedulableD [OF assms(1)]
  note date = resolve_slot(2) [OF s(2-4)]
  obtain d where d: "next_day Z tz f minute now d" "r = slot Z tz minute d"
    using first by (auto intro: next_delivery_slot [OF assms(1), of f])
  obtain d' where d': "next_day Z tz f minute r d'" "r' = slot Z tz minute d'"
    using second by (auto intro: next_delivery_slot [OF assms(3), of f])
  have day: "period_first Z f d = d" "period_first Z f d' = d'"
    using d(1) d'(1) period_first_bounds(4) [OF s(1)] by (auto simp: next_day_def)
  obtain e where e: "e < d" "scheduled_period Z f r tz
      = Done (Inr (\<lparr>p_start = slot Z tz 0 e, p_end = slot Z tz 0 d\<rparr>, scheduled_label f))"
    using scheduled_period_slots [OF assms(3), of f] by (auto simp: d(2) date day)
  obtain e' where e': "e' < d'" "delivery_day Z f e'" "\<And>k. e' < k \<Longrightarrow> k < d' \<Longrightarrow> \<not> delivery_day Z f k"
      "scheduled_period Z f r' tz = Done (Inr (\<lparr>p_start = slot Z tz 0 e', p_end = slot Z tz 0 d'\<rparr>, scheduled_label f))"
    using scheduled_period_slots [OF assms(5), of f] by (auto simp: d'(2) date day)
  have "d < d'" using d'(1) slot_le [OF s(2-4), of d' d] by (force simp: next_day_def d(2))
  then have "d \<le> e'" using e'(3) [of d] d(1) by (force simp: next_day_def)
  moreover have "e' \<le> d"
    using slot_less [OF s(2-4) s(3-4), of d e'] d'(1) e'(1,2) by (force simp: next_day_def d(2))
  ultimately have "e' = d" by simp
  with e e' show ?thesis using slot_less [OF s(2), of 0 0, simplified] by auto
qed

text \<open>
the period of an interactive summary contains the present, and ends when the present day does.
\<close>

theorem interactive_period_contains_now:
  assumes "schedulable Z tz minute now" "midnight_first Z tz"
  shows "\<exists>p. interactive_period Z f now tz = Done (Inr (p, interactive_label f))
    \<and> p_start p \<le> now \<and> now < p_end p
    \<and> resolve_local_datetime Z ((zl_local_date Z tz now + 1) * 1440) tz = Inr (p_end p)"
proof -
  note s = schedulableD [OF assms(1)]
  let ?today = "zl_local_date Z tz now"
  have "period_first Z f ?today \<le> ?today" using period_first_bounds(1) [OF s(1), of ?today f] s(5) by simp
  then have "slot Z tz 0 (period_first Z f ?today) \<le> slot Z tz 0 ?today" by (rule slot_le [OF s(2), of 0, simplified])
  also have "\<dots> \<le> now" using assms(2) by (simp add: midnight_first_def)
  finally have "slot Z tz 0 (period_first Z f ?today) \<le> now" .
  moreover have "now < slot Z tz 0 (?today + 1)"
    using slot_after_date(3) [OF s(2), of 0 now "?today + 1"] by simp
  ultimately show ?thesis
    using interactive_period_slots [OF assms(1), of f] resolve_slot(1) [OF s(2), of 0 "?today + 1"] by simp
qed

section \<open>Samples\<close>

text \<open>
  A calendar of twelve months of thirty-one days with weeks of seven, and a zone seven hours ahead of UTC without
  transitions, as Vietnam's.
\<close>

definition sample_zone :: zone_libs where
  "sample_zone =
     \<lparr>zl_known = (\<lambda>tz. tz = ''Asia/Ho_Chi_Minh''),
      zl_ymd = (\<lambda>n. (n div 31 div 12, nat (n div 31 mod 12) + 1, nat (n mod 31) + 1)),
      zl_from_ymd = (\<lambda>y m d. if 1 \<le> m \<and> m \<le> 12 \<and> 1 \<le> d \<and> d \<le> 31
         then Some ((y * 12 + (int m - 1)) * 31 + (int d - 1)) else None),
      zl_weekday = (\<lambda>n. (n + 3) mod 7),
      zl_local_date = (\<lambda>tz i. (i + secs 25200) div secs 86400),
      zl_from_local = (\<lambda>tz n. LSingle (secs (n * 60 - 25200)))\<rparr>"

lemma sample_ymd:
  "year_of sample_zone n = n div 31 div 12" "month_of sample_zone n = nat (n div 31 mod 12) + 1"
  "day_of sample_zone n = nat (n mod 31) + 1"
  by (simp_all add: sample_zone_def year_of_def month_of_def day_of_def)

lemma sample_day_before:
  assumes "int k \<le> n mod 31"
  shows "(n - int k) div 31 = n div 31" "(n - int k) mod 31 = n mod 31 - int k"
proof -
  have "n - int k = n div 31 * 31 + (n mod 31 - int k)" by simp
  moreover have "0 \<le> n mod 31 - int k" "n mod 31 - int k < 31" using assms pos_mod_bound [of 31 n] by auto
  ultimately show "(n - int k) div 31 = n div 31" "(n - int k) mod 31 = n mod 31 - int k"
    by (simp_all only: div_mult_self3 mod_mult_self3 div_pos_pos_trivial mod_pos_pos_trivial)
qed

lemma sample_month_ends: "(n - 1 - n mod 31) div 31 = n div 31 - (1 :: int)" "n < (n div 31 + 1) * 31"
  "(n div 31 + 1) * 31 \<le> n + (31 :: int)"
  by presburger+

lemma sample_no_first:
  fixes n :: int
  assumes "n < k" "k < (n div 31 + 1) * 31"
  shows "k mod 31 \<noteq> 0"
  using assms by presburger

lemma sample_month_steps:
  fixes a :: int
  shows "(a - 1) div 12 = (if a mod 12 = 0 then a div 12 - 1 else a div 12)"
    "(a - 1) mod 12 = (if a mod 12 = 0 then 11 else a mod 12 - 1)"
    "(a + 1) div 12 = (if a mod 12 = 11 then a div 12 + 1 else a div 12)"
    "(a + 1) mod 12 = (if a mod 12 = 11 then 0 else a mod 12 + 1)"
proof -
  define q r where "q = a div 12" and "r = a mod 12"
  have r: "0 \<le> r" "r < 12" and a: "a = 12 * q + r" by (simp_all add: q_def r_def)
  have behind: "a - 1 = 12 * (if r = 0 then q - 1 else q) + (if r = 0 then 11 else r - 1)"
    and ahead: "a + 1 = 12 * (if r = 11 then q + 1 else q) + (if r = 11 then 0 else r + 1)"
    using a by auto
  have b: "0 \<le> (if r = 0 then 11 else r - 1)" "(if r = 0 then 11 else r - 1) < 12"
    and ahead_r: "0 \<le> (if r = 11 then 0 else r + 1)" "(if r = 11 then 0 else r + 1) < 12" using r by auto
  show "(a - 1) div 12 = (if a mod 12 = 0 then a div 12 - 1 else a div 12)"
    using int_div_pos_eq [OF behind b] by (simp add: q_def r_def)
  show "(a - 1) mod 12 = (if a mod 12 = 0 then 11 else a mod 12 - 1)"
    using int_mod_pos_eq [OF behind b] by (simp add: r_def)
  show "(a + 1) div 12 = (if a mod 12 = 11 then a div 12 + 1 else a div 12)"
    using int_div_pos_eq [OF ahead ahead_r] by (simp add: q_def r_def)
  show "(a + 1) mod 12 = (if a mod 12 = 11 then 0 else a mod 12 + 1)"
    using int_mod_pos_eq [OF ahead ahead_r] by (simp add: r_def)
qed

lemma sample_calendar: "calendar_ok sample_zone"
proof -
  have "zl_from_ymd sample_zone (year_of sample_zone n) (month_of sample_zone n) (day_of sample_zone n) = Some n" for n
  proof -
    have "n div 31 mod 12 \<le> 11" "n mod 31 \<le> 30"
      using pos_mod_bound [of 12 "n div 31"] pos_mod_bound [of 31 n] by linarith+
    then show ?thesis unfolding sample_ymd by (simp add: sample_zone_def nat_le_iff)
  qed
  moreover have "zl_weekday sample_zone n = (zl_weekday sample_zone 0 + n) mod 7" for n
    by (simp add: sample_zone_def add.commute)
  moreover have "zl_ymd sample_zone (n - int k) = (year_of sample_zone n, month_of sample_zone n, day_of sample_zone n - k)"
    if "k < day_of sample_zone n" for n k
  proof -
    from that have "int k \<le> n mod 31" by (simp add: sample_ymd)
    from sample_day_before [OF this] this show ?thesis unfolding sample_ymd by (simp add: sample_zone_def nat_diff_distrib Suc_diff_le le_nat_iff)
  qed
  moreover have "(year_of sample_zone (n - int (day_of sample_zone n)), month_of sample_zone (n - int (day_of sample_zone n)))
      = prev_month_of (year_of sample_zone n) (month_of sample_zone n)" for n
  proof -
    have "n - int (day_of sample_zone n) = n - 1 - n mod 31" by (simp add: sample_ymd)
    then have last: "(n - int (day_of sample_zone n)) div 31 = n div 31 - 1" by (simp only: sample_month_ends)
    have "0 \<le> n div 31 mod 12" by simp
    then have "nat (n div 31 mod 12) = 0 \<longleftrightarrow> n div 31 mod 12 = 0" by linarith
    then show ?thesis
      unfolding sample_ymd(1,2) last prev_month_of_def sample_month_steps by (auto simp: nat_diff_distrib)
  qed
  moreover have "\<exists>g > n. g \<le> n + 31 \<and> zl_ymd sample_zone g = next_first (year_of sample_zone n) (month_of sample_zone n)
      \<and> (\<forall>k. n < k \<and> k < g \<longrightarrow> day_of sample_zone k \<noteq> 1)" for n
  proof (intro exI conjI allI impI)
    let ?g = "(n div 31 + 1) * 31"
    show "n < ?g" "?g \<le> n + 31" using sample_month_ends(2,3) .
    have "?g div 31 = n div 31 + 1" "?g mod 31 = 0" by simp_all
    then show "zl_ymd sample_zone ?g = next_first (year_of sample_zone n) (month_of sample_zone n)"
      unfolding sample_ymd next_first_def by (auto simp: sample_zone_def sample_month_steps nat_add_distrib)
    show "day_of sample_zone k \<noteq> 1" if "n < k \<and> k < ?g" for k
      using sample_no_first [of n k] that pos_mod_sign [of 31 k] by (simp add: sample_ymd)
  qed
  moreover have "1 \<le> day_of sample_zone n \<and> day_of sample_zone n \<le> 31" for n
    using pos_mod_bound [of 31 n] by (simp add: sample_ymd)
  ultimately show ?thesis unfolding calendar_ok_def by blast
qed

lemma sample_zone_ok: "zone_ok sample_zone tz" "midnight_first sample_zone tz"
proof -
  show "zone_ok sample_zone tz"
    unfolding zone_ok_def by (auto simp: sample_zone_def secs_def intro: zdiv_mono1)
  show "midnight_first sample_zone tz"
    unfolding midnight_first_def slot_def by (auto simp: sample_zone_def resolve_local_datetime_def secs_def)
qed

lemma sample_schedulable:
  "\<bar>zl_local_date sample_zone ''Asia/Ho_Chi_Minh'' now\<bar> \<le> 70000000 \<Longrightarrow> schedulable sample_zone ''Asia/Ho_Chi_Minh'' 1200 now"
  unfolding schedulable_def using sample_calendar sample_zone_ok by (simp add: sample_zone_def to_ascii_lowercase_def)


theorem latest_delivery_is_last_witness:
  "\<exists>d r. latest_delivery sample_zone 0 ''Asia/Ho_Chi_Minh'' Monthly 1200 = Done (Inr r)
    \<and> delivery_day sample_zone Monthly d \<and> resolve_local_datetime sample_zone (d * 1440 + 1200) ''Asia/Ho_Chi_Minh'' = Inr r
    \<and> r \<le> 0
    \<and> (\<forall>d' r'. delivery_day sample_zone Monthly d'
        \<and> resolve_local_datetime sample_zone (d' * 1440 + 1200) ''Asia/Ho_Chi_Minh'' = Inr r' \<and> r' \<le> 0 \<longrightarrow> r' \<le> r)"
  by (rule latest_delivery_is_last [OF sample_schedulable]) (simp add: sample_zone_def secs_def)

lemma sample_deliveries:
  "next_delivery sample_zone 0 ''Asia/Ho_Chi_Minh'' Daily 1200 = Done (Inr 46800000000)"
  "next_delivery sample_zone 46800000000 ''Asia/Ho_Chi_Minh'' Daily 1200 = Done (Inr 133200000000)"
  by code_simp+

theorem scheduled_periods_adjoin_witness:
  "\<exists>p p'. scheduled_period sample_zone Daily 46800000000 ''Asia/Ho_Chi_Minh'' = Done (Inr (p, scheduled_label Daily))
    \<and> scheduled_period sample_zone Daily 133200000000 ''Asia/Ho_Chi_Minh'' = Done (Inr (p', scheduled_label Daily))
    \<and> p_start p < p_end p \<and> p_end p = p_start p' \<and> p_start p' < p_end p'"
  by (rule scheduled_periods_adjoin [OF sample_schedulable sample_deliveries(1) sample_schedulable sample_deliveries(2)
        sample_schedulable])
     (simp_all add: sample_zone_def secs_def)

theorem interactive_period_contains_now_witness:
  "\<exists>p. interactive_period sample_zone Weekly 0 ''Asia/Ho_Chi_Minh'' = Done (Inr (p, interactive_label Weekly))
    \<and> p_start p \<le> 0 \<and> 0 < p_end p
    \<and> resolve_local_datetime sample_zone ((zl_local_date sample_zone ''Asia/Ho_Chi_Minh'' 0 + 1) * 1440) ''Asia/Ho_Chi_Minh''
      = Inr (p_end p)"
  by (rule interactive_period_contains_now [OF sample_schedulable sample_zone_ok(2)]) (simp add: sample_zone_def secs_def)

end
