(* ===== verification/Bot_Db.thy ===== *)
theory Bot_Db
  imports Receipt Chat_Decide
begin

text \<open>
  The tables of the whole bot beside those of the receipt pipeline (\<^verbatim>\<open>migrations/001\<close>,
  \<^verbatim>\<open>002\<close>, \<^verbatim>\<open>005\<close> to \<^verbatim>\<open>011\<close>), the policy of the ingress, and the library functions the
  ingress, insight and account components use. Text comparison is the database's collation.
\<close>

section \<open>Tables\<close>

datatype event_state = EvAccepted | EvDuplicate | EvRejected

record inbound_event =
  ie_id :: uuid
  ie_provider_event_id :: string
  ie_provider_scope :: string
  ie_kind :: string
  ie_processing_state :: event_state
  ie_ingress_source :: "string option"
  ie_account_id :: "uuid option"
  ie_processed_at :: "instant option"
  ie_media_url :: "string option"
  ie_provider_chat_id :: "string option"

record provider_identity =
  pi_id :: uuid
  pi_account_id :: uuid
  pi_provider_scope :: string
  pi_provider_sender_id :: string

record conversation_state =
  cs_account_id :: uuid
  cs_pending_action_type :: "string option"
  cs_pending_payload_ref :: "string option"
  cs_expires_at :: "instant option"
  cs_version :: int
  cs_updated_at :: instant

record summary_schedule =
  ss_id :: uuid
  ss_account_id :: uuid
  ss_frequency :: string
  ss_delivery_minute :: int
  ss_provider_scope :: string
  ss_provider_chat_id :: string
  ss_enabled :: bool
  ss_next_run_at :: instant
  ss_last_emitted_at :: "instant option"

datatype deletion_state = DelRequested | DelRunning | DelCompleted | DelFailed

record deletion_request =
  dq_id :: uuid
  dq_account_id :: uuid
  dq_state :: deletion_state
  dq_expense_count :: int
  dq_requested_at :: instant
  dq_completed_at :: "instant option"

record export_artifact =
  xf_id :: uuid
  xf_account_id :: uuid
  xf_format :: string
  xf_object_key :: string
  xf_byte_size :: int

record insight_snapshot =
  is_id :: uuid
  is_account_id :: uuid
  is_period_kind :: string
  is_period_start :: instant
  is_period_end :: instant
  is_timezone :: string
  is_schema_name :: string
  is_aggregate :: json
  is_narrative_text :: "string option"
  is_narrative_profile :: "string option"
  is_narrative_generated_at :: "instant option"

record bot_db = receipt_db +
  ingress_mode :: string
  inbound_events :: "inbound_event list"
  provider_identities :: "provider_identity list"
  conversation_states :: "conversation_state list"
  summary_schedules :: "summary_schedule list"
  deletion_requests :: "deletion_request list"
  export_artifacts :: "export_artifact list"
  insight_snapshots :: "insight_snapshot list"
  ai_preferences :: "uuid list"
  category_names :: "string \<Rightarrow> string \<times> string"

section \<open>Library functions and policy\<close>

record bot_libs =
  bl_libs :: libs
  bl_chat :: chat_libs
  bl_zone :: zone_libs
  bl_parse_uuid :: "string \<Rightarrow> uuid option"
  bl_format_ymd :: "string \<Rightarrow> instant \<Rightarrow> string"
  bl_pg_date :: "string \<Rightarrow> instant \<Rightarrow> int option"
  bl_collate_le :: "string \<Rightarrow> string \<Rightarrow> bool"
  bl_json_text :: "json \<Rightarrow> string"
  bl_serde_time :: "instant \<Rightarrow> string"

record ingress_policy =
  ip_per_user_daily_receipts :: nat
  ip_outbound_enabled :: bool
  ip_zalo_monthly_messages :: nat
  ip_insights_llm_enabled :: bool
  ip_monthly_insight_narratives :: nat

definition ingress_policy_default :: ingress_policy where
  "ingress_policy_default =
     \<lparr>ip_per_user_daily_receipts = 20, ip_outbound_enabled = True, ip_zalo_monthly_messages = 3000,
      ip_insights_llm_enabled = False, ip_monthly_insight_narratives = 30\<rparr>"

text \<open>\<^verbatim>\<open>i64::try_from(limit).unwrap_or(i64::MAX)\<close>\<close>

definition i64_limit :: "nat \<Rightarrow> int" where
  "i64_limit n = min (int n) i64_max"

definition daily_period_key :: "bot_libs \<Rightarrow> instant \<Rightarrow> string \<Rightarrow> string" where
  "daily_period_key B now timezone = bl_format_ymd B (tz_or_utc (bl_chat B) timezone) now"

definition monthly_period_key :: "bot_libs \<Rightarrow> instant \<Rightarrow> string" where
  "monthly_period_key B now = lib_month (bl_libs B) now"

definition show_uuid :: "bot_libs \<Rightarrow> uuid \<Rightarrow> string" where
  "show_uuid B u = lib_show_uuid (bl_libs B) u"

section \<open>Queries over the expenses\<close>

text \<open>Insertion sort by a comparison: \<^verbatim>\<open>ORDER BY\<close> with the table's order among equals.\<close>

fun insert_by :: "('a \<Rightarrow> 'a \<Rightarrow> bool) \<Rightarrow> 'a \<Rightarrow> 'a list \<Rightarrow> 'a list" where
  "insert_by le x [] = [x]"
| "insert_by le x (y # ys) = (if le x y then x # y # ys else y # insert_by le x ys)"

fun sort_by :: "('a \<Rightarrow> 'a \<Rightarrow> bool) \<Rightarrow> 'a list \<Rightarrow> 'a list" where
  "sort_by le [] = []"
| "sort_by le (x # xs) = insert_by le x (sort_by le xs)"

definition confirmed_between :: "uuid \<Rightarrow> instant \<Rightarrow> instant \<Rightarrow> expense \<Rightarrow> bool" where
  "confirmed_between aid start stop e \<longleftrightarrow>
     e_account_id e = aid \<and> e_state e = ExpenseConfirmed \<and> start \<le> e_occurred_at e \<and> e_occurred_at e < stop"

text \<open>\<^verbatim>\<open>COALESCE(MIN(currency), fallback)\<close>\<close>

definition min_currency :: "bot_libs \<Rightarrow> string \<Rightarrow> expense list \<Rightarrow> string" where
  "min_currency B fallback es =
     (case sort_by (bl_collate_le B) (map e_currency es) of [] \<Rightarrow> fallback | c # _ \<Rightarrow> c)"

text \<open>Sum, count and least currency; a sum outside 64 bits fails the cast to BIGINT.\<close>

definition expense_totals :: "bot_libs \<Rightarrow> string \<Rightarrow> expense list \<Rightarrow> (int \<times> int \<times> string) option" where
  "expense_totals B fallback es =
     (let s = sum_list (map e_amount_minor es) in
      if s < i64_min \<or> i64_max < s then None else Some (s, int (length es), min_currency B fallback es))"

end
