(* ===== verification/Insight.thy ===== *)
theory Insight
  imports Bot_Db
begin

text \<open>
  Insight snapshots: \<^verbatim>\<open>src/insight/compute.rs\<close> and \<^verbatim>\<open>mod.rs\<close>. An aggregate is the JSON document of
  the confirmed expenses of a period. The narrator is the argument \<open>narrate\<close>.
\<close>

section \<open>Types\<close>

datatype insight_error = InsightError string

datatype insight_period_kind = IpDay | IpWeek | IpMonth

definition insight_period_parse :: "string \<Rightarrow> insight_period_kind option" where
  "insight_period_parse v =
     (if v = ''day'' then Some IpDay else if v = ''week'' then Some IpWeek else if v = ''month'' then Some IpMonth
      else None)"

fun insight_period_as_str :: "insight_period_kind \<Rightarrow> string" where
  "insight_period_as_str IpDay = ''day''"
| "insight_period_as_str IpWeek = ''week''"
| "insight_period_as_str IpMonth = ''month''"

fun insight_period_frequency :: "insight_period_kind \<Rightarrow> frequency" where
  "insight_period_frequency IpDay = Daily"
| "insight_period_frequency IpWeek = Weekly"
| "insight_period_frequency IpMonth = Monthly"

interpretation insight_period_codec: enum_codec insight_period_as_str insight_period_parse
proof
  show "insight_period_parse (insight_period_as_str x) = Some x" for x
    by (cases x) (simp_all add: insight_period_parse_def)
qed

definition SNAPSHOT_SCHEMA_NAME :: string where
  "SNAPSHOT_SCHEMA_NAME = ''insight-v1''"

section \<open>The aggregate\<close>

text \<open>\<^verbatim>\<open>GROUP BY\<close> a key: for each key its sum and its count, in the order of first occurrence.\<close>

definition grouped :: "('a \<Rightarrow> 'k) \<Rightarrow> ('a \<Rightarrow> int) \<Rightarrow> 'a list \<Rightarrow> ('k \<times> int \<times> int) list" where
  "grouped key amount xs =
     map (\<lambda>k. let g = filter (\<lambda>x. key x = k) xs in (k, sum_list (map amount g), int (length g))) (remdups (map key xs))"

definition larger_first :: "bot_libs \<Rightarrow> string \<times> int \<Rightarrow> string \<times> int \<Rightarrow> bool" where
  "larger_first B a b \<longleftrightarrow> snd b < snd a \<or> snd a = snd b \<and> bl_collate_le B (fst a) (fst b)"

definition category_rows :: "bot_libs \<Rightarrow> 'z bot_db_scheme \<Rightarrow> expense list \<Rightarrow> (string \<times> string \<times> int \<times> int) list" where
  "category_rows B db es =
     sort_by (\<lambda>(_, da, ta, _) (_, db', tb, _). larger_first B (da, ta) (db', tb))
       (map (\<lambda>(k, t, n). (k, fst (category_names db k), t, n))
         (grouped e_category_key e_amount_minor (filter (\<lambda>e. e_category_key e \<in> set (categories db)) es)))"

definition merchant_rows :: "bot_libs \<Rightarrow> expense list \<Rightarrow> (string \<times> int \<times> int) list" where
  "merchant_rows B es =
     take 5 (sort_by (\<lambda>(a, ta, _) (b, tb, _). larger_first B (a, ta) (b, tb)) (grouped e_description e_amount_minor es))"

definition aggregate_json ::
  "int \<Rightarrow> string \<Rightarrow> int \<Rightarrow> (string \<times> string \<times> int \<times> int) list \<Rightarrow> (string \<times> int \<times> int) list \<Rightarrow> json" where
  "aggregate_json total_minor currency tx_count cats merchants =
     JObject [(''schema_version'', JInt 1), (''total_minor'', JInt total_minor), (''currency'', JString currency),
       (''tx_count'', JInt tx_count),
       (''by_category'', JArray (map (\<lambda>(k, d, t, n). JObject [(''key'', JString k), (''display'', JString d),
          (''total_minor'', JInt t), (''count'', JInt n)]) cats)),
       (''top_merchants'', JArray (map (\<lambda>(m, t, n). JObject [(''name'', JString m), (''total_minor'', JInt t),
          (''count'', JInt n)]) merchants))]"

definition compute_aggregate ::
  "bot_libs \<Rightarrow> db_fault \<Rightarrow> uuid \<Rightarrow> instant \<Rightarrow> instant \<Rightarrow> string \<Rightarrow> ('z bot_db_scheme, insight_error, json) tx" where
  "compute_aggregate B flt aid start stop fallback =
     txbind (stmt flt ''insight totals'' (InsightError ''insight totals query failed'')
       (\<lambda>db. case expense_totals B fallback (filter (confirmed_between aid start stop) (expenses db)) of
          None \<Rightarrow> Inl (InsightError ''insight totals query failed'') | Some t \<Rightarrow> Inr (t, db))) (\<lambda>(total_minor, tx_count, currency).
     txbind (stmt flt ''insight categories'' (InsightError ''insight category query failed'')
       (\<lambda>db. let rows = category_rows B db (filter (confirmed_between aid start stop) (expenses db))
             in if list_ex (\<lambda>(_, _, t, _). t < i64_min \<or> i64_max < t) rows then Inl (InsightError ''insight category query failed'')
                else Inr (rows, db))) (\<lambda>cats.
     txbind (stmt flt ''insight merchants'' (InsightError ''insight merchant query failed'')
       (\<lambda>db. let rows = merchant_rows B (filter (confirmed_between aid start stop) (expenses db))
             in if list_ex (\<lambda>(_, t, _). t < i64_min \<or> i64_max < t) rows then Inl (InsightError ''insight merchant query failed'')
                else Inr (rows, db))) (\<lambda>merchants.
       txret (aggregate_json total_minor currency tx_count cats merchants))))"

fun json_elements :: "json \<Rightarrow> json list" where
  "json_elements (JArray xs) = xs"
| "json_elements _ = []"

definition top_category_lines :: "json \<Rightarrow> (string \<times> int) list" where
  "top_category_lines aggregate =
     (case json_get aggregate ''by_category'' of
        None \<Rightarrow> []
      | Some rows \<Rightarrow>
          take 3 (List.map_filter (\<lambda>row.
            case (json_get row ''display'', json_get row ''total_minor'') of
              (Some (JString d), Some (JInt t)) \<Rightarrow> if i64_min \<le> t \<and> t \<le> i64_max then Some (d, t) else None
            | _ \<Rightarrow> None) (json_elements rows)))"

section \<open>Snapshots\<close>

definition same_snapshot :: "uuid \<Rightarrow> string \<Rightarrow> instant \<Rightarrow> string \<Rightarrow> insight_snapshot \<Rightarrow> bool" where
  "same_snapshot aid kind start timezone s \<longleftrightarrow>
     is_account_id s = aid \<and> is_period_kind s = kind \<and> is_period_start s = start \<and> is_timezone s = timezone
   \<and> is_schema_name s = SNAPSHOT_SCHEMA_NAME"

definition refreshed_snapshot :: "instant \<Rightarrow> json \<Rightarrow> insight_snapshot \<Rightarrow> insight_snapshot" where
  "refreshed_snapshot stop aggregate s =
     (let keep = (is_aggregate s = aggregate) in
      s\<lparr>is_period_end := stop, is_aggregate := aggregate,
        is_narrative_text := (if keep then is_narrative_text s else None),
        is_narrative_profile := (if keep then is_narrative_profile s else None),
        is_narrative_generated_at := (if keep then is_narrative_generated_at s else None)\<rparr>)"

definition upsert_snapshot ::
  "db_fault \<Rightarrow> uuid \<Rightarrow> uuid \<Rightarrow> string \<Rightarrow> instant \<Rightarrow> instant \<Rightarrow> string \<Rightarrow> json \<Rightarrow>
   ('z bot_db_scheme, insight_error, uuid \<times> string option) tx" where
  "upsert_snapshot flt i aid kind start stop timezone aggregate =
     stmt flt ''insight upsert'' (InsightError ''insight snapshot upsert failed'') (\<lambda>db.
       case find_where (same_snapshot aid kind start timezone) (insight_snapshots db) of
         None \<Rightarrow>
           if exists_where (\<lambda>s. is_id s = i) (insight_snapshots db) then Inl (InsightError ''insight snapshot upsert failed'')
           else Inr ((i, None), db\<lparr>insight_snapshots := insight_snapshots db @
             [\<lparr>is_id = i, is_account_id = aid, is_period_kind = kind, is_period_start = start, is_period_end = stop,
               is_timezone = timezone, is_schema_name = SNAPSHOT_SCHEMA_NAME, is_aggregate = aggregate,
               is_narrative_text = None, is_narrative_profile = None, is_narrative_generated_at = None\<rparr>]\<rparr>)
       | Some s \<Rightarrow>
           Inr ((is_id s, is_narrative_text (refreshed_snapshot stop aggregate s)),
             db\<lparr>insight_snapshots := update_where (same_snapshot aid kind start timezone) (refreshed_snapshot stop aggregate)
                 (insight_snapshots db)\<rparr>))"

definition aggregate_digest :: "bot_libs \<Rightarrow> json \<Rightarrow> string" where
  "aggregate_digest B aggregate = lib_sha256_hex (bl_libs B) (bl_json_text B aggregate)"

definition narrate_dedupe_key :: "bot_libs \<Rightarrow> uuid \<Rightarrow> string \<Rightarrow> string" where
  "narrate_dedupe_key B sid digest = ''insight.narrate:'' @ show_uuid B sid @ '':'' @ digest"

definition enqueue_narrate_in_transaction ::
  "bot_libs \<Rightarrow> db_fault \<Rightarrow> instant \<Rightarrow> uuid \<Rightarrow> uuid \<Rightarrow> uuid \<Rightarrow> json \<Rightarrow> instant \<Rightarrow> ('z bot_db_scheme, insight_error, unit) tx" where
  "enqueue_narrate_in_transaction B flt now jid aid sid aggregate run_at =
     (let digest = aggregate_digest B aggregate in
      txbind (tx_map_err (\<lambda>_. InsightError ''insight narrate enqueue failed'') (enqueue_in_transaction flt now
         \<lparr>er_id = jid, er_job_type = ''insight.narrate'',
          er_payload = JObject [(''schema_version'', JInt 1), (''account_id'', JString (show_uuid B aid)),
            (''snapshot_id'', JString (show_uuid B sid)), (''aggregate_digest'', JString digest)],
          er_dedupe_key = narrate_dedupe_key B sid digest,
          er_serialization_key = Some (account_serialization_key (bl_libs B) aid), er_priority = 0, er_run_at = run_at,
          er_max_attempts = 10\<rparr>)) (\<lambda>_. txret ()))"

text \<open>\<^verbatim>\<open>interactive_period(..).map_err(..)?\<close> inside a transaction; where it panics the transaction is dropped.\<close>

definition tx_schedule :: "'e \<Rightarrow> 'e \<Rightarrow> (schedule_error + 'a) run \<Rightarrow> ('s, 'e, 'a) tx" where
  "tx_schedule e panic m = (case m of Done (Inr a) \<Rightarrow> txret a | Done (Inl _) \<Rightarrow> txfail e | _ \<Rightarrow> txfail panic)"

definition record_snapshot_in_transaction ::
  "bot_libs \<Rightarrow> ingress_policy \<Rightarrow> db_fault \<Rightarrow> instant \<Rightarrow> fresh_ids \<Rightarrow> uuid \<Rightarrow> insight_period_kind \<Rightarrow> instant \<Rightarrow> string \<Rightarrow>
   string \<Rightarrow> ('z bot_db_scheme, insight_error, uuid \<times> json) tx" where
  "record_snapshot_in_transaction B policy flt now ids aid kind observed_at timezone fallback =
     txbind (tx_schedule (InsightError ''invalid timezone for insight period'') (InsightError ''panic'')
       (interactive_period (bl_zone B) (insight_period_frequency kind) observed_at timezone)) (\<lambda>(p, _).
     txbind (compute_aggregate B flt aid (p_start p) (p_end p) fallback) (\<lambda>aggregate.
     txbind (upsert_snapshot flt (ids ''insight_snapshot'') aid (insight_period_as_str kind) (p_start p) (p_end p) timezone aggregate)
       (\<lambda>(sid, narrative).
       txbind (if ip_insights_llm_enabled policy \<and> narrative = None then
                 txbind (tx_map_err (\<lambda>_. InsightError ''insight narrative quota lookup failed'')
                   (remaining_in_transaction flt ''account'' (show_uuid B aid) (monthly_period_key B observed_at)
                      ''insight_narratives'' (i64_limit (ip_monthly_insight_narratives policy)))) (\<lambda>left.
                   if left > 0 then enqueue_narrate_in_transaction B flt now (ids ''narrate_job'') aid sid aggregate observed_at
                   else txret ())
               else txret ()) (\<lambda>_.
         txret (sid, aggregate)))))"

section \<open>Narratives\<close>

record insight_narrate_payload =
  np_schema_version :: int
  np_account_id :: uuid
  np_snapshot_id :: uuid
  np_aggregate_digest :: string

definition lookup_snapshot ::
  "db_fault \<Rightarrow> insight_narrate_payload \<Rightarrow> 'z bot_db_scheme \<Rightarrow> insight_error + insight_snapshot option" where
  "lookup_snapshot flt p db =
     (if flt = FaultAt ''insight lookup'' then Inl (InsightError ''insight snapshot lookup failed'')
      else Inr (find_where (\<lambda>s. is_id s = np_snapshot_id p \<and> is_account_id s = np_account_id p) (insight_snapshots db)))"

text \<open>The transaction: count, ask the narrator, store; the length of a narrative is a CHECK.\<close>

definition narrate_tx ::
  "bot_libs \<Rightarrow> (json \<Rightarrow> insight_error + string) \<Rightarrow> db_fault \<Rightarrow> instant \<Rightarrow> instant \<Rightarrow> nat \<Rightarrow> insight_narrate_payload \<Rightarrow> json \<Rightarrow>
   ('z bot_db_scheme, insight_error, bool \<times> unit) tx" where
  "narrate_tx B narrate flt now clock monthly_limit p aggregate =
     txbind (tx_map_err (\<lambda>_. InsightError ''insight narrative quota increment failed'')
       (increment_in_transaction flt now ''account'' (show_uuid B (np_account_id p)) (monthly_period_key B clock)
          ''insight_narratives'' (i64_limit monthly_limit))) (\<lambda>q.
       if exceeded q then txret (False, ())
       else case narrate aggregate of
         Inl e \<Rightarrow> txfail e
       | Inr text \<Rightarrow>
           txbind (stmt flt ''insight persist'' (InsightError ''insight narrative persist failed'') (\<lambda>db.
             let hit = (\<lambda>s. is_id s = np_snapshot_id p \<and> is_account_id s = np_account_id p \<and> is_narrative_text s = None)
             in if exists_where hit (insight_snapshots db) \<and> \<not> (1 \<le> char_count text \<and> char_count text \<le> 2000)
                then Inl (InsightError ''insight narrative persist failed'')
                else Inr ((), db\<lparr>insight_snapshots := update_where hit
                       (\<lambda>s. s\<lparr>is_narrative_text := Some text, is_narrative_profile := Some ''fake'',
                              is_narrative_generated_at := Some now\<rparr>) (insight_snapshots db)\<rparr>))) (\<lambda>_.
             txret (True, ())))"

text \<open>
  The job is a process: other workers may run between the lookup and the transaction. Its caller looks at the
  error's presence only, so the message travels in a receipt error.
\<close>

fun insight_failure :: "insight_error \<Rightarrow> receipt_error" where
  "insight_failure (InsightError m) = ReceiptError EDependency m"

definition execute_insight_narrate ::
  "bot_libs \<Rightarrow> (json \<Rightarrow> insight_error + string) \<Rightarrow> instant \<Rightarrow> insight_narrate_payload \<Rightarrow> nat \<Rightarrow> ('z bot_db_scheme, unit) proc" where
  "execute_insight_narrate B narrate clock p monthly_limit =
     (if np_schema_version p \<noteq> 1 then pfail (insight_failure (InsightError ''unsupported insight narrate payload version''))
      else pbind (pdb (\<lambda>flt now db. (map_sum insight_failure id (lookup_snapshot flt p db), db))) (\<lambda>row.
        case row of
          None \<Rightarrow> preturn ()
        | Some s \<Rightarrow>
            if is_narrative_text s \<noteq> None then preturn ()
            else pdb (\<lambda>flt now db. map_prod (map_sum insight_failure id) id
                   (run_tx_choice flt (InsightError ''insight narrate transaction begin failed'')
                      (InsightError ''insight narrate transaction commit failed'')
                      (narrate_tx B narrate flt now clock monthly_limit p (is_aggregate s)) db))))"

end
