(* ===== verification/Account.thy ===== *)
theory Account
  imports Insight
begin

text \<open>
  Account deletion and export, \<^verbatim>\<open>src/account/mod.rs\<close>. The jobs are processes as in the receipt
  pipeline: between two awaits other workers may change the database and the object store. An
  \<^verbatim>\<open>ErrorClass\<close> is carried by a receipt error with an empty message. The foreign keys' cascades
  (\<^verbatim>\<open>migrations/004\<close>) are part of the deletes.
\<close>

section \<open>Payloads and keys\<close>

record account_delete_payload =
  dp_schema_version :: int
  dp_account_id :: uuid
  dp_deletion_request_id :: uuid

record account_export_payload =
  xp_schema_version :: int
  xp_account_id :: uuid
  xp_export_id :: uuid
  xp_provider_scope :: string
  xp_provider_chat_id :: string

definition delete_dedupe_key :: "bot_libs \<Rightarrow> uuid \<Rightarrow> string" where
  "delete_dedupe_key B aid = ''account.delete:'' @ show_uuid B aid"

definition export_dedupe_key :: "bot_libs \<Rightarrow> uuid \<Rightarrow> string" where
  "export_dedupe_key B xid = ''account.export:'' @ show_uuid B xid"

definition export_object_key :: "bot_libs \<Rightarrow> uuid \<Rightarrow> uuid \<Rightarrow> string \<Rightarrow> string" where
  "export_object_key B aid xid format = ''exports/'' @ show_uuid B aid @ ''/'' @ show_uuid B xid @ ''.'' @ format"

section \<open>Enqueueing\<close>

definition enqueue_delete_in_transaction ::
  "bot_libs \<Rightarrow> db_fault \<Rightarrow> instant \<Rightarrow> uuid \<Rightarrow> uuid \<Rightarrow> uuid \<Rightarrow> instant \<Rightarrow> ('z bot_db_scheme, error_class, unit) tx" where
  "enqueue_delete_in_transaction B flt now jid aid request_id run_at =
     txbind (tx_map_err (\<lambda>_. EDependency)
       (cancel_queued_by_serialization_key_in_transaction flt now (account_serialization_key (bl_libs B) aid))) (\<lambda>_.
     txbind (tx_map_err (\<lambda>_. EDependency)
       (cancel_queued_by_serialization_key_in_transaction flt now (receipt_serialization_key (bl_libs B) aid))) (\<lambda>_.
     txbind (tx_map_err (\<lambda>_. EDependency) (enqueue_in_transaction flt now
        \<lparr>er_id = jid, er_job_type = ''account.delete'',
         er_payload = JObject [(''schema_version'', JInt 1), (''account_id'', JString (show_uuid B aid)),
           (''deletion_request_id'', JString (show_uuid B request_id))],
         er_dedupe_key = delete_dedupe_key B aid,
         er_serialization_key = Some (account_serialization_key (bl_libs B) aid), er_priority = 10, er_run_at = run_at,
         er_max_attempts = 10\<rparr>)) (\<lambda>_. txret ())))"

definition enqueue_export_in_transaction ::
  "bot_libs \<Rightarrow> db_fault \<Rightarrow> instant \<Rightarrow> uuid \<Rightarrow> uuid \<Rightarrow> uuid \<Rightarrow> string \<Rightarrow> string \<Rightarrow> instant \<Rightarrow>
   ('z bot_db_scheme, error_class, unit) tx" where
  "enqueue_export_in_transaction B flt now jid aid export_id scope chat run_at =
     txbind (tx_map_err (\<lambda>_. EDependency) (enqueue_in_transaction flt now
        \<lparr>er_id = jid, er_job_type = ''account.export'',
         er_payload = JObject [(''schema_version'', JInt 1), (''account_id'', JString (show_uuid B aid)),
           (''export_id'', JString (show_uuid B export_id)), (''provider_scope'', JString scope),
           (''provider_chat_id'', JString chat)],
         er_dedupe_key = export_dedupe_key B export_id,
         er_serialization_key = Some (account_serialization_key (bl_libs B) aid), er_priority = 0, er_run_at = run_at,
         er_max_attempts = 10\<rparr>)) (\<lambda>_. txret ())"

section \<open>Deletion\<close>

definition class_error :: "error_class \<Rightarrow> receipt_error" where
  "class_error c = ReceiptError c []"

definition pclass :: "('d, 'a) proc \<Rightarrow> ('d, 'a) proc" where
  "pclass m = pbind (ptry m) (\<lambda>r. case r of Inl _ \<Rightarrow> pfail (class_error EDependency) | Inr a \<Rightarrow> preturn a)"

definition account_lifecycle :: "uuid \<Rightarrow> ('z bot_db_scheme, account_state option) proc" where
  "account_lifecycle aid =
     pclass (pquery [] (\<lambda>db. map_option ac_lifecycle_state (find_where (\<lambda>a. ac_id a = aid) (accounts db))))"

definition asset_keys :: "uuid \<Rightarrow> 'z bot_db_scheme \<Rightarrow> string list" where
  "asset_keys aid db = map as_object_key (filter (\<lambda>a. as_account a = aid \<and> as_active a) (assets db))"

definition artifact_keys :: "uuid \<Rightarrow> 'z bot_db_scheme \<Rightarrow> string list" where
  "artifact_keys aid db = map xf_object_key (filter (\<lambda>x. xf_account_id x = aid) (export_artifacts db))"

definition load_account_object_keys :: "uuid \<Rightarrow> ('z bot_db_scheme, string list) proc" where
  "load_account_object_keys aid =
     pbind (pclass (pquery [] (asset_keys aid))) (\<lambda>receipt_keys.
     pbind (pclass (pquery [] (artifact_keys aid))) (\<lambda>export_keys.
       preturn (receipt_keys @ export_keys)))"

definition purge_stmt :: "db_fault \<Rightarrow> string \<Rightarrow> ('s \<Rightarrow> 's) \<Rightarrow> ('s, receipt_error, unit) tx" where
  "purge_stmt flt label f = stmt flt label (class_error EDependency) (txwrite f)"

definition owned_submission :: "uuid \<Rightarrow> 'z bot_db_scheme \<Rightarrow> uuid \<Rightarrow> bool" where
  "owned_submission aid db sid \<longleftrightarrow> exists_where (\<lambda>s. s_id s = sid \<and> s_account_id s = aid) (submissions db)"

text \<open>Deleting the submissions deletes their assets, drafts, corrections and extraction attempts.\<close>

definition delete_submissions :: "uuid \<Rightarrow> 'z bot_db_scheme \<Rightarrow> 'z bot_db_scheme" where
  "delete_submissions aid db =
     db\<lparr>submissions := delete_where (\<lambda>s. s_account_id s = aid) (submissions db),
       assets := delete_where (\<lambda>a. owned_submission aid db (as_submission a)) (assets db),
       drafts := delete_where (\<lambda>d. owned_submission aid db (d_submission_id d)) (drafts db),
       corrections := delete_where (\<lambda>c. owned_submission aid db (c_submission_id c)) (corrections db),
       extraction_attempts := delete_where (\<lambda>a. owned_submission aid db (ea_submission_id a)) (extraction_attempts db)\<rparr>"

definition purge_account_content ::
  "bot_libs \<Rightarrow> db_fault \<Rightarrow> instant \<Rightarrow> uuid \<Rightarrow> ('z bot_db_scheme, receipt_error, unit) tx" where
  "purge_account_content B flt now aid =
     txbind (purge_stmt flt ''close submissions'' (\<lambda>db. db\<lparr>submissions := update_where (\<lambda>s. s_account_id s = aid)
       (\<lambda>s. s\<lparr>s_confirmed_expense_id := None, s_state := RDeleted, s_failure_error_class := None, s_updated_at := now\<rparr>)
       (submissions db)\<rparr>)) (\<lambda>_.
     txbind (purge_stmt flt ''unlink expenses'' (\<lambda>db. db\<lparr>expenses := update_where (\<lambda>e. e_account_id e = aid)
       (\<lambda>e. e\<lparr>e_receipt_submission_id := None\<rparr>) (expenses db)\<rparr>)) (\<lambda>_.
     txbind (purge_stmt flt ''delete expenses'' (\<lambda>db. db\<lparr>expenses := delete_where (\<lambda>e. e_account_id e = aid) (expenses db)\<rparr>)) (\<lambda>_.
     txbind (purge_stmt flt ''delete submissions'' (delete_submissions aid)) (\<lambda>_.
     txbind (purge_stmt flt ''delete conversation'' (\<lambda>db. db\<lparr>conversation_states :=
       delete_where (\<lambda>c. cs_account_id c = aid) (conversation_states db)\<rparr>)) (\<lambda>_.
     txbind (purge_stmt flt ''delete schedules'' (\<lambda>db. db\<lparr>summary_schedules :=
       delete_where (\<lambda>s. ss_account_id s = aid) (summary_schedules db)\<rparr>)) (\<lambda>_.
     txbind (purge_stmt flt ''delete outbound'' (\<lambda>db. db\<lparr>outbound_messages :=
       delete_where (\<lambda>m. o_account_id m = Some aid) (outbound_messages db)\<rparr>)) (\<lambda>_.
     txbind (purge_stmt flt ''delete counters'' (\<lambda>db. db\<lparr>usage_counters :=
       delete_where (\<lambda>u. uc_scope u = ''account'' \<and> uc_scope_id u = show_uuid B aid) (usage_counters db)\<rparr>)) (\<lambda>_.
     txbind (purge_stmt flt ''delete artifacts'' (\<lambda>db. db\<lparr>export_artifacts :=
       delete_where (\<lambda>x. xf_account_id x = aid) (export_artifacts db)\<rparr>)) (\<lambda>_.
     txbind (purge_stmt flt ''delete snapshots'' (\<lambda>db. db\<lparr>insight_snapshots :=
       delete_where (\<lambda>s. is_account_id s = aid) (insight_snapshots db)\<rparr>)) (\<lambda>_.
     txbind (purge_stmt flt ''delete preferences'' (\<lambda>db. db\<lparr>ai_preferences :=
       delete_where (\<lambda>a. a = aid) (ai_preferences db)\<rparr>)) (\<lambda>_.
     purge_stmt flt ''detach events'' (\<lambda>db. db\<lparr>inbound_events := update_where (\<lambda>e. ie_account_id e = Some aid)
       (\<lambda>e. e\<lparr>ie_account_id := None, ie_media_url := None\<rparr>) (inbound_events db)\<rparr>))))))))))))"

definition finish_deletion_tx ::
  "bot_libs \<Rightarrow> db_fault \<Rightarrow> instant \<Rightarrow> account_delete_payload \<Rightarrow> ('z bot_db_scheme, receipt_error, unit) tx" where
  "finish_deletion_tx B flt now p =
     txbind (purge_account_content B flt now (dp_account_id p)) (\<lambda>_.
     txbind (purge_stmt flt ''close account'' (\<lambda>db. db\<lparr>accounts := update_where (\<lambda>a. ac_id a = dp_account_id p)
       (\<lambda>a. a\<lparr>ac_lifecycle_state := AccountDeleted, ac_consent_version := None, ac_updated_at := now\<rparr>) (accounts db)\<rparr>)) (\<lambda>_.
     purge_stmt flt ''complete request'' (\<lambda>db. db\<lparr>deletion_requests := update_where
       (\<lambda>r. dq_id r = dp_deletion_request_id p \<and> dq_account_id r = dp_account_id p)
       (\<lambda>r. r\<lparr>dq_state := DelCompleted, dq_completed_at := Some now\<rparr>) (deletion_requests db)\<rparr>)))"

definition start_deletion :: "account_delete_payload \<Rightarrow> ('z bot_db_scheme, unit) proc" where
  "start_deletion p =
     pdb (\<lambda>flt now db. if flt = NoFault then
         (Inr (), db\<lparr>deletion_requests := update_where (\<lambda>r. dq_id r = dp_deletion_request_id p
            \<and> dq_account_id r = dp_account_id p \<and> (dq_state r = DelRequested \<or> dq_state r = DelRunning))
            (\<lambda>r. r\<lparr>dq_state := DelRunning\<rparr>) (deletion_requests db)\<rparr>)
       else (Inl (class_error EDependency), db))"

definition execute_account_delete :: "bot_libs \<Rightarrow> account_delete_payload \<Rightarrow> ('z bot_db_scheme, unit) proc" where
  "execute_account_delete B p =
     (if dp_schema_version p \<noteq> 1 then pfail (class_error EValidation)
      else pbind (account_lifecycle (dp_account_id p)) (\<lambda>lifecycle.
        if lifecycle = None \<or> lifecycle = Some AccountDeleted then preturn ()
        else pbind (start_deletion p) (\<lambda>_.
          pbind (load_account_object_keys (dp_account_id p)) (\<lambda>keys.
          pbind (pclass (delete_objects keys)) (\<lambda>_.
            pdb (\<lambda>flt now. run_tx flt (class_error EDependency) (class_error EDependency) (finish_deletion_tx B flt now p)))))))"

section \<open>Export\<close>

text \<open>A field with a separator, a quote or a line break is quoted, its quotes doubled.\<close>

definition csv_escape :: "string \<Rightarrow> string" where
  "csv_escape value =
     (if CHR '','' \<in> set value \<or> CHR 0x22 \<in> set value \<or> CHR 0x0A \<in> set value \<or> CHR 0x0D \<in> set value
      then [CHR 0x22] @ replace_char (CHR 0x22) [CHR 0x22, CHR 0x22] value @ [CHR 0x22]
      else value)"

fun expense_source_as_str :: "expense_source \<Rightarrow> string" where
  "expense_source_as_str SourceManual = ''manual''"
| "expense_source_as_str SourceReceipt = ''receipt''"

definition export_rows :: "uuid \<Rightarrow> 'z bot_db_scheme \<Rightarrow> expense list" where
  "export_rows aid db =
     sort_key e_occurred_at (sort_key e_id (filter (\<lambda>e. e_account_id e = aid \<and> e_state e = ExpenseConfirmed) (expenses db)))"

definition export_json :: "bot_libs \<Rightarrow> uuid \<Rightarrow> instant \<Rightarrow> expense list \<Rightarrow> string" where
  "export_json B aid at rows =
     bl_json_text B (JObject [(''schema_version'', JInt 1), (''account_id'', JString (show_uuid B aid)),
       (''exported_at'', JString (bl_serde_time B at)),
       (''expenses'', JArray (map (\<lambda>e. JObject [(''occurred_at'', JString (bl_serde_time B (e_occurred_at e))),
          (''amount_minor'', JInt (e_amount_minor e)), (''currency'', JString (e_currency e)),
          (''description'', JString (e_description e)),
          (''source'', JString (expense_source_as_str (e_source e)))]) rows))])"

definition csv_line :: "bot_libs \<Rightarrow> expense \<Rightarrow> string" where
  "csv_line B e =
     lib_rfc3339 (bl_libs B) (e_occurred_at e) @ '','' @ show_int (e_amount_minor e) @ '','' @ csv_escape (e_currency e) @ '','' @
     csv_escape (e_description e) @ '','' @ csv_escape (expense_source_as_str (e_source e)) @ [CHR 0x0A]"

definition export_csv :: "bot_libs \<Rightarrow> expense list \<Rightarrow> string" where
  "export_csv B rows = ''occurred_at,amount_minor,currency,description,source'' @ [CHR 0x0A] @ concat (map (csv_line B) rows)"

definition insert_export_artifact ::
  "db_fault \<Rightarrow> uuid \<Rightarrow> uuid \<Rightarrow> string \<Rightarrow> string \<Rightarrow> nat \<Rightarrow> ('z bot_db_scheme, receipt_error, unit) tx" where
  "insert_export_artifact flt i aid format key bytes =
     stmt flt (''insert artifact '' @ format) (class_error EDependency) (\<lambda>db.
       if exists_where (\<lambda>x. xf_id x = i) (export_artifacts db) then Inl (class_error EDependency)
       else Inr ((), db\<lparr>export_artifacts := export_artifacts db @
         [\<lparr>xf_id = i, xf_account_id = aid, xf_format = format, xf_object_key = key, xf_byte_size = i64_limit bytes\<rparr>]\<rparr>))"

definition execute_account_export ::
  "bot_libs \<Rightarrow> fresh_ids \<Rightarrow> instant \<Rightarrow> account_export_payload \<Rightarrow> ('z bot_db_scheme, unit) proc" where
  "execute_account_export B ids clock p =
     (if xp_schema_version p \<noteq> 1 then pfail (class_error EValidation)
      else pbind (account_lifecycle (xp_account_id p)) (\<lambda>lifecycle.
        if lifecycle \<noteq> Some Active then preturn ()
        else pbind (pclass (pquery [] (export_rows (xp_account_id p)))) (\<lambda>rows.
          let json_body = export_json B (xp_account_id p) clock rows; csv_bytes = export_csv B rows;
              json_key = export_object_key B (xp_account_id p) (xp_export_id p) ''json'';
              csv_key = export_object_key B (xp_account_id p) (xp_export_id p) ''csv''
          in pbind (pclass (pobjects (\<lambda>fails. object_put fails json_key json_body))) (\<lambda>_.
             pbind (pclass (pobjects (\<lambda>fails. object_put fails csv_key csv_bytes))) (\<lambda>_.
               pdb (\<lambda>flt now. run_tx flt (class_error EDependency) (class_error EDependency)
                 (txbind (insert_export_artifact flt (ids ''json_artifact'') (xp_account_id p) ''json'' json_key (length json_body)) (\<lambda>_.
                    insert_export_artifact flt (ids ''csv_artifact'') (xp_account_id p) ''csv'' csv_key (length csv_bytes)))))))))"

end
