(* ===== verification/Ingress_Types.thy ===== *)
theory Ingress_Types
  imports Account
begin

text \<open>
  Types of the ingress (\<^verbatim>\<open>src/ingress/types.rs\<close>, \<^verbatim>\<open>effects.rs\<close>) and the bridge between the stored rows
  and the conversation (\<^verbatim>\<open>application.rs\<close>). A \<^verbatim>\<open>RecentExpense\<close> is the row of the expense.
\<close>

section \<open>Requests and outcomes\<close>

datatype ingress_source = SrcWebhook | SrcPolling

fun ingress_source_as_str :: "ingress_source \<Rightarrow> string" where
  "ingress_source_as_str SrcWebhook = ''webhook''"
| "ingress_source_as_str SrcPolling = ''polling''"

definition ingress_source_parse :: "string \<Rightarrow> ingress_source option" where
  "ingress_source_parse v =
     (if v = ''webhook'' then Some SrcWebhook else if v = ''polling'' then Some SrcPolling else None)"

interpretation ingress_source_codec: enum_codec ingress_source_as_str ingress_source_parse
proof
  show "ingress_source_parse (ingress_source_as_str x) = Some x" for x
    by (cases x) (simp_all add: ingress_source_parse_def)
qed

datatype ingress_outcome = InAccepted uuid | InDuplicate uuid | InModeRejected uuid

datatype ingress_event_kind = TextCommandEnvelope | ImageReceived

fun event_kind_as_str :: "ingress_event_kind \<Rightarrow> string" where
  "event_kind_as_str TextCommandEnvelope = ''text_command_envelope''"
| "event_kind_as_str ImageReceived = ''image_received''"

record ingress_observation =
  io_event_kind :: ingress_event_kind
  io_media_url :: "string option"

definition observation_default :: ingress_observation where
  "observation_default = \<lparr>io_event_kind = TextCommandEnvelope, io_media_url = None\<rparr>"

record ingress_request =
  iq_source :: ingress_source
  iq_provider_scope :: string
  iq_provider_event_id :: string
  iq_provider_sender_id :: string
  iq_provider_chat_id :: string
  iq_sender_allowed :: bool
  iq_user_text :: string
  iq_observed_at :: instant

section \<open>Context of a decision\<close>

record receipt_draft_snapshot =
  rs_submission_id :: uuid
  rs_amount_minor :: int
  rs_currency :: string
  rs_merchant :: string
  rs_category_key :: string
  rs_category_display :: string
  rs_transaction_type :: string
  rs_occurred_at :: instant
  rs_version :: int

record pending_action =
  pa_action_type :: string
  pa_payload_ref :: "string option"
  pa_expires_at :: instant
  pa_version :: int
  pa_expense :: "expense option"
  pa_receipt_draft :: "receipt_draft_snapshot option"

record decision_context =
  dc_account_id :: "uuid option"
  dc_inbound_event_id :: "uuid option"
  dc_lifecycle_state :: "account_state option"
  dc_consent_version :: "string option"
  dc_pending_action :: "pending_action option"
  dc_today :: "int \<times> nat \<times> string"
  dc_week :: "int \<times> nat \<times> string"
  dc_month :: "int \<times> nat \<times> string"
  dc_default_currency :: string
  dc_schedules :: "schedule_line list"
  dc_recent_expenses :: "expense list"
  dc_sender_allowed :: bool
  dc_user_text :: string
  dc_timezone :: string
  dc_locale :: string
  dc_retention_days :: nat
  dc_next_expense_id :: uuid
  dc_next_submission_id :: uuid
  dc_next_ingest_job_id :: uuid
  dc_remaining_daily_receipts :: int
  dc_confirmed_expense_count :: nat
  dc_now :: instant

section \<open>Effects\<close>

datatype ingress_effect =
  FxGrantConsent string
| FxCreateManual uuid int string string instant int instant string
| FxConfirmExpense uuid int
| FxRejectExpense uuid int
| FxSetPendingAction string "string option" instant "int option"
| FxClearPendingAction int
| FxAcceptReceipt uuid uuid uuid
| FxConfirmReceipt uuid uuid int
| FxRejectReceipt uuid int
| FxEditReceiptDraft uuid int "int option" "string option" "string option" "instant option" "string option"
| FxEditManualExpense uuid int "int option" "string option" "string option" "instant option" "string option"
| FxRecategorizeLatest string
| FxSetLocale string
| FxSetTimezone string
| FxUpsertSchedule string int
| FxDisableSchedule "string option"
| FxArmAccountDeletion instant
| FxConfirmAccountDeletion
| FxRequestAccountExport
| FxRecordInsightSnapshot string
| FxReadOnly

text \<open>\<open>FxPanic\<close> stands for a panic of the code that applies an effect.\<close>

datatype ingress_effect_error = FxVersionConflict | FxNotFound | FxInvalidTransition | FxPanic

fun effect_error_text :: "ingress_effect_error \<Rightarrow> string" where
  "effect_error_text FxVersionConflict = ''version conflict''"
| "effect_error_text FxNotFound = ''not found''"
| "effect_error_text FxInvalidTransition = ''invalid transition''"
| "effect_error_text FxPanic = ''panic''"

datatype ingress_error = IngressError string | IngressPanic

definition ingress_error_of :: "ingress_effect_error \<Rightarrow> ingress_error" where
  "ingress_error_of e = (if e = FxPanic then IngressPanic else IngressError (effect_error_text e))"

record decision_output =
  do_effects :: "ingress_effect list"
  do_reply :: "string option"

section \<open>From the context to the conversation\<close>

definition lifecycle_of :: "account_state option \<Rightarrow> lifecycle_state" where
  "lifecycle_of s =
     (case s of
        Some Active \<Rightarrow> LsActive
      | Some Suspended \<Rightarrow> LsSuspended
      | Some Deleting \<Rightarrow> LsSuspended
      | Some AccountDeleted \<Rightarrow> LsSuspended
      | Some PendingConsent \<Rightarrow> LsPendingConsent
      | None \<Rightarrow> LsPendingConsent)"

definition deletion_confirmation :: "decision_context \<Rightarrow> pending_action \<Rightarrow> pending_confirmation" where
  "deletion_confirmation ctx p =
     \<lparr>pc_kind = PkAccountDeletion, pc_reference_id = (case dc_account_id ctx of Some a \<Rightarrow> a | None \<Rightarrow> 0),
      pc_optimistic_version = nat (pa_version p), pc_expires_at = pa_expires_at p,
      pc_draft = \<lparr>dv_version = nat (pa_version p), dv_amount_minor = 0, dv_currency = dc_default_currency ctx, dv_merchant = [],
        dv_category_key = ''khac'', dv_category_display = [], dv_transaction_type = ''expense'', dv_type_label = [],
        dv_date_display = [], dv_occurred_at = dc_now ctx\<rparr>\<rparr>"

definition expense_confirmation :: "chat_libs \<Rightarrow> decision_context \<Rightarrow> pending_action \<Rightarrow> expense \<Rightarrow> pending_confirmation" where
  "expense_confirmation L ctx p e =
     (let loc = locale_parse (dc_locale ctx) in
      \<lparr>pc_kind = PkManualExpense, pc_reference_id = e_id e, pc_optimistic_version = nat (e_version e),
       pc_expires_at = pa_expires_at p,
       pc_draft = \<lparr>dv_version = nat (e_version e), dv_amount_minor = e_amount_minor e, dv_currency = e_currency e,
         dv_merchant = e_description e, dv_category_key = e_category_key e,
         dv_category_display = category_display loc (e_category_key e), dv_transaction_type = e_transaction_type e,
         dv_type_label = transaction_type_label loc (e_transaction_type e),
         dv_date_display = format_date_vn L (e_occurred_at e) (dc_timezone ctx), dv_occurred_at = e_occurred_at e\<rparr>\<rparr>)"

definition receipt_confirmation ::
  "chat_libs \<Rightarrow> decision_context \<Rightarrow> pending_action \<Rightarrow> receipt_draft_snapshot \<Rightarrow> pending_confirmation" where
  "receipt_confirmation L ctx p d =
     (let loc = locale_parse (dc_locale ctx) in
      \<lparr>pc_kind = PkReceiptReview, pc_reference_id = rs_submission_id d, pc_optimistic_version = nat (rs_version d),
       pc_expires_at = pa_expires_at p,
       pc_draft = \<lparr>dv_version = nat (rs_version d), dv_amount_minor = rs_amount_minor d, dv_currency = rs_currency d,
         dv_merchant = rs_merchant d, dv_category_key = rs_category_key d, dv_category_display = rs_category_display d,
         dv_transaction_type = rs_transaction_type d, dv_type_label = transaction_type_label loc (rs_transaction_type d),
         dv_date_display = format_date_vn L (rs_occurred_at d) (dc_timezone ctx), dv_occurred_at = rs_occurred_at d\<rparr>\<rparr>)"

definition pending_confirmation_of :: "chat_libs \<Rightarrow> decision_context \<Rightarrow> pending_confirmation option" where
  "pending_confirmation_of L ctx =
     (case dc_pending_action ctx of
        None \<Rightarrow> None
      | Some p \<Rightarrow>
          if pa_action_type p = ''account_deletion'' then Some (deletion_confirmation ctx p)
          else case pa_expense p of
            Some e \<Rightarrow> Some (expense_confirmation L ctx p e)
          | None \<Rightarrow> map_option (receipt_confirmation L ctx p) (pa_receipt_draft p))"

definition recent_line_of :: "chat_libs \<Rightarrow> decision_context \<Rightarrow> expense \<Rightarrow> recent_expense_line" where
  "recent_line_of L ctx e =
     (let loc = locale_parse (dc_locale ctx) in
      \<lparr>rl_date_display = format_date_vn L (e_occurred_at e) (dc_timezone ctx), rl_amount_minor = e_amount_minor e,
       rl_currency = e_currency e, rl_merchant = e_description e,
       rl_category_display = category_display loc (e_category_key e),
       rl_type_label = Some (transaction_type_label loc (e_transaction_type e))\<rparr>)"

definition summary_of :: "string \<Rightarrow> int \<times> nat \<times> string \<Rightarrow> period_summary" where
  "summary_of label totals =
     \<lparr>ps_label = label, ps_currency = snd (snd totals), ps_total_minor = fst totals, ps_tx_count = fst (snd totals)\<rparr>"

definition to_conversation_context :: "chat_libs \<Rightarrow> decision_context \<Rightarrow> account_context" where
  "to_conversation_context L ctx =
     (let loc = locale_parse (dc_locale ctx) in
      \<lparr>cx_next_expense_id = dc_next_expense_id ctx, cx_next_submission_id = dc_next_submission_id ctx,
       cx_next_ingest_job_id = dc_next_ingest_job_id ctx, cx_lifecycle = lifecycle_of (dc_lifecycle_state ctx),
       cx_allowlisted = dc_sender_allowed ctx, cx_default_currency = dc_default_currency ctx,
       cx_timezone = dc_timezone ctx, cx_locale = dc_locale ctx, cx_retention_days = dc_retention_days ctx,
       cx_remaining_daily_receipts = dc_remaining_daily_receipts ctx,
       cx_confirmed_expense_count = dc_confirmed_expense_count ctx, cx_pending = pending_confirmation_of L ctx,
       cx_today_summary = Some (summary_of (period_label_today loc) (dc_today ctx)),
       cx_week_summary = Some (summary_of (period_label_week loc) (dc_week ctx)),
       cx_month_summary = Some (summary_of (period_label_month loc) (dc_month ctx)),
       cx_schedules = dc_schedules ctx,
       cx_recent_lines = map (recent_line_of L ctx)
         (filter (\<lambda>e. e_state e = ExpenseConfirmed) (dc_recent_expenses ctx))\<rparr>)"

section \<open>From the conversation to effects\<close>

text \<open>\<^verbatim>\<open>i32::try_from(version)\<close>\<close>

definition version_i32 :: "nat \<Rightarrow> ingress_effect_error + int" where
  "version_i32 v = (if int v \<le> i32_max then Inr (int v) else Inl FxInvalidTransition)"

definition with_version :: "nat \<Rightarrow> (int \<Rightarrow> ingress_effect) \<Rightarrow> ingress_effect_error + ingress_effect" where
  "with_version v f = map_sum id f (version_i32 v)"

fun map_command :: "domain_command \<Rightarrow> int option \<Rightarrow> uuid \<Rightarrow> ingress_effect_error + ingress_effect" where
  "map_command (GrantConsent v) pv ev = Inr (FxGrantConsent v)"
| "map_command (CreateManualAwaitingConfirmation e a c d m at v x) pv ev =
     with_version v (\<lambda>i. FxCreateManual e a c d at i x ''manual_expense_confirmation'')"
| "map_command (ConfirmExpense e v) pv ev = with_version v (FxConfirmExpense e)"
| "map_command (RejectExpense e v) pv ev = with_version v (FxRejectExpense e)"
| "map_command (AcceptReceiptSubmission s j) pv ev = Inr (FxAcceptReceipt s j ev)"
| "map_command (ConfirmReceipt s e v) pv ev = with_version v (FxConfirmReceipt s e)"
| "map_command (RejectReceipt s v) pv ev = with_version v (FxRejectReceipt s)"
| "map_command (EditReceiptDraft s v a m k at t) pv ev = with_version v (\<lambda>i. FxEditReceiptDraft s i a m k at t)"
| "map_command (EditManualExpense e v a m k at t) pv ev = with_version v (\<lambda>i. FxEditManualExpense e i a m k at t)"
| "map_command (RecategorizeLatest k) pv ev = Inr (FxRecategorizeLatest k)"
| "map_command ClearPending pv ev = (case pv of None \<Rightarrow> Inl FxNotFound | Some v \<Rightarrow> Inr (FxClearPendingAction v))"
| "map_command (SetLocale l) pv ev = Inr (FxSetLocale l)"
| "map_command (SetTimezone z) pv ev = Inr (FxSetTimezone z)"
| "map_command (UpsertSchedule f m) pv ev = Inr (FxUpsertSchedule f m)"
| "map_command (DisableSchedule f) pv ev = Inr (FxDisableSchedule f)"
| "map_command (RequestAccountDeletion x) pv ev = Inr (FxArmAccountDeletion x)"
| "map_command ConfirmAccountDeletion pv ev = Inr FxConfirmAccountDeletion"
| "map_command RequestAccountExport pv ev = Inr FxRequestAccountExport"
| "map_command (RecordInsightSnapshot k) pv ev = Inr (FxRecordInsightSnapshot k)"

fun map_commands :: "domain_command list \<Rightarrow> int option \<Rightarrow> uuid \<Rightarrow> ingress_effect_error + ingress_effect list" where
  "map_commands [] pv ev = Inr []"
| "map_commands (c # cs) pv ev =
     (case map_command c pv ev of
        Inl e \<Rightarrow> Inl e
      | Inr f \<Rightarrow> map_sum id (\<lambda>fs. f # fs) (map_commands cs pv ev))"

definition map_outcome ::
  "conversation_outcome \<Rightarrow> decision_context \<Rightarrow> ingress_effect_error + decision_output" where
  "map_outcome outcome ctx =
     (case dc_inbound_event_id ctx of
        None \<Rightarrow> Inl FxInvalidTransition
      | Some ev \<Rightarrow>
          (case map_commands (co_commands outcome) (map_option pa_version (dc_pending_action ctx)) ev of
             Inl e \<Rightarrow> Inl e
           | Inr effects \<Rightarrow>
               (case co_replies outcome of
                  [] \<Rightarrow> Inr \<lparr>do_effects = effects, do_reply = None\<rparr>
                | [r] \<Rightarrow> Inr \<lparr>do_effects = effects, do_reply = Some r\<rparr>
                | _ \<Rightarrow> Inl FxInvalidTransition)))"

definition decide_text_and_map :: "chat_libs \<Rightarrow> decision_context \<Rightarrow> ingress_effect_error + decision_output" where
  "decide_text_and_map L ctx =
     (case decide L (to_conversation_context L ctx) (dc_user_text ctx) (dc_now ctx) of
        Done outcome \<Rightarrow> map_outcome outcome ctx
      | _ \<Rightarrow> Inl FxPanic)"

definition decide_image_and_map :: "chat_libs \<Rightarrow> decision_context \<Rightarrow> ingress_effect_error + decision_output" where
  "decide_image_and_map L ctx = map_outcome (decide_image (to_conversation_context L ctx)) ctx"

end
