(* ===== verification/Ingress.thy ===== *)
theory Ingress
  imports Ingress_Types
begin

text \<open>
  Processing of one event in one transaction, \<^verbatim>\<open>src/ingress/store.rs\<close>. The functions that take the
  transaction are transaction bodies over the tables of \<open>bot_db\<close>; a statement that the server may fail has a
  label. \<open>iv_now\<close> is the transaction's \<^verbatim>\<open>NOW()\<close>, \<open>iv_clock\<close> what \<^verbatim>\<open>Utc::now()\<close> returns, \<open>iv_ids\<close> gives the
  random identifiers by name. After a failed statement PostgreSQL refuses the rest of the transaction, so an error
  the code ignores still ends it.
\<close>

record ingress_env =
  iv_now :: instant
  iv_clock :: instant
  iv_fault :: db_fault
  iv_ids :: fresh_ids

definition fx :: "ingress_env \<Rightarrow> string \<Rightarrow> ('s, ingress_effect_error, 'a) tx \<Rightarrow> ('s, ingress_effect_error, 'a) tx" where
  "fx E label m = stmt (iv_fault E) label FxInvalidTransition m"

text \<open>An UPDATE that must hit a row.\<close>

definition fx_update ::
  "ingress_env \<Rightarrow> string \<Rightarrow> ('s \<Rightarrow> bool) \<Rightarrow> ('s \<Rightarrow> bool) \<Rightarrow> ('s \<Rightarrow> 's) \<Rightarrow> ingress_effect_error \<Rightarrow>
   ('s, ingress_effect_error, unit) tx" where
  "fx_update E label hit fails f none =
     fx E label (\<lambda>db. if fails db then Inl FxInvalidTransition else if hit db then Inr ((), f db) else Inl none)"

definition fx_account_column :: "ingress_env \<Rightarrow> string \<Rightarrow> uuid \<Rightarrow> (account \<Rightarrow> 'a) \<Rightarrow> ('z bot_db_scheme, ingress_effect_error, 'a) tx"
  where
  "fx_account_column E label aid f =
     fx E label (\<lambda>db. case find_where (\<lambda>a. ac_id a = aid) (accounts db) of
        None \<Rightarrow> Inl FxInvalidTransition | Some a \<Rightarrow> Inr (f a, db))"

section \<open>The event row\<close>

definition same_event :: "ingress_request \<Rightarrow> inbound_event \<Rightarrow> bool" where
  "same_event r e \<longleftrightarrow> ie_provider_scope e = iq_provider_scope r \<and> ie_provider_event_id e = iq_provider_event_id r"

definition new_event :: "uuid \<Rightarrow> ingress_request \<Rightarrow> ingress_observation \<Rightarrow> event_state \<Rightarrow> inbound_event" where
  "new_event i r ob st =
     \<lparr>ie_id = i, ie_provider_event_id = iq_provider_event_id r, ie_provider_scope = iq_provider_scope r,
      ie_kind = event_kind_as_str (io_event_kind ob), ie_processing_state = st,
      ie_ingress_source = Some (ingress_source_as_str (iq_source r)), ie_account_id = None, ie_processed_at = None,
      ie_media_url = io_media_url ob, ie_provider_chat_id = Some (iq_provider_chat_id r)\<rparr>"

definition promoted_event :: "ingress_request \<Rightarrow> ingress_observation \<Rightarrow> inbound_event \<Rightarrow> inbound_event" where
  "promoted_event r ob e =
     e\<lparr>ie_processing_state := EvAccepted, ie_ingress_source := Some (ingress_source_as_str (iq_source r)),
       ie_account_id := None, ie_processed_at := None, ie_kind := event_kind_as_str (io_event_kind ob),
       ie_media_url := io_media_url ob, ie_provider_chat_id := Some (iq_provider_chat_id r)\<rparr>"

definition insert_observed_event ::
  "ingress_env \<Rightarrow> ingress_request \<Rightarrow> ingress_observation \<Rightarrow> event_state \<Rightarrow>
   ('z bot_db_scheme, ingress_error, ingress_outcome) tx" where
  "insert_observed_event E r ob st =
     (let failed = IngressError (if st = EvAccepted then ''failed to insert or promote inbound event''
                                 else ''failed to insert inbound event'') in
      txbind (stmt (iv_fault E) ''insert event'' failed (\<lambda>db.
        case find_where (same_event r) (inbound_events db) of
          None \<Rightarrow>
            if exists_where (\<lambda>e. ie_id e = iv_ids E ''event'') (inbound_events db) then Inl failed
            else Inr (Some (iv_ids E ''event''),
                   db\<lparr>inbound_events := inbound_events db @ [new_event (iv_ids E ''event'') r ob st]\<rparr>)
        | Some e \<Rightarrow>
            if st = EvAccepted \<and> ie_processing_state e = EvRejected
            then Inr (Some (ie_id e),
                   db\<lparr>inbound_events := update_where (same_event r) (promoted_event r ob) (inbound_events db)\<rparr>)
            else Inr (None, db))) (\<lambda>inserted.
        case inserted of
          Some i \<Rightarrow> txret (InAccepted i)
        | None \<Rightarrow>
            stmt (iv_fault E) ''load duplicate'' (IngressError ''failed to load duplicate inbound event'') (\<lambda>db.
              case find_where (same_event r) (inbound_events db) of
                None \<Rightarrow> Inl (IngressError ''failed to load duplicate inbound event'')
              | Some e \<Rightarrow> Inr (InDuplicate (ie_id e), db))))"

section \<open>The account and the context\<close>

definition new_account :: "instant \<Rightarrow> uuid \<Rightarrow> account" where
  "new_account now aid =
     \<lparr>ac_id = aid, ac_lifecycle_state = PendingConsent, ac_consent_version = None, ac_consented_at = None,
      ac_locale = ''vi-VN'', ac_timezone = ''Asia/Ho_Chi_Minh'', ac_retention_preference_days = 7,
      ac_default_currency = ''VND'', ac_updated_at = now\<rparr>"

definition resolve_or_create_account ::
  "ingress_env \<Rightarrow> ingress_request \<Rightarrow> ('z bot_db_scheme, ingress_effect_error, uuid) tx" where
  "resolve_or_create_account E r =
     (let aid = iv_ids E ''account''; is_sender = (\<lambda>p. pi_provider_scope p = iq_provider_scope r
            \<and> pi_provider_sender_id p = iq_provider_sender_id r) in
      txbind (fx E ''find identity'' (txread (\<lambda>db. find_where is_sender (provider_identities db)))) (\<lambda>existing.
        case existing of
          Some p \<Rightarrow> txret (pi_account_id p)
        | None \<Rightarrow>
            txbind (fx E ''insert account'' (\<lambda>db.
              if exists_where (\<lambda>a. ac_id a = aid) (accounts db) then Inl FxInvalidTransition
              else Inr ((), db\<lparr>accounts := accounts db @ [new_account (iv_now E) aid]\<rparr>))) (\<lambda>_.
            txbind (fx E ''insert identity'' (\<lambda>db.
              if exists_where (\<lambda>p. pi_id p = iv_ids E ''identity'') (provider_identities db) then Inl FxInvalidTransition
              else Inr ((), db\<lparr>provider_identities := provider_identities db @
                [\<lparr>pi_id = iv_ids E ''identity'', pi_account_id = aid, pi_provider_scope = iq_provider_scope r,
                  pi_provider_sender_id = iq_provider_sender_id r\<rparr>]\<rparr>))) (\<lambda>_.
              txret aid))))"

text \<open>\<^verbatim>\<open>count as u32\<close>\<close>

definition as_u32 :: "int \<Rightarrow> nat" where
  "as_u32 n = nat (n mod 2 ^ 32)"

definition totals_tx ::
  "bot_libs \<Rightarrow> ingress_env \<Rightarrow> string \<Rightarrow> (expense \<Rightarrow> bool) \<Rightarrow> string \<Rightarrow>
   ('z bot_db_scheme, ingress_effect_error, int \<times> nat \<times> string) tx" where
  "totals_tx B E label p fallback =
     fx E label (\<lambda>db. case expense_totals B fallback (filter p (expenses db)) of
       None \<Rightarrow> Inl FxInvalidTransition | Some (s, n, c) \<Rightarrow> Inr ((s, as_u32 n, c), db))"

definition load_period_totals ::
  "bot_libs \<Rightarrow> ingress_env \<Rightarrow> string \<Rightarrow> uuid \<Rightarrow> instant \<Rightarrow> instant \<Rightarrow> string \<Rightarrow>
   ('z bot_db_scheme, ingress_effect_error, int \<times> nat \<times> string) tx" where
  "load_period_totals B E label aid start stop fallback = totals_tx B E label (confirmed_between aid start stop) fallback"

definition load_receipt_draft_snapshot ::
  "ingress_env \<Rightarrow> uuid \<Rightarrow> uuid \<Rightarrow> ('z bot_db_scheme, ingress_effect_error, receipt_draft_snapshot option) tx" where
  "load_receipt_draft_snapshot E aid sid =
     txbind (fx_account_column E ''draft locale'' aid ac_locale) (\<lambda>loc.
       let use_en = starts_with (to_ascii_lowercase loc) ''en'' in
       fx E ''draft snapshot'' (txread (\<lambda>db.
         case find_where (\<lambda>d. d_submission_id d = sid \<and> d_account_id d = aid) (drafts db) of
           None \<Rightarrow> None
         | Some d \<Rightarrow>
             if d_category_key d \<in> set (categories db)
               \<and> exists_where (\<lambda>s. s_id s = sid \<and> s_account_id s = aid \<and> s_state s = RReviewRequired) (submissions db)
             then Some \<lparr>rs_submission_id = sid, rs_amount_minor = d_amount_minor d, rs_currency = d_currency d,
               rs_merchant = d_merchant d, rs_category_key = d_category_key d,
               rs_category_display = (if use_en then snd else fst) (category_names db (d_category_key d)),
               rs_transaction_type = d_transaction_type d, rs_occurred_at = d_occurred_at d, rs_version = d_version d\<rparr>
             else None)))"

text \<open>\<^verbatim>\<open>ORDER BY occurred_at DESC, created_at DESC\<close>\<close>

definition recent_first :: "expense list \<Rightarrow> expense list" where
  "recent_first es = sort_key (\<lambda>e. - e_occurred_at e) (sort_key (\<lambda>e. - e_created_at e) es)"

definition load_recent_expenses :: "ingress_env \<Rightarrow> uuid \<Rightarrow> ('z bot_db_scheme, ingress_effect_error, expense list) tx" where
  "load_recent_expenses E aid =
     fx E ''recent expenses'' (txread (\<lambda>db. take 10 (recent_first (filter (\<lambda>e. e_account_id e = aid) (expenses db)))))"

definition load_pending_action ::
  "bot_libs \<Rightarrow> ingress_env \<Rightarrow> uuid \<Rightarrow> conversation_state option \<Rightarrow> expense list \<Rightarrow>
   ('z bot_db_scheme, ingress_effect_error, pending_action option) tx" where
  "load_pending_action B E aid row recent =
     (case row of
        None \<Rightarrow> txret None
      | Some c \<Rightarrow>
          (case (cs_pending_action_type c, cs_expires_at c) of
             (Some action, Some expires) \<Rightarrow>
               let base = \<lparr>pa_action_type = action, pa_payload_ref = cs_pending_payload_ref c, pa_expires_at = expires,
                     pa_version = cs_version c, pa_expense = None, pa_receipt_draft = None\<rparr>;
                   target = Option.bind (cs_pending_payload_ref c) (bl_parse_uuid B)
               in if action = ''manual_expense_confirmation'' then
                    (case target of
                       None \<Rightarrow> txret (Some base)
                     | Some eid \<Rightarrow>
                         (case find_where (\<lambda>e. e_id e = eid) recent of
                            Some e \<Rightarrow> txret (Some (base\<lparr>pa_expense := Some e\<rparr>))
                          | None \<Rightarrow>
                              txbind (fx E ''pending expense'' (txread (\<lambda>db.
                                find_where (\<lambda>e. e_account_id e = aid \<and> e_id e = eid) (expenses db)))) (\<lambda>e.
                                txret (Some (base\<lparr>pa_expense := e\<rparr>)))))
                  else if action = ''receipt_review'' then
                    (case target of
                       None \<Rightarrow> txret (Some base)
                     | Some sid \<Rightarrow>
                         txbind (load_receipt_draft_snapshot E aid sid) (\<lambda>d. txret (Some (base\<lparr>pa_receipt_draft := d\<rparr>))))
                  else if action = ''account_deletion'' then txret (Some base)
                  else txret None
           | _ \<Rightarrow> txret None))"

text \<open>\<^verbatim>\<open>ORDER BY frequency\<close>: daily, monthly, weekly.\<close>

definition frequency_rank :: "string \<Rightarrow> nat" where
  "frequency_rank f = (if f = ''daily'' then 0 else if f = ''monthly'' then 1 else 2)"

definition load_schedules :: "ingress_env \<Rightarrow> uuid \<Rightarrow> ('z bot_db_scheme, ingress_effect_error, schedule_line list) tx" where
  "load_schedules E aid =
     fx E ''schedules'' (txread (\<lambda>db.
       map (\<lambda>s. \<lparr>sl_frequency = ss_frequency s, sl_delivery_minute = ss_delivery_minute s, sl_enabled = ss_enabled s\<rparr>)
         (sort_key (\<lambda>s. frequency_rank (ss_frequency s)) (filter (\<lambda>s. ss_account_id s = aid) (summary_schedules db)))))"

definition load_decision_context ::
  "bot_libs \<Rightarrow> ingress_env \<Rightarrow> uuid \<Rightarrow> uuid \<Rightarrow> ingress_request \<Rightarrow> nat \<Rightarrow>
   ('z bot_db_scheme, ingress_effect_error, decision_context) tx" where
  "load_decision_context B E aid ev r daily_receipts =
     txbind (fx E ''account'' (txread (\<lambda>db. find_where (\<lambda>a. ac_id a = aid) (accounts db)))) (\<lambda>account.
     case account of
       None \<Rightarrow> txfail FxNotFound
     | Some a \<Rightarrow>
     txbind (fx E ''pending'' (txread (\<lambda>db. find_where (\<lambda>c. cs_account_id c = aid) (conversation_states db)))) (\<lambda>pending_row.
     txbind (fx_account_column E ''preferences'' aid (\<lambda>a.
       (ac_timezone a, ac_retention_preference_days a, ac_default_currency a, ac_locale a))) (\<lambda>(timezone, days, currency, loc).
     txbind (case bl_pg_date B timezone (iq_observed_at r) of
         None \<Rightarrow> txfail FxInvalidTransition
       | Some today \<Rightarrow> totals_tx B E ''today'' (\<lambda>e. e_account_id e = aid \<and> e_state e = ExpenseConfirmed
           \<and> bl_pg_date B timezone (e_occurred_at e) = Some today) ''VND'') (\<lambda>today.
     txbind (tx_schedule FxInvalidTransition FxPanic (interactive_period (bl_zone B) Weekly (iq_observed_at r) timezone)) (\<lambda>(week, _).
     txbind (load_period_totals B E ''week'' aid (p_start week) (p_end week) currency) (\<lambda>week_totals.
     txbind (tx_schedule FxInvalidTransition FxPanic (interactive_period (bl_zone B) Monthly (iq_observed_at r) timezone)) (\<lambda>(month, _).
     txbind (load_period_totals B E ''month'' aid (p_start month) (p_end month) currency) (\<lambda>month_totals.
     txbind (fx E ''confirmed count'' (txread (\<lambda>db. count_where (\<lambda>e. e_account_id e = aid \<and> e_state e = ExpenseConfirmed)
       (expenses db)))) (\<lambda>confirmed.
     txbind (load_schedules E aid) (\<lambda>schedules.
     txbind (tx_map_err (\<lambda>_. FxInvalidTransition) (remaining_in_transaction (iv_fault E) ''account'' (show_uuid B aid)
       (daily_period_key B (iq_observed_at r) timezone) ''receipts'' (i64_limit daily_receipts))) (\<lambda>remaining_receipts.
     txbind (load_recent_expenses E aid) (\<lambda>recent.
     txbind (load_pending_action B E aid pending_row recent) (\<lambda>pending.
       txret \<lparr>dc_account_id = Some aid, dc_inbound_event_id = Some ev, dc_lifecycle_state = Some (ac_lifecycle_state a),
         dc_consent_version = ac_consent_version a, dc_pending_action = pending, dc_today = today, dc_week = week_totals,
         dc_month = month_totals, dc_default_currency = currency, dc_schedules = schedules, dc_recent_expenses = recent,
         dc_sender_allowed = True, dc_user_text = iq_user_text r, dc_timezone = timezone, dc_locale = loc,
         dc_retention_days = nat days, dc_next_expense_id = iv_ids E ''next_expense'',
         dc_next_submission_id = iv_ids E ''next_submission'', dc_next_ingest_job_id = iv_ids E ''next_ingest_job'',
         dc_remaining_daily_receipts = remaining_receipts, dc_confirmed_expense_count = nat (min (int confirmed) 4294967295),
         dc_now = iq_observed_at r\<rparr>)))))))))))))"

definition anonymous_context :: "ingress_env \<Rightarrow> uuid \<Rightarrow> ingress_request \<Rightarrow> nat \<Rightarrow> decision_context" where
  "anonymous_context E ev r daily_receipts =
     \<lparr>dc_account_id = None, dc_inbound_event_id = Some ev, dc_lifecycle_state = None, dc_consent_version = None,
      dc_pending_action = None, dc_today = (0, 0, ''VND''), dc_week = (0, 0, ''VND''), dc_month = (0, 0, ''VND''),
      dc_default_currency = ''VND'', dc_schedules = [], dc_recent_expenses = [], dc_sender_allowed = False,
      dc_user_text = iq_user_text r, dc_timezone = ''Asia/Ho_Chi_Minh'', dc_locale = ''vi-VN'', dc_retention_days = 7,
      dc_next_expense_id = iv_ids E ''next_expense'', dc_next_submission_id = iv_ids E ''next_submission'',
      dc_next_ingest_job_id = iv_ids E ''next_ingest_job'', dc_remaining_daily_receipts = i64_limit daily_receipts,
      dc_confirmed_expense_count = 0, dc_now = iq_observed_at r\<rparr>"

end
