(* ===== verification/Ingress_Effects.thy ===== *)
theory Ingress_Effects
  imports Ingress
begin

text \<open>
  Applying the effects of a decision, the outbox, and the whole transaction: the second half of
  \<^verbatim>\<open>src/ingress/store.rs\<close>. Each effect that changes rows is a definition; \<open>apply_effect\<close> dispatches.
\<close>

section \<open>The account and its pending action\<close>

definition apply_grant_consent ::
  "ingress_env \<Rightarrow> uuid \<Rightarrow> string \<Rightarrow> ('z bot_db_scheme, ingress_effect_error, unit) tx" where
  "apply_grant_consent E aid version =
     (let hit = (\<lambda>a. ac_id a = aid \<and> ac_lifecycle_state a = PendingConsent) in
      fx_update E ''grant consent'' (\<lambda>db. exists_where hit (accounts db)) (\<lambda>_. False)
        (\<lambda>db. db\<lparr>accounts := update_where hit (\<lambda>a. a\<lparr>ac_lifecycle_state := Active, ac_consent_version := Some version,
           ac_consented_at := Some (iv_now E), ac_updated_at := iv_now E\<rparr>) (accounts db)\<rparr>) FxNotFound)"

definition pending_action_types :: "string list" where
  "pending_action_types = [''manual_expense_confirmation'', ''receipt_review'', ''account_deletion'']"

definition armed_state :: "instant \<Rightarrow> string \<Rightarrow> string option \<Rightarrow> instant \<Rightarrow> conversation_state \<Rightarrow> conversation_state" where
  "armed_state now action payload expires c =
     c\<lparr>cs_pending_action_type := Some action, cs_pending_payload_ref := payload, cs_expires_at := Some expires,
       cs_version := cs_version c + 1, cs_updated_at := now\<rparr>"

definition update_pending ::
  "ingress_env \<Rightarrow> string \<Rightarrow> uuid \<Rightarrow> int \<Rightarrow> string \<Rightarrow> string option \<Rightarrow> instant \<Rightarrow>
   ('z bot_db_scheme, ingress_effect_error, unit) tx" where
  "update_pending E label aid expected action payload expires =
     (let hit = (\<lambda>c. cs_account_id c = aid \<and> cs_version c = expected) in
      fx_update E label (\<lambda>db. exists_where hit (conversation_states db))
        (\<lambda>db. exists_where hit (conversation_states db) \<and> (action \<notin> set pending_action_types \<or> i32_max < expected + 1))
        (\<lambda>db. db\<lparr>conversation_states := update_where hit (armed_state (iv_now E) action payload expires)
            (conversation_states db)\<rparr>) FxVersionConflict)"

definition upsert_pending_action ::
  "ingress_env \<Rightarrow> uuid \<Rightarrow> string \<Rightarrow> string option \<Rightarrow> instant \<Rightarrow> int option \<Rightarrow> ('z bot_db_scheme, ingress_effect_error, unit) tx"
  where
  "upsert_pending_action E aid action payload expires expected =
     (case expected of
        Some v \<Rightarrow> update_pending E ''set pending'' aid v action payload expires
      | None \<Rightarrow>
          txbind (fx E ''insert pending'' (\<lambda>db.
            if exists_where (\<lambda>c. cs_account_id c = aid) (conversation_states db) then Inr (False, db)
            else if action \<notin> set pending_action_types then Inl FxInvalidTransition
            else Inr (True, db\<lparr>conversation_states := conversation_states db @
              [\<lparr>cs_account_id = aid, cs_pending_action_type = Some action, cs_pending_payload_ref = payload,
                cs_expires_at = Some expires, cs_version = 1, cs_updated_at = iv_now E\<rparr>]\<rparr>))) (\<lambda>inserted.
            if inserted then txret ()
            else txbind (fx E ''pending version'' (\<lambda>db.
                   case find_where (\<lambda>c. cs_account_id c = aid) (conversation_states db) of
                     None \<Rightarrow> Inl FxInvalidTransition | Some c \<Rightarrow> Inr (cs_version c, db))) (\<lambda>v.
                   update_pending E ''replace pending'' aid v action payload expires)))"

definition cleared_state :: "instant \<Rightarrow> conversation_state \<Rightarrow> conversation_state" where
  "cleared_state now c =
     c\<lparr>cs_pending_action_type := None, cs_pending_payload_ref := None, cs_expires_at := None,
       cs_version := cs_version c + 1, cs_updated_at := now\<rparr>"

definition apply_clear_pending :: "ingress_env \<Rightarrow> uuid \<Rightarrow> int \<Rightarrow> ('z bot_db_scheme, ingress_effect_error, unit) tx" where
  "apply_clear_pending E aid expected =
     (let hit = (\<lambda>c. cs_account_id c = aid \<and> cs_version c = expected) in
      fx_update E ''clear pending'' (\<lambda>db. exists_where hit (conversation_states db))
        (\<lambda>db. exists_where hit (conversation_states db) \<and> i32_max < expected + 1)
        (\<lambda>db. db\<lparr>conversation_states := update_where hit (cleared_state (iv_now E)) (conversation_states db)\<rparr>)
        FxVersionConflict)"

definition apply_set_locale :: "ingress_env \<Rightarrow> uuid \<Rightarrow> string \<Rightarrow> ('z bot_db_scheme, ingress_effect_error, unit) tx" where
  "apply_set_locale E aid loc =
     (let normalized = (if starts_with (to_ascii_lowercase loc) ''en'' then ''en-US'' else ''vi-VN'') in
      fx_update E ''set locale'' (\<lambda>db. exists_where (\<lambda>a. ac_id a = aid) (accounts db)) (\<lambda>_. False)
        (\<lambda>db. db\<lparr>accounts := update_where (\<lambda>a. ac_id a = aid) (\<lambda>a. a\<lparr>ac_locale := normalized, ac_updated_at := iv_now E\<rparr>)
            (accounts db)\<rparr>) FxNotFound)"

section \<open>Manual expenses\<close>

definition currency_ok :: "string \<Rightarrow> bool" where
  "currency_ok c \<longleftrightarrow> length c = 3 \<and> list_all is_ascii_uppercase c"

definition manual_expense :: "instant \<Rightarrow> uuid \<Rightarrow> uuid \<Rightarrow> int \<Rightarrow> string \<Rightarrow> string \<Rightarrow> instant \<Rightarrow> int \<Rightarrow> expense" where
  "manual_expense now eid aid amount currency description occurred version =
     \<lparr>e_id = eid, e_account_id = aid, e_amount_minor = amount, e_currency = currency, e_occurred_at = occurred,
      e_description = description, e_source = SourceManual, e_state = AwaitingConfirmation, e_version = version,
      e_receipt_submission_id = None, e_category_key = ''khac'', e_transaction_type = ''expense'', e_created_at = now,
      e_updated_at = now\<rparr>"

definition apply_create_manual ::
  "bot_libs \<Rightarrow> ingress_env \<Rightarrow> uuid \<Rightarrow> uuid \<Rightarrow> int \<Rightarrow> string \<Rightarrow> string \<Rightarrow> instant \<Rightarrow> int \<Rightarrow> instant \<Rightarrow> string \<Rightarrow>
   ('z bot_db_scheme, ingress_effect_error, unit) tx" where
  "apply_create_manual B E aid eid amount currency description occurred version expires action =
     txbind (fx E ''insert expense'' (\<lambda>db.
       if exists_where (\<lambda>e. e_id e = eid) (expenses db) \<or> \<not> currency_ok currency \<or> version \<le> 0
         \<or> ''khac'' \<notin> set (categories db)
       then Inl FxInvalidTransition
       else Inr ((), db\<lparr>expenses := expenses db @
              [manual_expense (iv_now E) eid aid amount currency description occurred version]\<rparr>))) (\<lambda>_.
     upsert_pending_action E aid action (Some (show_uuid B eid)) expires None)"

definition open_expense :: "uuid \<Rightarrow> uuid \<Rightarrow> int \<Rightarrow> expense \<Rightarrow> bool" where
  "open_expense aid eid version e \<longleftrightarrow>
     e_id e = eid \<and> e_account_id e = aid \<and> e_version e = version \<and> e_state e = AwaitingConfirmation"

text \<open>Confirming and rejecting are the same UPDATE with another state.\<close>

definition settle_expense ::
  "ingress_env \<Rightarrow> string \<Rightarrow> expense_state \<Rightarrow> uuid \<Rightarrow> uuid \<Rightarrow> int \<Rightarrow> ('z bot_db_scheme, ingress_effect_error, unit) tx" where
  "settle_expense E label st aid eid version =
     fx_update E label (\<lambda>db. exists_where (open_expense aid eid version) (expenses db))
       (\<lambda>db. exists_where (open_expense aid eid version) (expenses db) \<and> i32_max < version + 1)
       (\<lambda>db. db\<lparr>expenses := update_where (open_expense aid eid version)
           (\<lambda>e. e\<lparr>e_state := st, e_version := e_version e + 1, e_updated_at := iv_now E\<rparr>) (expenses db)\<rparr>)
       FxVersionConflict"

definition opt_or :: "'a option \<Rightarrow> 'a \<Rightarrow> 'a" where
  "opt_or v d = (case v of None \<Rightarrow> d | Some x \<Rightarrow> x)"

definition edit_manual_expense_in_transaction ::
  "ingress_env \<Rightarrow> uuid \<Rightarrow> uuid \<Rightarrow> int \<Rightarrow> int option \<Rightarrow> string option \<Rightarrow> string option \<Rightarrow> instant option \<Rightarrow> string option \<Rightarrow>
   ('z bot_db_scheme, ingress_effect_error, unit) tx" where
  "edit_manual_expense_in_transaction E aid eid version amount merchant category occurred type =
     txbind (fx E ''load expense'' (txread (\<lambda>db. find_where (open_expense aid eid version) (expenses db)))) (\<lambda>row.
       case row of
         None \<Rightarrow> txfail FxVersionConflict
       | Some cur \<Rightarrow>
           let desc = trim (opt_or merchant (e_description cur)); cat = opt_or category (e_category_key cur);
               next_type = opt_or type (e_transaction_type cur)
           in if desc = [] then txfail FxInvalidTransition
              else txbind (fx E ''category exists'' (txread (\<lambda>db. cat \<in> set (categories db)))) (\<lambda>exists.
                if \<not> exists then txfail FxInvalidTransition
                else fx_update E ''edit expense'' (\<lambda>db. exists_where (open_expense aid eid version) (expenses db))
                  (\<lambda>db. exists_where (open_expense aid eid version) (expenses db)
                     \<and> (i32_max < version + 1 \<or> next_type \<notin> set transaction_types))
                  (\<lambda>db. db\<lparr>expenses := update_where (open_expense aid eid version)
                     (\<lambda>e. e\<lparr>e_amount_minor := opt_or amount (e_amount_minor cur), e_description := desc, e_category_key := cat,
                       e_occurred_at := opt_or occurred (e_occurred_at cur), e_transaction_type := next_type,
                       e_version := e_version e + 1, e_updated_at := iv_now E\<rparr>) (expenses db)\<rparr>) FxVersionConflict))"

definition recategorize_latest_in_transaction ::
  "ingress_env \<Rightarrow> uuid \<Rightarrow> string \<Rightarrow> ('z bot_db_scheme, ingress_effect_error, unit) tx" where
  "recategorize_latest_in_transaction E aid key =
     txbind (fx E ''category exists'' (txread (\<lambda>db. key \<in> set (categories db)))) (\<lambda>exists.
       if \<not> exists then txfail FxInvalidTransition
       else txbind (fx E ''latest expense'' (txread (\<lambda>db.
         recent_first (filter (\<lambda>e. e_account_id e = aid \<and> e_state e = ExpenseConfirmed) (expenses db))))) (\<lambda>latest.
         case latest of
           [] \<Rightarrow> txfail FxNotFound
         | e0 # _ \<Rightarrow>
             txbind (fx_update E ''recategorize'' (\<lambda>db. exists_where (\<lambda>e. e_id e = e_id e0 \<and> e_account_id e = aid) (expenses db))
               (\<lambda>_. False)
               (\<lambda>db. db\<lparr>expenses := update_where (\<lambda>e. e_id e = e_id e0 \<and> e_account_id e = aid)
                  (\<lambda>e. e\<lparr>e_category_key := key, e_updated_at := iv_now E\<rparr>) (expenses db)\<rparr>) FxNotFound) (\<lambda>_.
             case e_receipt_submission_id e0 of
               None \<Rightarrow> txret ()
             | Some sid \<Rightarrow>
                 fx E ''recategorize draft'' (txwrite (\<lambda>db. db\<lparr>drafts := update_where
                   (\<lambda>d. d_submission_id d = sid \<and> d_account_id d = aid) (\<lambda>d. d\<lparr>d_category_key := key\<rparr>) (drafts db)\<rparr>)))))"

section \<open>Schedules\<close>

definition next_run :: "bot_libs \<Rightarrow> instant \<Rightarrow> string \<Rightarrow> string \<Rightarrow> int \<Rightarrow> ('s, ingress_effect_error, instant) tx" where
  "next_run B now timezone frequency minute =
     (case frequency_parse frequency of
        None \<Rightarrow> txfail FxInvalidTransition
      | Some f \<Rightarrow> tx_schedule FxInvalidTransition FxPanic (next_delivery (bl_zone B) now timezone f minute))"

fun recompute_runs ::
  "bot_libs \<Rightarrow> ingress_env \<Rightarrow> instant \<Rightarrow> string \<Rightarrow> summary_schedule list \<Rightarrow> ('z bot_db_scheme, ingress_effect_error, unit) tx" where
  "recompute_runs B E now timezone [] = txret ()"
| "recompute_runs B E now timezone (s # ss) =
     txbind (next_run B now timezone (ss_frequency s) (ss_delivery_minute s)) (\<lambda>t.
     txbind (fx E ''update run'' (txwrite (\<lambda>db. db\<lparr>summary_schedules := update_where (\<lambda>x. ss_id x = ss_id s)
       (\<lambda>x. x\<lparr>ss_next_run_at := t\<rparr>) (summary_schedules db)\<rparr>))) (\<lambda>_.
       recompute_runs B E now timezone ss))"

definition recompute_account_schedule_runs ::
  "bot_libs \<Rightarrow> ingress_env \<Rightarrow> uuid \<Rightarrow> instant \<Rightarrow> ('z bot_db_scheme, ingress_effect_error, unit) tx" where
  "recompute_account_schedule_runs B E aid now =
     txbind (fx_account_column E ''timezone'' aid ac_timezone) (\<lambda>timezone.
     txbind (fx E ''enabled schedules'' (txread (\<lambda>db. filter (\<lambda>s. ss_account_id s = aid \<and> ss_enabled s) (summary_schedules db)))) (\<lambda>rows.
       recompute_runs B E now timezone rows))"

definition apply_set_timezone ::
  "bot_libs \<Rightarrow> ingress_env \<Rightarrow> uuid \<Rightarrow> instant \<Rightarrow> string \<Rightarrow> ('z bot_db_scheme, ingress_effect_error, unit) tx" where
  "apply_set_timezone B E aid observed_at iana =
     (if isl (parse_timezone (zl_known (bl_zone B)) iana) then txfail FxInvalidTransition
      else txbind (fx_update E ''set timezone'' (\<lambda>db. exists_where (\<lambda>a. ac_id a = aid) (accounts db)) (\<lambda>_. False)
        (\<lambda>db. db\<lparr>accounts := update_where (\<lambda>a. ac_id a = aid) (\<lambda>a. a\<lparr>ac_timezone := iana, ac_updated_at := iv_now E\<rparr>)
            (accounts db)\<rparr>) FxNotFound) (\<lambda>_.
        recompute_account_schedule_runs B E aid observed_at))"

definition same_schedule :: "uuid \<Rightarrow> string \<Rightarrow> summary_schedule \<Rightarrow> bool" where
  "same_schedule aid f s \<longleftrightarrow> ss_account_id s = aid \<and> ss_frequency s = f"

definition apply_upsert_schedule ::
  "bot_libs \<Rightarrow> ingress_env \<Rightarrow> uuid \<Rightarrow> instant \<Rightarrow> ingress_request \<Rightarrow> string \<Rightarrow> int \<Rightarrow>
   ('z bot_db_scheme, ingress_effect_error, unit) tx" where
  "apply_upsert_schedule B E aid observed_at r frequency minute =
     (if isl (validate_delivery_minute minute) \<or> frequency_parse frequency = None then txfail FxInvalidTransition
      else txbind (fx_account_column E ''schedule timezone'' aid ac_timezone) (\<lambda>timezone.
        txbind (next_run B observed_at timezone frequency minute) (\<lambda>t.
          fx E ''upsert schedule'' (\<lambda>db.
            if frequency \<notin> set [''daily'', ''weekly'', ''monthly''] then Inl FxInvalidTransition
            else if exists_where (same_schedule aid frequency) (summary_schedules db) then
              Inr ((), db\<lparr>summary_schedules := update_where (same_schedule aid frequency)
                (\<lambda>s. s\<lparr>ss_delivery_minute := minute, ss_provider_scope := iq_provider_scope r,
                  ss_provider_chat_id := iq_provider_chat_id r, ss_enabled := True, ss_next_run_at := t\<rparr>) (summary_schedules db)\<rparr>)
            else if exists_where (\<lambda>s. ss_id s = iv_ids E ''schedule'') (summary_schedules db) then Inl FxInvalidTransition
            else Inr ((), db\<lparr>summary_schedules := summary_schedules db @
              [\<lparr>ss_id = iv_ids E ''schedule'', ss_account_id = aid, ss_frequency = frequency, ss_delivery_minute = minute,
                ss_provider_scope = iq_provider_scope r, ss_provider_chat_id = iq_provider_chat_id r, ss_enabled = True,
                ss_next_run_at = t, ss_last_emitted_at = None\<rparr>]\<rparr>)))))"

definition apply_disable_schedule ::
  "ingress_env \<Rightarrow> uuid \<Rightarrow> string option \<Rightarrow> ('z bot_db_scheme, ingress_effect_error, unit) tx" where
  "apply_disable_schedule E aid frequency =
     fx E ''disable schedule'' (txwrite (\<lambda>db. db\<lparr>summary_schedules := update_where
       (\<lambda>s. ss_account_id s = aid \<and> (case frequency of None \<Rightarrow> True | Some f \<Rightarrow> ss_frequency s = f))
       (\<lambda>s. s\<lparr>ss_enabled := False\<rparr>) (summary_schedules db)\<rparr>))"

section \<open>Deletion, export, insights\<close>

definition request_deletion :: "ingress_env \<Rightarrow> uuid \<Rightarrow> int \<Rightarrow> 'z bot_db_scheme \<Rightarrow> 'z bot_db_scheme" where
  "request_deletion E aid count db =
     (case find_where (\<lambda>q. dq_account_id q = aid) (deletion_requests db) of
        None \<Rightarrow> db\<lparr>deletion_requests := deletion_requests db @
          [\<lparr>dq_id = iv_ids E ''deletion_request'', dq_account_id = aid, dq_state = DelRequested, dq_expense_count = count,
            dq_requested_at = iv_now E, dq_completed_at = None\<rparr>]\<rparr>
      | Some _ \<Rightarrow> db\<lparr>deletion_requests := update_where (\<lambda>q. dq_account_id q = aid \<and> dq_state q \<noteq> DelCompleted)
          (\<lambda>q. q\<lparr>dq_state := DelRequested, dq_expense_count := count, dq_requested_at := iv_now E, dq_completed_at := None\<rparr>)
          (deletion_requests db)\<rparr>)"

definition apply_confirm_deletion ::
  "bot_libs \<Rightarrow> ingress_env \<Rightarrow> uuid \<Rightarrow> instant \<Rightarrow> ('z bot_db_scheme, ingress_effect_error, unit) tx" where
  "apply_confirm_deletion B E aid observed_at =
     (let hit = (\<lambda>a. ac_id a = aid \<and> (ac_lifecycle_state a = Active \<or> ac_lifecycle_state a = Deleting)) in
      txbind (fx_update E ''mark deleting'' (\<lambda>db. exists_where hit (accounts db)) (\<lambda>_. False)
        (\<lambda>db. db\<lparr>accounts := update_where hit (\<lambda>a. a\<lparr>ac_lifecycle_state := Deleting, ac_updated_at := iv_now E\<rparr>) (accounts db)\<rparr>)
        FxInvalidTransition) (\<lambda>_.
      txbind (fx E ''expense count'' (txread (\<lambda>db.
        int (count_where (\<lambda>e. e_account_id e = aid \<and> e_state e = ExpenseConfirmed) (expenses db))))) (\<lambda>count.
      txbind (fx E ''insert deletion request'' (\<lambda>db.
        if \<not> exists_where (\<lambda>q. dq_account_id q = aid) (deletion_requests db)
           \<and> exists_where (\<lambda>q. dq_id q = iv_ids E ''deletion_request'') (deletion_requests db) then Inl FxInvalidTransition
        else Inr ((), request_deletion E aid (min count i32_max) db))) (\<lambda>_.
      txbind (fx E ''deletion request id'' (\<lambda>db.
        case find_where (\<lambda>q. dq_account_id q = aid) (deletion_requests db) of
          None \<Rightarrow> Inl FxInvalidTransition | Some q \<Rightarrow> Inr (dq_id q, db))) (\<lambda>request_id.
      txbind (tx_map_err (\<lambda>_. FxInvalidTransition)
        (enqueue_delete_in_transaction B (iv_fault E) (iv_now E) (iv_ids E ''delete_job'') aid request_id observed_at)) (\<lambda>_.
      fx E ''drop pending'' (\<lambda>db.
        if exists_where (\<lambda>c. cs_account_id c = aid \<and> i32_max < cs_version c + 1) (conversation_states db) then Inl FxInvalidTransition
        else Inr ((), db\<lparr>conversation_states := update_where (\<lambda>c. cs_account_id c = aid) (cleared_state (iv_now E))
          (conversation_states db)\<rparr>))))))))"

definition snapshot_reply :: "bot_libs \<Rightarrow> locale_t \<Rightarrow> string \<Rightarrow> string \<Rightarrow> json \<Rightarrow> string" where
  "snapshot_reply B loc label default_currency aggregate =
     (let total_minor = (case json_get aggregate ''total_minor'' of Some (JInt t) \<Rightarrow> t | _ \<Rightarrow> 0);
          tx_count = (case json_get aggregate ''tx_count'' of Some (JInt n) \<Rightarrow> n | _ \<Rightarrow> 0);
          currency = (case json_get aggregate ''currency'' of Some (JString c) \<Rightarrow> c | _ \<Rightarrow> default_currency)
      in if tx_count = 0 then empty_summary_text loc label
         else period_summary_text (bl_chat B) loc label currency total_minor (top_category_lines aggregate))"

definition apply_record_insight ::
  "bot_libs \<Rightarrow> ingress_policy \<Rightarrow> ingress_env \<Rightarrow> uuid \<Rightarrow> instant \<Rightarrow> string \<Rightarrow> ('z bot_db_scheme, ingress_effect_error, string) tx" where
  "apply_record_insight B policy E aid observed_at kind_text =
     (case insight_period_parse kind_text of
        None \<Rightarrow> txfail FxInvalidTransition
      | Some kind \<Rightarrow>
          txbind (fx_account_column E ''insight preferences'' aid (\<lambda>a. (ac_timezone a, ac_default_currency a, ac_locale a)))
            (\<lambda>(timezone, default_currency, locale_raw).
          txbind (tx_map_err (\<lambda>e. if e = InsightError ''panic'' then FxPanic else FxInvalidTransition)
            (record_snapshot_in_transaction B policy (iv_fault E) (iv_now E) (iv_ids E) aid kind observed_at timezone
               default_currency)) (\<lambda>(_, aggregate).
          txbind (tx_schedule FxInvalidTransition FxPanic
            (interactive_period (bl_zone B) (insight_period_frequency kind) observed_at timezone)) (\<lambda>(_, label).
            txret (snapshot_reply B (locale_parse locale_raw) label default_currency aggregate)))))"

section \<open>Receipts\<close>

definition map_receipt_error :: "receipt_error \<Rightarrow> ingress_effect_error" where
  "map_receipt_error e =
     (case receipt_error_class e of EConflict \<Rightarrow> FxVersionConflict | ENotFound \<Rightarrow> FxNotFound | _ \<Rightarrow> FxInvalidTransition)"

definition apply_accept_receipt ::
  "bot_libs \<Rightarrow> ingress_policy \<Rightarrow> bool \<Rightarrow> ingress_env \<Rightarrow> uuid \<Rightarrow> uuid \<Rightarrow> instant \<Rightarrow> uuid \<Rightarrow> uuid \<Rightarrow> uuid \<Rightarrow>
   ('z bot_db_scheme, ingress_effect_error, string option) tx" where
  "apply_accept_receipt B policy has_receipt E aid ev observed_at sid jid effect_ev =
     (if \<not> has_receipt \<or> effect_ev \<noteq> ev then txfail FxInvalidTransition
      else txbind (fx_account_column E ''receipt timezone'' aid ac_timezone) (\<lambda>timezone.
        txbind (tx_map_err (\<lambda>_. FxInvalidTransition) (increment_in_transaction (iv_fault E) (iv_now E) ''account''
          (show_uuid B aid) (daily_period_key B observed_at timezone) ''receipts''
          (i64_limit (ip_per_user_daily_receipts policy)))) (\<lambda>quota.
          if exceeded quota then
            txbind (fx_account_column E ''quota locale'' aid ac_locale) (\<lambda>loc.
              txret (Some (daily_receipt_quota_text (locale_parse loc))))
          else txbind (tx_map_err map_receipt_error (accept_submission_in_transaction (bl_libs B) (iv_fault E) (iv_now E)
              \<lparr>as_submission_id = sid, as_account_id = aid, as_inbound_event_id = Some ev, as_ingest_job_id = jid\<rparr>)) (\<lambda>_.
            txret None))))"

section \<open>The outbox\<close>

definition outbound_delivery_allowed ::
  "bot_libs \<Rightarrow> ingress_policy \<Rightarrow> ingress_env \<Rightarrow> instant \<Rightarrow> uuid option \<Rightarrow> ('z bot_db_scheme, ingress_effect_error, bool) tx" where
  "outbound_delivery_allowed B policy E observed_at account =
     (if \<not> ip_outbound_enabled policy then txret False
      else case account of
        None \<Rightarrow> txret True
      | Some aid \<Rightarrow>
          txbind (tx_map_err (\<lambda>_. FxInvalidTransition) (increment_in_transaction (iv_fault E) (iv_now E) ''account''
            (show_uuid B aid) (monthly_period_key B observed_at) ''zalo_messages''
            (i64_limit (ip_zalo_monthly_messages policy)))) (\<lambda>quota. txret (\<not> exceeded quota)))"

definition new_outbound ::
  "instant \<Rightarrow> uuid \<Rightarrow> uuid option \<Rightarrow> uuid option \<Rightarrow> string \<Rightarrow> string \<Rightarrow> string \<Rightarrow> string \<Rightarrow> outbound_state \<Rightarrow> outbound_message" where
  "new_outbound now i account ev key scope target body st =
     \<lparr>o_id = i, o_account_id = account, o_inbound_event_id = ev, o_idempotency_key = key, o_provider_scope = scope,
      o_provider_target = target, o_body = body, o_state = st, o_provider_message_id = None, o_attempt_count = 0,
      o_last_error_class = None, o_ambiguity_metadata = None, o_created_at = now, o_updated_at = now\<rparr>"

definition insert_outbound ::
  "ingress_env \<Rightarrow> outbound_message \<Rightarrow> ('z bot_db_scheme, ingress_effect_error, uuid option) tx" where
  "insert_outbound E m =
     fx E ''insert outbound'' (\<lambda>db.
       if \<not> (1 \<le> char_count (o_body m) \<and> char_count (o_body m) \<le> 2000) then Inl FxInvalidTransition
       else if exists_where (\<lambda>x. o_idempotency_key x = o_idempotency_key m) (outbound_messages db) then Inr (None, db)
       else if exists_where (\<lambda>x. o_id x = o_id m) (outbound_messages db) then Inl FxInvalidTransition
       else Inr (Some (o_id m), db\<lparr>outbound_messages := outbound_messages db @ [m]\<rparr>))"

definition outbound_request :: "bot_libs \<Rightarrow> ingress_env \<Rightarrow> uuid option \<Rightarrow> string \<Rightarrow> string \<Rightarrow> string \<Rightarrow> uuid \<Rightarrow> enqueue_request" where
  "outbound_request B E account scope target key oid =
     \<lparr>er_id = iv_ids E ''outbound_job'', er_job_type = ''outbound.deliver'',
      er_payload = JObject [(''schema_version'', JInt 1), (''outbound_id'', JString (show_uuid B oid))],
      er_dedupe_key = ''outbound.deliver:'' @ key,
      er_serialization_key = Some (case account of
         Some aid \<Rightarrow> ''account:'' @ show_uuid B aid | None \<Rightarrow> ''provider_chat:'' @ scope @ '':'' @ target),
      er_priority = 10, er_run_at = iv_clock E, er_max_attempts = 10\<rparr>"

definition enqueue_outbound_in_transaction ::
  "bot_libs \<Rightarrow> ingress_policy \<Rightarrow> ingress_env \<Rightarrow> instant \<Rightarrow> uuid option \<Rightarrow> uuid option \<Rightarrow> string \<Rightarrow> string \<Rightarrow> string \<Rightarrow> string \<Rightarrow>
   ('z bot_db_scheme, ingress_effect_error, unit) tx" where
  "enqueue_outbound_in_transaction B policy E observed_at account ev scope target body key =
     txbind (outbound_delivery_allowed B policy E observed_at account) (\<lambda>deliver.
     txbind (insert_outbound E (new_outbound (iv_now E) (iv_ids E ''outbound'') account ev key scope target body
       (if deliver then OQueued else OSuppressed))) (\<lambda>inserted.
     txbind (case inserted of
         Some i \<Rightarrow> txret i
       | None \<Rightarrow> fx E ''outbound id'' (\<lambda>db.
           case find_where (\<lambda>x. o_idempotency_key x = key) (outbound_messages db) of
             None \<Rightarrow> Inl FxInvalidTransition | Some m \<Rightarrow> Inr (o_id m, db))) (\<lambda>oid.
       if \<not> deliver then txret ()
       else txbind (tx_map_err (\<lambda>_. FxInvalidTransition) (enqueue_in_transaction (iv_fault E) (iv_now E)
              (outbound_request B E account scope target key oid))) (\<lambda>_. txret ()))))"

definition reply_key :: "ingress_request \<Rightarrow> string" where
  "reply_key r = ''reply:'' @ iq_provider_scope r @ '':'' @ iq_provider_event_id r"

definition enqueue_reply ::
  "bot_libs \<Rightarrow> ingress_policy \<Rightarrow> ingress_env \<Rightarrow> uuid \<Rightarrow> uuid option \<Rightarrow> ingress_request \<Rightarrow> string \<Rightarrow>
   ('z bot_db_scheme, ingress_effect_error, unit) tx" where
  "enqueue_reply B policy E ev account r body =
     enqueue_outbound_in_transaction B policy E (iq_observed_at r) account (Some ev) (iq_provider_scope r)
       (iq_provider_chat_id r) body (reply_key r)"

section \<open>All effects\<close>

definition fx_none :: "('s, ingress_effect_error, unit) tx \<Rightarrow> ('s, ingress_effect_error, string option) tx" where
  "fx_none m = txbind m (\<lambda>_. txret None)"

definition fx_receipt ::
  "bool \<Rightarrow> ('s, receipt_error, 'a) tx \<Rightarrow> ('s, ingress_effect_error, string option) tx" where
  "fx_receipt has_receipt m =
     (if \<not> has_receipt then txfail FxInvalidTransition else txbind (tx_map_err map_receipt_error m) (\<lambda>_. txret None))"

definition apply_effect ::
  "bot_libs \<Rightarrow> ingress_policy \<Rightarrow> bool \<Rightarrow> ingress_env \<Rightarrow> uuid \<Rightarrow> uuid \<Rightarrow> ingress_request \<Rightarrow> ingress_effect \<Rightarrow>
   ('z bot_db_scheme, ingress_effect_error, string option) tx" where
  "apply_effect B policy has_receipt E aid ev r effect =
     (let now = iv_now E; flt = iv_fault E; observed_at = iq_observed_at r in
      case effect of
        FxReadOnly \<Rightarrow> txret None
      | FxGrantConsent v \<Rightarrow> fx_none (apply_grant_consent E aid v)
      | FxCreateManual e a c d at v x t \<Rightarrow> fx_none (apply_create_manual B E aid e a c d at v x t)
      | FxConfirmExpense e v \<Rightarrow> fx_none (settle_expense E ''confirm expense'' ExpenseConfirmed aid e v)
      | FxRejectExpense e v \<Rightarrow> fx_none (settle_expense E ''reject expense'' ExpenseRejected aid e v)
      | FxSetPendingAction t p x v \<Rightarrow> fx_none (upsert_pending_action E aid t p x v)
      | FxClearPendingAction v \<Rightarrow> fx_none (apply_clear_pending E aid v)
      | FxAcceptReceipt s j e \<Rightarrow> apply_accept_receipt B policy has_receipt E aid ev observed_at s j e
      | FxConfirmReceipt s e v \<Rightarrow> fx_receipt has_receipt (confirm_in_transaction flt now
          \<lparr>cr_account_id = aid, cr_submission_id = s, cr_expected_draft_version = v, cr_expense_id = e\<rparr>)
      | FxRejectReceipt s v \<Rightarrow> fx_receipt has_receipt (reject_in_transaction flt now
          \<lparr>rr_account_id = aid, rr_submission_id = s, rr_expected_draft_version = v\<rparr>)
      | FxEditReceiptDraft s v a m k at t \<Rightarrow> fx_receipt has_receipt (edit_draft_in_transaction (bl_libs B) flt (iv_ids E)
          \<lparr>ed_account_id = aid, ed_submission_id = s, ed_expected_version = v, ed_amount_minor = a, ed_currency = None,
           ed_merchant = m, ed_category_key = k, ed_occurred_at = at, ed_transaction_type = t\<rparr>)
      | FxEditManualExpense e v a m k at t \<Rightarrow> fx_none (edit_manual_expense_in_transaction E aid e v a m k at t)
      | FxRecategorizeLatest k \<Rightarrow> fx_none (recategorize_latest_in_transaction E aid k)
      | FxSetLocale l \<Rightarrow> fx_none (apply_set_locale E aid l)
      | FxSetTimezone z \<Rightarrow> fx_none (apply_set_timezone B E aid observed_at z)
      | FxUpsertSchedule f m \<Rightarrow> fx_none (apply_upsert_schedule B E aid observed_at r f m)
      | FxDisableSchedule f \<Rightarrow> fx_none (apply_disable_schedule E aid f)
      | FxArmAccountDeletion x \<Rightarrow> fx_none (upsert_pending_action E aid ''account_deletion'' None x None)
      | FxConfirmAccountDeletion \<Rightarrow> fx_none (apply_confirm_deletion B E aid observed_at)
      | FxRequestAccountExport \<Rightarrow> fx_none (tx_map_err (\<lambda>_. FxInvalidTransition)
          (enqueue_export_in_transaction B flt now (iv_ids E ''export_job'') aid (iv_ids E ''export'') (iq_provider_scope r)
             (iq_provider_chat_id r) observed_at))
      | FxRecordInsightSnapshot k \<Rightarrow> txbind (apply_record_insight B policy E aid observed_at k) (\<lambda>body. txret (Some body)))"

text \<open>The loop over the effects; the last reply override wins.\<close>

fun apply_effects ::
  "bot_libs \<Rightarrow> ingress_policy \<Rightarrow> bool \<Rightarrow> ingress_env \<Rightarrow> uuid \<Rightarrow> uuid \<Rightarrow> ingress_request \<Rightarrow> ingress_effect list \<Rightarrow> string option \<Rightarrow>
   ('z bot_db_scheme, ingress_effect_error, string option) tx" where
  "apply_effects B policy has_receipt E aid ev r [] override = txret override"
| "apply_effects B policy has_receipt E aid ev r (f # fs) override =
     txbind (apply_effect B policy has_receipt E aid ev r f) (\<lambda>reply.
       apply_effects B policy has_receipt E aid ev r fs (if reply = None then override else reply))"

section \<open>One event\<close>

text \<open>Begin, body, commit; the body also says how the code reports a failing commit.\<close>

definition run_ingress ::
  "db_fault \<Rightarrow> ('s, ingress_error, string \<times> ingress_outcome) tx \<Rightarrow> 's \<Rightarrow> (ingress_error + ingress_outcome) \<times> 's" where
  "run_ingress flt m s =
     (if flt = FaultAt ''begin'' then (Inl (IngressError ''failed to begin transaction''), s)
      else case m s of
        Inl e \<Rightarrow> (Inl e, s)
      | Inr ((msg, oc), s') \<Rightarrow>
          if flt = FaultAt ''commit'' then (Inl (IngressError msg), s)
          else if flt = CommitAckLost then (Inl (IngressError msg), s')
          else (Inr oc, s'))"

definition lift_fx :: "('s, ingress_effect_error, 'a) tx \<Rightarrow> ('s, ingress_error, 'a) tx" where
  "lift_fx m = tx_map_err ingress_error_of m"

definition finalize_event :: "ingress_env \<Rightarrow> uuid \<Rightarrow> uuid option \<Rightarrow> ('z bot_db_scheme, ingress_error, unit) tx" where
  "finalize_event E ev account =
     stmt (iv_fault E) ''finalize event'' (IngressError ''failed to finalize inbound event'') (txwrite (\<lambda>db.
       db\<lparr>inbound_events := update_where (\<lambda>e. ie_id e = ev)
           (\<lambda>e. e\<lparr>ie_account_id := account, ie_processed_at := Some (iv_now E)\<rparr>) (inbound_events db)\<rparr>))"

definition process_accepted ::
  "bot_libs \<Rightarrow> ingress_policy \<Rightarrow> bool \<Rightarrow> (decision_context \<Rightarrow> ingress_effect_error + decision_output) \<Rightarrow> ingress_env \<Rightarrow>
   ingress_request \<Rightarrow> uuid \<Rightarrow> ('z bot_db_scheme, ingress_error, unit) tx" where
  "process_accepted B policy has_receipt decide_fn E r ev =
     txbind (if iq_sender_allowed r then txbind (lift_fx (resolve_or_create_account E r)) (\<lambda>aid. txret (Some aid))
             else txret None) (\<lambda>account.
     txbind (case account of
         Some aid \<Rightarrow> lift_fx (load_decision_context B E aid ev r (ip_per_user_daily_receipts policy))
       | None \<Rightarrow> txret (anonymous_context E ev r (ip_per_user_daily_receipts policy))) (\<lambda>ctx.
     txbind (case decide_fn ctx of Inl e \<Rightarrow> txfail (ingress_error_of e) | Inr d \<Rightarrow> txret d) (\<lambda>decision.
     txbind (case account of
         Some aid \<Rightarrow> lift_fx (apply_effects B policy has_receipt E aid ev r (do_effects decision) None)
       | None \<Rightarrow>
           if list_ex (\<lambda>f. f \<noteq> FxReadOnly) (do_effects decision)
           then txfail (IngressError ''domain effects require an allowed sender account'')
           else txret None) (\<lambda>override.
     txbind (case (if override = None then do_reply decision else override) of
         None \<Rightarrow> txret ()
       | Some body \<Rightarrow> lift_fx (enqueue_reply B policy E ev account r body)) (\<lambda>_.
       finalize_event E ev account)))))"

definition process_tx ::
  "bot_libs \<Rightarrow> ingress_policy \<Rightarrow> bool \<Rightarrow> (decision_context \<Rightarrow> ingress_effect_error + decision_output) \<Rightarrow> ingress_env \<Rightarrow>
   ingress_request \<Rightarrow> ingress_observation \<Rightarrow> ('z bot_db_scheme, ingress_error, string \<times> ingress_outcome) tx" where
  "process_tx B policy has_receipt decide_fn E r ob =
     txbind (stmt (iv_fault E) ''read mode'' (IngressError ''failed to read ingress mode'') (txread ingress_mode)) (\<lambda>mode.
       if mode \<noteq> ingress_source_as_str (iq_source r) then
         txbind (insert_observed_event E r ob EvRejected) (\<lambda>oc.
           case oc of
             InDuplicate i \<Rightarrow> txret (''failed to commit duplicate'', InDuplicate i)
           | InAccepted i \<Rightarrow> txret (''failed to commit mode rejection'', InModeRejected i)
           | InModeRejected i \<Rightarrow> txret (''failed to commit mode rejection'', InModeRejected i))
       else
         txbind (insert_observed_event E r ob EvAccepted) (\<lambda>oc.
           case oc of
             InDuplicate i \<Rightarrow> txret (''failed to commit duplicate'', InDuplicate i)
           | InModeRejected i \<Rightarrow> txfail (IngressError ''unexpected mode rejection on accepted path'')
           | InAccepted ev \<Rightarrow>
               txbind (process_accepted B policy has_receipt decide_fn E r ev) (\<lambda>_.
                 txret (''failed to commit ingress transaction'', InAccepted ev))))"

definition process ::
  "bot_libs \<Rightarrow> ingress_policy \<Rightarrow> bool \<Rightarrow> (decision_context \<Rightarrow> ingress_effect_error + decision_output) \<Rightarrow> ingress_env \<Rightarrow>
   ingress_request \<Rightarrow> ingress_observation \<Rightarrow> 'z bot_db_scheme \<Rightarrow> (ingress_error + ingress_outcome) \<times> 'z bot_db_scheme" where
  "process B policy has_receipt decide_fn E r ob =
     run_ingress (iv_fault E) (process_tx B policy has_receipt decide_fn E r ob)"

definition process_text_command ::
  "bot_libs \<Rightarrow> ingress_policy \<Rightarrow> bool \<Rightarrow> ingress_env \<Rightarrow> ingress_request \<Rightarrow> 'z bot_db_scheme \<Rightarrow>
   (ingress_error + ingress_outcome) \<times> 'z bot_db_scheme" where
  "process_text_command B policy has_receipt E r =
     process B policy has_receipt (decide_text_and_map (bl_chat B)) E r observation_default"

definition process_image ::
  "bot_libs \<Rightarrow> ingress_policy \<Rightarrow> bool \<Rightarrow> ingress_env \<Rightarrow> ingress_request \<Rightarrow> string \<Rightarrow> 'z bot_db_scheme \<Rightarrow>
   (ingress_error + ingress_outcome) \<times> 'z bot_db_scheme" where
  "process_image B policy has_receipt E r media_url db =
     (if \<not> has_receipt then (Inl (IngressError ''receipt lifecycle is required for images''), db)
      else process B policy has_receipt (decide_image_and_map (bl_chat B)) E r
             \<lparr>io_event_kind = ImageReceived, io_media_url = Some media_url\<rparr> db)"

end
