(* ===== verification/Ingress_Proofs.thy ===== *)
theory Ingress_Proofs
  imports Ingress_Effects
begin

text \<open>
  What one event may touch. \<open>others\<close> is the database without the rows of the sender's account;
  every statement of the ingress keeps it, and keeps the event rows and the primary keys. The
  isolation of accounts and the deduplication of events rest on these lemmas.
\<close>

section \<open>The rows of the other accounts\<close>

record tenants =
  tv_accounts :: "account list"
  tv_expenses :: "expense list"
  tv_submissions :: "submission list"
  tv_assets :: "asset list"
  tv_drafts :: "draft list"
  tv_extractions :: "extraction_attempt list"
  tv_counters :: "usage_counter list"
  tv_identities :: "provider_identity list"
  tv_conversations :: "conversation_state list"
  tv_schedules :: "summary_schedule list"
  tv_deletions :: "deletion_request list"
  tv_exports :: "export_artifact list"
  tv_snapshots :: "insight_snapshot list"
  tv_outbound :: "outbound_message list"
  tv_jobs :: "job list"

text \<open>The queue keys a sender's event may use; a sender with no account has only the chat's.\<close>

definition own_keys :: "bot_libs \<Rightarrow> ingress_request \<Rightarrow> uuid option \<Rightarrow> string list" where
  "own_keys B r who =
     (case who of
        None \<Rightarrow> [''provider_chat:'' @ iq_provider_scope r @ '':'' @ iq_provider_chat_id r]
      | Some aid \<Rightarrow> [account_serialization_key (bl_libs B) aid, receipt_serialization_key (bl_libs B) aid])"

definition own_counter :: "bot_libs \<Rightarrow> uuid option \<Rightarrow> usage_counter \<Rightarrow> bool" where
  "own_counter B who u \<longleftrightarrow> uc_scope u = ''account'' \<and> Some (uc_scope_id u) = map_option (show_uuid B) who"

definition own_job :: "bot_libs \<Rightarrow> ingress_request \<Rightarrow> uuid option \<Rightarrow> job \<Rightarrow> bool" where
  "own_job B r who j \<longleftrightarrow> j_serialization_key j \<in> Some ` set (own_keys B r who)"

definition others :: "bot_libs \<Rightarrow> ingress_request \<Rightarrow> uuid option \<Rightarrow> 'z bot_db_scheme \<Rightarrow> tenants" where
  "others B r who db =
     \<lparr>tv_accounts = filter (\<lambda>a. Some (ac_id a) \<noteq> who) (accounts db),
      tv_expenses = filter (\<lambda>e. Some (e_account_id e) \<noteq> who) (expenses db),
      tv_submissions = filter (\<lambda>s. Some (s_account_id s) \<noteq> who) (submissions db),
      tv_assets = assets db,
      tv_drafts = filter (\<lambda>d. Some (d_account_id d) \<noteq> who) (drafts db),
      tv_extractions = extraction_attempts db,
      tv_counters = filter (\<lambda>u. \<not> own_counter B who u) (usage_counters db),
      tv_identities = filter (\<lambda>p. Some (pi_account_id p) \<noteq> who) (provider_identities db),
      tv_conversations = filter (\<lambda>c. Some (cs_account_id c) \<noteq> who) (conversation_states db),
      tv_schedules = filter (\<lambda>s. Some (ss_account_id s) \<noteq> who) (summary_schedules db),
      tv_deletions = filter (\<lambda>q. Some (dq_account_id q) \<noteq> who) (deletion_requests db),
      tv_exports = export_artifacts db,
      tv_snapshots = filter (\<lambda>s. Some (is_account_id s) \<noteq> who) (insight_snapshots db),
      tv_outbound = filter (\<lambda>m. o_account_id m \<noteq> who) (outbound_messages db),
      tv_jobs = filter (\<lambda>j. \<not> own_job B r who j) (jobs db)\<rparr>"

text \<open>The primary keys by which a statement addresses a row without naming its account.\<close>

definition keys_ok :: "'z bot_db_scheme \<Rightarrow> bool" where
  "keys_ok db \<longleftrightarrow> distinct (map d_id (drafts db)) \<and> distinct (map ss_id (summary_schedules db))"

definition apart ::
  "bot_libs \<Rightarrow> ingress_request \<Rightarrow> uuid option \<Rightarrow> tenants \<Rightarrow> inbound_event list \<Rightarrow> 'z bot_db_scheme \<Rightarrow> bool" where
  "apart B r who v evs db \<longleftrightarrow> others B r who db = v \<and> inbound_events db = evs \<and> keys_ok db"

section \<open>Statements\<close>

named_theorems apart_intros \<open>statements that keep the rows of the other accounts\<close>

lemma filter_update_where:
  "(\<And>x. x \<in> set t \<Longrightarrow> p x \<Longrightarrow> \<not> q x \<and> \<not> q (f x)) \<Longrightarrow> filter q (update_where p f t) = filter q t"
  by (induction t) (auto simp: update_where_def)

lemma tx_keeps_map_err [apart_intros]: "tx_keeps P m \<Longrightarrow> tx_keeps P (tx_map_err h m)"
  by (auto simp: tx_keeps_def tx_simps)

lemma tx_keeps_fx [apart_intros]: "tx_keeps P m \<Longrightarrow> tx_keeps P (fx E l m)"
  by (simp add: fx_def tx_keeps_stmt)

lemma tx_keeps_schedule [apart_intros]: "tx_keeps P (tx_schedule e panic m)"
  by (auto simp: tx_schedule_def split: run.split sum.split)

lemma tx_keeps_write: "(\<And>s. P s \<Longrightarrow> P (f s)) \<Longrightarrow> tx_keeps P (txwrite f)"
  by (auto simp: tx_keeps_def)

lemma tx_keeps_update: "(\<And>s. P s \<Longrightarrow> hit s \<Longrightarrow> P (f s)) \<Longrightarrow> tx_keeps P (fx_update E l hit fails f none)"
  by (auto simp: fx_update_def fx_def tx_keeps_def tx_simps split: if_splits)

lemma tx_keeps_column [apart_intros]: "tx_keeps P (fx_account_column E l aid f)"
  by (auto simp: fx_account_column_def fx_def tx_keeps_def tx_simps split: option.splits)

lemmas [apart_intros] = tx_keeps_basic tx_keeps_bind tx_keeps_stmt

section \<open>Tables\<close>

text \<open>
  A statement that rewrites one table keeps \<open>apart\<close> when it keeps the other accounts' rows of that table; only
  the drafts and the schedules have keys to keep.
\<close>

lemma apart_accounts:
  "apart B r who v evs db \<Longrightarrow> filter (\<lambda>a. Some (ac_id a) \<noteq> who) t = filter (\<lambda>a. Some (ac_id a) \<noteq> who) (accounts db) \<Longrightarrow>
   apart B r who v evs (db\<lparr>accounts := t\<rparr>)"
  by (simp add: apart_def others_def keys_ok_def)

lemma apart_expenses:
  "apart B r who v evs db \<Longrightarrow>
   filter (\<lambda>e. Some (e_account_id e) \<noteq> who) t = filter (\<lambda>e. Some (e_account_id e) \<noteq> who) (expenses db) \<Longrightarrow>
   apart B r who v evs (db\<lparr>expenses := t\<rparr>)"
  by (simp add: apart_def others_def keys_ok_def)

lemma apart_submissions:
  "apart B r who v evs db \<Longrightarrow>
   filter (\<lambda>s. Some (s_account_id s) \<noteq> who) t = filter (\<lambda>s. Some (s_account_id s) \<noteq> who) (submissions db) \<Longrightarrow>
   apart B r who v evs (db\<lparr>submissions := t\<rparr>)"
  by (simp add: apart_def others_def keys_ok_def)

lemma apart_drafts:
  "apart B r who v evs db \<Longrightarrow>
   filter (\<lambda>d. Some (d_account_id d) \<noteq> who) t = filter (\<lambda>d. Some (d_account_id d) \<noteq> who) (drafts db) \<Longrightarrow>
   map d_id t = map d_id (drafts db) \<Longrightarrow> apart B r who v evs (db\<lparr>drafts := t\<rparr>)"
  by (simp add: apart_def others_def keys_ok_def)

lemma apart_corrections: "apart B r who v evs db \<Longrightarrow> apart B r who v evs (db\<lparr>corrections := t\<rparr>)"
  by (simp add: apart_def others_def keys_ok_def)

lemma apart_identities:
  "apart B r who v evs db \<Longrightarrow>
   filter (\<lambda>p. Some (pi_account_id p) \<noteq> who) t = filter (\<lambda>p. Some (pi_account_id p) \<noteq> who) (provider_identities db) \<Longrightarrow>
   apart B r who v evs (db\<lparr>provider_identities := t\<rparr>)"
  by (simp add: apart_def others_def keys_ok_def)

lemma apart_conversations:
  "apart B r who v evs db \<Longrightarrow>
   filter (\<lambda>c. Some (cs_account_id c) \<noteq> who) t = filter (\<lambda>c. Some (cs_account_id c) \<noteq> who) (conversation_states db) \<Longrightarrow>
   apart B r who v evs (db\<lparr>conversation_states := t\<rparr>)"
  by (simp add: apart_def others_def keys_ok_def)

lemma apart_schedules:
  "apart B r who v evs db \<Longrightarrow>
   filter (\<lambda>s. Some (ss_account_id s) \<noteq> who) t = filter (\<lambda>s. Some (ss_account_id s) \<noteq> who) (summary_schedules db) \<Longrightarrow>
   distinct (map ss_id t) \<Longrightarrow> apart B r who v evs (db\<lparr>summary_schedules := t\<rparr>)"
  by (simp add: apart_def others_def keys_ok_def)

lemma apart_deletions:
  "apart B r who v evs db \<Longrightarrow>
   filter (\<lambda>q. Some (dq_account_id q) \<noteq> who) t = filter (\<lambda>q. Some (dq_account_id q) \<noteq> who) (deletion_requests db) \<Longrightarrow>
   apart B r who v evs (db\<lparr>deletion_requests := t\<rparr>)"
  by (simp add: apart_def others_def keys_ok_def)

lemma apart_snapshots:
  "apart B r who v evs db \<Longrightarrow>
   filter (\<lambda>s. Some (is_account_id s) \<noteq> who) t = filter (\<lambda>s. Some (is_account_id s) \<noteq> who) (insight_snapshots db) \<Longrightarrow>
   apart B r who v evs (db\<lparr>insight_snapshots := t\<rparr>)"
  by (simp add: apart_def others_def keys_ok_def)

lemma apart_outbound:
  "apart B r who v evs db \<Longrightarrow>
   filter (\<lambda>m. o_account_id m \<noteq> who) t = filter (\<lambda>m. o_account_id m \<noteq> who) (outbound_messages db) \<Longrightarrow>
   apart B r who v evs (db\<lparr>outbound_messages := t\<rparr>)"
  by (simp add: apart_def others_def keys_ok_def)

lemma apart_counters:
  "apart B r who v evs db \<Longrightarrow>
   filter (\<lambda>u. \<not> own_counter B who u) t = filter (\<lambda>u. \<not> own_counter B who u) (usage_counters db) \<Longrightarrow>
   apart B r who v evs (db\<lparr>usage_counters := t\<rparr>)"
  by (simp add: apart_def others_def keys_ok_def)

lemma apart_jobs:
  "apart B r who v evs db \<Longrightarrow>
   filter (\<lambda>j. \<not> own_job B r who j) t = filter (\<lambda>j. \<not> own_job B r who j) (jobs db) \<Longrightarrow>
   apart B r who v evs (db\<lparr>jobs := t\<rparr>)"
  by (simp add: apart_def others_def keys_ok_def)

lemma apart_schedule_ids: "apart B r who v evs db \<Longrightarrow> distinct (map ss_id (summary_schedules db))"
  by (simp add: apart_def keys_ok_def)

lemma apart_draft_ids: "apart B r who v evs db \<Longrightarrow> distinct (map d_id (drafts db))"
  by (simp add: apart_def keys_ok_def)

lemmas apart_tables = apart_accounts apart_expenses apart_submissions apart_drafts apart_corrections apart_identities
  apart_conversations apart_schedules apart_deletions apart_snapshots apart_outbound apart_jobs

section \<open>Counters and jobs\<close>

lemma increment_apart [apart_intros]:
  "tx_keeps (apart B r (Some aid) v evs) (increment_in_transaction flt now ''account'' (show_uuid B aid) period metric limit)"
  by (auto simp: tx_keeps_def increment_in_transaction_def tx_simps own_counter_def counter_is_def
      split: if_splits option.splits intro!: apart_counters filter_update_where)

lemma remaining_apart [apart_intros]:
  "tx_keeps P (remaining_in_transaction flt scope scope_id period metric limit)"
  by (auto simp: tx_keeps_def remaining_in_transaction_def tx_simps)

lemma enqueue_apart [apart_intros]:
  "er_serialization_key q \<in> Some ` set (own_keys B r who) \<Longrightarrow>
   tx_keeps (apart B r who v evs) (enqueue_in_transaction flt now q)"
  by (auto simp: tx_keeps_def enqueue_in_transaction_def tx_simps own_job_def new_job_def
      split: if_splits sum.splits intro!: apart_jobs)

lemma own_keys_Some [simp]:
  "account_serialization_key (bl_libs B) aid \<in> set (own_keys B r (Some aid))"
  "receipt_serialization_key (bl_libs B) aid \<in> set (own_keys B r (Some aid))"
  by (simp_all add: own_keys_def)

lemma cancel_queued_apart [apart_intros]:
  "k \<in> set (own_keys B r who) \<Longrightarrow>
   tx_keeps (apart B r who v evs) (cancel_queued_by_serialization_key_in_transaction flt now k)"
  by (auto simp: tx_keeps_def cancel_queued_by_serialization_key_in_transaction_def tx_simps own_job_def cancel_job_def Let_def
      intro!: apart_jobs filter_update_where)

section \<open>Effects on the account and on manual expenses\<close>

lemma grant_consent_apart [apart_intros]: "tx_keeps (apart B r (Some aid) v evs) (apply_grant_consent E aid version)"
  by (auto simp: apply_grant_consent_def Let_def intro!: tx_keeps_update apart_accounts filter_update_where)

lemma update_pending_apart [apart_intros]:
  "tx_keeps (apart B r (Some aid) v evs) (update_pending E l aid ver action payload expires)"
  by (auto simp: update_pending_def Let_def armed_state_def intro!: tx_keeps_update apart_conversations filter_update_where)

lemma insert_pending_apart [apart_intros]:
  "cs_account_id c = aid \<Longrightarrow> tx_keeps (apart B r (Some aid) v evs) (\<lambda>db. if p db then Inr (False, db) else if q then Inl e
     else Inr (True, db\<lparr>conversation_states := conversation_states db @ [c]\<rparr>))"
  by (auto simp: tx_keeps_def split: if_splits intro!: apart_conversations)

lemma tx_keeps_lookup [apart_intros]: "tx_keeps P (\<lambda>db. case f db of None \<Rightarrow> Inl e | Some a \<Rightarrow> Inr (g a, db))"
  by (auto simp: tx_keeps_def split: option.splits)

lemma upsert_pending_apart [apart_intros]:
  "tx_keeps (apart B r (Some aid) v evs) (upsert_pending_action E aid action payload expires expected)"
  by (auto simp: upsert_pending_action_def intro!: apart_intros split: option.split)

lemma clear_pending_apart [apart_intros]: "tx_keeps (apart B r (Some aid) v evs) (apply_clear_pending E aid ver)"
  by (auto simp: apply_clear_pending_def Let_def cleared_state_def intro!: tx_keeps_update apart_conversations filter_update_where)

lemma set_locale_apart [apart_intros]: "tx_keeps (apart B r (Some aid) v evs) (apply_set_locale E aid loc)"
  by (auto simp: apply_set_locale_def Let_def intro!: tx_keeps_update apart_accounts filter_update_where)

lemma create_manual_apart [apart_intros]:
  "tx_keeps (apart B r (Some aid) v evs) (apply_create_manual B E aid eid amount currency description occurred ver expires action)"
  unfolding apply_create_manual_def
  by (intro apart_intros) (auto simp: tx_keeps_def manual_expense_def split: if_splits intro!: apart_expenses)

lemma settle_apart [apart_intros]: "tx_keeps (apart B r (Some aid) v evs) (settle_expense E l st aid eid ver)"
  by (auto simp: settle_expense_def open_expense_def intro!: tx_keeps_update apart_expenses filter_update_where)

lemma edit_manual_apart [apart_intros]:
  "tx_keeps (apart B r (Some aid) v evs) (edit_manual_expense_in_transaction E aid eid ver amount merchant category occurred type)"
  unfolding edit_manual_expense_in_transaction_def Let_def
  by (auto simp: open_expense_def intro!: apart_intros tx_keeps_update apart_expenses filter_update_where split: option.split)

lemma recategorize_apart [apart_intros]:
  "tx_keeps (apart B r (Some aid) v evs) (recategorize_latest_in_transaction E aid key)"
  unfolding recategorize_latest_in_transaction_def
  by (auto simp: map_update_where intro!: apart_intros tx_keeps_update tx_keeps_write apart_expenses apart_drafts
      filter_update_where split: option.split list.split)


section \<open>Schedules\<close>

lemma next_run_keeps [apart_intros]: "tx_keeps P (next_run B now timezone frequency minute)"
  by (auto simp: next_run_def intro!: apart_intros split: option.split)

text \<open>A schedule addressed by its id is the account's own row.\<close>

lemma schedule_update_apart:
  assumes "apart B r (Some aid) v evs db" "s \<in> set (summary_schedules db)" "ss_account_id s = aid"
    "\<And>x. ss_id (f x) = ss_id x \<and> ss_account_id (f x) = ss_account_id x"
  shows "apart B r (Some aid) v evs (db\<lparr>summary_schedules := update_where (\<lambda>x. ss_id x = ss_id s) f (summary_schedules db)\<rparr>)"
proof (rule apart_schedules [OF assms(1)])
  have "ss_account_id x = aid" if "x \<in> set (summary_schedules db)" "ss_id x = ss_id s" for x
    using distinct_key_eq [OF apart_schedule_ids [OF assms(1)] that(1) assms(2) that(2)] assms(3) by simp
  with assms(4) show "filter (\<lambda>s. Some (ss_account_id s) \<noteq> Some aid) (update_where (\<lambda>x. ss_id x = ss_id s) f (summary_schedules db))
      = filter (\<lambda>s. Some (ss_account_id s) \<noteq> Some aid) (summary_schedules db)"
    by (intro filter_update_where) auto
  show "distinct (map ss_id (update_where (\<lambda>x. ss_id x = ss_id s) f (summary_schedules db)))"
    using apart_schedule_ids [OF assms(1)] assms(4) by (simp add: map_update_where)
qed

lemma recompute_runs_apart:
  "recompute_runs B' E now timezone rows db = Inr (a, db') \<Longrightarrow> apart B r (Some aid) v evs db \<Longrightarrow>
   \<forall>s \<in> set rows. (ss_id s, aid) \<in> set (map (\<lambda>x. (ss_id x, ss_account_id x)) (summary_schedules db)) \<Longrightarrow>
   apart B r (Some aid) v evs db'"
proof (induction rows arbitrary: db a)
  case (Cons s rows)
  from Cons.prems(3) obtain s0 where s0: "s0 \<in> set (summary_schedules db)" "ss_account_id s0 = aid" "ss_id s0 = ss_id s"
    by force
  from Cons.prems(1) obtain t d1 a1 where t: "next_run B' now timezone (ss_frequency s) (ss_delivery_minute s) db = Inr (t, d1)"
    and rest: "recompute_runs B' E now timezone rows (d1\<lparr>summary_schedules := update_where (\<lambda>x. ss_id x = ss_id s)
       (\<lambda>x. x\<lparr>ss_next_run_at := t\<rparr>) (summary_schedules d1)\<rparr>) = Inr (a, db')"
    by (auto simp: fx_def tx_simps)
  have "d1 = db" using tx_keepsD [OF next_run_keeps [of "\<lambda>d. d = db"] t] by simp
  let ?d = "db\<lparr>summary_schedules := update_where (\<lambda>x. ss_id x = ss_id s0) (\<lambda>x. x\<lparr>ss_next_run_at := t\<rparr>) (summary_schedules db)\<rparr>"
  have ap: "apart B r (Some aid) v evs ?d" by (rule schedule_update_apart [OF Cons.prems(2) s0(1,2)]) simp
  have ids: "map (\<lambda>x. (ss_id x, ss_account_id x)) (summary_schedules ?d) = map (\<lambda>x. (ss_id x, ss_account_id x)) (summary_schedules db)"
    by (simp add: map_update_where)
  show ?case
    using Cons.IH [OF rest [unfolded \<open>d1 = db\<close> s0(3) [symmetric]] ap] Cons.prems(3) unfolding ids by simp
qed simp

lemma recompute_apart [apart_intros]:
  "tx_keeps (apart B r (Some aid) v evs) (recompute_account_schedule_runs B' E aid now)"
proof (rule tx_keepsI)
  fix db a db'
  assume ap: "apart B r (Some aid) v evs db" and run: "recompute_account_schedule_runs B' E aid now db = Inr (a, db')"
  from run obtain timezone where "recompute_runs B' E now timezone
      (filter (\<lambda>s. ss_account_id s = aid \<and> ss_enabled s) (summary_schedules db)) db = Inr (a, db')"
    by (auto simp: recompute_account_schedule_runs_def fx_account_column_def fx_def tx_simps split: option.splits)
  then show "apart B r (Some aid) v evs db'" by (rule recompute_runs_apart [OF _ ap]) auto
qed

lemma set_timezone_apart [apart_intros]:
  "tx_keeps (apart B r (Some aid) v evs) (apply_set_timezone B' E aid observed_at iana)"
  unfolding apply_set_timezone_def
  by (auto intro!: apart_intros tx_keeps_update apart_accounts filter_update_where)

lemma upsert_schedule_row_apart [apart_intros]:
  assumes "ss_account_id s = aid" "ss_id s = i" "\<And>x. ss_account_id (f x) = ss_account_id x \<and> ss_id (f x) = ss_id x"
  shows "tx_keeps (apart B r (Some aid) v evs) (\<lambda>db. if bad then Inl e
      else if exists_where (same_schedule aid frequency) (summary_schedules db)
      then Inr ((), db\<lparr>summary_schedules := update_where (same_schedule aid frequency) f (summary_schedules db)\<rparr>)
      else if exists_where (\<lambda>s. ss_id s = i) (summary_schedules db) then Inl e
      else Inr ((), db\<lparr>summary_schedules := summary_schedules db @ [s]\<rparr>))"
  using assms
  by (auto simp: tx_keeps_def same_schedule_def exists_where_iff map_update_where apart_schedule_ids
      intro!: apart_schedules filter_update_where split: if_splits) blast

lemma upsert_schedule_apart [apart_intros]:
  "tx_keeps (apart B r (Some aid) v evs) (apply_upsert_schedule B' E aid observed_at q frequency minute)"
  unfolding apply_upsert_schedule_def by (auto intro!: apart_intros)

lemma disable_schedule_apart [apart_intros]:
  "tx_keeps (apart B r (Some aid) v evs) (apply_disable_schedule E aid frequency)"
  unfolding apply_disable_schedule_def
  by (auto simp: map_update_where apart_schedule_ids intro!: apart_intros tx_keeps_write apart_schedules filter_update_where)

section \<open>Deletion, export and insights\<close>

lemma enqueue_delete_apart [apart_intros]:
  "tx_keeps (apart B r (Some aid) v evs) (enqueue_delete_in_transaction B flt now jid aid request_id run_at)"
  unfolding enqueue_delete_in_transaction_def by (auto intro!: apart_intros)

lemma enqueue_export_apart [apart_intros]:
  "tx_keeps (apart B r (Some aid) v evs) (enqueue_export_in_transaction B flt now jid aid xid scope chat run_at)"
  unfolding enqueue_export_in_transaction_def by (auto intro!: apart_intros)

lemma request_deletion_apart: "apart B r (Some aid) v evs db \<Longrightarrow> apart B r (Some aid) v evs (request_deletion E aid n db)"
  by (auto simp: request_deletion_def intro!: apart_deletions filter_update_where split: option.split)

lemma confirm_deletion_apart [apart_intros]:
  "tx_keeps (apart B r (Some aid) v evs) (apply_confirm_deletion B E aid observed_at)"
  unfolding apply_confirm_deletion_def Let_def
proof (intro apart_intros)
  show "tx_keeps (apart B r (Some aid) v evs) (fx_update E l (\<lambda>db. exists_where (\<lambda>a. ac_id a = aid \<and> p a) (accounts db)) c
      (\<lambda>db. db\<lparr>accounts := update_where (\<lambda>a. ac_id a = aid \<and> p a) (\<lambda>a. a\<lparr>ac_lifecycle_state := Deleting, ac_updated_at := t\<rparr>)
         (accounts db)\<rparr>) e)" for l p c t e
    by (auto intro!: tx_keeps_update apart_accounts filter_update_where)
qed (auto simp: tx_keeps_def cleared_state_def split: if_splits intro!: request_deletion_apart apart_conversations filter_update_where)

lemma compute_aggregate_keeps [apart_intros]: "tx_keeps P (compute_aggregate B flt aid start stop fallback)"
  by (auto simp: tx_keeps_def compute_aggregate_def tx_simps Let_def split: option.splits if_splits)

lemma upsert_snapshot_apart [apart_intros]:
  "tx_keeps (apart B r (Some aid) v evs) (upsert_snapshot flt i aid kind start stop timezone aggregate)"
  by (auto simp: tx_keeps_def upsert_snapshot_def tx_simps same_snapshot_def refreshed_snapshot_def Let_def
      intro!: apart_snapshots filter_update_where split: option.splits if_splits)

lemma enqueue_narrate_apart [apart_intros]:
  "tx_keeps (apart B r (Some aid) v evs) (enqueue_narrate_in_transaction B flt now jid aid sid aggregate run_at)"
  unfolding enqueue_narrate_in_transaction_def Let_def by (auto intro!: apart_intros)

lemma record_snapshot_apart [apart_intros]:
  "tx_keeps (apart B r (Some aid) v evs) (record_snapshot_in_transaction B policy flt now ids aid kind observed_at timezone fallback)"
  unfolding record_snapshot_in_transaction_def by (auto intro!: apart_intros split: prod.split)

lemma record_insight_apart [apart_intros]:
  "tx_keeps (apart B r (Some aid) v evs) (apply_record_insight B policy E aid observed_at kind_text)"
  unfolding apply_record_insight_def by (auto intro!: apart_intros split: option.split prod.split)


section \<open>Receipts\<close>

lemma submission_reads_keep [apart_intros]:
  "tx_keeps P (account_is_active_in_tx flt aid)" "tx_keeps P (load_submission_tuple_for_update flt sid who)"
  "tx_keeps P (load_submission_tuple_by_inbound_event flt ev)" "tx_keeps P (load_existing_submission flt sid eo)"
  "tx_keeps P (load_submission_for_update flt sid aid)" "tx_keeps P (load_draft_for_update flt sid aid)"
  "tx_keeps P (lookup_confirmed_expense_id flt sid)" "tx_keeps P (ensure_category flt k)"
  by (auto simp: tx_keeps_def tx_simps account_is_active_in_tx_def load_submission_tuple_for_update_def
      load_submission_tuple_by_inbound_event_def load_existing_submission_def load_submission_for_update_def
      load_draft_for_update_def lookup_confirmed_expense_id_def ensure_category_def split: option.splits if_splits)

lemma insert_submission_apart [apart_intros]:
  "tx_keeps (apart B r (Some aid) v evs) (insert_submission flt now sid aid eo)"
  by (auto simp: tx_keeps_def insert_submission_def tx_simps new_submission_def intro!: apart_submissions split: if_splits)

lemma transition_apart [apart_intros]:
  "tx_keeps (apart B r (Some aid) v evs) (transition_state flt now sid aid from to cls hours eid dup)"
  by (auto simp: tx_keeps_def transition_state_def tx_simps moved_submission_def Let_def
      intro!: apart_submissions filter_update_where split: if_splits)

text \<open>The second statement of an enqueue addresses the job just inserted.\<close>

lemma enqueue_receipt_job_apart [apart_intros]:
  "tx_keeps (apart B r (Some aid) v evs) (enqueue_receipt_job (bl_libs B) flt now jid jt sid aid)"
proof (rule tx_keepsI)
  fix db oc db'
  assume ap: "apart B r (Some aid) v evs db" and run: "enqueue_receipt_job (bl_libs B) flt now jid jt sid aid db = Inr (oc, db')"
  then show "apart B r (Some aid) v evs db'"
    by (auto simp: enqueue_receipt_job_def enqueue_in_transaction_def tx_simps new_job_def own_job_def exists_where_iff update_where_def
        intro!: apart_jobs filter_update_where [unfolded update_where_def] split: if_splits sum.splits)
qed

lemma finish_accept_apart [apart_intros]:
  "tx_keeps (apart B r (Some aid) v evs) (finish_accept_in_transaction (bl_libs B) flt now sid aid jid)"
  unfolding finish_accept_in_transaction_def by (auto intro!: apart_intros split: prod.split)

lemma accept_apart [apart_intros]:
  "as_account_id q = aid \<Longrightarrow> tx_keeps (apart B r (Some aid) v evs) (accept_submission_in_transaction (bl_libs B) flt now q)"
  unfolding accept_submission_in_transaction_def by (auto intro!: apart_intros split: option.split prod.split)

lemma insert_confirmed_apart [apart_intros]:
  "tx_keeps (apart B r (Some aid) v evs) (insert_confirmed_expense flt now eid aid sid d)"
  by (auto simp: tx_keeps_def insert_confirmed_expense_def tx_simps confirmed_expense_def intro!: apart_expenses split: if_splits)

lemma confirm_apart [apart_intros]:
  "cr_account_id q = aid \<Longrightarrow> tx_keeps (apart B r (Some aid) v evs) (confirm_in_transaction flt now q)"
  unfolding confirm_in_transaction_def by (auto intro!: apart_intros split: prod.split option.split)

lemma reject_apart [apart_intros]:
  "rr_account_id q = aid \<Longrightarrow> tx_keeps (apart B r (Some aid) v evs) (reject_in_transaction flt now q)"
  unfolding reject_in_transaction_def by (auto intro!: apart_intros split: prod.split option.split)

text \<open>Up to its last statement an edit writes corrections only, and the row it then addresses by id is the account's draft.\<close>

definition own_draft :: "uuid \<Rightarrow> uuid \<Rightarrow> 'z bot_db_scheme \<Rightarrow> bool" where
  "own_draft aid did db \<longleftrightarrow> (\<exists>d \<in> set (drafts db). d_id d = did \<and> d_account_id d = aid)"

abbreviation editing :: "bot_libs \<Rightarrow> ingress_request \<Rightarrow> uuid \<Rightarrow> tenants \<Rightarrow> inbound_event list \<Rightarrow> uuid \<Rightarrow> 'z bot_db_scheme \<Rightarrow> bool" where
  "editing B r aid v evs did db \<equiv> apart B r (Some aid) v evs db \<and> own_draft aid did db"

text \<open>A statement sequence from states with \<open>P\<close> ends with a result and a state related by \<open>Q\<close>.\<close>

definition tx_gives :: "('s \<Rightarrow> bool) \<Rightarrow> ('s, 'e, 'a) tx \<Rightarrow> ('a \<Rightarrow> 's \<Rightarrow> bool) \<Rightarrow> bool" where
  "tx_gives P m Q \<longleftrightarrow> (\<forall>s a s'. P s \<longrightarrow> m s = Inr (a, s') \<longrightarrow> Q a s')"

lemma tx_gives_bind: "tx_gives P m Q \<Longrightarrow> (\<And>a. tx_gives (Q a) (f a) R) \<Longrightarrow> tx_gives P (txbind m f) R"
  unfolding tx_gives_def txbind_Inr by blast

lemma tx_gives_keeps: "tx_keeps P m \<Longrightarrow> tx_gives P m (\<lambda>_. P)"
  unfolding tx_gives_def tx_keeps_def by blast

lemma tx_gives_fail: "tx_gives P (txfail e) Q"
  by (simp add: tx_gives_def)

lemma edit_field_editing:
  "(\<And>x y. d_id (sf x y) = d_id y) \<Longrightarrow>
   tx_gives (editing B r aid v evs (d_id nxt)) (edit_field flt ids d sid f sh old new sf nxt) (\<lambda>n. editing B r aid v evs (d_id n))"
  by (auto simp: tx_gives_def edit_field_def record_correction_def tx_simps own_draft_def intro!: apart_corrections
      split: option.splits if_splits)

lemma update_draft_editing:
  "tx_gives (editing B r aid v evs (d_id d)) (txbind (update_draft flt (d\<lparr>d_version := ver\<rparr>)) (\<lambda>_. txret x))
     (\<lambda>_. apart B r (Some aid) v evs)"
  by (auto simp: tx_gives_def update_draft_def ensure_category_def tx_simps Let_def own_draft_def map_update_where
      dest: distinct_key_eq [OF apart_draft_ids] intro!: apart_drafts filter_update_where split: if_splits)

lemma load_draft_editing:
  "tx_gives (apart B r (Some aid) v evs) (load_draft_for_update flt sid aid) (\<lambda>d. editing B r aid v evs (d_id d))"
  by (auto simp: tx_gives_def load_draft_for_update_def tx_simps own_draft_def dest!: find_where_SomeD split: option.splits)

lemma edit_checks_keep:
  "tx_keeps P (check_opt f x)" "tx_keeps P (checked_merchant m)"
  "tx_keeps P (case k of None \<Rightarrow> txret () | Some k \<Rightarrow> ensure_category flt k)"
  by (auto simp: check_opt_def checked_merchant_def intro: submission_reads_keep split: option.split sum.split)

lemmas edit_steps = tx_gives_bind [OF edit_field_editing] edit_checks_keep [THEN tx_gives_keeps, THEN tx_gives_bind]

lemma edit_draft_apart [apart_intros]:
  assumes "ed_account_id q = aid"
  shows "tx_keeps (apart B r (Some aid) v evs) (edit_draft_in_transaction L flt ids q)"
proof -
  have "tx_gives (apart B r (Some aid) v evs) (edit_draft_in_transaction L flt ids q) (\<lambda>_. apart B r (Some aid) v evs)"
    unfolding edit_draft_in_transaction_def Let_def assms
    by (rule tx_gives_bind [OF tx_gives_keeps [OF submission_reads_keep(5)]], clarsimp simp: tx_gives_fail,
        rule tx_gives_bind [OF load_draft_editing], clarsimp simp: tx_gives_fail,
        (rule edit_steps, simp?)+, simp add: update_draft_editing)
  then show ?thesis by (simp add: tx_gives_def tx_keeps_def)
qed


section \<open>The outbox and all effects\<close>

lemma outbound_allowed_apart [apart_intros]:
  "tx_keeps (apart B r who v evs) (outbound_delivery_allowed B policy E observed_at who)"
  unfolding outbound_delivery_allowed_def by (cases who) (auto intro!: apart_intros)

lemma insert_outbound_apart [apart_intros]:
  "o_account_id m = who \<Longrightarrow> tx_keeps (apart B r who v evs) (insert_outbound E m)"
  unfolding insert_outbound_def
  by (rule tx_keeps_fx) (auto simp: tx_keeps_def split: if_splits intro!: apart_outbound)

lemma outbound_request_key:
  "er_serialization_key (outbound_request B E who (iq_provider_scope r) (iq_provider_chat_id r) key oid) \<in> Some ` set (own_keys B r who)"
  by (auto simp: outbound_request_def own_keys_def account_serialization_key_def show_uuid_def split: option.split)

lemma enqueue_outbound_apart [apart_intros]:
  "tx_keeps (apart B r who v evs) (enqueue_outbound_in_transaction B policy E observed_at who ev (iq_provider_scope r)
     (iq_provider_chat_id r) body key)"
  unfolding enqueue_outbound_in_transaction_def
  by (auto simp: new_outbound_def intro!: apart_intros outbound_request_key split: option.split)

lemma enqueue_reply_apart [apart_intros]: "tx_keeps (apart B r who v evs) (enqueue_reply B policy E ev who r body)"
  unfolding enqueue_reply_def by (rule enqueue_outbound_apart)

lemma fx_none_keeps [apart_intros]: "tx_keeps P m \<Longrightarrow> tx_keeps P (fx_none m)"
  by (auto simp: fx_none_def intro!: apart_intros)

lemma fx_receipt_keeps [apart_intros]: "tx_keeps P m \<Longrightarrow> tx_keeps P (fx_receipt has_receipt m)"
  by (auto simp: fx_receipt_def intro!: apart_intros)

lemma accept_receipt_apart [apart_intros]:
  "tx_keeps (apart B r (Some aid) v evs) (apply_accept_receipt B policy has_receipt E aid ev observed_at sid jid effect_ev)"
  unfolding apply_accept_receipt_def by (auto intro!: apart_intros)

lemma apply_effect_apart [apart_intros]:
  "tx_keeps (apart B r (Some aid) v evs) (apply_effect B policy has_receipt E aid ev r f)"
  by (cases f) (auto simp: apply_effect_def Let_def intro!: apart_intros)

lemma apply_effects_apart [apart_intros]:
  "tx_keeps (apart B r (Some aid) v evs) (apply_effects B policy has_receipt E aid ev r fs override)"
  by (induction fs arbitrary: override) (auto intro!: apart_intros)

section \<open>Loading the context\<close>

lemma totals_keep [apart_intros]: "tx_keeps P (totals_tx B E l p fallback)"
  by (auto simp: totals_tx_def fx_def tx_keeps_def tx_simps split: option.splits)

lemma period_totals_keep [apart_intros]: "tx_keeps P (load_period_totals B E l aid start stop fallback)"
  by (simp add: load_period_totals_def totals_keep)

lemma context_parts_keep [apart_intros]:
  "tx_keeps P (load_receipt_draft_snapshot E aid sid)" "tx_keeps P (load_recent_expenses E aid)" "tx_keeps P (load_schedules E aid)"
  unfolding load_receipt_draft_snapshot_def load_recent_expenses_def load_schedules_def Let_def
  by (auto intro!: apart_intros)

lemma load_pending_keeps [apart_intros]: "tx_keeps P (load_pending_action B E aid row recent)"
  unfolding load_pending_action_def Let_def by (auto intro!: apart_intros split: option.split)

lemma load_context_keeps [apart_intros]: "tx_keeps P (load_decision_context B E aid ev r daily)"
  unfolding load_decision_context_def
  by (intro apart_intros; clarsimp split: option.split prod.split; intro apart_intros; auto intro!: apart_intros split: option.split prod.split)

section \<open>One event\<close>

text \<open>The account an event is processed for.\<close>

definition sender_account :: "ingress_env \<Rightarrow> ingress_request \<Rightarrow> 'z bot_db_scheme \<Rightarrow> uuid option" where
  "sender_account E r db =
     (if \<not> iq_sender_allowed r then None
      else Some (case find_where (\<lambda>p. pi_provider_scope p = iq_provider_scope r \<and> pi_provider_sender_id p = iq_provider_sender_id r)
          (provider_identities db) of Some p \<Rightarrow> pi_account_id p | None \<Rightarrow> iv_ids E ''account''))"

lemma sender_account_events [simp]: "sender_account E r (db\<lparr>inbound_events := t\<rparr>) = sender_account E r db"
  by (simp add: sender_account_def)

lemma others_events [simp]: "others B r who (db\<lparr>inbound_events := t\<rparr>) = others B r who db"
  by (simp add: others_def)

lemma keys_ok_events [simp]: "keys_ok (db\<lparr>inbound_events := t\<rparr>) = keys_ok db"
  by (simp add: keys_ok_def)

lemma resolve_account_apart:
  assumes "resolve_or_create_account E r db = Inr (aid, db')" "iq_sender_allowed r" "apart B r (sender_account E r db) v evs db"
  shows "sender_account E r db = Some aid \<and> apart B r (sender_account E r db) v evs db'"
  using assms
  by (auto simp: sender_account_def resolve_or_create_account_def fx_def tx_simps Let_def new_account_def
      intro!: apart_identities apart_accounts split: option.splits if_splits)

definition finalized :: "ingress_env \<Rightarrow> uuid \<Rightarrow> uuid option \<Rightarrow> inbound_event list \<Rightarrow> inbound_event list" where
  "finalized E ev who = update_where (\<lambda>e. ie_id e = ev) (\<lambda>e. e\<lparr>ie_account_id := who, ie_processed_at := Some (iv_now E)\<rparr>)"

lemma process_accepted_frame:
  assumes "process_accepted B policy has_receipt decide_fn E r ev db = Inr (a, db')" "keys_ok db"
  defines "who \<equiv> sender_account E r db"
  shows "others B r who db' = others B r who db \<and> keys_ok db' \<and> inbound_events db' = finalized E ev who (inbound_events db)"
proof -
  let ?P = "apart B r who (others B r who db) (inbound_events db)"
  have P: "?P db" using assms(2) by (simp add: apart_def)
  from assms(1) obtain account ctx decision override d1 d2 d3 d4 d5 where
    res: "(if iq_sender_allowed r then txbind (lift_fx (resolve_or_create_account E r)) (\<lambda>aid. txret (Some aid)) else txret None) db
       = (Inr (account, d1) :: ingress_error + _)"
    and ctx: "(case account of Some aid \<Rightarrow> lift_fx (load_decision_context B E aid ev r (ip_per_user_daily_receipts policy))
       | None \<Rightarrow> txret (anonymous_context E ev r (ip_per_user_daily_receipts policy))) d1 = Inr (ctx, d2)"
    and dec: "(case decide_fn ctx of Inl e \<Rightarrow> txfail (ingress_error_of e) | Inr d \<Rightarrow> txret d) d2 = Inr (decision, d3)"
    and eff: "(case account of Some aid \<Rightarrow> lift_fx (apply_effects B policy has_receipt E aid ev r (do_effects decision) None)
       | None \<Rightarrow> if list_ex (\<lambda>f. f \<noteq> FxReadOnly) (do_effects decision)
           then txfail (IngressError ''domain effects require an allowed sender account'') else txret None) d3 = Inr (override, d4)"
    and rep: "(case (if override = None then do_reply decision else override) of None \<Rightarrow> txret ()
       | Some body \<Rightarrow> lift_fx (enqueue_reply B policy E ev account r body)) d4 = Inr ((), d5)"
    and fin: "finalize_event E ev account d5 = Inr (a, db')"
    by (auto simp: process_accepted_def tx_simps)
  have acc: "account = who \<and> ?P d1"
  proof (cases "iq_sender_allowed r")
    case True
    with res obtain aid where "resolve_or_create_account E r db = Inr (aid, d1)" "account = Some aid"
      by (auto simp: lift_fx_def tx_simps)
    with resolve_account_apart [OF this(1) True P [unfolded who_def]] show ?thesis unfolding who_def by metis
  qed (use res P in \<open>auto simp: who_def sender_account_def\<close>)
  have "?P d2" using ctx acc
    by (auto simp: lift_fx_def tx_simps split: option.splits dest: tx_keepsD [OF load_context_keeps])
  then have "?P d3" using dec by (auto split: sum.splits)
  then have "?P d4" using eff acc
    by (auto simp: lift_fx_def tx_simps split: option.splits if_splits dest: tx_keepsD [OF apply_effects_apart])
  then have "?P d5" using rep acc
    by (auto simp: lift_fx_def tx_simps split: option.splits if_splits dest: tx_keepsD [OF enqueue_reply_apart])
  with fin acc show ?thesis
    by (auto simp: finalize_event_def finalized_def tx_simps apart_def)
qed

end
