(* ===== verification/Ingress_Properties.thy ===== *)
theory Ingress_Properties
  imports Ingress_Proofs Receipt_Properties Chat_Properties Schedule_Properties
begin

text \<open>
  Properties of the processing of events: an event is applied at most once, whatever is retried
  and whichever call fails, and the event of one account leaves the rows of every other account
  as they are.
\<close>

section \<open>Accepted events\<close>

definition event_key :: "inbound_event \<Rightarrow> string \<times> string" where
  "event_key e = (ie_provider_scope e, ie_provider_event_id e)"

definition request_key :: "ingress_request \<Rightarrow> string \<times> string" where
  "request_key r = (iq_provider_scope r, iq_provider_event_id r)"

definition event_done :: "'z bot_db_scheme \<Rightarrow> string \<times> string \<Rightarrow> bool" where
  "event_done db k =
     (map_option ie_processing_state (find_where (\<lambda>e. event_key e = k) (inbound_events db)) = Some EvAccepted)"

lemma same_event_key: "same_event r e \<longleftrightarrow> event_key e = request_key r"
  by (auto simp: same_event_def event_key_def request_key_def)

lemma same_event_eq: "same_event r = (\<lambda>e. event_key e = request_key r)"
  by (simp add: fun_eq_iff same_event_key)

lemma find_where_append_other: "find_where p (t @ [x]) = (case find_where p t of None \<Rightarrow> if p x then Some x else None | Some y \<Rightarrow> Some y)"
  by (induction t) (simp_all add: find_where_def)

lemma find_where_update_other:
  "(\<And>x. p (f x) = p x) \<Longrightarrow> find_where p (update_where q f t) = map_option (\<lambda>x. if q x then f x else x) (find_where p t)"
  by (induction t) (auto simp: find_where_def update_where_def)

lemma event_done_finalized [simp]:
  "event_done (db\<lparr>inbound_events := finalized E ev who t\<rparr>) k = event_done (db\<lparr>inbound_events := t\<rparr>) k"
  by (auto simp: event_done_def finalized_def event_key_def find_where_update_other option.map_comp comp_def intro!: arg_cong [where f = "\<lambda>x. x = _"] option.map_cong)

text \<open>What a committed body did: nothing, one rejected event row, or the whole processing.\<close>

definition observed_events :: "ingress_env \<Rightarrow> ingress_request \<Rightarrow> ingress_observation \<Rightarrow> 'z bot_db_scheme \<Rightarrow> inbound_event list" where
  "observed_events E r ob db =
     (case find_where (same_event r) (inbound_events db) of
        None \<Rightarrow> inbound_events db @ [new_event (iv_ids E ''event'') r ob EvAccepted]
      | Some _ \<Rightarrow> update_where (same_event r) (promoted_event r ob) (inbound_events db))"

definition own_event_id :: "ingress_request \<Rightarrow> uuid \<Rightarrow> 'z bot_db_scheme \<Rightarrow> bool" where
  "own_event_id r ev db =
     (case find_where (same_event r) (inbound_events db) of
        None \<Rightarrow> \<not> exists_where (\<lambda>e. ie_id e = ev) (inbound_events db) | Some e \<Rightarrow> ie_id e = ev)"

lemma process_tx_cases:
  assumes "process_tx B policy has_receipt decide_fn E r ob db = Inr ((msg, oc), db')"
  obtains (duplicate) i where "oc = InDuplicate i" "db' = db"
  | (rejected) i where "oc = InModeRejected i" "find_where (same_event r) (inbound_events db) = None"
      "db' = db\<lparr>inbound_events := inbound_events db @ [new_event (iv_ids E ''event'') r ob EvRejected]\<rparr>"
  | (accepted) ev where "oc = InAccepted ev" "\<not> event_done db (request_key r)" "own_event_id r ev db"
      "process_accepted B policy has_receipt decide_fn E r ev (db\<lparr>inbound_events := observed_events E r ob db\<rparr>) = Inr ((), db')"
  using assms
  by (auto simp: process_tx_def insert_observed_event_def tx_simps Let_def observed_events_def own_event_id_def event_done_def same_event_eq
      split: if_splits option.splits ingress_outcome.splits)

lemma event_row_simps [simp]:
  "event_key (promoted_event r ob e) = event_key e" "ie_processing_state (promoted_event r ob e) = EvAccepted"
  "ie_id (promoted_event r ob e) = ie_id e" "event_key (new_event i r ob st) = request_key r" "ie_processing_state (new_event i r ob st) = st"
  by (simp_all add: event_key_def promoted_event_def new_event_def request_key_def)

lemma event_done_Some: "event_done db k \<longleftrightarrow> (\<exists>e. find_where (\<lambda>e. event_key e = k) (inbound_events db) = Some e \<and> ie_processing_state e = EvAccepted)"
  by (auto simp: event_done_def)

lemma observed_events_done:
  "event_done (db\<lparr>inbound_events := observed_events E r ob db\<rparr>) (request_key r)"
  by (auto simp: event_done_Some observed_events_def same_event_eq find_where_append_other find_where_update_other
      dest: find_where_SomeD split: option.split)

lemma observed_events_keep:
  assumes "event_done db k"
  shows "event_done (db\<lparr>inbound_events := observed_events E r ob db\<rparr>) k"
proof -
  from assms obtain e where e: "find_where (\<lambda>e. event_key e = k) (inbound_events db) = Some e" "ie_processing_state e = EvAccepted"
    by (auto simp: event_done_Some)
  then have "find_where (\<lambda>e. event_key e = k) (observed_events E r ob db) \<in> {Some e, Some (promoted_event r ob e)}"
    by (simp add: observed_events_def find_where_append_other find_where_update_other split: option.split)
  with e show ?thesis by (auto simp: event_done_Some)
qed

lemma event_done_append: "event_done db k \<Longrightarrow> event_done (db\<lparr>inbound_events := inbound_events db @ [e]\<rparr>) k"
  by (auto simp: event_done_Some find_where_append_other)

section \<open>One call\<close>

text \<open>
  A call of \<open>process\<close>: policy, whether receipts are on, the decision function, environment, request and observation.
  \<open>applied\<close> says that its transaction accepted the event and was committed, whatever the caller heard.
\<close>

type_synonym ingress_call =
  "ingress_policy \<times> bool \<times> (decision_context \<Rightarrow> ingress_effect_error + decision_output) \<times> ingress_env \<times> ingress_request
   \<times> ingress_observation"

fun call_key :: "ingress_call \<Rightarrow> string \<times> string" where
  "call_key (policy, has_receipt, decide_fn, E, r, ob) = request_key r"

fun process_call :: "bot_libs \<Rightarrow> ingress_call \<Rightarrow> 'z bot_db_scheme \<Rightarrow> (ingress_error + ingress_outcome) \<times> 'z bot_db_scheme" where
  "process_call B (policy, has_receipt, decide_fn, E, r, ob) db = process B policy has_receipt decide_fn E r ob db"

fun applied :: "bot_libs \<Rightarrow> ingress_call \<Rightarrow> 'z bot_db_scheme \<Rightarrow> bool" where
  "applied B (policy, has_receipt, decide_fn, E, r, ob) db \<longleftrightarrow>
     iv_fault E \<noteq> FaultAt ''begin'' \<and> iv_fault E \<noteq> FaultAt ''commit''
   \<and> (case process_tx B policy has_receipt decide_fn E r ob db of Inr ((_, InAccepted _), _) \<Rightarrow> True | _ \<Rightarrow> False)"

lemma run_ingress_cases:
  obtains (rolled_back) e where "run_ingress flt m db = (Inl e, db)"
      "flt = FaultAt ''begin'' \<or> flt = FaultAt ''commit'' \<or> isl (m db)"
  | (committed) msg oc db' where "flt \<noteq> FaultAt ''begin''" "flt \<noteq> FaultAt ''commit''" "m db = Inr ((msg, oc), db')"
      "snd (run_ingress flt m db) = db'" "fst (run_ingress flt m db) = Inr oc \<or> (\<exists>e. fst (run_ingress flt m db) = Inl e)"
  by (fastforce simp: run_ingress_def split: sum.splits prod.splits if_splits)

lemma process_cases:
  assumes "keys_ok db" and c: "c = (policy, has_receipt, decide_fn, E, r, ob)"
  obtains (unchanged) "\<not> applied B c db" "snd (process_call B c db) = db" "\<forall>i. fst (process_call B c db) \<noteq> Inr (InAccepted i)"
  | (rejected) "\<not> applied B c db" "\<forall>i. fst (process_call B c db) \<noteq> Inr (InAccepted i)"
      "find_where (same_event r) (inbound_events db) = None"
      "snd (process_call B c db) = db\<lparr>inbound_events := inbound_events db @ [new_event (iv_ids E ''event'') r ob EvRejected]\<rparr>"
  | (applied) ev where "applied B c db" "\<not> event_done db (request_key r)" "own_event_id r ev db"
      "others B r (sender_account E r db) (snd (process_call B c db)) = others B r (sender_account E r db) db"
      "keys_ok (snd (process_call B c db))"
      "inbound_events (snd (process_call B c db)) = finalized E ev (sender_account E r db) (observed_events E r ob db)"
proof (cases rule: run_ingress_cases [of "iv_fault E" "process_tx B policy has_receipt decide_fn E r ob" db])
  case (rolled_back e)
  then have "\<not> applied B c db" by (auto simp: c isl_def)
  with rolled_back show ?thesis by (intro that(1)) (auto simp: c process_def)
next
  case (committed msg oc db')
  from committed(3) show ?thesis
  proof (cases rule: process_tx_cases)
    case (duplicate i)
    with committed show ?thesis by (intro that(1)) (auto simp: c process_def)
  next
    case (rejected i)
    with committed show ?thesis by (intro that(2)) (auto simp: c process_def)
  next
    case (accepted ev)
    have fr: "others B r (sender_account E r db) db' = others B r (sender_account E r db) db \<and> keys_ok db'
        \<and> inbound_events db' = finalized E ev (sender_account E r db) (observed_events E r ob db)"
      using process_accepted_frame [OF accepted(4)] assms(1) by simp
    with committed accepted show ?thesis by (intro that(3)) (auto simp: c process_def)
  qed
qed


section \<open>Deduplication\<close>

lemma keys_ok_call: "keys_ok db \<Longrightarrow> keys_ok (snd (process_call B c db))"
proof -
  assume ok: "keys_ok db"
  obtain policy has_receipt decide_fn E r ob where c: "c = (policy, has_receipt, decide_fn, E, r, ob)" by (cases c)
  from ok c show ?thesis by (rule process_cases [where B = B]) (use ok in simp_all)
qed

lemma process_call_done:
  assumes "keys_ok db"
  shows "event_done db k \<Longrightarrow> event_done (snd (process_call B c db)) k"
    and "applied B c db \<Longrightarrow> \<not> event_done db (call_key c) \<and> event_done (snd (process_call B c db)) (call_key c)"
proof -
  obtain policy has_receipt decide_fn E r ob where c: "c = (policy, has_receipt, decide_fn, E, r, ob)" by (cases c)
  have done_iff: "event_done (snd (process_call B c db)) k = event_done (db\<lparr>inbound_events := observed_events E r ob db\<rparr>) k"
    if "inbound_events (snd (process_call B c db)) = finalized E ev who (observed_events E r ob db)" for k ev who
  proof -
    have "event_done (snd (process_call B c db)) k = event_done (db\<lparr>inbound_events := finalized E ev who (observed_events E r ob db)\<rparr>) k"
      using that by (simp add: event_done_def)
    then show ?thesis by simp
  qed
  have key: "call_key c = request_key r" by (simp add: c)
  from assms c have "(event_done db k \<longrightarrow> event_done (snd (process_call B c db)) k)
      \<and> (applied B c db \<longrightarrow> \<not> event_done db (call_key c) \<and> event_done (snd (process_call B c db)) (call_key c))" for k
    by (rule process_cases [where B = B])
      (auto simp: done_iff observed_events_done observed_events_keep event_done_append key)
  then show "event_done db k \<Longrightarrow> event_done (snd (process_call B c db)) k"
    and "applied B c db \<Longrightarrow> \<not> event_done db (call_key c) \<and> event_done (snd (process_call B c db)) (call_key c)"
    by blast+
qed

interpretation event_dedup: dedup_store "\<lambda>c db. (applied B c db, snd (process_call B c db))" call_key event_done keys_ok for B
  by unfold_locales (auto simp: process_call_done keys_ok_call)

primrec apply_all :: "bot_libs \<Rightarrow> ingress_call list \<Rightarrow> 'z bot_db_scheme \<Rightarrow> bool list" where
  "apply_all B [] db = []"
| "apply_all B (c # cs) db = applied B c db # apply_all B cs (snd (process_call B c db))"

lemma apply_all_eq: "apply_all B cs db = event_dedup.submit_all B cs db"
  by (induction cs arbitrary: db) auto


text \<open>
C21: Over any sequence of calls of the ingress, with any decision functions, policies, clocks and faults (also a commit
whose acknowledgement is lost, after which the provider delivers the event again), at most one call per provider event
commits its effects. A call for an event that is already accepted changes nothing at all, and a call that does not commit
an acceptance changes nothing but, when the ingress mode refuses it, the row that records the refusal.
\<close>

theorem event_applied_once:
  assumes "keys_ok db"
  shows "count_where (\<lambda>(b, c). b \<and> call_key c = k) (zip (apply_all B cs db) cs) \<le> 1
    \<and> (event_done db (call_key c) \<longrightarrow> \<not> applied B c db \<and> snd (process_call B c db) = db)
    \<and> (fst (process_call B c db) = Inr (InAccepted i) \<longrightarrow> applied B c db)
    \<and> (\<not> applied B c db \<longrightarrow> snd (process_call B c db)\<lparr>inbound_events := inbound_events db\<rparr> = db)"
proof -
  obtain policy has_receipt decide_fn E r ob where c: "c = (policy, has_receipt, decide_fn, E, r, ob)" by (cases c)
  have key: "call_key c = request_key r" by (simp add: c)
  have "(event_done db (call_key c) \<longrightarrow> \<not> applied B c db \<and> snd (process_call B c db) = db)
    \<and> (fst (process_call B c db) = Inr (InAccepted i) \<longrightarrow> applied B c db)
    \<and> (\<not> applied B c db \<longrightarrow> snd (process_call B c db)\<lparr>inbound_events := inbound_events db\<rparr> = db)"
    using assms c by (rule process_cases [where B = B]) (auto simp: event_done_def same_event_eq key)
  then show ?thesis
    using event_dedup.at_most_one_accepted [OF assms, of k B cs] by (simp add: apply_all_eq)
qed

section \<open>Isolation\<close>

lemma own_event_row:
  assumes "own_event_id r ev db" "distinct (map ie_id (inbound_events db))" "e \<in> set (inbound_events db)" "ie_id e = ev"
  shows "same_event r e"
proof (cases "find_where (same_event r) (inbound_events db)")
  case None
  with assms show ?thesis by (auto simp: own_event_id_def exists_where_iff)
next
  case (Some e')
  with assms(1) have "ie_id e' = ie_id e" by (simp add: own_event_id_def assms(4))
  with find_where_SomeD [OF Some] assms(2,3) have "e' = e" by (metis distinct_key_eq)
  with find_where_SomeD [OF Some] show ?thesis by simp
qed

lemma other_events_kept:
  assumes "own_event_id r ev db" "distinct (map ie_id (inbound_events db))"
  shows "filter (\<lambda>e. \<not> same_event r e) (finalized E ev who (observed_events E r ob db)) = filter (\<lambda>e. \<not> same_event r e) (inbound_events db)"
proof -
  have own: "same_event r e" if "e \<in> set (observed_events E r ob db)" "ie_id e = ev" for e
    using that own_event_row [OF assms]
    by (auto simp: observed_events_def same_event_key update_where_def split: option.splits if_splits)
  have "filter (\<lambda>e. \<not> same_event r e) (finalized E ev who (observed_events E r ob db))
      = filter (\<lambda>e. \<not> same_event r e) (observed_events E r ob db)"
    unfolding finalized_def using own by (intro filter_update_where) (auto simp: same_event_key event_key_def)
  also have "\<dots> = filter (\<lambda>e. \<not> same_event r e) (inbound_events db)"
    by (auto simp: observed_events_def same_event_key intro!: filter_update_where split: option.split)
  finally show ?thesis .
qed



section \<open>A sample database\<close>

text \<open>
  Account 1 has a receipt under review and is asked to confirm it; account 2 has an expense and a schedule. The sender
  \<open>u1\<close> of account 1 answers with a confirming word.
\<close>

definition sample_bot_libs :: bot_libs where
  "sample_bot_libs =
     \<lparr>bl_libs = sample_libs, bl_chat = sample_chat_libs, bl_zone = sample_zone,
      bl_parse_uuid = (\<lambda>s. if s = ''s5'' then Some 5 else None), bl_format_ymd = (\<lambda>z t. ''2026-07-01''),
      bl_pg_date = (\<lambda>z t. Some 0), bl_collate_le = (\<lambda>a b. True), bl_json_text = (\<lambda>j. ''{}''), bl_serde_time = show_int\<rparr>"

definition sample_other_expense :: expense where
  "sample_other_expense =
     \<lparr>e_id = 40, e_account_id = 2, e_amount_minor = 9000, e_currency = ''VND'', e_occurred_at = 2, e_description = ''tea'',
      e_source = SourceManual, e_state = ExpenseConfirmed, e_version = 2, e_receipt_submission_id = None,
      e_category_key = ''food'', e_transaction_type = ''expense'', e_created_at = 2, e_updated_at = 2\<rparr>"

definition sample_bot :: bot_db where
  "sample_bot =
     \<lparr>jobs = [], job_attempts = [], outbound_messages = [], accounts = [sample_account, sample_account\<lparr>ac_id := 2\<rparr>],
      usage_counters = [], categories = [''food'', ''transport''], submissions = [sample_submission], assets = [sample_asset],
      drafts = [Receipt_Properties.sample_draft], corrections = [], extraction_attempts = [], expenses = [sample_other_expense],
      ingress_mode = ''webhook'', inbound_events = [],
      provider_identities = [\<lparr>pi_id = 60, pi_account_id = 1, pi_provider_scope = ''zalo'', pi_provider_sender_id = ''u1''\<rparr>],
      conversation_states = [\<lparr>cs_account_id = 1, cs_pending_action_type = Some ''receipt_review'',
        cs_pending_payload_ref = Some ''s5'', cs_expires_at = Some 90, cs_version = 3, cs_updated_at = 10\<rparr>],
      summary_schedules = [\<lparr>ss_id = 70, ss_account_id = 2, ss_frequency = ''daily'', ss_delivery_minute = 480,
        ss_provider_scope = ''zalo'', ss_provider_chat_id = ''c2'', ss_enabled = True, ss_next_run_at = 0, ss_last_emitted_at = None\<rparr>],
      deletion_requests = [], export_artifacts = [], insight_snapshots = [], ai_preferences = [],
      category_names = (\<lambda>k. (k, k))\<rparr>"

definition sample_env :: "db_fault \<Rightarrow> ingress_env" where
  "sample_env flt =
     \<lparr>iv_now = 50, iv_clock = 50, iv_fault = flt,
      iv_ids = (\<lambda>s. if s = ''next_expense'' then 77 else if s = ''outbound'' then 91 else if s = ''outbound_job'' then 92 else 90)\<rparr>"

definition sample_request :: ingress_request where
  "sample_request =
     \<lparr>iq_source = SrcWebhook, iq_provider_scope = ''zalo'', iq_provider_event_id = ''ev1'', iq_provider_sender_id = ''u1'',
      iq_provider_chat_id = ''c1'', iq_sender_allowed = True, iq_user_text = ''OK!'', iq_observed_at = 50\<rparr>"

definition sample_call :: "db_fault \<Rightarrow> ingress_call" where
  "sample_call flt =
     (ingress_policy_default, True, decide_text_and_map sample_chat_libs, sample_env flt, sample_request, observation_default)"

lemma sample_bot_keys: "keys_ok sample_bot" "distinct (map ie_id (inbound_events sample_bot))"
  by (simp_all add: keys_ok_def sample_bot_def)

text \<open>The same database after the event was accepted.\<close>

definition sample_replayed :: bot_db where
  "sample_replayed = sample_bot\<lparr>inbound_events := [new_event 90 sample_request observation_default EvAccepted]\<rparr>"

lemma sample_replayed_done: "keys_ok sample_replayed" "event_done sample_replayed (call_key (sample_call NoFault))"
  by (simp_all add: sample_replayed_def sample_bot_keys event_done_Some sample_call_def find_where_def)

theorem event_applied_once_witness:
  "keys_ok sample_replayed \<and> snd (process_call sample_bot_libs (sample_call NoFault) sample_replayed) = sample_replayed
   \<and> count_where (\<lambda>(b, c). b \<and> call_key c = (''zalo'', ''ev1''))
       (zip (apply_all sample_bot_libs [sample_call CommitAckLost, sample_call NoFault] sample_replayed)
          [sample_call CommitAckLost, sample_call NoFault]) \<le> 1"
  using event_applied_once [OF sample_replayed_done(1), of "(''zalo'', ''ev1'')" sample_bot_libs
      "[sample_call CommitAckLost, sample_call NoFault]" "sample_call NoFault"] sample_replayed_done
  by blast


end
