(* ===== verification/Provider.thy ===== *)
theory Provider
  imports Chat_Text Errors Work
begin

text \<open>
  What the provider adapters share: redaction (\<^verbatim>\<open>src/provider/redact.rs\<close>), the provider error with the
  texts it must not show (\<^verbatim>\<open>error.rs\<close>) and the normalized types (\<^verbatim>\<open>types.rs\<close>). A duration
  is a number of seconds.
\<close>

section \<open>Redaction\<close>

definition url_escape_char :: "char \<Rightarrow> string" where
  "url_escape_char c =
     (if c = CHR '':'' then ''%3A'' else if c = CHR ''/'' then ''%2F'' else if c = CHR ''?'' then ''%3F''
      else if c = CHR ''#'' then ''%23'' else if c = CHR ''['' then ''%5B'' else if c = CHR '']'' then ''%5D''
      else if c = CHR ''@'' then ''%40'' else if c = CHR ''!'' then ''%21'' else if c = CHR ''$'' then ''%24''
      else if c = CHR ''&'' then ''%26'' else if c = CHR 0x27 then ''%27'' else if c = CHR ''('' then ''%28''
      else if c = CHR '')'' then ''%29'' else if c = CHR ''*'' then ''%2A'' else if c = CHR ''+'' then ''%2B''
      else if c = CHR '','' then ''%2C'' else if c = CHR '';'' then ''%3B'' else if c = CHR ''='' then ''%3D''
      else if c = CHR ''%'' then ''%25'' else if c = CHR '' '' then ''%20'' else [c])"

definition url_escape :: "string \<Rightarrow> string" where
  "url_escape s = concat (map url_escape_char s)"

definition path_escape :: "string \<Rightarrow> string" where
  "path_escape s = replace_char (CHR '':'') ''%3A'' s"

definition redact_needle :: "string \<Rightarrow> string \<Rightarrow> string" where
  "redact_needle needle out = (if contains_str out needle then replace_str needle ''[REDACTED]'' out else out)"

definition redact_value :: "string \<Rightarrow> string \<Rightarrow> string \<Rightarrow> string \<Rightarrow> string \<Rightarrow> string" where
  "redact_value v token chat_id text url =
     (if v = [] then v
      else
        let out = fold redact_needle (filter (\<lambda>n. n \<noteq> []) [token, chat_id, text, url]) v;
            out = (if token = [] then out else fold redact_needle [url_escape token, path_escape token] out)
        in if url = [] then out else fold redact_needle [url_escape url, path_escape url] out)"

section \<open>Errors\<close>

record provider_error =
  pe_class :: error_class
  pe_message :: string
  pe_token :: string
  pe_chat_id :: string
  pe_text :: string
  pe_url :: string

definition provider_error_new :: "error_class \<Rightarrow> string \<Rightarrow> provider_error" where
  "provider_error_new c m =
     \<lparr>pe_class = c, pe_message = m, pe_token = [], pe_chat_id = [], pe_text = [], pe_url = []\<rparr>"

definition attach_send_context :: "string \<Rightarrow> string \<Rightarrow> string \<Rightarrow> provider_error \<Rightarrow> provider_error" where
  "attach_send_context token chat_id text e = e\<lparr>pe_token := token, pe_chat_id := chat_id, pe_text := text\<rparr>"

definition attach_media_context :: "string \<Rightarrow> provider_error \<Rightarrow> provider_error" where
  "attach_media_context url e = e\<lparr>pe_url := url\<rparr>"

definition redacted_message :: "provider_error \<Rightarrow> string" where
  "redacted_message e = redact_value (pe_message e) (pe_token e) (pe_chat_id e) (pe_text e) (pe_url e)"

definition provider_error_display :: "provider_error \<Rightarrow> string" where
  "provider_error_display e = error_class_as_str (pe_class e) @ '': '' @ redacted_message e"

definition provider_invalid :: "string \<Rightarrow> provider_error" where
  "provider_invalid m = provider_error_new EValidation m"

section \<open>Normalized types\<close>

record zalo_http_config =
  zc_api_base :: string
  zc_bot_token :: string
  zc_webhook_secret :: string
  zc_provider_scope :: string
  zc_request_timeout :: nat

definition zalo_http_config_default :: zalo_http_config where
  "zalo_http_config_default =
     \<lparr>zc_api_base = ''https://bot-api.zaloplatforms.com'', zc_bot_token = [], zc_webhook_secret = [],
      zc_provider_scope = ''zalo_bot'', zc_request_timeout = 10\<rparr>"

definition normalized_api_base :: "zalo_http_config \<Rightarrow> string" where
  "normalized_api_base c = trim_end_set [''/''] (zc_api_base c)"

definition EVENT_TEXT_RECEIVED :: string where
  "EVENT_TEXT_RECEIVED = ''message.text.received''"

definition EVENT_IMAGE_RECEIVED :: string where
  "EVENT_IMAGE_RECEIVED = ''message.image.received''"

datatype inbound_event_kind = TextReceived | KindImageReceived | UnsupportedEvent string

record normalized_inbound_text =
  nt_provider_scope :: string
  nt_event_id :: string
  nt_sender_id :: string
  nt_chat_id :: string
  nt_text :: string
  nt_received_at :: instant
  nt_kind :: inbound_event_kind

record normalized_inbound_image =
  ni_provider_scope :: string
  ni_event_id :: string
  ni_sender_id :: string
  ni_chat_id :: string
  ni_image_url :: string
  ni_caption :: string
  ni_received_at :: instant
  ni_kind :: inbound_event_kind

record media_policy =
  mp_host_suffixes :: "string list"
  mp_max_bytes :: nat
  mp_total_timeout :: nat
  mp_max_redirects :: nat
  mp_require_https :: bool
  mp_permit_private :: bool
  mp_allowed_port :: "nat option"

definition production_default :: media_policy where
  "production_default =
     \<lparr>mp_host_suffixes = [''zaloplatforms.com'', ''zaloapp.com'', ''zdn.vn'', ''zadn.vn'', ''zapps.me''],
      mp_max_bytes = 10 * 1024 * 1024, mp_total_timeout = 15, mp_max_redirects = 3, mp_require_https = True,
      mp_permit_private = False, mp_allowed_port = None\<rparr>"

record media_result =
  md_bytes :: string
  md_content_type :: "string option"

end
