(* ===== verification/Media.thy ===== *)
theory Media
  imports Provider "HOL-Library.Word"
begin

text \<open>
  The bounded download of an image, \<^verbatim>\<open>src/provider/media.rs\<close>: which addresses may be contacted, the
  checks of a URL, and the loop over redirects. URL parsing (\<^verbatim>\<open>reqwest::Url\<close>), name resolution and the
  HTTP client are parameters; the loop also returns the log of the connections it opened.
\<close>

unbundle bit_operations_syntax

section \<open>Addresses\<close>

datatype ip_addr = V4 "32 word" | V6 "128 word"

definition ipv4 :: "nat \<Rightarrow> nat \<Rightarrow> nat \<Rightarrow> nat \<Rightarrow> 32 word" where
  "ipv4 a b c d = word_of_nat (((a * 256 + b) * 256 + c) * 256 + d)"

definition ipv6_head :: "nat \<Rightarrow> nat \<Rightarrow> 128 word" where
  "ipv6_head a b = word_of_nat ((a * 65536 + b) * 2 ^ 96)"

definition ipv4_prefix :: "32 word \<Rightarrow> 32 word \<Rightarrow> nat \<Rightarrow> bool" where
  "ipv4_prefix bits prefix len \<longleftrightarrow> drop_bit (32 - len) bits = drop_bit (32 - len) prefix"

definition ipv6_prefix :: "128 word \<Rightarrow> 128 word \<Rightarrow> nat \<Rightarrow> bool" where
  "ipv6_prefix bits prefix len \<longleftrightarrow> drop_bit (128 - len) bits = drop_bit (128 - len) prefix"

text \<open>The predicates of \<^verbatim>\<open>std::net\<close>, each by its range.\<close>

definition v4_is_private :: "32 word \<Rightarrow> bool" where
  "v4_is_private a \<longleftrightarrow>
     ipv4_prefix a (ipv4 10 0 0 0) 8 \<or> ipv4_prefix a (ipv4 172 16 0 0) 12 \<or> ipv4_prefix a (ipv4 192 168 0 0) 16"

definition v4_is_loopback :: "32 word \<Rightarrow> bool" where
  "v4_is_loopback a \<longleftrightarrow> ipv4_prefix a (ipv4 127 0 0 0) 8"

definition v4_is_link_local :: "32 word \<Rightarrow> bool" where
  "v4_is_link_local a \<longleftrightarrow> ipv4_prefix a (ipv4 169 254 0 0) 16"

definition v4_is_multicast :: "32 word \<Rightarrow> bool" where
  "v4_is_multicast a \<longleftrightarrow> ipv4_prefix a (ipv4 224 0 0 0) 4"

definition is_forbidden_v4 :: "32 word \<Rightarrow> bool" where
  "is_forbidden_v4 a \<longleftrightarrow>
     v4_is_private a \<or> v4_is_loopback a \<or> v4_is_link_local a \<or> v4_is_multicast a
     \<or> a = 0 \<or> a = ipv4 255 255 255 255 \<or> a = ipv4 169 254 169 254
     \<or> ipv4_prefix a (ipv4 0 0 0 0) 8 \<or> ipv4_prefix a (ipv4 100 64 0 0) 10 \<or> ipv4_prefix a (ipv4 192 0 0 0) 24
     \<or> ipv4_prefix a (ipv4 192 0 2 0) 24 \<or> ipv4_prefix a (ipv4 198 51 100 0) 24 \<or> ipv4_prefix a (ipv4 203 0 113 0) 24
     \<or> ipv4_prefix a (ipv4 198 18 0 0) 15 \<or> ipv4_prefix a (ipv4 240 0 0 0) 4"

definition to_ipv4_mapped :: "128 word \<Rightarrow> 32 word option" where
  "to_ipv4_mapped a = (if drop_bit 32 a = 0xFFFF then Some (ucast a) else None)"

definition is_forbidden_v6 :: "128 word \<Rightarrow> bool" where
  "is_forbidden_v6 a =
     (case to_ipv4_mapped a of
        Some m \<Rightarrow> is_forbidden_v4 m
      | None \<Rightarrow>
          a = 1 \<or> a = 0 \<or> ipv6_prefix a (ipv6_head 0xFF00 0) 8 \<or> ipv6_prefix a (ipv6_head 0xFC00 0) 7
          \<or> ipv6_prefix a (ipv6_head 0xFE80 0) 10 \<or> ipv6_prefix a (ipv6_head 0xFEC0 0) 10
          \<or> ipv6_prefix a (ipv6_head 0x100 0) 64 \<or> ipv6_prefix a (ipv6_head 0x2001 0xDB8) 32
          \<or> ipv6_prefix a (ipv6_head 0x3FFF 0) 20 \<or> ipv6_prefix a (ipv6_head 0x2001 0) 23
          \<or> \<not> ipv6_prefix a (ipv6_head 0x2000 0) 3)"

fun is_forbidden_ip :: "ip_addr \<Rightarrow> bool" where
  "is_forbidden_ip (V4 a) = is_forbidden_v4 a"
| "is_forbidden_ip (V6 a) = is_forbidden_v6 a"

section \<open>URLs and policy\<close>

text \<open>A parsed URL as the code looks at it; \<open>u_default_port\<close> is the port its scheme implies.\<close>

record url =
  u_scheme :: string
  u_username :: string
  u_password :: "string option"
  u_host :: "string option"
  u_port :: "nat option"
  u_default_port :: "nat option"
  u_rest :: string

definition timeout_error :: provider_error where
  "timeout_error = provider_error_new ETimeout ''media download timed out''"

definition media_fail :: "string \<Rightarrow> provider_error \<Rightarrow> provider_error + 'a" where
  "media_fail url e = Inl (attach_media_context url e)"

abbreviation media_invalid :: "string \<Rightarrow> string \<Rightarrow> provider_error + 'a" where
  "media_invalid url m \<equiv> media_fail url (provider_invalid m)"

definition port_allowed :: "media_policy \<Rightarrow> url \<Rightarrow> bool" where
  "port_allowed pol u =
     (case u_port u of
        None \<Rightarrow> True
      | Some p \<Rightarrow> (p = 443 \<and> u_scheme u = ''https'') \<or> mp_allowed_port pol = Some p)"

definition host_allowed :: "string \<Rightarrow> string list \<Rightarrow> bool" where
  "host_allowed host suffixes =
     (let host = to_ascii_lowercase host in
      list_ex (\<lambda>suffix. let suffix = to_ascii_lowercase suffix in host = suffix \<or> ends_with host (''.'' @ suffix)) suffixes)"

definition validate_media_url ::
  "(string \<Rightarrow> ip_addr option) \<Rightarrow> media_policy \<Rightarrow> url \<Rightarrow> string \<Rightarrow> provider_error + unit" where
  "validate_media_url parse_ip pol u original =
     (if u_username u \<noteq> [] \<or> u_password u \<noteq> None then media_invalid original ''media url must not contain userinfo''
      else if mp_require_https pol \<and> u_scheme u \<noteq> ''https'' then media_invalid original ''media url must use https''
      else if \<not> mp_require_https pol \<and> u_scheme u \<noteq> ''http'' \<and> u_scheme u \<noteq> ''https''
      then media_invalid original ''media url must use http or https''
      else if \<not> port_allowed pol u then media_invalid original ''media url port is not allowed''
      else case u_host u of
        None \<Rightarrow> media_invalid original ''media url host is required''
      | Some host \<Rightarrow>
          if (case parse_ip host of None \<Rightarrow> False | Some ip \<Rightarrow> is_forbidden_ip ip)
          then media_invalid original ''media url host is forbidden''
          else if \<not> host_allowed host (mp_host_suffixes pol) then media_invalid original ''media url host is not allowlisted''
          else Inr ())"

definition pin_resolved_addrs ::
  "(string \<Rightarrow> ip_addr option) \<Rightarrow> media_policy \<Rightarrow> string \<Rightarrow> ip_addr list \<Rightarrow> provider_error + ip_addr list" where
  "pin_resolved_addrs parse_ip pol host resolved =
     (if resolved = [] then Inl (provider_invalid ''dns resolution returned no addresses'')
      else if list_ex is_forbidden_ip resolved \<and> (\<not> mp_permit_private pol \<or> parse_ip host \<noteq> None)
      then Inl (provider_invalid ''media url resolves to forbidden addresses'')
      else Inr resolved)"

section \<open>The download\<close>

text \<open>
  A transport error is a timeout or a cause (the text of the error without its URL); the resolver fails with
  an error of its own.
\<close>

datatype transport_error = TimedOut | Broken string

datatype dns_answer = DnsTimeout | DnsFailed provider_error | DnsAnswer "ip_addr list"

datatype body_event = Chunk string | ChunkFailed transport_error

record media_response =
  mr_status :: nat
  mr_location :: "string option"
  mr_content_length :: "nat option"
  mr_length_header :: "string option"
  mr_content_type :: "string option"
  mr_body :: "body_event list"

text \<open>
  What the hops of one download meet, by the number of redirects already followed: the whole seconds since the
  start when a hop begins and when it connects, the answer of the resolver, whether a client can be built, and
  the answer of the server. Header values that are not visible ASCII read as absent, as \<^verbatim>\<open>to_str().ok()\<close> does.
  The outer deadline around the request and around each chunk fires as \<open>TimedOut\<close>.
\<close>

record media_env =
  me_parse_url :: "string \<Rightarrow> url option"
  me_join :: "url \<Rightarrow> string \<Rightarrow> url option"
  me_parse_ip :: "string \<Rightarrow> ip_addr option"
  me_elapsed :: "nat \<Rightarrow> nat"
  me_resolve :: "nat \<Rightarrow> string \<Rightarrow> dns_answer"
  me_elapsed_later :: "nat \<Rightarrow> nat"
  me_client_ok :: "nat \<Rightarrow> bool"
  me_fetch :: "nat \<Rightarrow> url \<Rightarrow> ip_addr list \<Rightarrow> nat \<Rightarrow> transport_error + media_response"

record connection =
  cn_url :: url
  cn_addrs :: "ip_addr list"
  cn_port :: nat

fun media_transport_error :: "string \<Rightarrow> transport_error \<Rightarrow> provider_error" where
  "media_transport_error url TimedOut = attach_media_context url timeout_error"
| "media_transport_error url (Broken cause) =
     attach_media_context url
       (provider_error_new EProviderError (''media download failed: '' @ redact_value cause [] [] [] url))"

definition media_status_error :: "string \<Rightarrow> nat \<Rightarrow> provider_error" where
  "media_status_error url s =
     attach_media_context url
       (provider_error_new
         (if s = 429 then ERateLimited else if 500 \<le> s \<and> s \<le> 599 then EProviderError else EValidation)
         (''media download returned HTTP '' @ show_nat s))"

text \<open>\<^verbatim>\<open>str::parse::<u64>\<close>: an optional plus sign and digits.\<close>

definition parse_u64 :: "string \<Rightarrow> nat option" where
  "parse_u64 s =
     (let d = (case s of [] \<Rightarrow> [] | c # t \<Rightarrow> if c = CHR ''+'' then t else s) in
      if d = [] \<or> \<not> list_all is_ascii_digit d \<or> 2 ^ 64 \<le> digits_value 0 d then None else Some (digits_value 0 d))"

definition media_content_type :: "media_response \<Rightarrow> string option" where
  "media_content_type r =
     (case mr_content_type r of
        None \<Rightarrow> None
      | Some v \<Rightarrow>
          let t = trim v in
          if t = [] then None else if 256 < char_count t then Some (concat (take 256 (chars t))) else Some t)"

text \<open>
  The loop over the chunks; \<open>usize\<close> has 64 bits, so the limit is the policy's and a length that does not fit
  exceeds it.
\<close>

fun read_body :: "string \<Rightarrow> nat \<Rightarrow> string \<Rightarrow> body_event list \<Rightarrow> provider_error + string" where
  "read_body url limit body [] = Inr body"
| "read_body url limit body (ChunkFailed e # es) = Inl (media_transport_error url e)"
| "read_body url limit body (Chunk c # es) =
     (if limit < length body + length c then media_invalid url ''media body exceeds size limit''
      else read_body url limit (body @ c) es)"

definition over_limit :: "media_policy \<Rightarrow> nat option \<Rightarrow> bool" where
  "over_limit pol len = (case len of None \<Rightarrow> False | Some n \<Rightarrow> mp_max_bytes pol < n)"

definition finish_download :: "media_policy \<Rightarrow> string \<Rightarrow> media_response \<Rightarrow> provider_error + media_result" where
  "finish_download pol url r =
     (if \<not> (200 \<le> mr_status r \<and> mr_status r \<le> 299) then Inl (media_status_error url (mr_status r))
      else if over_limit pol (mr_content_length r) \<or> over_limit pol (Option.bind (mr_length_header r) parse_u64)
      then media_invalid url ''media content length exceeds limit''
      else map_sum id (\<lambda>b. \<lparr>md_bytes = b, md_content_type = media_content_type r\<rparr>)
             (read_body url (mp_max_bytes pol) [] (mr_body r)))"

definition redirect_target :: "media_env \<Rightarrow> string \<Rightarrow> url \<Rightarrow> media_response \<Rightarrow> provider_error + url" where
  "redirect_target ME url u r =
     (case map_option trim (mr_location r) of
        None \<Rightarrow> media_invalid url ''media redirect missing location''
      | Some loc \<Rightarrow>
          if loc = [] then media_invalid url ''media redirect missing location''
          else case me_join ME u loc of
            None \<Rightarrow> media_invalid url ''media redirect location is invalid''
          | Some v \<Rightarrow> Inr v)"

definition url_port :: "url \<Rightarrow> nat" where
  "url_port u = (case u_port u of Some p \<Rightarrow> p | None \<Rightarrow> (case u_default_port u of Some p \<Rightarrow> p | None \<Rightarrow> 443))"

text \<open>One hop up to the response: the connection it opens, if it opens one, and what came back.\<close>

definition hop ::
  "media_env \<Rightarrow> media_policy \<Rightarrow> string \<Rightarrow> nat \<Rightarrow> url \<Rightarrow> (provider_error + media_response) \<times> connection list" where
  "hop ME pol url k u =
     (if mp_total_timeout pol \<le> me_elapsed ME k then (media_fail url timeout_error, [])
      else case validate_media_url (me_parse_ip ME) pol u url of
        Inl e \<Rightarrow> (Inl e, [])
      | Inr _ \<Rightarrow>
          (case u_host u of
             None \<Rightarrow> (media_invalid url ''media url host is required'', [])
           | Some host \<Rightarrow>
               (case me_resolve ME k host of
                  DnsTimeout \<Rightarrow> (media_fail url timeout_error, [])
                | DnsFailed e \<Rightarrow> (Inl e, [])
                | DnsAnswer resolved \<Rightarrow>
                    (case pin_resolved_addrs (me_parse_ip ME) pol host resolved of
                       Inl e \<Rightarrow> (media_fail url e, [])
                     | Inr pinned \<Rightarrow>
                         if mp_total_timeout pol \<le> me_elapsed_later ME k then (media_fail url timeout_error, [])
                         else if \<not> me_client_ok ME k
                         then (Inl (provider_error_new EDependency ''build media HTTP client failed''), [])
                         else (map_sum (media_transport_error url) id (me_fetch ME k u pinned (url_port u)),
                               [\<lparr>cn_url = u, cn_addrs = pinned, cn_port = url_port u\<rparr>])))))"

fun download_loop ::
  "media_env \<Rightarrow> media_policy \<Rightarrow> string \<Rightarrow> nat \<Rightarrow> nat \<Rightarrow> url \<Rightarrow> (provider_error + media_result) \<times> connection list" where
  "download_loop ME pol url redirects left u =
     (case hop ME pol url redirects u of
        (Inl e, log) \<Rightarrow> (Inl e, log)
      | (Inr r, log) \<Rightarrow>
          if 300 \<le> mr_status r \<and> mr_status r \<le> 399 then
            (case left of
               0 \<Rightarrow> (media_invalid url ''media redirect limit exceeded'', log)
             | Suc left' \<Rightarrow>
                 (case redirect_target ME url u r of
                    Inl e \<Rightarrow> (Inl e, log)
                  | Inr v \<Rightarrow> let (res, log') = download_loop ME pol url (redirects + 1) left' v in (res, log @ log')))
          else (finish_download pol url r, log))"

text \<open>\<open>left\<close> is the number of redirects still allowed, \<^verbatim>\<open>policy.max_redirects - redirects\<close>.\<close>

definition download_media ::
  "media_env \<Rightarrow> media_policy \<Rightarrow> string \<Rightarrow> (provider_error + media_result) \<times> connection list" where
  "download_media ME pol url =
     (if trim url = [] \<or> 2048 < char_count url then (media_invalid url ''media url is invalid'', [])
      else case me_parse_url ME url of
        None \<Rightarrow> (media_invalid url ''media url is invalid'', [])
      | Some u \<Rightarrow> download_loop ME pol url 0 (mp_max_redirects pol) u)"

end
