(* ===== verification/Zalo_Api.thy ===== *)
theory Zalo_Api
  imports Provider "HOL-Library.Monad_Syntax"
begin

text \<open>
  The wire format of the Zalo Bot API: the webhook secret and the inbound events (\<^verbatim>\<open>src/provider/parse.rs\<close>)
  and \<^verbatim>\<open>sendMessage\<close> (\<^verbatim>\<open>src/provider/send.rs\<close>). The JSON reader, the calendar's range and URL
  assembly are parameters (\<open>api_libs\<close>); what serde's derived decoders make of a JSON value is written out.
\<close>

text \<open>
  \<open>al_json\<close> reads a text, \<^verbatim>\<open>serde_json::from_slice\<close>; the members of the outermost object keep their order
  and repetitions, a nested object has each key once (\<^verbatim>\<open>serde_json::Value\<close>). \<open>al_secs\<close> and \<open>al_millis\<close> are
  chrono's \<^verbatim>\<open>timestamp_opt\<close> and \<^verbatim>\<open>timestamp_millis_opt\<close>; \<open>al_send_url\<close> appends the two path segments to a
  parsed base.
\<close>

record api_libs =
  al_json :: "string \<Rightarrow> json option"
  al_secs :: "int \<Rightarrow> instant option"
  al_millis :: "int \<Rightarrow> instant option"
  al_send_url :: "string \<Rightarrow> string \<Rightarrow> string option option"

section \<open>Derived decoders\<close>

text \<open>
  A struct is read from an object, where a known field may not repeat and unknown ones are skipped, or from
  an array with exactly one element per field.
\<close>

definition struct_fields :: "string list \<Rightarrow> json \<Rightarrow> (string \<Rightarrow> json option) option" where
  "struct_fields names j =
     (case j of
        JObject fs \<Rightarrow> if distinct (filter (\<lambda>k. k \<in> set names) (map fst fs)) then Some (map_of fs) else None
      | JArray xs \<Rightarrow> if length xs = length names then Some (map_of (zip names xs)) else None
      | _ \<Rightarrow> None)"

text \<open>\<^verbatim>\<open>Option<T>\<close>: absent or null is \<open>None\<close>; anything else has to be a \<^verbatim>\<open>T\<close>. The outer option is the decoder's failure.\<close>

fun opt_field :: "(json \<Rightarrow> 'a option) \<Rightarrow> json option \<Rightarrow> 'a option option" where
  "opt_field dec None = Some None"
| "opt_field dec (Some JNull) = Some None"
| "opt_field dec (Some j) = map_option Some (dec j)"

fun as_bool :: "json \<Rightarrow> bool option" where
  "as_bool (JBool b) = Some b"
| "as_bool _ = None"

fun date_field :: "json option \<Rightarrow> int option" where
  "date_field None = Some 0"
| "date_field (Some j) = json_as_i64 j"

record provider_envelope =
  en_ok :: "bool option"
  en_result :: "json option"
  en_event_name :: "string option"
  en_message :: "json option"

record inner_envelope =
  in_event_name :: "string option"
  in_message :: "json option"

record wire_message =
  wm_message_id :: "json option"
  wm_from :: "json option option"
  wm_chat :: "json option option"
  wm_date :: int
  wm_text :: "string option"

record wire_image_message = wire_message +
  wm_photo :: "json option"
  wm_photo_url :: "json option"
  wm_file_url :: "json option"
  wm_photos :: "json option"
  wm_image :: "json option"
  wm_attachments :: "json option"
  wm_caption :: "string option"

definition decode_envelope :: "json \<Rightarrow> provider_envelope option" where
  "decode_envelope j = do {
     f \<leftarrow> struct_fields [''ok'', ''result'', ''event_name'', ''message''] j;
     ok \<leftarrow> opt_field as_bool (f ''ok'');
     result \<leftarrow> opt_field Some (f ''result'');
     event_name \<leftarrow> opt_field json_as_str (f ''event_name'');
     message \<leftarrow> opt_field Some (f ''message'');
     Some \<lparr>en_ok = ok, en_result = result, en_event_name = event_name, en_message = message\<rparr>
   }"

definition decode_inner :: "json \<Rightarrow> inner_envelope option" where
  "decode_inner j = do {
     f \<leftarrow> struct_fields [''event_name'', ''message''] j;
     event_name \<leftarrow> opt_field json_as_str (f ''event_name'');
     message \<leftarrow> opt_field Some (f ''message'');
     Some \<lparr>in_event_name = event_name, in_message = message\<rparr>
   }"

text \<open>\<^verbatim>\<open>WireParty\<close> has the one field \<^verbatim>\<open>id\<close>.\<close>

definition decode_party :: "json \<Rightarrow> json option option" where
  "decode_party j = Option.bind (struct_fields [''id''] j) (\<lambda>f. opt_field Some (f ''id''))"

definition decode_message :: "json \<Rightarrow> wire_message option" where
  "decode_message j = do {
     f \<leftarrow> struct_fields [''message_id'', ''from'', ''chat'', ''date'', ''text''] j;
     message_id \<leftarrow> opt_field Some (f ''message_id'');
     from_party \<leftarrow> opt_field decode_party (f ''from'');
     chat \<leftarrow> opt_field decode_party (f ''chat'');
     date \<leftarrow> date_field (f ''date'');
     txt \<leftarrow> opt_field json_as_str (f ''text'');
     Some \<lparr>wm_message_id = message_id, wm_from = from_party, wm_chat = chat, wm_date = date, wm_text = txt\<rparr>
   }"

definition decode_image_message :: "json \<Rightarrow> wire_image_message option" where
  "decode_image_message j = do {
     f \<leftarrow> struct_fields [''message_id'', ''from'', ''chat'', ''date'', ''photo'', ''photo_url'', ''file_url'',
            ''photos'', ''image'', ''attachments'', ''caption'', ''text''] j;
     message_id \<leftarrow> opt_field Some (f ''message_id'');
     from_party \<leftarrow> opt_field decode_party (f ''from'');
     chat \<leftarrow> opt_field decode_party (f ''chat'');
     date \<leftarrow> date_field (f ''date'');
     photo \<leftarrow> opt_field Some (f ''photo'');
     photo_url \<leftarrow> opt_field Some (f ''photo_url'');
     file_url \<leftarrow> opt_field Some (f ''file_url'');
     photos \<leftarrow> opt_field Some (f ''photos'');
     image \<leftarrow> opt_field Some (f ''image'');
     attachments \<leftarrow> opt_field Some (f ''attachments'');
     caption \<leftarrow> opt_field json_as_str (f ''caption'');
     txt \<leftarrow> opt_field json_as_str (f ''text'');
     Some \<lparr>wm_message_id = message_id, wm_from = from_party, wm_chat = chat, wm_date = date, wm_text = txt,
           wm_photo = photo, wm_photo_url = photo_url, wm_file_url = file_url, wm_photos = photos,
           wm_image = image, wm_attachments = attachments, wm_caption = caption\<rparr>
   }"

section \<open>Inbound events\<close>

definition verify_webhook_secret :: "zalo_http_config \<Rightarrow> string option \<Rightarrow> provider_error + unit" where
  "verify_webhook_secret config header_value =
     (let configured = trim (zc_webhook_secret config) in
      if configured = [] then Inl (provider_error_new EForbidden ''webhook secret not configured'')
      else
        let provided = (case header_value of None \<Rightarrow> [] | Some v \<Rightarrow> trim v) in
        if length provided \<noteq> length configured \<or> provided \<noteq> configured
        then Inl (provider_error_new EAuth ''invalid webhook secret'')
        else Inr ())"

definition extract_envelope :: "provider_envelope \<Rightarrow> provider_error + string \<times> json" where
  "extract_envelope outer =
     (let event_name = (case en_event_name outer of None \<Rightarrow> [] | Some n \<Rightarrow> n);
          finish = (\<lambda>event_name message.
            if trim event_name = [] then Inl (provider_invalid ''webhook event_name is required'')
            else case message of
              None \<Rightarrow> Inl (provider_invalid ''message payload required'')
            | Some m \<Rightarrow> Inr (event_name, m))
      in case en_result outer of
           None \<Rightarrow> finish event_name (en_message outer)
         | Some JNull \<Rightarrow> finish event_name (en_message outer)
         | Some result \<Rightarrow>
             (case decode_inner result of
                None \<Rightarrow> Inl (provider_invalid ''invalid webhook result'')
              | Some inner \<Rightarrow>
                  finish
                    (if event_name = [] then (case in_event_name inner of None \<Rightarrow> [] | Some n \<Rightarrow> n) else event_name)
                    (if en_message outer = None then in_message inner else en_message outer)))"

definition provider_time :: "api_libs \<Rightarrow> int \<Rightarrow> instant option" where
  "provider_time L v = (if 100000000000 \<le> v \<or> v \<le> - 100000000000 then al_millis L v else al_secs L v)"

fun id_string :: "json \<Rightarrow> string option" where
  "id_string (JString s) = Some s"
| "id_string (JInt n) = Some (show_int n)"
| "id_string (JFloat s) = Some s"
| "id_string _ = None"

definition id_or_empty :: "json option \<Rightarrow> string" where
  "id_or_empty j = (case Option.bind j id_string of None \<Rightarrow> [] | Some s \<Rightarrow> s)"

definition party_id :: "json option option \<Rightarrow> string" where
  "party_id p = id_or_empty (Option.bind p id)"

definition outside :: "nat \<Rightarrow> string \<Rightarrow> bool" where
  "outside n s \<longleftrightarrow> s = [] \<or> n < char_count s"

definition received_at :: "api_libs \<Rightarrow> instant \<Rightarrow> int \<Rightarrow> provider_error + instant" where
  "received_at L now date =
     (if date \<noteq> 0 then
        (case provider_time L date of
           None \<Rightarrow> Inl (provider_invalid ''message date is out of range'')
         | Some t \<Rightarrow> Inr t)
      else Inr now)"

definition read_envelope :: "api_libs \<Rightarrow> string \<Rightarrow> provider_error + string \<times> json" where
  "read_envelope L body =
     (case Option.bind (al_json L body) decode_envelope of
        None \<Rightarrow> Inl (provider_invalid ''invalid webhook body'')
      | Some outer \<Rightarrow>
          if en_ok outer = Some False then Inl (provider_invalid ''webhook envelope was not ok'')
          else extract_envelope outer)"

definition parse_text_webhook ::
  "api_libs \<Rightarrow> zalo_http_config \<Rightarrow> instant \<Rightarrow> string \<Rightarrow> provider_error + normalized_inbound_text" where
  "parse_text_webhook L config now body =
     (case read_envelope L body of
        Inl e \<Rightarrow> Inl e
      | Inr (event_name, message_value) \<Rightarrow>
          let kind = (if event_name = EVENT_TEXT_RECEIVED then TextReceived else UnsupportedEvent event_name) in
          (case decode_message message_value of
             None \<Rightarrow> Inl (provider_invalid ''invalid message payload'')
           | Some wire \<Rightarrow>
               let event_id = id_or_empty (wm_message_id wire); sender_id = party_id (wm_from wire);
                   chat_id = party_id (wm_chat wire); txt = (case wm_text wire of None \<Rightarrow> [] | Some t \<Rightarrow> t)
               in if kind = TextReceived \<and> outside 256 event_id then Inl (provider_invalid ''message missing message_id'')
                  else if kind = TextReceived \<and> outside 256 sender_id then Inl (provider_invalid ''message missing from.id'')
                  else if kind = TextReceived \<and> outside 256 chat_id then Inl (provider_invalid ''message missing chat.id'')
                  else if kind = TextReceived \<and> (trim txt = [] \<or> 2000 < char_count txt)
                  then Inl (provider_invalid ''text message has invalid length'')
                  else (case received_at L now (wm_date wire) of
                          Inl e \<Rightarrow> Inl e
                        | Inr t \<Rightarrow>
                            Inr \<lparr>nt_provider_scope = zc_provider_scope config, nt_event_id = event_id,
                                 nt_sender_id = sender_id, nt_chat_id = chat_id, nt_text = txt,
                                 nt_received_at = t, nt_kind = kind\<rparr>)))"

text \<open>The first of the nested candidates that gives a value (\<^verbatim>\<open>find_map\<close> and the loops with an early return).\<close>

definition url_keys :: "string list" where
  "url_keys = [''url'', ''photo'', ''photo_url'', ''file_url'', ''image'']"

fun first_some :: "'a option list \<Rightarrow> 'a option" where
  "first_some [] = None"
| "first_some (None # xs) = first_some xs"
| "first_some (Some x # xs) = Some x"

definition non_empty_trim :: "string \<Rightarrow> string option" where
  "non_empty_trim s = (if trim s = [] then None else Some (trim s))"

lemma json_member_smaller: "map_of fs k = Some j \<Longrightarrow> size j < size (JObject fs)"
  by (drule map_of_SomeD) (induction fs, auto)

lemma json_element_smaller: "j \<in> set xs \<Longrightarrow> size j < size (JArray xs)"
  by (induction xs) auto

function extract_url_from_value :: "json \<Rightarrow> string option" where
  "extract_url_from_value (JString url) = non_empty_trim url"
| "extract_url_from_value (JObject fs) =
     first_some (map (\<lambda>k. Option.bind (map_of fs k) extract_url_from_value) url_keys)"
| "extract_url_from_value (JArray items) = first_some (map extract_url_from_value items)"
| "extract_url_from_value JNull = None"
| "extract_url_from_value (JBool b) = None"
| "extract_url_from_value (JInt n) = None"
| "extract_url_from_value (JFloat s) = None"
  by pat_completeness auto
termination
  by (relation "measure size") (auto simp del: json.size dest!: json_member_smaller json_element_smaller)

function extract_caption_from_value :: "json \<Rightarrow> string option" where
  "extract_caption_from_value (JObject fs) =
     (case Option.bind (Option.bind (map_of fs ''caption'') json_as_str) non_empty_trim of
        Some c \<Rightarrow> Some c
      | None \<Rightarrow> first_some (map (\<lambda>k. Option.bind (map_of fs k) extract_caption_from_value) url_keys))"
| "extract_caption_from_value (JArray items) = first_some (map extract_caption_from_value items)"
| "extract_caption_from_value JNull = None"
| "extract_caption_from_value (JBool b) = None"
| "extract_caption_from_value (JInt n) = None"
| "extract_caption_from_value (JFloat s) = None"
| "extract_caption_from_value (JString s) = None"
  by pat_completeness auto
termination
  by (relation "measure size") (auto simp del: json.size dest!: json_member_smaller json_element_smaller)

definition image_values :: "wire_image_message \<Rightarrow> json option list" where
  "image_values wire =
     [wm_photo wire, wm_photo_url wire, wm_file_url wire, wm_photos wire, wm_image wire, wm_attachments wire]"

definition extract_image_url :: "wire_image_message \<Rightarrow> string option" where
  "extract_image_url wire = first_some (map (\<lambda>v. Option.bind v extract_url_from_value) (image_values wire))"

definition extract_caption :: "wire_image_message \<Rightarrow> string" where
  "extract_caption wire =
     (case first_some
             ([Option.bind (wm_caption wire) non_empty_trim, Option.bind (wm_text wire) non_empty_trim]
              @ map (\<lambda>v. Option.bind v extract_caption_from_value) (image_values wire)) of
        None \<Rightarrow> []
      | Some c \<Rightarrow> c)"

definition parse_image_webhook ::
  "api_libs \<Rightarrow> zalo_http_config \<Rightarrow> instant \<Rightarrow> string \<Rightarrow> provider_error + normalized_inbound_image" where
  "parse_image_webhook L config now body =
     (case read_envelope L body of
        Inl e \<Rightarrow> Inl e
      | Inr (name, message_value) \<Rightarrow>
          let event_name = trim name in
          if 256 < char_count event_name then Inl (provider_invalid ''webhook event_name exceeds limit'')
          else
            let kind = (if event_name = EVENT_IMAGE_RECEIVED then KindImageReceived else UnsupportedEvent event_name) in
            (case decode_image_message message_value of
               None \<Rightarrow> Inl (provider_invalid ''invalid message payload'')
             | Some wire \<Rightarrow>
                 let event_id = id_or_empty (wm_message_id wire); sender_id = party_id (wm_from wire);
                     chat_id = party_id (wm_chat wire);
                     image_url = (case extract_image_url wire of None \<Rightarrow> [] | Some u \<Rightarrow> u); caption = extract_caption wire
                 in if outside 256 event_id then Inl (provider_invalid ''message missing message_id'')
                    else if outside 256 sender_id then Inl (provider_invalid ''message missing from.id'')
                    else if outside 256 chat_id then Inl (provider_invalid ''message missing chat.id'')
                    else if kind = KindImageReceived \<and> outside 2048 image_url
                    then Inl (provider_invalid ''image message has invalid photo url'')
                    else if 2000 < char_count caption then Inl (provider_invalid ''image message caption exceeds limit'')
                    else (case received_at L now (wm_date wire) of
                            Inl e \<Rightarrow> Inl e
                          | Inr t \<Rightarrow>
                              Inr \<lparr>ni_provider_scope = zc_provider_scope config, ni_event_id = event_id,
                                   ni_sender_id = sender_id, ni_chat_id = chat_id, ni_image_url = image_url,
                                   ni_caption = caption, ni_received_at = t, ni_kind = kind\<rparr>)))"

section \<open>Sending\<close>

text \<open>
  A transport error is a timeout or a cause, the error's text without its URL. The request yields one when
  the connection fails or when the body cannot be read; otherwise a status and a body.
\<close>

datatype send_transport = SendTimedOut | SendBroken string

record http_reply =
  hr_status :: nat
  hr_body :: "send_transport + string"

definition validate_outbound :: "string \<Rightarrow> string \<Rightarrow> provider_error + unit" where
  "validate_outbound chat_id text =
     (if trim chat_id = [] then Inl (provider_invalid ''provider chat id required'')
      else if trim text = [] then Inl (provider_invalid ''message text required'')
      else if 2000 < char_count text then Inl (provider_invalid ''message text exceeds 2000 characters'')
      else Inr ())"

definition ambiguous :: "string \<Rightarrow> provider_error" where
  "ambiguous m = provider_error_new EProviderAmbiguous m"

definition send_url :: "api_libs \<Rightarrow> zalo_http_config \<Rightarrow> provider_error + string" where
  "send_url L config =
     (case al_send_url L (normalized_api_base config) (''bot'' @ zc_bot_token config) of
        None \<Rightarrow> Inl (provider_invalid ''zalo api base is invalid'')
      | Some None \<Rightarrow> Inl (provider_invalid ''zalo api base cannot be a base URL'')
      | Some (Some u) \<Rightarrow> Inr u)"

fun map_transport_error :: "string \<Rightarrow> string \<Rightarrow> string \<Rightarrow> send_transport \<Rightarrow> provider_error" where
  "map_transport_error token chat_id text SendTimedOut =
     attach_send_context token chat_id text (ambiguous ''sendMessage request timed out'')"
| "map_transport_error token chat_id text (SendBroken cause) =
     attach_send_context token chat_id text
       (provider_error_new EProviderError (''sendMessage request failed: '' @ redact_value cause token chat_id text []))"

definition classify_http_status :: "string \<Rightarrow> string \<Rightarrow> string \<Rightarrow> nat \<Rightarrow> provider_error" where
  "classify_http_status token chat_id text status =
     attach_send_context token chat_id text
       (provider_error_new (if status = 429 then ERateLimited else EProviderError)
         (''zalo api returned HTTP '' @ show_nat status))"

text \<open>\<^verbatim>\<open>SendResponse\<close>: \<^verbatim>\<open>ok\<close> is required, \<^verbatim>\<open>result\<close> has the one optional field \<^verbatim>\<open>message_id\<close>.\<close>

definition decode_send_result :: "json \<Rightarrow> json option option" where
  "decode_send_result j = Option.bind (struct_fields [''message_id''] j) (\<lambda>f. opt_field Some (f ''message_id''))"

definition decode_send_response :: "json \<Rightarrow> (bool \<times> json option option) option" where
  "decode_send_response j = do {
     f \<leftarrow> struct_fields [''ok'', ''result''] j;
     ok \<leftarrow> Option.bind (f ''ok'') as_bool;
     result \<leftarrow> opt_field decode_send_result (f ''result'');
     Some (ok, result)
   }"

definition parse_success_body :: "api_libs \<Rightarrow> string \<Rightarrow> string \<Rightarrow> string \<Rightarrow> string \<Rightarrow> provider_error + string" where
  "parse_success_body L body token chat_id text =
     (case Option.bind (al_json L body) decode_send_response of
        None \<Rightarrow> Inl (attach_send_context token chat_id text (ambiguous ''malformed sendMessage response''))
      | Some (ok, result) \<Rightarrow>
          if \<not> ok then Inl (attach_send_context token chat_id text (ambiguous ''sendMessage response was not ok''))
          else Inr (id_or_empty (Option.bind result id)))"

text \<open>The result, and the request that was sent if one was: its URL, chat and text.\<close>

definition send_message ::
  "api_libs \<Rightarrow> (string \<Rightarrow> json \<Rightarrow> send_transport + http_reply) \<Rightarrow> zalo_http_config \<Rightarrow> string \<Rightarrow> string \<Rightarrow>
   (provider_error + string) \<times> (string \<times> json) option" where
  "send_message L post config chat_id text =
     (case validate_outbound chat_id text of
        Inl e \<Rightarrow> (Inl e, None)
      | Inr _ \<Rightarrow>
          if trim (zc_bot_token config) = [] then (Inl (provider_invalid ''zalo bot token not configured''), None)
          else (case send_url L config of
                  Inl e \<Rightarrow> (Inl (attach_send_context (zc_bot_token config) chat_id text e), None)
                | Inr url \<Rightarrow>
                    let payload = JObject [(''chat_id'', JString chat_id), (''text'', JString text)] in
                    (case post url payload of
                       Inl err \<Rightarrow> Inl (map_transport_error (zc_bot_token config) chat_id text err)
                     | Inr reply \<Rightarrow>
                         (case hr_body reply of
                            Inl err \<Rightarrow> Inl (map_transport_error (zc_bot_token config) chat_id text err)
                          | Inr body \<Rightarrow>
                              if \<not> (200 \<le> hr_status reply \<and> hr_status reply \<le> 299)
                              then Inl (classify_http_status (zc_bot_token config) chat_id text (hr_status reply))
                              else parse_success_body L body (zc_bot_token config) chat_id text),
                     Some (url, payload))))"

end
