(* ===== verification/Provider_Properties.thy ===== *)
theory Provider_Properties
  imports Media Zalo_Api
begin

text \<open>
  Properties of the provider adapters: the addresses a download may contact, the bounds of a download, and
  redaction. The reference for the address filter lists the forbidden ranges by their first and last address.
\<close>

unbundle bit_operations_syntax

section \<open>Prefixes are ranges\<close>

definition in_range :: "nat \<times> nat \<Rightarrow> nat \<Rightarrow> bool" where
  "in_range r n \<longleftrightarrow> fst r \<le> n \<and> n \<le> snd r"

definition dotted :: "nat \<Rightarrow> nat \<Rightarrow> nat \<Rightarrow> nat \<Rightarrow> nat" where
  "dotted a b c d = ((a * 256 + b) * 256 + c) * 256 + d"

definition v4_forbidden_ranges :: "(nat \<times> nat) list" where
  "v4_forbidden_ranges =
     [(dotted 0 0 0 0, dotted 0 255 255 255), (dotted 10 0 0 0, dotted 10 255 255 255),
      (dotted 100 64 0 0, dotted 100 127 255 255), (dotted 127 0 0 0, dotted 127 255 255 255),
      (dotted 169 254 0 0, dotted 169 254 255 255), (dotted 172 16 0 0, dotted 172 31 255 255),
      (dotted 192 0 0 0, dotted 192 0 0 255), (dotted 192 0 2 0, dotted 192 0 2 255),
      (dotted 192 168 0 0, dotted 192 168 255 255), (dotted 198 18 0 0, dotted 198 19 255 255),
      (dotted 198 51 100 0, dotted 198 51 100 255), (dotted 203 0 113 0, dotted 203 0 113 255),
      (dotted 224 0 0 0, dotted 255 255 255 255)]"

definition v6_allowed_ranges :: "(nat \<times> nat) list" where
  "v6_allowed_ranges =
     [(0x20000000000000000000000000000000, 0x2000FFFFFFFFFFFFFFFFFFFFFFFFFFFF),
      (0x20010200000000000000000000000000, 0x20010DB7FFFFFFFFFFFFFFFFFFFFFFFF),
      (0x20010DB9000000000000000000000000, 0x3FFEFFFFFFFFFFFFFFFFFFFFFFFFFFFF),
      (0x3FFF1000000000000000000000000000, 0x3FFFFFFFFFFFFFFFFFFFFFFFFFFFFFFF)]"

text \<open>An address the bot may contact: by its number, whatever the prefix tests were.\<close>

fun globally_routable :: "ip_addr \<Rightarrow> bool" where
  "globally_routable (V4 a) = (\<not> list_ex (\<lambda>r. in_range r (unat a)) v4_forbidden_ranges)"
| "globally_routable (V6 a) =
     (if in_range (0xFFFF00000000, 0xFFFFFFFFFFFF) (unat a)
      then \<not> list_ex (\<lambda>r. in_range r (unat a - 0xFFFF00000000)) v4_forbidden_ranges
      else list_ex (\<lambda>r. in_range r (unat a)) v6_allowed_ranges)"

lemma div_eq_range: "0 < (k :: nat) \<Longrightarrow> n div k = m div k \<longleftrightarrow> m div k * k \<le> n \<and> n < m div k * k + k"
  by (metis add.commute div_nat_eqI div_times_less_eq_dividend dividend_less_div_times mult.commute mult_Suc_right)

lemma unat_drop_bit: "unat (drop_bit k (a :: 'a :: len word)) = unat a div 2 ^ k"
  by (simp add: unsigned_drop_bit_eq drop_bit_eq_div [where 'a = nat] take_bit_nat_eq_self)

lemma ipv4_prefix_range:
  "ipv4_prefix a p len \<longleftrightarrow>
     unat p div 2 ^ (32 - len) * 2 ^ (32 - len) \<le> unat a
     \<and> unat a < unat p div 2 ^ (32 - len) * 2 ^ (32 - len) + 2 ^ (32 - len)"
  unfolding ipv4_prefix_def word_unat_eq_iff unat_drop_bit by (rule div_eq_range) simp

lemma ipv6_prefix_range:
  "ipv6_prefix a p len \<longleftrightarrow>
     unat p div 2 ^ (128 - len) * 2 ^ (128 - len) \<le> unat a
     \<and> unat a < unat p div 2 ^ (128 - len) * 2 ^ (128 - len) + 2 ^ (128 - len)"
  unfolding ipv6_prefix_def word_unat_eq_iff unat_drop_bit by (rule div_eq_range) simp

lemma unat_ipv4: "a < 256 \<Longrightarrow> b < 256 \<Longrightarrow> c < 256 \<Longrightarrow> d < 256 \<Longrightarrow> unat (ipv4 a b c d) = dotted a b c d"
  unfolding ipv4_def dotted_def by (simp only: unsigned_of_nat) (simp add: take_bit_nat_eq_self)

lemmas v4_prefixes = ipv4_prefix_range unat_ipv4 dotted_def in_range_def

lemma forbidden_v4_upper: "unat (a :: 32 word) \<le> 4294967295"
  using unsigned_less [where 'a = nat, of a] by simp

lemma v4_prefix_ranges:
  "ipv4_prefix a (ipv4 0 0 0 0) 8 = in_range (dotted 0 0 0 0, dotted 0 255 255 255) (unat a)"
  "ipv4_prefix a (ipv4 10 0 0 0) 8 = in_range (dotted 10 0 0 0, dotted 10 255 255 255) (unat a)"
  "ipv4_prefix a (ipv4 100 64 0 0) 10 = in_range (dotted 100 64 0 0, dotted 100 127 255 255) (unat a)"
  "ipv4_prefix a (ipv4 127 0 0 0) 8 = in_range (dotted 127 0 0 0, dotted 127 255 255 255) (unat a)"
  "ipv4_prefix a (ipv4 169 254 0 0) 16 = in_range (dotted 169 254 0 0, dotted 169 254 255 255) (unat a)"
  "ipv4_prefix a (ipv4 172 16 0 0) 12 = in_range (dotted 172 16 0 0, dotted 172 31 255 255) (unat a)"
  "ipv4_prefix a (ipv4 192 0 0 0) 24 = in_range (dotted 192 0 0 0, dotted 192 0 0 255) (unat a)"
  "ipv4_prefix a (ipv4 192 0 2 0) 24 = in_range (dotted 192 0 2 0, dotted 192 0 2 255) (unat a)"
  "ipv4_prefix a (ipv4 192 168 0 0) 16 = in_range (dotted 192 168 0 0, dotted 192 168 255 255) (unat a)"
  "ipv4_prefix a (ipv4 198 18 0 0) 15 = in_range (dotted 198 18 0 0, dotted 198 19 255 255) (unat a)"
  "ipv4_prefix a (ipv4 198 51 100 0) 24 = in_range (dotted 198 51 100 0, dotted 198 51 100 255) (unat a)"
  "ipv4_prefix a (ipv4 203 0 113 0) 24 = in_range (dotted 203 0 113 0, dotted 203 0 113 255) (unat a)"
  "ipv4_prefix a (ipv4 224 0 0 0) 4 = in_range (dotted 224 0 0 0, dotted 239 255 255 255) (unat a)"
  "ipv4_prefix a (ipv4 240 0 0 0) 4 = in_range (dotted 240 0 0 0, dotted 255 255 255 255) (unat a)"
  by (simp_all add: v4_prefixes less_Suc_eq_le flip: less_Suc_eq_le)

lemma forbidden_v4_ranges: "is_forbidden_v4 a \<longleftrightarrow> list_ex (\<lambda>r. in_range r (unat a)) v4_forbidden_ranges"
proof -
  have points: "a = 0 \<Longrightarrow> in_range (dotted 0 0 0 0, dotted 0 255 255 255) (unat a)"
    "a = ipv4 169 254 169 254 \<Longrightarrow> in_range (dotted 169 254 0 0, dotted 169 254 255 255) (unat a)"
    "a = ipv4 255 255 255 255 \<Longrightarrow> in_range (dotted 240 0 0 0, dotted 255 255 255 255) (unat a)"
    by (simp_all add: unat_ipv4 dotted_def in_range_def)
  have top: "in_range (dotted 224 0 0 0, dotted 255 255 255 255) (unat a) \<longleftrightarrow>
      in_range (dotted 224 0 0 0, dotted 239 255 255 255) (unat a) \<or> in_range (dotted 240 0 0 0, dotted 255 255 255 255) (unat a)"
    unfolding in_range_def dotted_def by simp arith
  show ?thesis
    unfolding is_forbidden_v4_def v4_is_private_def v4_is_loopback_def v4_is_link_local_def v4_is_multicast_def
      v4_prefix_ranges v4_forbidden_ranges_def list_ex_Nil_iff list_ex_Cons_iff simp_thms top
    using points by blast
qed

section \<open>IPv6\<close>

lemma unat_ipv6_head: "a < 65536 \<Longrightarrow> b < 65536 \<Longrightarrow> unat (ipv6_head a b) = (a * 65536 + b) * 2 ^ 96"
  unfolding ipv6_head_def by (simp only: unsigned_of_nat) (simp add: take_bit_nat_eq_self)

lemmas v6_prefixes = ipv6_prefix_range unat_ipv6_head in_range_def

lemma mapped_range: "drop_bit 32 (a :: 128 word) = 0xFFFF \<longleftrightarrow> in_range (0xFFFF00000000, 0xFFFFFFFFFFFF) (unat a)"
proof -
  have "drop_bit 32 a = 0xFFFF \<longleftrightarrow> unat a div 2 ^ 32 = 0xFFFF"
    by (simp add: word_unat_eq_iff unat_drop_bit)
  also have "\<dots> \<longleftrightarrow> in_range (0xFFFF00000000, 0xFFFFFFFFFFFF) (unat a)"
    unfolding in_range_def by simp arith
  finally show ?thesis .
qed

lemma unat_mapped: "to_ipv4_mapped a = Some m \<longleftrightarrow>
    in_range (0xFFFF00000000, 0xFFFFFFFFFFFF) (unat a) \<and> unat m = unat a - 0xFFFF00000000"
proof -
  have u: "unat (ucast a :: 32 word) = unat a - 0xFFFF00000000" if "in_range (0xFFFF00000000, 0xFFFFFFFFFFFF) (unat a)"
  proof -
    define k where "k = unat a - 0xFFFF * 2 ^ 32"
    have k: "unat a = k + 0xFFFF * 2 ^ 32" using that by (simp add: k_def in_range_def)
    with that have "k < 2 ^ 32" by (simp add: in_range_def)
    then have "(k + 0xFFFF * 2 ^ 32) mod 2 ^ 32 = k" by (simp only: mod_mult_self1 mod_less)
    with k show ?thesis by (simp add: unsigned_ucast_eq take_bit_nat_def)
  qed
  show ?thesis
    unfolding to_ipv4_mapped_def mapped_range by (auto simp: u word_unat_eq_iff)
qed

lemma v6_prefix_ranges:
  "ipv6_prefix a (ipv6_head 0xFF00 0) 8 = in_range (0xFF000000000000000000000000000000, 0xFFFFFFFFFFFFFFFFFFFFFFFFFFFFFFFF) (unat a)"
  "ipv6_prefix a (ipv6_head 0xFC00 0) 7 = in_range (0xFC000000000000000000000000000000, 0xFDFFFFFFFFFFFFFFFFFFFFFFFFFFFFFF) (unat a)"
  "ipv6_prefix a (ipv6_head 0xFE80 0) 10 = in_range (0xFE800000000000000000000000000000, 0xFEBFFFFFFFFFFFFFFFFFFFFFFFFFFFFF) (unat a)"
  "ipv6_prefix a (ipv6_head 0xFEC0 0) 10 = in_range (0xFEC00000000000000000000000000000, 0xFEFFFFFFFFFFFFFFFFFFFFFFFFFFFFFF) (unat a)"
  "ipv6_prefix a (ipv6_head 0x100 0) 64 = in_range (0x1000000000000000000000000000000, 0x100000000000000FFFFFFFFFFFFFFFF) (unat a)"
  "ipv6_prefix a (ipv6_head 0x2001 0xDB8) 32 = in_range (0x20010DB8000000000000000000000000, 0x20010DB8FFFFFFFFFFFFFFFFFFFFFFFF) (unat a)"
  "ipv6_prefix a (ipv6_head 0x3FFF 0) 20 = in_range (0x3FFF0000000000000000000000000000, 0x3FFF0FFFFFFFFFFFFFFFFFFFFFFFFFFF) (unat a)"
  "ipv6_prefix a (ipv6_head 0x2001 0) 23 = in_range (0x20010000000000000000000000000000, 0x200101FFFFFFFFFFFFFFFFFFFFFFFFFF) (unat a)"
  "ipv6_prefix a (ipv6_head 0x2000 0) 3 = in_range (0x20000000000000000000000000000000, 0x3FFFFFFFFFFFFFFFFFFFFFFFFFFFFFFF) (unat a)"
  by (simp_all add: v6_prefixes less_Suc_eq_le flip: less_Suc_eq_le)

lemma forbidden_v6_ranges:
  assumes "to_ipv4_mapped a = None"
  shows "is_forbidden_v6 a \<longleftrightarrow> \<not> list_ex (\<lambda>r. in_range r (unat a)) v6_allowed_ranges"
proof -
  have points: "a = 1 \<longleftrightarrow> unat a = 1" "a = 0 \<longleftrightarrow> unat a = 0" by (simp_all add: word_unat_eq_iff)
  show ?thesis
    unfolding is_forbidden_v6_def assms option.case points v6_allowed_ranges_def v6_prefix_ranges in_range_def
      list_ex_Nil_iff list_ex_Cons_iff fst_conv snd_conv
    by presburger
qed

lemma forbidden_iff: "is_forbidden_ip ip \<longleftrightarrow> \<not> globally_routable ip"
proof (cases ip)
  case (V6 a)
  show ?thesis
  proof (cases "to_ipv4_mapped a")
    case (Some m)
    then show ?thesis using V6 unat_mapped [of a m] by (simp add: is_forbidden_v6_def forbidden_v4_ranges)
  next
    case None
    then have "\<not> in_range (0xFFFF00000000, 0xFFFFFFFFFFFF) (unat a)"
      unfolding to_ipv4_mapped_def mapped_range by (simp split: if_splits)
    with V6 None show ?thesis by (simp add: forbidden_v6_ranges)
  qed
qed (simp add: forbidden_v4_ranges)

text \<open>
C25: the address filter of a download, a list of prefix tests, forbids exactly the addresses outside the public
  ranges: every IPv4 address in one of thirteen ranges, every IPv4-mapped address of those, and every other IPv6
  address outside 2000::/3 or in the blocks reserved inside it.
\<close>

theorem address_filter_is_public_ranges: "is_forbidden_ip ip \<longleftrightarrow> \<not> globally_routable ip"
  by (rule forbidden_iff)

section \<open>Downloads\<close>

text \<open>The connections a policy for production may open.\<close>

definition guarded :: "media_policy \<Rightarrow> connection \<Rightarrow> bool" where
  "guarded pol c \<longleftrightarrow>
     u_scheme (cn_url c) = ''https'' \<and> u_username (cn_url c) = [] \<and> u_password (cn_url c) = None
     \<and> (\<exists>host. u_host (cn_url c) = Some host \<and> host_allowed host (mp_host_suffixes pol))
     \<and> (u_port (cn_url c) = None \<or> u_port (cn_url c) = Some 443)
     \<and> cn_port c = url_port (cn_url c) \<and> cn_addrs c \<noteq> [] \<and> list_all globally_routable (cn_addrs c)"

definition production_like :: "media_policy \<Rightarrow> bool" where
  "production_like pol \<longleftrightarrow> mp_require_https pol \<and> \<not> mp_permit_private pol \<and> mp_allowed_port pol = None"

lemma valid_urlD:
  assumes "validate_media_url P pol u url = Inr ()" and "production_like pol"
  shows "u_scheme u = ''https''" "u_username u = []" "u_password u = None" "u_port u = None \<or> u_port u = Some 443"
    "\<exists>host. u_host u = Some host \<and> host_allowed host (mp_host_suffixes pol)"
  using assms
  by (auto simp: validate_media_url_def production_like_def port_allowed_def media_fail_def split: if_splits option.splits)

lemma hop_guarded:
  assumes "hop ME pol url k u = (r, log)" and "production_like pol"
  shows "length log \<le> 1" "list_all (guarded pol) log"
  using assms valid_urlD [OF _ assms(2), of "me_parse_ip ME" u url]
  by (auto simp: hop_def media_fail_def guarded_def pin_resolved_addrs_def production_like_def forbidden_iff list_all_iff list_ex_iff
      split: if_splits sum.splits option.splits dns_answer.splits)

lemma read_body_bounded: "length body \<le> limit \<Longrightarrow> read_body url limit body es = Inr b \<Longrightarrow> length b \<le> limit"
  by (induction url limit body es rule: read_body.induct) (auto simp: media_fail_def split: if_splits)

lemma finish_download_bounded: "finish_download pol url r = Inr m \<Longrightarrow> length (md_bytes m) \<le> mp_max_bytes pol"
  using read_body_bounded [of "[]" "mp_max_bytes pol" url "mr_body r"]
  by (cases "read_body url (mp_max_bytes pol) [] (mr_body r)")
    (auto simp: finish_download_def media_fail_def split: if_splits)

declare download_loop.simps [simp del]

lemma download_loop_guarded:
  assumes p: "production_like pol"
  shows "download_loop ME pol url k left u = (res, log) \<Longrightarrow>
    length log \<le> left + 1 \<and> list_all (guarded pol) log \<and> (\<forall>m. res = Inr m \<longrightarrow> length (md_bytes m) \<le> mp_max_bytes pol)"
proof (induction left arbitrary: k u res log)
  case 0
  obtain r l where h: "hop ME pol url k u = (r, l)" by fastforce
  with 0 hop_guarded [OF h p] show ?case
    by (subst (asm) download_loop.simps) (auto simp: media_fail_def dest: finish_download_bounded split: sum.splits if_splits)
next
  case (Suc left)
  obtain r l where h: "hop ME pol url k u = (r, l)" by fastforce
  with Suc hop_guarded [OF h p] show ?case
    by (subst (asm) (2) download_loop.simps)
      (fastforce simp: media_fail_def dest: finish_download_bounded split: sum.splits if_splits prod.splits)
qed

text \<open>
C24: a download under a production policy opens at most one connection more than it may follow redirects; each goes over
  HTTPS without user information to an allow-listed host, on the default port or 443, to the addresses that were resolved and checked,
  all of them public; and a body it returns is no longer than the policy's limit.
\<close>

theorem media_fetches_are_guarded:
  assumes "production_like pol" and "download_media ME pol url = (res, log)"
  shows "length log \<le> mp_max_redirects pol + 1 \<and> list_all (guarded pol) log
     \<and> (\<forall>m. res = Inr m \<longrightarrow> length (md_bytes m) \<le> mp_max_bytes pol)"
  using assms download_loop_guarded [OF assms(1), of ME url 0 "mp_max_redirects pol"]
  by (auto simp: download_media_def media_fail_def split: if_splits option.splits)

text \<open>Two hops: the first answer redirects, the second carries three bytes.\<close>

definition sample_media_url :: url where
  "sample_media_url = \<lparr>u_scheme = ''https'', u_username = [], u_password = None, u_host = Some ''a.zdn.vn'', u_port = None,
     u_default_port = Some 443, u_rest = ''/x.jpg''\<rparr>"

definition sample_media_env :: media_env where
  "sample_media_env =
     \<lparr>me_parse_url = (\<lambda>s. Some sample_media_url), me_join = (\<lambda>u s. Some (u\<lparr>u_rest := s\<rparr>)), me_parse_ip = (\<lambda>h. None),
      me_elapsed = (\<lambda>k. k), me_resolve = (\<lambda>k h. DnsAnswer [V4 (ipv4 8 8 8 8)]), me_elapsed_later = (\<lambda>k. k), me_client_ok = (\<lambda>k. True),
      me_fetch = (\<lambda>k u as p. Inr \<lparr>mr_status = (if k = 0 then 302 else 200), mr_location = Some ''/y.jpg'', mr_content_length = Some 3,
        mr_length_header = Some ''3'', mr_content_type = Some ''image/jpeg'', mr_body = [Chunk ''ab'', Chunk ''c'']\<rparr>)\<rparr>"

lemma sample_media_parts:
  "trim ''https://a.zdn.vn/x.jpg'' = ''https://a.zdn.vn/x.jpg''" "trim ''/y.jpg'' = ''/y.jpg''" "trim ''image/jpeg'' = ''image/jpeg''"
  "host_allowed ''a.zdn.vn'' [''zaloplatforms.com'', ''zaloapp.com'', ''zdn.vn'', ''zadn.vn'', ''zapps.me'']"
  by code_simp+

lemma sample_media_counts:
  "char_count ''https://a.zdn.vn/x.jpg'' = 22" "char_count ''image/jpeg'' = 10" "\<not> is_forbidden_ip (V4 (ipv4 8 8 8 8))"
  by (simp_all add: char_count_def is_continuation_def byte_def forbidden_v4_ranges v4_forbidden_ranges_def unat_ipv4 dotted_def
      in_range_def)

lemma sample_length: "parse_u64 ''3'' = Some 3"
  by (simp add: parse_u64_def is_ascii_digit_def byte_def digit_val_def)

lemma sample_download:
  "map_prod (map_sum pe_class md_bytes) (map (\<lambda>c. u_rest (cn_url c)))
     (download_media sample_media_env production_default ''https://a.zdn.vn/x.jpg'')
     = (Inr ''abc'', [''/x.jpg'', ''/y.jpg''])"
  using sample_media_parts sample_media_counts sample_length
  by (simp add: download_media_def download_loop.simps hop_def sample_media_env_def production_default_def validate_media_url_def
      sample_media_url_def port_allowed_def pin_resolved_addrs_def redirect_target_def finish_download_def over_limit_def
      media_content_type_def not_less numeral_3_eq_3)

theorem media_fetches_are_guarded_witness:
  "\<exists>res log. download_media sample_media_env production_default ''https://a.zdn.vn/x.jpg'' = (res, log)
     \<and> map_sum pe_class md_bytes res = Inr ''abc'' \<and> length log = 2 \<and> list_all (guarded production_default) log"
proof -
  obtain res log where d: "download_media sample_media_env production_default ''https://a.zdn.vn/x.jpg'' = (res, log)" by fastforce
  have "production_like production_default" by (simp add: production_like_def production_default_def)
  from media_fetches_are_guarded [OF this d] sample_download d show ?thesis by (auto dest: arg_cong [of _ _ length])
qed

section \<open>Redaction\<close>

text \<open>A secret the marker cannot spell: it has no bracket and is not a piece of the word between them.\<close>

definition hideable :: "string \<Rightarrow> bool" where
  "hideable n \<longleftrightarrow> n \<noteq> [] \<and> CHR ''['' \<notin> set n \<and> CHR '']'' \<notin> set n \<and> \<not> contains_str ''REDACTED'' n"

lemma contains_str_iff: "contains_str s n \<longleftrightarrow> (\<exists>a b. s = a @ n @ b)"
proof
  assume "contains_str s n"
  then obtain i where "find_str s n = Some i" unfolding contains_str_def by blast
  from find_str_Some [OF this] obtain t where "drop i s = n @ t" unfolding starts_with_append by blast
  then show "\<exists>a b. s = a @ n @ b" by (metis append_take_drop_id)
next
  have "find_str (n @ b) n \<noteq> None" for b
    using append_eq_conv_conj [of n b "n @ b"] by (cases "n @ b") (simp_all add: starts_with_def)
  then have "find_str (a @ n @ b) n \<noteq> None" for a b by (induction a) auto
  then show "\<exists>a b. s = a @ n @ b \<Longrightarrow> contains_str s n" unfolding contains_str_def by blast
qed

abbreviation marker :: string where
  "marker \<equiv> ''[REDACTED]''"

declare replace_str.simps [simp del]

lemma replace_prefix:
  assumes "CHR ''['' \<notin> set n"
  shows "starts_with (replace_str f marker s) n \<Longrightarrow> starts_with s n"
  using assms
proof (induction f marker s arbitrary: n rule: replace_str.induct)
  case (2 f c cs)
  show ?case
  proof (cases n)
    case (Cons d n')
    with 2 show ?thesis
      by (subst (asm) replace_str.simps) (auto simp: starts_with_append split: if_splits)
  qed (simp add: starts_with_append)
qed (simp add: replace_str.simps)

lemma bracket_overlap:
  assumes M: "M = l # W @ [r]" and n: "l \<notin> set n" "r \<notin> set n" "n \<noteq> []" and W: "\<And>x y. W \<noteq> x @ n @ y"
    and e: "M @ t = a @ n @ b"
  shows "\<exists>a'. a = M @ a' \<and> t = a' @ n @ b"
proof -
  from e obtain m where m: "M = a @ m \<and> m @ t = n @ b \<or> M @ m = a \<and> t = m @ n @ b"
    unfolding append_eq_append_conv2 by blast
  moreover have False if split: "M = a @ m" "m @ t = n @ b" "m \<noteq> []"
  proof -
    have last: "last m = r" using split(1,3) M by (metis last.simps last_appendR snoc_eq_iff_butlast)
    then have "r \<in> set m" using split(3) last_in_set by fastforce
    moreover obtain k where "m = n @ k \<or> n = m @ k" using split(2) unfolding append_eq_append_conv2 by blast
    ultimately have k: "m = n @ k" using n(2) by auto
    with last n(2,3) have "k \<noteq> []" by (metis append_Nil2 last_in_set)
    with last k obtain k' where k': "k = k' @ [r]" by (metis append_butlast_last_id last_appendR)
    have "a \<noteq> []" using split(1) M k n(1,3) by (cases n) auto
    then obtain a' where "a = l # a'" using split(1) M by (cases a) auto
    with split(1) M k k' have "W = a' @ n @ k'" by simp
    with W show False by blast
  qed
  ultimately show ?thesis using e by (metis append_Nil append_Nil2)
qed

lemma marker_overlap:
  assumes "hideable n" and "marker @ t = a @ n @ b"
  shows "\<exists>a'. a = marker @ a' \<and> t = a' @ n @ b"
  using assms by (intro bracket_overlap [where l = "CHR ''[''" and r = "CHR '']''" and W = "''REDACTED''"])
    (auto simp: hideable_def contains_str_iff)

lemma replace_contains:
  assumes n: "hideable n"
  shows "contains_str (replace_str f marker s) n \<Longrightarrow> contains_str s n"
proof (induction f marker s rule: replace_str.induct)
  case (2 f c cs)
  show ?case
  proof (cases "f \<noteq> [] \<and> starts_with (c # cs) f")
    case True
    with 2(3) obtain a b where "marker @ replace_str f marker (drop (length f) (c # cs)) = a @ n @ b"
      by (subst (asm) replace_str.simps) (auto simp: contains_str_iff)
    then obtain a' where "replace_str f marker (drop (length f) (c # cs)) = a' @ n @ b" using marker_overlap [OF n] by metis
    with 2(1) True have "contains_str (drop (length f) (c # cs)) n" by (auto simp: contains_str_iff)
    then show ?thesis unfolding contains_str_iff by (metis append_assoc append_take_drop_id)
  next
    case False
    with 2(3) obtain a b where ab: "c # replace_str f marker cs = a @ n @ b" "replace_str f marker (c # cs) = a @ n @ b"
      by (subst (asm) replace_str.simps) (auto simp: contains_str_iff replace_str.simps)
    show ?thesis
    proof (cases a)
      case Nil
      with ab(2) have "starts_with (replace_str f marker (c # cs)) n" by (auto simp: starts_with_append)
      with n have "starts_with (c # cs) n" unfolding hideable_def using replace_prefix by blast
      then show ?thesis unfolding contains_str_iff starts_with_append by (metis append_Nil)
    next
      case (Cons d a')
      with ab 2(2) [OF False] have "contains_str cs n" by (auto simp: contains_str_iff)
      then show ?thesis unfolding contains_str_iff by (metis append_Cons)
    qed
  qed
qed (simp add: replace_str.simps)

lemma replaced_absent:
  assumes n: "hideable n"
  shows "\<not> contains_str (replace_str n marker s) n"
  using n
proof (induction n marker s rule: replace_str.induct)
  case (1 n)
  then show ?case by (auto simp: replace_str.simps contains_str_iff hideable_def)
next
  case (2 n c cs)
  show ?case
  proof
    assume c: "contains_str (replace_str n marker (c # cs)) n"
    show False
    proof (cases "n \<noteq> [] \<and> starts_with (c # cs) n")
      case True
      with c obtain a b where "marker @ replace_str n marker (drop (length n) (c # cs)) = a @ n @ b"
        by (subst (asm) replace_str.simps) (auto simp: contains_str_iff)
      from marker_overlap [OF 2(3) this] 2(1) [OF True 2(3)] show False unfolding contains_str_iff by blast
    next
      case False
      with c obtain a b where ab: "c # replace_str n marker cs = a @ n @ b" "replace_str n marker (c # cs) = a @ n @ b"
        by (subst (asm) replace_str.simps) (auto simp: contains_str_iff replace_str.simps)
      show False
      proof (cases a)
        case Nil
        with ab(2) have "starts_with (replace_str n marker (c # cs)) n" by (auto simp: starts_with_append)
        with False 2(3) replace_prefix show False unfolding hideable_def by blast
      next
        case (Cons d a')
        with ab(1) 2(2) [OF False 2(3)] show False by (auto simp: contains_str_iff)
      qed
    qed
  qed
qed

lemma redact_needle_absent:
  assumes "hideable n"
  shows "\<not> contains_str (redact_needle n out) n" and "\<not> contains_str out n \<Longrightarrow> \<not> contains_str (redact_needle m out) n"
proof -
  show "\<not> contains_str (redact_needle n out) n"
    using replaced_absent [OF assms] by (cases "contains_str out n") (simp_all add: redact_needle_def)
  show "\<not> contains_str (redact_needle m out) n" if "\<not> contains_str out n"
    using that replace_contains [OF assms, of m out] by (cases "contains_str out m") (auto simp only: redact_needle_def if_True if_False)
qed

lemma redact_fold_keeps: "hideable n \<Longrightarrow> \<not> contains_str out n \<Longrightarrow> \<not> contains_str (fold redact_needle ns out) n"
  by (induction ns arbitrary: out) (simp_all add: redact_needle_absent(2))

lemma redact_fold_removes: "hideable n \<Longrightarrow> n \<in> set ns \<Longrightarrow> \<not> contains_str (fold redact_needle ns out) n"
proof (induction ns arbitrary: out)
  case (Cons m ns)
  then show ?case by (cases "m = n") (simp_all add: redact_fold_keeps redact_needle_absent(1))
qed simp

lemma redact_value_absent:
  assumes n: "hideable n" "n \<in> {token, chat_id, text, url}"
  shows "\<not> contains_str (redact_value v token chat_id text url) n"
proof (cases "v = []")
  case True
  with n(1) show ?thesis by (auto simp: redact_value_def contains_str_iff hideable_def)
next
  case False
  have "n \<in> set (filter (\<lambda>n. n \<noteq> []) [token, chat_id, text, url])" using n by (auto simp: hideable_def)
  moreover define out where "out = fold redact_needle (filter (\<lambda>n. n \<noteq> []) [token, chat_id, text, url]) v"
  ultimately have "\<not> contains_str out n" using redact_fold_removes n(1) by blast
  then show ?thesis
    using False unfolding redact_value_def Let_def out_def [symmetric] by (simp add: redact_needle_absent(2) [OF n(1)])
qed

lemma transport_error_context:
  "pe_token (map_transport_error token chat_id text err) = token \<and> pe_chat_id (map_transport_error token chat_id text err) = chat_id
     \<and> pe_text (map_transport_error token chat_id text err) = text"
  by (cases err) (simp_all add: attach_send_context_def)

lemma send_error_context:
  assumes "send_message L post config chat_id text = (Inl e, sent)"
    and "validate_outbound chat_id text = Inr ()" and "trim (zc_bot_token config) \<noteq> []"
  shows "pe_token e = zc_bot_token config \<and> pe_chat_id e = chat_id \<and> pe_text e = text"
  using assms
  by (auto simp: send_message_def Let_def parse_success_body_def classify_http_status_def attach_send_context_def
      transport_error_context split: sum.splits if_splits option.splits)

text \<open>
C26: whatever \<^verbatim>\<open>sendMessage\<close> meets once its arguments are valid, from a base URL that does not parse to a transport failure
  that quotes the request, the message of the error it returns contains neither the bot token nor the chat
  id nor the text, provided the secret has no bracket and is no part of the word the marker carries.
\<close>

theorem send_errors_hide_secrets:
  assumes "send_message L post config chat_id text = (Inl e, sent)"
    and "validate_outbound chat_id text = Inr ()" and "trim (zc_bot_token config) \<noteq> []"
    and "secret \<in> {zc_bot_token config, chat_id, text}" and "hideable secret"
  shows "\<not> contains_str (redacted_message e) secret"
  using send_error_context [OF assms(1-3)] redact_value_absent [OF assms(5), of "pe_token e" "pe_chat_id e" "pe_text e"] assms(4)
  unfolding redacted_message_def by auto

definition sample_zalo_config :: zalo_http_config where
  "sample_zalo_config = zalo_http_config_default\<lparr>zc_bot_token := ''k9:z'', zc_webhook_secret := ''s3cret''\<rparr>"

definition sample_api_libs :: api_libs where
  "sample_api_libs = \<lparr>al_json = (\<lambda>s. None), al_secs = (\<lambda>t. Some (secs t)), al_millis = (\<lambda>t. Some (t * 1000)),
     al_send_url = (\<lambda>base seg. Some (Some (base @ ''/'' @ seg @ ''/sendMessage'')))\<rparr>"

definition sample_send :: "(provider_error + string) \<times> (string \<times> json) option" where
  "sample_send = send_message sample_api_libs (\<lambda>url j. Inl (SendBroken (''refused: '' @ url))) sample_zalo_config ''c1'' ''hi''"

lemma sample_send_valid: "validate_outbound ''c1'' ''hi'' = Inr ()" "trim (zc_bot_token sample_zalo_config) \<noteq> []" "hideable ''k9:z''"
proof -
  have "trim ''c1'' = ''c1''" "trim ''hi'' = ''hi''" "trim ''k9:z'' = ''k9:z''" by code_simp+
  then show "validate_outbound ''c1'' ''hi'' = Inr ()" "trim (zc_bot_token sample_zalo_config) \<noteq> []"
    by (simp_all add: validate_outbound_def char_count_def is_continuation_def byte_def sample_zalo_config_def)
  show "hideable ''k9:z''" by code_simp
qed

lemma sample_send_fails: "isl (fst sample_send)"
  unfolding sample_send_def send_message_def send_url_def by (simp add: sample_send_valid sample_api_libs_def)

theorem send_errors_hide_secrets_witness:
  "\<exists>e. fst sample_send = Inl e \<and> \<not> contains_str (redacted_message e) ''k9:z''"
proof -
  obtain e where e: "sample_send = (Inl e, snd sample_send)" using sample_send_fails by (cases "fst sample_send") (auto simp: prod_eq_iff)
  have "''k9:z'' \<in> {zc_bot_token sample_zalo_config, ''c1'', ''hi''}" by (simp add: sample_zalo_config_def)
  from send_errors_hide_secrets [OF e [unfolded sample_send_def] sample_send_valid(1,2) this sample_send_valid(3)]
  show ?thesis using e by (metis fst_conv)
qed

end
