(* ===== verification/Webhook.thy ===== *)
theory Webhook
  imports Zalo_Api Ingress_Effects "HOL-Library.Word"
begin

text \<open>
  The HTTP side: the webhook and the health endpoints (\<^verbatim>\<open>src/http/mod.rs\<close>), the readiness flags
  (\<^verbatim>\<open>src/health/mod.rs\<close>) and the counters of \<^verbatim>\<open>src/metrics/mod.rs\<close> (64-bit, wrapping). A response is its
  status and the value of its \<^verbatim>\<open>status\<close> field. Header values that are not visible ASCII read as absent.
\<close>

section \<open>Readiness and counters\<close>

record readiness =
  config_valid :: bool
  db_reachable :: bool
  migrations_current :: bool
  shutting_down :: bool

definition new_ready :: readiness where
  "new_ready = \<lparr>config_valid = True, db_reachable = False, migrations_current = False, shutting_down = False\<rparr>"

definition mark_shutting_down :: "readiness \<Rightarrow> readiness" where
  "mark_shutting_down r = r\<lparr>shutting_down := True\<rparr>"

definition is_ready :: "readiness \<Rightarrow> bool" where
  "is_ready r \<longleftrightarrow> config_valid r \<and> db_reachable r \<and> migrations_current r \<and> \<not> shutting_down r"

definition live_now :: "readiness \<Rightarrow> bool" where
  "live_now r \<longleftrightarrow> \<not> shutting_down r"

record metrics =
  webhook_accepted_total :: "64 word"
  webhook_duplicate_total :: "64 word"
  webhook_unauthorized_total :: "64 word"

definition inc_webhook_accepted :: "metrics \<Rightarrow> metrics" where
  "inc_webhook_accepted m = m\<lparr>webhook_accepted_total := webhook_accepted_total m + 1\<rparr>"

definition inc_webhook_duplicate :: "metrics \<Rightarrow> metrics" where
  "inc_webhook_duplicate m = m\<lparr>webhook_duplicate_total := webhook_duplicate_total m + 1\<rparr>"

definition inc_webhook_unauthorized :: "metrics \<Rightarrow> metrics" where
  "inc_webhook_unauthorized m = m\<lparr>webhook_unauthorized_total := webhook_unauthorized_total m + 1\<rparr>"

section \<open>The service\<close>

record webhook_service =
  ws_config :: zalo_http_config
  ws_policy :: ingress_policy
  ws_has_receipt :: bool
  ws_allowed_senders :: "string list"
  ws_max_body_bytes :: nat

record http_request =
  hq_secret :: "string option"
  hq_content_type :: "string option"
  hq_body :: "string option"

type_synonym http_response = "nat \<times> string"

definition is_json_type :: "string option \<Rightarrow> bool" where
  "is_json_type v =
     (case v of
        None \<Rightarrow> False
      | Some t \<Rightarrow> to_ascii_lowercase (trim (hd (split_char (CHR '';'') t))) = ''application/json'')"

text \<open>A body that breaks off is \<open>None\<close>; one over the limit is refused while it is read.\<close>

definition read_request_body :: "nat \<Rightarrow> http_request \<Rightarrow> string option" where
  "read_request_body limit q = (case hq_body q of None \<Rightarrow> None | Some b \<Rightarrow> if limit < length b then None else Some b)"

definition ingress_response :: "ingress_error + ingress_outcome \<Rightarrow> http_response" where
  "ingress_response r =
     (case r of
        Inr (InAccepted i) \<Rightarrow> (200, ''accepted'')
      | Inr (InDuplicate i) \<Rightarrow> (200, ''duplicate'')
      | Inr (InModeRejected i) \<Rightarrow> (409, ''mode_rejected'')
      | Inl e \<Rightarrow> (500, ''internal_error''))"

definition count_outcome :: "ingress_error + ingress_outcome \<Rightarrow> metrics \<Rightarrow> metrics" where
  "count_outcome r m =
     (case r of
        Inr (InAccepted i) \<Rightarrow> inc_webhook_accepted m
      | Inr (InDuplicate i) \<Rightarrow> inc_webhook_duplicate m
      | _ \<Rightarrow> m)"

definition text_request :: "webhook_service \<Rightarrow> normalized_inbound_text \<Rightarrow> ingress_request" where
  "text_request svc e =
     \<lparr>iq_source = SrcWebhook, iq_provider_scope = nt_provider_scope e, iq_provider_event_id = nt_event_id e,
      iq_provider_sender_id = nt_sender_id e, iq_provider_chat_id = nt_chat_id e,
      iq_sender_allowed = (nt_sender_id e \<in> set (ws_allowed_senders svc)), iq_user_text = nt_text e,
      iq_observed_at = nt_received_at e\<rparr>"

definition image_request :: "webhook_service \<Rightarrow> normalized_inbound_image \<Rightarrow> ingress_request" where
  "image_request svc e =
     \<lparr>iq_source = SrcWebhook, iq_provider_scope = ni_provider_scope e, iq_provider_event_id = ni_event_id e,
      iq_provider_sender_id = ni_sender_id e, iq_provider_chat_id = ni_chat_id e,
      iq_sender_allowed = (ni_sender_id e \<in> set (ws_allowed_senders svc)), iq_user_text = ni_caption e,
      iq_observed_at = ni_received_at e\<rparr>"

text \<open>
  What the handler does with the bytes of an authenticated JSON request: which ingress call it makes, if any,
  and how it answers otherwise. \<open>now\<close> is \<^verbatim>\<open>Utc::now()\<close>, read by the parsers when the event has no date.
\<close>

datatype webhook_action =
  Respond http_response | TextCommand ingress_request | ImageCommand ingress_request string

definition webhook_action :: "api_libs \<Rightarrow> webhook_service \<Rightarrow> instant \<Rightarrow> string \<Rightarrow> webhook_action" where
  "webhook_action L svc now body =
     (case parse_text_webhook L (ws_config svc) now body of
        Inl e \<Rightarrow> Respond (400, ''invalid_payload'')
      | Inr t \<Rightarrow>
          (case nt_kind t of
             TextReceived \<Rightarrow> TextCommand (text_request svc t)
           | k \<Rightarrow>
               if (case k of UnsupportedEvent name \<Rightarrow> name \<noteq> EVENT_IMAGE_RECEIVED | _ \<Rightarrow> False) then Respond (200, ''unsupported'')
               else (case parse_image_webhook L (ws_config svc) now body of
                       Inl e \<Rightarrow> Respond (400, ''invalid_payload'')
                     | Inr i \<Rightarrow>
                         if ni_kind i \<noteq> KindImageReceived then Respond (200, ''unsupported'')
                         else ImageCommand (image_request svc i) (ni_image_url i))))"

definition zalo_webhook_handler ::
  "api_libs \<Rightarrow> bot_libs \<Rightarrow> ingress_env \<Rightarrow> webhook_service option \<Rightarrow> http_request \<Rightarrow> metrics option \<times> 'z bot_db_scheme \<Rightarrow>
   http_response \<times> metrics option \<times> 'z bot_db_scheme" where
  "zalo_webhook_handler L B E service q s =
     (case s of (ms, db) \<Rightarrow>
        (case service of
           None \<Rightarrow> ((404, ''not_configured''), ms, db)
         | Some svc \<Rightarrow>
             if isl (verify_webhook_secret (ws_config svc) (hq_secret q))
             then ((401, ''unauthorized''), map_option inc_webhook_unauthorized ms, db)
             else if \<not> is_json_type (hq_content_type q) then ((415, ''invalid_content_type''), ms, db)
             else (case read_request_body (ws_max_body_bytes svc) q of
                     None \<Rightarrow> ((413, ''payload_too_large''), ms, db)
                   | Some body \<Rightarrow>
                       (case webhook_action L svc (iv_clock E) body of
                          Respond r \<Rightarrow> (r, ms, db)
                        | TextCommand r \<Rightarrow>
                            (case process_text_command B (ws_policy svc) (ws_has_receipt svc) E r db of
                               (oc, db') \<Rightarrow> (ingress_response oc, map_option (count_outcome oc) ms, db'))
                        | ImageCommand r url \<Rightarrow>
                            (case process_image B (ws_policy svc) (ws_has_receipt svc) E r url db of
                               (oc, db') \<Rightarrow> (ingress_response oc, map_option (count_outcome oc) ms, db'))))))"

section \<open>Health\<close>

definition live_handler :: "readiness \<Rightarrow> http_response" where
  "live_handler r = (if live_now r then (200, ''live'') else (503, ''not_live''))"

text \<open>\<open>probe\<close> is what the database answered: reachable, and whether its migrations are current (\<open>None\<close> when the check fails).\<close>

definition ready_handler :: "(bool \<times> bool option) option \<Rightarrow> readiness \<Rightarrow> http_response \<times> readiness" where
  "ready_handler probe r =
     (let r' = (case probe of
                  None \<Rightarrow> r
                | Some (db_ok, migrations) \<Rightarrow>
                    let r = r\<lparr>db_reachable := db_ok\<rparr> in
                    if db_ok then r\<lparr>migrations_current := (migrations = Some True)\<rparr> else r\<lparr>migrations_current := False\<rparr>)
      in (if is_ready r' then (200, ''ready'') else (503, ''not_ready''), r'))"

section \<open>Metrics\<close>

definition KNOWN_JOB_TYPES :: "string list" where
  "KNOWN_JOB_TYPES = [''outbound.deliver'', ''receipt.ingest'', ''receipt.extract'', ''schedule.emit'', ''account.delete'',
     ''account.export'', ''insight.narrate'']"

definition text_line :: "string \<Rightarrow> string" where
  "text_line s = s @ [CHR 0x0A]"

definition append_gauge :: "string \<Rightarrow> string \<Rightarrow> int \<Rightarrow> string" where
  "append_gauge body name v = body @ text_line (''# TYPE '' @ name @ '' gauge'') @ text_line (name @ '' '' @ show_int v)"

definition append_counter :: "string \<Rightarrow> string \<Rightarrow> 64 word \<Rightarrow> string" where
  "append_counter body name v = body @ text_line (''# TYPE '' @ name @ '' counter'') @ text_line (name @ '' '' @ show_nat (unat v))"

text \<open>\<^verbatim>\<open>GROUP BY job_type\<close> gives its groups in an unspecified order: \<open>ordered\<close>.\<close>

definition active_types :: "(string list \<Rightarrow> string list) \<Rightarrow> 'z work_db_scheme \<Rightarrow> (string \<times> nat) list" where
  "active_types ordered db =
     (let active = filter (\<lambda>j. j_state j = Queued \<or> j_state j = Leased) (jobs db) in
      map (\<lambda>t. (t, count_where (\<lambda>j. j_type j = t) active)) (ordered (remdups (map j_type active))))"


text \<open>The queries of one rendering, each with its own failure; the pool's numbers are read from the pool.\<close>

record metrics_env =
  mv_fault :: "nat \<Rightarrow> bool"
  mv_order :: "string list \<Rightarrow> string list"
  mv_pool_size :: nat
  mv_pool_idle :: nat

definition render :: "metrics_env \<Rightarrow> metrics \<Rightarrow> 'z outbound_db_scheme \<Rightarrow> string" where
  "render MV m db =
     (let in_state = (\<lambda>st. int (count_where (\<lambda>j. j_state j = st) (jobs db)));
          body = (if mv_fault MV 0 then []
                  else append_gauge (append_gauge (append_gauge [] ''jobs_queued'' (in_state Queued)) ''jobs_leased'' (in_state Leased))
                         ''jobs_dead'' (in_state Dead));
          labeled = filter (\<lambda>r. fst r \<in> set KNOWN_JOB_TYPES) (active_types (mv_order MV) db);
          body = (if mv_fault MV 1 \<or> labeled = [] then body
                  else body @ text_line ''# TYPE jobs_active gauge'' @
                    concat (map (\<lambda>(t, n). text_line (''jobs_active{job_type='' @ [CHR 0x22] @ t @ [CHR 0x22] @ ''} '' @ show_nat n)) labeled));
          body = append_counter body ''webhook_accepted_total'' (webhook_accepted_total m);
          body = append_counter body ''webhook_duplicate_total'' (webhook_duplicate_total m);
          body = append_counter body ''webhook_unauthorized_total'' (webhook_unauthorized_total m);
          body = (if mv_fault MV 2 then body
                  else append_gauge body ''outbound_ambiguous'' (int (count_where (\<lambda>x. o_state x = OAmbiguous) (outbound_messages db))));
          body = append_gauge body ''db_pool_size'' (int (mv_pool_size MV));
          body = append_gauge body ''db_pool_idle'' (int (mv_pool_idle MV))
      in append_gauge body ''db_pool_active'' (int (mv_pool_size MV - mv_pool_idle MV)))"

definition metrics_handler :: "metrics_env option \<Rightarrow> metrics option \<Rightarrow> 'z outbound_db_scheme \<Rightarrow> nat \<times> string" where
  "metrics_handler pool ms db =
     (case pool of
        None \<Rightarrow> (503, ''metrics unavailable'')
      | Some MV \<Rightarrow> (case ms of None \<Rightarrow> (404, ''metrics disabled'') | Some m \<Rightarrow> (200, render MV m db)))"

end
