(* ===== verification/Webhook_Properties.thy ===== *)
theory Webhook_Properties
  imports Webhook Ingress_Properties Provider_Properties
begin

text \<open>
  The webhook as a whole: only an authenticated request with a well-formed event reaches the database, and a
  delivery the provider repeats after it was accepted is answered as a duplicate without a change.
\<close>

section \<open>What a request asks for\<close>

definition authentic :: "webhook_service \<Rightarrow> http_request \<Rightarrow> bool" where
  "authentic svc q \<longleftrightarrow>
     (\<exists>h. hq_secret q = Some h \<and> trim h = trim (zc_webhook_secret (ws_config svc)) \<and> trim h \<noteq> [])
     \<and> is_json_type (hq_content_type q)"

fun asks :: "webhook_action \<Rightarrow> ingress_request \<Rightarrow> bool" where
  "asks (TextCommand r) r' = (r' = r)"
| "asks (ImageCommand r url) r' = (r' = r \<and> \<not> outside 2048 url)"
| "asks (Respond resp) r' = False"

definition requested :: "api_libs \<Rightarrow> webhook_service \<Rightarrow> instant \<Rightarrow> http_request \<Rightarrow> ingress_request \<Rightarrow> bool" where
  "requested L svc now q r \<longleftrightarrow>
     (\<exists>body. hq_body q = Some body \<and> length body \<le> ws_max_body_bytes svc \<and> asks (webhook_action L svc now body) r)"

text \<open>The bounds the parsers guarantee of a request.\<close>

definition well_bounded :: "webhook_service \<Rightarrow> ingress_request \<Rightarrow> bool" where
  "well_bounded svc r \<longleftrightarrow>
     iq_source r = SrcWebhook \<and> iq_provider_scope r = zc_provider_scope (ws_config svc)
     \<and> \<not> outside 256 (iq_provider_event_id r) \<and> \<not> outside 256 (iq_provider_sender_id r) \<and> \<not> outside 256 (iq_provider_chat_id r)
     \<and> char_count (iq_user_text r) \<le> 2000
     \<and> iq_sender_allowed r = (iq_provider_sender_id r \<in> set (ws_allowed_senders svc))"

lemma secret_verified: "\<not> isl (verify_webhook_secret c h) \<Longrightarrow>
    \<exists>v. h = Some v \<and> trim v = trim (zc_webhook_secret c) \<and> trim v \<noteq> []"
  by (cases h) (auto simp: verify_webhook_secret_def Let_def split: if_splits)

lemma parse_text_bounds:
  assumes "parse_text_webhook L c now body = Inr t" "nt_kind t = TextReceived"
  shows "nt_provider_scope t = zc_provider_scope c" "\<not> outside 256 (nt_event_id t)" "\<not> outside 256 (nt_sender_id t)"
    "\<not> outside 256 (nt_chat_id t)" "char_count (nt_text t) \<le> 2000"
  using assms
  by (auto simp: parse_text_webhook_def Let_def not_less split: sum.splits prod.splits option.splits if_splits)

lemma parse_image_bounds:
  assumes "parse_image_webhook L c now body = Inr i" "ni_kind i = KindImageReceived"
  shows "ni_provider_scope i = zc_provider_scope c" "\<not> outside 256 (ni_event_id i)" "\<not> outside 256 (ni_sender_id i)"
    "\<not> outside 256 (ni_chat_id i)" "\<not> outside 2048 (ni_image_url i)" "char_count (ni_caption i) \<le> 2000"
  using assms
  by (auto simp: parse_image_webhook_def Let_def not_less split: sum.splits prod.splits option.splits if_splits)

lemma action_bounded: "asks (webhook_action L svc now body) r \<Longrightarrow> well_bounded svc r"
  using parse_text_bounds [of L "ws_config svc" now body] parse_image_bounds [of L "ws_config svc" now body]
  by (auto simp: webhook_action_def well_bounded_def text_request_def image_request_def
      split: sum.splits inbound_event_kind.splits if_splits)


section \<open>The handler\<close>

fun action_call :: "bot_libs \<Rightarrow> webhook_service \<Rightarrow> ingress_env \<Rightarrow> webhook_action \<Rightarrow> ingress_call" where
  "action_call B svc E (TextCommand r) =
     (ws_policy svc, ws_has_receipt svc, decide_text_and_map (bl_chat B), E, r, observation_default)"
| "action_call B svc E (ImageCommand r url) =
     (ws_policy svc, ws_has_receipt svc, decide_image_and_map (bl_chat B), E, r,
      \<lparr>io_event_kind = ImageReceived, io_media_url = Some url\<rparr>)"
| "action_call B svc E (Respond resp) = undefined"

lemma action_key: "asks a r \<Longrightarrow> call_key (action_call B svc E a) = request_key r"
  by (cases a) auto

lemma ingress_response_accepted: "ingress_response oc = (200, ''accepted'') \<longleftrightarrow> (\<exists>i. oc = Inr (InAccepted i))"
  by (auto simp: ingress_response_def split: sum.splits ingress_outcome.splits)

lemma respond_not_accepted: "webhook_action L svc now body = Respond resp \<Longrightarrow> resp \<noteq> (200, ''accepted'')"
  by (auto simp: webhook_action_def split: sum.splits inbound_event_kind.splits if_splits)

lemma image_url_bounded: "webhook_action L svc now body = ImageCommand r url \<Longrightarrow> \<not> outside 2048 url"
  using parse_image_bounds [of L "ws_config svc" now body]
  by (auto simp: webhook_action_def split: sum.splits inbound_event_kind.splits if_splits)

lemma handler_cases:
  assumes "zalo_webhook_handler L B E service q (ms, db) = (resp, ms', db')"
  obtains (untouched) "db' = db" "resp \<noteq> (200, ''accepted'')"
  | (called) svc body r where "service = Some svc" "authentic svc q" "requested L svc (iv_clock E) q r"
      "hq_body q = Some body" "length body \<le> ws_max_body_bytes svc" "asks (webhook_action L svc (iv_clock E) body) r"
      "process_call B (action_call B svc E (webhook_action L svc (iv_clock E) body)) db
         = (fst (process_call B (action_call B svc E (webhook_action L svc (iv_clock E) body)) db), db')"
      "resp = ingress_response (fst (process_call B (action_call B svc E (webhook_action L svc (iv_clock E) body)) db))"
proof (cases service)
  case None
  with assms show ?thesis by (intro untouched) (auto simp: zalo_webhook_handler_def)
next
  case (Some svc)
  show ?thesis
  proof (cases "isl (verify_webhook_secret (ws_config svc) (hq_secret q)) \<or> \<not> is_json_type (hq_content_type q)
      \<or> read_request_body (ws_max_body_bytes svc) q = None")
    case True
    with assms Some show ?thesis by (intro untouched) (auto simp: zalo_webhook_handler_def split: if_splits option.splits)
  next
    case False
    then obtain body where body: "hq_body q = Some body" "length body \<le> ws_max_body_bytes svc"
      by (auto simp: read_request_body_def split: option.splits if_splits)
    from False secret_verified have auth: "authentic svc q" by (auto simp: authentic_def)
    note step = assms [unfolded zalo_webhook_handler_def] Some False body
    show ?thesis
    proof (cases "webhook_action L svc (iv_clock E) body")
      case (Respond resp')
      with step respond_not_accepted show ?thesis
        by (intro untouched) (auto simp: read_request_body_def)
    next
      case (TextCommand r)
      with step auth show ?thesis
        by (intro called [OF Some auth _ body])
          (auto simp: read_request_body_def requested_def process_text_command_def split: prod.splits)
    next
      case (ImageCommand r url)
      note image = this image_url_bounded [OF ImageCommand]
      show ?thesis
      proof (cases "ws_has_receipt svc")
        case True
        with step auth image show ?thesis
          by (intro called [OF Some auth _ body])
            (auto simp: read_request_body_def requested_def process_image_def split: prod.splits)
      next
        case no_receipt: False
        with step image show ?thesis
          by (intro untouched) (auto simp: read_request_body_def process_image_def ingress_response_def split: prod.splits)
      qed
    qed
  qed
qed

lemma accepted_applied:
  assumes "keys_ok db" and "(200, ''accepted'') = ingress_response (fst (process_call B c db))"
  shows "\<not> event_done db (call_key c) \<and> event_done (snd (process_call B c db)) (call_key c)"
proof -
  obtain policy has_receipt decide_fn E r ob where c: "c = (policy, has_receipt, decide_fn, E, r, ob)" by (cases c)
  from assms(2) obtain i where "fst (process_call B c db) = Inr (InAccepted i)" by (metis ingress_response_accepted)
  with process_cases [OF assms(1) c, where B = B] have "applied B c db" by metis
  with process_call_done(2) [OF assms(1)] show ?thesis by blast
qed

text \<open>
C23: a webhook request changes the database only if it carries the configured, non-empty secret, is JSON, stays within the
  body limit and holds an event whose identifiers, text and image URL are within bounds, with the sender's permission taken
  from the allow-list alone. The answer \<^verbatim>\<open>accepted\<close> is given only when the event was not accepted before and its
  acceptance is committed.
\<close>

theorem webhook_is_authenticated:
  assumes "keys_ok db" and "zalo_webhook_handler L B E service q (ms, db) = (resp, ms', db')"
  shows "db' \<noteq> db \<or> resp = (200, ''accepted'') \<longrightarrow>
    (\<exists>svc r. service = Some svc \<and> authentic svc q \<and> requested L svc (iv_clock E) q r \<and> well_bounded svc r
       \<and> (resp = (200, ''accepted'') \<longrightarrow> \<not> event_done db (request_key r) \<and> event_done db' (request_key r)))"
  using assms(2)
proof (cases rule: handler_cases)
  case (called svc body r)
  define c where "c = action_call B svc E (webhook_action L svc (iv_clock E) body)"
  have key: "call_key c = request_key r" using action_key [OF called(6)] by (simp add: c_def)
  from called(7) have "db' = snd (process_call B c db)" unfolding c_def by (metis snd_conv)
  with accepted_applied [OF assms(1), of B c] called(8) key
  have "resp = (200, ''accepted'') \<longrightarrow> \<not> event_done db (request_key r) \<and> event_done db' (request_key r)" unfolding c_def by metis
  with called action_bounded [OF called(6)] show ?thesis by blast
qed simp

section \<open>Repeated deliveries\<close>

text \<open>The clock is only read for an event without a date, so it changes nothing but the time of receipt.\<close>

lemma received_at_rel:
  "(\<And>a b. R (f a) (f b)) \<Longrightarrow>
   rel_sum (=) R (case received_at L now d of Inl e \<Rightarrow> Inl e | Inr t \<Rightarrow> Inr (f t)) (case received_at L now' d of Inl e \<Rightarrow> Inl e | Inr t \<Rightarrow> Inr (f t))"
  by (auto simp: received_at_def split: option.split)

lemma parse_text_rel:
  "rel_sum (=) (\<lambda>t t'. \<exists>x. t' = t\<lparr>nt_received_at := x\<rparr>) (parse_text_webhook L c now body) (parse_text_webhook L c now' body)"
proof (cases "read_envelope L body")
  case (Inr p)
  then show ?thesis
    by (cases p, cases "decode_message (snd p)") (auto simp: parse_text_webhook_def Let_def intro!: received_at_rel)
qed (simp add: parse_text_webhook_def)

lemma parse_image_rel:
  "rel_sum (=) (\<lambda>t t'. \<exists>x. t' = t\<lparr>ni_received_at := x\<rparr>) (parse_image_webhook L c now body) (parse_image_webhook L c now' body)"
proof (cases "read_envelope L body")
  case (Inr p)
  then show ?thesis
    by (cases p, cases "decode_image_message (snd p)") (auto simp: parse_image_webhook_def Let_def intro!: received_at_rel)
qed (simp add: parse_image_webhook_def)

lemma action_again:
  assumes "asks (webhook_action L svc now body) r"
  shows "\<exists>r'. asks (webhook_action L svc now' body) r' \<and> request_key r' = request_key r"
  using assms parse_text_rel [of L "ws_config svc" now body now'] parse_image_rel [of L "ws_config svc" now body now']
  by (auto simp: webhook_action_def request_key_def text_request_def image_request_def
      split: sum.splits inbound_event_kind.splits if_splits)

lemma process_duplicate:
  assumes "event_done db (request_key r)" "iv_fault E = NoFault"
  shows "\<exists>i. process B policy has_receipt decide_fn E r ob db = (Inr (InDuplicate i), db)"
proof -
  from assms(1) obtain e where "find_where (same_event r) (inbound_events db) = Some e" "ie_processing_state e = EvAccepted"
    by (auto simp: event_done_Some same_event_eq)
  with assms(2) show ?thesis
    by (auto simp: process_def run_ingress_def process_tx_def insert_observed_event_def Let_def txbind_def stmt_def txread_def txret_def)
qed

lemma count_duplicate [simp]: "count_outcome (Inr (InDuplicate i)) = inc_webhook_duplicate"
  by (simp add: fun_eq_iff count_outcome_def)

lemma handler_duplicate:
  assumes "authentic svc q" "hq_body q = Some body" "length body \<le> ws_max_body_bytes svc"
    and "asks (webhook_action L svc (iv_clock E) body) r" "ws_has_receipt svc"
    and "event_done db (request_key r)" "iv_fault E = NoFault"
  shows "zalo_webhook_handler L B E (Some svc) q (ms, db) = ((200, ''duplicate''), map_option inc_webhook_duplicate ms, db)"
proof -
  have sec: "\<not> isl (verify_webhook_secret (ws_config svc) (hq_secret q))" "is_json_type (hq_content_type q)"
    using assms(1) by (auto simp: authentic_def verify_webhook_secret_def Let_def)
  obtain i where "process B (ws_policy svc) True (decide_text_and_map (bl_chat B)) E r observation_default db = (Inr (InDuplicate i), db)"
    using process_duplicate [OF assms(6,7)] by blast
  moreover have "\<exists>j. process B (ws_policy svc) True (decide_image_and_map (bl_chat B)) E r
      \<lparr>io_event_kind = ImageReceived, io_media_url = Some url\<rparr> db = (Inr (InDuplicate j), db)" for url
    using process_duplicate [OF assms(6,7)] by blast
  then obtain j where "\<And>url. process B (ws_policy svc) True (decide_image_and_map (bl_chat B)) E r
      \<lparr>io_event_kind = ImageReceived, io_media_url = Some url\<rparr> db = (Inr (InDuplicate (j url)), db)" by metis
  ultimately show ?thesis
    using assms sec
    by (cases "webhook_action L svc (iv_clock E) body")
      (auto simp: zalo_webhook_handler_def read_request_body_def process_text_command_def process_image_def ingress_response_def)
qed

text \<open>
when a request was answered \<^verbatim>\<open>accepted\<close> and the provider delivers it again, at any later time and whatever the
  ingress mode is by then, the answer is \<^verbatim>\<open>duplicate\<close>, the duplicate counter goes up by one and the database stays as it was.
\<close>

theorem webhook_retry_is_duplicate:
  assumes "keys_ok db" and "ws_has_receipt svc" and "iv_fault E' = NoFault"
    and "zalo_webhook_handler L B E (Some svc) q (ms, db) = ((200, ''accepted''), ms', db')"
  shows "zalo_webhook_handler L B E' (Some svc) q (ms', db'\<lparr>ingress_mode := mode\<rparr>)
    = ((200, ''duplicate''), map_option inc_webhook_duplicate ms', db'\<lparr>ingress_mode := mode\<rparr>)"
  using assms(4)
proof (cases rule: handler_cases)
  case (called svc' body r)
  define c where "c = action_call B svc E (webhook_action L svc (iv_clock E) body)"
  have key: "call_key c = request_key r" using action_key called(1,6) by (simp add: c_def)
  from called(1,7) have "db' = snd (process_call B c db)" unfolding c_def by (metis option.inject snd_conv)
  with accepted_applied [OF assms(1), of B c] called(1,8) key have "event_done db' (request_key r)"
    unfolding c_def by (metis option.inject)
  moreover obtain r' where "asks (webhook_action L svc (iv_clock E') body) r'" "request_key r' = request_key r"
    using action_again called(1,6) by blast
  ultimately show ?thesis
    using called assms by (intro handler_duplicate [where r = r' and body = body]) (auto simp: event_done_def)
qed simp


section \<open>A sample delivery\<close>

text \<open>A text from a sender who is not on the allow-list.\<close>

definition sample_web_libs :: api_libs where
  "sample_web_libs = sample_api_libs\<lparr>al_json := (\<lambda>s. if s = ''m1'' then Some (JObject
     [(''event_name'', JString ''message.text.received''), (''message'', JObject [(''message_id'', JString ''e1''),
       (''from'', JObject [(''id'', JString ''u7'')]), (''chat'', JObject [(''id'', JInt 7)]), (''text'', JString ''hi'')])]) else None)\<rparr>"

definition sample_service :: webhook_service where
  "sample_service = \<lparr>ws_config = sample_zalo_config, ws_policy = ingress_policy_default\<lparr>ip_outbound_enabled := False\<rparr>,
     ws_has_receipt = True, ws_allowed_senders = [''u1''], ws_max_body_bytes = 1000\<rparr>"

definition sample_http_request :: http_request where
  "sample_http_request = \<lparr>hq_secret = Some ''s3cret'', hq_content_type = Some ''application/json; charset=utf-8'', hq_body = Some ''m1''\<rparr>"

definition sample_stranger :: ingress_request where
  "sample_stranger = \<lparr>iq_source = SrcWebhook, iq_provider_scope = ''zalo_bot'', iq_provider_event_id = ''e1'', iq_provider_sender_id = ''u7'',
     iq_provider_chat_id = ''7'', iq_sender_allowed = False, iq_user_text = ''hi'', iq_observed_at = 50\<rparr>"

lemma sample_action: "webhook_action sample_web_libs sample_service 50 ''m1'' = TextCommand sample_stranger"
proof -
  have parts: "trim ''message.text.received'' = ''message.text.received''" "trim ''hi'' = ''hi''" "show_int 7 = ''7''" by code_simp+
  show ?thesis
    by (simp add: webhook_action_def parse_text_webhook_def read_envelope_def sample_web_libs_def decode_envelope_def struct_fields_def
        extract_envelope_def parts EVENT_TEXT_RECEIVED_def decode_message_def decode_party_def id_or_empty_def party_id_def outside_def
        char_count_def is_continuation_def byte_def received_at_def sample_service_def text_request_def sample_stranger_def
        sample_zalo_config_def zalo_http_config_default_def Let_def)
qed


lemma sample_authentic: "authentic sample_service sample_http_request"
  unfolding authentic_def sample_service_def sample_http_request_def sample_zalo_config_def is_json_type_def by simp code_simp

lemma sample_decision:
  "decide_text_and_map sample_chat_libs (anonymous_context (sample_env NoFault) 90 sample_stranger 20)
     = Inr \<lparr>do_effects = [], do_reply = Some (not_allowed_text Vi)\<rparr>"
proof -
  have "locale_parse ''vi-VN'' = Vi" by code_simp
  then show ?thesis
    by (simp add: decide_text_and_map_def anonymous_context_def to_conversation_context_def decide_def map_outcome_def Let_def
        context_locale_def reply_with_def)
qed

lemma sample_reply_length: "char_count (not_allowed_text Vi) \<in> {1..2000}"
  by (simp add: not_allowed_text_def char_count_def is_continuation_def byte_def)

lemma sample_accepted:
  "fst (process_text_command sample_bot_libs (ws_policy sample_service) True (sample_env NoFault) sample_stranger sample_bot)
     = Inr (InAccepted 90)"
proof -
  have facts: "iv_fault (sample_env NoFault) = NoFault" "iv_ids (sample_env NoFault) ''event'' = 90" "inbound_events sample_bot = []"
    "outbound_messages sample_bot = []" "ingress_mode sample_bot = ''webhook''" "iq_source sample_stranger = SrcWebhook"
    "\<not> iq_sender_allowed sample_stranger" "\<not> ip_outbound_enabled (ws_policy sample_service)"
    "ip_per_user_daily_receipts (ws_policy sample_service) = 20" "bl_chat sample_bot_libs = sample_chat_libs"
    by (simp_all add: sample_env_def sample_bot_def sample_stranger_def sample_service_def ingress_policy_default_def sample_bot_libs_def)
  show ?thesis
    using sample_reply_length
    by (simp add: process_text_command_def process_def run_ingress_def process_tx_def insert_observed_event_def process_accepted_def
        txbind_def stmt_def txread_def txret_def txwrite_def Let_def facts sample_decision find_where_def exists_where_def enqueue_reply_def
        enqueue_outbound_in_transaction_def outbound_delivery_allowed_def insert_outbound_def new_outbound_def lift_fx_def tx_map_err_def
        fx_def finalize_event_def)
qed

lemma sample_handled: "fst (zalo_webhook_handler sample_web_libs sample_bot_libs (sample_env NoFault) (Some sample_service) sample_http_request
    (None, sample_bot)) = (200, ''accepted'')"
proof -
  have "iv_clock (sample_env NoFault) = 50" "hq_body sample_http_request = Some ''m1''" "ws_max_body_bytes sample_service = 1000"
    "ws_has_receipt sample_service"
    by (simp_all add: sample_env_def sample_http_request_def sample_service_def)
  with sample_authentic sample_accepted sample_action show ?thesis
    by (auto simp: zalo_webhook_handler_def authentic_def verify_webhook_secret_def read_request_body_def Let_def ingress_response_def
        split: prod.splits)
qed

theorem webhook_is_authenticated_witness:
  "\<exists>r. requested sample_web_libs sample_service 50 sample_http_request r \<and> well_bounded sample_service r
     \<and> \<not> event_done sample_bot (request_key r)"
proof -
  obtain ms' db' where h: "zalo_webhook_handler sample_web_libs sample_bot_libs (sample_env NoFault) (Some sample_service)
      sample_http_request (None, sample_bot) = ((200, ''accepted''), ms', db')" using sample_handled by (metis prod.collapse)
  have "iv_clock (sample_env NoFault) = 50" by (simp add: sample_env_def)
  with webhook_is_authenticated [OF sample_bot_keys(1) h] show ?thesis by auto
qed

theorem webhook_retry_is_duplicate_witness:
  "\<exists>ms' db'. zalo_webhook_handler sample_web_libs sample_bot_libs (sample_env NoFault) (Some sample_service)
      sample_http_request (None, sample_bot) = ((200, ''accepted''), ms', db')
    \<and> fst (zalo_webhook_handler sample_web_libs sample_bot_libs (sample_env NoFault) (Some sample_service)
        sample_http_request (ms', db'\<lparr>ingress_mode := ''polling''\<rparr>)) = (200, ''duplicate'')"
proof -
  obtain ms' db' where h: "zalo_webhook_handler sample_web_libs sample_bot_libs (sample_env NoFault) (Some sample_service)
      sample_http_request (None, sample_bot) = ((200, ''accepted''), ms', db')" using sample_handled by (metis prod.collapse)
  have "ws_has_receipt sample_service" "iv_fault (sample_env NoFault) = NoFault" by (simp_all add: sample_service_def sample_env_def)
  from webhook_retry_is_duplicate [OF sample_bot_keys(1) this h] h show ?thesis by (metis fst_conv)
qed

end
