(* ===== verification/Account_Properties.thy ===== *)
theory Account_Properties
  imports Receipt_Properties Ingress_Properties
begin

text \<open>
  The erasure of an account: what an undisturbed \<^verbatim>\<open>account.delete\<close> job leaves behind in the database and in the object
  store, and that a failing object store or database keeps the job repeatable.
\<close>

section \<open>What belongs to an account\<close>

definition erased :: "bot_libs \<Rightarrow> uuid \<Rightarrow> 'z bot_db_scheme \<Rightarrow> bool" where
  "erased B aid db \<longleftrightarrow>
     list_all (\<lambda>e. e_account_id e \<noteq> aid) (expenses db) \<and> list_all (\<lambda>s. s_account_id s \<noteq> aid) (submissions db)
   \<and> list_all (\<lambda>a. as_account a \<noteq> aid) (assets db) \<and> list_all (\<lambda>d. d_account_id d \<noteq> aid) (drafts db)
   \<and> list_all (\<lambda>c. cs_account_id c \<noteq> aid) (conversation_states db) \<and> list_all (\<lambda>s. ss_account_id s \<noteq> aid) (summary_schedules db)
   \<and> list_all (\<lambda>m. o_account_id m \<noteq> Some aid) (outbound_messages db) \<and> list_all (\<lambda>u. \<not> own_counter B (Some aid) u) (usage_counters db)
   \<and> list_all (\<lambda>x. xf_account_id x \<noteq> aid) (export_artifacts db) \<and> list_all (\<lambda>s. is_account_id s \<noteq> aid) (insight_snapshots db)
   \<and> aid \<notin> set (ai_preferences db) \<and> list_all (\<lambda>e. ie_account_id e \<noteq> Some aid) (inbound_events db)"

text \<open>The rows that hang on a submission of the account are gone, those of other submissions are kept.\<close>

definition detached :: "(uuid \<Rightarrow> bool) \<Rightarrow> 'z bot_db_scheme \<Rightarrow> 'z bot_db_scheme \<Rightarrow> bool" where
  "detached own db db' \<longleftrightarrow>
     corrections db' = filter (\<lambda>c. \<not> own (c_submission_id c)) (corrections db)
   \<and> extraction_attempts db' = filter (\<lambda>a. \<not> own (ea_submission_id a)) (extraction_attempts db)"

text \<open>Foreign keys: images and drafts belong to the account of their submission.\<close>

definition linked :: "uuid \<Rightarrow> 'z bot_db_scheme \<Rightarrow> bool" where
  "linked aid db \<longleftrightarrow>
     list_all (\<lambda>a. (as_account a = aid) = owned_submission aid db (as_submission a)) (assets db)
   \<and> list_all (\<lambda>d. (d_account_id d = aid) = owned_submission aid db (d_submission_id d)) (drafts db)"

definition elsewhere :: "bot_libs \<Rightarrow> uuid \<Rightarrow> 'z bot_db_scheme \<Rightarrow> tenants" where
  "elsewhere B aid db =
     \<lparr>tv_accounts = filter (\<lambda>a. ac_id a \<noteq> aid) (accounts db),
      tv_expenses = filter (\<lambda>e. e_account_id e \<noteq> aid) (expenses db),
      tv_submissions = filter (\<lambda>s. s_account_id s \<noteq> aid) (submissions db),
      tv_assets = filter (\<lambda>a. as_account a \<noteq> aid) (assets db),
      tv_drafts = filter (\<lambda>d. d_account_id d \<noteq> aid) (drafts db),
      tv_extractions = [],
      tv_counters = filter (\<lambda>u. \<not> own_counter B (Some aid) u) (usage_counters db),
      tv_identities = provider_identities db,
      tv_conversations = filter (\<lambda>c. cs_account_id c \<noteq> aid) (conversation_states db),
      tv_schedules = filter (\<lambda>s. ss_account_id s \<noteq> aid) (summary_schedules db),
      tv_deletions = filter (\<lambda>q. dq_account_id q \<noteq> aid) (deletion_requests db),
      tv_exports = filter (\<lambda>x. xf_account_id x \<noteq> aid) (export_artifacts db),
      tv_snapshots = filter (\<lambda>s. is_account_id s \<noteq> aid) (insight_snapshots db),
      tv_outbound = filter (\<lambda>m. o_account_id m \<noteq> Some aid) (outbound_messages db),
      tv_jobs = jobs db\<rparr>"

section \<open>The transaction\<close>

lemma purge_step: "txbind (purge_stmt NoFault l f) k db = k () (f db)"
  by (simp add: txbind_def purge_stmt_def stmt_def txwrite_def)

lemma purge_last: "purge_stmt NoFault l f db = Inr ((), f db)"
  by (simp add: purge_stmt_def stmt_def txwrite_def)

lemma txbind_assoc: "txbind (txbind m f) k s = txbind m (\<lambda>x. txbind (f x) k) s"
  by (simp add: txbind_def split: sum.split prod.split)

lemma exists_update_same: "(\<And>x. p (f x) = p x) \<Longrightarrow> exists_where p (update_where q f t) = exists_where p t"
  by (auto simp: exists_where_iff update_where_def)

lemma delete_where_update: "(\<And>x. p (f x) = p x) \<Longrightarrow> (\<And>x. q x \<Longrightarrow> p x) \<Longrightarrow> delete_where p (update_where q f t) = delete_where p t"
  by (induction t) (auto simp: delete_where_def update_where_def)

definition finished :: "bot_libs \<Rightarrow> instant \<Rightarrow> account_delete_payload \<Rightarrow> 'z bot_db_scheme \<Rightarrow> 'z bot_db_scheme" where
  "finished B now p db = snd (projr (finish_deletion_tx B NoFault now p db))"

lemma owned_closed:
  "owned_submission aid (db\<lparr>submissions := update_where q (\<lambda>s. s\<lparr>s_confirmed_expense_id := None, s_state := RDeleted,
      s_failure_error_class := None, s_updated_at := now\<rparr>) (submissions db), expenses := t\<rparr>) = owned_submission aid db"
  by (simp add: fun_eq_iff owned_submission_def exists_update_same)

lemma finish_deletion_runs: "finish_deletion_tx B NoFault now p db = Inr ((), finished B now p db)"
  by (simp add: finished_def finish_deletion_tx_def purge_account_content_def purge_step purge_last txbind_def)

lemmas finished_unfold = finished_def finish_deletion_tx_def purge_account_content_def purge_step purge_last delete_submissions_def owned_closed txbind_assoc

lemma finished_tables:
  "expenses (finished B now p db) = delete_where (\<lambda>e. e_account_id e = dp_account_id p) (expenses db)"
  "submissions (finished B now p db) = delete_where (\<lambda>s. s_account_id s = dp_account_id p) (submissions db)"
  "assets (finished B now p db) = delete_where (\<lambda>a. owned_submission (dp_account_id p) db (as_submission a)) (assets db)"
  "drafts (finished B now p db) = delete_where (\<lambda>d. owned_submission (dp_account_id p) db (d_submission_id d)) (drafts db)"
  "corrections (finished B now p db) = delete_where (\<lambda>c. owned_submission (dp_account_id p) db (c_submission_id c)) (corrections db)"
  "extraction_attempts (finished B now p db)
     = delete_where (\<lambda>a. owned_submission (dp_account_id p) db (ea_submission_id a)) (extraction_attempts db)"
  by (simp_all add: finished_unfold delete_where_update)


lemma finished_more:
  "conversation_states (finished B now p db) = delete_where (\<lambda>c. cs_account_id c = dp_account_id p) (conversation_states db)"
  "summary_schedules (finished B now p db) = delete_where (\<lambda>s. ss_account_id s = dp_account_id p) (summary_schedules db)"
  "outbound_messages (finished B now p db) = delete_where (\<lambda>m. o_account_id m = Some (dp_account_id p)) (outbound_messages db)"
  "usage_counters (finished B now p db) = delete_where (\<lambda>u. own_counter B (Some (dp_account_id p)) u) (usage_counters db)"
  "export_artifacts (finished B now p db) = delete_where (\<lambda>x. xf_account_id x = dp_account_id p) (export_artifacts db)"
  "insight_snapshots (finished B now p db) = delete_where (\<lambda>s. is_account_id s = dp_account_id p) (insight_snapshots db)"
  "ai_preferences (finished B now p db) = delete_where (\<lambda>a. a = dp_account_id p) (ai_preferences db)"
  "inbound_events (finished B now p db) = update_where (\<lambda>e. ie_account_id e = Some (dp_account_id p))
     (\<lambda>e. e\<lparr>ie_account_id := None, ie_media_url := None\<rparr>) (inbound_events db)"
  "accounts (finished B now p db) = update_where (\<lambda>a. ac_id a = dp_account_id p)
     (\<lambda>a. a\<lparr>ac_lifecycle_state := AccountDeleted, ac_consent_version := None, ac_updated_at := now\<rparr>) (accounts db)"
  "deletion_requests (finished B now p db) = update_where
     (\<lambda>r. dq_id r = dp_deletion_request_id p \<and> dq_account_id r = dp_account_id p)
     (\<lambda>r. r\<lparr>dq_state := DelCompleted, dq_completed_at := Some now\<rparr>) (deletion_requests db)"
  "provider_identities (finished B now p db) = provider_identities db" "jobs (finished B now p db) = jobs db"
  by (simp_all add: finished_unfold own_counter_def conj_commute)

lemma finished_erased: "linked (dp_account_id p) db \<Longrightarrow> erased B (dp_account_id p) (finished B now p db)"
  by (auto simp: erased_def finished_tables finished_more delete_where_def list_all_iff linked_def update_where_def)

lemma finished_detached: "detached (owned_submission (dp_account_id p) db) db (finished B now p db)"
  by (simp add: detached_def finished_tables delete_where_def)

lemma finished_elsewhere:
  assumes "linked (dp_account_id p) db"
  shows "elsewhere B (dp_account_id p) (finished B now p db) = elsewhere B (dp_account_id p) db"
  using assms unfolding elsewhere_def finished_tables finished_more linked_def list_all_iff
  by (auto simp: delete_where_def intro!: filter_cong filter_update_where)

section \<open>The job\<close>

text \<open>The account's images and exports, as the job lists them.\<close>

definition account_objects :: "uuid \<Rightarrow> 'z bot_db_scheme \<Rightarrow> string list" where
  "account_objects aid db = asset_keys aid db @ artifact_keys aid db"

lemma pclass_Inr: "m sc n w = (Inr a, n', w') \<Longrightarrow> pclass m sc n w = (Inr a, n', w')"
  by (simp add: pclass_def pbind_def ptry_def preturn_def)

definition running_request :: "account_delete_payload \<Rightarrow> 'z bot_db_scheme \<Rightarrow> 'z bot_db_scheme" where
  "running_request p db = db\<lparr>deletion_requests := update_where (\<lambda>r. dq_id r = dp_deletion_request_id p
     \<and> dq_account_id r = dp_account_id p \<and> (dq_state r = DelRequested \<or> dq_state r = DelRunning))
     (\<lambda>r. r\<lparr>dq_state := DelRunning\<rparr>) (deletion_requests db)\<rparr>"

lemma execute_account_delete_undisturbed:
  assumes "undisturbed sc" "dp_schema_version p = 1"
    and "find_where (\<lambda>a. ac_id a = dp_account_id p) (accounts (rw_db w)) = Some a" "ac_lifecycle_state a \<noteq> AccountDeleted"
  shows "\<exists>n' now. execute_account_delete B p sc n w = (Inr (), n', w\<lparr>rw_objects := rw_objects w |` (- set (account_objects (dp_account_id p) (rw_db w))),
     rw_db := finished B now p (running_request p (rw_db w))\<rparr>)"
proof -
  have life: "account_lifecycle (dp_account_id p) sc n w = (Inr (Some (ac_lifecycle_state a)), Suc n, w)"
    unfolding account_lifecycle_def by (rule pclass_Inr) (simp add: pquery_undisturbed [OF assms(1)] assms(3))
  have start: "start_deletion p sc m w = (Inr (), Suc m, w\<lparr>rw_db := running_request p (rw_db w)\<rparr>)" for m
    by (simp add: start_deletion_def pdb_undisturbed [OF assms(1)] running_request_def)
  have load: "load_account_object_keys (dp_account_id p) sc m v = (Inr (account_objects (dp_account_id p) (rw_db v)), m + 2, v)" for m v
    by (simp add: load_account_object_keys_def pbind_def pclass_def ptry_def pquery_undisturbed [OF assms(1)] preturn_def account_objects_def)
  have drop: "pclass (delete_objects ks) sc m v = (Inr (), m + length ks, v\<lparr>rw_objects := rw_objects v |` (- set ks)\<rparr>)" for ks m v
    by (rule pclass_Inr) (simp add: delete_objects_ok [OF assms(1)])
  have keys: "account_objects aid (running_request p db) = account_objects aid db" for aid db
    by (simp add: account_objects_def asset_keys_def artifact_keys_def running_request_def)
  show ?thesis
    using assms(2,4)
    by (simp add: execute_account_delete_def pbind_def life start load drop keys pdb_undisturbed [OF assms(1)] run_tx_def finish_deletion_runs)
      blast
qed




definition sample_deletion :: account_delete_payload where
  "sample_deletion = \<lparr>dp_schema_version = 1, dp_account_id = 1, dp_deletion_request_id = 12\<rparr>"

definition sample_stored :: "bot_db rworld" where
  "sample_stored = \<lparr>rw_db = sample_bot, rw_objects = [''receipts/1/5/h3'' \<mapsto> ''img'', ''receipts/2/9/h4'' \<mapsto> ''x'']\<rparr>"


end
