(* ===== verification/Scheduler.thy ===== *)
theory Scheduler
  imports Account
begin

text \<open>
  The periodic roles: leases on a role, the scheduler's tick (\<^verbatim>\<open>src/runtime/scheduler.rs\<close>) with the job it emits
  (\<^verbatim>\<open>src/schedule/mod.rs\<close>), the maintenance tick (\<^verbatim>\<open>src/runtime/maintenance.rs\<close>) and the selection of roles
  (\<^verbatim>\<open>src/runtime/roles.rs\<close>). \<open>NOW()\<close> of a transaction and \<^verbatim>\<open>Utc::now()\<close> of the process are separate
  clocks. The text of a database error is left out of a message; a panic is a value.
\<close>

section \<open>Roles\<close>

datatype role = RoleIngress | RoleWorker | RoleScheduler | RoleMaintenance

fun role_as_str :: "role \<Rightarrow> string" where
  "role_as_str RoleIngress = ''ingress''"
| "role_as_str RoleWorker = ''worker''"
| "role_as_str RoleScheduler = ''scheduler''"
| "role_as_str RoleMaintenance = ''maintenance''"

definition all_roles :: "role list" where
  "all_roles = [RoleIngress, RoleWorker, RoleScheduler, RoleMaintenance]"

definition role_from_str :: "string \<Rightarrow> string + role" where
  "role_from_str s =
     (case find (\<lambda>r. role_as_str r = s) all_roles of
        Some r \<Rightarrow> Inr r
      | None \<Rightarrow> Inl (if s = ''all'' then ''use --roles without '' @ [CHR 0x27] @ ''all'' @ [CHR 0x27] @ '' or omit for all roles''
                      else ''unknown role: '' @ s))"

fun parse_roles_loop :: "role list \<Rightarrow> string list \<Rightarrow> string + role list" where
  "parse_roles_loop roles [] = Inr roles"
| "parse_roles_loop roles (v # vs) =
     (if v = ''all'' then Inr all_roles
      else case role_from_str v of
        Inl e \<Rightarrow> Inl e
      | Inr r \<Rightarrow> parse_roles_loop (if r \<in> set roles then roles else roles @ [r]) vs)"

definition parse_roles :: "string list \<Rightarrow> string + role list" where
  "parse_roles vs = (if vs = [] then Inr all_roles else parse_roles_loop [] vs)"

section \<open>Role leases\<close>

record role_lease =
  lease_role :: string
  lease_holder :: string
  lease_until :: instant

record runtime_db = bot_db +
  role_leases :: "role_lease list"

text \<open>One upsert; what the statement did survives a lost answer, which counts as not acquired.\<close>

definition try_acquire_role_lease ::
  "db_fault \<Rightarrow> instant \<Rightarrow> string \<Rightarrow> string \<Rightarrow> int \<Rightarrow> 'z runtime_db_scheme \<Rightarrow> bool \<times> 'z runtime_db_scheme" where
  "try_acquire_role_lease flt now role owner duration db =
     (let mine = \<lparr>lease_role = role, lease_holder = owner, lease_until = now + secs duration\<rparr>;
          (acquired, leases) =
            (case find_where (\<lambda>l. lease_role l = role) (role_leases db) of
               None \<Rightarrow> (True, role_leases db @ [mine])
             | Some l \<Rightarrow>
                 if lease_until l \<le> now \<or> lease_holder l = owner
                 then (True, update_where (\<lambda>l. lease_role l = role)
                        (\<lambda>l. l\<lparr>lease_holder := owner, lease_until := now + secs duration\<rparr>) (role_leases db))
                 else (False, role_leases db))
      in if flt = NoFault then (acquired, db\<lparr>role_leases := leases\<rparr>)
         else if flt = CommitAckLost then (False, db\<lparr>role_leases := leases\<rparr>)
         else (False, db))"

section \<open>Scheduled summaries\<close>

record schedule_emit_payload =
  sp_schema_version :: int
  sp_account_id :: uuid
  sp_schedule_id :: uuid
  sp_frequency :: string
  sp_period_start :: instant
  sp_period_end :: instant

definition schedule_emit_dedupe_key :: "bot_libs \<Rightarrow> uuid \<Rightarrow> string \<Rightarrow> instant \<Rightarrow> string" where
  "schedule_emit_dedupe_key B aid f start =
     ''schedule.emit:'' @ show_uuid B aid @ '':'' @ f @ '':'' @ lib_rfc3339 (bl_libs B) start"

definition schedule_emit_json :: "bot_libs \<Rightarrow> schedule_emit_payload \<Rightarrow> json" where
  "schedule_emit_json B p =
     JObject [(''schema_version'', JInt (sp_schema_version p)), (''account_id'', JString (show_uuid B (sp_account_id p))),
       (''schedule_id'', JString (show_uuid B (sp_schedule_id p))), (''frequency'', JString (sp_frequency p)),
       (''period_start'', JString (bl_serde_time B (sp_period_start p))),
       (''period_end'', JString (bl_serde_time B (sp_period_end p)))]"

datatype app_error = AppInternal string | AppPanic

definition sched_step :: "string \<Rightarrow> (schedule_error + 'a) run \<Rightarrow> ('s, app_error, 'a) tx" where
  "sched_step label m =
     (case m of
        Done (Inr a) \<Rightarrow> txret a
      | Done (Inl e) \<Rightarrow> txfail (AppInternal (label @ '': '' @ schedule_error_text e))
      | _ \<Rightarrow> txfail AppPanic)"

text \<open>What a tick meets: the two clocks, a fault, the rows others hold locked, and the ids of the jobs it makes.\<close>

record tick_env =
  tk_now :: instant
  tk_clock :: instant
  tk_fault :: db_fault
  tk_locked :: "uuid \<Rightarrow> bool"
  tk_ids :: "uuid \<Rightarrow> uuid"

definition active_account :: "'z bot_db_scheme \<Rightarrow> uuid \<Rightarrow> account option" where
  "active_account db aid = find_where (\<lambda>a. ac_id a = aid \<and> ac_lifecycle_state a = Active) (accounts db)"

text \<open>Ties of \<^verbatim>\<open>ORDER BY next_run_at\<close> are in table order.\<close>

definition due_schedules :: "tick_env \<Rightarrow> 'z bot_db_scheme \<Rightarrow> summary_schedule list" where
  "due_schedules T db =
     take 100 (sort_key ss_next_run_at
       (filter (\<lambda>s. ss_enabled s \<and> ss_next_run_at s \<le> tk_now T \<and> active_account db (ss_account_id s) \<noteq> None
          \<and> \<not> tk_locked T (ss_id s)) (summary_schedules db)))"

definition due_rows :: "tick_env \<Rightarrow> 'z bot_db_scheme \<Rightarrow> (summary_schedule \<times> string) list" where
  "due_rows T db =
     map (\<lambda>s. (s, case active_account db (ss_account_id s) of Some a \<Rightarrow> ac_timezone a | None \<Rightarrow> [])) (due_schedules T db)"

definition emit_request :: "bot_libs \<Rightarrow> tick_env \<Rightarrow> summary_schedule \<Rightarrow> period \<Rightarrow> enqueue_request" where
  "emit_request B T s p =
     \<lparr>er_id = tk_ids T (ss_id s), er_job_type = ''schedule.emit'',
      er_payload = schedule_emit_json B \<lparr>sp_schema_version = 1, sp_account_id = ss_account_id s, sp_schedule_id = ss_id s,
        sp_frequency = ss_frequency s, sp_period_start = p_start p, sp_period_end = p_end p\<rparr>,
      er_dedupe_key = schedule_emit_dedupe_key B (ss_account_id s) (ss_frequency s) (p_start p),
      er_serialization_key = Some (account_serialization_key (bl_libs B) (ss_account_id s)), er_priority = 0,
      er_run_at = tk_clock T, er_max_attempts = 10\<rparr>"

definition skip_emit :: "summary_schedule \<Rightarrow> instant \<Rightarrow> bool" where
  "skip_emit s latest = (case ss_last_emitted_at s of None \<Rightarrow> False | Some t \<Rightarrow> latest \<le> t)"

definition emit_summary ::
  "bot_libs \<Rightarrow> tick_env \<Rightarrow> summary_schedule \<Rightarrow> string \<Rightarrow> frequency \<Rightarrow> instant \<Rightarrow> ('z bot_db_scheme, app_error, unit) tx" where
  "emit_summary B T s tz f latest =
     txbind (sched_step ''scheduled period'' (scheduled_period (bl_zone B) f latest tz)) (\<lambda>(p, _).
     txbind (tx_map_err (\<lambda>_. AppInternal ''scheduler enqueue failed'')
       (enqueue_in_transaction (tk_fault T) (tk_now T) (emit_request B T s p))) (\<lambda>_. txret ()))"

definition advance_schedule ::
  "tick_env \<Rightarrow> summary_schedule \<Rightarrow> instant \<Rightarrow> bool \<Rightarrow> ('z bot_db_scheme, app_error, unit) tx" where
  "advance_schedule T s next emitted =
     stmt (tk_fault T) ''advance schedule'' (AppInternal ''advance schedule'') (txwrite (\<lambda>db.
       db\<lparr>summary_schedules := update_where (\<lambda>x. ss_id x = ss_id s)
         (\<lambda>x. x\<lparr>ss_next_run_at := next, ss_last_emitted_at := (if emitted then Some (tk_now T) else ss_last_emitted_at x)\<rparr>)
         (summary_schedules db)\<rparr>))"

definition scheduler_step ::
  "bot_libs \<Rightarrow> tick_env \<Rightarrow> summary_schedule \<times> string \<Rightarrow> ('z bot_db_scheme, app_error, unit) tx" where
  "scheduler_step B T row =
     (case row of (s, tz) \<Rightarrow>
        (case frequency_parse (ss_frequency s) of
           None \<Rightarrow> txfail (AppInternal (''invalid schedule frequency: '' @ ss_frequency s))
         | Some f \<Rightarrow>
             txbind (sched_step ''latest delivery'' (latest_delivery (bl_zone B) (tk_clock T) tz f (ss_delivery_minute s))) (\<lambda>latest.
             txbind (sched_step ''next delivery'' (next_delivery (bl_zone B) (tk_clock T) tz f (ss_delivery_minute s))) (\<lambda>next.
             txbind (if skip_emit s latest then txret () else emit_summary B T s tz f latest) (\<lambda>_.
               advance_schedule T s next (\<not> skip_emit s latest))))))"

fun scheduler_loop :: "bot_libs \<Rightarrow> tick_env \<Rightarrow> (summary_schedule \<times> string) list \<Rightarrow> ('z bot_db_scheme, app_error, unit) tx" where
  "scheduler_loop B T [] = txret ()"
| "scheduler_loop B T (row # rows) = txbind (scheduler_step B T row) (\<lambda>_. scheduler_loop B T rows)"

definition scheduler_tick :: "bot_libs \<Rightarrow> tick_env \<Rightarrow> 'z bot_db_scheme \<Rightarrow> (app_error + unit) \<times> 'z bot_db_scheme" where
  "scheduler_tick B T =
     run_tx (tk_fault T) (AppInternal ''scheduler tx begin'') (AppInternal ''scheduler commit'')
       (txbind (stmt (tk_fault T) ''due select'' (AppInternal ''scheduler due select'') (txread (due_rows T))) (scheduler_loop B T))"

text \<open>One turn of the role's loop: only the holder of the lease ticks.\<close>

definition scheduler_turn ::
  "bot_libs \<Rightarrow> db_fault \<Rightarrow> instant \<Rightarrow> string \<Rightarrow> tick_env \<Rightarrow> 'z runtime_db_scheme \<Rightarrow> 'z runtime_db_scheme" where
  "scheduler_turn B flt now owner T db =
     (case try_acquire_role_lease flt now ''scheduler'' owner 90 db of
        (acquired, db') \<Rightarrow> if acquired then snd (scheduler_tick B T db') else db')"

section \<open>Maintenance\<close>

definition maintenance_tick :: "(uuid \<Rightarrow> bool) \<Rightarrow> ('z receipt_db_scheme, unit) proc" where
  "maintenance_tick locked =
     pbind (ptry (expire_reviews locked 50)) (\<lambda>_.
     pbind (ptry (retention_sweep locked 50)) (\<lambda>_. preturn ()))"

end
