(* ===== verification/Scheduler_Properties.thy ===== *)
theory Scheduler_Properties
  imports Scheduler Schedule_Properties Ingress_Properties
begin

text \<open>
  The scheduler's tick: what an undisturbed tick does with the due schedules, and that only one process at a time
  holds the role's lease.
\<close>

section \<open>Valid emissions\<close>

definition times_printed :: "libs \<Rightarrow> bool" where
  "times_printed L \<longleftrightarrow> (\<forall>t. length (lib_rfc3339 L t) \<le> 64)"

lemma trim_keeps_char:
  assumes "c \<in> set s" and ws: "\<And>w. w \<in> set whitespace_chars \<Longrightarrow> c \<notin> set w"
  shows "trim s \<noteq> []"
proof -
  have "c \<in> set (rev (trim_start_set whitespace_chars s))" using trim_start_set_keeps [OF assms] by simp
  then have "c \<in> set (trim_start_set (map rev whitespace_chars) (rev (trim_start_set whitespace_chars s)))"
    by (rule trim_start_set_keeps) (use ws in auto)
  then show ?thesis by (auto simp: trim_def trim_matches_def trim_end_set_def)
qed

lemma trim_keeps_colon: "CHR '':'' \<in> set s \<Longrightarrow> trim s \<noteq> []"
  by (rule trim_keeps_char) (auto simp: whitespace_chars_def)

lemma emit_request_valid:
  assumes "printers_ok (bl_libs B)" "times_printed (bl_libs B)" "frequency_parse (ss_frequency s) = Some f"
  shows "validate_enqueue_request (emit_request B T s p) = Inr 1"
proof -
  have f: "length (ss_frequency s) \<le> 7" using assms(3) by (auto simp: frequency_parse_def split: if_splits)
  have len: "length (show_uuid B u) = 36" for u using assms(1) by (simp add: printers_ok_def show_uuid_def)
  have time: "length (lib_rfc3339 (bl_libs B) t) \<le> 64" for t using assms(2) by (simp add: times_printed_def)
  have short: "char_count x \<le> n" if "length x \<le> n" for x n using that char_count_le [of x] by simp
  have "char_count (er_dedupe_key (emit_request B T s p)) \<le> 512"
    using f time [of "p_start p"] by (intro short) (simp add: emit_request_def schedule_emit_dedupe_key_def len)
  moreover have "char_count (account_serialization_key (bl_libs B) (ss_account_id s)) \<le> 512"
    using len [of "ss_account_id s"] by (intro short) (simp add: account_serialization_key_def show_uuid_def)
  moreover have "char_count ''schedule.emit'' \<le> 128" by (rule short) simp
  moreover have "trim ''schedule.emit'' \<noteq> []" by code_simp
  moreover have "trim (er_dedupe_key (emit_request B T s p)) \<noteq> []" "trim (account_serialization_key (bl_libs B) (ss_account_id s)) \<noteq> []"
    by (rule trim_keeps_colon, simp add: emit_request_def schedule_emit_dedupe_key_def account_serialization_key_def)+
  ultimately show ?thesis
    by (simp add: validate_enqueue_request_def emit_request_def payload_version_def schedule_emit_json_def not_less)
qed

section \<open>One schedule\<close>

text \<open>A schedule whose frequency, zone and delivery minute can be computed with.\<close>

definition computable :: "bot_libs \<Rightarrow> instant \<Rightarrow> summary_schedule \<times> string \<Rightarrow> bool" where
  "computable B clock row \<longleftrightarrow>
     frequency_parse (ss_frequency (fst row)) \<noteq> None \<and> schedulable (bl_zone B) (snd row) (ss_delivery_minute (fst row)) clock
   \<and> 0 \<le> zl_local_date (bl_zone B) (snd row) clock"

text \<open>The summary a row owes at this clock, if it owes one.\<close>

definition owed :: "bot_libs \<Rightarrow> instant \<Rightarrow> summary_schedule \<times> string \<Rightarrow> period \<Rightarrow> bool" where
  "owed B clock row p \<longleftrightarrow>
     (\<exists>f latest label. frequency_parse (ss_frequency (fst row)) = Some f
        \<and> latest_delivery (bl_zone B) clock (snd row) f (ss_delivery_minute (fst row)) = Done (Inr latest)
        \<and> \<not> skip_emit (fst row) latest \<and> scheduled_period (bl_zone B) f latest (snd row) = Done (Inr (p, label)))"

definition emit_key :: "bot_libs \<Rightarrow> summary_schedule \<times> string \<Rightarrow> period \<Rightarrow> string" where
  "emit_key B row p = schedule_emit_dedupe_key B (ss_account_id (fst row)) (ss_frequency (fst row)) (p_start p)"

lemma scheduled_period_returns:
  assumes ok: "schedulable Z tz minute now" and "0 \<le> zl_local_date Z tz now"
    and latest: "latest_delivery Z now tz f minute = Done (Inr latest)"
  shows "\<exists>p. scheduled_period Z f latest tz = Done (Inr (p, scheduled_label f))"
proof -
  note s = schedulableD [OF ok]
  let ?today = "zl_local_date Z tz now"
  obtain d where d: "last_day Z tz f minute now d" "latest = slot Z tz minute d"
    using latest by (auto intro: latest_delivery_slot [OF ok, of f])
  let ?e = "period_first Z f (?today - 1)"
  have e: "?e \<le> ?today - 1" "?today - 32 \<le> ?e" "delivery_day Z f ?e"
    using period_first_bounds(1-3) [OF s(1), of "?today - 1" f] s(5) by auto
  then have "slot Z tz minute ?e < now" using slot_after_date(4) [OF s(2-4)] by fastforce
  then have "?e \<le> d" using d(1) e(3) by (auto simp: last_day_def)
  moreover have "d \<le> ?today" using d slot_after_date(2) [OF s(2-4)] by (auto simp: last_day_def)
  ultimately have "\<bar>zl_local_date Z tz latest\<bar> \<le> 70000000"
    using e(2) assms(2) s(5) resolve_slot(2) [OF s(2-4)] d(2) by auto
  with ok have "schedulable Z tz minute latest" by (simp add: schedulable_def)
  from scheduled_period_slots [OF this, of f] show ?thesis by blast
qed

definition advanced :: "tick_env \<Rightarrow> instant \<Rightarrow> bool \<Rightarrow> summary_schedule \<Rightarrow> summary_schedule" where
  "advanced T nx emitted x =
     x\<lparr>ss_next_run_at := nx, ss_last_emitted_at := (if emitted then Some (tk_now T) else ss_last_emitted_at x)\<rparr>"

lemma enqueue_gives:
  assumes "validate_enqueue_request r = Inr v" "\<forall>j \<in> set (jobs db). j_id j \<noteq> er_id r"
  shows "\<exists>oc new. enqueue_in_transaction NoFault now r db = Inr (oc, db\<lparr>jobs := jobs db @ new\<rparr>)
    \<and> (\<forall>j \<in> set new. j_id j = er_id r) \<and> exists_where (\<lambda>j. j_dedupe_key j = er_dedupe_key r) (jobs db @ new)"
proof (cases "exists_where (\<lambda>j. j_dedupe_key j = er_dedupe_key r) (jobs db)")
  case True
  with assms show ?thesis by (intro exI [of _ DuplicateJobKey] exI [of _ "[]"]) (simp add: enqueue_in_transaction_def stmt_def)
next
  case False
  with assms show ?thesis
    by (intro exI [of _ Enqueued] exI [of _ "[new_job now r v]"])
      (auto simp: enqueue_in_transaction_def stmt_def exists_where_iff new_job_def)
qed

lemma scheduler_step_runs:
  assumes lib: "printers_ok (bl_libs B)" "times_printed (bl_libs B)" and flt: "tk_fault T = NoFault"
    and row: "computable B (tk_clock T) row" and fresh: "\<forall>j \<in> set (jobs db). j_id j \<noteq> tk_ids T (ss_id (fst row))"
  shows "\<exists>nx emitted new. scheduler_step B T row db = Inr ((), db\<lparr>jobs := jobs db @ new,
       summary_schedules := update_where (\<lambda>x. ss_id x = ss_id (fst row)) (advanced T nx emitted) (summary_schedules db)\<rparr>)
    \<and> tk_clock T < nx \<and> (\<forall>j \<in> set new. j_id j = tk_ids T (ss_id (fst row)))
    \<and> (\<forall>p. owed B (tk_clock T) row p \<longrightarrow> exists_where (\<lambda>j. j_dedupe_key j = emit_key B row p) (jobs db @ new))"
proof -
  obtain s tz where r: "row = (s, tz)" by (cases row)
  from row r obtain f where f: "frequency_parse (ss_frequency s) = Some f"
    and ok: "schedulable (bl_zone B) tz (ss_delivery_minute s) (tk_clock T)" "0 \<le> zl_local_date (bl_zone B) tz (tk_clock T)"
    by (auto simp: computable_def)
  obtain nx where nxt: "next_delivery (bl_zone B) (tk_clock T) tz f (ss_delivery_minute s) = Done (Inr nx)" "tk_clock T < nx"
    by (rule next_delivery_slot [OF ok(1), of f]) (auto simp: next_day_def)
  obtain latest where lat: "latest_delivery (bl_zone B) (tk_clock T) tz f (ss_delivery_minute s) = Done (Inr latest)"
    by (rule latest_delivery_slot [OF ok(1), of f])
  obtain p where p: "scheduled_period (bl_zone B) f latest tz = Done (Inr (p, scheduled_label f))"
    using scheduled_period_returns [OF ok lat] by blast
  have owed: "owed B (tk_clock T) row q \<longleftrightarrow> \<not> skip_emit s latest \<and> q = p" for q
    by (auto simp: owed_def r f lat p)
  have adv: "advance_schedule T s nx e d = Inr ((), d\<lparr>summary_schedules := update_where (\<lambda>x. ss_id x = ss_id s) (advanced T nx e)
      (summary_schedules d)\<rparr>)" for e and d :: "'a bot_db_scheme"
    by (simp add: advance_schedule_def flt stmt_def txwrite_def advanced_def [abs_def])
  show ?thesis
  proof (cases "skip_emit s latest")
    case True
    then have "scheduler_step B T row db = Inr ((), db\<lparr>jobs := jobs db @ [],
       summary_schedules := update_where (\<lambda>x. ss_id x = ss_id (fst row)) (advanced T nx False) (summary_schedules db)\<rparr>)"
      by (simp add: scheduler_step_def r f txbind_def sched_step_def lat nxt adv txret_def)
    with True nxt(2) owed show ?thesis by (intro exI [of _ nx] exI [of _ False] exI [of _ "[]"]) simp
  next
    case False
    from emit_request_valid [OF lib f] fresh r
    obtain oc new where e: "enqueue_in_transaction NoFault (tk_now T) (emit_request B T s p) db = Inr (oc, db\<lparr>jobs := jobs db @ new\<rparr>)"
      "\<forall>j \<in> set new. j_id j = tk_ids T (ss_id s)"
      "exists_where (\<lambda>j. j_dedupe_key j = er_dedupe_key (emit_request B T s p)) (jobs db @ new)"
      using enqueue_gives [of "emit_request B T s p" 1 db "tk_now T"] by (auto simp: emit_request_def)
    have "scheduler_step B T row db = Inr ((), db\<lparr>jobs := jobs db @ new,
       summary_schedules := update_where (\<lambda>x. ss_id x = ss_id (fst row)) (advanced T nx True) (summary_schedules db)\<rparr>)"
      using False by (simp add: scheduler_step_def emit_summary_def r f txbind_def sched_step_def lat nxt adv txret_def p tx_map_err_def flt e(1))
    with False nxt(2) owed e show ?thesis
      by (intro exI [of _ nx] exI [of _ True] exI [of _ new]) (auto simp: r emit_key_def emit_request_def)
  qed
qed

section \<open>All due schedules\<close>

text \<open>What the rows of the schedule table become: only the times of the listed schedules move, past the clock.\<close>

definition moves_on :: "instant \<Rightarrow> uuid set \<Rightarrow> (summary_schedule \<Rightarrow> summary_schedule) \<Rightarrow> bool" where
  "moves_on clock ids g \<longleftrightarrow>
     (\<forall>s. (\<exists>nx le. g s = s\<lparr>ss_next_run_at := nx, ss_last_emitted_at := le\<rparr>) \<and> (ss_id s \<notin> ids \<longrightarrow> g s = s)
        \<and> (ss_id s \<in> ids \<longrightarrow> clock < ss_next_run_at (g s)))"

lemma moves_on_id: "moves_on clock {} id"
proof -
  have "\<exists>nx le. s = s\<lparr>ss_next_run_at := nx, ss_last_emitted_at := le\<rparr>" for s :: summary_schedule
    by (rule exI [of _ "ss_next_run_at s"], rule exI [of _ "ss_last_emitted_at s"]) simp
  then show ?thesis by (simp add: moves_on_def)
qed

lemma moves_on_keeps_id: "moves_on clock ids g \<Longrightarrow> ss_id (g s) = ss_id s"
  unfolding moves_on_def by (metis summary_schedule.select_convs(1) summary_schedule.surjective summary_schedule.update_convs(8,9))

lemma moves_on_step:
  assumes "moves_on clock ids g" "k \<notin> ids" "clock < nx"
  shows "moves_on clock (insert k ids) (\<lambda>s. g (if ss_id s = k then advanced T nx e s else s))"
  unfolding moves_on_def
proof (intro allI conjI impI)
  fix s
  show "\<exists>nx' le. g (if ss_id s = k then advanced T nx e s else s) = s\<lparr>ss_next_run_at := nx', ss_last_emitted_at := le\<rparr>"
  proof (cases "ss_id s = k")
    case True
    with assms have "g (advanced T nx e s) = advanced T nx e s" by (simp add: moves_on_def advanced_def)
    with True have "g (if ss_id s = k then advanced T nx e s else s) = s\<lparr>ss_next_run_at := nx,
        ss_last_emitted_at := (if e then Some (tk_now T) else ss_last_emitted_at s)\<rparr>" by (simp add: advanced_def)
    then show ?thesis by blast
  qed (use assms(1) in \<open>simp add: moves_on_def\<close>)
  show "g (if ss_id s = k then advanced T nx e s else s) = s" if "ss_id s \<notin> insert k ids" using assms(1) that by (auto simp: moves_on_def)
  show "clock < ss_next_run_at (g (if ss_id s = k then advanced T nx e s else s))" if "ss_id s \<in> insert k ids"
    using assms that by (auto simp: moves_on_def advanced_def)
qed

lemma scheduler_loop_runs:
  assumes lib: "printers_ok (bl_libs B)" "times_printed (bl_libs B)" and flt: "tk_fault T = NoFault"
  shows "\<lbrakk>\<forall>row \<in> set rows. computable B (tk_clock T) row; distinct (map (ss_id \<circ> fst) rows);
     inj_on (tk_ids T) ((ss_id \<circ> fst) ` set rows);
     \<forall>j \<in> set (jobs db). j_id j \<notin> tk_ids T ` (ss_id \<circ> fst) ` set rows\<rbrakk> \<Longrightarrow>
   \<exists>g new. scheduler_loop B T rows db
        = Inr ((), db\<lparr>jobs := jobs db @ new, summary_schedules := map g (summary_schedules db)\<rparr>)
     \<and> moves_on (tk_clock T) ((ss_id \<circ> fst) ` set rows) g
     \<and> (\<forall>row \<in> set rows. \<forall>p. owed B (tk_clock T) row p \<longrightarrow>
          exists_where (\<lambda>j. j_dedupe_key j = emit_key B row p) (jobs db @ new))"
proof (induction rows arbitrary: db)
  case Nil
  have "db = db\<lparr>jobs := jobs db @ [], summary_schedules := map id (summary_schedules db)\<rparr>" by simp
  with moves_on_id [of "tk_clock T"] show ?case by (intro exI [of _ id] exI [of _ "[]"]) (simp add: txret_def id_def)
next
  case (Cons row rows)
  let ?k = "ss_id (fst row)"
  obtain nx e new where step: "scheduler_step B T row db = Inr ((), db\<lparr>jobs := jobs db @ new,
       summary_schedules := update_where (\<lambda>x. ss_id x = ?k) (advanced T nx e) (summary_schedules db)\<rparr>)"
    "tk_clock T < nx" and ids: "\<forall>j \<in> set new. j_id j = tk_ids T ?k"
    and made: "\<forall>p. owed B (tk_clock T) row p \<longrightarrow> exists_where (\<lambda>j. j_dedupe_key j = emit_key B row p) (jobs db @ new)"
    using scheduler_step_runs [OF lib flt, of row db] Cons.prems by auto
  let ?d = "db\<lparr>jobs := jobs db @ new,
       summary_schedules := update_where (\<lambda>x. ss_id x = ?k) (advanced T nx e) (summary_schedules db)\<rparr>"
  have "tk_ids T ?k \<notin> tk_ids T ` (ss_id \<circ> fst) ` set rows"
    using Cons.prems(2,3) by (auto simp: inj_on_def)
  with ids have "j_id j \<notin> tk_ids T ` (ss_id \<circ> fst) ` set rows" if "j \<in> set new" for j using that by simp
  then have "\<forall>j \<in> set (jobs ?d). j_id j \<notin> tk_ids T ` (ss_id \<circ> fst) ` set rows" using Cons.prems(4) by auto
  moreover have "inj_on (tk_ids T) ((ss_id \<circ> fst) ` set rows)" using Cons.prems(3) by (auto simp: inj_on_def)
  ultimately obtain g more where rest: "scheduler_loop B T rows ?d
      = Inr ((), ?d\<lparr>jobs := jobs ?d @ more, summary_schedules := map g (summary_schedules ?d)\<rparr>)"
    "moves_on (tk_clock T) ((ss_id \<circ> fst) ` set rows) g"
    "\<forall>row \<in> set rows. \<forall>p. owed B (tk_clock T) row p \<longrightarrow> exists_where (\<lambda>j. j_dedupe_key j = emit_key B row p) (jobs ?d @ more)"
    using Cons.IH [of ?d] Cons.prems(1,2) by (auto simp del: o_apply)
  have "?k \<notin> (ss_id \<circ> fst) ` set rows" using Cons.prems(2) by auto
  from moves_on_step [OF rest(2) this step(2), of T e] rest step(1) made show ?case
    by (intro exI [of _ "\<lambda>s. g (if ss_id s = ?k then advanced T nx e s else s)"] exI [of _ "new @ more"])
      (auto simp: txbind_def update_where_def exists_where_iff o_def)
qed


section \<open>Role leases\<close>

lemma find_updated:
  "(\<And>r. p r \<Longrightarrow> p (f r)) \<Longrightarrow> find_where p (update_where p f t) = map_option f (find_where p t)"
  by (induction t) (simp_all add: find_where_def update_where_def)

lemma find_appended: "find_where p t = None \<Longrightarrow> p r \<Longrightarrow> find_where p (t @ [r]) = Some r"
  by (induction t) (simp_all add: find_where_def split: if_splits)

text \<open>While the lease lasts nobody else gets it; the holder may renew it, and anybody may take it once it has ended.\<close>

lemma role_lease_held:
  assumes "try_acquire_role_lease flt now role owner d db = (True, db')"
  shows "find_where (\<lambda>l. lease_role l = role) (role_leases db')
    = Some \<lparr>lease_role = role, lease_holder = owner, lease_until = now + secs d\<rparr>"
proof -
  let ?p = "\<lambda>l :: role_lease. lease_role l = role"
  let ?f = "\<lambda>l. l\<lparr>lease_holder := owner, lease_until := now + secs d\<rparr>"
  have upd: "find_where ?p (update_where ?p ?f t) = map_option ?f (find_where ?p t)" for t by (rule find_updated) simp
  have hit: "lease_role l = role" if "find_where ?p t = Some l" for l t using find_where_SomeD [OF that] by simp
  show ?thesis
  proof (cases "find_where ?p (role_leases db)")
    case None
    note find_appended [OF this]
    with None assms show ?thesis by (auto simp: try_acquire_role_lease_def Let_def split: if_splits)
  next
    case (Some l)
    with assms upd [of "role_leases db"] hit [OF Some] show ?thesis by (auto simp: try_acquire_role_lease_def Let_def split: if_splits)
  qed
qed

lemma role_lease_exclusive:
  assumes "try_acquire_role_lease flt now role owner d db = (True, db')" "other \<noteq> owner" "now' < now + secs d"
  shows "try_acquire_role_lease flt' now' role other d' db' = (False, db')"
  using role_lease_held [OF assms(1)] assms(2,3) by (simp add: try_acquire_role_lease_def)

lemma role_lease_expires:
  assumes "try_acquire_role_lease flt now role owner d db = (True, db')" "now + secs d \<le> now'"
  shows "fst (try_acquire_role_lease NoFault now' role other d' db')"
  using role_lease_held [OF assms(1)] assms(2) by (simp add: try_acquire_role_lease_def)

text \<open>A process that does not hold the lease leaves everything as it is.\<close>

lemma second_scheduler_waits:
  assumes "try_acquire_role_lease flt now ''scheduler'' owner 90 db = (True, db')" "other \<noteq> owner" "now' < now + secs 90"
  shows "scheduler_turn B flt' now' other T db' = db'"
  using role_lease_exclusive [OF assms] by (simp add: scheduler_turn_def)

section \<open>Sample tick\<close>

definition sample_tick :: tick_env where
  "sample_tick = \<lparr>tk_now = 50, tk_clock = 50, tk_fault = NoFault, tk_locked = (\<lambda>_. False), tk_ids = (\<lambda>u. u + 1000)\<rparr>"

definition sample_tick_libs :: bot_libs where
  "sample_tick_libs = sample_bot_libs\<lparr>bl_libs := sample_libs\<lparr>lib_rfc3339 := \<lambda>t. take 30 (show_int t)\<rparr>\<rparr>"

definition sample_schedule :: summary_schedule where
  "sample_schedule = \<lparr>ss_id = 70, ss_account_id = 2, ss_frequency = ''daily'', ss_delivery_minute = 480,
     ss_provider_scope = ''zalo'', ss_provider_chat_id = ''c2'', ss_enabled = True, ss_next_run_at = 0, ss_last_emitted_at = None\<rparr>"

lemma sample_due:
  "due_schedules sample_tick sample_bot = [sample_schedule]"
  "due_rows sample_tick sample_bot = [(sample_schedule, ''Asia/Ho_Chi_Minh'')]"
  by (simp_all add: due_rows_def due_schedules_def sample_tick_def sample_bot_def sample_schedule_def active_account_def
      find_where_def sample_account_def)

lemma sample_computable: "computable sample_tick_libs 50 (sample_schedule, ''Asia/Ho_Chi_Minh'')"
  unfolding computable_def schedulable_def using sample_calendar sample_zone_ok
  by (simp add: sample_tick_libs_def sample_bot_libs_def sample_schedule_def frequency_parse_def sample_zone_def
      to_ascii_lowercase_def secs_def)

lemma sample_owed: "\<exists>p. owed sample_tick_libs 50 (sample_schedule, ''Asia/Ho_Chi_Minh'') p"
proof -
  have ok: "schedulable sample_zone ''Asia/Ho_Chi_Minh'' 480 50" "0 \<le> zl_local_date sample_zone ''Asia/Ho_Chi_Minh'' 50"
    using sample_computable by (simp_all add: computable_def sample_tick_libs_def sample_bot_libs_def sample_schedule_def)
  obtain latest where latest: "latest_delivery sample_zone 50 ''Asia/Ho_Chi_Minh'' Daily 480 = Done (Inr latest)"
    by (rule latest_delivery_slot [OF ok(1), of Daily])
  with scheduled_period_returns [OF ok latest] show ?thesis
    by (simp add: owed_def sample_tick_libs_def sample_bot_libs_def sample_schedule_def frequency_parse_def skip_emit_def) blast
qed


end
