(* ===== verification/Followup.thy ===== *)
theory Followup
  imports Ingress_Effects
begin

text \<open>
  What the bot says after the extraction of a receipt, \<^verbatim>\<open>src/ingress/followup.rs\<close>: the review card with its
  pending question, or the notice of a failure. Both are processes; a \<^verbatim>\<open>FollowupError\<close> has only a message,
  which a receipt error carries here. The clock reads of one call give one value, \<open>clock\<close>.
\<close>

definition followup_error :: "string \<Rightarrow> receipt_error" where
  "followup_error m = ReceiptError EDependency m"

definition review_idempotency_key :: "bot_libs \<Rightarrow> uuid \<Rightarrow> string" where
  "review_idempotency_key B sid = ''receipt-review:'' @ show_uuid B sid"

definition failure_idempotency_key :: "bot_libs \<Rightarrow> uuid \<Rightarrow> string" where
  "failure_idempotency_key B sid = ''receipt-failure:'' @ show_uuid B sid"

record followup_context =
  fc_inbound_event_id :: "uuid option"
  fc_provider_scope :: string
  fc_provider_chat_id :: string
  fc_timezone :: string
  fc_locale :: string
  fc_amount_minor :: int
  fc_currency :: string
  fc_merchant :: string
  fc_category_display :: string
  fc_transaction_type :: string
  fc_occurred_at :: instant

definition review_card_body :: "bot_libs \<Rightarrow> followup_context \<Rightarrow> string" where
  "review_card_body B c =
     (let loc = locale_parse (fc_locale c) in
      manual_confirmation_card loc (fc_merchant c) (format_minor (bl_chat B) (fc_amount_minor c) (fc_currency c))
        (format_date_vn (bl_chat B) (fc_occurred_at c) (fc_timezone c)) (transaction_type_label loc (fc_transaction_type c))
        (fc_category_display c))"

text \<open>
  The join of a submission with its event and account. A column that is NULL where the code expects a text fails
  the query.
\<close>

definition submission_routing ::
  "db_fault \<Rightarrow> uuid \<Rightarrow> uuid \<Rightarrow> ('z bot_db_scheme, receipt_error, uuid option \<times> string \<times> string \<times> account) tx" where
  "submission_routing flt aid sid =
     stmt flt ''submission routing'' (followup_error ''submission routing lookup failed'') (\<lambda>db.
       case find_where (\<lambda>s. s_id s = sid \<and> s_account_id s = aid) (submissions db) of
         None \<Rightarrow> Inl (followup_error ''submission routing not found'')
       | Some s \<Rightarrow>
           (case (Option.bind (s_inbound_event_id s) (\<lambda>i. find_where (\<lambda>e. ie_id e = i) (inbound_events db)),
                  find_where (\<lambda>a. ac_id a = aid) (accounts db)) of
              (Some e, Some a) \<Rightarrow>
                (case ie_provider_chat_id e of
                   None \<Rightarrow> Inl (followup_error ''submission routing lookup failed'')
                 | Some chat \<Rightarrow> Inr ((s_inbound_event_id s, ie_provider_scope e, chat, a), db))
            | _ \<Rightarrow> Inl (followup_error ''submission routing not found'')))"

definition load_followup_context ::
  "db_fault \<Rightarrow> uuid \<Rightarrow> uuid \<Rightarrow> ('z bot_db_scheme, receipt_error, followup_context) tx" where
  "load_followup_context flt aid sid =
     txbind (submission_routing flt aid sid) (\<lambda>(ev, scope, chat, a).
       let use_en = starts_with (to_ascii_lowercase (ac_locale a)) ''en'' in
       stmt flt ''draft lookup'' (followup_error ''draft lookup failed'') (\<lambda>db.
         case find_where (\<lambda>d. d_submission_id d = sid \<and> d_account_id d = aid) (drafts db) of
           None \<Rightarrow> Inl (followup_error ''expense draft not found'')
         | Some d \<Rightarrow>
             if d_category_key d \<notin> set (categories db) then Inl (followup_error ''expense draft not found'')
             else Inr (\<lparr>fc_inbound_event_id = ev, fc_provider_scope = scope, fc_provider_chat_id = chat,
                    fc_timezone = ac_timezone a, fc_locale = ac_locale a, fc_amount_minor = d_amount_minor d,
                    fc_currency = d_currency d, fc_merchant = d_merchant d,
                    fc_category_display = (if use_en then snd else fst) (category_names db (d_category_key d)),
                    fc_transaction_type = d_transaction_type d, fc_occurred_at = d_occurred_at d\<rparr>, db)))"

definition upsert_receipt_review_pending ::
  "bot_libs \<Rightarrow> db_fault \<Rightarrow> instant \<Rightarrow> uuid \<Rightarrow> uuid \<Rightarrow> instant \<Rightarrow> ('z bot_db_scheme, receipt_error, unit) tx" where
  "upsert_receipt_review_pending B flt now aid sid expires_at =
     txbind (stmt flt ''pending insert'' (followup_error ''pending insert failed'') (\<lambda>db.
       if exists_where (\<lambda>c. cs_account_id c = aid) (conversation_states db) then Inr (False, db)
       else Inr (True, db\<lparr>conversation_states := conversation_states db @
         [\<lparr>cs_account_id = aid, cs_pending_action_type = Some ''receipt_review'', cs_pending_payload_ref = Some (show_uuid B sid),
           cs_expires_at = Some expires_at, cs_version = 1, cs_updated_at = now\<rparr>]\<rparr>))) (\<lambda>inserted.
       if inserted then txret ()
       else txbind (stmt flt ''pending version'' (followup_error ''pending version lookup failed'') (\<lambda>db.
              case find_where (\<lambda>c. cs_account_id c = aid) (conversation_states db) of
                None \<Rightarrow> Inl (followup_error ''pending version lookup failed'') | Some c \<Rightarrow> Inr (cs_version c, db))) (\<lambda>version.
            stmt flt ''pending update'' (followup_error ''pending update failed'') (\<lambda>db.
              let hit = (\<lambda>c. cs_account_id c = aid \<and> cs_version c = version) in
              if \<not> exists_where hit (conversation_states db) then Inl (followup_error ''pending state version conflict'')
              else if i32_max < version + 1 then Inl (followup_error ''pending update failed'')
              else Inr ((), db\<lparr>conversation_states := update_where hit (\<lambda>c. c\<lparr>cs_pending_action_type := Some ''receipt_review'',
                     cs_pending_payload_ref := Some (show_uuid B sid), cs_expires_at := Some expires_at,
                     cs_version := cs_version c + 1, cs_updated_at := now\<rparr>) (conversation_states db)\<rparr>))))"

definition followup_env :: "db_fault \<Rightarrow> instant \<Rightarrow> instant \<Rightarrow> fresh_ids \<Rightarrow> ingress_env" where
  "followup_env flt now clock ids = \<lparr>iv_now = now, iv_clock = clock, iv_fault = flt, iv_ids = ids\<rparr>"

definition followup_outbound ::
  "bot_libs \<Rightarrow> ingress_policy \<Rightarrow> ingress_env \<Rightarrow> uuid \<Rightarrow> uuid option \<Rightarrow> string \<Rightarrow> string \<Rightarrow> string \<Rightarrow> string \<Rightarrow>
   ('z bot_db_scheme, receipt_error, unit) tx" where
  "followup_outbound B policy E aid ev scope chat body key =
     tx_map_err (\<lambda>_. followup_error ''outbound enqueue failed'')
       (enqueue_outbound_in_transaction B policy E (iv_clock E) (Some aid) ev scope chat body key)"

definition review_followup_tx ::
  "bot_libs \<Rightarrow> receipt_config \<Rightarrow> ingress_policy \<Rightarrow> ingress_env \<Rightarrow> uuid \<Rightarrow> uuid \<Rightarrow> ('z bot_db_scheme, receipt_error, unit) tx" where
  "review_followup_tx B cfg policy E aid sid =
     txbind (load_followup_context (iv_fault E) aid sid) (\<lambda>c.
     txbind (upsert_receipt_review_pending B (iv_fault E) (iv_now E) aid sid
               (iv_clock E + secs (3600 * max 1 (review_expiry_hours cfg)))) (\<lambda>_.
       followup_outbound B policy E aid (fc_inbound_event_id c) (fc_provider_scope c) (fc_provider_chat_id c)
         (review_card_body B c) (review_idempotency_key B sid)))"

text \<open>Both follow-ups look for an earlier message with their key before they open a transaction.\<close>

definition unless_sent :: "string \<Rightarrow> ('z bot_db_scheme, unit) proc \<Rightarrow> ('z bot_db_scheme, unit) proc" where
  "unless_sent key k =
     pbind (pquery ''outbound lookup failed'' (\<lambda>db. exists_where (\<lambda>m. o_idempotency_key m = key) (outbound_messages db)))
       (\<lambda>existing. if existing then preturn () else k)"

definition enqueue_receipt_review_followup ::
  "bot_libs \<Rightarrow> receipt_config \<Rightarrow> ingress_policy \<Rightarrow> fresh_ids \<Rightarrow> instant \<Rightarrow> uuid \<Rightarrow> uuid \<Rightarrow> ('z bot_db_scheme, unit) proc" where
  "enqueue_receipt_review_followup B cfg policy ids clock aid sid =
     unless_sent (review_idempotency_key B sid)
       (pdb (\<lambda>flt now. run_tx flt (followup_error ''begin transaction failed'') (followup_error ''commit failed'')
          (review_followup_tx B cfg policy (followup_env flt now clock ids) aid sid)))"

definition failure_text :: "locale_t \<Rightarrow> error_class \<Rightarrow> string" where
  "failure_text loc c =
     (case c of
        EUnsupported \<Rightarrow> extraction_unsupported_text loc
      | EKillSwitch \<Rightarrow> extraction_kill_switch_text loc
      | _ \<Rightarrow> extraction_failed_text loc)"

definition failure_followup_tx ::
  "bot_libs \<Rightarrow> ingress_policy \<Rightarrow> ingress_env \<Rightarrow> uuid \<Rightarrow> uuid \<Rightarrow> error_class \<Rightarrow> ('z bot_db_scheme, receipt_error, unit) tx" where
  "failure_followup_tx B policy E aid sid c =
     txbind (submission_routing (iv_fault E) aid sid) (\<lambda>(ev, scope, chat, a).
       followup_outbound B policy E aid ev scope chat (failure_text (locale_parse (ac_locale a)) c) (failure_idempotency_key B sid))"

definition enqueue_receipt_failure_followup ::
  "bot_libs \<Rightarrow> ingress_policy \<Rightarrow> fresh_ids \<Rightarrow> instant \<Rightarrow> uuid \<Rightarrow> uuid \<Rightarrow> error_class \<Rightarrow> ('z bot_db_scheme, unit) proc" where
  "enqueue_receipt_failure_followup B policy ids clock aid sid c =
     unless_sent (failure_idempotency_key B sid)
       (pdb (\<lambda>flt now. run_tx flt (followup_error ''begin transaction failed'') (followup_error ''commit failed'')
          (failure_followup_tx B policy (followup_env flt now clock ids) aid sid c)))"

end
