(* ===== verification/Jobs.thy ===== *)
theory Jobs
  imports Followup Scheduler Media Zalo_Api
begin

text \<open>
  What a worker does with a leased job, \<^verbatim>\<open>src/runtime/jobs.rs\<close>, and how it reports the result to the queue
  (\<^verbatim>\<open>apply_execution_result\<close> and \<^verbatim>\<open>shutdown_execution\<close> in \<^verbatim>\<open>src/runtime/mod.rs\<close>). A dispatch is a process: each await
  sees what others did meanwhile and may meet a fault of its own.
\<close>

section \<open>Dependencies\<close>

text \<open>
  \<open>jl_parse_time\<close> reads an RFC 3339 time as serde does, \<open>jl_format_compact\<close> is \<^verbatim>\<open>format("%Y%m%dT%H%M%SZ")\<close>.
  \<open>job_deps\<close> has the injected services; \<open>job_env\<close> what the outside world gives one dispatch: the clock, fresh ids, the
  hops of its download, the answer to its one \<^verbatim>\<open>sendMessage\<close> request and how long the extractor took.
\<close>

record job_libs =
  jl_bot :: bot_libs
  jl_api :: api_libs
  jl_parse_time :: "string \<Rightarrow> instant option"
  jl_format_compact :: "instant \<Rightarrow> string"

record job_deps =
  jd_zalo :: zalo_http_config
  jd_receipt :: receipt_config
  jd_policy :: ingress_policy
  jd_media :: media_policy
  jd_narrate :: "json \<Rightarrow> insight_error + string"
  jd_extract :: "string \<Rightarrow> receipt_error + extracted_attempt"
  jd_extract_meta :: extraction_meta

record job_env =
  je_clock :: instant
  je_ids :: fresh_ids
  je_media :: media_env
  je_post :: "string \<Rightarrow> json \<Rightarrow> send_transport + http_reply"
  je_latency :: int

section \<open>Payloads\<close>

fun as_i32 :: "json \<Rightarrow> int option" where
  "as_i32 (JInt i) = (if - 2147483648 \<le> i \<and> i \<le> i32_max then Some i else None)"
| "as_i32 _ = None"

definition as_uuid :: "job_libs \<Rightarrow> json \<Rightarrow> uuid option" where
  "as_uuid L j = Option.bind (json_as_str j) (bl_parse_uuid (jl_bot L))"

definition as_time :: "job_libs \<Rightarrow> json \<Rightarrow> instant option" where
  "as_time L j = Option.bind (json_as_str j) (jl_parse_time L)"

definition decode_receipt_payload :: "job_libs \<Rightarrow> json \<Rightarrow> (int \<times> uuid) option" where
  "decode_receipt_payload L j = do {
     f \<leftarrow> struct_fields [''schema_version'', ''receipt_submission_id''] j;
     version \<leftarrow> Option.bind (f ''schema_version'') as_i32;
     sid \<leftarrow> Option.bind (f ''receipt_submission_id'') (as_uuid L);
     Some (version, sid)
   }"

definition decode_emit_payload :: "job_libs \<Rightarrow> json \<Rightarrow> schedule_emit_payload option" where
  "decode_emit_payload L j = do {
     f \<leftarrow> struct_fields [''schema_version'', ''account_id'', ''schedule_id'', ''frequency'', ''period_start'', ''period_end''] j;
     version \<leftarrow> Option.bind (f ''schema_version'') as_i32;
     aid \<leftarrow> Option.bind (f ''account_id'') (as_uuid L);
     sid \<leftarrow> Option.bind (f ''schedule_id'') (as_uuid L);
     frequency \<leftarrow> Option.bind (f ''frequency'') json_as_str;
     start \<leftarrow> Option.bind (f ''period_start'') (as_time L);
     stop \<leftarrow> Option.bind (f ''period_end'') (as_time L);
     Some \<lparr>sp_schema_version = version, sp_account_id = aid, sp_schedule_id = sid, sp_frequency = frequency,
           sp_period_start = start, sp_period_end = stop\<rparr>
   }"

definition decode_delete_payload :: "job_libs \<Rightarrow> json \<Rightarrow> account_delete_payload option" where
  "decode_delete_payload L j = do {
     f \<leftarrow> struct_fields [''schema_version'', ''account_id'', ''deletion_request_id''] j;
     version \<leftarrow> Option.bind (f ''schema_version'') as_i32;
     aid \<leftarrow> Option.bind (f ''account_id'') (as_uuid L);
     request \<leftarrow> Option.bind (f ''deletion_request_id'') (as_uuid L);
     Some \<lparr>dp_schema_version = version, dp_account_id = aid, dp_deletion_request_id = request\<rparr>
   }"

definition decode_export_payload :: "job_libs \<Rightarrow> json \<Rightarrow> account_export_payload option" where
  "decode_export_payload L j = do {
     f \<leftarrow> struct_fields [''schema_version'', ''account_id'', ''export_id'', ''provider_scope'', ''provider_chat_id''] j;
     version \<leftarrow> Option.bind (f ''schema_version'') as_i32;
     aid \<leftarrow> Option.bind (f ''account_id'') (as_uuid L);
     xid \<leftarrow> Option.bind (f ''export_id'') (as_uuid L);
     scope \<leftarrow> Option.bind (f ''provider_scope'') json_as_str;
     chat \<leftarrow> Option.bind (f ''provider_chat_id'') json_as_str;
     Some \<lparr>xp_schema_version = version, xp_account_id = aid, xp_export_id = xid, xp_provider_scope = scope,
           xp_provider_chat_id = chat\<rparr>
   }"

definition decode_narrate_payload :: "job_libs \<Rightarrow> json \<Rightarrow> insight_narrate_payload option" where
  "decode_narrate_payload L j = do {
     f \<leftarrow> struct_fields [''schema_version'', ''account_id'', ''snapshot_id'', ''aggregate_digest''] j;
     version \<leftarrow> Option.bind (f ''schema_version'') as_i32;
     aid \<leftarrow> Option.bind (f ''account_id'') (as_uuid L);
     sid \<leftarrow> Option.bind (f ''snapshot_id'') (as_uuid L);
     digest \<leftarrow> Option.bind (f ''aggregate_digest'') json_as_str;
     Some \<lparr>np_schema_version = version, np_account_id = aid, np_snapshot_id = sid, np_aggregate_digest = digest\<rparr>
   }"

definition receipt_job_complete :: outbound_job_execution where
  "receipt_job_complete = ExecComplete \<lparr>dr_outbound_id = 0, dr_state = DSent\<rparr>"

section \<open>Outbound delivery\<close>

definition send_answer :: "job_libs \<Rightarrow> job_deps \<Rightarrow> job_env \<Rightarrow> string \<Rightarrow> string \<Rightarrow> send_outcome" where
  "send_answer L D JE target body =
     (case fst (send_message (jl_api L) (je_post JE) (jd_zalo D) target body) of
        Inl e \<Rightarrow> SendErr (pe_class e)
      | Inr mid \<Rightarrow> SendOk mid)"

fun answer_at :: "job_libs \<Rightarrow> job_deps \<Rightarrow> job_env \<Rightarrow> deliver_pc \<Rightarrow> send_outcome" where
  "answer_at L D JE (AtSend oid target body) = send_answer L D JE target body"
| "answer_at L D JE _ = SendOk []"

definition deliver_await :: "job_libs \<Rightarrow> job_deps \<Rightarrow> job_env \<Rightarrow> claimed_job \<Rightarrow> deliver_pc \<Rightarrow> ('z bot_db_scheme, deliver_pc) proc" where
  "deliver_await L D JE job pc =
     pdb (\<lambda>flt now db.
       case deliver_step job \<lparr>di_now = now, di_fault = flt, di_answer = answer_at L D JE pc\<rparr> pc db of (pc', db') \<Rightarrow> (Inr pc', db'))"

text \<open>Five awaits are enough (\<open>deliver_rank\<close> counts them), so the last clause is not reached.\<close>

fun deliver_awaits ::
  "job_libs \<Rightarrow> job_deps \<Rightarrow> job_env \<Rightarrow> claimed_job \<Rightarrow> nat \<Rightarrow> deliver_pc \<Rightarrow> ('z bot_db_scheme, outbound_job_execution) proc" where
  "deliver_awaits L D JE job k (Finished (Inr x)) = preturn x"
| "deliver_awaits L D JE job k (Finished (Inl e)) = preturn (ExecFail EDependency)"
| "deliver_awaits L D JE job (Suc k) pc = pbind (deliver_await L D JE job pc) (deliver_awaits L D JE job k)"
| "deliver_awaits L D JE job 0 pc = preturn StaleLease"

definition dispatch_outbound ::
  "job_libs \<Rightarrow> job_deps \<Rightarrow> job_env \<Rightarrow> claimed_job \<Rightarrow> ('z bot_db_scheme, outbound_job_execution) proc" where
  "dispatch_outbound L D JE job = deliver_awaits L D JE job 5 (deliver_start (bl_parse_uuid (jl_bot L)) job)"

section \<open>Receipts\<close>

definition parse_receipt_submission_id :: "job_libs \<Rightarrow> claimed_job \<Rightarrow> string \<Rightarrow> outbound_job_execution + uuid" where
  "parse_receipt_submission_id L job expected =
     (if cj_job_type job \<noteq> expected \<or> cj_payload_version job \<noteq> 1 then Inl InvalidJob
      else case decode_receipt_payload L (cj_payload job) of
        None \<Rightarrow> Inl InvalidJob
      | Some (version, sid) \<Rightarrow> if version \<noteq> 1 then Inl InvalidJob else Inr sid)"

definition submission_media :: "uuid \<Rightarrow> 'z bot_db_scheme \<Rightarrow> (uuid \<times> string) option" where
  "submission_media sid db =
     Option.bind (find_where (\<lambda>s. s_id s = sid) (submissions db)) (\<lambda>s.
     Option.bind (Option.bind (s_inbound_event_id s) (\<lambda>i. find_where (\<lambda>e. ie_id e = i) (inbound_events db))) (\<lambda>e.
     map_option (\<lambda>url. (s_account_id s, url)) (ie_media_url e)))"

text \<open>\<^verbatim>\<open>fetch_optional(..).await.ok().flatten()\<close>: a failing query reads as no row.\<close>

definition query_or_none :: "('d \<Rightarrow> 'a option) \<Rightarrow> ('d, 'a option) proc" where
  "query_or_none f = pbind (ptry (pquery [] f)) (\<lambda>r. preturn (case r of Inl _ \<Rightarrow> None | Inr x \<Rightarrow> x))"

definition is_permanent_media_failure :: "error_class \<Rightarrow> bool" where
  "is_permanent_media_failure c \<longleftrightarrow> c = EValidation \<or> c = EUnsupported \<or> c = EForbidden"

definition tell_failure ::
  "job_libs \<Rightarrow> job_deps \<Rightarrow> job_env \<Rightarrow> uuid \<Rightarrow> uuid \<Rightarrow> error_class \<Rightarrow> ('z bot_db_scheme, unit) proc" where
  "tell_failure L D JE aid sid c =
     pbind (ptry (enqueue_receipt_failure_followup (jl_bot L) (jd_policy D) (je_ids JE) (je_clock JE) aid sid c)) (\<lambda>_. preturn ())"

definition give_up ::
  "job_libs \<Rightarrow> job_deps \<Rightarrow> job_env \<Rightarrow> uuid \<Rightarrow> uuid \<Rightarrow> bool \<Rightarrow> error_class \<Rightarrow> ('z bot_db_scheme, outbound_job_execution) proc" where
  "give_up L D JE aid sid permanent c =
     pbind (if permanent then pbind (ptry (fail_queued sid aid c)) (\<lambda>_. tell_failure L D JE aid sid c) else preturn ())
       (\<lambda>_. preturn (ExecFail c))"

definition dispatch_receipt_ingest ::
  "job_libs \<Rightarrow> job_deps \<Rightarrow> job_env \<Rightarrow> claimed_job \<Rightarrow> ('z bot_db_scheme, outbound_job_execution) proc" where
  "dispatch_receipt_ingest L D JE job =
     (case parse_receipt_submission_id L job job_type_ingest of
        Inl x \<Rightarrow> preturn x
      | Inr sid \<Rightarrow>
          if cj_dedupe_key job \<noteq> ingest_dedupe_key (bl_libs (jl_bot L)) sid then preturn InvalidJob
          else pbind (query_or_none (submission_media sid)) (\<lambda>row.
            case row of
              None \<Rightarrow> preturn InvalidJob
            | Some (aid, url) \<Rightarrow>
                (case fst (download_media (je_media JE) (jd_media D) url) of
                   Inl e \<Rightarrow> give_up L D JE aid sid (is_permanent_media_failure (pe_class e)) (pe_class e)
                 | Inr m \<Rightarrow>
                     let mime = (case md_content_type m of None \<Rightarrow> ''application/octet-stream'' | Some t \<Rightarrow> t) in
                     pbind (ptry (ingest (bl_libs (jl_bot L)) (je_ids JE) aid sid (md_bytes m) mime (je_ids JE ''extract_job''))) (\<lambda>r.
                       case r of
                         Inr _ \<Rightarrow> preturn receipt_job_complete
                       | Inl e \<Rightarrow> let c = receipt_error_class e in
                           give_up L D JE aid sid (c = EValidation \<or> c = EUnsupported) c))))"

definition told_failures :: "error_class list" where
  "told_failures = [EValidation, EUnsupported, EKillSwitch, EQuotaExceeded, EAuth]"

definition dispatch_receipt_extract ::
  "job_libs \<Rightarrow> job_deps \<Rightarrow> job_env \<Rightarrow> claimed_job \<Rightarrow> ('z bot_db_scheme, outbound_job_execution) proc" where
  "dispatch_receipt_extract L D JE job =
     (case parse_receipt_submission_id L job job_type_extract of
        Inl x \<Rightarrow> preturn x
      | Inr sid \<Rightarrow>
          if cj_dedupe_key job \<noteq> extract_dedupe_key (bl_libs (jl_bot L)) sid then preturn InvalidJob
          else pbind (query_or_none (\<lambda>db. map_option s_account_id (find_where (\<lambda>s. s_id s = sid) (submissions db)))) (\<lambda>row.
            case row of
              None \<Rightarrow> preturn InvalidJob
            | Some aid \<Rightarrow>
                pbind (ptry (extract_receipt (bl_libs (jl_bot L)) (jd_receipt D) (jd_extract D) (jd_extract_meta D) (je_ids JE)
                         (je_clock JE) (je_latency JE) aid sid)) (\<lambda>r.
                  let review = pbind (ptry (enqueue_receipt_review_followup (jl_bot L) (jd_receipt D) (jd_policy D) (je_ids JE)
                        (je_clock JE) aid sid)) (\<lambda>f. preturn (if isl f then ExecFail EDependency else receipt_job_complete))
                  in case r of
                       Inr (ExtractTerminal st) \<Rightarrow> preturn receipt_job_complete
                     | Inr Unsupported \<Rightarrow> pbind (tell_failure L D JE aid sid EUnsupported) (\<lambda>_. preturn (ExecFail EUnsupported))
                     | Inr _ \<Rightarrow> review
                     | Inl e \<Rightarrow>
                         let c = receipt_error_class e in
                         pbind (if c \<in> set told_failures then tell_failure L D JE aid sid c else preturn ())
                           (\<lambda>_. preturn (ExecFail c)))))"

section \<open>Scheduled summaries\<close>

definition scheduled_period_label :: "string \<Rightarrow> string" where
  "scheduled_period_label f =
     (if f = ''daily'' then [CHR 0x48, CHR 0xC3, CHR 0xB4, CHR 0x6D] @ '' qua''
      else if f = ''weekly'' then ''Tu'' @ [CHR 0xE1, CHR 0xBA, CHR 0xA7] @ ''n tr'' @ [CHR 0xC6, CHR 0xB0, CHR 0xE1, CHR 0xBB, CHR 0x9B] @ ''c''
      else if f = ''monthly'' then ''Th'' @ [CHR 0xC3, CHR 0xA1] @ ''ng tr'' @ [CHR 0xC6, CHR 0xB0, CHR 0xE1, CHR 0xBB, CHR 0x9B] @ ''c''
      else ''T'' @ [CHR 0xE1, CHR 0xBB, CHR 0x95] @ ''ng k'' @ [CHR 0xE1, CHR 0xBA, CHR 0xBF] @ ''t'')"


definition scheduled_summary_body :: "job_libs \<Rightarrow> locale_t \<Rightarrow> string \<Rightarrow> int \<times> int \<times> string \<Rightarrow> string" where
  "scheduled_summary_body L loc f totals =
     (case totals of (total_minor, tx_count, currency) \<Rightarrow>
        if tx_count = 0 then empty_summary_text loc (scheduled_period_label f)
        else today_summary_text (bl_chat (jl_bot L)) loc (scheduled_period_label f) currency total_minor)"

definition summary_key :: "job_libs \<Rightarrow> schedule_emit_payload \<Rightarrow> string" where
  "summary_key L p =
     ''scheduled-summary:'' @ show_uuid (jl_bot L) (sp_account_id p) @ '':'' @ sp_frequency p @ '':'' @ jl_format_compact L (sp_period_start p)"

definition queue_summary ::
  "job_libs \<Rightarrow> job_deps \<Rightarrow> job_env \<Rightarrow> schedule_emit_payload \<Rightarrow> string \<Rightarrow> string \<Rightarrow> string \<Rightarrow>
   ('z bot_db_scheme, outbound_job_execution) proc" where
  "queue_summary L D JE p scope chat body =
     pbind (ptry (pdb (\<lambda>flt now. run_tx flt (class_error EDependency) (class_error EDependency)
       (tx_map_err (\<lambda>_. class_error EDependency) (enqueue_outbound_in_transaction (jl_bot L) (jd_policy D)
          (followup_env flt now (je_clock JE) (je_ids JE)) (je_clock JE) (Some (sp_account_id p)) None scope chat body (summary_key L p))))))
       (\<lambda>r. preturn (if isl r then ExecFail EDependency else receipt_job_complete))"

definition emit_payload_of :: "job_libs \<Rightarrow> claimed_job \<Rightarrow> schedule_emit_payload option" where
  "emit_payload_of L job =
     (if cj_job_type job \<noteq> ''schedule.emit'' \<or> cj_payload_version job \<noteq> 1 then None
      else case decode_emit_payload L (cj_payload job) of
        None \<Rightarrow> None
      | Some p \<Rightarrow>
          if sp_schema_version p \<noteq> 1 \<or>
             cj_dedupe_key job \<noteq> schedule_emit_dedupe_key (jl_bot L) (sp_account_id p) (sp_frequency p) (sp_period_start p)
          then None else Some p)"

definition dispatch_schedule_emit ::
  "job_libs \<Rightarrow> job_deps \<Rightarrow> job_env \<Rightarrow> claimed_job \<Rightarrow> ('z bot_db_scheme, outbound_job_execution) proc" where
  "dispatch_schedule_emit L D JE job =
     (case emit_payload_of L job of
        None \<Rightarrow> preturn InvalidJob
      | Some p \<Rightarrow>
          pbind (query_or_none (\<lambda>db. find_where (\<lambda>a. ac_id a = sp_account_id p) (accounts db))) (\<lambda>account.
            case account of
              None \<Rightarrow> preturn receipt_job_complete
            | Some a \<Rightarrow>
                if ac_lifecycle_state a \<in> {Suspended, Deleting, AccountDeleted} then preturn receipt_job_complete
                else pbind (query_or_none (\<lambda>db. find_where (\<lambda>s. ss_id s = sp_schedule_id p \<and> ss_account_id s = sp_account_id p
                       \<and> ss_enabled s) (summary_schedules db))) (\<lambda>row.
                  case row of
                    None \<Rightarrow> preturn receipt_job_complete
                  | Some s \<Rightarrow>
                      if ss_frequency s \<noteq> sp_frequency p then preturn InvalidJob
                      else pbind (query_or_none (\<lambda>db. expense_totals (jl_bot L) ''VND''
                             (filter (confirmed_between (sp_account_id p) (sp_period_start p) (sp_period_end p)) (expenses db)))) (\<lambda>totals.
                        queue_summary L D JE p (ss_provider_scope s) (ss_provider_chat_id s)
                          (scheduled_summary_body L (locale_parse (ac_locale a)) (sp_frequency p)
                             (case totals of None \<Rightarrow> (0, 0, ''VND'') | Some t \<Rightarrow> t))))))"

section \<open>Accounts and insights\<close>

definition account_job_result :: "receipt_error + unit \<Rightarrow> outbound_job_execution" where
  "account_job_result r =
     (case r of
        Inr _ \<Rightarrow> receipt_job_complete
      | Inl e \<Rightarrow> if receipt_error_class e = EValidation then InvalidJob else ExecFail (receipt_error_class e))"

definition dispatch_account_delete ::
  "job_libs \<Rightarrow> claimed_job \<Rightarrow> ('z bot_db_scheme, outbound_job_execution) proc" where
  "dispatch_account_delete L job =
     (if cj_job_type job \<noteq> ''account.delete'' \<or> cj_payload_version job \<noteq> 1 then preturn InvalidJob
      else case decode_delete_payload L (cj_payload job) of
        None \<Rightarrow> preturn InvalidJob
      | Some p \<Rightarrow> pbind (ptry (execute_account_delete (jl_bot L) p)) (\<lambda>r. preturn (account_job_result r)))"

definition dispatch_account_export ::
  "job_libs \<Rightarrow> job_env \<Rightarrow> claimed_job \<Rightarrow> ('z bot_db_scheme, outbound_job_execution) proc" where
  "dispatch_account_export L JE job =
     (if cj_job_type job \<noteq> ''account.export'' \<or> cj_payload_version job \<noteq> 1 then preturn InvalidJob
      else case decode_export_payload L (cj_payload job) of
        None \<Rightarrow> preturn InvalidJob
      | Some p \<Rightarrow> pbind (ptry (execute_account_export (jl_bot L) (je_ids JE) (je_clock JE) p)) (\<lambda>r. preturn (account_job_result r)))"

definition dispatch_insight_narrate ::
  "job_libs \<Rightarrow> job_deps \<Rightarrow> job_env \<Rightarrow> claimed_job \<Rightarrow> ('z bot_db_scheme, outbound_job_execution) proc" where
  "dispatch_insight_narrate L D JE job =
     (if \<not> ip_insights_llm_enabled (jd_policy D) then preturn receipt_job_complete
      else if cj_job_type job \<noteq> ''insight.narrate'' \<or> cj_payload_version job \<noteq> 1 then preturn InvalidJob
      else case decode_narrate_payload L (cj_payload job) of
        None \<Rightarrow> preturn InvalidJob
      | Some p \<Rightarrow>
          if np_schema_version p \<noteq> 1 \<or> cj_dedupe_key job \<noteq> narrate_dedupe_key (jl_bot L) (np_snapshot_id p) (np_aggregate_digest p)
          then preturn InvalidJob
          else pbind (ptry (execute_insight_narrate (jl_bot L) (jd_narrate D) (je_clock JE) p
                 (ip_monthly_insight_narratives (jd_policy D)))) (\<lambda>r.
            preturn (if isl r then ExecFail EDependency else receipt_job_complete)))"

section \<open>Dispatch and result\<close>

definition dispatch_leased_job ::
  "job_libs \<Rightarrow> job_deps \<Rightarrow> job_env \<Rightarrow> claimed_job \<Rightarrow> ('z bot_db_scheme, outbound_job_execution) proc" where
  "dispatch_leased_job L D JE job =
     (let t = cj_job_type job in
      if t = ''outbound.deliver'' then dispatch_outbound L D JE job
      else if t = job_type_ingest then dispatch_receipt_ingest L D JE job
      else if t = job_type_extract then dispatch_receipt_extract L D JE job
      else if t = ''schedule.emit'' then dispatch_schedule_emit L D JE job
      else if t = ''account.delete'' then dispatch_account_delete L job
      else if t = ''account.export'' then dispatch_account_export L JE job
      else if t = ''insight.narrate'' then dispatch_insight_narrate L D JE job
      else preturn InvalidJob)"

text \<open>The result goes to the queue; an error of the queue is only logged.\<close>

definition report :: "(work_error + 'a) \<times> 'd \<Rightarrow> (receipt_error + unit) \<times> 'd" where
  "report r = (Inr (), snd r)"

definition apply_execution_result :: "claimed_job \<Rightarrow> outbound_job_execution \<Rightarrow> ('z bot_db_scheme, unit) proc" where
  "apply_execution_result job x =
     (case x of
        ExecComplete r \<Rightarrow> pdb (\<lambda>flt now db. report (complete flt now (cj_id job) (cj_lease_token job) db))
      | ExecFail c \<Rightarrow> pdb (\<lambda>flt now db. report (fail flt now (cj_id job) (cj_lease_token job) c db))
      | InvalidJob \<Rightarrow> pdb (\<lambda>flt now db. report (fail flt now (cj_id job) (cj_lease_token job) EValidation db))
      | StaleLease \<Rightarrow> preturn ())"

definition shutdown_execution :: "claimed_job \<Rightarrow> ('z bot_db_scheme, outbound_job_execution) proc" where
  "shutdown_execution job =
     pbind (pdb (\<lambda>flt now db. report (fail flt now (cj_id job) (cj_lease_token job) ETransient db))) (\<lambda>_. preturn StaleLease)"

text \<open>A job that runs to its end without an interruption by the heartbeat or a shutdown.\<close>

definition run_leased_job ::
  "job_libs \<Rightarrow> job_deps \<Rightarrow> job_env \<Rightarrow> claimed_job \<Rightarrow> ('z bot_db_scheme, unit) proc" where
  "run_leased_job L D JE job = pbind (dispatch_leased_job L D JE job) (apply_execution_result job)"

section \<open>The worker's clock\<close>

definition worker_lease_duration_secs :: "nat \<Rightarrow> int" where
  "worker_lease_duration_secs send_timeout = wrap64 (int (max (min (send_timeout * 3) (2 ^ 64 - 1)) 60))"

text \<open>\<^verbatim>\<open>lease as u64 / 3\<close>, at least one second.\<close>

definition worker_heartbeat_interval :: "int \<Rightarrow> nat" where
  "worker_heartbeat_interval lease = max (nat (lease mod 2 ^ 64) div 3) 1"

definition valid_runtime_secret :: "string \<Rightarrow> bool" where
  "valid_runtime_secret v \<longleftrightarrow> 16 \<le> length v \<and> v \<noteq> ''dev-secret-change-me'' \<and> v \<noteq> ''change-me''"

end
