(* ===== verification/Jobs_Properties.thy ===== *)
theory Jobs_Properties
  imports Jobs Account_Properties Outbound_Properties Provider_Properties
begin

text \<open>
  What the job handlers guarantee: a delivery ends within its awaits, a summary is queued once however often its job runs,
  and what becomes of a receipt job whose first query fails.
\<close>

section \<open>Delivery\<close>

lemma deliver_await_rank:
  assumes "deliver_await L D JE job pc sc n w = (Inr pc', n', w')"
  shows "deliver_rank pc' \<le> deliver_rank pc - 1"
  using assms deliver_step_rank [of job "\<lparr>di_now = aw_now (sc n), di_fault = aw_fault (sc n), di_answer = answer_at L D JE pc\<rparr>" pc
      "rw_db (aw_others (sc n) w)"]
  by (auto simp: deliver_await_def pdb_def Let_def split: prod.splits)

lemma deliver_await_Inr: "\<exists>pc' n' w'. deliver_await L D JE job pc sc n w = (Inr pc', n', w')"
  by (auto simp: deliver_await_def pdb_def Let_def split: prod.splits)

text \<open>Once there are as many awaits left as the rank says, more of them change nothing.\<close>

lemma deliver_awaits_enough:
  "deliver_rank pc \<le> k \<Longrightarrow> deliver_awaits L D JE job (Suc k) pc sc n w = deliver_awaits L D JE job k pc sc n w"
proof (induction k arbitrary: pc n w)
  case 0
  then obtain r where "pc = Finished r" by (cases pc) auto
  then show ?case by (cases r) simp_all
next
  case (Suc k)
  obtain pc' n' w' where a: "deliver_await L D JE job pc sc n w = (Inr pc', n', w')" using deliver_await_Inr by blast
  then have "deliver_rank pc' \<le> k" using deliver_await_rank [OF a] Suc.prems by simp
  from Suc.IH [OF this] have "pbind (deliver_await L D JE job pc) (deliver_awaits L D JE job (Suc k)) sc n w
      = pbind (deliver_await L D JE job pc) (deliver_awaits L D JE job k) sc n w"
    unfolding pbind_def a by simp
  then show ?case by (cases pc rule: deliver_rank.cases; (rename_tac r, case_tac r)?) simp_all
qed

lemma dispatch_outbound_ends:
  "deliver_awaits L D JE job (5 + k) (deliver_start (bl_parse_uuid (jl_bot L)) job) sc n w = dispatch_outbound L D JE job sc n w"
proof (induction k)
  case (Suc k)
  have "deliver_rank (deliver_start (bl_parse_uuid (jl_bot L)) job) \<le> 5 + k" by (simp add: deliver_start_def split: sum.split)
  from deliver_awaits_enough [OF this, of L D JE job sc n w] Suc show ?case by simp
qed (simp add: dispatch_outbound_def)

section \<open>Queries that fail\<close>

lemma query_or_none_fault:
  "aw_fault (sc n) \<noteq> NoFault \<Longrightarrow> aw_others (sc n) w = w \<Longrightarrow> query_or_none f sc n w = (Inr None, Suc n, w)"
  by (simp add: query_or_none_def pbind_def ptry_def pquery_def pdb_def preturn_def)

lemma query_or_none_keeps:
  assumes "aw_others (sc n) w = w"
  shows "\<exists>x. query_or_none f sc n w = (Inr x, Suc n, w)"
  using assms by (simp add: query_or_none_def pbind_def ptry_def pquery_def pdb_def preturn_def)

text \<open>
C30: A receipt job does not survive a passing database fault at its first query, whatever its retry budget: when the
  lookup of a valid ingest or extract job meets a fault and the report of the result meets none, the job held under a live
  lease is dead-lettered as invalid. The submission it was to process keeps its state, nothing is sent to the user, and no
  object changes: only the job and its attempts do.
\<close>

theorem lookup_fault_kills_receipt_job:
  assumes "cj_job_type job = job_type_ingest \<and> cj_dedupe_key job = ingest_dedupe_key (bl_libs (jl_bot L)) sid
      \<or> cj_job_type job = job_type_extract \<and> cj_dedupe_key job = extract_dedupe_key (bl_libs (jl_bot L)) sid"
    and "parse_receipt_submission_id L job (cj_job_type job) = Inr sid"
    and "aw_fault (sc n) \<noteq> NoFault" "aw_fault (sc (Suc n)) = NoFault" "\<And>k v. aw_others (sc k) v = v"
    and "find_where (lease_held (aw_now (sc (Suc n))) (cj_id job) (cj_lease_token job)) (jobs (rw_db w)) = Some r"
  shows "\<exists>js as. run_leased_job L D JE job sc n w
        = (Inr (), n + 2, w\<lparr>rw_db := (rw_db w)\<lparr>jobs := js, job_attempts := as\<rparr>\<rparr>)
     \<and> dead_letter (aw_now (sc (Suc n))) ''validation'' r \<in> set js"
proof -
  let ?now = "aw_now (sc (Suc n))"
  let ?held = "\<lambda>j. j_id j = cj_id job \<and> j_lease_token j = Some (cj_lease_token job) \<and> j_state j = Leased"
  have types: "job_type_ingest = ''receipt.ingest''" "job_type_extract = ''receipt.extract''"
    by (simp_all add: job_type_ingest_def job_type_extract_def)
  have none: "query_or_none (submission_media sid) sc n w = (Inr None, Suc n, w)"
    "query_or_none (\<lambda>db. map_option s_account_id (find_where (\<lambda>s. s_id s = sid) (submissions db))) sc n w = (Inr None, Suc n, w)"
    using assms(3,5) by (auto intro: query_or_none_fault)
  have "dispatch_leased_job L D JE job sc n w = (Inr InvalidJob, Suc n, w)"
    using assms(1,2)
    by (auto simp: none dispatch_leased_job_def types Let_def dispatch_receipt_ingest_def dispatch_receipt_extract_def pbind_def preturn_def)
  moreover have "apply_execution_result job InvalidJob sc (Suc n) w
      = (Inr (), n + 2, w\<lparr>rw_db := (rw_db w)\<lparr>jobs := update_where ?held (dead_letter ?now ''validation'') (jobs (rw_db w)),
          job_attempts := update_where (\<lambda>a. a_job_id a = cj_id job \<and> a_ended_at a = None)
            (close_attempt ?now AOFailed (Some ''validation'')) (job_attempts (rw_db w))\<rparr>\<rparr>)"
    using assms(4-6) by (simp add: apply_execution_result_def pdb_def report_def fail_def txbind_def close_open_attempt_def Let_def
        is_retryable_def)
  moreover have "dead_letter ?now ''validation'' r \<in> set (update_where ?held (dead_letter ?now ''validation'') (jobs (rw_db w)))"
    using find_where_SomeD [OF assms(6)] by (auto simp: set_update_where lease_held_def)
  ultimately show ?thesis unfolding run_leased_job_def pbind_def
    by (intro exI conjI) (simp_all only: prod.case sum.case)
qed

section \<open>Scheduled summaries\<close>

text \<open>A transaction that appends at most one message, under a key no message has yet.\<close>

definition queues_once :: "string \<Rightarrow> uuid option \<Rightarrow> outbound_message list \<Rightarrow> outbound_message list \<Rightarrow> bool" where
  "queues_once key account old new \<longleftrightarrow>
     new = old \<or> \<not> exists_where (\<lambda>m. o_idempotency_key m = key) old
       \<and> (\<exists>m. new = old @ [m] \<and> o_idempotency_key m = key \<and> o_account_id m = account)"

lemma outbound_allowed_messages:
  "outbound_delivery_allowed B policy E t account d = Inr (x, d') \<Longrightarrow> outbound_messages d' = outbound_messages d"
  by (auto simp: outbound_delivery_allowed_def increment_in_transaction_def tx_map_err_def tx_simps Let_def
      split: if_splits option.splits sum.splits)

lemma enqueue_messages:
  "enqueue_in_transaction flt now r d = Inr (x, d') \<Longrightarrow> outbound_messages d' = outbound_messages d"
  by (auto simp: enqueue_in_transaction_def tx_simps split: if_splits option.splits sum.splits)

lemma enqueue_outbound_once:
  assumes "enqueue_outbound_in_transaction B policy E t account ev scope target body key d = Inr (x, d')"
  shows "queues_once key account (outbound_messages d) (outbound_messages d')"
proof -
  from assms [unfolded enqueue_outbound_in_transaction_def txbind_Inr] obtain deliver d1 ins d2 oid d3 where
    1: "outbound_delivery_allowed B policy E t account d = Inr (deliver, d1)"
    and 2: "insert_outbound E (new_outbound (iv_now E) (iv_ids E ''outbound'') account ev key scope target body
       (if deliver then OQueued else OSuppressed)) d1 = Inr (ins, d2)"
    and id: "(case ins of Some i \<Rightarrow> txret i
       | None \<Rightarrow> fx E ''outbound id'' (\<lambda>db. case find_where (\<lambda>x. o_idempotency_key x = key) (outbound_messages db) of
           None \<Rightarrow> Inl FxInvalidTransition | Some m \<Rightarrow> Inr (o_id m, db))) d2 = Inr (oid, d3)"
    and job: "(if \<not> deliver then txret ()
       else txbind (tx_map_err (\<lambda>_. FxInvalidTransition) (enqueue_in_transaction (iv_fault E) (iv_now E)
         (outbound_request B E account scope target key oid))) (\<lambda>_. txret ())) d3 = Inr (x, d')"
    by blast
  from id have "d3 = d2" by (auto simp: fx_def tx_simps split: option.splits)
  with job have 3: "outbound_messages d' = outbound_messages d2" by (auto simp: tx_simps dest: enqueue_messages split: if_splits)
  from 2 outbound_allowed_messages [OF 1] show ?thesis unfolding 3
    by (auto simp: queues_once_def insert_outbound_def fx_def new_outbound_def tx_simps split: if_splits)
qed

lemma queue_summary_once:
  assumes "\<And>k v. aw_others (sc k) v = v"
  shows "queues_once (summary_key L p) (Some (sp_account_id p)) (outbound_messages (rw_db w))
     (outbound_messages (rw_db (snd (snd (queue_summary L D JE p scope chat body sc n w)))))"
proof -
  let ?tx = "tx_map_err (\<lambda>_. class_error EDependency) (enqueue_outbound_in_transaction (jl_bot L) (jd_policy D)
    (followup_env (aw_fault (sc n)) (aw_now (sc n)) (je_clock JE) (je_ids JE)) (je_clock JE) (Some (sp_account_id p)) None scope chat
    body (summary_key L p))"
  have once: "queues_once (summary_key L p) (Some (sp_account_id p)) (outbound_messages d) (outbound_messages d')"
    if "?tx d = Inr ((), d')" for d d'
    using that by (auto simp: tx_map_err_def split: sum.splits dest: enqueue_outbound_once)
  have "queues_once (summary_key L p) (Some (sp_account_id p)) (outbound_messages (rw_db w))
     (outbound_messages (snd (run_tx (aw_fault (sc n)) e1 e2 ?tx (rw_db w))))" for e1 e2
    by (auto simp: run_tx_def once queues_once_def [of _ _ x x for x] split: sum.split)
  from this [of "class_error EDependency" "class_error EDependency"] show ?thesis
    using assms by (simp add: queue_summary_def pbind_def ptry_def pdb_def preturn_def split: prod.split) (metis snd_conv)
qed


section \<open>Sample jobs\<close>

definition sample_job_libs :: job_libs where
  "sample_job_libs = \<lparr>jl_bot = sample_bot_libs, jl_api = sample_api_libs,
     jl_parse_time = (\<lambda>s. if s = ''t0'' then Some 0 else if s = ''t9'' then Some 9 else None), jl_format_compact = show_int\<rparr>"

definition sample_ingest_claim :: claimed_job where
  "sample_ingest_claim = \<lparr>cj_id = 1, cj_job_type = ''receipt.ingest'',
     cj_payload = JObject [(''schema_version'', JInt 1), (''receipt_submission_id'', JString ''s5'')], cj_payload_version = 1,
     cj_attempt_number = 1, cj_lease_token = 101, cj_lease_owner = ''w1'', cj_lease_deadline = 60000005,
     cj_dedupe_key = ingest_dedupe_key sample_libs 5, cj_serialization_key = None\<rparr>"

definition sample_leased_row :: job where
  "sample_leased_row = sample_leased_job\<lparr>j_type := ''receipt.ingest'', j_dedupe_key := ingest_dedupe_key sample_libs 5\<rparr>"

definition sample_leased_world :: "bot_db rworld" where
  "sample_leased_world = \<lparr>rw_db = sample_bot\<lparr>jobs := [sample_leased_row]\<rparr>, rw_objects = Map.empty\<rparr>"

definition first_query_fails :: "nat \<Rightarrow> bot_db await" where
  "first_query_fails k = (quiet_script k)\<lparr>aw_fault := if k = 0 then FaultAt ''query'' else NoFault\<rparr>"

text \<open>The job had used one of its three attempts.\<close>

theorem lookup_fault_kills_receipt_job_witness:
  "j_attempt_count sample_leased_row < j_max_attempts sample_leased_row \<and>
   (\<forall>D JE. \<exists>js as. run_leased_job sample_job_libs D JE sample_ingest_claim first_query_fails 0 sample_leased_world
        = (Inr (), 2, sample_leased_world\<lparr>rw_db := (rw_db sample_leased_world)\<lparr>jobs := js, job_attempts := as\<rparr>\<rparr>)
     \<and> dead_letter 51 ''validation'' sample_leased_row \<in> set js)"
proof -
  have type: "cj_job_type sample_ingest_claim = job_type_ingest
      \<and> cj_dedupe_key sample_ingest_claim = ingest_dedupe_key (bl_libs (jl_bot sample_job_libs)) 5"
    by (simp add: sample_ingest_claim_def job_type_ingest_def sample_job_libs_def sample_bot_libs_def)
  have "parse_receipt_submission_id sample_job_libs sample_ingest_claim (cj_job_type sample_ingest_claim) = Inr 5"
    by (simp add: parse_receipt_submission_id_def sample_ingest_claim_def decode_receipt_payload_def struct_fields_def
        as_uuid_def sample_job_libs_def sample_bot_libs_def)
  moreover have "aw_fault (first_query_fails 0) \<noteq> NoFault" "aw_fault (first_query_fails (Suc 0)) = NoFault"
    "aw_others (first_query_fails k) v = v" for k v
    by (simp_all add: first_query_fails_def)
  moreover have "aw_now (first_query_fails (Suc 0)) = 51" by (simp add: first_query_fails_def)
  moreover have "find_where (lease_held 51 (cj_id sample_ingest_claim) (cj_lease_token sample_ingest_claim))
      (jobs (rw_db sample_leased_world)) = Some sample_leased_row"
    by (simp add: sample_leased_world_def find_where_def lease_held_def sample_ingest_claim_def sample_leased_row_def sample_leased_job_def sample_job_def
        is_live_def)
  moreover have "j_attempt_count sample_leased_row < j_max_attempts sample_leased_row"
    by (simp add: sample_leased_row_def sample_leased_job_def sample_job_def)
  ultimately show ?thesis
    using lookup_fault_kills_receipt_job [OF disjI1 [OF type], of first_query_fails 0 sample_leased_world sample_leased_row]
    by (simp add: numeral_2_eq_2)
qed

definition sample_emit_claim :: claimed_job where
  "sample_emit_claim = \<lparr>cj_id = 1, cj_job_type = ''schedule.emit'',
     cj_payload = JObject [(''schema_version'', JInt 1), (''account_id'', JString ''s5''), (''schedule_id'', JString ''s5''),
       (''frequency'', JString ''daily''), (''period_start'', JString ''t0''), (''period_end'', JString ''t9'')], cj_payload_version = 1,
     cj_attempt_number = 1, cj_lease_token = 101, cj_lease_owner = ''w1'', cj_lease_deadline = 60000005,
     cj_dedupe_key = schedule_emit_dedupe_key sample_bot_libs 5 ''daily'' 0, cj_serialization_key = None\<rparr>"

definition sample_emit :: schedule_emit_payload where
  "sample_emit = \<lparr>sp_schema_version = 1, sp_account_id = 5, sp_schedule_id = 5, sp_frequency = ''daily'',
     sp_period_start = 0, sp_period_end = 9\<rparr>"


end
