(* ===== verification/Config_Types.thy ===== *)
theory Config_Types
  imports Rust_Text "HOL-Library.Monad_Syntax"
begin

text \<open>
  The configuration file: \<^verbatim>\<open>src/config/types.rs\<close>. One record per section with the values of its \<^verbatim>\<open>Default\<close>, and how serde reads a
  section from a TOML table: a missing field takes its default, an unknown one is refused (\<^verbatim>\<open>deny_unknown_fields\<close>), a value
  of another type or outside the range of its integer type is refused. A section that is not a table is refused too; the
  positional form serde has for structs, which no configuration uses, is left out.
\<close>

datatype toml =
  TString string | TInteger int | TFloat string | TBoolean bool | TDatetime string | TArray "toml list"
| TTable "(string \<times> toml) list"

fun toml_get :: "string \<Rightarrow> toml \<Rightarrow> toml option" where
  "toml_get k (TTable fs) = map_of fs k"
| "toml_get k _ = None"

section \<open>Sections\<close>

record server_config =
  sv_listen_address :: string

definition server_default :: server_config where
  "server_default = \<lparr>sv_listen_address = ''127.0.0.1:8080''\<rparr>"

record database_config =
  dc_url_credential :: string
  dc_max_connections :: nat

definition database_default :: database_config where
  "database_default = \<lparr>dc_url_credential = ''database'', dc_max_connections = 5\<rparr>"

record concurrency_config =
  cc_receipt_extraction :: nat
  cc_outbound_delivery :: nat

definition concurrency_default :: concurrency_config where
  "concurrency_default = \<lparr>cc_receipt_extraction = 1, cc_outbound_delivery = 4\<rparr>"

record retention_config =
  rt_original_receipt_days :: nat

definition retention_default :: retention_config where
  "retention_default = \<lparr>rt_original_receipt_days = 7\<rparr>"

record credentials_config =
  cr_directory :: string

definition credentials_default :: credentials_config where
  "credentials_default = \<lparr>cr_directory = ''/etc/zl-expense/credentials''\<rparr>"

record access_config =
  ax_allowed_provider_sender_ids :: "string list"

definition access_default :: access_config where
  "access_default = \<lparr>ax_allowed_provider_sender_ids = []\<rparr>"

record zalo_config =
  zl_bot_token_credential :: string
  zl_webhook_secret_credential :: string
  zl_api_base :: string
  zl_send_timeout_seconds :: nat
  zl_webhook_max_body_bytes :: nat

definition zalo_default :: zalo_config where
  "zalo_default =
     \<lparr>zl_bot_token_credential = ''zalo-bot'', zl_webhook_secret_credential = ''webhook-secret'',
      zl_api_base = ''https://bot-api.zaloplatforms.com'', zl_send_timeout_seconds = 10, zl_webhook_max_body_bytes = 1048576\<rparr>"

record storage_config =
  st_backend :: string
  st_directory :: string
  st_endpoint :: "string option"
  st_bucket :: "string option"
  st_region :: string
  st_access_key_credential :: "string option"
  st_secret_key_credential :: "string option"
  st_force_path_style :: bool

definition storage_default :: storage_config where
  "storage_default =
     \<lparr>st_backend = ''filesystem'', st_directory = ''/var/lib/zl-expense/objects'', st_endpoint = None, st_bucket = None,
      st_region = ''us-east-1'', st_access_key_credential = None, st_secret_key_credential = None, st_force_path_style = True\<rparr>"

record extraction_config =
  xt_backend :: string
  xt_default_profile :: string
  xt_api_base :: string

definition extraction_default :: extraction_config where
  "extraction_default =
     \<lparr>xt_backend = ''fake'', xt_default_profile = ''receipt-fast'', xt_api_base = ''https://generativelanguage.googleapis.com''\<rparr>"

record ai_profile =
  ap_name :: string
  ap_provider :: string
  ap_model :: string
  ap_credential :: string
  ap_task :: string
  ap_timeout_seconds :: nat
  ap_max_attempts :: nat
  ap_max_input_bytes :: nat
  ap_max_output_tokens :: nat
  ap_thinking_effort :: string
  ap_schema_version :: string

record quotas_config =
  qt_per_user_daily_receipts :: nat
  qt_monthly_extraction_pages :: nat
  qt_zalo_monthly_messages :: nat
  qt_monthly_insight_narratives :: nat

definition quotas_default :: quotas_config where
  "quotas_default =
     \<lparr>qt_per_user_daily_receipts = 20, qt_monthly_extraction_pages = 80, qt_zalo_monthly_messages = 3000,
      qt_monthly_insight_narratives = 30\<rparr>"

record features_config =
  ft_extraction_enabled :: bool
  ft_outbound_enabled :: bool

definition features_default :: features_config where
  "features_default = \<lparr>ft_extraction_enabled = True, ft_outbound_enabled = True\<rparr>"

record metrics_config =
  mt_enabled :: bool
  mt_bind :: string

definition metrics_default :: metrics_config where
  "metrics_default = \<lparr>mt_enabled = False, mt_bind = ''127.0.0.1:9090''\<rparr>"

record update_config =
  up_public_keys_directory :: string
  up_install_path :: string
  up_state_directory :: string

definition update_default :: update_config where
  "update_default =
     \<lparr>up_public_keys_directory = ''/etc/zl-expense/update-keys'', up_install_path = ''/usr/bin/zl-expense'',
      up_state_directory = ''/var/lib/zl-expense/update''\<rparr>"

text \<open>The sections \<^verbatim>\<open>ai\<close> and \<^verbatim>\<open>insights\<close> have one field each, which stands for them.\<close>

record config =
  cf_server :: server_config
  cf_database :: database_config
  cf_concurrency :: concurrency_config
  cf_retention :: retention_config
  cf_credentials :: credentials_config
  cf_access :: access_config
  cf_zalo :: zalo_config
  cf_storage :: storage_config
  cf_extraction :: extraction_config
  cf_ai_profiles :: "ai_profile list"
  cf_quotas :: quotas_config
  cf_insights_llm_enabled :: bool
  cf_features :: features_config
  cf_metrics :: metrics_config
  cf_update :: update_config

definition config_default :: config where
  "config_default =
     \<lparr>cf_server = server_default, cf_database = database_default, cf_concurrency = concurrency_default,
      cf_retention = retention_default, cf_credentials = credentials_default, cf_access = access_default, cf_zalo = zalo_default,
      cf_storage = storage_default, cf_extraction = extraction_default, cf_ai_profiles = [], cf_quotas = quotas_default,
      cf_insights_llm_enabled = False, cf_features = features_default, cf_metrics = metrics_default, cf_update = update_default\<rparr>"

section \<open>Reading TOML\<close>

fun toml_string :: "toml \<Rightarrow> string option" where
  "toml_string (TString s) = Some s"
| "toml_string _ = None"

fun toml_bool :: "toml \<Rightarrow> bool option" where
  "toml_bool (TBoolean b) = Some b"
| "toml_bool _ = None"

text \<open>An integer of TOML is an \<^verbatim>\<open>i64\<close>, so a \<^verbatim>\<open>u64\<close> or \<^verbatim>\<open>usize\<close> is at most \<open>2 ^ 63 - 1\<close>.\<close>

fun toml_nat :: "nat \<Rightarrow> toml \<Rightarrow> nat option" where
  "toml_nat w (TInteger i) = (if 0 \<le> i \<and> i < 2 ^ w \<and> i < 2 ^ 63 then Some (nat i) else None)"
| "toml_nat w _ = None"

fun decode_all :: "('a \<Rightarrow> 'b option) \<Rightarrow> 'a list \<Rightarrow> 'b list option" where
  "decode_all dec [] = Some []"
| "decode_all dec (x # xs) = do { y \<leftarrow> dec x; ys \<leftarrow> decode_all dec xs; Some (y # ys) }"

fun toml_list :: "(toml \<Rightarrow> 'a option) \<Rightarrow> toml \<Rightarrow> 'a list option" where
  "toml_list dec (TArray xs) = decode_all dec xs"
| "toml_list dec _ = None"

text \<open>A table with no fields but the given ones; TOML has no repeated keys.\<close>

definition toml_fields :: "string list \<Rightarrow> toml \<Rightarrow> (string \<Rightarrow> toml option) option" where
  "toml_fields names t =
     (case t of TTable fs \<Rightarrow> if set (map fst fs) \<subseteq> set names then Some (map_of fs) else None | _ \<Rightarrow> None)"

definition field_or :: "(toml \<Rightarrow> 'a option) \<Rightarrow> 'a \<Rightarrow> toml option \<Rightarrow> 'a option" where
  "field_or dec d v = (case v of None \<Rightarrow> Some d | Some t \<Rightarrow> dec t)"

definition optional_string :: "toml option \<Rightarrow> string option option" where
  "optional_string v = field_or (map_option Some \<circ> toml_string) None v"

definition decode_server :: "toml \<Rightarrow> server_config option" where
  "decode_server t = do {
     f \<leftarrow> toml_fields [''listen_address''] t;
     a \<leftarrow> field_or toml_string (sv_listen_address server_default) (f ''listen_address'');
     Some \<lparr>sv_listen_address = a\<rparr>
   }"

definition decode_database :: "toml \<Rightarrow> database_config option" where
  "decode_database t = do {
     f \<leftarrow> toml_fields [''url_credential'', ''max_connections''] t;
     a \<leftarrow> field_or toml_string (dc_url_credential database_default) (f ''url_credential'');
     b \<leftarrow> field_or (toml_nat 32) (dc_max_connections database_default) (f ''max_connections'');
     Some \<lparr>dc_url_credential = a, dc_max_connections = b\<rparr>
   }"

definition decode_concurrency :: "toml \<Rightarrow> concurrency_config option" where
  "decode_concurrency t = do {
     f \<leftarrow> toml_fields [''receipt_extraction'', ''outbound_delivery''] t;
     a \<leftarrow> field_or (toml_nat 32) (cc_receipt_extraction concurrency_default) (f ''receipt_extraction'');
     b \<leftarrow> field_or (toml_nat 32) (cc_outbound_delivery concurrency_default) (f ''outbound_delivery'');
     Some \<lparr>cc_receipt_extraction = a, cc_outbound_delivery = b\<rparr>
   }"

definition decode_retention :: "toml \<Rightarrow> retention_config option" where
  "decode_retention t = do {
     f \<leftarrow> toml_fields [''original_receipt_days''] t;
     a \<leftarrow> field_or (toml_nat 32) (rt_original_receipt_days retention_default) (f ''original_receipt_days'');
     Some \<lparr>rt_original_receipt_days = a\<rparr>
   }"

definition decode_credentials :: "toml \<Rightarrow> credentials_config option" where
  "decode_credentials t = do {
     f \<leftarrow> toml_fields [''directory''] t;
     a \<leftarrow> field_or toml_string (cr_directory credentials_default) (f ''directory'');
     Some \<lparr>cr_directory = a\<rparr>
   }"

definition decode_access :: "toml \<Rightarrow> access_config option" where
  "decode_access t = do {
     f \<leftarrow> toml_fields [''allowed_provider_sender_ids''] t;
     a \<leftarrow> field_or (toml_list toml_string) [] (f ''allowed_provider_sender_ids'');
     Some \<lparr>ax_allowed_provider_sender_ids = a\<rparr>
   }"

definition decode_zalo :: "toml \<Rightarrow> zalo_config option" where
  "decode_zalo t = do {
     f \<leftarrow> toml_fields [''bot_token_credential'', ''webhook_secret_credential'', ''api_base'', ''send_timeout_seconds'',
       ''webhook_max_body_bytes''] t;
     a \<leftarrow> field_or toml_string (zl_bot_token_credential zalo_default) (f ''bot_token_credential'');
     b \<leftarrow> field_or toml_string (zl_webhook_secret_credential zalo_default) (f ''webhook_secret_credential'');
     c \<leftarrow> field_or toml_string (zl_api_base zalo_default) (f ''api_base'');
     d \<leftarrow> field_or (toml_nat 64) (zl_send_timeout_seconds zalo_default) (f ''send_timeout_seconds'');
     e \<leftarrow> field_or (toml_nat 64) (zl_webhook_max_body_bytes zalo_default) (f ''webhook_max_body_bytes'');
     Some \<lparr>zl_bot_token_credential = a, zl_webhook_secret_credential = b, zl_api_base = c, zl_send_timeout_seconds = d,
       zl_webhook_max_body_bytes = e\<rparr>
   }"

definition decode_storage :: "toml \<Rightarrow> storage_config option" where
  "decode_storage t = do {
     f \<leftarrow> toml_fields [''backend'', ''directory'', ''endpoint'', ''bucket'', ''region'', ''access_key_credential'',
       ''secret_key_credential'', ''force_path_style''] t;
     a \<leftarrow> field_or toml_string (st_backend storage_default) (f ''backend'');
     b \<leftarrow> field_or toml_string (st_directory storage_default) (f ''directory'');
     c \<leftarrow> optional_string (f ''endpoint'');
     d \<leftarrow> optional_string (f ''bucket'');
     e \<leftarrow> field_or toml_string (st_region storage_default) (f ''region'');
     g \<leftarrow> optional_string (f ''access_key_credential'');
     h \<leftarrow> optional_string (f ''secret_key_credential'');
     i \<leftarrow> field_or toml_bool (st_force_path_style storage_default) (f ''force_path_style'');
     Some \<lparr>st_backend = a, st_directory = b, st_endpoint = c, st_bucket = d, st_region = e, st_access_key_credential = g,
       st_secret_key_credential = h, st_force_path_style = i\<rparr>
   }"

definition decode_extraction :: "toml \<Rightarrow> extraction_config option" where
  "decode_extraction t = do {
     f \<leftarrow> toml_fields [''backend'', ''default_profile'', ''api_base''] t;
     a \<leftarrow> field_or toml_string (xt_backend extraction_default) (f ''backend'');
     b \<leftarrow> field_or toml_string (xt_default_profile extraction_default) (f ''default_profile'');
     c \<leftarrow> field_or toml_string (xt_api_base extraction_default) (f ''api_base'');
     Some \<lparr>xt_backend = a, xt_default_profile = b, xt_api_base = c\<rparr>
   }"

definition decode_profile :: "toml \<Rightarrow> ai_profile option" where
  "decode_profile t = do {
     f \<leftarrow> toml_fields [''name'', ''provider'', ''model'', ''credential'', ''task'', ''timeout_seconds'', ''max_attempts'',
       ''max_input_bytes'', ''max_output_tokens'', ''thinking_effort'', ''schema_version''] t;
     name \<leftarrow> Option.bind (f ''name'') toml_string;
     provider \<leftarrow> Option.bind (f ''provider'') toml_string;
     model \<leftarrow> Option.bind (f ''model'') toml_string;
     credential \<leftarrow> Option.bind (f ''credential'') toml_string;
     task \<leftarrow> Option.bind (f ''task'') toml_string;
     timeout \<leftarrow> field_or (toml_nat 64) 30 (f ''timeout_seconds'');
     attempts \<leftarrow> field_or (toml_nat 32) 3 (f ''max_attempts'');
     input \<leftarrow> field_or (toml_nat 64) 4194304 (f ''max_input_bytes'');
     output \<leftarrow> field_or (toml_nat 32) 2048 (f ''max_output_tokens'');
     effort \<leftarrow> field_or toml_string ''none'' (f ''thinking_effort'');
     version \<leftarrow> field_or toml_string ''v1'' (f ''schema_version'');
     Some \<lparr>ap_name = name, ap_provider = provider, ap_model = model, ap_credential = credential, ap_task = task,
       ap_timeout_seconds = timeout, ap_max_attempts = attempts, ap_max_input_bytes = input, ap_max_output_tokens = output,
       ap_thinking_effort = effort, ap_schema_version = version\<rparr>
   }"

definition decode_ai :: "toml \<Rightarrow> ai_profile list option" where
  "decode_ai t = do { f \<leftarrow> toml_fields [''profiles''] t; field_or (toml_list decode_profile) [] (f ''profiles'') }"

definition decode_quotas :: "toml \<Rightarrow> quotas_config option" where
  "decode_quotas t = do {
     f \<leftarrow> toml_fields [''per_user_daily_receipts'', ''monthly_extraction_pages'', ''zalo_monthly_messages'',
       ''monthly_insight_narratives''] t;
     a \<leftarrow> field_or (toml_nat 64) (qt_per_user_daily_receipts quotas_default) (f ''per_user_daily_receipts'');
     b \<leftarrow> field_or (toml_nat 64) (qt_monthly_extraction_pages quotas_default) (f ''monthly_extraction_pages'');
     c \<leftarrow> field_or (toml_nat 64) (qt_zalo_monthly_messages quotas_default) (f ''zalo_monthly_messages'');
     d \<leftarrow> field_or (toml_nat 64) (qt_monthly_insight_narratives quotas_default) (f ''monthly_insight_narratives'');
     Some \<lparr>qt_per_user_daily_receipts = a, qt_monthly_extraction_pages = b, qt_zalo_monthly_messages = c,
       qt_monthly_insight_narratives = d\<rparr>
   }"

definition decode_insights :: "toml \<Rightarrow> bool option" where
  "decode_insights t = do { f \<leftarrow> toml_fields [''llm_enabled''] t; field_or toml_bool False (f ''llm_enabled'') }"

definition decode_features :: "toml \<Rightarrow> features_config option" where
  "decode_features t = do {
     f \<leftarrow> toml_fields [''extraction_enabled'', ''outbound_enabled''] t;
     a \<leftarrow> field_or toml_bool (ft_extraction_enabled features_default) (f ''extraction_enabled'');
     b \<leftarrow> field_or toml_bool (ft_outbound_enabled features_default) (f ''outbound_enabled'');
     Some \<lparr>ft_extraction_enabled = a, ft_outbound_enabled = b\<rparr>
   }"

definition decode_metrics :: "toml \<Rightarrow> metrics_config option" where
  "decode_metrics t = do {
     f \<leftarrow> toml_fields [''enabled'', ''bind''] t;
     a \<leftarrow> field_or toml_bool (mt_enabled metrics_default) (f ''enabled'');
     b \<leftarrow> field_or toml_string (mt_bind metrics_default) (f ''bind'');
     Some \<lparr>mt_enabled = a, mt_bind = b\<rparr>
   }"

definition decode_update :: "toml \<Rightarrow> update_config option" where
  "decode_update t = do {
     f \<leftarrow> toml_fields [''public_keys_directory'', ''install_path'', ''state_directory''] t;
     a \<leftarrow> field_or toml_string (up_public_keys_directory update_default) (f ''public_keys_directory'');
     b \<leftarrow> field_or toml_string (up_install_path update_default) (f ''install_path'');
     c \<leftarrow> field_or toml_string (up_state_directory update_default) (f ''state_directory'');
     Some \<lparr>up_public_keys_directory = a, up_install_path = b, up_state_directory = c\<rparr>
   }"

definition config_sections :: "string list" where
  "config_sections =
     [''server'', ''database'', ''concurrency'', ''retention'', ''credentials'', ''access'', ''zalo'', ''storage'', ''extraction'',
      ''ai'', ''quotas'', ''insights'', ''features'', ''metrics'', ''update'']"

definition decode_config :: "toml \<Rightarrow> config option" where
  "decode_config t = do {
     f \<leftarrow> toml_fields config_sections t;
     server \<leftarrow> field_or decode_server server_default (f ''server'');
     database \<leftarrow> field_or decode_database database_default (f ''database'');
     concurrency \<leftarrow> field_or decode_concurrency concurrency_default (f ''concurrency'');
     retention \<leftarrow> field_or decode_retention retention_default (f ''retention'');
     credentials \<leftarrow> field_or decode_credentials credentials_default (f ''credentials'');
     access \<leftarrow> field_or decode_access access_default (f ''access'');
     zalo \<leftarrow> field_or decode_zalo zalo_default (f ''zalo'');
     storage \<leftarrow> field_or decode_storage storage_default (f ''storage'');
     extraction \<leftarrow> field_or decode_extraction extraction_default (f ''extraction'');
     ai \<leftarrow> field_or decode_ai [] (f ''ai'');
     quotas \<leftarrow> field_or decode_quotas quotas_default (f ''quotas'');
     insights \<leftarrow> field_or decode_insights False (f ''insights'');
     features \<leftarrow> field_or decode_features features_default (f ''features'');
     metrics \<leftarrow> field_or decode_metrics metrics_default (f ''metrics'');
     update \<leftarrow> field_or decode_update update_default (f ''update'');
     Some \<lparr>cf_server = server, cf_database = database, cf_concurrency = concurrency, cf_retention = retention,
       cf_credentials = credentials, cf_access = access, cf_zalo = zalo, cf_storage = storage, cf_extraction = extraction,
       cf_ai_profiles = ai, cf_quotas = quotas, cf_insights_llm_enabled = insights, cf_features = features, cf_metrics = metrics,
       cf_update = update\<rparr>
   }"

end
