(* ===== verification/Config.thy ===== *)
theory Config
  imports Config_Types Media Ingress_Types
begin

text \<open>
  Loading of the configuration, \<^verbatim>\<open>src/config/load.rs\<close>: defaults, then the file, then environment variables, each value with its
  source; the checks of the result; and the credentials it refers to. The environment is a map from names to values,
  the file system a map from paths to contents. An error is the message of \<^verbatim>\<open>AppError::config\<close>.
\<close>

section \<open>Values and their sources\<close>

datatype config_source = FromDefault | FromFile | FromEnv

record resolved_value =
  rv_value :: json
  rv_source :: config_source

type_synonym attribution = "string \<rightharpoonup> resolved_value"

definition insert_attr :: "string \<Rightarrow> json \<Rightarrow> config_source \<Rightarrow> attribution \<Rightarrow> attribution" where
  "insert_attr key v src at = at(key \<mapsto> \<lparr>rv_value = v, rv_source = src\<rparr>)"

definition shown_nat :: "nat \<Rightarrow> json" where
  "shown_nat n = JInt (int n)"

definition shown_opt :: "string option \<Rightarrow> json" where
  "shown_opt v = (case v of None \<Rightarrow> JNull | Some s \<Rightarrow> JString s)"

definition shown_count :: "'a list \<Rightarrow> json" where
  "shown_count xs = JObject [(''count'', JInt (int (length xs)))]"

text \<open>What the report shows of each setting.\<close>

definition settings :: "(string \<times> (config \<Rightarrow> json)) list" where
  "settings =
     [(''server.listen_address'', \<lambda>c. JString (sv_listen_address (cf_server c))),
      (''database.url_credential'', \<lambda>c. JString (dc_url_credential (cf_database c))),
      (''database.max_connections'', \<lambda>c. shown_nat (dc_max_connections (cf_database c))),
      (''concurrency.receipt_extraction'', \<lambda>c. shown_nat (cc_receipt_extraction (cf_concurrency c))),
      (''concurrency.outbound_delivery'', \<lambda>c. shown_nat (cc_outbound_delivery (cf_concurrency c))),
      (''retention.original_receipt_days'', \<lambda>c. shown_nat (rt_original_receipt_days (cf_retention c))),
      (''credentials.directory'', \<lambda>c. JString (cr_directory (cf_credentials c))),
      (''access.allowed_provider_sender_ids'', \<lambda>c. shown_count (ax_allowed_provider_sender_ids (cf_access c))),
      (''zalo.bot_token_credential'', \<lambda>c. JString (zl_bot_token_credential (cf_zalo c))),
      (''zalo.webhook_secret_credential'', \<lambda>c. JString (zl_webhook_secret_credential (cf_zalo c))),
      (''zalo.api_base'', \<lambda>c. JString (zl_api_base (cf_zalo c))),
      (''zalo.send_timeout_seconds'', \<lambda>c. shown_nat (zl_send_timeout_seconds (cf_zalo c))),
      (''zalo.webhook_max_body_bytes'', \<lambda>c. shown_nat (zl_webhook_max_body_bytes (cf_zalo c))),
      (''storage.backend'', \<lambda>c. JString (st_backend (cf_storage c))),
      (''storage.directory'', \<lambda>c. JString (st_directory (cf_storage c))),
      (''storage.endpoint'', \<lambda>c. JString ''[REDACTED]''),
      (''storage.bucket'', \<lambda>c. shown_opt (st_bucket (cf_storage c))),
      (''storage.region'', \<lambda>c. JString (st_region (cf_storage c))),
      (''storage.access_key_credential'', \<lambda>c. shown_opt (st_access_key_credential (cf_storage c))),
      (''storage.secret_key_credential'', \<lambda>c. shown_opt (st_secret_key_credential (cf_storage c))),
      (''storage.force_path_style'', \<lambda>c. JBool (st_force_path_style (cf_storage c))),
      (''extraction.backend'', \<lambda>c. JString (xt_backend (cf_extraction c))),
      (''extraction.default_profile'', \<lambda>c. JString (xt_default_profile (cf_extraction c))),
      (''extraction.api_base'', \<lambda>c. JString (xt_api_base (cf_extraction c))),
      (''ai.profiles'', \<lambda>c. shown_count (cf_ai_profiles c)),
      (''quotas.per_user_daily_receipts'', \<lambda>c. shown_nat (qt_per_user_daily_receipts (cf_quotas c))),
      (''quotas.monthly_extraction_pages'', \<lambda>c. shown_nat (qt_monthly_extraction_pages (cf_quotas c))),
      (''quotas.zalo_monthly_messages'', \<lambda>c. shown_nat (qt_zalo_monthly_messages (cf_quotas c))),
      (''quotas.monthly_insight_narratives'', \<lambda>c. shown_nat (qt_monthly_insight_narratives (cf_quotas c))),
      (''insights.llm_enabled'', \<lambda>c. JBool (cf_insights_llm_enabled c)),
      (''features.extraction_enabled'', \<lambda>c. JBool (ft_extraction_enabled (cf_features c))),
      (''features.outbound_enabled'', \<lambda>c. JBool (ft_outbound_enabled (cf_features c))),
      (''metrics.enabled'', \<lambda>c. JBool (mt_enabled (cf_metrics c))),
      (''metrics.bind'', \<lambda>c. JString (mt_bind (cf_metrics c))),
      (''update.public_keys_directory'', \<lambda>c. JString (up_public_keys_directory (cf_update c))),
      (''update.install_path'', \<lambda>c. JString (up_install_path (cf_update c))),
      (''update.state_directory'', \<lambda>c. JString (up_state_directory (cf_update c)))]"

definition setting_value :: "string \<Rightarrow> config \<Rightarrow> json" where
  "setting_value k c = (case map_of settings k of Some v \<Rightarrow> v c | None \<Rightarrow> JNull)"

text \<open>The optional settings have no default entry.\<close>

definition default_keys :: "string list" where
  "default_keys =
     filter (\<lambda>k. k \<notin> {''storage.endpoint'', ''storage.bucket'', ''storage.access_key_credential'', ''storage.secret_key_credential''})
       (map fst settings)"

definition record_default_sources :: "attribution \<Rightarrow> attribution" where
  "record_default_sources = fold (\<lambda>k. insert_attr k (setting_value k config_default) FromDefault) default_keys"

definition in_file :: "string \<Rightarrow> string \<Rightarrow> config \<Rightarrow> toml \<Rightarrow> bool" where
  "in_file section_name field c doc \<longleftrightarrow> Option.bind (toml_get section_name doc) (toml_get field) \<noteq> None"

definition file_settings :: "(string \<times> (config \<Rightarrow> toml \<Rightarrow> bool)) list" where
  "file_settings =
     [(''server.listen_address'', in_file ''server'' ''listen_address''),
      (''database.url_credential'', in_file ''database'' ''url_credential''),
      (''database.max_connections'', in_file ''database'' ''max_connections''),
      (''concurrency.receipt_extraction'', in_file ''concurrency'' ''receipt_extraction''),
      (''concurrency.outbound_delivery'', in_file ''concurrency'' ''outbound_delivery''),
      (''retention.original_receipt_days'', in_file ''retention'' ''original_receipt_days''),
      (''credentials.directory'', in_file ''credentials'' ''directory''),
      (''access.allowed_provider_sender_ids'', in_file ''access'' ''allowed_provider_sender_ids''),
      (''zalo.bot_token_credential'', in_file ''zalo'' ''bot_token_credential''),
      (''zalo.webhook_secret_credential'', in_file ''zalo'' ''webhook_secret_credential''),
      (''zalo.api_base'', in_file ''zalo'' ''api_base''),
      (''zalo.send_timeout_seconds'', in_file ''zalo'' ''send_timeout_seconds''),
      (''zalo.webhook_max_body_bytes'', in_file ''zalo'' ''webhook_max_body_bytes''),
      (''storage.backend'', in_file ''storage'' ''backend''),
      (''storage.directory'', in_file ''storage'' ''directory''),
      (''storage.endpoint'', \<lambda>c doc. st_endpoint (cf_storage c) \<noteq> None),
      (''storage.bucket'', in_file ''storage'' ''bucket''),
      (''storage.region'', in_file ''storage'' ''region''),
      (''storage.access_key_credential'', \<lambda>c doc. st_access_key_credential (cf_storage c) \<noteq> None),
      (''storage.secret_key_credential'', \<lambda>c doc. st_secret_key_credential (cf_storage c) \<noteq> None),
      (''storage.force_path_style'', in_file ''storage'' ''force_path_style''),
      (''extraction.backend'', in_file ''extraction'' ''backend''),
      (''extraction.default_profile'', in_file ''extraction'' ''default_profile''),
      (''extraction.api_base'', in_file ''extraction'' ''api_base''),
      (''ai.profiles'', \<lambda>c doc. toml_get ''ai'' doc \<noteq> None),
      (''quotas.per_user_daily_receipts'', in_file ''quotas'' ''per_user_daily_receipts''),
      (''quotas.monthly_extraction_pages'', in_file ''quotas'' ''monthly_extraction_pages''),
      (''quotas.zalo_monthly_messages'', in_file ''quotas'' ''zalo_monthly_messages''),
      (''quotas.monthly_insight_narratives'', in_file ''quotas'' ''monthly_insight_narratives''),
      (''insights.llm_enabled'', in_file ''insights'' ''llm_enabled''),
      (''features.extraction_enabled'', in_file ''features'' ''extraction_enabled''),
      (''features.outbound_enabled'', in_file ''features'' ''outbound_enabled''),
      (''metrics.enabled'', in_file ''metrics'' ''enabled''),
      (''metrics.bind'', in_file ''metrics'' ''bind''),
      (''update.public_keys_directory'', in_file ''update'' ''public_keys_directory''),
      (''update.install_path'', in_file ''update'' ''install_path''),
      (''update.state_directory'', in_file ''update'' ''state_directory'')]"

definition record_file_sources :: "config \<Rightarrow> toml \<Rightarrow> attribution \<Rightarrow> attribution" where
  "record_file_sources c doc =
     fold (\<lambda>(k, present). if present c doc then insert_attr k (setting_value k c) FromFile else id) file_settings"

section \<open>Environment\<close>

definition parse_env_bool :: "string \<Rightarrow> string \<Rightarrow> string + bool" where
  "parse_env_bool name v =
     (let t = to_ascii_lowercase (trim v) in
      if t \<in> {''true'', ''1'', ''yes''} then Inr True
      else if t \<in> {''false'', ''0'', ''no''} then Inr False
      else Inl (name @ '' must be a boolean''))"

definition parse_env_u32 :: "string \<Rightarrow> string \<Rightarrow> string + nat" where
  "parse_env_u32 name v =
     (case parse_u64 v of
        None \<Rightarrow> Inl (name @ '' must be a positive integer'')
      | Some n \<Rightarrow> if 2 ^ 32 \<le> n then Inl (name @ '' must be a positive integer'') else Inr n)"

definition parse_env_u64 :: "string \<Rightarrow> string \<Rightarrow> string + nat" where
  "parse_env_u64 name v =
     (case parse_u64 v of
        None \<Rightarrow> Inl (name @ '' must be a positive integer'')
      | Some n \<Rightarrow> if n = 0 then Inl (name @ '' must be greater than zero'') else Inr n)"

type_synonym env_setter = "string \<Rightarrow> string \<Rightarrow> config \<Rightarrow> string + config"

definition text_var :: "(string \<Rightarrow> config \<Rightarrow> config) \<Rightarrow> env_setter" where
  "text_var upd name v c = Inr (upd v c)"

definition opt_var :: "(string option \<Rightarrow> config \<Rightarrow> config) \<Rightarrow> env_setter" where
  "opt_var upd name v c = Inr (upd (Some v) c)"

definition ids_var :: "(string list \<Rightarrow> config \<Rightarrow> config) \<Rightarrow> env_setter" where
  "ids_var upd name v c = Inr (upd (filter (\<lambda>s. s \<noteq> []) (map trim (split_char (CHR '','') v))) c)"

definition bool_var :: "(bool \<Rightarrow> config \<Rightarrow> config) \<Rightarrow> env_setter" where
  "bool_var upd name v c = map_sum id (\<lambda>b. upd b c) (parse_env_bool name v)"

definition u32_var :: "(nat \<Rightarrow> config \<Rightarrow> config) \<Rightarrow> env_setter" where
  "u32_var upd name v c = map_sum id (\<lambda>n. upd n c) (parse_env_u32 name v)"

definition u64_var :: "(nat \<Rightarrow> config \<Rightarrow> config) \<Rightarrow> env_setter" where
  "u64_var upd name v c = map_sum id (\<lambda>n. upd n c) (parse_env_u64 name v)"

definition env_overrides :: "(string \<times> string \<times> env_setter) list" where
  "env_overrides =
     [(''ZL_EXPENSE_LISTEN_ADDRESS'', ''server.listen_address'',
        text_var (\<lambda>v c. c\<lparr>cf_server := (cf_server c)\<lparr>sv_listen_address := v\<rparr>\<rparr>)),
      (''ZL_EXPENSE_DATABASE_URL_CREDENTIAL'', ''database.url_credential'',
        text_var (\<lambda>v c. c\<lparr>cf_database := (cf_database c)\<lparr>dc_url_credential := v\<rparr>\<rparr>)),
      (''ZL_EXPENSE_DATABASE_MAX_CONNECTIONS'', ''database.max_connections'',
        u32_var (\<lambda>v c. c\<lparr>cf_database := (cf_database c)\<lparr>dc_max_connections := v\<rparr>\<rparr>)),
      (''ZL_EXPENSE_RECEIPT_EXTRACTION_CONCURRENCY'', ''concurrency.receipt_extraction'',
        u32_var (\<lambda>v c. c\<lparr>cf_concurrency := (cf_concurrency c)\<lparr>cc_receipt_extraction := v\<rparr>\<rparr>)),
      (''ZL_EXPENSE_OUTBOUND_DELIVERY_CONCURRENCY'', ''concurrency.outbound_delivery'',
        u32_var (\<lambda>v c. c\<lparr>cf_concurrency := (cf_concurrency c)\<lparr>cc_outbound_delivery := v\<rparr>\<rparr>)),
      (''ZL_EXPENSE_RETENTION_ORIGINAL_RECEIPT_DAYS'', ''retention.original_receipt_days'',
        u32_var (\<lambda>v c. c\<lparr>cf_retention := (cf_retention c)\<lparr>rt_original_receipt_days := v\<rparr>\<rparr>)),
      (''ZL_EXPENSE_CREDENTIALS_DIRECTORY'', ''credentials.directory'',
        text_var (\<lambda>v c. c\<lparr>cf_credentials := (cf_credentials c)\<lparr>cr_directory := v\<rparr>\<rparr>)),
      (''ZL_EXPENSE_ALLOWED_PROVIDER_SENDER_IDS'', ''access.allowed_provider_sender_ids'',
        ids_var (\<lambda>v c. c\<lparr>cf_access := (cf_access c)\<lparr>ax_allowed_provider_sender_ids := v\<rparr>\<rparr>)),
      (''ZL_EXPENSE_ZALO_API_BASE'', ''zalo.api_base'',
        text_var (\<lambda>v c. c\<lparr>cf_zalo := (cf_zalo c)\<lparr>zl_api_base := v\<rparr>\<rparr>)),
      (''ZL_EXPENSE_STORAGE_BACKEND'', ''storage.backend'',
        text_var (\<lambda>v c. c\<lparr>cf_storage := (cf_storage c)\<lparr>st_backend := v\<rparr>\<rparr>)),
      (''ZL_EXPENSE_STORAGE_DIRECTORY'', ''storage.directory'',
        text_var (\<lambda>v c. c\<lparr>cf_storage := (cf_storage c)\<lparr>st_directory := v\<rparr>\<rparr>)),
      (''ZL_EXPENSE_STORAGE_ENDPOINT'', ''storage.endpoint'',
        opt_var (\<lambda>v c. c\<lparr>cf_storage := (cf_storage c)\<lparr>st_endpoint := v\<rparr>\<rparr>)),
      (''ZL_EXPENSE_STORAGE_BUCKET'', ''storage.bucket'',
        opt_var (\<lambda>v c. c\<lparr>cf_storage := (cf_storage c)\<lparr>st_bucket := v\<rparr>\<rparr>)),
      (''ZL_EXPENSE_STORAGE_REGION'', ''storage.region'',
        text_var (\<lambda>v c. c\<lparr>cf_storage := (cf_storage c)\<lparr>st_region := v\<rparr>\<rparr>)),
      (''ZL_EXPENSE_STORAGE_ACCESS_KEY_CREDENTIAL'', ''storage.access_key_credential'',
        opt_var (\<lambda>v c. c\<lparr>cf_storage := (cf_storage c)\<lparr>st_access_key_credential := v\<rparr>\<rparr>)),
      (''ZL_EXPENSE_STORAGE_SECRET_KEY_CREDENTIAL'', ''storage.secret_key_credential'',
        opt_var (\<lambda>v c. c\<lparr>cf_storage := (cf_storage c)\<lparr>st_secret_key_credential := v\<rparr>\<rparr>)),
      (''ZL_EXPENSE_STORAGE_FORCE_PATH_STYLE'', ''storage.force_path_style'',
        bool_var (\<lambda>v c. c\<lparr>cf_storage := (cf_storage c)\<lparr>st_force_path_style := v\<rparr>\<rparr>)),
      (''ZL_EXPENSE_EXTRACTION_BACKEND'', ''extraction.backend'',
        text_var (\<lambda>v c. c\<lparr>cf_extraction := (cf_extraction c)\<lparr>xt_backend := v\<rparr>\<rparr>)),
      (''ZL_EXPENSE_EXTRACTION_DEFAULT_PROFILE'', ''extraction.default_profile'',
        text_var (\<lambda>v c. c\<lparr>cf_extraction := (cf_extraction c)\<lparr>xt_default_profile := v\<rparr>\<rparr>)),
      (''ZL_EXPENSE_GEMINI_API_BASE'', ''extraction.api_base'',
        text_var (\<lambda>v c. c\<lparr>cf_extraction := (cf_extraction c)\<lparr>xt_api_base := v\<rparr>\<rparr>)),
      (''ZL_EXPENSE_PER_USER_DAILY_RECEIPTS'', ''quotas.per_user_daily_receipts'',
        u64_var (\<lambda>v c. c\<lparr>cf_quotas := (cf_quotas c)\<lparr>qt_per_user_daily_receipts := v\<rparr>\<rparr>)),
      (''ZL_EXPENSE_MONTHLY_EXTRACTION_PAGES'', ''quotas.monthly_extraction_pages'',
        u64_var (\<lambda>v c. c\<lparr>cf_quotas := (cf_quotas c)\<lparr>qt_monthly_extraction_pages := v\<rparr>\<rparr>)),
      (''ZL_EXPENSE_ZALO_MONTHLY_MESSAGES'', ''quotas.zalo_monthly_messages'',
        u64_var (\<lambda>v c. c\<lparr>cf_quotas := (cf_quotas c)\<lparr>qt_zalo_monthly_messages := v\<rparr>\<rparr>)),
      (''ZL_EXPENSE_MONTHLY_INSIGHT_NARRATIVES'', ''quotas.monthly_insight_narratives'',
        u64_var (\<lambda>v c. c\<lparr>cf_quotas := (cf_quotas c)\<lparr>qt_monthly_insight_narratives := v\<rparr>\<rparr>)),
      (''ZL_EXPENSE_INSIGHTS_LLM_ENABLED'', ''insights.llm_enabled'',
        bool_var (\<lambda>v c. c\<lparr>cf_insights_llm_enabled := v\<rparr>)),
      (''ZL_EXPENSE_EXTRACTION_ENABLED'', ''features.extraction_enabled'',
        bool_var (\<lambda>v c. c\<lparr>cf_features := (cf_features c)\<lparr>ft_extraction_enabled := v\<rparr>\<rparr>)),
      (''ZL_EXPENSE_OUTBOUND_ENABLED'', ''features.outbound_enabled'',
        bool_var (\<lambda>v c. c\<lparr>cf_features := (cf_features c)\<lparr>ft_outbound_enabled := v\<rparr>\<rparr>))]"

fun apply_overrides ::
  "(string \<Rightarrow> string option) \<Rightarrow> (string \<times> string \<times> env_setter) list \<Rightarrow> config \<times> attribution \<Rightarrow> string + config \<times> attribution" where
  "apply_overrides env [] s = Inr s"
| "apply_overrides env ((name, key, set_to) # rest) (c, at) =
     (case env name of
        None \<Rightarrow> apply_overrides env rest (c, at)
      | Some v \<Rightarrow>
          (case set_to name v c of
             Inl e \<Rightarrow> Inl e
           | Inr c' \<Rightarrow> apply_overrides env rest (c', insert_attr key (setting_value key c') FromEnv at)))"

definition apply_env_overrides :: "(string \<Rightarrow> string option) \<Rightarrow> config \<times> attribution \<Rightarrow> string + config \<times> attribution" where
  "apply_env_overrides env = apply_overrides env env_overrides"

section \<open>Checks\<close>

text \<open>
  URL parsing, the syntax of socket addresses and of connection strings, and TOML are the libraries the code calls. A parsed
  URL has a query and a fragment besides what a media URL needs.
\<close>

record config_url = url +
  u_query :: "string option"
  u_fragment :: "string option"

record config_libs =
  fl_url :: "string \<Rightarrow> config_url option"
  fl_parse_ip :: "string \<Rightarrow> ip_addr option"
  fl_socket_addr :: "string \<Rightarrow> bool"
  fl_pg_url :: "string \<Rightarrow> bool"
  fl_toml :: "string \<Rightarrow> toml option"

text \<open>\<open>refuse\<close> is an early return; the first check that refuses gives the error.\<close>

definition refuse :: "bool \<Rightarrow> string \<Rightarrow> string + unit" where
  "refuse b m = (if b then Inl m else Inr ())"

fun all_checks :: "(string + unit) list \<Rightarrow> string + unit" where
  "all_checks [] = Inr ()"
| "all_checks (Inl e # cs) = Inl e"
| "all_checks (Inr _ # cs) = all_checks cs"

fun is_loopback :: "ip_addr \<Rightarrow> bool" where
  "is_loopback (V4 a) = v4_is_loopback a"
| "is_loopback (V6 a) = (a = 1)"

text \<open>The condition shared by the three URL checks.\<close>

definition secure_url :: "config_libs \<Rightarrow> config_url \<Rightarrow> bool" where
  "secure_url FL u \<longleftrightarrow>
     (u_scheme u = ''https''
      \<or> u_scheme u = ''http'' \<and> (case Option.bind (u_host u) (fl_parse_ip FL) of None \<Rightarrow> False | Some ip \<Rightarrow> is_loopback ip))
     \<and> u_host u \<noteq> None \<and> u_username u = [] \<and> u_password u = None \<and> u_query u = None \<and> u_fragment u = None"

definition validate_https_or_loopback :: "config_libs \<Rightarrow> string \<Rightarrow> string \<Rightarrow> string + unit" where
  "validate_https_or_loopback FL v m =
     (case fl_url FL v of None \<Rightarrow> Inl m | Some u \<Rightarrow> refuse (\<not> secure_url FL u) m)"

definition validate_storage_endpoint :: "config_libs \<Rightarrow> string \<Rightarrow> string + unit" where
  "validate_storage_endpoint FL v =
     (case fl_url FL v of
        None \<Rightarrow> Inl ''storage.endpoint must be a valid URL''
      | Some u \<Rightarrow> refuse (\<not> secure_url FL u) ''storage.endpoint must use HTTPS (HTTP is allowed only for a loopback IP)'')"

definition validate_zalo_api_base :: "config_libs \<Rightarrow> string \<Rightarrow> string + unit" where
  "validate_zalo_api_base FL v =
     (case fl_url FL v of
        None \<Rightarrow> Inl ''zalo.api_base must be a valid URL''
      | Some u \<Rightarrow> refuse (\<not> secure_url FL u) ''zalo.api_base must use HTTPS (HTTP is allowed only for a loopback IP)'')"

text \<open>\<^verbatim>\<open>char::is_control\<close>: U+0000 to U+001F and U+007F to U+009F.\<close>

definition is_control :: "string \<Rightarrow> bool" where
  "is_control c =
     (case c of
        [b] \<Rightarrow> byte b < 32 \<or> byte b = 127
      | [b, d] \<Rightarrow> byte b = 0xC2 \<and> 128 \<le> byte d \<and> byte d < 160
      | _ \<Rightarrow> False)"

definition valid_provider_sender_id :: "string \<Rightarrow> bool" where
  "valid_provider_sender_id v \<longleftrightarrow>
     trim v \<noteq> [] \<and> length (trim v) \<le> 128 \<and> trim v = v \<and> \<not> list_ex is_control (chars (trim v))"

definition is_reference_byte :: "char \<Rightarrow> bool" where
  "is_reference_byte c \<longleftrightarrow>
     is_ascii_digit c \<or> is_ascii_uppercase c \<or> (97 \<le> byte c \<and> byte c \<le> 122) \<or> c = CHR ''-'' \<or> c = CHR ''_''"

text \<open>\<^verbatim>\<open>Path::components\<close> on Unix.\<close>

datatype path_component = RootDir | CurDir | ParentDir | NormalDir string

definition path_components :: "string \<Rightarrow> path_component list" where
  "path_components p =
     (let parts = split_char (CHR ''/'') p;
          later = map (\<lambda>s. if s = ''..'' then ParentDir else NormalDir s) (filter (\<lambda>s. s \<noteq> [] \<and> s \<noteq> ''.'') parts)
      in if p \<noteq> [] \<and> hd parts = [] then RootDir # later
         else if hd parts = ''.'' then CurDir # later else later)"

definition valid_credential_reference :: "string \<Rightarrow> bool" where
  "valid_credential_reference v =
     (if v = [] \<or> 64 < length v \<or> \<not> list_all is_reference_byte v then False
      else case path_components v of [NormalDir _] \<Rightarrow> True | _ \<Rightarrow> False)"

datatype storage_backend = Filesystem | S3 | Memory

definition storage_backend_parse :: "string \<Rightarrow> string + storage_backend" where
  "storage_backend_parse v =
     (let t = to_ascii_lowercase (trim v) in
      if t = ''filesystem'' then Inr Filesystem else if t = ''s3'' then Inr S3 else if t = ''memory'' then Inr Memory
      else Inl ''storage.backend must be filesystem, s3, or memory'')"

datatype extraction_backend = Fake | Gemini

definition extraction_backend_parse :: "string \<Rightarrow> string + extraction_backend" where
  "extraction_backend_parse v =
     (let t = to_ascii_lowercase (trim v) in
      if t = ''fake'' then Inr Fake else if t = ''gemini'' then Inr Gemini
      else Inl ''extraction.backend must be fake or gemini'')"

definition trimmed_or_empty :: "string option \<Rightarrow> string" where
  "trimmed_or_empty v = (case v of None \<Rightarrow> [] | Some s \<Rightarrow> trim s)"

definition validate_storage :: "config_libs \<Rightarrow> storage_config \<Rightarrow> string + unit" where
  "validate_storage FL st =
     (case storage_backend_parse (st_backend st) of
        Inl e \<Rightarrow> Inl e
      | Inr Filesystem \<Rightarrow> refuse (trim (st_directory st) = []) ''storage.directory must not be empty''
      | Inr Memory \<Rightarrow> Inr ()
      | Inr S3 \<Rightarrow>
          all_checks
            [refuse (\<not> st_force_path_style st)
               ''storage.force_path_style must be true; virtual-hosted-style S3 is not supported'',
             refuse (trimmed_or_empty (st_endpoint st) = []) ''storage.endpoint is required for s3 backend'',
             validate_storage_endpoint FL (trimmed_or_empty (st_endpoint st)),
             refuse (trimmed_or_empty (st_bucket st) = []) ''storage.bucket is required for s3 backend'',
             refuse (\<not> valid_credential_reference (trimmed_or_empty (st_access_key_credential st)))
               ''storage.access_key_credential must be a safe credential name'',
             refuse (\<not> valid_credential_reference (trimmed_or_empty (st_secret_key_credential st)))
               ''storage.secret_key_credential must be a safe credential name''])"

definition model_supports_thinking :: "string \<Rightarrow> bool" where
  "model_supports_thinking m =
     (let m = to_ascii_lowercase m in
      starts_with m ''gemini-2.5'' \<or> starts_with m ''gemini-3'' \<or> contains_str m ''thinking'')"

definition validate_thinking_effort :: "string \<Rightarrow> string \<Rightarrow> string + unit" where
  "validate_thinking_effort model effort =
     (if effort = ''none'' then Inr ()
      else if effort \<in> {''low'', ''medium'', ''high''}
      then refuse (\<not> model_supports_thinking model) ''ai.profiles thinking_effort is not supported for this model''
      else Inl ''ai.profiles thinking_effort must be none, low, medium, or high'')"

definition validate_profile :: "string list \<Rightarrow> ai_profile \<Rightarrow> string + unit" where
  "validate_profile names p =
     all_checks
       [refuse (trim (ap_name p) = [] \<or> ap_name p \<in> set names) ''ai.profiles names must be unique and non-empty'',
        refuse (ap_provider p \<noteq> ''gemini'') ''ai.profiles provider must be gemini in the first release'',
        refuse (trim (ap_model p) = []) ''ai.profiles model must not be empty'',
        refuse (\<not> valid_credential_reference (ap_credential p)) ''ai.profiles credential must be a safe credential name'',
        refuse (ap_task p \<noteq> ''extraction'' \<and> ap_task p \<noteq> ''insight'') ''ai.profiles task must be extraction or insight'',
        refuse (ap_timeout_seconds p = 0 \<or> 120 < ap_timeout_seconds p) ''ai.profiles timeout_seconds must be between 1 and 120'',
        refuse (ap_max_attempts p = 0 \<or> 10 < ap_max_attempts p) ''ai.profiles max_attempts must be between 1 and 10'',
        refuse (ap_max_input_bytes p = 0 \<or> 10485760 < ap_max_input_bytes p)
          ''ai.profiles max_input_bytes must be between 1 and 10485760'',
        refuse (ap_max_output_tokens p = 0 \<or> 8192 < ap_max_output_tokens p)
          ''ai.profiles max_output_tokens must be between 1 and 8192'',
        validate_thinking_effort (ap_model p) (ap_thinking_effort p),
        refuse (trim (ap_schema_version p) = []) ''ai.profiles schema_version must not be empty'']"

fun validate_profiles :: "string list \<Rightarrow> ai_profile list \<Rightarrow> string + unit" where
  "validate_profiles names [] = Inr ()"
| "validate_profiles names (p # ps) = all_checks [validate_profile names p, validate_profiles (ap_name p # names) ps]"

definition validate_default_profile :: "config \<Rightarrow> string + unit" where
  "validate_default_profile c =
     (case List.find (\<lambda>p. ap_name p = xt_default_profile (cf_extraction c)) (cf_ai_profiles c) of
        None \<Rightarrow> Inl ''extraction.default_profile must name a configured ai.profiles entry''
      | Some p \<Rightarrow> refuse (ap_task p \<noteq> ''extraction'' \<or> ap_provider p \<noteq> ''gemini'')
          ''extraction.default_profile must be a gemini extraction profile'')"

definition validate_extraction :: "config_libs \<Rightarrow> config \<Rightarrow> string + unit" where
  "validate_extraction FL c =
     (case extraction_backend_parse (xt_backend (cf_extraction c)) of
        Inl e \<Rightarrow> Inl e
      | Inr backend \<Rightarrow>
          all_checks
            [validate_https_or_loopback FL (xt_api_base (cf_extraction c))
               ''extraction.api_base must use HTTPS (HTTP is allowed only for a loopback IP)'',
             refuse (trim (xt_default_profile (cf_extraction c)) = []) ''extraction.default_profile must not be empty'',
             validate_profiles [] (cf_ai_profiles c),
             if backend = Gemini then validate_default_profile c else Inr ()])"

definition validate_resolved :: "config_libs \<Rightarrow> config \<Rightarrow> string + unit" where
  "validate_resolved FL c =
     all_checks
       [refuse (\<not> fl_socket_addr FL (sv_listen_address (cf_server c))) ''server.listen_address must be a valid IP socket address'',
        refuse (dc_max_connections (cf_database c) = 0) ''database.max_connections must be greater than zero'',
        refuse (cc_receipt_extraction (cf_concurrency c) = 0) ''concurrency.receipt_extraction must be greater than zero'',
        refuse (cc_outbound_delivery (cf_concurrency c) = 0) ''concurrency.outbound_delivery must be greater than zero'',
        refuse (rt_original_receipt_days (cf_retention c) < 1 \<or> 30 < rt_original_receipt_days (cf_retention c))
          ''retention.original_receipt_days must be between 1 and 30'',
        refuse (\<not> valid_credential_reference (dc_url_credential (cf_database c)))
          ''database.url_credential must be a safe credential name'',
        refuse (\<not> valid_credential_reference (zl_bot_token_credential (cf_zalo c)))
          ''zalo.bot_token_credential must be a safe credential name'',
        refuse (\<not> valid_credential_reference (zl_webhook_secret_credential (cf_zalo c)))
          ''zalo.webhook_secret_credential must be a safe credential name'',
        refuse (trim (cr_directory (cf_credentials c)) = []) ''credentials.directory must not be empty'',
        refuse (\<not> list_all valid_provider_sender_id (ax_allowed_provider_sender_ids (cf_access c)))
          ''access.allowed_provider_sender_ids contains an invalid identifier'',
        validate_zalo_api_base FL (zl_api_base (cf_zalo c)),
        refuse (zl_send_timeout_seconds (cf_zalo c) = 0 \<or> 60 < zl_send_timeout_seconds (cf_zalo c))
          ''zalo.send_timeout_seconds must be between 1 and 60'',
        refuse (zl_webhook_max_body_bytes (cf_zalo c) = 0 \<or> 1048576 < zl_webhook_max_body_bytes (cf_zalo c))
          ''zalo.webhook_max_body_bytes must be between 1 and 1048576'',
        validate_storage FL (cf_storage c),
        refuse (trim (st_region (cf_storage c)) = []) ''storage.region must not be empty'',
        validate_extraction FL c,
        refuse (qt_per_user_daily_receipts (cf_quotas c) = 0) ''quotas.per_user_daily_receipts must be greater than zero'',
        refuse (qt_monthly_extraction_pages (cf_quotas c) = 0) ''quotas.monthly_extraction_pages must be greater than zero'',
        refuse (qt_zalo_monthly_messages (cf_quotas c) = 0) ''quotas.zalo_monthly_messages must be greater than zero'',
        refuse (qt_monthly_insight_narratives (cf_quotas c) = 0) ''quotas.monthly_insight_narratives must be greater than zero'']"

section \<open>Loading\<close>

type_synonym files = "string \<Rightarrow> string option"

text \<open>\<^verbatim>\<open>Path::join\<close>\<close>

definition path_join :: "string \<Rightarrow> string \<Rightarrow> string" where
  "path_join dir name =
     (if starts_with name ''/'' then name else if dir = [] \<or> ends_with dir ''/'' then dir @ name else dir @ ''/'' @ name)"

definition resolve_database_url :: "(string \<Rightarrow> string option) \<Rightarrow> files \<Rightarrow> config \<Rightarrow> string + string" where
  "resolve_database_url env fs c =
     (case env ''TEST_DATABASE_URL'' of
        Some u \<Rightarrow> Inr u
      | None \<Rightarrow>
          (case env ''ZL_EXPENSE_DATABASE_URL'' of
             Some u \<Rightarrow> Inr u
           | None \<Rightarrow>
               (case fs (path_join (cr_directory (cf_credentials c)) (dc_url_credential (cf_database c))) of
                  None \<Rightarrow> Inl (''database credential reference '' @ [CHR 0x27] @ dc_url_credential (cf_database c) @ [CHR 0x27]
                    @ '' not found at expected path'')
                | Some t \<Rightarrow> if trim t = [] then Inl ''database credential file is empty'' else Inr (trim t))))"

record resolved_config =
  rc_listen_address :: string
  rc_database_url :: string
  rc_max_connections :: nat
  rc_receipt_extraction :: nat
  rc_outbound_delivery :: nat
  rc_original_receipt_days :: nat
  rc_credentials_directory :: string
  rc_allowed_provider_sender_ids :: "string set"
  rc_bot_token_credential :: string
  rc_webhook_secret_credential :: string
  rc_zalo_api_base :: string
  rc_zalo_send_timeout_seconds :: nat
  rc_webhook_max_body_bytes :: nat
  rc_storage_backend :: storage_backend
  rc_storage_directory :: string
  rc_storage_endpoint :: "string option"
  rc_storage_bucket :: "string option"
  rc_storage_region :: string
  rc_storage_access_key_credential :: "string option"
  rc_storage_secret_key_credential :: "string option"
  rc_storage_force_path_style :: bool
  rc_extraction_backend :: extraction_backend
  rc_extraction_default_profile :: string
  rc_gemini_api_base :: string
  rc_ai_profiles :: "ai_profile list"
  rc_per_user_daily_receipts :: nat
  rc_monthly_extraction_pages :: nat
  rc_zalo_monthly_messages :: nat
  rc_monthly_insight_narratives :: nat
  rc_insights_llm_enabled :: bool
  rc_extraction_enabled :: bool
  rc_outbound_enabled :: bool
  rc_metrics_enabled :: bool
  rc_metrics_bind :: string
  rc_update_public_keys_directory :: string
  rc_update_install_path :: string
  rc_update_state_directory :: string
  rc_attribution :: attribution

definition resolved_of ::
  "config \<Rightarrow> attribution \<Rightarrow> string \<Rightarrow> storage_backend \<Rightarrow> extraction_backend \<Rightarrow> resolved_config" where
  "resolved_of c at database_url storage extraction =
     \<lparr>rc_listen_address = sv_listen_address (cf_server c), rc_database_url = database_url,
      rc_max_connections = dc_max_connections (cf_database c),
      rc_receipt_extraction = cc_receipt_extraction (cf_concurrency c),
      rc_outbound_delivery = cc_outbound_delivery (cf_concurrency c),
      rc_original_receipt_days = rt_original_receipt_days (cf_retention c),
      rc_credentials_directory = cr_directory (cf_credentials c),
      rc_allowed_provider_sender_ids = set (ax_allowed_provider_sender_ids (cf_access c)),
      rc_bot_token_credential = zl_bot_token_credential (cf_zalo c),
      rc_webhook_secret_credential = zl_webhook_secret_credential (cf_zalo c),
      rc_zalo_api_base = trim_end_set [''/''] (zl_api_base (cf_zalo c)),
      rc_zalo_send_timeout_seconds = zl_send_timeout_seconds (cf_zalo c),
      rc_webhook_max_body_bytes = zl_webhook_max_body_bytes (cf_zalo c),
      rc_storage_backend = storage, rc_storage_directory = st_directory (cf_storage c),
      rc_storage_endpoint = st_endpoint (cf_storage c), rc_storage_bucket = st_bucket (cf_storage c),
      rc_storage_region = st_region (cf_storage c),
      rc_storage_access_key_credential = st_access_key_credential (cf_storage c),
      rc_storage_secret_key_credential = st_secret_key_credential (cf_storage c),
      rc_storage_force_path_style = st_force_path_style (cf_storage c),
      rc_extraction_backend = extraction, rc_extraction_default_profile = xt_default_profile (cf_extraction c),
      rc_gemini_api_base = trim_end_set [''/''] (xt_api_base (cf_extraction c)), rc_ai_profiles = cf_ai_profiles c,
      rc_per_user_daily_receipts = qt_per_user_daily_receipts (cf_quotas c),
      rc_monthly_extraction_pages = qt_monthly_extraction_pages (cf_quotas c),
      rc_zalo_monthly_messages = qt_zalo_monthly_messages (cf_quotas c),
      rc_monthly_insight_narratives = qt_monthly_insight_narratives (cf_quotas c),
      rc_insights_llm_enabled = cf_insights_llm_enabled c,
      rc_extraction_enabled = ft_extraction_enabled (cf_features c),
      rc_outbound_enabled = ft_outbound_enabled (cf_features c),
      rc_metrics_enabled = mt_enabled (cf_metrics c), rc_metrics_bind = mt_bind (cf_metrics c),
      rc_update_public_keys_directory = up_public_keys_directory (cf_update c),
      rc_update_install_path = up_install_path (cf_update c), rc_update_state_directory = up_state_directory (cf_update c),
      rc_attribution = at\<rparr>"

text \<open>Every section of the file replaces the default one.\<close>

definition merge_config :: "config \<Rightarrow> config \<Rightarrow> config" where
  "merge_config target source =
     target\<lparr>cf_server := cf_server source, cf_database := cf_database source, cf_concurrency := cf_concurrency source,
       cf_retention := cf_retention source, cf_credentials := cf_credentials source, cf_access := cf_access source,
       cf_zalo := cf_zalo source, cf_storage := cf_storage source, cf_extraction := cf_extraction source,
       cf_ai_profiles := cf_ai_profiles source, cf_quotas := cf_quotas source,
       cf_insights_llm_enabled := cf_insights_llm_enabled source, cf_features := cf_features source,
       cf_metrics := cf_metrics source, cf_update := cf_update source\<rparr>"

definition read_config_file :: "config_libs \<Rightarrow> files \<Rightarrow> string option \<Rightarrow> string + config \<times> attribution" where
  "read_config_file FL fs path =
     (let at = record_default_sources Map.empty in
      case path of
        None \<Rightarrow> Inr (config_default, at)
      | Some p \<Rightarrow>
          (case fs p of
             None \<Rightarrow> Inl ''failed to read config file''
           | Some contents \<Rightarrow>
               (case fl_toml FL contents of
                  None \<Rightarrow> Inl ''invalid config TOML''
                | Some doc \<Rightarrow>
                    (case decode_config doc of
                       None \<Rightarrow> Inl ''invalid config TOML''
                     | Some fc \<Rightarrow> Inr (merge_config config_default fc, record_file_sources fc doc at)))))"

definition finish_config ::
  "config_libs \<Rightarrow> (string \<Rightarrow> string option) \<Rightarrow> files \<Rightarrow> config \<times> attribution \<Rightarrow> string + resolved_config" where
  "finish_config FL env fs s =
     (case s of (c, at) \<Rightarrow>
        (case validate_resolved FL c of
           Inl e \<Rightarrow> Inl e
         | Inr _ \<Rightarrow>
             (case resolve_database_url env fs c of
                Inl e \<Rightarrow> Inl e
              | Inr u \<Rightarrow>
                  if \<not> fl_pg_url FL u then Inl ''database credential is not a valid PostgreSQL URL''
                  else case (storage_backend_parse (st_backend (cf_storage c)),
                             extraction_backend_parse (xt_backend (cf_extraction c))) of
                    (Inl e, _) \<Rightarrow> Inl e
                  | (_, Inl e) \<Rightarrow> Inl e
                  | (Inr st, Inr xt) \<Rightarrow> Inr (resolved_of c at u st xt))))"

definition load_config ::
  "config_libs \<Rightarrow> (string \<Rightarrow> string option) \<Rightarrow> files \<Rightarrow> string option \<Rightarrow> string + resolved_config" where
  "load_config FL env fs path =
     (case read_config_file FL fs path of
        Inl e \<Rightarrow> Inl e
      | Inr s \<Rightarrow>
          (case apply_env_overrides env s of
             Inl e \<Rightarrow> Inl e
           | Inr s' \<Rightarrow> finish_config FL env fs s'))"

section \<open>Use of the result\<close>

definition is_provider_sender_allowed :: "resolved_config \<Rightarrow> string \<Rightarrow> bool" where
  "is_provider_sender_allowed rc i \<longleftrightarrow> i \<in> rc_allowed_provider_sender_ids rc"

definition read_credential :: "files \<Rightarrow> resolved_config \<Rightarrow> string \<Rightarrow> string + string" where
  "read_credential fs rc reference =
     (if \<not> valid_credential_reference reference then Inl ''required credential is unavailable''
      else case fs (path_join (rc_credentials_directory rc) reference) of
        None \<Rightarrow> Inl ''required credential is unavailable''
      | Some t \<Rightarrow> if trim t = [] then Inl ''required credential is unavailable'' else Inr (trim t))"

definition read_zalo_bot_token :: "files \<Rightarrow> resolved_config \<Rightarrow> string + string" where
  "read_zalo_bot_token fs rc = read_credential fs rc (rc_bot_token_credential rc)"

definition read_webhook_secret :: "files \<Rightarrow> resolved_config \<Rightarrow> string + string" where
  "read_webhook_secret fs rc = read_credential fs rc (rc_webhook_secret_credential rc)"

definition read_storage_access_key :: "files \<Rightarrow> resolved_config \<Rightarrow> string + string" where
  "read_storage_access_key fs rc =
     (case rc_storage_access_key_credential rc of
        None \<Rightarrow> Inl ''storage access key credential is unavailable''
      | Some r \<Rightarrow> read_credential fs rc r)"

definition read_storage_secret_key :: "files \<Rightarrow> resolved_config \<Rightarrow> string + string" where
  "read_storage_secret_key fs rc =
     (case rc_storage_secret_key_credential rc of
        None \<Rightarrow> Inl ''storage secret key credential is unavailable''
      | Some r \<Rightarrow> read_credential fs rc r)"

definition extraction_profile :: "resolved_config \<Rightarrow> string \<Rightarrow> ai_profile option" where
  "extraction_profile rc name = List.find (\<lambda>p. ap_name p = name) (rc_ai_profiles rc)"

definition ingress_policy_from_config :: "resolved_config \<Rightarrow> ingress_policy" where
  "ingress_policy_from_config rc =
     \<lparr>ip_per_user_daily_receipts = rc_per_user_daily_receipts rc, ip_outbound_enabled = rc_outbound_enabled rc,
      ip_zalo_monthly_messages = rc_zalo_monthly_messages rc, ip_insights_llm_enabled = rc_insights_llm_enabled rc,
      ip_monthly_insight_narratives = rc_monthly_insight_narratives rc\<rparr>"

end
