(* ===== verification/Config_Properties.thy ===== *)
theory Config_Properties
  imports Config Chat_Amount_Proofs
begin

text \<open>
  What a loaded configuration guarantees: the report of the sources is true, every value is within its bounds, and credentials
  are read inside their directory only.
\<close>

section \<open>Sources\<close>

text \<open>The layer that determines a setting: an environment variable, else the file, else the default.\<close>

definition overridden_by :: "(string \<times> string \<times> env_setter) list \<Rightarrow> (string \<Rightarrow> string option) \<Rightarrow> string \<Rightarrow> bool" where
  "overridden_by os env k \<longleftrightarrow> list_ex (\<lambda>(name, key, _). key = k \<and> env name \<noteq> None) os"

definition overridden :: "(string \<Rightarrow> string option) \<Rightarrow> string \<Rightarrow> bool" where
  "overridden env k \<longleftrightarrow> overridden_by env_overrides env k"

definition set_in_file :: "config_libs \<Rightarrow> files \<Rightarrow> string option \<Rightarrow> string \<Rightarrow> bool" where
  "set_in_file FL fs path k \<longleftrightarrow>
     (\<exists>p t doc fc present. path = Some p \<and> fs p = Some t \<and> fl_toml FL t = Some doc \<and> decode_config doc = Some fc
        \<and> map_of file_settings k = Some present \<and> present fc doc)"

definition source_of :: "config_libs \<Rightarrow> (string \<Rightarrow> string option) \<Rightarrow> files \<Rightarrow> string option \<Rightarrow> string \<Rightarrow> config_source" where
  "source_of FL env fs path k =
     (if overridden env k then FromEnv else if set_in_file FL fs path k then FromFile else FromDefault)"

lemma fold_insert_default:
  "distinct ks \<Longrightarrow> fold (\<lambda>k. insert_attr k (f k) src) ks at k
     = (if k \<in> set ks then Some \<lparr>rv_value = f k, rv_source = src\<rparr> else at k)"
  by (induction ks arbitrary: at) (auto simp: insert_attr_def)

lemma fold_insert_file:
  "distinct (map fst fs) \<Longrightarrow>
   fold (\<lambda>(k, present). if present c doc then insert_attr k (f k) src else id) fs at k
     = (case map_of fs k of
          None \<Rightarrow> at k
        | Some present \<Rightarrow> if present c doc then Some \<lparr>rv_value = f k, rv_source = src\<rparr> else at k)"
proof (induction fs arbitrary: at)
  case (Cons x fs)
  obtain k' present where x: "x = (k', present)" by (cases x)
  have "k' \<notin> dom (map_of fs)" using Cons.prems x by (simp add: dom_map_of_conv_image_fst)
  then show ?case using Cons x by (auto simp: insert_attr_def split: option.splits)
qed simp

lemma setting_keys: "map fst file_settings = map fst settings" "distinct (map fst settings)" "distinct default_keys"
  by (simp_all add: file_settings_def settings_def default_keys_def)

lemma default_sources:
  "record_default_sources Map.empty k
     = (if k \<in> set default_keys then Some \<lparr>rv_value = setting_value k config_default, rv_source = FromDefault\<rparr> else None)"
  unfolding record_default_sources_def by (simp add: fold_insert_default setting_keys)

lemma file_sources:
  "record_file_sources c doc at k
     = (case map_of file_settings k of
          None \<Rightarrow> at k
        | Some present \<Rightarrow> if present c doc then Some \<lparr>rv_value = setting_value k c, rv_source = FromFile\<rparr> else at k)"
  unfolding record_file_sources_def by (rule fold_insert_file) (simp add: setting_keys)

section \<open>Environment\<close>

text \<open>An override changes no setting but its own.\<close>

definition frames :: "string \<Rightarrow> env_setter \<Rightarrow> bool" where
  "frames key set_to \<longleftrightarrow> (\<forall>name v c c'. set_to name v c = Inr c' \<longrightarrow> (\<forall>k. k \<noteq> key \<longrightarrow> setting_value k c' = setting_value k c))"

lemma map_sum_Inr: "map_sum id f x = Inr y \<longleftrightarrow> (\<exists>a. x = Inr a \<and> y = f a)"
  by (cases x) auto

lemma setting_value_frame:
  assumes "list_all (\<lambda>(k, f). k = key \<or> f c' = f c) settings"
  shows "k \<noteq> key \<Longrightarrow> setting_value k c' = setting_value k c"
  using assms by (auto simp: setting_value_def list_all_iff split: option.splits dest!: map_of_SomeD)

lemma framesI:
  assumes "\<And>name v c c'. set_to name v c = Inr c' \<Longrightarrow> list_all (\<lambda>(k, f). k = key \<or> f c' = f c) settings"
  shows "frames key set_to"
  unfolding frames_def using setting_value_frame [OF assms] by blast

lemmas var_defs = text_var_def opt_var_def ids_var_def bool_var_def u32_var_def u64_var_def map_sum_Inr

lemma env_overrides_frame: "list_all (\<lambda>(name, key, set_to). frames key set_to) env_overrides"
  unfolding env_overrides_def list.pred_inject prod.case
  by (intro conjI; (rule list.pred_inject(1) | rule framesI, auto simp: var_defs settings_def))

lemma env_keys: "distinct (map (fst \<circ> snd) env_overrides)"
  by (simp add: env_overrides_def)

lemma overridden_by_Cons:
  "overridden_by ((name, key, set_to) # os) env k \<longleftrightarrow> key = k \<and> env name \<noteq> None \<or> overridden_by os env k"
  by (simp add: overridden_by_def)

lemma overridden_by_key: "overridden_by os env k \<Longrightarrow> k \<in> set (map (fst \<circ> snd) os)"
  by (force simp: overridden_by_def list_ex_iff)

lemma apply_overrides_sources:
  "\<lbrakk>apply_overrides env os (c, at) = Inr (c', at'); list_all (\<lambda>(name, key, set_to). frames key set_to) os;
    distinct (map (fst \<circ> snd) os)\<rbrakk> \<Longrightarrow>
   at' k = (if overridden_by os env k then Some \<lparr>rv_value = setting_value k c', rv_source = FromEnv\<rparr> else at k)
   \<and> (\<not> overridden_by os env k \<longrightarrow> setting_value k c' = setting_value k c)"
proof (induction os arbitrary: c at)
  case (Cons x os)
  obtain name key set_to where x: "x = (name, key, set_to)" by (cases x)
  have rest: "list_all (\<lambda>(name, key, set_to). frames key set_to) os" "distinct (map (fst \<circ> snd) os)" "frames key set_to"
    "\<not> overridden_by os env key"
    using Cons.prems x overridden_by_key [of os env key] by (auto simp: comp_def)
  show ?case
  proof (cases "env name")
    case None
    with Cons.prems(1) x have "apply_overrides env os (c, at) = Inr (c', at')" by simp
    from Cons.IH [OF this rest(1,2)] None show ?thesis by (simp add: x overridden_by_Cons)
  next
    case (Some v)
    with Cons.prems(1) x obtain c1 where c1: "set_to name v c = Inr c1"
      and run: "apply_overrides env os (c1, insert_attr key (setting_value key c1) FromEnv at) = Inr (c', at')"
      by (auto split: sum.splits)
    have same: "k \<noteq> key \<Longrightarrow> setting_value k c1 = setting_value k c" using rest(3) c1 by (auto simp: frames_def)
    show ?thesis
      using Cons.IH [OF run rest(1,2)] Some same rest(4)
      by (cases "k = key") (simp_all add: x overridden_by_Cons insert_attr_def)
  qed
qed (simp add: overridden_by_def)

lemma env_sources:
  assumes "apply_env_overrides env (c, at) = Inr (c', at')"
  shows "at' k = (if overridden env k then Some \<lparr>rv_value = setting_value k c', rv_source = FromEnv\<rparr> else at k)"
    and "\<not> overridden env k \<Longrightarrow> setting_value k c' = setting_value k c"
  using apply_overrides_sources [OF _ env_overrides_frame env_keys, of env c at c' at' k] assms
  by (simp_all add: apply_env_overrides_def overridden_def)

section \<open>File\<close>

text \<open>A field its section does not have gets the default.\<close>

lemma merge_config_file: "merge_config config_default fc = fc"
  by (simp add: merge_config_def)

lemma toml_fields_eq: "toml_fields names t = Some f \<Longrightarrow> f = (\<lambda>k. toml_get k t)"
  by (auto simp: toml_fields_def fun_eq_iff split: toml.splits if_splits)

lemmas unset_simps = field_or_def optional_string_def bind_eq_Some_conv access_default_def

lemma decode_config_sections:
  assumes "decode_config doc = Some fc"
  shows "field_or decode_server server_default (toml_get ''server'' doc) = Some (cf_server fc)"
    "field_or decode_database database_default (toml_get ''database'' doc) = Some (cf_database fc)"
    "field_or decode_concurrency concurrency_default (toml_get ''concurrency'' doc) = Some (cf_concurrency fc)"
    "field_or decode_retention retention_default (toml_get ''retention'' doc) = Some (cf_retention fc)"
    "field_or decode_credentials credentials_default (toml_get ''credentials'' doc) = Some (cf_credentials fc)"
    "field_or decode_access access_default (toml_get ''access'' doc) = Some (cf_access fc)"
    "field_or decode_zalo zalo_default (toml_get ''zalo'' doc) = Some (cf_zalo fc)"
    "field_or decode_storage storage_default (toml_get ''storage'' doc) = Some (cf_storage fc)"
    "field_or decode_extraction extraction_default (toml_get ''extraction'' doc) = Some (cf_extraction fc)"
    "field_or decode_ai [] (toml_get ''ai'' doc) = Some (cf_ai_profiles fc)"
    "field_or decode_quotas quotas_default (toml_get ''quotas'' doc) = Some (cf_quotas fc)"
    "field_or decode_insights False (toml_get ''insights'' doc) = Some (cf_insights_llm_enabled fc)"
    "field_or decode_features features_default (toml_get ''features'' doc) = Some (cf_features fc)"
    "field_or decode_metrics metrics_default (toml_get ''metrics'' doc) = Some (cf_metrics fc)"
    "field_or decode_update update_default (toml_get ''update'' doc) = Some (cf_update fc)"
  using assms by (auto simp: decode_config_def bind_eq_Some_conv dest!: toml_fields_eq)

lemma server_unset:
  "field_or decode_server server_default v = Some x \<Longrightarrow>
    (Option.bind v (toml_get ''listen_address'') = None \<longrightarrow> sv_listen_address x = sv_listen_address server_default)"
  by (cases v) (auto simp: decode_server_def unset_simps dest!: toml_fields_eq)

lemma database_unset:
  "field_or decode_database database_default v = Some x \<Longrightarrow>
    (Option.bind v (toml_get ''url_credential'') = None \<longrightarrow> dc_url_credential x = dc_url_credential database_default)
    \<and> (Option.bind v (toml_get ''max_connections'') = None \<longrightarrow> dc_max_connections x = dc_max_connections database_default)"
  by (cases v) (auto simp: decode_database_def unset_simps dest!: toml_fields_eq)

lemma concurrency_unset:
  "field_or decode_concurrency concurrency_default v = Some x \<Longrightarrow>
    (Option.bind v (toml_get ''receipt_extraction'') = None \<longrightarrow> cc_receipt_extraction x = cc_receipt_extraction concurrency_default)
    \<and> (Option.bind v (toml_get ''outbound_delivery'') = None \<longrightarrow> cc_outbound_delivery x = cc_outbound_delivery concurrency_default)"
  by (cases v) (auto simp: decode_concurrency_def unset_simps dest!: toml_fields_eq)

lemma retention_unset:
  "field_or decode_retention retention_default v = Some x \<Longrightarrow>
    (Option.bind v (toml_get ''original_receipt_days'') = None \<longrightarrow> rt_original_receipt_days x = rt_original_receipt_days retention_default)"
  by (cases v) (auto simp: decode_retention_def unset_simps dest!: toml_fields_eq)

lemma credentials_unset:
  "field_or decode_credentials credentials_default v = Some x \<Longrightarrow>
    (Option.bind v (toml_get ''directory'') = None \<longrightarrow> cr_directory x = cr_directory credentials_default)"
  by (cases v) (auto simp: decode_credentials_def unset_simps dest!: toml_fields_eq)

lemma access_unset:
  "field_or decode_access access_default v = Some x \<Longrightarrow>
    (Option.bind v (toml_get ''allowed_provider_sender_ids'') = None \<longrightarrow> ax_allowed_provider_sender_ids x = ax_allowed_provider_sender_ids access_default)"
  by (cases v) (auto simp: decode_access_def unset_simps dest!: toml_fields_eq)

lemma zalo_unset:
  "field_or decode_zalo zalo_default v = Some x \<Longrightarrow>
    (Option.bind v (toml_get ''bot_token_credential'') = None \<longrightarrow> zl_bot_token_credential x = zl_bot_token_credential zalo_default)
    \<and> (Option.bind v (toml_get ''webhook_secret_credential'') = None \<longrightarrow> zl_webhook_secret_credential x = zl_webhook_secret_credential zalo_default)
    \<and> (Option.bind v (toml_get ''api_base'') = None \<longrightarrow> zl_api_base x = zl_api_base zalo_default)
    \<and> (Option.bind v (toml_get ''send_timeout_seconds'') = None \<longrightarrow> zl_send_timeout_seconds x = zl_send_timeout_seconds zalo_default)
    \<and> (Option.bind v (toml_get ''webhook_max_body_bytes'') = None \<longrightarrow> zl_webhook_max_body_bytes x = zl_webhook_max_body_bytes zalo_default)"
  by (cases v) (auto simp: decode_zalo_def unset_simps dest!: toml_fields_eq)

lemma storage_optional: "st_endpoint storage_default = None" "st_bucket storage_default = None"
  "st_access_key_credential storage_default = None" "st_secret_key_credential storage_default = None"
  by (simp_all add: storage_default_def)

lemma storage_unset:
  "field_or decode_storage storage_default v = Some x \<Longrightarrow>
    (Option.bind v (toml_get ''backend'') = None \<longrightarrow> st_backend x = st_backend storage_default)
    \<and> (Option.bind v (toml_get ''directory'') = None \<longrightarrow> st_directory x = st_directory storage_default)
    \<and> (Option.bind v (toml_get ''endpoint'') = None \<longrightarrow> st_endpoint x = st_endpoint storage_default)
    \<and> (Option.bind v (toml_get ''bucket'') = None \<longrightarrow> st_bucket x = st_bucket storage_default)
    \<and> (Option.bind v (toml_get ''region'') = None \<longrightarrow> st_region x = st_region storage_default)
    \<and> (Option.bind v (toml_get ''access_key_credential'') = None \<longrightarrow> st_access_key_credential x = st_access_key_credential storage_default)
    \<and> (Option.bind v (toml_get ''secret_key_credential'') = None \<longrightarrow> st_secret_key_credential x = st_secret_key_credential storage_default)
    \<and> (Option.bind v (toml_get ''force_path_style'') = None \<longrightarrow> st_force_path_style x = st_force_path_style storage_default)"
  by (cases v) (auto simp: decode_storage_def unset_simps storage_optional dest!: toml_fields_eq)

lemma extraction_unset:
  "field_or decode_extraction extraction_default v = Some x \<Longrightarrow>
    (Option.bind v (toml_get ''backend'') = None \<longrightarrow> xt_backend x = xt_backend extraction_default)
    \<and> (Option.bind v (toml_get ''default_profile'') = None \<longrightarrow> xt_default_profile x = xt_default_profile extraction_default)
    \<and> (Option.bind v (toml_get ''api_base'') = None \<longrightarrow> xt_api_base x = xt_api_base extraction_default)"
  by (cases v) (auto simp: decode_extraction_def unset_simps dest!: toml_fields_eq)

lemma quotas_unset:
  "field_or decode_quotas quotas_default v = Some x \<Longrightarrow>
    (Option.bind v (toml_get ''per_user_daily_receipts'') = None \<longrightarrow> qt_per_user_daily_receipts x = qt_per_user_daily_receipts quotas_default)
    \<and> (Option.bind v (toml_get ''monthly_extraction_pages'') = None \<longrightarrow> qt_monthly_extraction_pages x = qt_monthly_extraction_pages quotas_default)
    \<and> (Option.bind v (toml_get ''zalo_monthly_messages'') = None \<longrightarrow> qt_zalo_monthly_messages x = qt_zalo_monthly_messages quotas_default)
    \<and> (Option.bind v (toml_get ''monthly_insight_narratives'') = None \<longrightarrow> qt_monthly_insight_narratives x = qt_monthly_insight_narratives quotas_default)"
  by (cases v) (auto simp: decode_quotas_def unset_simps dest!: toml_fields_eq)

lemma features_unset:
  "field_or decode_features features_default v = Some x \<Longrightarrow>
    (Option.bind v (toml_get ''extraction_enabled'') = None \<longrightarrow> ft_extraction_enabled x = ft_extraction_enabled features_default)
    \<and> (Option.bind v (toml_get ''outbound_enabled'') = None \<longrightarrow> ft_outbound_enabled x = ft_outbound_enabled features_default)"
  by (cases v) (auto simp: decode_features_def unset_simps dest!: toml_fields_eq)

lemma metrics_unset:
  "field_or decode_metrics metrics_default v = Some x \<Longrightarrow>
    (Option.bind v (toml_get ''enabled'') = None \<longrightarrow> mt_enabled x = mt_enabled metrics_default)
    \<and> (Option.bind v (toml_get ''bind'') = None \<longrightarrow> mt_bind x = mt_bind metrics_default)"
  by (cases v) (auto simp: decode_metrics_def unset_simps dest!: toml_fields_eq)

lemma update_unset:
  "field_or decode_update update_default v = Some x \<Longrightarrow>
    (Option.bind v (toml_get ''public_keys_directory'') = None \<longrightarrow> up_public_keys_directory x = up_public_keys_directory update_default)
    \<and> (Option.bind v (toml_get ''install_path'') = None \<longrightarrow> up_install_path x = up_install_path update_default)
    \<and> (Option.bind v (toml_get ''state_directory'') = None \<longrightarrow> up_state_directory x = up_state_directory update_default)"
  by (cases v) (auto simp: decode_update_def unset_simps dest!: toml_fields_eq)


lemma ai_unset: "field_or decode_ai [] None = Some x \<Longrightarrow> x = []"
  by (simp add: field_or_def)

lemma insights_unset:
  "field_or decode_insights False v = Some x \<Longrightarrow> Option.bind v (toml_get ''llm_enabled'') = None \<longrightarrow> x = False"
  by (cases v) (auto simp: decode_insights_def unset_simps dest!: toml_fields_eq)

lemma disj_imp_right: "(\<not> P \<Longrightarrow> Q) \<Longrightarrow> P \<or> Q"
  by blast

lemma unset_settings:
  assumes "decode_config doc = Some fc"
  shows "list_all (\<lambda>((k, f), (_, present)). present fc doc \<or> f fc = f config_default) (zip settings file_settings)"
proof -
  note S = decode_config_sections [OF assms]
  note U = server_unset [OF S(1)] database_unset [OF S(2)] concurrency_unset [OF S(3)] retention_unset [OF S(4)]
    credentials_unset [OF S(5)] access_unset [OF S(6)] zalo_unset [OF S(7)] storage_unset [OF S(8)] extraction_unset [OF S(9)]
    quotas_unset [OF S(11)] insights_unset [OF S(12)] features_unset [OF S(13)] metrics_unset [OF S(14)] update_unset [OF S(15)]
  have ai: "toml_get ''ai'' doc = None \<Longrightarrow> cf_ai_profiles fc = []" using S(10) by (simp add: ai_unset)
  show ?thesis
    unfolding settings_def file_settings_def zip_Cons_Cons zip_Nil list.pred_inject prod.case in_file_def
    by (intro conjI; (rule list.pred_inject(1)
      | rule disj_imp_right, use U ai in \<open>simp add: config_default_def storage_optional del: not_None_eq\<close>))
qed

section \<open>The report\<close>

lemma zip_map_of:
  "\<lbrakk>length xs = length ys; map fst xs = map fst ys; list_all (\<lambda>((_, f), (_, p)). P f p) (zip xs ys);
    map_of xs k = Some f; map_of ys k = Some p\<rbrakk> \<Longrightarrow> P f p"
  by (induction xs ys rule: list_induct2) (auto split: if_splits)

lemma file_setting_known: "map_of file_settings k = None \<longleftrightarrow> map_of settings k = None"
  by (metis map_of_eq_None_iff set_map setting_keys(1))

lemma unset_is_default:
  assumes "decode_config doc = Some fc" "map_of file_settings k = Some present" "\<not> present fc doc"
  shows "setting_value k fc = setting_value k config_default"
proof -
  obtain f where f: "map_of settings k = Some f" using assms(2) file_setting_known [of k] by fastforce
  have "present fc doc \<or> f fc = f config_default"
    using zip_map_of [OF _ _ unset_settings [OF assms(1)] f assms(2)] setting_keys(1)
    by (metis length_map)
  with assms(3) f show ?thesis by (simp add: setting_value_def)
qed

lemma unknown_setting: "map_of file_settings k = None \<Longrightarrow> setting_value k c = JNull"
  by (simp add: file_setting_known setting_value_def)

text \<open>What reading the file records of a setting.\<close>

lemma read_config_file_sources:
  assumes "read_config_file FL fs path = Inr (c, at)"
  shows "at k = (if set_in_file FL fs path k then Some \<lparr>rv_value = setting_value k c, rv_source = FromFile\<rparr>
      else if k \<in> set default_keys then Some \<lparr>rv_value = setting_value k c, rv_source = FromDefault\<rparr> else None)"
    and "\<not> set_in_file FL fs path k \<Longrightarrow> setting_value k c = setting_value k config_default"
proof -
  consider (given) p t doc where "path = Some p" "fs p = Some t" "fl_toml FL t = Some doc" "decode_config doc = Some c"
        "at = record_file_sources c doc (record_default_sources Map.empty)"
    | (none) "path = None" "c = config_default" "at = record_default_sources Map.empty"
    using assms by (auto simp: read_config_file_def Let_def merge_config_file split: option.splits)
  note layers = this
  show unset: "setting_value k c = setting_value k config_default" if "\<not> set_in_file FL fs path k"
    using layers
  proof cases
    case given
    with that show ?thesis
      by (cases "map_of file_settings k") (auto simp: set_in_file_def unknown_setting intro: unset_is_default)
  qed simp
  show "at k = (if set_in_file FL fs path k then Some \<lparr>rv_value = setting_value k c, rv_source = FromFile\<rparr>
      else if k \<in> set default_keys then Some \<lparr>rv_value = setting_value k c, rv_source = FromDefault\<rparr> else None)"
    using layers
  proof cases
    case none
    then show ?thesis by (simp add: set_in_file_def default_sources)
  next
    case given
    show ?thesis
    proof (cases "set_in_file FL fs path k")
      case True
      with given show ?thesis by (auto simp: set_in_file_def file_sources)
    next
      case False
      then have "at k = record_default_sources Map.empty k"
        using given by (auto simp: set_in_file_def file_sources split: option.split)
      with False unset [OF False] show ?thesis by (simp add: default_sources)
    qed
  qed
qed

lemma load_config_stages:
  assumes "load_config FL env fs path = Inr rc"
  obtains c0 at0 c at u st xt where "read_config_file FL fs path = Inr (c0, at0)" "apply_env_overrides env (c0, at0) = Inr (c, at)"
    "validate_resolved FL c = Inr ()" "resolve_database_url env fs c = Inr u" "fl_pg_url FL u"
    "storage_backend_parse (st_backend (cf_storage c)) = Inr st"
    "extraction_backend_parse (xt_backend (cf_extraction c)) = Inr xt" "rc = resolved_of c at u st xt"
  using assms
  by (auto simp: load_config_def finish_config_def split: sum.splits if_splits prod.splits)

lemma resolved_attribution: "rc_attribution (resolved_of c at u st xt) = at"
  by (simp add: resolved_of_def)

text \<open>An example: the file sets the listen address, the environment the database URL and one feature.\<close>

definition demo_url :: config_url where
  "demo_url =
     \<lparr>u_scheme = ''https'', u_username = [], u_password = None, u_host = Some ''host'', u_port = None, u_default_port = Some 443, u_rest = [],
      u_query = None, u_fragment = None\<rparr>"

definition demo_libs :: config_libs where
  "demo_libs =
     \<lparr>fl_url = \<lambda>s. Some demo_url, fl_parse_ip = \<lambda>s. None, fl_socket_addr = \<lambda>s. True,
      fl_pg_url = \<lambda>u. starts_with u ''postgres://'',
      fl_toml = \<lambda>s. Some (TTable [(''server'', TTable [(''listen_address'', TString s)])])\<rparr>"

definition demo_env :: "string \<Rightarrow> string option" where
  "demo_env = [''ZL_EXPENSE_DATABASE_URL'' \<mapsto> ''postgres://x'', ''ZL_EXPENSE_OUTBOUND_ENABLED'' \<mapsto> ''no'']"

definition demo_files :: files where
  "demo_files = [''c.toml'' \<mapsto> ''0.0.0.0:8080'']"

definition demo_config :: config where
  "demo_config = config_default\<lparr>cf_server := \<lparr>sv_listen_address = ''0.0.0.0:8080''\<rparr>,
     cf_features := features_default\<lparr>ft_outbound_enabled := False\<rparr>\<rparr>"

lemma demo_decode:
  "decode_config (TTable [(''server'', TTable [(''listen_address'', TString s)])])
     = Some (config_default\<lparr>cf_server := \<lparr>sv_listen_address = s\<rparr>\<rparr>)"
  by (simp add: decode_config_def decode_server_def toml_fields_def field_or_def config_default_def config_sections_def)

lemma demo_read:
  "\<exists>at. read_config_file demo_libs demo_files (Some ''c.toml'') = Inr (config_default\<lparr>cf_server := \<lparr>sv_listen_address = ''0.0.0.0:8080''\<rparr>\<rparr>, at)"
  by (simp add: read_config_file_def demo_files_def demo_libs_def demo_decode merge_config_file Let_def)

lemma demo_overrides:
  "\<exists>at'. apply_env_overrides demo_env (config_default\<lparr>cf_server := \<lparr>sv_listen_address = ''0.0.0.0:8080''\<rparr>\<rparr>, at) = Inr (demo_config, at')"
proof -
  have "parse_env_bool ''ZL_EXPENSE_OUTBOUND_ENABLED'' ''no'' = Inr False" by code_simp
  then show ?thesis
    by (simp add: apply_env_overrides_def env_overrides_def demo_env_def bool_var_def demo_config_def config_default_def)
qed

lemma trimmed_defaults: "trim ''filesystem'' = ''filesystem''" "trim ''fake'' = ''fake''" "trim ''us-east-1'' \<noteq> []"
  "trim ''receipt-fast'' \<noteq> []" "trim ''/var/lib/zl-expense/objects'' \<noteq> []" "trim ''/etc/zl-expense/credentials'' \<noteq> []"
  by code_simp+

lemma default_backends: "storage_backend_parse ''filesystem'' = Inr Filesystem" "extraction_backend_parse ''fake'' = Inr Fake"
  by code_simp+

lemma default_references: "valid_credential_reference ''database''" "valid_credential_reference ''zalo-bot''"
  "valid_credential_reference ''webhook-secret''"
  by code_simp+

lemmas default_defs = config_default_def server_default_def database_default_def concurrency_default_def retention_default_def
  credentials_default_def access_default_def zalo_default_def storage_default_def extraction_default_def quotas_default_def
  features_default_def

lemma demo_valid: "validate_resolved demo_libs demo_config = Inr ()"
  by (simp add: validate_resolved_def refuse_def validate_zalo_api_base_def validate_storage_def validate_extraction_def
      validate_https_or_loopback_def demo_libs_def secure_url_def demo_url_def demo_config_def default_defs
      trimmed_defaults default_backends default_references)

lemma demo_database: "resolve_database_url demo_env demo_files demo_config = Inr ''postgres://x''"
  by (simp add: resolve_database_url_def demo_env_def)

lemma demo_loads: "\<exists>at. load_config demo_libs demo_env demo_files (Some ''c.toml'')
    = Inr (resolved_of demo_config at ''postgres://x'' Filesystem Fake)"
proof -
  obtain at where rd: "read_config_file demo_libs demo_files (Some ''c.toml'')
      = Inr (config_default\<lparr>cf_server := \<lparr>sv_listen_address = ''0.0.0.0:8080''\<rparr>\<rparr>, at)" using demo_read by blast
  obtain at' where ov: "apply_env_overrides demo_env (config_default\<lparr>cf_server := \<lparr>sv_listen_address = ''0.0.0.0:8080''\<rparr>\<rparr>, at)
      = Inr (demo_config, at')" using demo_overrides by blast
  have "finish_config demo_libs demo_env demo_files (demo_config, at') = Inr (resolved_of demo_config at' ''postgres://x'' Filesystem Fake)"
    unfolding finish_config_def
    by (simp add: demo_valid demo_database)
      (simp add: demo_libs_def demo_config_def starts_with_def default_backends default_defs)
  then show ?thesis by (auto simp: load_config_def rd ov)
qed

text \<open>
C31: The report of a loaded configuration is true: for every setting it shows the value the configuration has, and as its
source the layer that determined it: an environment variable where one is set, else the file where it has the
field, else the default, in which case the value is the default one; it has an entry for every setting with a default and
for every one a layer sets, and no other.
\<close>

theorem attribution_is_truthful:
  assumes "load_config FL env fs path = Inr rc"
  shows "\<exists>c u st xt. rc = resolved_of c (rc_attribution rc) u st xt
    \<and> (\<forall>k. rc_attribution rc k =
           (if k \<in> set default_keys \<or> overridden env k \<or> set_in_file FL fs path k
            then Some \<lparr>rv_value = setting_value k c, rv_source = source_of FL env fs path k\<rparr> else None)
         \<and> (source_of FL env fs path k = FromDefault \<longrightarrow> setting_value k c = setting_value k config_default))"
proof -
  obtain c0 at0 c at u st xt where rd: "read_config_file FL fs path = Inr (c0, at0)"
    and ov: "apply_env_overrides env (c0, at0) = Inr (c, at)" and rc: "rc = resolved_of c at u st xt"
    using load_config_stages [OF assms] by metis
  have "at k = (if k \<in> set default_keys \<or> overridden env k \<or> set_in_file FL fs path k
      then Some \<lparr>rv_value = setting_value k c, rv_source = source_of FL env fs path k\<rparr> else None)
    \<and> (source_of FL env fs path k = FromDefault \<longrightarrow> setting_value k c = setting_value k config_default)" for k
    using env_sources [OF ov, of k] read_config_file_sources [OF rd, of k] by (simp add: source_of_def)
  then show ?thesis using rc by (auto simp: resolved_attribution)
qed

theorem attribution_is_truthful_witness:
  "\<exists>rc. load_config demo_libs demo_env demo_files (Some ''c.toml'') = Inr rc
     \<and> rc_attribution rc ''features.outbound_enabled'' = Some \<lparr>rv_value = JBool False, rv_source = FromEnv\<rparr>
     \<and> rc_attribution rc ''server.listen_address'' = Some \<lparr>rv_value = JString ''0.0.0.0:8080'', rv_source = FromFile\<rparr>
     \<and> rc_attribution rc ''metrics.enabled'' = Some \<lparr>rv_value = JBool False, rv_source = FromDefault\<rparr>"
proof -
  obtain at0 where ld: "load_config demo_libs demo_env demo_files (Some ''c.toml'')
      = Inr (resolved_of demo_config at0 ''postgres://x'' Filesystem Fake)" using demo_loads by blast
  let ?rc = "resolved_of demo_config at0 ''postgres://x'' Filesystem Fake"
  obtain c u st xt where c: "?rc = resolved_of c (rc_attribution ?rc) u st xt"
    and at: "\<forall>k. rc_attribution ?rc k =
           (if k \<in> set default_keys \<or> overridden demo_env k \<or> set_in_file demo_libs demo_files (Some ''c.toml'') k
            then Some \<lparr>rv_value = setting_value k c, rv_source = source_of demo_libs demo_env demo_files (Some ''c.toml'') k\<rparr> else None)"
    using attribution_is_truthful [OF ld] by auto
  have vals: "ft_outbound_enabled (cf_features c) = False" "sv_listen_address (cf_server c) = ''0.0.0.0:8080''"
    "mt_enabled (cf_metrics c) = False"
    using c by (simp_all add: resolved_of_def demo_config_def config_default_def metrics_default_def)
  have over: "overridden demo_env ''features.outbound_enabled''" "\<not> overridden demo_env ''server.listen_address''"
    "\<not> overridden demo_env ''metrics.enabled''"
    by (simp_all add: overridden_def overridden_by_def env_overrides_def demo_env_def)
  have given: "set_in_file demo_libs demo_files (Some ''c.toml'') ''server.listen_address''"
    "\<not> set_in_file demo_libs demo_files (Some ''c.toml'') ''metrics.enabled''"
    by (simp_all add: set_in_file_def demo_libs_def demo_files_def demo_decode file_settings_def in_file_def)
  have defaults: "''features.outbound_enabled'' \<in> set default_keys" "''metrics.enabled'' \<in> set default_keys"
    by (simp_all add: default_keys_def settings_def)
  show ?thesis
    using ld at vals over given defaults by (auto simp: source_of_def setting_value_def settings_def)
qed

section \<open>Checks\<close>

lemma all_checks_ok: "all_checks cs = Inr () \<longleftrightarrow> list_all (\<lambda>c. c = Inr ()) cs"
  by (induction cs rule: all_checks.induct) auto

lemma refuse_ok: "refuse b m = Inr () \<longleftrightarrow> \<not> b"
  by (simp add: refuse_def)

lemma validate_url_ok:
  "validate_https_or_loopback FL v m = Inr () \<longleftrightarrow> (\<exists>u. fl_url FL v = Some u \<and> secure_url FL u)"
  "validate_storage_endpoint FL v = Inr () \<longleftrightarrow> (\<exists>u. fl_url FL v = Some u \<and> secure_url FL u)"
  "validate_zalo_api_base FL v = Inr () \<longleftrightarrow> (\<exists>u. fl_url FL v = Some u \<and> secure_url FL u)"
  by (auto simp: validate_https_or_loopback_def validate_storage_endpoint_def validate_zalo_api_base_def refuse_ok split: option.split)

lemmas check_simps = all_checks_ok refuse_ok validate_url_ok list.pred_inject

text \<open>What a checked profile is: limits an attempt respects, and a credential inside the credential directory.\<close>

definition profile_ok :: "ai_profile \<Rightarrow> bool" where
  "profile_ok p \<longleftrightarrow>
     ap_provider p = ''gemini'' \<and> trim (ap_model p) \<noteq> [] \<and> valid_credential_reference (ap_credential p)
     \<and> ap_task p \<in> {''extraction'', ''insight''}
     \<and> 1 \<le> ap_timeout_seconds p \<and> ap_timeout_seconds p \<le> 120 \<and> 1 \<le> ap_max_attempts p \<and> ap_max_attempts p \<le> 10
     \<and> 1 \<le> ap_max_input_bytes p \<and> ap_max_input_bytes p \<le> 10485760
     \<and> 1 \<le> ap_max_output_tokens p \<and> ap_max_output_tokens p \<le> 8192
     \<and> (ap_thinking_effort p = ''none''
        \<or> ap_thinking_effort p \<in> {''low'', ''medium'', ''high''} \<and> model_supports_thinking (ap_model p))"

lemma thinking_effort_ok:
  "validate_thinking_effort m e = Inr () \<longleftrightarrow>
     e = ''none'' \<or> e \<in> {''low'', ''medium'', ''high''} \<and> model_supports_thinking m"
  by (simp add: validate_thinking_effort_def refuse_ok)

lemma validate_profile_ok:
  "validate_profile names p = Inr () \<Longrightarrow> profile_ok p \<and> ap_name p \<notin> set names"
  unfolding validate_profile_def check_simps thinking_effort_ok profile_ok_def by auto

lemma validate_profiles_ok:
  "validate_profiles names ps = Inr () \<Longrightarrow>
   list_all profile_ok ps \<and> distinct (map ap_name ps) \<and> set names \<inter> set (map ap_name ps) = {}"
  by (induction names ps rule: validate_profiles.induct) (auto simp: check_simps dest!: validate_profile_ok)

lemma validate_default_profile_ok:
  "validate_default_profile c = Inr () \<Longrightarrow>
   \<exists>p. List.find (\<lambda>p. ap_name p = xt_default_profile (cf_extraction c)) (cf_ai_profiles c) = Some p
     \<and> ap_task p = ''extraction'' \<and> ap_provider p = ''gemini''"
  by (auto simp: validate_default_profile_def refuse_ok split: option.splits)

text \<open>What the other parts of the program rely on of a configuration.\<close>

definition config_checked :: "config_libs \<Rightarrow> resolved_config \<Rightarrow> bool" where
  "config_checked FL rc \<longleftrightarrow>
     fl_socket_addr FL (rc_listen_address rc) \<and> fl_pg_url FL (rc_database_url rc)
     \<and> 0 < rc_max_connections rc \<and> 0 < rc_receipt_extraction rc \<and> 0 < rc_outbound_delivery rc
     \<and> 1 \<le> rc_original_receipt_days rc \<and> rc_original_receipt_days rc \<le> 30
     \<and> 1 \<le> rc_zalo_send_timeout_seconds rc \<and> rc_zalo_send_timeout_seconds rc \<le> 60
     \<and> 1 \<le> rc_webhook_max_body_bytes rc \<and> rc_webhook_max_body_bytes rc \<le> 1048576
     \<and> 0 < rc_per_user_daily_receipts rc \<and> 0 < rc_monthly_extraction_pages rc \<and> 0 < rc_zalo_monthly_messages rc
     \<and> 0 < rc_monthly_insight_narratives rc
     \<and> valid_credential_reference (rc_bot_token_credential rc) \<and> valid_credential_reference (rc_webhook_secret_credential rc)
     \<and> Ball (rc_allowed_provider_sender_ids rc) valid_provider_sender_id
     \<and> list_all profile_ok (rc_ai_profiles rc) \<and> distinct (map ap_name (rc_ai_profiles rc))"

definition bases_secure :: "config_libs \<Rightarrow> resolved_config \<Rightarrow> bool" where
  "bases_secure FL rc \<longleftrightarrow>
     (\<exists>z zu g gu. rc_zalo_api_base rc = trim_end_set [''/''] z \<and> fl_url FL z = Some zu \<and> secure_url FL zu
        \<and> rc_gemini_api_base rc = trim_end_set [''/''] g \<and> fl_url FL g = Some gu \<and> secure_url FL gu)"

definition backends_usable :: "config_libs \<Rightarrow> resolved_config \<Rightarrow> bool" where
  "backends_usable FL rc \<longleftrightarrow>
     (rc_storage_backend rc = Filesystem \<longrightarrow> trim (rc_storage_directory rc) \<noteq> [])
     \<and> (rc_storage_backend rc = S3 \<longrightarrow>
          rc_storage_force_path_style rc
          \<and> (\<exists>e u b. rc_storage_endpoint rc = Some e \<and> fl_url FL (trim e) = Some u \<and> secure_url FL u
               \<and> rc_storage_bucket rc = Some b \<and> trim b \<noteq> []))
     \<and> (rc_extraction_backend rc = Gemini \<longrightarrow>
          (\<exists>p. extraction_profile rc (rc_extraction_default_profile rc) = Some p \<and> ap_task p = ''extraction'' \<and> profile_ok p))"

lemma trimmed_or_empty_given: "trimmed_or_empty v \<noteq> [] \<Longrightarrow> \<exists>s. v = Some s \<and> trim s = trimmed_or_empty v"
  by (auto simp: trimmed_or_empty_def split: option.splits)

lemma validate_storage_ok:
  assumes "validate_storage FL st = Inr ()" "storage_backend_parse (st_backend st) = Inr b"
  shows "(b = Filesystem \<longrightarrow> trim (st_directory st) \<noteq> [])
    \<and> (b = S3 \<longrightarrow> st_force_path_style st
         \<and> (\<exists>e u b. st_endpoint st = Some e \<and> fl_url FL (trim e) = Some u \<and> secure_url FL u \<and> st_bucket st = Some b \<and> trim b \<noteq> []))"
  using assms trimmed_or_empty_given [of "st_endpoint st"] trimmed_or_empty_given [of "st_bucket st"]
  by (cases b) (auto simp: validate_storage_def check_simps)

lemma validate_extraction_ok:
  assumes "validate_extraction FL c = Inr ()" "extraction_backend_parse (xt_backend (cf_extraction c)) = Inr b"
  shows "(\<exists>u. fl_url FL (xt_api_base (cf_extraction c)) = Some u \<and> secure_url FL u) \<and> list_all profile_ok (cf_ai_profiles c)
    \<and> distinct (map ap_name (cf_ai_profiles c)) \<and> (b = Gemini \<longrightarrow> validate_default_profile c = Inr ())"
  using assms by (auto simp: validate_extraction_def check_simps split: if_splits dest!: validate_profiles_ok)

lemma find_list_all: "\<lbrakk>List.find P xs = Some x; list_all Q xs\<rbrakk> \<Longrightarrow> Q x"
  by (induction xs) (auto split: if_splits)

lemma checked_resolution:
  assumes "validate_resolved FL c = Inr ()" "fl_pg_url FL u" "storage_backend_parse (st_backend (cf_storage c)) = Inr st"
    "extraction_backend_parse (xt_backend (cf_extraction c)) = Inr xt"
  shows "config_checked FL (resolved_of c at u st xt)" "bases_secure FL (resolved_of c at u st xt)"
    "backends_usable FL (resolved_of c at u st xt)"
proof -
  have V: "validate_storage FL (cf_storage c) = Inr ()" "validate_extraction FL c = Inr ()"
      "validate_zalo_api_base FL (zl_api_base (cf_zalo c)) = Inr ()"
    and B: "fl_socket_addr FL (sv_listen_address (cf_server c))" "dc_max_connections (cf_database c) \<noteq> 0"
      "cc_receipt_extraction (cf_concurrency c) \<noteq> 0" "cc_outbound_delivery (cf_concurrency c) \<noteq> 0"
      "\<not> (rt_original_receipt_days (cf_retention c) < 1 \<or> 30 < rt_original_receipt_days (cf_retention c))"
      "valid_credential_reference (zl_bot_token_credential (cf_zalo c))"
      "valid_credential_reference (zl_webhook_secret_credential (cf_zalo c))"
      "list_all valid_provider_sender_id (ax_allowed_provider_sender_ids (cf_access c))"
      "\<not> (zl_send_timeout_seconds (cf_zalo c) = 0 \<or> 60 < zl_send_timeout_seconds (cf_zalo c))"
      "\<not> (zl_webhook_max_body_bytes (cf_zalo c) = 0 \<or> 1048576 < zl_webhook_max_body_bytes (cf_zalo c))"
      "qt_per_user_daily_receipts (cf_quotas c) \<noteq> 0" "qt_monthly_extraction_pages (cf_quotas c) \<noteq> 0"
      "qt_zalo_monthly_messages (cf_quotas c) \<noteq> 0" "qt_monthly_insight_narratives (cf_quotas c) \<noteq> 0"
    using assms(1) unfolding validate_resolved_def all_checks_ok list.pred_inject refuse_ok by simp_all
  note X = validate_extraction_ok [OF V(2) assms(4)]
  show "config_checked FL (resolved_of c at u st xt)"
    unfolding config_checked_def resolved_of_def using B X assms(2) by (simp add: list_all_iff)
  show "bases_secure FL (resolved_of c at u st xt)"
    unfolding bases_secure_def resolved_of_def using X V(3) validate_url_ok(3) by (simp, metis)
  have "\<exists>p. List.find (\<lambda>p. ap_name p = xt_default_profile (cf_extraction c)) (cf_ai_profiles c) = Some p
      \<and> ap_task p = ''extraction'' \<and> profile_ok p" if "xt = Gemini"
    using validate_default_profile_ok [of c] X that find_list_all by metis
  then show "backends_usable FL (resolved_of c at u st xt)"
    unfolding backends_usable_def resolved_of_def extraction_profile_def using validate_storage_ok [OF V(1) assms(3)] by simp
qed




section \<open>Credentials\<close>

lemma reference_bytes:
  "list_all (\<lambda>w. \<not> is_reference_byte (hd w) \<and> \<not> is_reference_byte (last w)) whitespace_chars"
  "\<not> is_reference_byte (CHR ''/'')" "\<not> is_reference_byte (CHR ''.'')"
  by code_simp+

lemma reference_solid: "is_reference_byte c \<Longrightarrow> solid c"
  using reference_bytes(1) by (auto simp: solid_def list_all_iff)

lemma reference_plain:
  assumes "valid_credential_reference r"
  shows "r \<noteq> []" "length r \<le> 64" "list_all is_reference_byte r" "trim r = r"
proof -
  show r: "r \<noteq> []" "length r \<le> 64" "list_all is_reference_byte r"
    using assms by (simp_all add: valid_credential_reference_def split: if_splits)
  have "solid (hd r) \<and> solid (last r)" using r reference_solid by (simp add: list_all_iff)
  then show "trim r = r" by (rule trim_solid [OF disjI2])
qed

lemma reference_no_dots: "list_all is_reference_byte r \<Longrightarrow> CHR ''/'' \<notin> set r \<and> CHR ''.'' \<notin> set r"
  using reference_bytes by (auto simp: list_all_iff)

lemma path_join_inside:
  assumes "CHR ''/'' \<notin> set r"
  shows "\<exists>sep. sep \<in> {[], ''/''} \<and> (sep = [] \<longrightarrow> dir = [] \<or> ends_with dir ''/'') \<and> path_join dir r = dir @ sep @ r"
proof -
  have "\<not> starts_with r ''/''" using assms by (cases r) (auto simp: starts_with_def)
  then show ?thesis by (cases "dir = [] \<or> ends_with dir ''/''") (auto simp: path_join_def)
qed

text \<open>
A credential is read inside the credential directory only: the name has no slash and no dot, the file read is the
directory, a slash and the name, and the secret is its trimmed, non-empty contents; any other name is refused whatever the file
system holds.
\<close>

theorem credentials_stay_in_directory:
  assumes "read_credential fs rc r = Inr s"
  shows "CHR ''/'' \<notin> set r \<and> CHR ''.'' \<notin> set r \<and> 1 \<le> length r \<and> length r \<le> 64
    \<and> (\<exists>t sep. sep \<in> {[], ''/''} \<and> (sep = [] \<longrightarrow> rc_credentials_directory rc = [] \<or> ends_with (rc_credentials_directory rc) ''/'')
         \<and> fs (rc_credentials_directory rc @ sep @ r) = Some t \<and> s = trim t \<and> s \<noteq> [])"
proof -
  have v: "valid_credential_reference r" and
    rd: "\<exists>t. fs (path_join (rc_credentials_directory rc) r) = Some t \<and> s = trim t \<and> s \<noteq> []"
    using assms by (auto simp: read_credential_def split: if_splits option.splits)
  note p = reference_plain [OF v] reference_no_dots [OF reference_plain(3) [OF v]]
  from path_join_inside [of r "rc_credentials_directory rc"] p rd show ?thesis
    by (simp add: Suc_le_eq) metis
qed

theorem credentials_stay_in_directory_witness:
  "\<exists>t sep. sep \<in> {[], ''/''} \<and> [''/etc/zl-expense/credentials/zalo-bot'' \<mapsto> ''k ''] (''/etc/zl-expense/credentials'' @ sep @ ''zalo-bot'') = Some t
     \<and> ''k'' = trim t"
proof -
  let ?rc = "resolved_of config_default Map.empty [] Filesystem Fake"
  have dir: "rc_credentials_directory ?rc = ''/etc/zl-expense/credentials''"
    by (simp add: resolved_of_def config_default_def credentials_default_def)
  have "trim ''k '' = ''k''" by code_simp
  with dir have "read_credential [''/etc/zl-expense/credentials/zalo-bot'' \<mapsto> ''k ''] ?rc ''zalo-bot'' = Inr ''k''"
    by (simp add: read_credential_def default_references path_join_def starts_with_def ends_with_def)
  from credentials_stay_in_directory [OF this] obtain t sep where "sep \<in> {[], ''/''}"
      "[''/etc/zl-expense/credentials/zalo-bot'' \<mapsto> ''k ''] (rc_credentials_directory ?rc @ sep @ ''zalo-bot'') = Some t" "''k'' = trim t"
    by blast
  then show ?thesis unfolding dir by blast
qed

text \<open>
A storage key name with blanks around it passes the checks, which look at the trimmed name, but the configuration keeps it as
written and reading the key refuses it: such a configuration is reported as valid and the program cannot open its S3 store with it.
\<close>

theorem padded_storage_key_unreadable:
  assumes "load_config FL env fs path = Inr rc" "rc_storage_access_key_credential rc = Some r" "trim r \<noteq> r"
  shows "read_storage_access_key fs' rc = Inl ''required credential is unavailable''
    \<and> (rc_storage_backend rc = S3 \<longrightarrow> valid_credential_reference (trim r))"
proof
  show "read_storage_access_key fs' rc = Inl ''required credential is unavailable''"
    using assms(2,3) reference_plain(4) by (auto simp: read_storage_access_key_def read_credential_def)
  obtain c at u st xt where v: "validate_resolved FL c = Inr ()" and st: "storage_backend_parse (st_backend (cf_storage c)) = Inr st"
    and rc: "rc = resolved_of c at u st xt"
    using load_config_stages [OF assms(1)] by metis
  have vs: "validate_storage FL (cf_storage c) = Inr ()"
    using v unfolding validate_resolved_def all_checks_ok list.pred_inject by simp
  have "st_access_key_credential (cf_storage c) = Some r" "rc_storage_backend rc = st"
    using assms(2) rc by (simp_all add: resolved_of_def)
  then show "rc_storage_backend rc = S3 \<longrightarrow> valid_credential_reference (trim r)"
    using vs st by (auto simp: validate_storage_def check_simps trimmed_or_empty_def)
qed


definition padded_env :: "string \<Rightarrow> string option" where
  "padded_env = [''ZL_EXPENSE_DATABASE_URL'' \<mapsto> ''postgres://x'', ''ZL_EXPENSE_STORAGE_BACKEND'' \<mapsto> ''s3'',
     ''ZL_EXPENSE_STORAGE_ENDPOINT'' \<mapsto> ''https://s3'', ''ZL_EXPENSE_STORAGE_BUCKET'' \<mapsto> ''b'',
     ''ZL_EXPENSE_STORAGE_ACCESS_KEY_CREDENTIAL'' \<mapsto> ''s3-key '', ''ZL_EXPENSE_STORAGE_SECRET_KEY_CREDENTIAL'' \<mapsto> ''s3-secret'']"

definition padded_config :: config where
  "padded_config = config_default\<lparr>cf_storage := storage_default\<lparr>st_backend := ''s3'', st_endpoint := Some ''https://s3'',
     st_bucket := Some ''b'', st_access_key_credential := Some ''s3-key '', st_secret_key_credential := Some ''s3-secret''\<rparr>\<rparr>"

lemma padded_trims: "trim ''s3-key '' = ''s3-key''" "trim ''s3-secret'' = ''s3-secret''" "trim ''https://s3'' = ''https://s3''"
  "trim ''b'' = ''b''" "storage_backend_parse ''s3'' = Inr S3" "valid_credential_reference ''s3-key''"
  "valid_credential_reference ''s3-secret''"
  by code_simp+

lemma padded_overrides: "\<exists>at'. apply_env_overrides padded_env (config_default, at) = Inr (padded_config, at')"
  by (simp add: apply_env_overrides_def env_overrides_def padded_env_def text_var_def opt_var_def padded_config_def config_default_def)

lemma padded_valid: "validate_resolved demo_libs padded_config = Inr ()"
  by (simp add: validate_resolved_def refuse_def validate_url_ok validate_storage_def validate_extraction_def check_simps
      demo_libs_def secure_url_def demo_url_def padded_config_def default_defs trimmed_or_empty_def padded_trims
      trimmed_defaults default_backends default_references)

lemma padded_loads: "\<exists>at. load_config demo_libs padded_env Map.empty None
    = Inr (resolved_of padded_config at ''postgres://x'' S3 Fake)"
proof -
  obtain at' where ov: "apply_env_overrides padded_env (config_default, record_default_sources Map.empty) = Inr (padded_config, at')"
    using padded_overrides by blast
  have "resolve_database_url padded_env Map.empty padded_config = Inr ''postgres://x''"
    by (simp add: resolve_database_url_def padded_env_def)
  then have "finish_config demo_libs padded_env Map.empty (padded_config, at') = Inr (resolved_of padded_config at' ''postgres://x'' S3 Fake)"
    unfolding finish_config_def
    by (simp add: padded_valid) (simp add: demo_libs_def padded_config_def starts_with_def padded_trims default_backends default_defs)
  then show ?thesis by (auto simp: load_config_def read_config_file_def ov)
qed

theorem padded_storage_key_unreadable_witness:
  "\<exists>rc. load_config demo_libs padded_env Map.empty None = Inr rc \<and> rc_storage_backend rc = S3
     \<and> (\<forall>fs. read_storage_access_key fs rc = Inl ''required credential is unavailable'')"
proof -
  obtain at where ld: "load_config demo_libs padded_env Map.empty None
      = Inr (resolved_of padded_config at ''postgres://x'' S3 Fake)" using padded_loads by blast
  have "rc_storage_access_key_credential (resolved_of padded_config at ''postgres://x'' S3 Fake) = Some ''s3-key ''"
    "rc_storage_backend (resolved_of padded_config at ''postgres://x'' S3 Fake) = S3"
    by (simp_all add: resolved_of_def padded_config_def)
  with padded_storage_key_unreadable [OF ld] padded_trims(1) ld show ?thesis by fastforce
qed

end
