(* ===== verification/Object_Stores.thy ===== *)
theory Object_Stores
  imports Receipt_Pipeline Account "HOL-Library.Sublist"
begin

text \<open>
  The backends behind \<^verbatim>\<open>ReceiptObjectStore\<close> (\<^verbatim>\<open>src/receipt/object_store.rs\<close>). The lifecycle is verified over a map from keys to
  bytes, the in-memory store; here are the file system store, \<^verbatim>\<open>src/receipt/fs_store.rs\<close>, down to the calls of \<^verbatim>\<open>std::fs\<close>,
  and the contract every backend has to keep.
\<close>

section \<open>The contract\<close>

datatype ('f, 'd) store_call = PutCall 'f string string | DeleteCall 'd string

fun call_object :: "('f, 'd) store_call \<Rightarrow> string" where
  "call_object (PutCall _ k _) = k"
| "call_object (DeleteCall _ k) = k"

text \<open>A sequence of calls and whether each succeeded.\<close>

fun run_store ::
  "('f \<Rightarrow> string \<Rightarrow> string \<Rightarrow> 's \<Rightarrow> (receipt_error + unit) \<times> 's) \<Rightarrow> ('d \<Rightarrow> string \<Rightarrow> 's \<Rightarrow> (receipt_error + unit) \<times> 's) \<Rightarrow>
   ('f, 'd) store_call list \<Rightarrow> 's \<Rightarrow> bool list \<times> 's" where
  "run_store p d [] s = ([], s)"
| "run_store p d (c # cs) s =
     (let (r, s1) = (case c of PutCall f k b \<Rightarrow> p f k b s | DeleteCall f k \<Rightarrow> d f k s);
          (rs, s2) = run_store p d cs s1
      in ((\<not> isl r) # rs, s2))"

text \<open>The same calls on the in-memory store, failing where they failed.\<close>

fun run_memory :: "(('f, 'd) store_call \<times> bool) list \<Rightarrow> object_store \<Rightarrow> object_store" where
  "run_memory [] m = m"
| "run_memory ((PutCall f k b, succeeded) # cs) m = run_memory cs (snd (object_put (\<not> succeeded) k b m))"
| "run_memory ((DeleteCall f k, succeeded) # cs) m = run_memory cs (snd (object_delete (\<not> succeeded) k m))"

locale object_backend =
  fixes put :: "'f \<Rightarrow> string \<Rightarrow> string \<Rightarrow> 's \<Rightarrow> (receipt_error + unit) \<times> 's"
    and get :: "'g \<Rightarrow> string \<Rightarrow> 's \<Rightarrow> receipt_error + string option"
    and remove :: "'d \<Rightarrow> string \<Rightarrow> 's \<Rightarrow> (receipt_error + unit) \<times> 's"
    and contents :: "'s \<Rightarrow> string \<Rightarrow> string option"
    and ok :: "'s \<Rightarrow> bool"
    and key_ok :: "string \<Rightarrow> bool"
  assumes key_valid: "key_ok k \<Longrightarrow> validate_object_key k = Inr ()"
    and put_ok: "ok s \<Longrightarrow> key_ok k \<Longrightarrow> put f k b s = (r, s') \<Longrightarrow> ok s'"
    and put_contents: "ok s \<Longrightarrow> key_ok k \<Longrightarrow> put f k b s = (r, s') \<Longrightarrow> key_ok j \<Longrightarrow>
      contents s' j = (if \<not> isl r \<and> j = k then Some b else contents s j)"
    and remove_ok: "ok s \<Longrightarrow> key_ok k \<Longrightarrow> remove d k s = (r, s') \<Longrightarrow> ok s'"
    and remove_contents: "ok s \<Longrightarrow> key_ok k \<Longrightarrow> remove d k s = (r, s') \<Longrightarrow> key_ok j \<Longrightarrow>
      contents s' j = (if \<not> isl r \<and> j = k then None else contents s j)"
    and get_contents: "ok s \<Longrightarrow> key_ok k \<Longrightarrow> get g k s = Inr x \<Longrightarrow> x = contents s k"
begin

lemma run_ok: "ok s \<Longrightarrow> \<forall>c \<in> set cs. key_ok (call_object c) \<Longrightarrow> ok (snd (run_store put remove cs s))"
proof (induction cs arbitrary: s)
  case (Cons c cs)
  then show ?case
    by (cases c) (auto simp: Let_def split: prod.split dest: put_ok remove_ok, (metis put_ok remove_ok snd_conv)+)
qed simp

lemma put_simulates:
  assumes "ok s" "key_ok k" "put f k b s = (r, s')" "\<And>j. key_ok j \<Longrightarrow> m j = contents s j" "key_ok j"
  shows "snd (object_put (isl r) k b m) j = contents s' j"
  using assms put_contents [OF assms(1-3,5)] by (simp add: object_put_def key_valid)

lemma remove_simulates:
  assumes "ok s" "key_ok k" "remove d k s = (r, s')" "\<And>j. key_ok j \<Longrightarrow> m j = contents s j" "key_ok j"
  shows "snd (object_delete (isl r) k m) j = contents s' j"
  using assms remove_contents [OF assms(1-3,5)] by (simp add: object_delete_def)

lemma run_simulates:
  "\<lbrakk>ok s; \<forall>c \<in> set cs. key_ok (call_object c); \<And>j. key_ok j \<Longrightarrow> m j = contents s j; key_ok j\<rbrakk> \<Longrightarrow>
   run_memory (zip cs (fst (run_store put remove cs s))) m j = contents (snd (run_store put remove cs s)) j"
proof (induction cs arbitrary: s m)
  case (Cons c cs)
  note prems = Cons.prems
  show ?case
  proof (cases c)
    case (PutCall f k b)
    obtain r s1 where r: "put f k b s = (r, s1)" by (cases "put f k b s")
    have "run_memory (zip cs (fst (run_store put remove cs s1))) (snd (object_put (isl r) k b m)) j
        = contents (snd (run_store put remove cs s1)) j"
      using prems PutCall r by (intro Cons.IH) (auto intro: put_ok put_simulates)
    with PutCall r show ?thesis by (simp add: Let_def split_beta)
  next
    case (DeleteCall d k)
    obtain r s1 where r: "remove d k s = (r, s1)" by (cases "remove d k s")
    have "run_memory (zip cs (fst (run_store put remove cs s1))) (snd (object_delete (isl r) k m)) j
        = contents (snd (run_store put remove cs s1)) j"
      using prems DeleteCall r by (intro Cons.IH) (auto intro: remove_ok remove_simulates)
    with DeleteCall r show ?thesis by (simp add: Let_def split_beta)
  qed
qed simp

lemma read_back:
  assumes "ok s" "\<forall>c \<in> set cs. key_ok (call_object c)" "\<And>j. key_ok j \<Longrightarrow> m j = contents s j" "key_ok k"
    "get g k (snd (run_store put remove cs s)) = Inr x"
  shows "x = run_memory (zip cs (fst (run_store put remove cs s))) m k"
  using get_contents [OF run_ok [OF assms(1,2)] assms(4,5)] run_simulates [OF assms(1-4)] by simp

end

interpretation memory_backend: object_backend object_put object_get object_delete "\<lambda>m. m" "\<lambda>_. True"
  "\<lambda>k. validate_object_key k = Inr ()"
  by unfold_locales (auto simp: object_put_def object_get_def object_delete_def split: if_splits sum.splits dest: sym)

section \<open>A file system\<close>

text \<open>
  Paths are lists of components. Writing a file needs its directory; no call succeeds through a path in which a file takes
  the place of a directory, or on a directory in the place of a file.
\<close>

datatype fs_node = FileNode string | DirNode

type_synonym fs_tree = "string list \<rightharpoonup> fs_node"

definition is_file :: "fs_tree \<Rightarrow> string list \<Rightarrow> bool" where
  "is_file t p \<longleftrightarrow> (case t p of Some (FileNode _) \<Rightarrow> True | _ \<Rightarrow> False)"

definition make_dirs :: "string list list \<Rightarrow> fs_tree \<Rightarrow> fs_tree" where
  "make_dirs ps t p = (if p \<in> set ps then Some DirNode else t p)"

definition blocked :: "fs_tree \<Rightarrow> string list \<Rightarrow> bool" where
  "blocked t p \<longleftrightarrow> list_ex (is_file t) (prefixes p)"

definition create_dir_all :: "string list \<Rightarrow> fs_tree \<Rightarrow> fs_tree option" where
  "create_dir_all p t = (if blocked t p then None else Some (make_dirs (prefixes p) t))"

definition write_file :: "string list \<Rightarrow> string \<Rightarrow> fs_tree \<Rightarrow> fs_tree option" where
  "write_file p b t = (if t (butlast p) = Some DirNode \<and> t p \<noteq> Some DirNode then Some (t(p \<mapsto> FileNode b)) else None)"

definition rename_file :: "string list \<Rightarrow> string list \<Rightarrow> fs_tree \<Rightarrow> fs_tree option" where
  "rename_file src dst t =
     (case t src of
        Some (FileNode b) \<Rightarrow>
          if t (butlast dst) = Some DirNode \<and> t dst \<noteq> Some DirNode then Some ((t(src := None))(dst \<mapsto> FileNode b)) else None
      | _ \<Rightarrow> None)"

section \<open>The file system store\<close>

definition bad_component :: "string \<Rightarrow> bool" where
  "bad_component c \<longleftrightarrow> c = [] \<or> c = ''.'' \<or> c = ''..'' \<or> CHR 0x5C \<in> set c \<or> CHR 0x00 \<in> set c"

definition key_to_relative_path :: "string \<Rightarrow> receipt_error + string list" where
  "key_to_relative_path key =
     (let cs = split_char (CHR ''/'') key in
      if list_ex bad_component cs then Inl (receipt_validation ''object key is invalid'') else Inr cs)"

definition resolve_path :: "string list \<Rightarrow> string \<Rightarrow> receipt_error + string list" where
  "resolve_path root key =
     (case validate_object_key key of
        Inl e \<Rightarrow> Inl e
      | Inr _ \<Rightarrow>
          (case key_to_relative_path key of
             Inl e \<Rightarrow> Inl e
           | Inr rel \<Rightarrow>
               if prefix root (root @ rel) then Inr (root @ rel)
               else Inl (receipt_validation ''object key escapes storage root'')))"

text \<open>
  What a put meets: the name of its temporary file, and which of its calls fail. A failing \<^verbatim>\<open>create_dir_all\<close> may have made some
  of the directories, a failing \<^verbatim>\<open>write\<close> may leave a part of the file.
\<close>

record put_env =
  pt_uuid :: string
  pt_mkdir_fails :: "nat option"
  pt_write_fails :: "string option option"
  pt_rename_fails :: bool
  pt_cleanup_fails :: bool

definition temp_name :: "string \<Rightarrow> string" where
  "temp_name u = ''.'' @ u @ ''.tmp''"

definition finish_put :: "put_env \<Rightarrow> string list \<Rightarrow> string list \<Rightarrow> fs_tree \<Rightarrow> (receipt_error + unit) \<times> fs_tree" where
  "finish_put E temp path t =
     (case (if pt_rename_fails E then None else rename_file temp path t) of
        Some t' \<Rightarrow> (Inr (), t')
      | None \<Rightarrow> (Inl (dependency ''failed to finalize object write''), if pt_cleanup_fails E then t else t(temp := None)))"

definition write_temp :: "put_env \<Rightarrow> string list \<Rightarrow> string \<Rightarrow> fs_tree \<Rightarrow> (receipt_error + unit) \<times> fs_tree" where
  "write_temp E path bytes t =
     (let temp = butlast path @ [temp_name (pt_uuid E)]; failed = Inl (dependency ''failed to write object bytes'') in
      case pt_write_fails E of
        Some None \<Rightarrow> (failed, t)
      | Some (Some part) \<Rightarrow> (failed, case write_file temp part t of None \<Rightarrow> t | Some t' \<Rightarrow> t')
      | None \<Rightarrow> (case write_file temp bytes t of None \<Rightarrow> (failed, t) | Some t' \<Rightarrow> finish_put E temp path t'))"

definition fs_put :: "string list \<Rightarrow> put_env \<Rightarrow> string \<Rightarrow> string \<Rightarrow> fs_tree \<Rightarrow> (receipt_error + unit) \<times> fs_tree" where
  "fs_put root E key bytes t =
     (case resolve_path root key of
        Inl e \<Rightarrow> (Inl e, t)
      | Inr path \<Rightarrow>
          let failed = Inl (dependency ''failed to create object parent directory'') in
          (case pt_mkdir_fails E of
             Some n \<Rightarrow> (failed, if blocked t (butlast path) then t else make_dirs (take n (prefixes (butlast path))) t)
           | None \<Rightarrow>
               (case create_dir_all (butlast path) t of
                  None \<Rightarrow> (failed, t)
                | Some t' \<Rightarrow> write_temp E path bytes t')))"

definition fs_get :: "string list \<Rightarrow> bool \<Rightarrow> string \<Rightarrow> fs_tree \<Rightarrow> receipt_error + string option" where
  "fs_get root fails key t =
     (case resolve_path root key of
        Inl e \<Rightarrow> Inl e
      | Inr path \<Rightarrow>
          if fails \<or> blocked t (butlast path) then Inl (dependency ''failed to read object'')
          else case t path of
            None \<Rightarrow> Inr None
          | Some (FileNode b) \<Rightarrow> Inr (Some b)
          | Some DirNode \<Rightarrow> Inl (dependency ''failed to read object''))"

definition fs_delete :: "string list \<Rightarrow> bool \<Rightarrow> string \<Rightarrow> fs_tree \<Rightarrow> (receipt_error + unit) \<times> fs_tree" where
  "fs_delete root fails key t =
     (case resolve_path root key of
        Inl e \<Rightarrow> (Inl e, t)
      | Inr path \<Rightarrow>
          if fails \<or> blocked t (butlast path) \<or> t path = Some DirNode then (Inl (dependency ''failed to delete object''), t)
          else (Inr (), t(path := None)))"

text \<open>\<^verbatim>\<open>FilesystemObjectStore::new\<close>\<close>

definition fs_new :: "bool \<Rightarrow> string list \<Rightarrow> fs_tree \<Rightarrow> (receipt_error + string list) \<times> fs_tree" where
  "fs_new fails root t =
     (if root = [] then (Inl (receipt_validation ''storage directory must not be empty''), t)
      else case (if fails then None else create_dir_all root t) of
        None \<Rightarrow> (Inl (dependency ''failed to initialize filesystem object store root''), t)
      | Some t' \<Rightarrow> (Inr root, t'))"


section \<open>The file system store keeps the contract\<close>

text \<open>
  The keys of the program: valid ones whose last component has no leading dot, so that no temporary file has the
  name of an object.
\<close>

definition plain_key :: "string \<Rightarrow> bool" where
  "plain_key k \<longleftrightarrow> validate_object_key k = Inr () \<and> \<not> starts_with (last (split_char (CHR ''/'') k)) ''.''"

definition object_path :: "string list \<Rightarrow> string \<Rightarrow> string list" where
  "object_path root k = root @ split_char (CHR ''/'') k"

definition fs_contents :: "string list \<Rightarrow> fs_tree \<Rightarrow> string \<Rightarrow> string option" where
  "fs_contents root t k = (case t (object_path root k) of Some (FileNode b) \<Rightarrow> Some b | _ \<Rightarrow> None)"

lemma object_path_inj: "object_path root j = object_path root k \<longleftrightarrow> j = k"
  using join_split_char [of "CHR ''/''"] unfolding object_path_def by (metis same_append_eq)

lemma object_path_split: "object_path root k = butlast (object_path root k) @ [last (split_char (CHR ''/'') k)]"
  by (metis append_butlast_last_id append_is_Nil_conv last_appendR object_path_def split_char_not_Nil)

lemma resolve_path_Inr: "resolve_path root k = Inr p \<Longrightarrow> p = object_path root k"
  by (auto simp: resolve_path_def key_to_relative_path_def object_path_def Let_def split: sum.splits if_splits)

lemma temp_not_object: "plain_key j \<Longrightarrow> object_path root j \<noteq> d @ [temp_name u]"
proof
  assume j: "plain_key j" and "object_path root j = d @ [temp_name u]"
  then have "last (split_char (CHR ''/'') j) = temp_name u" using object_path_split [of root j] by simp
  with j show False by (simp add: plain_key_def temp_name_def starts_with_def)
qed

lemma make_dirs_contents:
  "\<not> blocked t d \<Longrightarrow> set ps \<subseteq> set (prefixes d) \<Longrightarrow> fs_contents root (make_dirs ps t) j = fs_contents root t j"
  by (auto simp: fs_contents_def make_dirs_def blocked_def is_file_def list_ex_iff split: option.splits fs_node.splits)

lemma write_file_contents:
  "write_file (d @ [temp_name u]) b t = Some t' \<Longrightarrow> plain_key j \<Longrightarrow> fs_contents root t' j = fs_contents root t j"
  using temp_not_object by (auto simp: write_file_def fs_contents_def split: if_splits)

lemma finish_put_contents:
  assumes "finish_put E (d @ [temp_name u]) (object_path root k) t = (r, t')" "t (d @ [temp_name u]) = Some (FileNode b)" "plain_key j"
  shows "fs_contents root t' j = (if \<not> isl r \<and> j = k then Some b else fs_contents root t j)"
  using assms temp_not_object [OF assms(3), of root d u]
  by (auto simp: finish_put_def rename_file_def fs_contents_def object_path_inj split: if_splits)

lemma write_temp_contents:
  assumes "write_temp E (object_path root k) b t = (r, t')" "plain_key j"
  shows "fs_contents root t' j = (if \<not> isl r \<and> j = k then Some b else fs_contents root t j)"
proof -
  let ?temp = "butlast (object_path root k) @ [temp_name (pt_uuid E)]"
  consider (partial) part where "pt_write_fails E = Some part" | (whole) "pt_write_fails E = None" by blast
  then show ?thesis
  proof cases
    case partial
    then show ?thesis
      using assms write_file_contents by (auto simp: write_temp_def Let_def split: option.splits)
  next
    case whole
    show ?thesis
    proof (cases "write_file ?temp b t")
      case None
      with whole assms show ?thesis by (auto simp: write_temp_def Let_def)
    next
      case (Some t1)
      then have "t1 ?temp = Some (FileNode b)" by (auto simp: write_file_def split: if_splits)
      moreover have "finish_put E ?temp (object_path root k) t1 = (r, t')" using whole Some assms by (simp add: write_temp_def Let_def)
      ultimately show ?thesis using finish_put_contents assms(2) write_file_contents [OF Some assms(2)] by metis
    qed
  qed
qed

lemma fs_put_contents:
  assumes "fs_put root E k b t = (r, t')" "plain_key j"
  shows "fs_contents root t' j = (if \<not> isl r \<and> j = k then Some b else fs_contents root t j)"
proof (cases "resolve_path root k")
  case (Inr p)
  note p = resolve_path_Inr [OF Inr]
  show ?thesis
  proof (cases "pt_mkdir_fails E")
    case (Some n)
    then show ?thesis
      using assms Inr make_dirs_contents [OF _ set_take_subset] by (auto simp: fs_put_def Let_def split: if_splits)
  next
    case None
    show ?thesis
    proof (cases "blocked t (butlast p)")
      case False
      then have "write_temp E (object_path root k) b (make_dirs (prefixes (butlast p)) t) = (r, t')"
        using None Inr assms p by (simp add: fs_put_def create_dir_all_def Let_def)
      from write_temp_contents [OF this assms(2)] False show ?thesis by (simp add: make_dirs_contents)
    qed (use None Inr assms in \<open>auto simp: fs_put_def create_dir_all_def Let_def\<close>)
  qed
qed (use assms in \<open>auto simp: fs_put_def\<close>)

lemma fs_delete_contents:
  "fs_delete root d k t = (r, t') \<Longrightarrow> fs_contents root t' j = (if \<not> isl r \<and> j = k then None else fs_contents root t j)"
  by (auto simp: fs_delete_def fs_contents_def object_path_inj split: sum.splits if_splits dest!: resolve_path_Inr)

lemma fs_get_contents: "fs_get root g k t = Inr x \<Longrightarrow> x = fs_contents root t k"
  by (auto simp: fs_get_def fs_contents_def split: sum.splits if_splits option.splits fs_node.splits dest!: resolve_path_Inr)

lemma plain_key_valid: "plain_key k \<Longrightarrow> validate_object_key k = Inr ()"
  by (simp add: plain_key_def)

interpretation fs_backend: object_backend "fs_put root" "fs_get root" "fs_delete root" "fs_contents root" "\<lambda>_. True" plain_key
  for root
  by (unfold_locales; (rule TrueI | erule plain_key_valid | erule (1) fs_put_contents | erule fs_delete_contents | erule fs_get_contents))

text \<open>Only directories are made outside the root, and only above it.\<close>

definition root_frame :: "string list \<Rightarrow> fs_tree \<Rightarrow> fs_tree \<Rightarrow> bool" where
  "root_frame root t t' \<longleftrightarrow> (\<forall>p. \<not> prefix root p \<longrightarrow> t' p = t p \<or> prefix p root \<and> t' p = Some DirNode)"

lemma root_frame_refl: "root_frame root t t"
  by (simp add: root_frame_def)

lemma root_frame_trans: "root_frame root t t1 \<Longrightarrow> root_frame root t1 t2 \<Longrightarrow> root_frame root t t2"
  unfolding root_frame_def by metis

lemma object_path_inside: "prefix root (object_path root k)" "prefix root (butlast (object_path root k) @ [n])"
proof -
  show "prefix root (object_path root k)" by (simp add: object_path_def)
  have "butlast (object_path root k) = root @ butlast (split_char (CHR ''/'') k)" by (simp add: object_path_def butlast_append)
  then show "prefix root (butlast (object_path root k) @ [n])" by simp
qed

lemma make_dirs_frame: "set ps \<subseteq> set (prefixes (butlast (object_path root k))) \<Longrightarrow> root_frame root t (make_dirs ps t)"
proof -
  assume ps: "set ps \<subseteq> set (prefixes (butlast (object_path root k)))"
  have "prefix p root" if "p \<in> set ps" "\<not> prefix root p" for p
  proof -
    have "prefix p (root @ split_char (CHR ''/'') k)"
      using ps that(1) prefixeq_butlast prefix_order.trans by (fastforce simp: object_path_def)
    then show ?thesis using that(2) prefix_same_cases by (metis prefixI)
  qed
  then show ?thesis by (auto simp: root_frame_def make_dirs_def)
qed

lemma upd_frame: "prefix root p \<Longrightarrow> root_frame root t (t(p := v))"
  by (auto simp: root_frame_def)

lemma write_file_frame: "prefix root p \<Longrightarrow> write_file p b t = Some t' \<Longrightarrow> root_frame root t t'"
  by (auto simp: write_file_def upd_frame split: if_splits)

lemma rename_file_frame: "prefix root p \<Longrightarrow> prefix root q \<Longrightarrow> rename_file p q t = Some t' \<Longrightarrow> root_frame root t t'"
  by (auto simp: rename_file_def root_frame_def split: option.splits fs_node.splits if_splits)

lemma finish_put_frame: "prefix root p \<Longrightarrow> prefix root q \<Longrightarrow> finish_put E p q t = (r, t') \<Longrightarrow> root_frame root t t'"
  by (auto simp: finish_put_def root_frame_refl upd_frame rename_file_frame split: if_splits option.splits)

lemma write_temp_frame:
  assumes "write_temp E (object_path root k) b t = (r, t')"
  shows "root_frame root t t'"
proof -
  let ?temp = "butlast (object_path root k) @ [temp_name (pt_uuid E)]"
  note inside = object_path_inside(2) [of root k "temp_name (pt_uuid E)"]
  show ?thesis
  proof (cases "pt_write_fails E")
    case (Some part)
    then show ?thesis
      using assms write_file_frame [OF inside] by (auto simp: write_temp_def Let_def root_frame_refl split: option.splits)
  next
    case None
    show ?thesis
    proof (cases "write_file ?temp b t")
      case (Some t1)
      then have "finish_put E ?temp (object_path root k) t1 = (r, t')" using None assms by (simp add: write_temp_def Let_def)
      from root_frame_trans [OF write_file_frame [OF inside Some] finish_put_frame [OF inside object_path_inside(1) this]]
      show ?thesis .
    qed (use None assms in \<open>auto simp: write_temp_def Let_def root_frame_refl\<close>)
  qed
qed

lemma fs_put_frame:
  assumes "fs_put root E k b t = (r, t')"
  shows "root_frame root t t'"
proof (cases "resolve_path root k")
  case (Inr p)
  note p = resolve_path_Inr [OF Inr]
  have taken: "root_frame root t (make_dirs (take n (prefixes (butlast p))) t)" for n
    unfolding p by (rule make_dirs_frame [of _ _ k]) (rule set_take_subset)
  have made: "root_frame root t (make_dirs (prefixes (butlast p)) t)" unfolding p by (rule make_dirs_frame [of _ _ k]) simp
  show ?thesis
  proof (cases "pt_mkdir_fails E")
    case (Some n)
    then show ?thesis using assms Inr taken [of n] by (auto simp: fs_put_def Let_def root_frame_refl split: if_splits)
  next
    case None
    show ?thesis
    proof (cases "blocked t (butlast p)")
      case False
      then have "write_temp E (object_path root k) b (make_dirs (prefixes (butlast p)) t) = (r, t')"
        using None Inr assms p by (simp add: fs_put_def create_dir_all_def Let_def)
      from root_frame_trans [OF made write_temp_frame [OF this]] show ?thesis .
    qed (use None Inr assms in \<open>auto simp: fs_put_def create_dir_all_def Let_def root_frame_refl\<close>)
  qed
qed (use assms in \<open>auto simp: fs_put_def root_frame_refl\<close>)

lemma fs_delete_frame: "fs_delete root f k t = (r, t') \<Longrightarrow> root_frame root t t'"
  by (auto simp: fs_delete_def root_frame_refl upd_frame object_path_inside split: sum.splits if_splits dest!: resolve_path_Inr)

lemma run_frame: "root_frame root t (snd (run_store (fs_put root) (fs_delete root) cs t))"
proof (induction cs arbitrary: t)
  case (Cons c cs)
  have "root_frame root t (snd (case c of PutCall f k b \<Rightarrow> fs_put root f k b t | DeleteCall f k \<Rightarrow> fs_delete root f k t))"
    by (cases c) (use fs_put_frame fs_delete_frame in \<open>simp, metis prod.collapse\<close>)+
  from root_frame_trans [OF this Cons.IH] show ?case by (simp add: Let_def split_beta)
qed (simp add: root_frame_refl)

text \<open>A put that meets no error of the disk.\<close>

definition put_undisturbed :: "string list \<Rightarrow> put_env \<Rightarrow> string \<Rightarrow> fs_tree \<Rightarrow> bool" where
  "put_undisturbed root E k t \<longleftrightarrow>
     \<not> list_ex bad_component (split_char (CHR ''/'') k)
     \<and> pt_mkdir_fails E = None \<and> pt_write_fails E = None \<and> \<not> pt_rename_fails E
     \<and> \<not> blocked t (butlast (object_path root k)) \<and> t (object_path root k) \<noteq> Some DirNode
     \<and> t (butlast (object_path root k) @ [temp_name (pt_uuid E)]) \<noteq> Some DirNode"

lemma resolve_path_plain:
  "plain_key k \<Longrightarrow> \<not> list_ex bad_component (split_char (CHR ''/'') k) \<Longrightarrow> resolve_path root k = Inr (object_path root k)"
  by (simp add: resolve_path_def plain_key_def key_to_relative_path_def Let_def object_path_def)

lemma not_own_prefix: "d @ [n] \<notin> set (prefixes d)"
  by (simp add: not_le prefix_length_less strict_prefixI')

lemma fs_put_succeeds:
  assumes k: "plain_key k" and u: "put_undisturbed root E k t"
  shows "\<exists>t'. fs_put root E k b t = (Inr (), t') \<and> fs_get root False k t' = Inr (Some b)"
proof -
  let ?d = "butlast (object_path root k)" and ?n = "last (split_char (CHR ''/'') k)"
  let ?temp = "?d @ [temp_name (pt_uuid E)]" and ?t1 = "make_dirs (prefixes ?d) t"
  let ?t2 = "?t1(?temp \<mapsto> FileNode b)" and ?t3 = "(?t1(?temp := None))(object_path root k \<mapsto> FileNode b)"
  note path = object_path_split [of root k]
  have rp: "resolve_path root k = Inr (object_path root k)" using u resolve_path_plain [OF k] by (simp add: put_undisturbed_def)
  have ne: "object_path root k \<noteq> ?temp" by (rule temp_not_object [OF k])
  have d: "?t1 ?d = Some DirNode" by (simp add: make_dirs_def)
  have same: "?t1 (?d @ [x]) = t (?d @ [x])" for x using not_own_prefix by (simp add: make_dirs_def)
  have free: "?t1 ?temp \<noteq> Some DirNode" "?t1 (object_path root k) \<noteq> Some DirNode"
    using u same [of ?n] path by (simp_all add: same put_undisturbed_def)
  have "write_file ?temp b ?t1 = Some ?t2" using d free by (simp add: write_file_def)
  moreover have "rename_file ?temp (object_path root k) ?t2 = Some (?t2(?temp := None, object_path root k \<mapsto> FileNode b))"
    using d free ne by (simp add: rename_file_def)
  ultimately have put: "fs_put root E k b t = (Inr (), ?t3)"
    using u rp by (simp add: fs_put_def write_temp_def finish_put_def create_dir_all_def Let_def put_undisturbed_def)
  have "\<not> blocked ?t3 ?d"
  proof -
    have "?t3 p = Some DirNode" if "p \<in> set (prefixes ?d)" for p
    proof -
      have "p \<noteq> ?temp" "p \<noteq> object_path root k" using that not_own_prefix path by metis+
      with that show ?thesis by (simp add: make_dirs_def)
    qed
    then show ?thesis by (simp add: blocked_def list_ex_iff is_file_def)
  qed
  then have "fs_get root False k ?t3 = Inr (Some b)" using rp by (simp add: fs_get_def)
  with put show ?thesis by blast
qed


text \<open>The keys receipts and exports are stored under are plain.\<close>

lemma split_char_set: "c \<in> set (split_char d s) \<Longrightarrow> set c \<subseteq> set s"
proof (induction s arbitrary: c)
  case (Cons x s)
  obtain f fs where "split_char d s = f # fs" using split_char_not_Nil by (meson list.exhaust)
  with Cons show ?case by (force split: if_splits)
qed simp

lemma receipt_key_plain: "printers_ok L \<Longrightarrow> plain_key (object_key L aid sid (lib_sha256_hex L b))"
proof -
  assume pr: "printers_ok L"
  have "CHR ''.'' \<notin> set (object_key L aid sid (lib_sha256_hex L b))" by (rule object_key_lacks [OF pr]; simp)
  then have "CHR ''.'' \<notin> set (last (split_char (CHR ''/'') (object_key L aid sid (lib_sha256_hex L b))))"
    using split_char_set [OF last_in_set [OF split_char_not_Nil]] by blast
  then have "\<not> starts_with (last (split_char (CHR ''/'') (object_key L aid sid (lib_sha256_hex L b)))) ''.''"
    by (auto simp: starts_with_append)
  then show ?thesis using object_key_valid [OF pr] by (simp add: plain_key_def)
qed

definition quiet_put :: put_env where
  "quiet_put = \<lparr>pt_uuid = ''u'', pt_mkdir_fails = None, pt_write_fails = None, pt_rename_fails = False, pt_cleanup_fails = False\<rparr>"

definition torn_put :: put_env where
  "torn_put = quiet_put\<lparr>pt_write_fails := Some (Some ''par'')\<rparr>"


end
