(* ===== verification/S3_Store.thy ===== *)
theory S3_Store
  imports Object_Stores Config
begin

text \<open>
  The S3 client, \<^verbatim>\<open>src/receipt/s3_store.rs\<close>: the URL of an object, the signature of a request (AWS signature version 4), what
  an answer means; and \<^verbatim>\<open>build_object_store\<close> of \<^verbatim>\<open>src/receipt/mod.rs\<close>, which chooses the backend. The hash functions, the parsing and
  the path of a URL, what a header may hold, the clock and the network are parameters.
\<close>

section \<open>Errors of the command line\<close>

text \<open>\<^verbatim>\<open>AppError\<close>: a class and a redacted message.\<close>

datatype app_err = AppErr error_class string

fun app_err_class :: "app_err \<Rightarrow> error_class" where
  "app_err_class (AppErr c m) = c"

fun app_err_message :: "app_err \<Rightarrow> string" where
  "app_err_message (AppErr c m) = m"

text \<open>What the command line prints of an error: an object with the class and the message.\<close>

fun to_json_line :: "app_err \<Rightarrow> json" where
  "to_json_line (AppErr c m) = JObject [(''error_class'', JString (error_class_as_str c)), (''message'', JString m)]"

definition app_exit_code :: "app_err \<Rightarrow> exit_code" where
  "app_exit_code e = exit_code_of (app_err_class e)"

text \<open>A failure to load the configuration.\<close>

definition config_failure :: "string + 'a \<Rightarrow> app_err + 'a" where
  "config_failure r = map_sum (AppErr EConfig) id r"

section \<open>The client\<close>

record s3_config =
  s3_endpoint :: string
  s3_bucket :: string
  s3_region :: string
  s3_access_key :: string
  s3_secret_key :: string
  s3_force_path_style :: bool

record s3_libs =
  sl_set_path :: "config_url \<Rightarrow> string \<Rightarrow> config_url"
  sl_path :: "config_url \<Rightarrow> string"
  sl_sha256_hex :: "string \<Rightarrow> string"
  sl_hmac_sha256 :: "string \<Rightarrow> string \<Rightarrow> string"
  sl_hex :: "string \<Rightarrow> string"
  sl_header_ok :: "string \<Rightarrow> bool"
  sl_header_text :: "string \<Rightarrow> string option"
  sl_amz_date :: "instant \<Rightarrow> string"

record s3_store =
  ss_endpoint :: config_url
  ss_bucket :: string
  ss_s3_region :: string
  ss_access_key :: string
  ss_secret_key :: string
  ss_path_style :: bool

text \<open>\<open>client_ok\<close>: whether the HTTP client could be built.\<close>

definition s3_new :: "config_libs \<Rightarrow> bool \<Rightarrow> s3_config \<Rightarrow> receipt_error + s3_store" where
  "s3_new FL client_ok c =
     (case fl_url FL (trim_end_set [''/''] (s3_endpoint c)) of
        None \<Rightarrow> Inl (receipt_validation ''storage endpoint must be a valid URL'')
      | Some u \<Rightarrow>
          if u_host u = None then Inl (receipt_validation ''storage endpoint must include a host'')
          else if trim (s3_bucket c) = [] then Inl (receipt_validation ''storage bucket must not be empty'')
          else if s3_access_key c = [] \<or> s3_secret_key c = []
          then Inl (receipt_validation ''storage credentials must not be empty'')
          else if \<not> client_ok then Inl (dependency ''failed to build object store HTTP client'')
          else Inr \<lparr>ss_endpoint = u, ss_bucket = s3_bucket c, ss_s3_region = s3_region c, ss_access_key = s3_access_key c,
                    ss_secret_key = s3_secret_key c, ss_path_style = s3_force_path_style c\<rparr>)"

definition object_url_path :: "s3_store \<Rightarrow> string \<Rightarrow> string" where
  "object_url_path st key = (if ss_path_style st then ''/'' @ ss_bucket st @ ''/'' @ key else ''/'' @ key)"

definition object_url :: "s3_libs \<Rightarrow> s3_store \<Rightarrow> string \<Rightarrow> receipt_error + config_url" where
  "object_url SL st key =
     (case validate_object_key key of
        Inl e \<Rightarrow> Inl e
      | Inr _ \<Rightarrow> Inr (sl_set_path SL (ss_endpoint st) (object_url_path st key)))"

section \<open>Signing\<close>

definition signing_key :: "s3_libs \<Rightarrow> string \<Rightarrow> string \<Rightarrow> string \<Rightarrow> string \<Rightarrow> string" where
  "signing_key SL secret_key date_stamp region service =
     (let k_date = sl_hmac_sha256 SL (''AWS4'' @ secret_key) date_stamp;
          k_region = sl_hmac_sha256 SL k_date region;
          k_service = sl_hmac_sha256 SL k_region service
      in sl_hmac_sha256 SL k_service ''aws4_request'')"

text \<open>\<^verbatim>\<open>{:02X}\<close>\<close>

definition hex_upper :: "nat \<Rightarrow> char" where
  "hex_upper n = ''0123456789ABCDEF'' ! n"

definition unreserved :: "char \<Rightarrow> bool" where
  "unreserved c \<longleftrightarrow>
     is_ascii_uppercase c \<or> (97 \<le> byte c \<and> byte c \<le> 122) \<or> is_ascii_digit c \<or> c \<in> set ''-._~''"

definition percent_encode_path_segment :: "string \<Rightarrow> string" where
  "percent_encode_path_segment s =
     concat (map (\<lambda>c. if unreserved c then [c] else [CHR ''%'', hex_upper (byte c div 16), hex_upper (byte c mod 16)]) s)"

definition canonical_uri :: "string \<Rightarrow> string" where
  "canonical_uri path =
     (if path = [] then ''/''
      else join_with ''/'' (map (\<lambda>s. if s = [] then [] else percent_encode_path_segment s) (split_char (CHR ''/'') path)))"

definition canonical_query :: "config_url \<Rightarrow> string" where
  "canonical_query u = (case u_query u of None \<Rightarrow> [] | Some q \<Rightarrow> q)"

text \<open>The order of \<^verbatim>\<open>str\<close>: byte by byte.\<close>

fun bytes_le :: "string \<Rightarrow> string \<Rightarrow> bool" where
  "bytes_le [] _ = True"
| "bytes_le (_ # _) [] = False"
| "bytes_le (a # s) (b # t) = (byte a < byte b \<or> a = b \<and> bytes_le s t)"

definition header_pairs :: "s3_libs \<Rightarrow> (string \<times> string) list \<Rightarrow> string \<Rightarrow> (string \<times> string) list" where
  "header_pairs SL headers host =
     sort_by (\<lambda>a b. bytes_le (fst a) (fst b))
       ((''host'', host) #
        map (\<lambda>(n, v). (to_ascii_lowercase n, trim (case sl_header_text SL v of None \<Rightarrow> [] | Some t \<Rightarrow> t)))
          (filter (\<lambda>(n, _). to_ascii_lowercase n \<noteq> ''authorization'') headers))"

definition canonical_headers :: "s3_libs \<Rightarrow> (string \<times> string) list \<Rightarrow> string \<Rightarrow> string \<times> string" where
  "canonical_headers SL headers host =
     (let pairs = header_pairs SL headers host in
      (join_with [CHR 0x0A] (map (\<lambda>(k, v). k @ '':'' @ v) pairs) @ [CHR 0x0A], join_with '';'' (map fst pairs)))"

definition unsigned_payload :: string where
  "unsigned_payload = ''UNSIGNED-PAYLOAD''"

record sign_context =
  sg_method :: string
  sg_url :: config_url
  sg_headers :: "(string \<times> string) list"
  sg_payload_hash :: string
  sg_access_key :: string
  sg_secret_key :: string
  sg_date_stamp :: string
  sg_amz_date :: string
  sg_region :: string

definition host_header :: "config_url \<Rightarrow> string" where
  "host_header u =
     (case u_host u of
        None \<Rightarrow> []
      | Some h \<Rightarrow> (case u_port u of None \<Rightarrow> h | Some p \<Rightarrow> h @ '':'' @ show_nat p))"

definition canonical_request :: "s3_libs \<Rightarrow> sign_context \<Rightarrow> string" where
  "canonical_request SL x =
     (let (canonical, signed) = canonical_headers SL (sg_headers x) (host_header (sg_url x)) in
      join_with [CHR 0x0A]
        [sg_method x, canonical_uri (sl_path SL (sg_url x)), canonical_query (sg_url x), canonical, signed, sg_payload_hash x])"

definition sign_request :: "s3_libs \<Rightarrow> sign_context \<Rightarrow> string" where
  "sign_request SL x =
     (let scope = sg_date_stamp x @ ''/'' @ sg_region x @ ''/s3/aws4_request'';
          string_to_sign = join_with [CHR 0x0A]
            [''AWS4-HMAC-SHA256'', sg_amz_date x, scope, sl_sha256_hex SL (canonical_request SL x)];
          key = signing_key SL (sg_secret_key x) (sg_date_stamp x) (sg_region x) ''s3'';
          signature = sl_hex SL (sl_hmac_sha256 SL key string_to_sign)
      in ''AWS4-HMAC-SHA256 Credential='' @ sg_access_key x @ ''/'' @ scope @ '', SignedHeaders=''
         @ snd (canonical_headers SL (sg_headers x) (host_header (sg_url x))) @ '', Signature='' @ signature)"

section \<open>Requests and answers\<close>

datatype s3_method = MPut | MGet | MDelete

fun s3_method_text :: "s3_method \<Rightarrow> string" where
  "s3_method_text MPut = ''PUT''"
| "s3_method_text MGet = ''GET''"
| "s3_method_text MDelete = ''DELETE''"

record s3_request =
  sq_method :: s3_method
  sq_url :: config_url
  sq_headers :: "(string \<times> string) list"
  sq_body :: "string option"

text \<open>What the network answers: no answer in time, no answer, or a status with a body that may not be readable.\<close>

datatype s3_answer = S3TimedOut | S3Failed | S3Answer nat "string option"

definition s3_timeout :: receipt_error where
  "s3_timeout = ReceiptError ETimeout ''object store request timed out''"

definition s3_result :: "s3_method \<Rightarrow> s3_answer \<Rightarrow> receipt_error + string option" where
  "s3_result me a =
     (case a of
        S3TimedOut \<Rightarrow> Inl s3_timeout
      | S3Failed \<Rightarrow> Inl (dependency ''object store request failed'')
      | S3Answer status body \<Rightarrow>
          if status = 403 then Inl (ReceiptError EForbidden ''object store access denied'')
          else if status = 404 then
            (if me = MPut then Inl (dependency ''object store object missing'') else Inr None)
          else if 500 \<le> status \<and> status < 600 then Inl (dependency ''object store upstream error'')
          else if \<not> (200 \<le> status \<and> status < 300) then Inl (dependency ''object store request rejected'')
          else if status = 204 \<or> me = MDelete then Inr None
          else case body of
            None \<Rightarrow> Inl (dependency ''failed to read object store response'')
          | Some b \<Rightarrow> Inr (Some b))"

text \<open>\<^verbatim>\<open>execute_async\<close> up to the request; the date stamp is the first eight bytes of the date.\<close>

definition s3_headers :: "s3_libs \<Rightarrow> instant \<Rightarrow> (string \<times> string) list" where
  "s3_headers SL now = [(''x-amz-date'', sl_amz_date SL now), (''x-amz-content-sha256'', unsigned_payload)]"

definition s3_sign_context :: "s3_libs \<Rightarrow> s3_store \<Rightarrow> instant \<Rightarrow> s3_method \<Rightarrow> config_url \<Rightarrow> sign_context" where
  "s3_sign_context SL st now me u =
     \<lparr>sg_method = s3_method_text me, sg_url = u, sg_headers = s3_headers SL now, sg_payload_hash = unsigned_payload,
      sg_access_key = ss_access_key st, sg_secret_key = ss_secret_key st, sg_date_stamp = take 8 (sl_amz_date SL now),
      sg_amz_date = sl_amz_date SL now, sg_region = ss_s3_region st\<rparr>"

definition s3_request_of ::
  "s3_libs \<Rightarrow> s3_store \<Rightarrow> instant \<Rightarrow> s3_method \<Rightarrow> config_url \<Rightarrow> string option \<Rightarrow> receipt_error + s3_request" where
  "s3_request_of SL st now me u body =
     (if \<not> sl_header_ok SL (sl_amz_date SL now) then Inl (dependency ''invalid request timestamp'')
      else
        let authorization = sign_request SL (s3_sign_context SL st now me u) in
        if \<not> sl_header_ok SL authorization then Inl (dependency ''invalid authorization header'')
        else Inr \<lparr>sq_method = me, sq_url = u, sq_headers = s3_headers SL now @ [(''authorization'', authorization)], sq_body = body\<rparr>)"

text \<open>The network is a function of the request and the state of the other side.\<close>

definition s3_execute ::
  "s3_libs \<Rightarrow> s3_store \<Rightarrow> instant \<Rightarrow> (s3_request \<Rightarrow> 's \<Rightarrow> s3_answer \<times> 's) \<Rightarrow> s3_method \<Rightarrow> string \<Rightarrow> string option \<Rightarrow> 's \<Rightarrow>
   (receipt_error + string option) \<times> 's" where
  "s3_execute SL st now net me key body s =
     (case object_url SL st key of
        Inl e \<Rightarrow> (Inl e, s)
      | Inr u \<Rightarrow>
          (case s3_request_of SL st now me u body of
             Inl e \<Rightarrow> (Inl e, s)
           | Inr q \<Rightarrow> (case net q s of (a, s') \<Rightarrow> (s3_result me a, s'))))"

definition s3_put where
  "s3_put SL st now net key bytes s =
     (case s3_execute SL st now net MPut key (Some bytes) s of (r, s') \<Rightarrow> (map_sum id (\<lambda>_. ()) r, s'))"

definition s3_get where
  "s3_get SL st now net key s = s3_execute SL st now net MGet key None s"

definition s3_delete where
  "s3_delete SL st now net key s =
     (case s3_execute SL st now net MDelete key None s of (r, s') \<Rightarrow> (map_sum id (\<lambda>_. ()) r, s'))"

section \<open>Choosing the backend\<close>

datatype built_store = BuiltMemory | BuiltFilesystem string | BuiltS3 s3_store

text \<open>
  \<open>root_ready\<close> is what \<open>fs_new\<close> answers for the directory: whether it could be made.
\<close>

definition build_object_store :: "config_libs \<Rightarrow> (string \<Rightarrow> bool) \<Rightarrow> bool \<Rightarrow> files \<Rightarrow> resolved_config \<Rightarrow> string + built_store" where
  "build_object_store FL root_ready client_ok fs rc =
     (case rc_storage_backend rc of
        Memory \<Rightarrow> Inr BuiltMemory
      | Filesystem \<Rightarrow>
          if rc_storage_directory rc = [] then Inl ''filesystem object store: storage directory must not be empty''
          else if \<not> root_ready (rc_storage_directory rc)
          then Inl ''filesystem object store: failed to initialize filesystem object store root''
          else Inr (BuiltFilesystem (rc_storage_directory rc))
      | S3 \<Rightarrow>
          (case (rc_storage_endpoint rc, rc_storage_bucket rc) of
             (None, _) \<Rightarrow> Inl ''storage.endpoint is required for s3 backend''
           | (_, None) \<Rightarrow> Inl ''storage.bucket is required for s3 backend''
           | (Some endpoint, Some bucket) \<Rightarrow>
               (case read_storage_access_key fs rc of
                  Inl e \<Rightarrow> Inl e
                | Inr ak \<Rightarrow>
                    (case read_storage_secret_key fs rc of
                       Inl e \<Rightarrow> Inl e
                     | Inr sk \<Rightarrow>
                         (case s3_new FL client_ok
                              \<lparr>s3_endpoint = endpoint, s3_bucket = bucket, s3_region = rc_storage_region rc, s3_access_key = ak,
                               s3_secret_key = sk, s3_force_path_style = rc_storage_force_path_style rc\<rparr> of
                            Inl (ReceiptError c m) \<Rightarrow> Inl (''s3 object store: '' @ m)
                          | Inr st \<Rightarrow> Inr (BuiltS3 st))))))"

section \<open>Facts\<close>

text \<open>A path without characters that need escaping is its own canonical form, as for every key of a receipt or an export.\<close>

lemma percent_encode_plain: "list_all unreserved s \<Longrightarrow> percent_encode_path_segment s = s"
  by (induction s) (auto simp: percent_encode_path_segment_def)

lemma canonical_uri_plain:
  assumes "path \<noteq> []" "list_all (list_all unreserved) (split_char (CHR ''/'') path)"
  shows "canonical_uri path = path"
proof -
  have "map (\<lambda>s. if s = [] then [] else percent_encode_path_segment s) (split_char (CHR ''/'') path) = split_char (CHR ''/'') path"
    using assms(2) by (auto simp: list_all_iff percent_encode_plain intro!: map_idI)
  then show ?thesis using assms(1) join_split_char [of "CHR ''/''" path] by (simp add: canonical_uri_def)
qed

lemma signature_plain_path: "canonical_uri ''/receipts/a-1/b_2.jpg'' = ''/receipts/a-1/b_2.jpg''"
  by (rule canonical_uri_plain) code_simp+

text \<open>An already escaped path is escaped again, so that the canonical form is not the one the server computes.\<close>

lemma canonical_uri_escapes_twice: "canonical_uri ''/b/a%20c'' = ''/b/a%2520c''"
  by code_simp

text \<open>Only an answer with a success status, or none for a missing object, is a success; a put is never one on a missing object.\<close>

lemma s3_result_ok:
  "s3_result me a = Inr r \<Longrightarrow>
   \<exists>status body. a = S3Answer status body \<and> (200 \<le> status \<and> status < 300 \<or> status = 404 \<and> me \<noteq> MPut \<and> r = None)
     \<and> (me = MGet \<longrightarrow> r \<noteq> None \<longrightarrow> r = body)"
  by (auto simp: s3_result_def split: s3_answer.splits if_splits option.splits)

lemma s3_put_ok:
  assumes "s3_put SL st now net key bytes s = (Inr (), s')"
  shows "\<exists>u q status body. object_url SL st key = Inr u \<and> s3_request_of SL st now MPut u (Some bytes) = Inr q
    \<and> net q s = (S3Answer status body, s') \<and> 200 \<le> status \<and> status < 300 \<and> sq_body q = Some bytes"
proof -
  obtain u q a where uq: "object_url SL st key = Inr u" "s3_request_of SL st now MPut u (Some bytes) = Inr q" "net q s = (a, s')"
    and r: "\<exists>r. s3_result MPut a = Inr r"
    using assms by (auto simp: s3_put_def s3_execute_def map_sum_def split: sum.splits prod.splits)
  from r obtain status body where "a = S3Answer status body" "200 \<le> status" "status < 300" using s3_result_ok by blast
  moreover have "sq_body q = Some bytes" using uq(2) by (auto simp: s3_request_of_def Let_def split: if_splits)
  ultimately show ?thesis using uq by blast
qed

end
