(* ===== verification/Update.thy ===== *)
theory Update
  imports S3_Store Chat_Text
begin

text \<open>
  Self-update, \<^verbatim>\<open>src/update/mod.rs\<close>: signed metadata, the checks before an update, replacing the installed binary, and the
  rollback that the schema of the database permits. The file system is a map from paths to contents; every call can fail, a
  copy or a write also after a part of the file. Signatures, hashes, JSON text and hex are parameters.
\<close>

section \<open>Data\<close>

record update_metadata =
  um_package_version :: string
  um_schema_version :: int
  um_min_runtime_schema :: int
  um_max_runtime_schema :: int
  um_sha256 :: string
  um_arch :: string

record update_paths =
  up_artifact :: string
  up_metadata :: string
  up_signature :: string
  up_public_keys :: "string list"
  up_keys_directory :: string
  up_install :: string
  up_state :: string

record apply_options =
  ao_yes :: bool
  ao_skip_backup :: bool
  ao_skip_migrate :: bool
  ao_skip_health :: bool
  ao_health_url :: "string option"

record 'k update_libs =
  ul_json :: "string \<Rightarrow> json option"
  ul_print :: "json \<Rightarrow> string"
  ul_utf8 :: "string \<Rightarrow> bool"
  ul_hex_decode :: "string \<Rightarrow> string option"
  ul_sha256_hex :: "string \<Rightarrow> string"
  ul_key :: "string \<Rightarrow> 'k option"
  ul_verify :: "'k \<Rightarrow> string \<Rightarrow> string \<Rightarrow> bool"

text \<open>
  \<^verbatim>\<open>serde\<close> reads the metadata from an object, or from an array of the fields in order; \<^verbatim>\<open>write_json\<close> prints the object.
\<close>

fun decode_metadata_fields ::
  "json option \<Rightarrow> json option \<Rightarrow> json option \<Rightarrow> json option \<Rightarrow> json option \<Rightarrow> json option \<Rightarrow> update_metadata option" where
  "decode_metadata_fields v s a b h r = do {
     v' \<leftarrow> Option.bind v json_as_str; s' \<leftarrow> Option.bind s json_as_i64; a' \<leftarrow> Option.bind a json_as_i64;
     b' \<leftarrow> Option.bind b json_as_i64; h' \<leftarrow> Option.bind h json_as_str; r' \<leftarrow> Option.bind r json_as_str;
     Some \<lparr>um_package_version = v', um_schema_version = s', um_min_runtime_schema = a', um_max_runtime_schema = b',
           um_sha256 = h', um_arch = r'\<rparr> }"

definition decode_update_metadata :: "json \<Rightarrow> update_metadata option" where
  "decode_update_metadata j =
     (case j of
        JArray [v, s, a, b, h, r] \<Rightarrow> decode_metadata_fields (Some v) (Some s) (Some a) (Some b) (Some h) (Some r)
      | JObject _ \<Rightarrow>
          decode_metadata_fields (json_get j ''package_version'') (json_get j ''schema_version'')
            (json_get j ''min_runtime_schema'') (json_get j ''max_runtime_schema'') (json_get j ''sha256'') (json_get j ''arch'')
      | _ \<Rightarrow> None)"

definition encode_update_metadata :: "update_metadata \<Rightarrow> json" where
  "encode_update_metadata m =
     JObject [(''package_version'', JString (um_package_version m)), (''schema_version'', JInt (um_schema_version m)),
       (''min_runtime_schema'', JInt (um_min_runtime_schema m)), (''max_runtime_schema'', JInt (um_max_runtime_schema m)),
       (''sha256'', JString (um_sha256 m)), (''arch'', JString (um_arch m))]"

definition preflight_error :: "string \<Rightarrow> app_err" where
  "preflight_error m = AppErr EPreflightFailed m"

definition rollback_permitted :: "int \<Rightarrow> update_metadata \<Rightarrow> bool" where
  "rollback_permitted database_schema previous \<longleftrightarrow>
     um_min_runtime_schema previous \<le> database_schema \<and> database_schema \<le> um_max_runtime_schema previous"

section \<open>Verification\<close>

definition decode_hex :: "'k update_libs \<Rightarrow> string \<Rightarrow> app_err + string" where
  "decode_hex L t =
     (case ul_hex_decode L (trim t) of None \<Rightarrow> Inl (preflight_error ''value is not valid hex'') | Some b \<Rightarrow> Inr b)"

definition parse_public_key :: "'k update_libs \<Rightarrow> string \<Rightarrow> app_err + 'k" where
  "parse_public_key L t =
     (case decode_hex L t of
        Inl e \<Rightarrow> Inl e
      | Inr b \<Rightarrow>
          if length b \<noteq> 32 then Inl (preflight_error ''update public key must be 32 bytes'')
          else case ul_key L b of None \<Rightarrow> Inl (preflight_error ''update public key is invalid'') | Some k \<Rightarrow> Inr k)"

definition parse_signature :: "'k update_libs \<Rightarrow> string \<Rightarrow> app_err + string" where
  "parse_signature L bytes =
     (if \<not> ul_utf8 L bytes then Inl (preflight_error ''update signature must be hex text'')
      else case decode_hex L (trim bytes) of
        Inl e \<Rightarrow> Inl e
      | Inr b \<Rightarrow> if length b \<noteq> 64 then Inl (preflight_error ''update signature must be 64 bytes'') else Inr b)"

text \<open>The directory of keys: absent, unreadable, or with these files.\<close>

datatype keys_dir = KeysAbsent | KeysUnreadable | KeysListed "string list"

fun read_keys :: "'k update_libs \<Rightarrow> files \<Rightarrow> string list \<Rightarrow> app_err + 'k list" where
  "read_keys L fs [] = Inr []"
| "read_keys L fs (p # ps) =
     (case fs p of
        None \<Rightarrow> Inl (preflight_error ''update public key file is unreadable'')
      | Some t \<Rightarrow>
          if \<not> ul_utf8 L t then Inl (preflight_error ''update public key file is unreadable'')
          else case parse_public_key L (trim t) of
            Inl e \<Rightarrow> Inl e
          | Inr k \<Rightarrow> (case read_keys L fs ps of Inl e \<Rightarrow> Inl e | Inr ks \<Rightarrow> Inr (k # ks)))"

definition load_public_keys :: "'k update_libs \<Rightarrow> keys_dir \<Rightarrow> update_paths \<Rightarrow> files \<Rightarrow> app_err + 'k list" where
  "load_public_keys L D paths fs =
     (case D of
        KeysUnreadable \<Rightarrow> Inl (preflight_error ''update public keys directory is unreadable'')
      | KeysAbsent \<Rightarrow> read_keys L fs (up_public_keys paths)
      | KeysListed es \<Rightarrow> read_keys L fs (up_public_keys paths @ sort_by bytes_le es))"

definition range_invalid :: "update_metadata \<Rightarrow> bool" where
  "range_invalid m \<longleftrightarrow> um_max_runtime_schema m < um_min_runtime_schema m \<or> um_schema_version m < um_min_runtime_schema m"

definition check_metadata :: "'k update_libs \<Rightarrow> string \<Rightarrow> string \<Rightarrow> app_err + update_metadata" where
  "check_metadata L metadata_bytes artifact_bytes =
     (case Option.bind (ul_json L metadata_bytes) decode_update_metadata of
        None \<Rightarrow> Inl (preflight_error ''update metadata is not valid JSON'')
      | Some m \<Rightarrow>
          if to_ascii_lowercase (ul_sha256_hex L artifact_bytes) \<noteq> to_ascii_lowercase (trim (um_sha256 m))
          then Inl (preflight_error ''artifact checksum does not match metadata'')
          else if range_invalid m then Inl (preflight_error ''update metadata schema compatibility range is invalid'')
          else Inr m)"

definition verify_artifact :: "'k update_libs \<Rightarrow> keys_dir \<Rightarrow> update_paths \<Rightarrow> files \<Rightarrow> app_err + update_metadata" where
  "verify_artifact L D paths fs =
     (case fs (up_metadata paths) of
        None \<Rightarrow> Inl (preflight_error ''update metadata file is unreadable'')
      | Some mb \<Rightarrow>
          (case fs (up_signature paths) of
             None \<Rightarrow> Inl (preflight_error ''update signature file is unreadable'')
           | Some sb \<Rightarrow>
               (case fs (up_artifact paths) of
                  None \<Rightarrow> Inl (preflight_error ''update artifact is unreadable'')
                | Some ab \<Rightarrow>
                    (case load_public_keys L D paths fs of
                       Inl e \<Rightarrow> Inl e
                     | Inr keys \<Rightarrow>
                         if keys = [] then Inl (preflight_error ''no update public keys configured'')
                         else case parse_signature L sb of
                           Inl e \<Rightarrow> Inl e
                         | Inr sig \<Rightarrow>
                             if \<not> list_ex (\<lambda>k. ul_verify L k mb sig) keys
                             then Inl (preflight_error ''update signature verification failed'')
                             else check_metadata L mb ab))))"

definition check_schema_preflight :: "int \<Rightarrow> update_metadata \<Rightarrow> app_err + unit" where
  "check_schema_preflight db_schema m =
     (if db_schema < um_min_runtime_schema m
      then Inl (preflight_error (''database schema '' @ show_int db_schema @ '' is older than binary min '' @ show_int (um_min_runtime_schema m)))
      else if um_schema_version m < db_schema
      then Inl (preflight_error (''database schema '' @ show_int db_schema @ '' is newer than this package ('' @ show_int (um_schema_version m) @ '')''))
      else Inr ())"

text \<open>The count of applied migrations, or that the query failed.\<close>

definition current_database_schema :: "int option \<Rightarrow> app_err + int" where
  "current_database_schema q =
     (case q of None \<Rightarrow> Inl (AppErr EDependency ''failed to read applied migration count'') | Some n \<Rightarrow> Inr n)"

definition run_preflight :: "'k update_libs \<Rightarrow> keys_dir \<Rightarrow> int option \<Rightarrow> update_paths \<Rightarrow> files \<Rightarrow> app_err + update_metadata" where
  "run_preflight L D q paths fs =
     (case verify_artifact L D paths fs of
        Inl e \<Rightarrow> Inl e
      | Inr m \<Rightarrow>
          (case current_database_schema q of
             Inl e \<Rightarrow> Inl e
           | Inr n \<Rightarrow> (case check_schema_preflight n m of Inl e \<Rightarrow> Inl e | Inr _ \<Rightarrow> Inr m)))"

section \<open>Files\<close>

text \<open>A call that works, or one that fails after it has written a part.\<close>

datatype io_fault = IoOk | IoFails "string option"

definition torn :: "string \<Rightarrow> string option \<Rightarrow> files \<Rightarrow> files" where
  "torn dst part fs = (case part of None \<Rightarrow> fs | Some b \<Rightarrow> fs(dst \<mapsto> b))"

definition write_bytes :: "io_fault \<Rightarrow> string \<Rightarrow> string \<Rightarrow> files \<Rightarrow> bool \<times> files" where
  "write_bytes f dst b fs = (case f of IoOk \<Rightarrow> (True, fs(dst \<mapsto> b)) | IoFails part \<Rightarrow> (False, torn dst part fs))"

definition copy_file :: "io_fault \<Rightarrow> string \<Rightarrow> string \<Rightarrow> files \<Rightarrow> bool \<times> files" where
  "copy_file f src dst fs = (case fs src of None \<Rightarrow> (False, fs) | Some b \<Rightarrow> write_bytes f dst b fs)"

text \<open>\<^verbatim>\<open>Path::with_extension\<close>, for a path that ends in a file name.\<close>

definition with_extension :: "string \<Rightarrow> string \<Rightarrow> string" where
  "with_extension p ext =
     (let name = rev (takeWhile (\<lambda>c. c \<noteq> CHR ''/'') (rev p)); dir = take (length p - length name) p;
          back = takeWhile (\<lambda>c. c \<noteq> CHR ''.'') (rev name);
          stem = (if length back + 1 < length name then take (length name - length back - 1) name else name)
      in dir @ stem @ ''.'' @ ext)"

record replace_env =
  rp_parent_ok :: bool
  rp_copy :: io_fault
  rp_mode_ok :: bool
  rp_rename_ok :: bool

definition staging :: "string \<Rightarrow> string" where
  "staging dest = with_extension dest ''tmp-update''"

definition atomic_replace :: "replace_env \<Rightarrow> string \<Rightarrow> string \<Rightarrow> files \<Rightarrow> (app_err + unit) \<times> files" where
  "atomic_replace R src dest fs =
     (if \<not> rp_parent_ok R then (Inl (AppErr EDependency ''failed to create install directory''), fs)
      else case copy_file (rp_copy R) src (staging dest) fs of
        (False, fs1) \<Rightarrow> (Inl (AppErr EDependency ''failed to stage update binary''), fs1)
      | (True, fs1) \<Rightarrow>
          if \<not> rp_mode_ok R then (Inl (AppErr EPermission ''failed to set update binary mode''), fs1)
          else if \<not> rp_rename_ok R then (Inl (AppErr EDependency ''failed to replace installed binary''), fs1)
          else (Inr (), (fs1(staging dest := None))(dest := fs1 (staging dest))))"

definition write_json :: "'k update_libs \<Rightarrow> io_fault \<Rightarrow> string \<Rightarrow> update_metadata \<Rightarrow> files \<Rightarrow> (app_err + unit) \<times> files" where
  "write_json L f path m fs =
     (case write_bytes f path (ul_print L (encode_update_metadata m)) fs of
        (True, fs') \<Rightarrow> (Inr (), fs')
      | (False, fs') \<Rightarrow> (Inl (AppErr EDependency ''failed to write update metadata''), fs'))"

definition previous_binary :: "update_paths \<Rightarrow> string" where
  "previous_binary paths = path_join (up_state paths) ''previous-binary''"

definition previous_metadata :: "update_paths \<Rightarrow> string" where
  "previous_metadata paths = path_join (up_state paths) ''previous.json''"

definition current_metadata :: "update_paths \<Rightarrow> string" where
  "current_metadata paths = path_join (up_state paths) ''current.json''"

definition backup_file :: "update_paths \<Rightarrow> string" where
  "backup_file paths = path_join (up_state paths) ''pre-update.dump''"

section \<open>Rollback\<close>

definition restore_previous ::
  "'k update_libs \<Rightarrow> replace_env \<Rightarrow> io_fault \<Rightarrow> update_paths \<Rightarrow> int \<Rightarrow> files \<Rightarrow> (app_err + unit) \<times> files" where
  "restore_previous L R f paths database_schema fs =
     (if fs (previous_binary paths) = None
      then (Inl (AppErr EConflict ''no previous binary is available; restore from backup''), fs)
      else case fs (previous_metadata paths) of
        None \<Rightarrow> (Inl (AppErr EConflict ''previous metadata missing; restore from backup''), fs)
      | Some t \<Rightarrow>
          (case Option.bind (ul_json L t) decode_update_metadata of
             None \<Rightarrow> (Inl (AppErr EDependency ''previous update metadata is invalid''), fs)
           | Some previous \<Rightarrow>
               if \<not> rollback_permitted database_schema previous
               then (Inl (AppErr EConflict (''rollback blocked: database schema '' @ show_int database_schema
                      @ '' is outside previous binary range '' @ show_int (um_min_runtime_schema previous) @ ''-''
                      @ show_int (um_max_runtime_schema previous) @ ''; restore from '' @ backup_file paths)), fs)
               else case atomic_replace R (previous_binary paths) (up_install paths) fs of
                 (Inl e, fs1) \<Rightarrow> (Inl e, fs1)
               | (Inr _, fs1) \<Rightarrow> write_json L f (current_metadata paths) previous fs1))"

definition run_rollback ::
  "'k update_libs \<Rightarrow> replace_env \<Rightarrow> io_fault \<Rightarrow> update_paths \<Rightarrow> bool \<Rightarrow> int \<Rightarrow> files \<Rightarrow> (app_err + unit) \<times> files" where
  "run_rollback L R f paths yes database_schema fs =
     (if \<not> yes then (Inl (AppErr EValidation ''update rollback requires --yes''), fs)
      else restore_previous L R f paths database_schema fs)"

section \<open>Applying an update\<close>

text \<open>
  What the calls of \<^verbatim>\<open>run_apply\<close> meet: the answers of the database, of \<^verbatim>\<open>pg_dump\<close>, of the migrations and of the health check, and
  what other processes do to the files between the verification and the replacement.
\<close>

record apply_env =
  ae_schema :: "int option"
  ae_state_ok :: bool
  ae_dump :: "string option"
  ae_backup :: "app_err option"
  ae_meanwhile :: "files \<Rightarrow> files"
  ae_snapshot :: io_fault
  ae_prev_meta :: io_fault
  ae_replace :: replace_env
  ae_current_meta :: io_fault
  ae_migrate :: "app_err option"
  ae_client_ok :: bool
  ae_answer :: "string \<Rightarrow> nat option"
  ae_schema_after :: "int option"
  ae_restore :: replace_env
  ae_restore_meta :: io_fault
  ae_package_version :: string
  ae_binary_schema :: int
  ae_arch :: string

text \<open>The metadata of the running binary, written when the installed one has none.\<close>

definition running_metadata :: "'k update_libs \<Rightarrow> apply_env \<Rightarrow> string \<Rightarrow> update_metadata" where
  "running_metadata L E installed =
     \<lparr>um_package_version = ae_package_version E, um_schema_version = ae_binary_schema E,
      um_min_runtime_schema = ae_binary_schema E, um_max_runtime_schema = ae_binary_schema E,
      um_sha256 = ul_sha256_hex L installed, um_arch = ae_arch E\<rparr>"

definition take_snapshot :: "'k update_libs \<Rightarrow> apply_env \<Rightarrow> update_paths \<Rightarrow> files \<Rightarrow> (app_err + unit) \<times> files" where
  "take_snapshot L E paths fs =
     (case fs (up_install paths) of
        None \<Rightarrow> (Inr (), fs)
      | Some installed \<Rightarrow>
          (case copy_file (ae_snapshot E) (up_install paths) (previous_binary paths) fs of
             (False, fs1) \<Rightarrow> (Inl (AppErr EDependency ''failed to snapshot current binary''), fs1)
           | (True, fs1) \<Rightarrow>
               (case fs1 (current_metadata paths) of
                  Some cm \<Rightarrow>
                    (case write_bytes (ae_prev_meta E) (previous_metadata paths) cm fs1 of
                       (True, fs2) \<Rightarrow> (Inr (), fs2)
                     | (False, fs2) \<Rightarrow> (Inl (AppErr EDependency ''failed to snapshot current metadata''), fs2))
                | None \<Rightarrow> write_json L (ae_prev_meta E) (previous_metadata paths) (running_metadata L E installed) fs1)))"

definition backup_step :: "apply_env \<Rightarrow> apply_options \<Rightarrow> update_paths \<Rightarrow> files \<Rightarrow> (app_err + unit) \<times> files" where
  "backup_step E opts paths fs =
     (if ao_skip_backup opts then (Inr (), fs)
      else (case ae_backup E of None \<Rightarrow> Inr () | Some e \<Rightarrow> Inl e, torn (backup_file paths) (ae_dump E) fs))"

text \<open>The address of the health check, when none is given.\<close>

definition health_url :: "resolved_config \<Rightarrow> string" where
  "health_url rc = ''http://'' @ replace_str ''0.0.0.0'' ''127.0.0.1'' (rc_listen_address rc) @ ''/health/ready''"

text \<open>\<open>Some status\<close> is the answer of the health endpoint.\<close>

definition verify_health :: "bool \<Rightarrow> nat option \<Rightarrow> app_err + unit" where
  "verify_health client_ok answer =
     (if \<not> client_ok then Inl (AppErr EDependency ''health client unavailable'')
      else case answer of
        None \<Rightarrow> Inl (AppErr EHealthFailed ''post-update health request failed'')
      | Some status \<Rightarrow>
          if 200 \<le> status \<and> status < 300 then Inr ()
          else Inl (AppErr EHealthFailed (''post-update health returned '' @ show_nat status)))"

text \<open>After the replacement: migrations and health check, with a rollback when the new binary is not healthy.\<close>

definition finish_apply ::
  "'k update_libs \<Rightarrow> resolved_config \<Rightarrow> apply_env \<Rightarrow> apply_options \<Rightarrow> update_paths \<Rightarrow> int \<Rightarrow> files \<Rightarrow> (app_err + unit) \<times> files" where
  "finish_apply L rc E opts paths db_schema fs =
     (case (if ao_skip_migrate opts then None else ae_migrate E) of
        Some e \<Rightarrow> (Inl e, fs)
      | None \<Rightarrow>
          if ao_skip_health opts then (Inr (), fs)
          else case verify_health (ae_client_ok E) (ae_answer E (case ao_health_url opts of None \<Rightarrow> health_url rc | Some u \<Rightarrow> u)) of
            Inr _ \<Rightarrow> (Inr (), fs)
          | Inl e \<Rightarrow>
              (case restore_previous L (ae_restore E) (ae_restore_meta E) paths
                  (case ae_schema_after E of None \<Rightarrow> db_schema | Some n \<Rightarrow> n) fs of
                 (Inl re, fs1) \<Rightarrow>
                   (Inl (AppErr EHealthFailed (''health check failed after update ('' @ app_err_message e
                      @ ''); rollback blocked: '' @ app_err_message re)), fs1)
               | (Inr _, fs1) \<Rightarrow> (Inl (AppErr EHealthFailed ''health check failed after update; previous binary restored''), fs1)))"

definition install_update ::
  "'k update_libs \<Rightarrow> resolved_config \<Rightarrow> apply_env \<Rightarrow> apply_options \<Rightarrow> update_paths \<Rightarrow> update_metadata \<Rightarrow> int \<Rightarrow> files \<Rightarrow> (app_err + unit) \<times> files" where
  "install_update L rc E opts paths m db_schema fs =
     (case atomic_replace (ae_replace E) (up_artifact paths) (up_install paths) fs of
        (Inl e, fs1) \<Rightarrow> (Inl e, fs1)
      | (Inr _, fs1) \<Rightarrow>
          (case write_json L (ae_current_meta E) (current_metadata paths) m fs1 of
             (Inl e, fs2) \<Rightarrow> (Inl e, fs2)
           | (Inr _, fs2) \<Rightarrow> finish_apply L rc E opts paths db_schema fs2))"

definition run_apply ::
  "'k update_libs \<Rightarrow> keys_dir \<Rightarrow> resolved_config \<Rightarrow> apply_env \<Rightarrow> apply_options \<Rightarrow> update_paths \<Rightarrow> files \<Rightarrow> (app_err + unit) \<times> files" where
  "run_apply L D rc E opts paths fs =
     (if \<not> ao_yes opts then (Inl (AppErr EValidation ''update apply requires --yes''), fs)
      else case verify_artifact L D paths fs of
        Inl e \<Rightarrow> (Inl e, fs)
      | Inr m \<Rightarrow>
          (case current_database_schema (ae_schema E) of
             Inl e \<Rightarrow> (Inl e, fs)
           | Inr n \<Rightarrow>
               (case check_schema_preflight n m of
                  Inl e \<Rightarrow> (Inl e, fs)
                | Inr _ \<Rightarrow>
                    let fs0 = ae_meanwhile E fs in
                    if \<not> ae_state_ok E then (Inl (AppErr EDependency ''failed to create update state directory''), fs0)
                    else case backup_step E opts paths fs0 of
                      (Inl e, fs1) \<Rightarrow> (Inl e, fs1)
                    | (Inr _, fs1) \<Rightarrow>
                        (case take_snapshot L E paths fs1 of
                           (Inl e, fs2) \<Rightarrow> (Inl e, fs2)
                         | (Inr _, fs2) \<Rightarrow> install_update L rc E opts paths m n fs2))))"

end
