(* ===== verification/Update_Properties.thy ===== *)
theory Update_Properties
  imports Update
begin

text \<open>
  What an update leaves installed: the old binary or one that a trusted key vouches for, and a rollback only to a binary
  that runs on the schema of the database.
\<close>

section \<open>Verification\<close>

text \<open>The bytes a trusted key vouches for: the signed metadata has their hash.\<close>

definition genuine :: "'k update_libs \<Rightarrow> keys_dir \<Rightarrow> update_paths \<Rightarrow> files \<Rightarrow> string \<Rightarrow> bool" where
  "genuine L D paths fs b \<longleftrightarrow>
     (\<exists>mb sb keys k sig m. fs (up_metadata paths) = Some mb \<and> fs (up_signature paths) = Some sb
        \<and> load_public_keys L D paths fs = Inr keys \<and> k \<in> set keys \<and> parse_signature L sb = Inr sig \<and> ul_verify L k mb sig
        \<and> Option.bind (ul_json L mb) decode_update_metadata = Some m
        \<and> to_ascii_lowercase (ul_sha256_hex L b) = to_ascii_lowercase (trim (um_sha256 m)))"

lemma verify_artifactD:
  "verify_artifact L D paths fs = Inr m \<Longrightarrow> \<exists>b. fs (up_artifact paths) = Some b \<and> genuine L D paths fs b"
  by (auto simp: verify_artifact_def check_metadata_def genuine_def list_ex_iff split: option.splits sum.splits if_splits)

section \<open>Files\<close>

definition paths_apart :: "update_paths \<Rightarrow> bool" where
  "paths_apart paths \<longleftrightarrow>
     distinct [up_install paths, staging (up_install paths), up_artifact paths, previous_binary paths, previous_metadata paths,
       current_metadata paths, backup_file paths]"

lemma torn_frame: "p \<noteq> dst \<Longrightarrow> torn dst part fs p = fs p"
  by (simp add: torn_def split: option.split)

lemma write_bytes_frame: "write_bytes f dst b fs = (r, fs') \<Longrightarrow> p \<noteq> dst \<Longrightarrow> fs' p = fs p"
  by (auto simp: write_bytes_def torn_frame split: io_fault.splits)

lemma write_bytes_done: "write_bytes f dst b fs = (True, fs') \<Longrightarrow> fs' = fs(dst \<mapsto> b)"
  by (auto simp: write_bytes_def split: io_fault.splits)

lemma copy_file_frame: "copy_file f src dst fs = (r, fs') \<Longrightarrow> p \<noteq> dst \<Longrightarrow> fs' p = fs p"
  by (auto simp: copy_file_def write_bytes_frame split: option.splits)

lemma copy_file_done: "copy_file f src dst fs = (True, fs') \<Longrightarrow> \<exists>b. fs src = Some b \<and> fs' = fs(dst \<mapsto> b)"
  by (auto simp: copy_file_def dest!: write_bytes_done split: option.splits)

lemma write_json_frame: "write_json L f path m fs = (r, fs') \<Longrightarrow> p \<noteq> path \<Longrightarrow> fs' p = fs p"
  by (auto simp: write_json_def write_bytes_frame split: prod.splits bool.splits)

lemma atomic_replace_frame:
  "atomic_replace R src dest fs = (r, fs') \<Longrightarrow> p \<noteq> dest \<Longrightarrow> p \<noteq> staging dest \<Longrightarrow> fs' p = fs p"
  by (auto simp: atomic_replace_def copy_file_frame split: if_splits prod.splits bool.splits)

lemma atomic_replace_failed: "atomic_replace R src dest fs = (Inl e, fs') \<Longrightarrow> dest \<noteq> staging dest \<Longrightarrow> fs' dest = fs dest"
  by (auto simp: atomic_replace_def copy_file_frame split: if_splits prod.splits bool.splits)

lemma atomic_replace_done: "atomic_replace R src dest fs = (Inr u, fs') \<Longrightarrow> fs' dest = fs src \<and> fs src \<noteq> None"
  by (auto simp: atomic_replace_def dest!: copy_file_done split: if_splits prod.splits bool.splits)

lemma backup_step_frame: "backup_step E opts paths fs = (r, fs') \<Longrightarrow> p \<noteq> backup_file paths \<Longrightarrow> fs' p = fs p"
  by (auto simp: backup_step_def torn_frame split: if_splits)

lemma take_snapshot_frame:
  "take_snapshot L E paths fs = (r, fs') \<Longrightarrow> p \<noteq> previous_binary paths \<Longrightarrow> p \<noteq> previous_metadata paths \<Longrightarrow> fs' p = fs p"
  by (auto simp: take_snapshot_def split: option.splits prod.splits bool.splits)
    (metis copy_file_frame write_bytes_frame write_json_frame)+

lemma take_snapshot_done:
  assumes "take_snapshot L E paths fs = (Inr u, fs')" "fs (up_install paths) = Some b" "previous_binary paths \<noteq> previous_metadata paths"
  shows "fs' (previous_binary paths) = Some b"
proof -
  obtain fs1 where c: "copy_file (ae_snapshot E) (up_install paths) (previous_binary paths) fs = (True, fs1)"
    and rest: "fs' (previous_binary paths) = fs1 (previous_binary paths)"
    using assms
    by (fastforce simp: take_snapshot_def split: prod.splits bool.splits option.splits dest: write_bytes_frame write_json_frame)
  from copy_file_done [OF c] assms(2) rest show ?thesis by simp
qed

section \<open>Rollback\<close>

lemma restore_previous_installs:
  assumes "restore_previous L R f paths n fs = (r, fs')" "paths_apart paths"
  shows "fs' (up_install paths) = fs (up_install paths) \<or> fs' (up_install paths) = fs (previous_binary paths)"
proof -
  consider (same) "fs' = fs"
    | (failed) e where "atomic_replace R (previous_binary paths) (up_install paths) fs = (Inl e, fs')"
    | (replaced) u fs1 m where "atomic_replace R (previous_binary paths) (up_install paths) fs = (Inr u, fs1)"
        "write_json L f (current_metadata paths) m fs1 = (r, fs')"
    using assms(1) by (auto simp: restore_previous_def split: if_splits option.splits prod.splits sum.splits)
  then show ?thesis
  proof cases
    case failed
    with assms(2) show ?thesis using atomic_replace_failed by (auto simp: paths_apart_def)
  next
    case replaced
    have "fs' (up_install paths) = fs1 (up_install paths)"
      using write_json_frame [OF replaced(2)] assms(2) by (auto simp: paths_apart_def)
    with atomic_replace_done [OF replaced(1)] show ?thesis by simp
  qed simp
qed

section \<open>Applying\<close>

lemma finish_apply_installs:
  assumes "finish_apply L rc E opts paths n fs = (r, fs')" "paths_apart paths"
  shows "fs' (up_install paths) = fs (up_install paths) \<or> fs' (up_install paths) = fs (previous_binary paths)"
    and "r = Inr () \<Longrightarrow> fs' = fs"
proof -
  let ?n = "case ae_schema_after E of None \<Rightarrow> n | Some k \<Rightarrow> k"
  let ?restored = "restore_previous L (ae_restore E) (ae_restore_meta E) paths ?n fs"
  have "fs' = fs \<or> (\<exists>q. ?restored = (q, fs')) \<and> isl r"
    using assms(1) unfolding finish_apply_def
    by (cases ?restored) (auto split: option.splits sum.splits if_splits simp del: option.case_eq_if)
  then show "fs' (up_install paths) = fs (up_install paths) \<or> fs' (up_install paths) = fs (previous_binary paths)"
    and "r = Inr () \<Longrightarrow> fs' = fs"
    using restore_previous_installs [OF _ assms(2), of L "ae_restore E" "ae_restore_meta E" ?n fs _ fs'] by auto
qed

lemma install_update_installs:
  assumes "install_update L rc E opts paths m n fs = (r, fs')" "paths_apart paths"
  shows "fs' (up_install paths) \<in> {fs (up_install paths), fs (up_artifact paths), fs (previous_binary paths)}"
    and "r = Inr () \<Longrightarrow> fs' (up_install paths) = fs (up_artifact paths)"
proof -
  note ap = assms(2) [unfolded paths_apart_def]
  consider (failed) e where "atomic_replace (ae_replace E) (up_artifact paths) (up_install paths) fs = (Inl e, fs')" "r = Inl e"
    | (unrecorded) u fs1 e where "atomic_replace (ae_replace E) (up_artifact paths) (up_install paths) fs = (Inr u, fs1)"
        "write_json L (ae_current_meta E) (current_metadata paths) m fs1 = (Inl e, fs')" "r = Inl e"
    | (replaced) u v fs1 fs2 where "atomic_replace (ae_replace E) (up_artifact paths) (up_install paths) fs = (Inr u, fs1)"
        "write_json L (ae_current_meta E) (current_metadata paths) m fs1 = (Inr v, fs2)"
        "finish_apply L rc E opts paths n fs2 = (r, fs')"
    using assms(1) by (auto simp: install_update_def split: prod.splits sum.splits)
  note cases = this
  have "fs' (up_install paths) \<in> {fs (up_install paths), fs (up_artifact paths), fs (previous_binary paths)}
    \<and> (r = Inr () \<longrightarrow> fs' (up_install paths) = fs (up_artifact paths))"
    using cases
  proof cases
    case failed
    with ap show ?thesis using atomic_replace_failed by auto
  next
    case unrecorded
    have "fs' (up_install paths) = fs1 (up_install paths)"
      using write_json_frame [OF unrecorded(2), of "up_install paths"] ap by simp
    with atomic_replace_done [OF unrecorded(1)] unrecorded(3) show ?thesis by simp
  next
    case replaced
    have "fs2 (up_install paths) = fs (up_artifact paths)"
      using atomic_replace_done [OF replaced(1)] write_json_frame [OF replaced(2), of "up_install paths"] ap by simp
    moreover have "fs2 (previous_binary paths) = fs (previous_binary paths)"
      using write_json_frame [OF replaced(2), of "previous_binary paths"]
        atomic_replace_frame [OF replaced(1), of "previous_binary paths"] ap by auto
    ultimately show ?thesis using finish_apply_installs [OF replaced(3) assms(2)] by auto
  qed
  then show "fs' (up_install paths) \<in> {fs (up_install paths), fs (up_artifact paths), fs (previous_binary paths)}"
    and "r = Inr () \<Longrightarrow> fs' (up_install paths) = fs (up_artifact paths)" by blast+
qed

text \<open>An update none of whose calls fails.\<close>

definition apply_calm :: "resolved_config \<Rightarrow> apply_env \<Rightarrow> apply_options \<Rightarrow> bool" where
  "apply_calm rc E opts \<longleftrightarrow>
     ao_yes opts \<and> ae_state_ok E \<and> (ao_skip_backup opts \<or> ae_backup E = None) \<and> ae_snapshot E = IoOk \<and> ae_prev_meta E = IoOk
     \<and> rp_parent_ok (ae_replace E) \<and> rp_copy (ae_replace E) = IoOk \<and> rp_mode_ok (ae_replace E) \<and> rp_rename_ok (ae_replace E)
     \<and> ae_current_meta E = IoOk \<and> (ao_skip_migrate opts \<or> ae_migrate E = None)
     \<and> (ao_skip_health opts
        \<or> verify_health (ae_client_ok E) (ae_answer E (case ao_health_url opts of None \<Rightarrow> health_url rc | Some u \<Rightarrow> u)) = Inr ())"

lemma take_snapshot_calm:
  "apply_calm rc E opts \<Longrightarrow> \<exists>fs'. take_snapshot L E paths fs = (Inr (), fs')"
  by (auto simp: take_snapshot_def apply_calm_def copy_file_def write_bytes_def write_json_def split: option.splits)

lemma install_update_calm:
  "apply_calm rc E opts \<Longrightarrow> fs (up_artifact paths) = Some b \<Longrightarrow> \<exists>fs'. install_update L rc E opts paths m n fs = (Inr (), fs')"
  by (auto simp: install_update_def atomic_replace_def finish_apply_def apply_calm_def copy_file_def write_bytes_def write_json_def
      split: option.splits sum.splits)

lemma apply_stages:
  assumes "run_apply L D rc E opts paths fs = (r, fs')"
  obtains (refused) e where "fs' = fs" "r = Inl e"
    | (early) e where "fs' (up_install paths) = ae_meanwhile E fs (up_install paths) \<or> \<not> paths_apart paths" "r = Inl e"
        "\<exists>m. verify_artifact L D paths fs = Inr m"
    | (installed) m n u v fs1 fs2 where "verify_artifact L D paths fs = Inr m" "ae_schema E = Some n"
        "um_min_runtime_schema m \<le> n" "n \<le> um_schema_version m" "backup_step E opts paths (ae_meanwhile E fs) = (Inr u, fs1)"
        "take_snapshot L E paths fs1 = (Inr v, fs2)" "install_update L rc E opts paths m n fs2 = (r, fs')"
proof -
  show thesis
  proof (cases "\<exists>m n. ao_yes opts \<and> verify_artifact L D paths fs = Inr m \<and> ae_schema E = Some n \<and> check_schema_preflight n m = Inr ()")
    case False
    with assms have "fs' = fs \<and> (\<exists>e. r = Inl e)"
      by (auto simp: run_apply_def current_database_schema_def split: if_splits sum.splits option.splits dest: sym)
    then show thesis using refused by blast
  next
    case True
    then obtain m n where m: "ao_yes opts" "verify_artifact L D paths fs = Inr m" "ae_schema E = Some n" "check_schema_preflight n m = Inr ()"
      by blast
    have range: "um_min_runtime_schema m \<le> n" "n \<le> um_schema_version m"
      using m(4) by (simp_all add: check_schema_preflight_def split: if_splits)
    obtain rb fs1 where b: "backup_step E opts paths (ae_meanwhile E fs) = (rb, fs1)" by fastforce
    obtain rs fs2 where s: "take_snapshot L E paths fs1 = (rs, fs2)" by fastforce
    have keep1: "paths_apart paths \<Longrightarrow> fs1 (up_install paths) = ae_meanwhile E fs (up_install paths)"
      using backup_step_frame [OF b] by (auto simp: paths_apart_def)
    have keep2: "paths_apart paths \<Longrightarrow> fs2 (up_install paths) = fs1 (up_install paths)"
      using take_snapshot_frame [OF s] by (auto simp: paths_apart_def)
    show thesis
    proof (cases "ae_state_ok E \<and> \<not> isl rb \<and> \<not> isl rs")
      case True
      then obtain u v where "rb = Inr u" "rs = Inr v" by (cases rb; cases rs) auto
      with True m b s assms show thesis
        by (intro installed [OF m(2,3) range, of u fs1 v fs2]) (auto simp: run_apply_def current_database_schema_def Let_def)
    next
      case False
      have "(\<exists>e. r = Inl e) \<and> fs' \<in> {ae_meanwhile E fs, fs1, fs2}"
        using False m b s assms by (auto simp: run_apply_def current_database_schema_def Let_def split: if_splits sum.splits)
      then show thesis using early keep1 keep2 m(2) by auto
    qed
  qed
qed


text \<open>An example: a signed artifact is installed over an old binary.\<close>

definition demo_update_libs :: "unit update_libs" where
  "demo_update_libs =
     \<lparr>ul_json = (\<lambda>t. if t = ''meta'' then Some (encode_update_metadata \<lparr>um_package_version = ''2'', um_schema_version = 9,
         um_min_runtime_schema = 8, um_max_runtime_schema = 9, um_sha256 = ''new'', um_arch = ''x''\<rparr>) else None),
      ul_print = (\<lambda>j. ''{}''), ul_utf8 = (\<lambda>t. True),
      ul_hex_decode = (\<lambda>t. Some (if t = ''key'' then replicate 32 (CHR ''k'') else replicate 64 (CHR ''s''))),
      ul_sha256_hex = (\<lambda>b. b), ul_key = (\<lambda>b. Some ()), ul_verify = (\<lambda>_ mb sig. mb = ''meta'')\<rparr>"

definition demo_update_paths :: update_paths where
  "demo_update_paths =
     \<lparr>up_artifact = ''/a'', up_metadata = ''/m'', up_signature = ''/s'', up_public_keys = [''/k''], up_keys_directory = ''/keys'',
      up_install = ''/bin/zl'', up_state = ''/st''\<rparr>"

definition demo_update_files :: files where
  "demo_update_files = [''/a'' \<mapsto> ''new'', ''/m'' \<mapsto> ''meta'', ''/s'' \<mapsto> ''sig'', ''/k'' \<mapsto> ''key'', ''/bin/zl'' \<mapsto> ''old'']"

definition demo_replace :: replace_env where
  "demo_replace = \<lparr>rp_parent_ok = True, rp_copy = IoOk, rp_mode_ok = True, rp_rename_ok = True\<rparr>"

definition demo_update_env :: "(files \<Rightarrow> files) \<Rightarrow> apply_env" where
  "demo_update_env meanwhile =
     \<lparr>ae_schema = Some 8, ae_state_ok = True, ae_dump = None, ae_backup = None, ae_meanwhile = meanwhile, ae_snapshot = IoOk,
      ae_prev_meta = IoOk, ae_replace = demo_replace, ae_current_meta = IoOk, ae_migrate = None, ae_client_ok = True,
      ae_answer = (\<lambda>_. None), ae_schema_after = None, ae_restore = demo_replace, ae_restore_meta = IoOk,
      ae_package_version = ''1'', ae_binary_schema = 8, ae_arch = ''x''\<rparr>"

definition demo_options :: apply_options where
  "demo_options = \<lparr>ao_yes = True, ao_skip_backup = False, ao_skip_migrate = False, ao_skip_health = True, ao_health_url = None\<rparr>"

lemma demo_preflight: "\<not> isl (run_preflight demo_update_libs KeysAbsent (Some 8) demo_update_paths demo_update_files)"
  by code_simp

lemma demo_apart: "paths_apart demo_update_paths"
  by code_simp


text \<open>
  The artifact is read once to be verified and once more to be installed: with another process at work in between, an update
  can report success with a binary nobody signed.
\<close>

lemma artifact_swapped_after_verification:
  "\<forall>rc. \<exists>fs'. run_apply demo_update_libs KeysAbsent rc (demo_update_env (\<lambda>f. f(''/a'' \<mapsto> ''evil''))) demo_options demo_update_paths demo_update_files
     = (Inr (), fs') \<and> fs' ''/bin/zl'' = Some ''evil'' \<and> \<not> genuine demo_update_libs KeysAbsent demo_update_paths demo_update_files ''evil''"
proof
  fix rc
  let ?run = "run_apply demo_update_libs KeysAbsent rc (demo_update_env (\<lambda>f. f(''/a'' \<mapsto> ''evil''))) demo_options demo_update_paths demo_update_files"
  have "trim ''new'' = ''new''" "to_ascii_lowercase ''new'' = ''new''" "to_ascii_lowercase ''evil'' = ''evil''" by code_simp+
  then have "\<not> genuine demo_update_libs KeysAbsent demo_update_paths demo_update_files ''evil''"
    by (auto simp: genuine_def demo_update_libs_def demo_update_files_def demo_update_paths_def decode_update_metadata_def
        encode_update_metadata_def bind_eq_Some_conv split: if_splits)
  moreover have "fst ?run = Inr ()" "snd ?run ''/bin/zl'' = Some ''evil''" by code_simp+
  ultimately show "\<exists>fs'. ?run = (Inr (), fs') \<and> fs' ''/bin/zl'' = Some ''evil''
      \<and> \<not> genuine demo_update_libs KeysAbsent demo_update_paths demo_update_files ''evil''"
    by (metis prod.collapse)
qed

text \<open>A rollback installs the previous binary, and only on a schema within the range its metadata states.\<close>

lemma rollback_within_schema:
  assumes "run_rollback L R f paths yes n fs = (Inr (), fs')" "paths_apart paths"
  shows "yes \<and> fs' (up_install paths) = fs (previous_binary paths)
    \<and> (\<exists>t m. fs (previous_metadata paths) = Some t \<and> Option.bind (ul_json L t) decode_update_metadata = Some m
          \<and> um_min_runtime_schema m \<le> n \<and> n \<le> um_max_runtime_schema m)"
proof -
  obtain t m u fs1 where y: "yes" "fs (previous_metadata paths) = Some t" "Option.bind (ul_json L t) decode_update_metadata = Some m"
      "rollback_permitted n m" and rep: "atomic_replace R (previous_binary paths) (up_install paths) fs = (Inr u, fs1)"
    and wr: "write_json L f (current_metadata paths) m fs1 = (Inr (), fs')"
    using assms(1) by (auto simp: run_rollback_def restore_previous_def split: if_splits option.splits prod.splits sum.splits)
  have "fs' (up_install paths) = fs1 (up_install paths)"
    using write_json_frame [OF wr, of "up_install paths"] assms(2) by (simp add: paths_apart_def)
  then show ?thesis using atomic_replace_done [OF rep] y by (auto simp: rollback_permitted_def)
qed

text \<open>What \<^verbatim>\<open>write_json\<close> writes is read back.\<close>

lemma metadata_roundtrip:
  "i64_min \<le> um_schema_version m \<Longrightarrow> um_schema_version m \<le> i64_max \<Longrightarrow> i64_min \<le> um_min_runtime_schema m \<Longrightarrow>
   um_min_runtime_schema m \<le> i64_max \<Longrightarrow> i64_min \<le> um_max_runtime_schema m \<Longrightarrow> um_max_runtime_schema m \<le> i64_max \<Longrightarrow>
   decode_update_metadata (encode_update_metadata m) = Some m"
  by (simp add: decode_update_metadata_def encode_update_metadata_def)

end
