(* ===== verification/Receipt_Extraction.thy ===== *)
theory Receipt_Extraction
  imports S3_Store Insight Receipt Receipt_Pipeline
begin

text \<open>
  The extractors: the Gemini adapter, \<^verbatim>\<open>src/receipt/gemini.rs\<close>, with the downscaling of its input, \<^verbatim>\<open>src/receipt/downscale.rs\<close>; the
  deterministic extractor of local runs, \<^verbatim>\<open>src/receipt/extractor.rs\<close>; \<^verbatim>\<open>build_extractor\<close> of \<^verbatim>\<open>src/receipt/mod.rs\<close>; and the
  narrator of \<^verbatim>\<open>src/insight/narrator.rs\<close>. JSON text, base64, image coding, hashes, the calendar and the network are parameters.
\<close>

section \<open>Library functions\<close>

text \<open>The operator \<^verbatim>\<open>?\<close>.\<close>

definition ebind :: "'e + 'a \<Rightarrow> ('a \<Rightarrow> 'e + 'b) \<Rightarrow> 'e + 'b" where
  "ebind m f = (case m of Inl e \<Rightarrow> Inl e | Inr a \<Rightarrow> f a)"

lemma ebind_simps [simp]: "ebind (Inl e) f = Inl e" "ebind (Inr a) f = f a"
  by (simp_all add: ebind_def)

lemma ebind_Inr: "ebind m f = Inr x \<longleftrightarrow> (\<exists>a. m = Inr a \<and> f a = Inr x)"
  by (cases m) auto

text \<open>
  A JSON number as \<^verbatim>\<open>f32\<close>: finite, or infinite with a sign when it is out of range; JSON has no NaN.
\<close>

datatype f32_value = F32 int int | F32Inf bool

record extract_libs =
  xl_json :: "string \<Rightarrow> json option"
  xl_f32 :: "json \<Rightarrow> f32_value option"
  xl_rfc3339 :: "string \<Rightarrow> instant option"
  xl_base64 :: "string \<Rightarrow> string"
  xl_decode :: "string \<Rightarrow> (nat \<times> nat) option"
  xl_encode :: "string \<Rightarrow> (nat \<times> nat) option \<Rightarrow> string option"
  xl_header_ok :: "string \<Rightarrow> bool"
  xl_sha256 :: "string \<Rightarrow> string"
  xl_utf8 :: "string \<Rightarrow> bool"
  xl_utc :: "int \<Rightarrow> nat \<Rightarrow> nat \<Rightarrow> nat \<Rightarrow> nat \<Rightarrow> instant"

text \<open>\<^verbatim>\<open>clamp(0.0, 1.0)\<close>\<close>

fun clamp_unit :: "f32_value \<Rightarrow> f32" where
  "clamp_unit (F32 m e) = (if m < 0 then Finite 0 0 else if f32_in_unit (Finite m e) then Finite m e else Finite 1 0)"
| "clamp_unit (F32Inf negative) = (if negative then Finite 0 0 else Finite 1 0)"

text \<open>\<^verbatim>\<open>Value::pointer\<close>: a token names a field of an object or an index of an array.\<close>

definition pointer_index :: "string \<Rightarrow> nat option" where
  "pointer_index t =
     (if starts_with t ''+'' \<or> starts_with t ''0'' \<and> length t \<noteq> 1 then None else parse_u64 t)"

fun json_pointer :: "string list \<Rightarrow> json \<Rightarrow> json option" where
  "json_pointer [] j = Some j"
| "json_pointer (t # ts) (JObject fs) = (case map_of fs t of None \<Rightarrow> None | Some j \<Rightarrow> json_pointer ts j)"
| "json_pointer (t # ts) (JArray xs) =
     (case pointer_index t of None \<Rightarrow> None | Some i \<Rightarrow> if i < length xs then json_pointer ts (xs ! i) else None)"
| "json_pointer (t # ts) _ = None"

fun json_as_bool :: "json \<Rightarrow> bool option" where
  "json_as_bool (JBool b) = Some b"
| "json_as_bool _ = None"

fun json_as_array :: "json \<Rightarrow> json list option" where
  "json_as_array (JArray xs) = Some xs"
| "json_as_array _ = None"

section \<open>Downscaling\<close>

text \<open>
  The edge lengths are computed in \<^verbatim>\<open>f64\<close>: \<open>round_even\<close> rounds a quotient to the nearest integer, ties to even; \<open>f64_ratio\<close> is the
  quotient of two integers with a significand of 53 bits, as \<open>m / 2 ^ k\<close>; \<open>f64_significand\<close> rounds a product to 53 bits.
\<close>

definition round_even :: "nat \<Rightarrow> nat \<Rightarrow> nat" where
  "round_even a b =
     (let q = a div b; r = a mod b in if 2 * r < b \<or> 2 * r = b \<and> even q then q else q + 1)"

definition first_where :: "(nat \<Rightarrow> bool) \<Rightarrow> nat \<Rightarrow> nat" where
  "first_where P n = (case List.find P [0..<n] of None \<Rightarrow> n | Some k \<Rightarrow> k)"

definition f64_ratio :: "nat \<Rightarrow> nat \<Rightarrow> nat \<times> nat" where
  "f64_ratio a b = (let k = first_where (\<lambda>k. 2 ^ 52 * b \<le> a * 2 ^ k) 128 in (round_even (a * 2 ^ k) b, k))"

definition f64_significand :: "nat \<Rightarrow> nat" where
  "f64_significand n = (let j = first_where (\<lambda>j. n < 2 ^ (53 + j)) 64 in round_even n (2 ^ j) * 2 ^ j)"

definition max_extraction_edge :: nat where
  "max_extraction_edge = 2048"

text \<open>\<^verbatim>\<open>((f64::from(edge) * scale).round() as u32).max(1)\<close>\<close>

definition scaled_edge :: "nat \<Rightarrow> nat \<Rightarrow> nat" where
  "scaled_edge edge longest =
     (case f64_ratio max_extraction_edge longest of (m, k) \<Rightarrow> max 1 ((2 * f64_significand (edge * m) + 2 ^ k) div 2 ^ (k + 1)))"

definition downscale_to_jpeg :: "extract_libs \<Rightarrow> string \<Rightarrow> receipt_error + string" where
  "downscale_to_jpeg X bytes =
     (case xl_decode X bytes of
        None \<Rightarrow> Inl (receipt_validation ''unable to decode image for extraction'')
      | Some (w, h) \<Rightarrow>
          if w = 0 \<or> h = 0 then Inl (receipt_validation ''image dimensions must be positive'')
          else
            let longest = max w h;
                box = (if max_extraction_edge < longest then Some (scaled_edge w longest, scaled_edge h longest) else None)
            in case xl_encode X bytes box of
                 None \<Rightarrow> Inl (dependency ''failed to encode extraction jpeg'')
               | Some j \<Rightarrow> Inr j)"

section \<open>The Gemini adapter\<close>

definition extraction_prompt_version :: string where
  "extraction_prompt_version = ''extraction-json-v2''"

definition extraction_category_keys :: "string list" where
  "extraction_category_keys =
     [''an-uong'', ''thuc-pham'', ''di-lai'', ''hoa-don'', ''mua-sam'', ''suc-khoe'', ''giai-tri'', ''giao-duc'', ''nha-o'',
      ''thu-nhap'', ''hoan-tien'', ''chuyen-khoan'', ''khac'']"

record gemini_extractor =
  ge_api_base :: string
  ge_api_key :: string
  ge_model :: string
  ge_profile_name :: string
  ge_max_input_bytes :: nat
  ge_max_output_tokens :: nat
  ge_thinking_effort :: string
  ge_schema_version :: string

definition gemini_meta :: "gemini_extractor \<Rightarrow> extraction_meta" where
  "gemini_meta G =
     \<lparr>em_provider = ''gemini'', em_model = ge_model G, em_profile_name = ge_profile_name G,
      em_prompt_version = extraction_prompt_version, em_input_tokens = None, em_output_tokens = None\<rparr>"

fun thinking_budget :: "string \<Rightarrow> nat option" where
  "thinking_budget effort =
     (if effort = ''none'' then Some 0 else if effort = ''low'' then Some 2048 else if effort = ''medium'' then Some 8192
      else if effort = ''high'' then Some 16384 else None)"

definition thinking_config :: "string \<Rightarrow> string \<Rightarrow> json option" where
  "thinking_config model effort =
     (if starts_with (to_ascii_lowercase model) ''gemini-3'' then
        (if effort \<in> {''none'', ''low''} then Some (JObject [(''thinkingLevel'', JString ''LOW'')])
         else if effort \<in> {''medium'', ''high''} then Some (JObject [(''thinkingLevel'', JString ''HIGH'')])
         else None)
      else map_option (\<lambda>b. JObject [(''thinkingBudget'', JInt (int b))]) (thinking_budget effort))"

definition field_type :: "string \<Rightarrow> json" where
  "field_type t = JObject [(''type'', JString t)]"

definition field_enum :: "string list \<Rightarrow> json" where
  "field_enum vs = JObject [(''type'', JString ''string''), (''enum'', JArray (map JString vs))]"

definition response_fields :: "(string \<times> json) list" where
  "response_fields =
     [(''merchant'', field_type ''string''), (''amount_minor'', field_type ''integer''), (''currency'', field_type ''string''),
      (''category_key'', field_enum extraction_category_keys),
      (''transaction_type'', field_enum [''expense'', ''income'', ''transfer'']), (''occurred_at'', field_type ''string''),
      (''confidence'', field_type ''number''), (''unsupported'', field_type ''boolean'')]"

definition response_schema :: json where
  "response_schema =
     JObject [(''type'', JString ''object''), (''properties'', JObject response_fields),
       (''required'', JArray (map (JString \<circ> fst) response_fields))]"

definition request_body :: "extract_libs \<Rightarrow> gemini_extractor \<Rightarrow> string \<Rightarrow> string \<Rightarrow> json" where
  "request_body X G prompt jpeg =
     JObject
       [(''contents'', JArray [JObject [(''role'', JString ''user''),
          (''parts'', JArray [JObject [(''text'', JString prompt)],
             JObject [(''inlineData'', JObject [(''mimeType'', JString ''image/jpeg''), (''data'', JString (xl_base64 X jpeg))])]])]]),
        (''generationConfig'', JObject
          ([(''responseMimeType'', JString ''application/json''), (''responseSchema'', response_schema),
            (''maxOutputTokens'', JInt (int (ge_max_output_tokens G)))]
           @ (case thinking_config (ge_model G) (ge_thinking_effort G) of None \<Rightarrow> [] | Some t \<Rightarrow> [(''thinkingConfig'', t)])))]"

definition gemini_status_error :: "nat \<Rightarrow> receipt_error option" where
  "gemini_status_error status =
     (if 200 \<le> status \<and> status \<le> 299 then None
      else if status = 401 \<or> status = 403 then Some (ReceiptError EAuth ''gemini authentication failed'')
      else if status = 429 then Some (ReceiptError ERateLimited ''gemini rate limited'')
      else if status \<in> {400, 404, 411, 413, 422} then Some (receipt_validation ''gemini rejected the request'')
      else if 500 \<le> status \<and> status \<le> 599 then Some (ReceiptError ETransient ''gemini upstream error'')
      else Some (receipt_validation ''gemini returned an unexpected status''))"

definition or_invalid :: "string \<Rightarrow> 'a option \<Rightarrow> receipt_error + 'a" where
  "or_invalid m v = (case v of None \<Rightarrow> Inl (receipt_validation m) | Some x \<Rightarrow> Inr x)"

text \<open>The last part of the first candidate that is no thought and has a text.\<close>

definition part_text :: "json \<Rightarrow> string option" where
  "part_text part =
     (if Option.bind (json_get part ''thought'') json_as_bool = Some True then None
      else case map_option trim (Option.bind (json_get part ''text'') json_as_str) of
        None \<Rightarrow> None
      | Some t \<Rightarrow> if t = [] then None else Some t)"

fun first_text :: "json list \<Rightarrow> string option" where
  "first_text [] = None"
| "first_text (p # ps) = (case part_text p of Some t \<Rightarrow> Some t | None \<Rightarrow> first_text ps)"

definition extract_candidate_text :: "json \<Rightarrow> string option" where
  "extract_candidate_text parsed =
     Option.bind (Option.bind (json_pointer [''candidates'', ''0'', ''content'', ''parts''] parsed) json_as_array)
       (\<lambda>parts. first_text (rev parts))"

definition check_field :: "bool \<Rightarrow> string \<Rightarrow> receipt_error + unit" where
  "check_field okay m = (if okay then Inr () else Inl (receipt_validation m))"

definition parse_extraction_json :: "extract_libs \<Rightarrow> string \<Rightarrow> receipt_error + extraction_result" where
  "parse_extraction_json X t =
     ebind (or_invalid ''gemini output was not json'' (xl_json X t)) (\<lambda>j.
     ebind (or_invalid ''gemini output missing merchant'' (Option.bind (json_get j ''merchant'') json_as_str)) (\<lambda>raw.
     ebind (validate_merchant raw) (\<lambda>merchant.
     ebind (or_invalid ''gemini output missing amount_minor'' (Option.bind (json_get j ''amount_minor'') json_as_i64)) (\<lambda>amount.
     ebind (or_invalid ''gemini output missing currency'' (Option.bind (json_get j ''currency'') json_as_str)) (\<lambda>currency.
     ebind (or_invalid ''gemini output missing category_key'' (Option.bind (json_get j ''category_key'') json_as_str)) (\<lambda>category.
     ebind (check_field (category \<in> set extraction_category_keys) ''gemini output category_key is not allowed'') (\<lambda>_.
     ebind (or_invalid ''gemini output missing transaction_type'' (Option.bind (json_get j ''transaction_type'') json_as_str)) (\<lambda>kind.
     ebind (check_field (kind \<in> {''expense'', ''income'', ''transfer''}) ''gemini output transaction_type is not allowed'') (\<lambda>_.
     ebind (or_invalid ''gemini output missing occurred_at'' (Option.bind (json_get j ''occurred_at'') json_as_str)) (\<lambda>at_text.
     ebind (or_invalid ''gemini output occurred_at is invalid'' (xl_rfc3339 X at_text)) (\<lambda>occurred.
     ebind (or_invalid ''gemini output missing confidence'' (Option.bind (json_get j ''confidence'') (xl_f32 X))) (\<lambda>confidence.
     ebind (or_invalid ''gemini output missing unsupported'' (Option.bind (json_get j ''unsupported'') json_as_bool)) (\<lambda>unsupported.
     ebind ((if unsupported then Inr () else ebind (validate_amount_minor amount) (\<lambda>_. validate_currency currency))) (\<lambda>_.
     Inr \<lparr>ex_merchant = merchant, ex_amount_minor = amount, ex_currency = currency, ex_category_key = category,
          ex_transaction_type = kind, ex_occurred_at = occurred, ex_confidence = clamp_unit confidence,
          ex_unsupported = unsupported\<rparr>))))))))))))))"

text \<open>\<^verbatim>\<open>i32::try_from(count).ok()\<close>, only where the count is there.\<close>

definition token_count :: "string \<Rightarrow> json \<Rightarrow> int option \<Rightarrow> int option" where
  "token_count name parsed old =
     (case Option.bind (json_pointer [''usageMetadata'', name] parsed) json_as_i64 of
        None \<Rightarrow> old
      | Some n \<Rightarrow> if - (2 ^ 31) \<le> n \<and> n < 2 ^ 31 then Some n else None)"

definition parse_generate_content :: "extract_libs \<Rightarrow> string \<Rightarrow> extraction_meta \<Rightarrow> receipt_error + extracted_attempt" where
  "parse_generate_content X body meta =
     ebind (or_invalid ''gemini response was not json'' (xl_json X body)) (\<lambda>parsed.
     ebind (check_field (json_pointer [''promptFeedback'', ''blockReason''] parsed = None) ''gemini blocked the prompt'') (\<lambda>_.
     ebind (check_field
       (case Option.bind (json_pointer [''candidates'', ''0'', ''finishReason''] parsed) json_as_str of
          None \<Rightarrow> True | Some reason \<Rightarrow> reason \<in> {''STOP'', ''stop''}) ''gemini did not finish normally'') (\<lambda>_.
     ebind (or_invalid ''gemini response missing candidates'' (extract_candidate_text parsed)) (\<lambda>t.
     ebind (parse_extraction_json X t) (\<lambda>r.
     Inr \<lparr>xa_result = r,
          xa_meta = meta\<lparr>em_input_tokens := token_count ''promptTokenCount'' parsed (em_input_tokens meta),
            em_output_tokens := token_count ''candidatesTokenCount'' parsed (em_output_tokens meta)\<rparr>\<rparr>)))))"

record gemini_request =
  gq_url :: string
  gq_api_key :: string
  gq_body :: json

datatype gemini_answer = GeminiTimedOut | GeminiFailed | GeminiAnswer nat "string option"

definition gemini_url :: "gemini_extractor \<Rightarrow> string" where
  "gemini_url G = ge_api_base G @ ''/v1beta/models/'' @ ge_model G @ '':generateContent''"

text \<open>
  \<^verbatim>\<open>execute_async\<close>; \<open>prompt\<close> is the constant text of the instruction, \<open>net\<close> the provider.
\<close>

definition gemini_execute ::
  "extract_libs \<Rightarrow> string \<Rightarrow> (gemini_request \<Rightarrow> gemini_answer) \<Rightarrow> gemini_extractor \<Rightarrow> string \<Rightarrow> receipt_error + extracted_attempt" where
  "gemini_execute X prompt net G bytes =
     ebind (downscale_to_jpeg X bytes) (\<lambda>jpeg.
     ebind (check_field (length jpeg \<le> ge_max_input_bytes G) ''extraction input exceeds profile max_input_bytes'') (\<lambda>_.
     if \<not> xl_header_ok X (ge_api_key G) then Inl (ReceiptError EAuth ''gemini credential is invalid'')
     else case net \<lparr>gq_url = gemini_url G, gq_api_key = ge_api_key G, gq_body = request_body X G prompt jpeg\<rparr> of
       GeminiTimedOut \<Rightarrow> Inl (ReceiptError ETimeout ''gemini request timed out'')
     | GeminiFailed \<Rightarrow> Inl (dependency ''gemini request failed'')
     | GeminiAnswer status body \<Rightarrow>
         if 300 \<le> status \<and> status < 400 then Inl (receipt_validation ''gemini returned an unexpected redirect'')
         else case gemini_status_error status of
           Some e \<Rightarrow> Inl e
         | None \<Rightarrow>
             (case body of
                None \<Rightarrow> Inl (dependency ''failed to read gemini response'')
              | Some b \<Rightarrow> parse_generate_content X b (gemini_meta G))))"

section \<open>The deterministic extractor\<close>

record corpus_entry =
  ce_id :: string
  ce_merchant :: string
  ce_amount_minor :: int
  ce_currency :: string
  ce_category_key :: string
  ce_transaction_type :: string
  ce_year :: int
  ce_month :: nat
  ce_day :: nat
  ce_hour :: nat
  ce_minute :: nat
  ce_confidence :: f32
  ce_unsupported :: bool

text \<open>The decimal confidences as the nearest \<^verbatim>\<open>f32\<close>: 24 bits of significand.\<close>

definition corpus :: "corpus_entry list" where
  "corpus =
     [\<lparr>ce_id = ''coopmart-clean'', ce_merchant = ''Co.opmart'', ce_amount_minor = 325000, ce_currency = ''VND'',
       ce_category_key = ''thuc-pham'', ce_transaction_type = ''expense'', ce_year = 2026, ce_month = 7, ce_day = 15,
       ce_hour = 9, ce_minute = 24, ce_confidence = Finite 15938355 (-24), ce_unsupported = False\<rparr>,
      \<lparr>ce_id = ''highlands-clean'', ce_merchant = ''Highlands Coffee'', ce_amount_minor = 65000, ce_currency = ''VND'',
       ce_category_key = ''an-uong'', ce_transaction_type = ''expense'', ce_year = 2026, ce_month = 7, ce_day = 16,
       ce_hour = 14, ce_minute = 5, ce_confidence = Finite 15602811 (-24), ce_unsupported = False\<rparr>,
      \<lparr>ce_id = ''petrolimex-clean'', ce_merchant = ''Petrolimex'', ce_amount_minor = 500000, ce_currency = ''VND'',
       ce_category_key = ''di-lai'', ce_transaction_type = ''expense'', ce_year = 2026, ce_month = 7, ce_day = 17,
       ce_hour = 8, ce_minute = 12, ce_confidence = Finite 15099494 (-24), ce_unsupported = False\<rparr>,
      \<lparr>ce_id = ''guardian-low-total'', ce_merchant = ''Guardian'', ce_amount_minor = 142000, ce_currency = ''VND'',
       ce_category_key = ''suc-khoe'', ce_transaction_type = ''expense'', ce_year = 2026, ce_month = 7, ce_day = 14,
       ce_hour = 19, ce_minute = 41, ce_confidence = Finite 12079596 (-24), ce_unsupported = False\<rparr>,
      \<lparr>ce_id = ''unsupported-image'', ce_merchant = ''Unsupported'', ce_amount_minor = 0, ce_currency = ''VND'',
       ce_category_key = ''khac'', ce_transaction_type = ''expense'', ce_year = 2026, ce_month = 1, ce_day = 1,
       ce_hour = 0, ce_minute = 0, ce_confidence = Finite 0 0, ce_unsupported = True\<rparr>]"

definition be_bytes :: "string \<Rightarrow> nat" where
  "be_bytes s = fold (\<lambda>c n. n * 256 + byte c) s 0"

definition index_for :: "extract_libs \<Rightarrow> string \<Rightarrow> nat" where
  "index_for X bytes = be_bytes (take 8 (xl_sha256 X bytes)) mod length corpus"

definition mock_prefix :: string where
  "mock_prefix = ''MOCK-FIXTURE:''"

definition corpus_entry_for :: "extract_libs \<Rightarrow> string \<Rightarrow> receipt_error + corpus_entry" where
  "corpus_entry_for X bytes =
     (case strip_prefix bytes mock_prefix of
        Some rest \<Rightarrow>
          if \<not> xl_utf8 X rest then Inl (receipt_validation ''invalid mock fixture id'')
          else or_invalid ''unknown mock fixture id'' (List.find (\<lambda>e. ce_id e = trim rest) corpus)
      | None \<Rightarrow> Inr (corpus ! index_for X bytes))"

definition corpus_result :: "extract_libs \<Rightarrow> corpus_entry \<Rightarrow> extraction_result" where
  "corpus_result X e =
     \<lparr>ex_merchant = ce_merchant e, ex_amount_minor = ce_amount_minor e, ex_currency = ce_currency e,
      ex_category_key = ce_category_key e, ex_transaction_type = ce_transaction_type e,
      ex_occurred_at = xl_utc X (ce_year e) (ce_month e) (ce_day e) (ce_hour e) (ce_minute e),
      ex_confidence = ce_confidence e, ex_unsupported = ce_unsupported e\<rparr>"

definition fake_extract :: "extract_libs \<Rightarrow> string \<Rightarrow> receipt_error + extraction_result" where
  "fake_extract X bytes = map_sum id (corpus_result X) (corpus_entry_for X bytes)"

definition extraction_meta_fake :: extraction_meta where
  "extraction_meta_fake =
     \<lparr>em_provider = ''fake'', em_model = ''fake-corpus'', em_profile_name = ''receipt-fast'', em_prompt_version = ''v1'',
      em_input_tokens = Some 0, em_output_tokens = Some 0\<rparr>"

section \<open>The narrator\<close>

text \<open>\<^verbatim>\<open>FakeNarrator::narrate\<close>\<close>

definition or_missing :: "string \<Rightarrow> 'a option \<Rightarrow> insight_error + 'a" where
  "or_missing m v = (case v of None \<Rightarrow> Inl (InsightError m) | Some x \<Rightarrow> Inr x)"

definition narrative_text :: "chat_libs \<Rightarrow> int \<Rightarrow> int \<Rightarrow> string \<Rightarrow> string" where
  "narrative_text L total_minor tx_count currency =
     ''Trong k'' @ [CHR 0xE1, CHR 0xBB, CHR 0xB3] @ '' n'' @ [CHR 0xC3, CHR 0xA0] @ ''y b'' @ [CHR 0xE1, CHR 0xBA, CHR 0xA1] @ ''n ''
     @ [CHR 0xC4, CHR 0x91, CHR 0xC3, CHR 0xA3] @ '' ghi nh'' @ [CHR 0xE1, CHR 0xBA, CHR 0xAD] @ ''n '' @ show_int tx_count
     @ '' kho'' @ [CHR 0xE1, CHR 0xBA, CHR 0xA3] @ ''n, t'' @ [CHR 0xE1, CHR 0xBB, CHR 0x95] @ ''ng '' @ format_minor L total_minor currency @ ''.''"

definition fake_narrate :: "chat_libs \<Rightarrow> json \<Rightarrow> insight_error + string" where
  "fake_narrate L j =
     ebind (or_missing ''aggregate missing total_minor'' (Option.bind (json_get j ''total_minor'') json_as_i64)) (\<lambda>total_minor.
     ebind (or_missing ''aggregate missing tx_count'' (Option.bind (json_get j ''tx_count'') json_as_i64)) (\<lambda>tx_count.
     ebind (or_missing ''aggregate missing currency'' (Option.bind (json_get j ''currency'') json_as_str)) (\<lambda>currency.
     Inr (narrative_text L total_minor tx_count currency))))"

section \<open>Choosing the extractor\<close>

datatype extractor = FakeExtractor | GeminiExtractor gemini_extractor

text \<open>\<open>client_ok\<close>: whether the HTTP client could be built.\<close>

definition gemini_new :: "bool \<Rightarrow> gemini_extractor \<Rightarrow> receipt_error + gemini_extractor" where
  "gemini_new client_ok c =
     (if \<not> client_ok then Inl (dependency ''failed to build gemini HTTP client'')
      else Inr (c\<lparr>ge_api_base := trim_end_set [''/''] (ge_api_base c)\<rparr>))"

definition build_extractor :: "bool \<Rightarrow> files \<Rightarrow> resolved_config \<Rightarrow> string + extractor" where
  "build_extractor client_ok fs rc =
     (case rc_extraction_backend rc of
        Fake \<Rightarrow> Inr FakeExtractor
      | Gemini \<Rightarrow>
          (case extraction_profile rc (rc_extraction_default_profile rc) of
             None \<Rightarrow> Inl ''extraction.default_profile is not a loaded AI profile''
           | Some p \<Rightarrow>
               (case read_credential fs rc (ap_credential p) of
                  Inl e \<Rightarrow> Inl e
                | Inr key \<Rightarrow>
                    (case gemini_new client_ok
                        \<lparr>ge_api_base = rc_gemini_api_base rc, ge_api_key = key, ge_model = ap_model p, ge_profile_name = ap_name p,
                         ge_max_input_bytes = ap_max_input_bytes p, ge_max_output_tokens = ap_max_output_tokens p,
                         ge_thinking_effort = ap_thinking_effort p, ge_schema_version = ap_schema_version p\<rparr> of
                       Inl (ReceiptError c m) \<Rightarrow> Inl (''gemini extractor: '' @ m)
                     | Inr g \<Rightarrow> Inr (GeminiExtractor g)))))"

text \<open>\<^verbatim>\<open>ReceiptExtractor::extract\<close>\<close>

definition run_extractor ::
  "extract_libs \<Rightarrow> string \<Rightarrow> (gemini_request \<Rightarrow> gemini_answer) \<Rightarrow> extractor \<Rightarrow> string \<Rightarrow> receipt_error + extracted_attempt" where
  "run_extractor X prompt net x bytes =
     (case x of
        FakeExtractor \<Rightarrow> map_sum id (\<lambda>r. \<lparr>xa_result = r, xa_meta = extraction_meta_fake\<rparr>) (fake_extract X bytes)
      | GeminiExtractor g \<Rightarrow> gemini_execute X prompt net g bytes)"

end
