(* ===== verification/Extraction_Properties.thy ===== *)
theory Extraction_Properties
  imports Receipt_Extraction Config_Properties Receipt_Review
begin

text \<open>
  What an extractor answers: a draft the tables accept, of a category of the catalogue, within the limits of its profile.
\<close>

section \<open>Edge lengths\<close>

lemma round_even_le: "0 < b \<Longrightarrow> 2 * b * round_even a b \<le> 2 * a + b"
proof -
  assume b: "0 < b"
  have a: "a = b * (a div b) + a mod b" by simp
  have "2 * b * (a div b + 1) = 2 * (b * (a div b)) + 2 * b" by (simp add: algebra_simps)
  then have "2 * b * (a div b + 1) \<le> 2 * a + b" if "b \<le> 2 * (a mod b)" using that a by linarith
  moreover have "2 * b * (a div b) \<le> 2 * a + b" using a by (metis le_add1 mult.assoc mult_le_mono2 trans_le_add1)
  ultimately show ?thesis by (auto simp: round_even_def Let_def)
qed

lemma first_where_least:
  assumes "P m" "m < n"
  shows "P (first_where P n)" "first_where P n \<le> m" "k < first_where P n \<Longrightarrow> \<not> P k"
proof -
  obtain i where i: "List.find P [0..<n] = Some i" using assms by (cases "List.find P [0..<n]") (auto simp: find_None_iff)
  then have f: "first_where P n = i" by (simp add: first_where_def)
  from i have *: "i < n" "P i" "\<And>k. k < i \<Longrightarrow> \<not> P k" by (auto simp: find_Some_iff)
  show "P (first_where P n)" "k < first_where P n \<Longrightarrow> \<not> P k" using f * by auto
  show "first_where P n \<le> m" using f *(3) assms(1) leI by blast
qed

lemma f64_significand_le:
  assumes "n < 2 ^ 100"
  shows "\<exists>j. 2 * f64_significand n \<le> 2 * n + 2 ^ j \<and> (j = 0 \<or> 2 ^ 52 * 2 ^ j \<le> n)"
proof -
  let ?P = "\<lambda>j. n < (2::nat) ^ (53 + j)" let ?j = "first_where ?P 64"
  have m: "?P 47" using assms by simp
  have "2 * f64_significand n \<le> 2 * n + 2 ^ ?j"
    using round_even_le [of "2 ^ ?j" n] by (simp add: f64_significand_def Let_def mult_ac)
  moreover have "?j = 0 \<or> 2 ^ 52 * 2 ^ ?j \<le> n"
  proof (cases ?j)
    case (Suc i)
    then have "\<not> ?P i" using first_where_least(3) [of ?P 47 64 i] m by simp
    then show ?thesis using Suc by (simp add: power_add not_less mult_ac)
  qed simp
  ultimately show ?thesis by blast
qed

text \<open>No edge of the scaled image exceeds the limit, in spite of the rounding of \<^verbatim>\<open>f64\<close>.\<close>

lemma scaled_edge_bound:
  assumes "edge \<le> longest" "max_extraction_edge < longest" "longest < 2 ^ 32"
  shows "1 \<le> scaled_edge edge longest" "scaled_edge edge longest \<le> max_extraction_edge"
proof -
  let ?P = "\<lambda>k. 2 ^ 52 * longest \<le> (2048::nat) * 2 ^ k" let ?k = "first_where ?P 128"
  let ?m = "round_even (2048 * 2 ^ ?k) longest" let ?n = "edge * ?m"
  define K :: nat where "K = 2 ^ ?k"
  have P: "?P 73" using assms(3) by simp
  have less: "(73::nat) < 128" by simp
  have low: "2 ^ 52 * longest \<le> 2048 * K" unfolding K_def by (rule first_where_least(1) [where P = ?P, OF P less])
  have "?k \<le> 73" by (rule first_where_least(2) [where P = ?P, OF P less])
  then have "K \<le> 2 ^ 73" unfolding K_def by (rule power_increasing) simp
  have "2 * longest * ?m \<le> 2 * (2048 * K) + longest" using round_even_le [of longest "2048 * K"] assms(2) by (simp add: K_def)
  moreover have "2 * ?n \<le> 2 * longest * ?m" using assms(1) by simp
  ultimately have n: "2 * ?n \<le> 4096 * K + longest" by linarith
  have "2 * ?n < 2 * 2 ^ 100"
    by (rule le_less_trans [OF n]) (use \<open>K \<le> 2 ^ 73\<close> assms(3) in simp)
  then have "?n < 2 ^ 100" by (rule mult_less_cancel1 [THEN iffD1, THEN conjunct2])
  then obtain j where j: "2 * f64_significand ?n \<le> 2 * ?n + 2 ^ j" "j = 0 \<or> 2 ^ 52 * 2 ^ j \<le> ?n" using f64_significand_le by blast
  have big: "2 ^ 41 * longest \<le> K" using low by simp
  have "2 ^ 40 * (2::nat) ^ j \<le> K \<or> (2::nat) ^ j = 1" using j(2) n big assms(2) by (auto simp: max_extraction_edge_def)
  then have "longest + 2 ^ j < K" using big assms(2) by (auto simp: max_extraction_edge_def)
  then have "2 * f64_significand ?n + K < 2049 * (2 * K)" using j(1) n by linarith
  then have "(2 * f64_significand ?n + K) div (2 * K) < 2049" by (simp add: less_mult_imp_div_less)
  moreover have "scaled_edge edge longest = max 1 ((2 * f64_significand ?n + K) div (2 * K))"
    by (simp add: scaled_edge_def f64_ratio_def max_extraction_edge_def Let_def K_def)
  ultimately show "1 \<le> scaled_edge edge longest" "scaled_edge edge longest \<le> max_extraction_edge"
    by (simp_all add: max_extraction_edge_def)
qed

section \<open>Gemini\<close>

lemma clamp_in_unit: "f32_in_unit (clamp_unit v)"
  by (cases v) auto

lemma or_invalid_Inr: "or_invalid m v = Inr x \<longleftrightarrow> v = Some x"
  by (cases v) (simp_all add: or_invalid_def)

lemma check_field_Inr: "check_field b m = Inr u \<longleftrightarrow> b"
  by (simp add: check_field_def)

lemmas parse_simps = ebind_Inr or_invalid_Inr check_field_Inr

lemma parse_extraction_json_ok:
  assumes "parse_extraction_json X t = Inr r"
  shows "\<exists>raw. validate_merchant raw = Inr (ex_merchant r)" "ex_category_key r \<in> set extraction_category_keys"
    "ex_transaction_type r \<in> {''expense'', ''income'', ''transfer''}" "\<exists>v. ex_confidence r = clamp_unit v"
    "\<not> ex_unsupported r \<Longrightarrow> validate_amount_minor (ex_amount_minor r) = Inr () \<and> validate_currency (ex_currency r) = Inr ()"
  using assms by (auto simp: parse_extraction_json_def parse_simps split: if_splits)

lemma validate_merchant_ok:
  assumes "validate_merchant raw = Inr t"
  shows "1 \<le> char_count (btrim t)" "char_count (btrim t) \<le> 200"
  using assms btrim_trim [of raw] by (auto simp: validate_merchant_def Let_def max_merchant_chars_def split: if_splits)

lemma parsed_draft_ok:
  assumes "parse_extraction_json X t = Inr r" "\<not> ex_unsupported r"
  shows "draft_row_ok (extracted_draft i sid aid r)"
proof -
  note P = parse_extraction_json_ok [OF assms(1)]
  obtain raw v where m: "validate_merchant raw = Inr (ex_merchant r)" and c: "ex_confidence r = clamp_unit v" using P(1,4) by blast
  have "0 < ex_amount_minor r" "length (ex_currency r) = 3" "list_all is_ascii_uppercase (ex_currency r)"
    using P(5) [OF assms(2)] by (auto simp: validate_amount_minor_def validate_currency_def split: if_splits)
  then show ?thesis
    using validate_merchant_ok [OF m] P(3) clamp_in_unit [of v] c
    by (auto simp: draft_row_ok_def extracted_draft_def transaction_types_def)
qed

lemma gemini_execute_parses:
  assumes "gemini_execute X prompt net G bytes = Inr a"
  shows "\<exists>t. parse_extraction_json X t = Inr (xa_result a)"
proof -
  obtain b where "parse_generate_content X b (gemini_meta G) = Inr a"
    using assms by (auto simp: gemini_execute_def parse_simps split: if_splits gemini_answer.splits option.splits)
  then show ?thesis by (auto simp: parse_generate_content_def parse_simps)
qed

text \<open>The answer determines the result through the bytes the adapter sent, which respect the limit of the profile.\<close>

lemma gemini_input_bounded:
  assumes "gemini_execute X prompt net G bytes = Inr a"
  shows "\<exists>jpeg. downscale_to_jpeg X bytes = Inr jpeg \<and> length jpeg \<le> ge_max_input_bytes G"
  using assms by (auto simp: gemini_execute_def parse_simps)

section \<open>The corpus\<close>

lemma corpus_ok:
  "list_all (\<lambda>e. ce_category_key e \<in> set extraction_category_keys
     \<and> (ce_unsupported e \<or> draft_row_ok (extracted_draft i sid aid (corpus_result X e)))) corpus"
  by code_simp

lemma corpus_entry_in: "corpus_entry_for X bytes = Inr e \<Longrightarrow> e \<in> set corpus"
proof -
  assume e: "corpus_entry_for X bytes = Inr e"
  have "index_for X bytes < length corpus" by (simp add: index_for_def corpus_def)
  with e show ?thesis
    by (auto simp: corpus_entry_for_def parse_simps find_Some_iff split: option.splits if_splits)
qed

section \<open>The extractors\<close>

text \<open>
C35: Whichever extractor the configuration selects and whatever a provider answers, the result of an extraction that is not
marked unsupported is a draft the tables accept (a positive amount, a three-letter currency, a merchant of 1 to 200
characters, a known transaction type, a confidence between 0 and 1), and its category is one of the catalogue.
\<close>

theorem extracted_draft_is_valid:
  assumes "run_extractor X prompt net x bytes = Inr a"
  shows "ex_category_key (xa_result a) \<in> set extraction_category_keys
    \<and> (ex_unsupported (xa_result a) \<or> draft_row_ok (extracted_draft i sid aid (xa_result a)))"
proof (cases x)
  case FakeExtractor
  then obtain e where "corpus_entry_for X bytes = Inr e" "xa_result a = corpus_result X e"
    using assms by (auto simp: run_extractor_def fake_extract_def map_sum_def split: sum.splits)
  then show ?thesis
    using corpus_entry_in corpus_ok [of i sid aid X] by (auto simp: list_all_iff corpus_result_def)
next
  case (GeminiExtractor g)
  then obtain t where "parse_extraction_json X t = Inr (xa_result a)"
    using assms gemini_execute_parses [of X prompt net g bytes a] by (auto simp: run_extractor_def)
  then show ?thesis using parse_extraction_json_ok(2) parsed_draft_ok by blast
qed

text \<open>An example: the answer of a thinking model, with a thought before the result.\<close>

definition demo_output :: json where
  "demo_output = JObject [(''merchant'', JString '' Co.opmart ''), (''amount_minor'', JInt 325000), (''currency'', JString ''VND''),
     (''category_key'', JString ''thuc-pham''), (''transaction_type'', JString ''expense''), (''occurred_at'', JString ''t''),
     (''confidence'', JFloat ''1.5''), (''unsupported'', JBool False)]"

definition demo_answer :: json where
  "demo_answer = JObject [(''candidates'', JArray [JObject [(''finishReason'', JString ''STOP''),
     (''content'', JObject [(''parts'', JArray [JObject [(''thought'', JBool True), (''text'', JString ''hm'')],
        JObject [(''text'', JString ''out'')]])])]])]"

definition demo_extract_libs :: extract_libs where
  "demo_extract_libs =
     \<lparr>xl_json = (\<lambda>t. if t = ''out'' then Some demo_output else if t = ''answer'' then Some demo_answer else None),
      xl_f32 = (\<lambda>j. Some (F32 3 (-1))), xl_rfc3339 = (\<lambda>t. Some 0), xl_base64 = (\<lambda>b. b), xl_decode = (\<lambda>b. Some (10, 10)),
      xl_encode = (\<lambda>b box. Some b), xl_header_ok = (\<lambda>h. True), xl_sha256 = (\<lambda>b. b), xl_utf8 = (\<lambda>b. True),
      xl_utc = (\<lambda>y mo d h mi. 0)\<rparr>"

definition demo_gemini :: gemini_extractor where
  "demo_gemini = \<lparr>ge_api_base = ''https://g'', ge_api_key = ''k'', ge_model = ''gemini-2.5-flash'', ge_profile_name = ''p'',
     ge_max_input_bytes = 100, ge_max_output_tokens = 100, ge_thinking_effort = ''none'', ge_schema_version = ''v1''\<rparr>"

definition demo_result :: extraction_result where
  "demo_result = \<lparr>ex_merchant = ''Co.opmart'', ex_amount_minor = 325000, ex_currency = ''VND'', ex_category_key = ''thuc-pham'',
     ex_transaction_type = ''expense'', ex_occurred_at = 0, ex_confidence = Finite 1 0, ex_unsupported = False\<rparr>"

lemma pointer_zero: "pointer_index ''0'' = Some 0"
  by (simp add: pointer_index_def parse_u64_def starts_with_def is_ascii_digit_def digits_value.simps byte_def digit_val_def)

lemma demo_text: "extract_candidate_text demo_answer = Some ''out''"
proof -
  have "part_text (JObject [(''text'', JString ''out'')]) = Some ''out''" by code_simp
  then show ?thesis by (simp add: extract_candidate_text_def demo_answer_def pointer_zero)
qed

lemma demo_parses: "parse_extraction_json demo_extract_libs ''out'' = Inr demo_result"
proof -
  have "validate_merchant '' Co.opmart '' = Inr ''Co.opmart''" "validate_currency ''VND'' = Inr ()"
    "''thuc-pham'' \<in> set extraction_category_keys" by code_simp+
  then show ?thesis
    by (simp add: parse_extraction_json_def demo_extract_libs_def demo_output_def or_invalid_def check_field_def
        validate_amount_minor_def demo_result_def)
qed

lemma demo_extracts:
  "run_extractor demo_extract_libs ''prompt'' (\<lambda>q. GeminiAnswer 200 (Some ''answer'')) (GeminiExtractor demo_gemini) ''img''
   = Inr \<lparr>xa_result = demo_result, xa_meta = gemini_meta demo_gemini\<rparr>"
proof -
  have "parse_generate_content demo_extract_libs ''answer'' (gemini_meta demo_gemini)
      = Inr \<lparr>xa_result = demo_result, xa_meta = gemini_meta demo_gemini\<rparr>"
    unfolding parse_generate_content_def
    by (simp add: demo_extract_libs_def or_invalid_def demo_text check_field_def demo_parses [unfolded demo_extract_libs_def] token_count_def)
      (simp add: demo_answer_def pointer_zero token_count_def gemini_meta_def)
  moreover have "downscale_to_jpeg demo_extract_libs ''img'' = Inr ''img''"
    by (simp add: downscale_to_jpeg_def demo_extract_libs_def max_extraction_edge_def)
  ultimately show ?thesis
    by (simp add: run_extractor_def gemini_execute_def check_field_def demo_gemini_def gemini_status_error_def)
      (simp add: demo_extract_libs_def)
qed

theorem extracted_draft_is_valid_witness:
  "draft_row_ok (extracted_draft 1 2 3 demo_result)"
  using extracted_draft_is_valid [OF demo_extracts, of 1 2 3] by (simp add: demo_result_def)

section \<open>With the configuration\<close>

text \<open>
  A configuration that loads has what the extractor needs: only a missing credential or an HTTP client that cannot be
  built can stop it, and the extractor respects the limits of a checked profile.
\<close>

lemma loaded_extractor:
  assumes "load_config FL env fs path = Inr rc" "build_extractor client_ok fs' rc = r"
  shows "(rc_extraction_backend rc = Fake \<longrightarrow> r = Inr FakeExtractor)
    \<and> (rc_extraction_backend rc = Gemini \<longrightarrow>
        (\<exists>p. profile_ok p \<and>
          (case read_credential fs' rc (ap_credential p) of
             Inl e \<Rightarrow> r = Inl e
           | Inr key \<Rightarrow> if client_ok then \<exists>g. r = Inr (GeminiExtractor g) \<and> ge_api_key g = key \<and> ge_max_input_bytes g \<le> 10485760
               else isl r)))"
proof -
  have u: "backends_usable FL rc"
    using load_config_stages [OF assms(1)] checked_resolution(3) by metis
  then show ?thesis
    using assms(2) by (auto simp: backends_usable_def build_extractor_def gemini_new_def profile_ok_def dependency_def split: sum.splits)
qed

end
