(* ===== verification/Operator.thy ===== *)
theory Operator
  imports Scheduler S3_Store
begin

text \<open>
  The operator's commands, \<^verbatim>\<open>src/operator/\<close>, and the checks of the database they use, \<^verbatim>\<open>src/db/migrate.rs\<close>: the status report, the
  list of jobs and their recovery, the ingress mode, the health checks of \<^verbatim>\<open>doctor\<close>, the diagnostic bundle, backups and logs. What a
  command prints is part of its result. External programs, HTTP and the text of times and of JSON are parameters.
\<close>

section \<open>The database\<close>

text \<open>The row of \<^verbatim>\<open>ingress_control\<close> has a generation besides the mode; it may be missing.\<close>

record operator_db = runtime_db +
  mode_generation :: "int option"

definition create_pool :: "bool \<Rightarrow> app_err + unit" where
  "create_pool okay = (if okay then Inr () else Inl (AppErr EDependency ''database connection failed''))"

definition check_connection :: "bool \<Rightarrow> app_err + unit" where
  "check_connection okay = (if okay then Inr () else Inl (AppErr EDependency ''database connection failed''))"

definition migrate :: "bool \<Rightarrow> app_err + unit" where
  "migrate okay = (if okay then Inr () else Inl (AppErr EMigration ''migration failed''))"

datatype migration_count = MigrationRows int | MigrationTableMissing | MigrationQueryFailed

definition check_migrations_current :: "nat \<Rightarrow> migration_count \<Rightarrow> app_err + bool" where
  "check_migrations_current expected q =
     (case q of
        MigrationRows applied \<Rightarrow> Inr (int expected \<le> applied)
      | MigrationTableMissing \<Rightarrow> Inr False
      | MigrationQueryFailed \<Rightarrow> Inl (AppErr EDependency ''failed to read migration state''))"

text \<open>\<^verbatim>\<open>unwrap_or(false)\<close>\<close>

definition or_false :: "app_err + bool \<Rightarrow> bool" where
  "or_false r = (case r of Inl _ \<Rightarrow> False | Inr b \<Rightarrow> b)"

text \<open>
  What the outside gives one command: the clock, the faults of its queries, and the answers it asks for; also the latest \<^verbatim>\<open>received_at\<close> of the
  events, a column their rows leave out.
\<close>

record operator_env =
  oe_now :: instant
  oe_fault :: db_fault
  oe_pool_ok :: bool
  oe_connected :: bool
  oe_migrations :: migration_count
  oe_expected :: nat
  oe_last_inbound :: "instant option"
  oe_show_time :: "instant \<Rightarrow> string"
  oe_show_uuid :: "uuid \<Rightarrow> string"
  oe_pretty :: "json \<Rightarrow> string"
  oe_compact :: "json \<Rightarrow> string"
  oe_serde_time :: "instant \<Rightarrow> string"
  oe_rfc3339 :: "instant \<Rightarrow> string"

section \<open>Status\<close>

record job_counts =
  jc_queued :: int
  jc_leased :: int
  jc_completed :: int
  jc_cancelled :: int
  jc_dead :: int

record outbound_counts =
  oc_queued :: int
  oc_sending :: int
  oc_sent :: int
  oc_failed :: int
  oc_suppressed :: int
  oc_ambiguous :: int

record status_report =
  sr_healthy :: bool
  sr_ready :: bool
  sr_migrations_current :: bool
  sr_mode :: string
  sr_mode_generation :: int
  sr_jobs :: job_counts
  sr_jobs_dead :: int
  sr_oldest_queued_age :: "int option"
  sr_outbound :: outbound_counts
  sr_last_inbound :: "instant option"

fun outbound_state_as_str :: "outbound_state \<Rightarrow> string" where
  "outbound_state_as_str OQueued = ''queued''"
| "outbound_state_as_str OSending = ''sending''"
| "outbound_state_as_str OSent = ''sent''"
| "outbound_state_as_str OFailed = ''failed''"
| "outbound_state_as_str OSuppressed = ''suppressed''"
| "outbound_state_as_str OAmbiguous = ''ambiguous''"

text \<open>\<^verbatim>\<open>SELECT state, COUNT(*) ... GROUP BY state\<close>: one row per state that occurs.\<close>

definition group_counts :: "string list \<Rightarrow> (string \<times> int) list" where
  "group_counts ss = map (\<lambda>s. (s, int (length (filter ((=) s) ss)))) (remdups ss)"

definition job_counts_default :: job_counts where
  "job_counts_default = \<lparr>jc_queued = 0, jc_leased = 0, jc_completed = 0, jc_cancelled = 0, jc_dead = 0\<rparr>"

fun add_job_row :: "string \<times> int \<Rightarrow> job_counts \<Rightarrow> job_counts" where
  "add_job_row (s, n) c =
     (if s = ''queued'' then c\<lparr>jc_queued := n\<rparr> else if s = ''leased'' then c\<lparr>jc_leased := n\<rparr>
      else if s = ''completed'' then c\<lparr>jc_completed := n\<rparr> else if s = ''cancelled'' then c\<lparr>jc_cancelled := n\<rparr>
      else if s = ''dead'' then c\<lparr>jc_dead := n\<rparr> else c)"

definition outbound_counts_default :: outbound_counts where
  "outbound_counts_default =
     \<lparr>oc_queued = 0, oc_sending = 0, oc_sent = 0, oc_failed = 0, oc_suppressed = 0, oc_ambiguous = 0\<rparr>"

fun add_outbound_row :: "string \<times> int \<Rightarrow> outbound_counts \<Rightarrow> outbound_counts" where
  "add_outbound_row (s, n) c =
     (if s = ''queued'' then c\<lparr>oc_queued := n\<rparr> else if s = ''sending'' then c\<lparr>oc_sending := n\<rparr>
      else if s = ''sent'' then c\<lparr>oc_sent := n\<rparr> else if s = ''failed'' then c\<lparr>oc_failed := n\<rparr>
      else if s = ''suppressed'' then c\<lparr>oc_suppressed := n\<rparr> else if s = ''ambiguous'' then c\<lparr>oc_ambiguous := n\<rparr> else c)"

text \<open>\<^verbatim>\<open>EXTRACT(EPOCH FROM ...)::BIGINT\<close>: microseconds to seconds, rounded half away from zero.\<close>

definition epoch_seconds :: "int \<Rightarrow> int" where
  "epoch_seconds us = (if 0 \<le> us then (us + 500000) div 1000000 else - ((- us + 500000) div 1000000))"

definition oldest_queued_age :: "instant \<Rightarrow> job list \<Rightarrow> int option" where
  "oldest_queued_age now js =
     (case map j_run_at (filter (\<lambda>j. j_state j = Queued) js) of
        [] \<Rightarrow> None
      | t # ts \<Rightarrow> Some (epoch_seconds (now - fold min ts t)))"

definition query_failed :: "operator_env \<Rightarrow> string \<Rightarrow> bool" where
  "query_failed E m \<longleftrightarrow> oe_fault E = FaultAt m"

definition collect_status :: "operator_env \<Rightarrow> 'z operator_db_scheme \<Rightarrow> app_err + status_report" where
  "collect_status E d =
     (let db_ok = \<not> isl (check_connection (oe_connected E));
          current = db_ok \<and> or_false (check_migrations_current (oe_expected E) (oe_migrations E))
      in
      if query_failed E ''failed to read ingress control'' then Inl (AppErr EDependency ''failed to read ingress control'')
      else case mode_generation d of
        None \<Rightarrow> Inl (AppErr EDependency ''ingress control row missing'')
      | Some gen \<Rightarrow>
          if query_failed E ''failed to count jobs'' then Inl (AppErr EDependency ''failed to count jobs'')
          else
            let js = fold add_job_row (group_counts (map (job_state_as_str \<circ> j_state) (jobs d))) job_counts_default in
            if query_failed E ''failed to read oldest queued job age''
            then Inl (AppErr EDependency ''failed to read oldest queued job age'')
            else if query_failed E ''failed to count outbound messages''
            then Inl (AppErr EDependency ''failed to count outbound messages'')
            else
              let os = fold add_outbound_row (group_counts (map (outbound_state_as_str \<circ> o_state) (outbound_messages d)))
                    outbound_counts_default
              in
              if query_failed E ''failed to read last inbound event''
              then Inl (AppErr EDependency ''failed to read last inbound event'')
              else Inr \<lparr>sr_healthy = db_ok, sr_ready = db_ok \<and> current, sr_migrations_current = current,
                        sr_mode = ingress_mode d, sr_mode_generation = gen, sr_jobs = js, sr_jobs_dead = jc_dead js,
                        sr_oldest_queued_age = oldest_queued_age (oe_now E) (jobs d), sr_outbound = os,
                        sr_last_inbound = oe_last_inbound E\<rparr>)"

definition time_json :: "operator_env \<Rightarrow> instant option \<Rightarrow> json" where
  "time_json E t = (case t of None \<Rightarrow> JNull | Some x \<Rightarrow> JString (oe_serde_time E x))"

definition int_json :: "int option \<Rightarrow> json" where
  "int_json v = (case v of None \<Rightarrow> JNull | Some n \<Rightarrow> JInt n)"

definition status_json :: "operator_env \<Rightarrow> status_report \<Rightarrow> json" where
  "status_json E r =
     JObject [(''healthy'', JBool (sr_healthy r)), (''ready'', JBool (sr_ready r)),
       (''migrations_current'', JBool (sr_migrations_current r)),
       (''ingress'', JObject [(''mode'', JString (sr_mode r)), (''mode_generation'', JInt (sr_mode_generation r))]),
       (''jobs'', JObject [(''queued'', JInt (jc_queued (sr_jobs r))), (''leased'', JInt (jc_leased (sr_jobs r))),
          (''completed'', JInt (jc_completed (sr_jobs r))), (''cancelled'', JInt (jc_cancelled (sr_jobs r))),
          (''dead'', JInt (jc_dead (sr_jobs r)))]),
       (''jobs_dead'', JInt (sr_jobs_dead r)), (''jobs_oldest_queued_age_seconds'', int_json (sr_oldest_queued_age r)),
       (''outbound'', JObject [(''queued'', JInt (oc_queued (sr_outbound r))), (''sending'', JInt (oc_sending (sr_outbound r))),
          (''sent'', JInt (oc_sent (sr_outbound r))), (''failed'', JInt (oc_failed (sr_outbound r))),
          (''suppressed'', JInt (oc_suppressed (sr_outbound r))), (''ambiguous'', JInt (oc_ambiguous (sr_outbound r)))]),
       (''last_inbound_received_at'', time_json E (sr_last_inbound r))]"

definition show_bool :: "bool \<Rightarrow> string" where
  "show_bool b = (if b then ''true'' else ''false'')"

text \<open>The lines of \<^verbatim>\<open>print_text\<close>.\<close>

definition print_text :: "operator_env \<Rightarrow> status_report \<Rightarrow> string list" where
  "print_text E r =
     [''healthy: '' @ show_bool (sr_healthy r), ''ready: '' @ show_bool (sr_ready r),
      ''migrations_current: '' @ show_bool (sr_migrations_current r),
      ''ingress: mode='' @ sr_mode r @ '' generation='' @ show_int (sr_mode_generation r),
      ''jobs: queued='' @ show_int (jc_queued (sr_jobs r)) @ '' leased='' @ show_int (jc_leased (sr_jobs r)) @ '' completed=''
        @ show_int (jc_completed (sr_jobs r)) @ '' cancelled='' @ show_int (jc_cancelled (sr_jobs r)) @ '' dead=''
        @ show_int (jc_dead (sr_jobs r))]
     @ (case sr_oldest_queued_age r of None \<Rightarrow> [] | Some age \<Rightarrow> [''jobs_oldest_queued_age_seconds: '' @ show_int age])
     @ [''outbound: queued='' @ show_int (oc_queued (sr_outbound r)) @ '' sending='' @ show_int (oc_sending (sr_outbound r)) @ '' sent=''
        @ show_int (oc_sent (sr_outbound r)) @ '' failed='' @ show_int (oc_failed (sr_outbound r)) @ '' suppressed=''
        @ show_int (oc_suppressed (sr_outbound r)) @ '' ambiguous='' @ show_int (oc_ambiguous (sr_outbound r))]
     @ (case sr_last_inbound r of None \<Rightarrow> [] | Some t \<Rightarrow> [''last_inbound_received_at: '' @ oe_show_time E t])"

definition run_status :: "operator_env \<Rightarrow> bool \<Rightarrow> 'z operator_db_scheme \<Rightarrow> app_err + string list" where
  "run_status E as_json d =
     map_sum id (\<lambda>r. if as_json then [oe_pretty E (status_json E r)] else print_text E r) (collect_status E d)"

section \<open>Jobs\<close>

fun work_app_error :: "work_error \<Rightarrow> app_err" where
  "work_app_error (WorkError c m) = AppErr c m"

definition pad_right :: "nat \<Rightarrow> string \<Rightarrow> string" where
  "pad_right n s = s @ replicate (n - char_count s) (CHR '' '')"

definition pad_left :: "nat \<Rightarrow> string \<Rightarrow> string" where
  "pad_left n s = replicate (n - char_count s) (CHR '' '') @ s"

definition or_dash :: "string option \<Rightarrow> string" where
  "or_dash v = (case v of None \<Rightarrow> ''-'' | Some s \<Rightarrow> s)"

definition table_line :: "string \<Rightarrow> string \<Rightarrow> string \<Rightarrow> string \<Rightarrow> string \<Rightarrow> string \<Rightarrow> string" where
  "table_line i t s n r e =
     pad_right 36 i @ '' '' @ pad_right 22 t @ '' '' @ pad_right 10 s @ '' '' @ pad_left 7 n @ '' '' @ pad_right 28 r @ '' '' @ e"

definition job_row_json :: "operator_env \<Rightarrow> job_list_row \<Rightarrow> json" where
  "job_row_json E row =
     JObject [(''id'', JString (oe_show_uuid E (jl_id row))), (''job_type'', JString (jl_job_type row)),
       (''state'', JString (job_state_as_str (jl_state row))), (''attempt_count'', JInt (jl_attempt_count row)),
       (''run_at'', JString (oe_serde_time E (jl_run_at row))),
       (''last_error_class'', case jl_last_error_class row of None \<Rightarrow> JNull | Some c \<Rightarrow> JString c)]"

definition run_jobs_list ::
  "operator_env \<Rightarrow> string option \<Rightarrow> nat \<Rightarrow> bool \<Rightarrow> 'z operator_db_scheme \<Rightarrow> app_err + string list" where
  "run_jobs_list E st limit as_json d =
     (if (case st of None \<Rightarrow> False | Some v \<Rightarrow> job_state_parse v = None)
      then Inl (AppErr EValidation (''unknown job state: '' @ the st))
      else case list_jobs (oe_fault E) st (max 1 (min limit 200)) d of
        Inl e \<Rightarrow> Inl (work_app_error e)
      | Inr rows \<Rightarrow>
          Inr (if as_json then [oe_pretty E (JArray (map (job_row_json E) rows))]
               else table_line ''ID'' ''JOB_TYPE'' ''STATE'' ''ATTEMPTS'' ''RUN_AT'' ''LAST_ERROR'' #
                 map (\<lambda>row. table_line (oe_show_uuid E (jl_id row)) (jl_job_type row) (job_state_as_str (jl_state row))
                   (show_int (jl_attempt_count row)) (oe_show_time E (jl_run_at row)) (or_dash (jl_last_error_class row))) rows))"

definition nl :: string where
  "nl = [CHR 0x0A]"

definition summary_text :: "operator_env \<Rightarrow> job_summary \<Rightarrow> string" where
  "summary_text E s =
     ''id='' @ oe_show_uuid E (js_id s) @ nl @ ''job_type='' @ js_job_type s @ nl @ ''payload_version='' @ show_int (js_payload_version s) @ nl
     @ ''state='' @ job_state_as_str (js_state s) @ nl @ ''priority='' @ show_int (js_priority s) @ nl
     @ ''run_at='' @ oe_show_time E (js_run_at s) @ nl @ ''attempt_count='' @ show_int (js_attempt_count s) @ nl
     @ ''max_attempts='' @ show_int (js_max_attempts s) @ nl @ ''last_error_class='' @ or_dash (js_last_error_class s) @ nl"

definition attempt_text :: "operator_env \<Rightarrow> attempt \<Rightarrow> string" where
  "attempt_text E a =
     ''attempt number='' @ show_int (a_attempt_number a) @ '' outcome='' @ or_dash (map_option attempt_outcome_as_str (a_outcome a))
     @ '' error_class='' @ or_dash (a_error_class a) @ '' started_at='' @ oe_show_time E (a_started_at a)
     @ '' ended_at='' @ or_dash (map_option (oe_rfc3339 E) (a_ended_at a)) @ nl"

definition forbidden_fields :: "string list" where
  "forbidden_fields =
     [[CHR 0x22] @ ''payload'' @ [CHR 0x22], ''dedupe_key'', ''serialization_key'', ''lease_token'', ''secret_payload'']"

definition reject_sensitive_operator_output :: "string \<Rightarrow> app_err + unit" where
  "reject_sensitive_operator_output output =
     (if list_ex (contains_str output) forbidden_fields
      then Inl (AppErr EInternal ''operator job output would include a forbidden field'') else Inr ())"

definition run_jobs_show :: "operator_env \<Rightarrow> uuid \<Rightarrow> 'z operator_db_scheme \<Rightarrow> app_err + string" where
  "run_jobs_show E i d =
     (case get_job_summary (oe_fault E) i d of
        Inl e \<Rightarrow> Inl (work_app_error e)
      | Inr s \<Rightarrow>
          (case list_attempts (oe_fault E) i d of
             Inl e \<Rightarrow> Inl (work_app_error e)
           | Inr attempts \<Rightarrow>
               let output = summary_text E s @ concat (map (attempt_text E) attempts) in
               map_sum id (\<lambda>_. output) (reject_sensitive_operator_output output)))"

definition run_jobs_retry :: "operator_env \<Rightarrow> uuid \<Rightarrow> 'z operator_db_scheme \<Rightarrow> (app_err + string) \<times> 'z operator_db_scheme" where
  "run_jobs_retry E i d =
     (case recover_dead (oe_fault E) (oe_now E) i d of (r, d') \<Rightarrow>
        (map_sum work_app_error (\<lambda>_. ''job '' @ oe_show_uuid E i @ '' requeued'') r, d'))"

definition run_jobs_cancel :: "operator_env \<Rightarrow> uuid \<Rightarrow> 'z operator_db_scheme \<Rightarrow> (app_err + string) \<times> 'z operator_db_scheme" where
  "run_jobs_cancel E i d =
     (case cancel_by_operator (oe_fault E) (oe_now E) i d of (r, d') \<Rightarrow>
        (map_sum work_app_error (\<lambda>_. ''job '' @ oe_show_uuid E i @ '' cancelled'') r, d'))"

section \<open>Ingress mode\<close>

definition run_ingress_status :: "operator_env \<Rightarrow> 'z operator_db_scheme \<Rightarrow> app_err + string list" where
  "run_ingress_status E d =
     (if query_failed E ''failed to read ingress control'' then Inl (AppErr EDependency ''failed to read ingress control'')
      else case mode_generation d of
        None \<Rightarrow> Inl (AppErr EDependency ''ingress control row missing'')
      | Some gen \<Rightarrow> Inr [''mode: '' @ ingress_mode d, ''mode_generation: '' @ show_int gen])"

text \<open>The generation is an \<^verbatim>\<open>INTEGER\<close>: adding one to the largest makes the statement fail.\<close>

definition run_ingress_switch ::
  "operator_env \<Rightarrow> string \<Rightarrow> 'z operator_db_scheme \<Rightarrow> (app_err + string list) \<times> 'z operator_db_scheme" where
  "run_ingress_switch E mode d =
     (if mode \<noteq> ''webhook'' \<and> mode \<noteq> ''poll'' then (Inl (AppErr EValidation (''unknown ingress mode: '' @ mode)), d)
      else
        let db_mode = (if mode = ''webhook'' then ''webhook'' else ''polling'') in
        if query_failed E ''ingress mode switch failed'' then (Inl (AppErr EDependency ''ingress mode switch failed''), d)
        else case mode_generation d of
          None \<Rightarrow> (Inl (AppErr EDependency ''ingress control row missing''), d)
        | Some gen \<Rightarrow>
            if i32_max < gen + 1 then (Inl (AppErr EDependency ''ingress mode switch failed''), d)
            else (Inr [''mode: '' @ db_mode, ''mode_generation: '' @ show_int (gen + 1)],
                  d\<lparr>ingress_mode := db_mode, mode_generation := Some (gen + 1)\<rparr>))"

section \<open>Doctor\<close>

datatype active_probe = ProbeZalo | ProbeGemini | ProbeObjectStore

definition is_loopback_host :: "string \<Rightarrow> bool" where
  "is_loopback_host h \<longleftrightarrow> h \<in> {''127.0.0.1'', ''::1'', ''localhost''}"

text \<open>\<^verbatim>\<open>rsplit_once(':')\<close>\<close>

definition before_last_colon :: "string \<Rightarrow> string" where
  "before_last_colon s =
     (if CHR '':'' \<in> set s then rev (tl (dropWhile (\<lambda>c. c \<noteq> CHR '':'') (rev s))) else s)"

definition listen_host :: "string \<Rightarrow> string" where
  "listen_host address =
     (case strip_prefix address ''['' of
        Some rest \<Rightarrow> takeWhile (\<lambda>c. c \<noteq> CHR '']'') rest
      | None \<Rightarrow> before_last_colon address)"

definition url_host :: "string \<Rightarrow> string" where
  "url_host u =
     (let rest = (case find_str u ''://'' of None \<Rightarrow> u | Some i \<Rightarrow> drop (i + 3) u)
      in listen_host (takeWhile (\<lambda>c. c \<noteq> CHR ''/'') rest))"

definition is_loopback_listen :: "string \<Rightarrow> bool" where
  "is_loopback_listen address = is_loopback_host (listen_host address)"

definition is_loopback_url :: "string \<Rightarrow> bool" where
  "is_loopback_url u = is_loopback_host (url_host u)"

definition doctor_warnings :: "operator_env \<Rightarrow> string list option \<Rightarrow> resolved_config \<Rightarrow> (error_class \<times> string) list" where
  "doctor_warnings E credential_files rc =
     (if oe_pool_ok E \<and> oe_connected E \<and> \<not> or_false (check_migrations_current (oe_expected E) (oe_migrations E))
      then [(EMigration, ''database migrations are not current'')] else [])
     @ (if credential_files = None then [(EConfig, ''credentials directory is unreadable'')] else [])
     @ (if \<not> is_loopback_listen (rc_listen_address rc) then [(EHealthFailed, ''listen_address is not loopback'')] else [])
     @ (if rc_metrics_enabled rc \<and> \<not> is_loopback_listen (rc_listen_address rc)
        then [(EHealthFailed, ''metrics enabled with non-loopback listener'')] else [])"

definition warning_json :: "error_class \<times> string \<Rightarrow> json" where
  "warning_json w = JObject [(''error_class'', JString (error_class_as_str (fst w))), (''message'', JString (snd w))]"

text \<open>
  The probes: \<open>http\<close> answers a request with a status, or fails; \<open>store\<close> says for put, get and delete of the probe key whether they
  work and whether the object is there.
\<close>

record probe_env =
  pb_client_ok :: bool
  pb_http :: "string \<Rightarrow> nat option"
  pb_build :: "string + unit"
  pb_put_ok :: bool
  pb_get :: "bool option"
  pb_delete_ok :: bool

definition http_probe :: "probe_env \<Rightarrow> string \<Rightarrow> string \<Rightarrow> string \<Rightarrow> app_err + string" where
  "http_probe P base label failure =
     (if \<not> pb_client_ok P then Inl (AppErr EDependency ''http client unavailable'')
      else case pb_http P (trim_end_set [''/''] base @ ''/'') of
        None \<Rightarrow> Inl (AppErr EDependency failure)
      | Some status \<Rightarrow> Inr (label @ show_nat status))"

definition run_active_probe :: "probe_env \<Rightarrow> resolved_config \<Rightarrow> active_probe \<Rightarrow> app_err + string" where
  "run_active_probe P rc probe =
     (case probe of
        ProbeZalo \<Rightarrow> http_probe P (rc_zalo_api_base rc) ''zalo_probe_status: '' ''zalo api probe failed''
      | ProbeGemini \<Rightarrow>
          if \<not> is_loopback_url (rc_gemini_api_base rc)
          then Inl (AppErr EValidation ''live provider tests are opt-in; gemini api_base must be loopback for doctor --active gemini'')
          else http_probe P (rc_gemini_api_base rc) ''gemini_probe_status: '' ''gemini api probe failed''
      | ProbeObjectStore \<Rightarrow>
          (case pb_build P of
             Inl m \<Rightarrow> Inl (AppErr EConfig m)
           | Inr _ \<Rightarrow>
               if \<not> pb_put_ok P then Inl (AppErr EDependency ''object store probe put failed'')
               else case pb_get P of
                 None \<Rightarrow> Inl (AppErr EDependency ''object store probe get failed'')
               | Some present \<Rightarrow>
                   if \<not> pb_delete_ok P then Inl (AppErr EDependency ''object store probe delete failed'')
                   else Inr (''object_store_probe: '' @ (if present then ''ok'' else ''missing''))))"

text \<open>
  \<^verbatim>\<open>run_doctor\<close>; the configuration is loaded a second time by \<^verbatim>\<open>validate_config\<close>, which can fail where the first did not. The first
  component is what is printed, the second the result.
\<close>

definition kill_switches :: "resolved_config \<Rightarrow> string" where
  "kill_switches rc =
     ''kill_switches: extraction_enabled='' @ show_bool (rc_extraction_enabled rc) @ '' outbound_enabled=''
     @ show_bool (rc_outbound_enabled rc) @ '' insights_llm_enabled='' @ show_bool (rc_insights_llm_enabled rc)"

definition run_doctor ::
  "operator_env \<Rightarrow> probe_env \<Rightarrow> string + resolved_config \<Rightarrow> string + resolved_config \<Rightarrow> string list option \<Rightarrow> active_probe option \<Rightarrow>
   string list \<times> (app_err + unit)" where
  "run_doctor E P loaded again credential_files active =
     (case loaded of
        Inl m \<Rightarrow> ([], Inl (AppErr EConfig m))
      | Inr rc \<Rightarrow>
          let hard_fail = (isl again \<or> \<not> oe_pool_ok E \<or> \<not> oe_connected E);
              out = (case credential_files of None \<Rightarrow> [] | Some ns \<Rightarrow> [''credential_files: '' @ join_with '', '' (sort_by bytes_le ns)])
                @ [kill_switches rc] @ map (oe_compact E \<circ> warning_json) (doctor_warnings E credential_files rc)
          in case (case active of None \<Rightarrow> Inr [] | Some p \<Rightarrow> map_sum id (\<lambda>l. [l]) (run_active_probe P rc p)) of
               Inl e \<Rightarrow> (out, Inl e)
             | Inr ls \<Rightarrow> (out @ ls, if hard_fail then Inl (AppErr EDependency ''doctor detected hard failures'') else Inr ()))"

section \<open>Backups and logs\<close>

datatype process_answer = NotStarted | Exited bool

definition process_result :: "string \<Rightarrow> process_answer \<Rightarrow> string \<Rightarrow> app_err + string list" where
  "process_result program a done_message =
     (case a of
        NotStarted \<Rightarrow> Inl (AppErr EDependency (program @ '' unavailable''))
      | Exited okay \<Rightarrow> if okay then Inr [done_message] else Inl (AppErr EDependency (program @ '' failed'')))"

text \<open>\<open>spawn\<close> runs a program to its end: what it answers, and the outside world after it.\<close>

definition run_backup ::
  "bool \<Rightarrow> (string list \<Rightarrow> 'w \<Rightarrow> process_answer \<times> 'w) \<Rightarrow> resolved_config \<Rightarrow> string \<Rightarrow> 'w \<Rightarrow> (app_err + string list) \<times> 'w" where
  "run_backup parent_ok spawn rc output w =
     (if output = [] then (Inl (AppErr EValidation ''backup output path must not be empty''), w)
      else if \<not> parent_ok then (Inl (AppErr EDependency ''failed to create backup parent directory''), w)
      else case spawn [''pg_dump'', ''--format=custom'', ''--file'', output, ''--dbname'', rc_database_url rc] w of (a, w') \<Rightarrow>
        (process_result ''pg_dump'' a (''backup written to '' @ output), w'))"

definition run_restore ::
  "(string \<Rightarrow> bool) \<Rightarrow> (string list \<Rightarrow> 'w \<Rightarrow> process_answer \<times> 'w) \<Rightarrow> resolved_config \<Rightarrow> string \<Rightarrow> bool \<Rightarrow> 'w \<Rightarrow> (app_err + string list) \<times> 'w" where
  "run_restore exists spawn rc input yes w =
     (if \<not> yes then (Inl (AppErr EValidation ''restore requires --yes''), w)
      else if \<not> exists input then (Inl (AppErr EValidation ''restore input file does not exist''), w)
      else case spawn [''pg_restore'', ''--clean'', ''--if-exists'', ''--dbname'', rc_database_url rc, input] w of (a, w') \<Rightarrow>
        (process_result ''pg_restore'' a (''restore completed from '' @ input), w'))"

definition run_logs ::
  "bool \<Rightarrow> (string list \<Rightarrow> 'w \<Rightarrow> process_answer \<times> 'w) \<Rightarrow> bool \<Rightarrow> string option \<Rightarrow> 'w \<Rightarrow> (app_err + string list) \<times> 'w" where
  "run_logs systemd spawn follow since w =
     (if \<not> systemd then (Inr [''journald unavailable on this host''], w)
      else case spawn ([''journalctl'', ''-u'', ''zl-expense.service''] @ (if follow then [''-f''] else [])
             @ (case since of None \<Rightarrow> [] | Some s \<Rightarrow> [''--since'', s])) w of (a, w') \<Rightarrow>
        (case a of
           NotStarted \<Rightarrow> Inl (AppErr EDependency ''journalctl failed'')
         | Exited okay \<Rightarrow> if okay then Inr [] else Inl (AppErr EDependency ''journalctl exited with error''), w'))"

section \<open>The diagnostic bundle\<close>

definition forbidden_substrings :: "string list" where
  "forbidden_substrings = [''postgres://'', ''BEGIN RSA'', ''api-key'', ''x-goog-api-key'']"

definition check_json :: "string \<Rightarrow> bool \<Rightarrow> json" where
  "check_json name okay = JObject [(''check'', JString name), (''ok'', JBool okay)]"

definition capture_doctor_json :: "operator_env \<Rightarrow> bool \<Rightarrow> json" where
  "capture_doctor_json E config_loads =
     JArray
       (if \<not> config_loads then [check_json ''config_load'' False]
        else check_json ''config_load'' True #
          (if \<not> oe_pool_ok E then [check_json ''db_connection'' False]
           else [check_json ''db_connection'' (oe_connected E),
                 check_json ''migrations_current'' (oe_connected E \<and> or_false (check_migrations_current (oe_expected E) (oe_migrations E)))]))"

text \<open>
  \<^verbatim>\<open>ResolvedConfig::show_json\<close>: the report of the sources, in the order of the keys.
\<close>

definition source_text :: "config_source \<Rightarrow> string" where
  "source_text s = (case s of FromDefault \<Rightarrow> ''default'' | FromFile \<Rightarrow> ''file'' | FromEnv \<Rightarrow> ''env'')"

definition show_json :: "resolved_config \<Rightarrow> json" where
  "show_json rc =
     JObject (concat (map (\<lambda>k. case rc_attribution rc k of
         None \<Rightarrow> []
       | Some v \<Rightarrow> [(k, JObject [(''value'', rv_value v), (''source'', JString (source_text (rv_source v)))])])
       (sort_by bytes_le (map fst settings))))"

text \<open>
  The four files in order with what is written to each; \<open>fails\<close> says which call on the files fails. The files stay where they are
  whatever the scan finds.
\<close>

definition bundle_files :: "string \<Rightarrow> string list" where
  "bundle_files dir = map (path_join dir) [''status.json'', ''jobs-dead.json'', ''config-show.json'', ''doctor.json'']"

definition write_string :: "(string \<Rightarrow> bool) \<Rightarrow> string \<Rightarrow> string \<Rightarrow> files \<Rightarrow> (app_err + unit) \<times> files" where
  "write_string fails path t fs =
     (if fails path then (Inl (AppErr EDependency ''failed to write diagnose file''), fs) else (Inr (), fs(path \<mapsto> t)))"

definition scan_file :: "string \<Rightarrow> files \<Rightarrow> app_err + unit" where
  "scan_file path fs =
     (case fs path of
        None \<Rightarrow> Inl (AppErr EDependency ''failed to read diagnose file for scan'')
      | Some t \<Rightarrow>
          if list_ex (contains_str t) forbidden_substrings
          then Inl (AppErr EInternal (''diagnose bundle contains forbidden substring in '' @ path)) else Inr ())"

fun scan_files :: "string list \<Rightarrow> files \<Rightarrow> app_err + unit" where
  "scan_files [] fs = Inr ()"
| "scan_files (p # ps) fs = (case scan_file p fs of Inl e \<Rightarrow> Inl e | Inr _ \<Rightarrow> scan_files ps fs)"

fun write_parts :: "(string \<Rightarrow> bool) \<Rightarrow> (string \<times> (app_err + string)) list \<Rightarrow> files \<Rightarrow> (app_err + unit) \<times> files" where
  "write_parts fails [] fs = (Inr (), fs)"
| "write_parts fails ((path, part) # ps) fs =
     (case part of
        Inl e \<Rightarrow> (Inl e, fs)
      | Inr t \<Rightarrow>
          (case write_string fails path t fs of
             (Inl e, fs') \<Rightarrow> (Inl e, fs')
           | (Inr _, fs') \<Rightarrow> write_parts fails ps fs'))"

definition bundle_parts :: "operator_env \<Rightarrow> resolved_config \<Rightarrow> bool \<Rightarrow> 'z operator_db_scheme \<Rightarrow> (app_err + string) list" where
  "bundle_parts E rc config_loads d =
     [map_sum id (oe_pretty E \<circ> status_json E) (collect_status E d),
      map_sum work_app_error (\<lambda>rows. oe_pretty E (JArray (map (job_row_json E) rows))) (list_jobs (oe_fault E) (Some ''dead'') 200 d),
      Inr (oe_pretty E (show_json rc)), Inr (oe_pretty E (capture_doctor_json E config_loads))]"

definition run_diagnose ::
  "operator_env \<Rightarrow> bool \<Rightarrow> (string \<Rightarrow> bool) \<Rightarrow> resolved_config \<Rightarrow> bool \<Rightarrow> string \<Rightarrow> 'z operator_db_scheme \<Rightarrow> files \<Rightarrow> (app_err + unit) \<times> files" where
  "run_diagnose E dir_ok fails rc config_loads dir d fs =
     (if \<not> dir_ok then (Inl (AppErr EDependency ''failed to create diagnose output directory''), fs)
      else case create_pool (oe_pool_ok E) of
        Inl e \<Rightarrow> (Inl e, fs)
      | Inr _ \<Rightarrow>
          (case write_parts fails (zip (bundle_files dir) (bundle_parts E rc config_loads d)) fs of
             (Inl e, fs') \<Rightarrow> (Inl e, fs')
           | (Inr _, fs') \<Rightarrow> (scan_files (bundle_files dir) fs', fs')))"

end
