(* ===== verification/Supervisor.thy ===== *)
theory Supervisor
  imports Jobs Webhook Receipt_Extraction Operator
begin

text \<open>
  The supervised runtime, \<^verbatim>\<open>src/runtime/mod.rs\<close> and \<^verbatim>\<open>src/runtime/shutdown.rs\<close>: what is built at the start and which errors end
  it, the worker's loop with its tasks in flight, one leased job with its heartbeat, and the supervision of the role tasks up
  to the exit code. Tasks run at the same time: the worker and the supervisor are step relations, in which a finished task,
  the clock and a signal may come at any point. Logging and the notifications to systemd are left out.
\<close>

section \<open>Start\<close>

text \<open>What the outside answers at the start.\<close>

record startup_env =
  su_pool_ok :: bool
  su_migrate_ok :: bool
  su_connected :: bool
  su_expected :: nat
  su_migrations :: migration_count
  su_zalo_client_ok :: bool
  su_root_ready :: "string \<Rightarrow> bool"
  su_s3_client_ok :: bool
  su_gemini_client_ok :: bool

record runtime_plan =
  pl_readiness :: readiness
  pl_adapter :: "zalo_http_config option"
  pl_store :: built_store
  pl_extractor :: extractor
  pl_policy :: ingress_policy
  pl_receipt :: receipt_config
  pl_webhook :: "(zalo_http_config \<times> string set \<times> nat) option"
  pl_metrics :: bool
  pl_tasks :: "role list"

definition startup_database :: "startup_env \<Rightarrow> app_err + readiness" where
  "startup_database E =
     (case create_pool (su_pool_ok E) of
        Inl e \<Rightarrow> Inl e
      | Inr _ \<Rightarrow>
          (case migrate (su_migrate_ok E) of
             Inl e \<Rightarrow> Inl e
           | Inr _ \<Rightarrow>
               Inr (new_ready\<lparr>db_reachable := \<not> isl (check_connection (su_connected E)),
                 migrations_current := or_false (check_migrations_current (su_expected E) (su_migrations E))\<rparr>)))"

definition startup_secret :: "files \<Rightarrow> resolved_config \<Rightarrow> role list \<Rightarrow> app_err + string" where
  "startup_secret fs rc roles =
     (if RoleIngress \<notin> set roles then Inr []
      else case config_failure (read_webhook_secret fs rc) of
        Inl e \<Rightarrow> Inl e
      | Inr v \<Rightarrow> if valid_runtime_secret v then Inr v else Inl (AppErr EConfig ''webhook credential is unsafe''))"

definition startup_adapter :: "startup_env \<Rightarrow> files \<Rightarrow> resolved_config \<Rightarrow> role list \<Rightarrow> app_err + zalo_http_config option" where
  "startup_adapter E fs rc roles =
     (if RoleIngress \<notin> set roles \<and> RoleWorker \<notin> set roles then Inr None
      else case config_failure (read_zalo_bot_token fs rc) of
        Inl e \<Rightarrow> Inl e
      | Inr tok \<Rightarrow>
          (case startup_secret fs rc roles of
             Inl e \<Rightarrow> Inl e
           | Inr sec \<Rightarrow>
               if \<not> su_zalo_client_ok E then Inl (AppErr EConfig ''failed to configure Zalo HTTP adapter'')
               else Inr (Some \<lparr>zc_api_base = rc_zalo_api_base rc, zc_bot_token = tok, zc_webhook_secret = sec,
                      zc_provider_scope = ''zalo_bot'', zc_request_timeout = rc_zalo_send_timeout_seconds rc\<rparr>)))"

definition startup_receipt_config :: "resolved_config \<Rightarrow> receipt_config" where
  "startup_receipt_config rc =
     \<lparr>original_receipt_days = rc_original_receipt_days rc, review_expiry_hours = review_expiry_hours receipt_config_default,
      extraction_enabled = rc_extraction_enabled rc, monthly_extraction_pages = rc_monthly_extraction_pages rc\<rparr>"

text \<open>The role tasks are started in this order; a role named twice has one task.\<close>

definition startup ::
  "config_libs \<Rightarrow> startup_env \<Rightarrow> files \<Rightarrow> resolved_config \<Rightarrow> role list \<Rightarrow> app_err + runtime_plan" where
  "startup FL E fs rc roles =
     (case startup_database E of
        Inl e \<Rightarrow> Inl e
      | Inr rd \<Rightarrow>
          (case startup_adapter E fs rc roles of
             Inl e \<Rightarrow> Inl e
           | Inr ad \<Rightarrow>
               (case config_failure (build_object_store FL (su_root_ready E) (su_s3_client_ok E) fs rc) of
                  Inl e \<Rightarrow> Inl e
                | Inr st \<Rightarrow>
                    (case config_failure (build_extractor (su_gemini_client_ok E) fs rc) of
                       Inl e \<Rightarrow> Inl e
                     | Inr ex \<Rightarrow>
                         Inr \<lparr>pl_readiness = rd, pl_adapter = ad, pl_store = st, pl_extractor = ex,
                              pl_policy = ingress_policy_from_config rc, pl_receipt = startup_receipt_config rc,
                              pl_webhook = (if RoleIngress \<in> set roles
                                then Some (the ad, rc_allowed_provider_sender_ids rc, rc_webhook_max_body_bytes rc) else None),
                              pl_metrics = rc_metrics_enabled rc,
                              pl_tasks = filter (\<lambda>r. r \<in> set roles) all_roles\<rparr>))))"

section \<open>One leased job\<close>

text \<open>
  What the loop of \<^verbatim>\<open>execute_leased_job\<close> selects next; the writes of the dispatched job happen among those of the others. \<^verbatim>\<open>None\<close>:
  the job still runs.
\<close>

datatype lease_event = DispatchReady outbound_job_execution | HeartbeatTick | ShutdownChanged

definition answer_of :: "(work_error + 'a) \<times> 'd \<Rightarrow> (receipt_error + (work_error + 'a)) \<times> 'd" where
  "answer_of r = (Inr (fst r), snd r)"

fun execute_leased_job ::
  "claimed_job \<Rightarrow> int \<Rightarrow> lease_event list \<Rightarrow> ('z bot_db_scheme, outbound_job_execution option) proc" where
  "execute_leased_job job lease [] = preturn None"
| "execute_leased_job job lease (DispatchReady x # es) = preturn (Some x)"
| "execute_leased_job job lease (HeartbeatTick # es) =
     pbind (pdb (\<lambda>flt now d. answer_of (heartbeat flt now (cj_id job) (cj_lease_token job) lease d)))
       (\<lambda>r. if isl r then preturn (Some StaleLease) else execute_leased_job job lease es)"
| "execute_leased_job job lease (ShutdownChanged # es) =
     pbind (shutdown_execution job) (\<lambda>x. preturn (Some x))"

definition leased_handler :: "claimed_job \<Rightarrow> int \<Rightarrow> lease_event list \<Rightarrow> ('z bot_db_scheme, unit) proc" where
  "leased_handler job lease es =
     pbind (execute_leased_job job lease es)
       (\<lambda>x. case x of None \<Rightarrow> preturn () | Some e \<Rightarrow> apply_execution_result job e)"

section \<open>The worker\<close>

text \<open>
  Where the loop stands: at its head, in the call of \<^verbatim>\<open>claim\<close>, in the select with every slot taken, in the select after a claim
  that gave nothing, in \<^verbatim>\<open>drain_in_flight_handlers\<close>, or returned. The history \<open>wk_started\<close> holds every job given to a handler.
\<close>

datatype worker_phase = AtHead | Asking | AtLimit | Idle | Draining | Stopped "app_err + unit"

record 'd worker =
  wk_phase :: worker_phase
  wk_in_flight :: "claimed_job list"
  wk_shutdown :: bool
  wk_closed :: bool
  wk_db :: 'd
  wk_started :: "claimed_job list"

definition worker_init :: "'d \<Rightarrow> 'd worker" where
  "worker_init d = \<lparr>wk_phase = AtHead, wk_in_flight = [], wk_shutdown = False, wk_closed = False, wk_db = d, wk_started = []\<rparr>"

definition worker_concurrency :: "nat \<Rightarrow> nat" where
  "worker_concurrency outbound_delivery = max outbound_delivery 1"

definition worker_claim_options :: "string \<Rightarrow> nat \<Rightarrow> claim_options" where
  "worker_claim_options owner send_timeout =
     \<lparr>batch_limit = 1, co_lease_owner = owner, lease_duration_secs = worker_lease_duration_secs send_timeout\<rparr>"

text \<open>\<^verbatim>\<open>HOSTNAME\<close>, else \<^verbatim>\<open>HOST\<close>, the process id and a fresh id.\<close>

definition process_lease_owner :: "(string \<Rightarrow> string option) \<Rightarrow> nat \<Rightarrow> string \<Rightarrow> string" where
  "process_lease_owner env pid fresh =
     (case env ''HOSTNAME'' of Some h \<Rightarrow> h | None \<Rightarrow> (case env ''HOST'' of Some h \<Rightarrow> h | None \<Rightarrow> ''localhost''))
     @ '':'' @ show_nat pid @ '':'' @ fresh"

text \<open>The join of a task: its panic, or its end.\<close>

definition observe_handler_result :: "(string + unit) option \<Rightarrow> app_err + unit" where
  "observe_handler_result joined =
     (case joined of
        Some (Inl m) \<Rightarrow> Inl (AppErr EInternal (''worker handler task failed: '' @ m))
      | _ \<Rightarrow> Inr ())"

definition worker_answer :: "work_error + claimed_job list \<Rightarrow> 'd worker \<Rightarrow> 'd worker" where
  "worker_answer r s =
     (case r of
        Inl _ \<Rightarrow> s\<lparr>wk_phase := Idle\<rparr>
      | Inr [] \<Rightarrow> s\<lparr>wk_phase := Idle\<rparr>
      | Inr (j # _) \<Rightarrow> s\<lparr>wk_phase := AtHead, wk_in_flight := wk_in_flight s @ [j], wk_started := wk_started s @ [j]\<rparr>)"

text \<open>An error of a joined task returns from the role: the set of tasks is dropped, which aborts them.\<close>

definition worker_joined :: "string + unit \<Rightarrow> 'd worker \<Rightarrow> 'd worker" where
  "worker_joined r s =
     (case observe_handler_result (Some r) of
        Inl e \<Rightarrow> s\<lparr>wk_phase := Stopped (Inl e), wk_in_flight := []\<rparr>
      | Inr _ \<Rightarrow> s\<lparr>wk_phase := (if wk_phase s = Draining then Draining else AtHead)\<rparr>)"

definition sleep_or_shutdown :: "bool \<Rightarrow> 'd worker \<Rightarrow> bool" where
  "sleep_or_shutdown slept s \<longleftrightarrow> (if slept then wk_shutdown s else wk_closed s \<or> wk_shutdown s)"

text \<open>The deadline of \<^verbatim>\<open>drain_in_flight_handlers\<close>: the tasks are aborted and awaited, and the drain returns without an error.\<close>

definition drain_timeout :: "'d worker \<Rightarrow> 'd worker" where
  "drain_timeout s = s\<lparr>wk_phase := Stopped (Inr ()), wk_in_flight := []\<rparr>"

text \<open>\<open>rest_without i\<close>: the tasks left when the one at \<open>i\<close> is joined.\<close>

definition rest_without :: "nat \<Rightarrow> 'a list \<Rightarrow> 'a list" where
  "rest_without i xs = take i xs @ drop (Suc i) xs"

inductive worker_step :: "claim_options \<Rightarrow> nat \<Rightarrow> 'z work_db_scheme worker \<Rightarrow> 'z work_db_scheme worker \<Rightarrow> bool"
  for opts c where
  head_stop: "wk_phase s = AtHead \<Longrightarrow> wk_shutdown s \<Longrightarrow> worker_step opts c s (s\<lparr>wk_phase := Draining\<rparr>)"
| head_full: "wk_phase s = AtHead \<Longrightarrow> \<not> wk_shutdown s \<Longrightarrow> c \<le> length (wk_in_flight s) \<Longrightarrow> worker_step opts c s (s\<lparr>wk_phase := AtLimit\<rparr>)"
| head_ask: "wk_phase s = AtHead \<Longrightarrow> \<not> wk_shutdown s \<Longrightarrow> length (wk_in_flight s) < c \<Longrightarrow> worker_step opts c s (s\<lparr>wk_phase := Asking\<rparr>)"
| answered: "wk_phase s = Asking \<Longrightarrow> claim env opts (wk_db s) = (r, d) \<Longrightarrow> worker_step opts c s (worker_answer r (s\<lparr>wk_db := d\<rparr>))"
| joined: "wk_phase s \<in> {AtLimit, Idle, Draining} \<Longrightarrow> i < length (wk_in_flight s) \<Longrightarrow>
    worker_step opts c s (worker_joined r (s\<lparr>wk_in_flight := rest_without i (wk_in_flight s)\<rparr>))"
| slept: "wk_phase s = Idle \<Longrightarrow> worker_step opts c s (s\<lparr>wk_phase := (if sleep_or_shutdown True s then Draining else AtHead)\<rparr>)"
| changed: "wk_phase s \<in> {AtLimit, Idle} \<Longrightarrow> sleep_or_shutdown False s \<Longrightarrow> worker_step opts c s (s\<lparr>wk_phase := Draining\<rparr>)"
| drained: "wk_phase s = Draining \<Longrightarrow> wk_in_flight s = [] \<Longrightarrow> worker_step opts c s (s\<lparr>wk_phase := Stopped (Inr ())\<rparr>)"
| deadline: "wk_phase s = Draining \<Longrightarrow> wk_in_flight s \<noteq> [] \<Longrightarrow> worker_step opts c s (drain_timeout s)"

text \<open>The others: the shutdown channel, which never goes back, and every writer of the database.\<close>

inductive worker_env :: "'d worker \<Rightarrow> 'd worker \<Rightarrow> bool" where
  shutdown_sent: "worker_env s (s\<lparr>wk_shutdown := True\<rparr>)"
| sender_dropped: "worker_env s (s\<lparr>wk_closed := True\<rparr>)"
| others_wrote: "worker_env s (s\<lparr>wk_db := d\<rparr>)"

text \<open>A run with its number of steps of the worker itself.\<close>

inductive worker_run :: "claim_options \<Rightarrow> nat \<Rightarrow> nat \<Rightarrow> 'z work_db_scheme worker \<Rightarrow> 'z work_db_scheme worker \<Rightarrow> bool"
  for opts c where
  run_start: "worker_run opts c 0 s s"
| run_own: "worker_run opts c n s t \<Longrightarrow> worker_step opts c t u \<Longrightarrow> worker_run opts c (Suc n) s u"
| run_env: "worker_run opts c n s t \<Longrightarrow> worker_env t u \<Longrightarrow> worker_run opts c n s u"

inductive_cases worker_stepE: "worker_step opts c s t"

inductive_cases worker_envE: "worker_env s t"


section \<open>The supervisor\<close>

datatype role_end = EndedOk | EndedError app_err | Panicked

datatype listener = Listening | Signalled | ListenerPanicked

datatype supervisor_phase = Watching | DrainingRoles | ExitWith exit_code

text \<open>
  The role tasks that run and those that ended and were not looked at yet; the histories \<open>sv_observed\<close> and \<open>sv_aborted\<close> hold what became
  of the others.
\<close>

record supervisor =
  sv_phase :: supervisor_phase
  sv_running :: "role list"
  sv_ended :: "(role \<times> role_end) list"
  sv_shutdown :: bool
  sv_readiness :: readiness
  sv_listener :: listener
  sv_observed :: "(role \<times> role_end) list"
  sv_aborted :: "role list"

definition supervisor_init :: "runtime_plan \<Rightarrow> supervisor" where
  "supervisor_init p =
     \<lparr>sv_phase = Watching, sv_running = pl_tasks p, sv_ended = [], sv_shutdown = False, sv_readiness = pl_readiness p,
      sv_listener = Listening, sv_observed = [], sv_aborted = []\<rparr>"

text \<open>\<^verbatim>\<open>ShutdownSignal::listen\<close> after a signal: not ready first, then the broadcast.\<close>

definition listen :: "supervisor \<Rightarrow> supervisor" where
  "listen s = s\<lparr>sv_listener := Signalled, sv_readiness := mark_shutting_down (sv_readiness s), sv_shutdown := True\<rparr>"

text \<open>What a finished role task means while watching: nothing after a requested shutdown, else a failure with its error, or a panic.\<close>

datatype watch_verdict = KeepWatching | RoleFailed string app_err | RolePanicked

definition wait_for_role_failure :: "bool \<Rightarrow> role \<Rightarrow> role_end \<Rightarrow> watch_verdict" where
  "wait_for_role_failure shutdown r e =
     (case e of
        EndedOk \<Rightarrow> if shutdown then KeepWatching else RoleFailed (role_as_str r) (AppErr EInternal ''critical role task exited unexpectedly'')
      | EndedError err \<Rightarrow> RoleFailed (role_as_str r) err
      | Panicked \<Rightarrow> RolePanicked)"

definition drain_role_result :: "role_end \<Rightarrow> app_err + unit" where
  "drain_role_result e =
     (case e of
        EndedOk \<Rightarrow> Inr ()
      | EndedError err \<Rightarrow> Inl err
      | Panicked \<Rightarrow> Inl (AppErr EInternal ''role task failed during shutdown: panic''))"

definition abort_role_tasks :: "supervisor \<Rightarrow> supervisor" where
  "abort_role_tasks s = s\<lparr>sv_aborted := sv_aborted s @ sv_running s @ map fst (sv_ended s), sv_running := [], sv_ended := []\<rparr>"

text \<open>The branch of a critical failure, up to the exit; nothing is left to drain after the abort.\<close>

definition critical_failure :: "supervisor \<Rightarrow> supervisor" where
  "critical_failure s =
     (abort_role_tasks (s\<lparr>sv_readiness := mark_shutting_down (sv_readiness s), sv_shutdown := True\<rparr>))\<lparr>sv_phase := ExitWith XRuntimeError\<rparr>"

definition observed :: "nat \<Rightarrow> supervisor \<Rightarrow> supervisor" where
  "observed i s = s\<lparr>sv_ended := rest_without i (sv_ended s), sv_observed := sv_observed s @ [sv_ended s ! i]\<rparr>"

definition watch_role :: "role \<times> role_end \<Rightarrow> supervisor \<Rightarrow> supervisor" where
  "watch_role x s = (if wait_for_role_failure (sv_shutdown s) (fst x) (snd x) = KeepWatching then s else critical_failure s)"

definition drain_role :: "role \<times> role_end \<Rightarrow> supervisor \<Rightarrow> supervisor" where
  "drain_role x s = (case drain_role_result (snd x) of Inr _ \<Rightarrow> s | Inl _ \<Rightarrow> s\<lparr>sv_phase := ExitWith XRuntimeError\<rparr>)"

inductive supervisor_step :: "supervisor \<Rightarrow> supervisor \<Rightarrow> bool" where
  signal: "sv_phase s = Watching \<Longrightarrow> sv_listener s = Listening \<Longrightarrow> supervisor_step s (listen s)"
| listener_dies: "sv_phase s = Watching \<Longrightarrow> sv_listener s = Listening \<Longrightarrow> supervisor_step s (s\<lparr>sv_listener := ListenerPanicked\<rparr>)"
| role_ends: "sv_phase s \<in> {Watching, DrainingRoles} \<Longrightarrow> i < length (sv_running s) \<Longrightarrow>
    supervisor_step s (s\<lparr>sv_running := rest_without i (sv_running s), sv_ended := sv_ended s @ [(sv_running s ! i, e)]\<rparr>)"
| listener_done: "sv_phase s = Watching \<Longrightarrow> sv_listener s = Signalled \<Longrightarrow> supervisor_step s (s\<lparr>sv_phase := DrainingRoles\<rparr>)"
| listener_lost: "sv_phase s = Watching \<Longrightarrow> sv_listener s = ListenerPanicked \<Longrightarrow> supervisor_step s (critical_failure s)"
| role_seen: "sv_phase s = Watching \<Longrightarrow> i < length (sv_ended s) \<Longrightarrow> supervisor_step s (watch_role (sv_ended s ! i) (observed i s))"
| drain_seen: "sv_phase s = DrainingRoles \<Longrightarrow> i < length (sv_ended s) \<Longrightarrow>
    supervisor_step s (drain_role (sv_ended s ! i) (observed i s))"
| drain_done: "sv_phase s = DrainingRoles \<Longrightarrow> sv_running s = [] \<Longrightarrow> sv_ended s = [] \<Longrightarrow> supervisor_step s (s\<lparr>sv_phase := ExitWith XSuccess\<rparr>)"
| drain_deadline: "sv_phase s = DrainingRoles \<Longrightarrow> sv_running s \<noteq> [] \<Longrightarrow> sv_ended s = [] \<Longrightarrow>
    supervisor_step s ((abort_role_tasks s)\<lparr>sv_phase := ExitWith XSuccess\<rparr>)"

inductive_cases supervisor_stepE: "supervisor_step s t"

text \<open>\<^verbatim>\<open>run\<close>: an error of the start is the exit code, else the supervisor decides.\<close>

inductive run_exits :: "config_libs \<Rightarrow> startup_env \<Rightarrow> files \<Rightarrow> resolved_config \<Rightarrow> role list \<Rightarrow> exit_code \<Rightarrow> bool"
  for FL E fs rc roles where
  run_refused: "startup FL E fs rc roles = Inl e \<Longrightarrow> run_exits FL E fs rc roles (app_exit_code e)"
| run_supervised: "startup FL E fs rc roles = Inr p \<Longrightarrow> supervisor_step\<^sup>*\<^sup>* (supervisor_init p) s \<Longrightarrow> sv_phase s = ExitWith code \<Longrightarrow>
    run_exits FL E fs rc roles code"

end
