(* ===== verification/Supervisor_Properties.thy ===== *)
theory Supervisor_Properties
  imports Supervisor Work_Properties Config_Properties "HOL-Library.Multiset"
begin

text \<open>
  What the runtime keeps while tasks end, fail and are interrupted in any order: the worker has no more jobs in flight than its
  limit and stops when it is told to, and the process reports success only when it was asked to stop and no role failed.
\<close>

section \<open>The worker\<close>

lemma length_rest_without [simp]: "i < length xs \<Longrightarrow> length (rest_without i xs) = length xs - 1"
  by (simp add: rest_without_def)

lemma set_rest_without: "set (rest_without i xs) \<subseteq> set xs"
  by (auto simp: rest_without_def dest: in_set_takeD in_set_dropD)

lemma worker_joined_cases:
  obtains (failed) e where "worker_joined r s = s\<lparr>wk_phase := Stopped (Inl e), wk_in_flight := []\<rparr>"
  | (ended) "worker_joined r s = s\<lparr>wk_phase := (if wk_phase s = Draining then Draining else AtHead)\<rparr>"
  by (cases r) (auto simp: worker_joined_def observe_handler_result_def)

lemma worker_answer_cases:
  obtains (nothing) "worker_answer r s = s\<lparr>wk_phase := Idle\<rparr>"
  | (job) j where "worker_answer r s = s\<lparr>wk_phase := AtHead, wk_in_flight := wk_in_flight s @ [j], wk_started := wk_started s @ [j]\<rparr>"
  by (cases r; cases "projr r") (simp_all add: worker_answer_def)

definition worker_ok :: "nat \<Rightarrow> 'd worker \<Rightarrow> bool" where
  "worker_ok c s \<longleftrightarrow>
     length (wk_in_flight s) \<le> c \<and> set (wk_in_flight s) \<subseteq> set (wk_started s)
     \<and> (wk_phase s = Asking \<longrightarrow> length (wk_in_flight s) < c)
     \<and> ((\<exists>r. wk_phase s = Stopped r) \<longrightarrow> wk_in_flight s = [])"

lemma worker_step_ok:
  assumes "worker_step opts c s t" "worker_ok c s"
  shows "worker_ok c t"
  using assms
proof cases
  case (answered env r d)
  then show ?thesis using assms(2)
    by (cases rule: worker_answer_cases [of r "s\<lparr>wk_db := d\<rparr>"]) (auto simp: worker_ok_def)
next
  case (joined i r)
  have "set (rest_without i (wk_in_flight s)) \<subseteq> set (wk_started s)"
    using assms(2) set_rest_without [of i "wk_in_flight s"] by (auto simp: worker_ok_def)
  then show ?thesis using joined assms(2)
    by (cases rule: worker_joined_cases [of r "s\<lparr>wk_in_flight := rest_without i (wk_in_flight s)\<rparr>"]) (auto simp: worker_ok_def)
qed (auto simp: worker_ok_def drain_timeout_def)

lemma worker_env_ok: "worker_env s t \<Longrightarrow> worker_ok c s \<Longrightarrow> worker_ok c t"
  by (erule worker_envE) (auto simp: worker_ok_def)

lemma worker_run_ok: "worker_run opts c n s t \<Longrightarrow> worker_ok c s \<Longrightarrow> worker_ok c t"
  by (induction rule: worker_run.induct) (auto intro: worker_step_ok worker_env_ok)

text \<open>Once the shutdown is broadcast only a claim that was already asked for can still start a job.\<close>

definition pending_claims :: "'d worker \<Rightarrow> nat" where
  "pending_claims s = (if wk_phase s = Asking then 1 else 0)"

text \<open>The steps the worker can still make after the broadcast.\<close>

definition steps_left :: "'d worker \<Rightarrow> nat" where
  "steps_left s =
     (case wk_phase s of
        Stopped _ \<Rightarrow> 0
      | Draining \<Rightarrow> 1 + length (wk_in_flight s)
      | Asking \<Rightarrow> 4 + length (wk_in_flight s)
      | _ \<Rightarrow> 2 + length (wk_in_flight s))"

lemma step_after_shutdown:
  assumes "worker_step opts c s t" "wk_shutdown s"
  shows "wk_shutdown t" "length (wk_started t) + pending_claims t \<le> length (wk_started s) + pending_claims s" "steps_left t < steps_left s"
proof -
  have "wk_shutdown t \<and> length (wk_started t) + pending_claims t \<le> length (wk_started s) + pending_claims s \<and> steps_left t < steps_left s"
    using assms
  proof cases
    case (answered env r d)
    then show ?thesis using assms(2)
      by (cases rule: worker_answer_cases [of r "s\<lparr>wk_db := d\<rparr>"]) (auto simp: pending_claims_def steps_left_def)
  next
    case (joined i r)
    then show ?thesis using assms(2)
      by (cases rule: worker_joined_cases [of r "s\<lparr>wk_in_flight := rest_without i (wk_in_flight s)\<rparr>"])
        (auto simp: pending_claims_def steps_left_def)
  qed (auto simp: pending_claims_def steps_left_def sleep_or_shutdown_def drain_timeout_def)
  then show "wk_shutdown t" "length (wk_started t) + pending_claims t \<le> length (wk_started s) + pending_claims s"
    "steps_left t < steps_left s" by simp_all
qed

lemma env_after_shutdown:
  assumes "worker_env s t"
  shows "wk_shutdown s \<Longrightarrow> wk_shutdown t" "wk_started t = wk_started s" "pending_claims t = pending_claims s" "steps_left t = steps_left s"
  using assms by (auto elim!: worker_envE simp: pending_claims_def steps_left_def split: worker_phase.split)

lemma run_after_shutdown:
  assumes "worker_run opts c n s t" "wk_shutdown s"
  shows "wk_shutdown t \<and> length (wk_started t) + pending_claims t \<le> length (wk_started s) + pending_claims s
    \<and> n + steps_left t \<le> steps_left s"
  using assms
proof (induction rule: worker_run.induct)
  case (run_own n s t u)
  then show ?case using step_after_shutdown [of opts c t u] by auto
next
  case (run_env n s t u)
  then show ?case using env_after_shutdown [of t u] by auto
qed simp

lemma worker_not_stuck:
  assumes "\<And>r. wk_phase s \<noteq> Stopped r" "wk_shutdown s"
  shows "\<exists>t. worker_step opts c s t"
proof (cases "wk_phase s")
  case AtHead then show ?thesis using assms(2) head_stop by blast
next
  case Asking
  obtain r d where "claim undefined opts (wk_db s) = (r, d)" by (cases "claim undefined opts (wk_db s)")
  then show ?thesis using Asking answered by blast
next
  case AtLimit then show ?thesis using assms(2) by (metis changed insertI1 sleep_or_shutdown_def)
next
  case Idle then show ?thesis using slept by blast
next
  case Draining then show ?thesis using drained deadline by blast
next
  case (Stopped x) then show ?thesis using assms(1) by blast
qed

text \<open>
C36: The worker keeps its limits whatever ends, fails or interrupts it: never more jobs in flight than
\<^verbatim>\<open>concurrency.outbound_delivery\<close> (at least one), nothing in flight once it returned, and after the shutdown is broadcast at most
the one job whose claim was already asked for is started.
\<close>

theorem worker_in_flight_bounded:
  assumes "worker_run opts (worker_concurrency n) k (worker_init d) s" "worker_run opts (worker_concurrency n) m s t"
  shows "length (wk_in_flight t) \<le> max n 1 \<and> set (wk_in_flight t) \<subseteq> set (wk_started t)
    \<and> ((\<exists>r. wk_phase t = Stopped r) \<longrightarrow> wk_in_flight t = [])
    \<and> (wk_shutdown s \<longrightarrow> length (wk_started t) \<le> length (wk_started s) + (if wk_phase s = Asking then 1 else 0))"
proof -
  have "worker_ok (worker_concurrency n) (worker_init d)"
    by (simp add: worker_ok_def worker_init_def)
  then have "worker_ok (worker_concurrency n) t"
    using worker_run_ok [OF assms(2)] worker_run_ok [OF assms(1)] by blast
  moreover have "wk_shutdown s \<Longrightarrow> length (wk_started t) \<le> length (wk_started s) + pending_claims s"
    using run_after_shutdown [OF assms(2)] by simp
  ultimately show ?thesis by (auto simp: worker_ok_def worker_concurrency_def pending_claims_def split: if_splits)
qed


section \<open>The supervisor\<close>

lemma mset_rest_without: "i < length xs \<Longrightarrow> add_mset (xs ! i) (mset (rest_without i xs)) = mset xs"
  unfolding rest_without_def by (metis id_take_nth_drop mset_append mset.simps(2) union_mset_add_mset_right)

definition tasks_of :: "supervisor \<Rightarrow> role multiset" where
  "tasks_of s = mset (sv_running s) + mset (map fst (sv_ended s)) + mset (map fst (sv_observed s)) + mset (sv_aborted s)"

definition supervisor_ok :: "role list \<Rightarrow> supervisor \<Rightarrow> bool" where
  "supervisor_ok roles s \<longleftrightarrow>
     tasks_of s = mset roles
     \<and> (sv_shutdown s \<longrightarrow> shutting_down (sv_readiness s))
     \<and> (sv_listener s = Signalled \<longrightarrow> sv_shutdown s)
     \<and> (sv_phase s = DrainingRoles \<longrightarrow> sv_listener s = Signalled)
     \<and> (sv_phase s \<in> {Watching, DrainingRoles} \<longrightarrow> sv_aborted s = [] \<and> (\<forall>x \<in> set (sv_observed s). snd x = EndedOk))
     \<and> (\<forall>code. sv_phase s = ExitWith code \<longrightarrow> code = XRuntimeError
          \<or> code = XSuccess \<and> sv_listener s = Signalled \<and> sv_running s = [] \<and> sv_ended s = [] \<and> (\<forall>x \<in> set (sv_observed s). snd x = EndedOk))"

lemma tasks_of_observed:
  assumes "i < length (sv_ended s)"
  shows "tasks_of (observed i s) = tasks_of s"
proof -
  have "mset (map fst (sv_ended s)) = add_mset (fst (sv_ended s ! i)) (mset (map fst (rest_without i (sv_ended s))))"
    using mset_rest_without [OF assms] by (metis image_mset_add_mset mset_map)
  then show ?thesis by (simp add: tasks_of_def observed_def)
qed

lemma tasks_of_abort: "tasks_of (abort_role_tasks s) = tasks_of s"
  by (simp add: tasks_of_def abort_role_tasks_def ac_simps)

lemma tasks_of_critical: "tasks_of (critical_failure s) = tasks_of s"
  using tasks_of_abort [of s] by (simp add: critical_failure_def tasks_of_def abort_role_tasks_def)

lemma critical_ok: "tasks_of s = mset roles \<Longrightarrow> supervisor_ok roles (critical_failure s)"
  by (simp add: supervisor_ok_def tasks_of_critical)
     (simp add: critical_failure_def abort_role_tasks_def mark_shutting_down_def)


lemma watch_role_cases:
  obtains (kept) "snd x = EndedOk" "sv_shutdown s" "watch_role x s = s" | (failed) "watch_role x s = critical_failure s"
  by (cases "snd x"; cases "sv_shutdown s") (auto simp: watch_role_def wait_for_role_failure_def)

lemma drain_role_cases:
  obtains (ended) "snd x = EndedOk" "drain_role x s = s" | (failed) "drain_role x s = s\<lparr>sv_phase := ExitWith XRuntimeError\<rparr>"
  by (cases "snd x") (auto simp: drain_role_def drain_role_result_def)

lemma observed_fields [simp]:
  "sv_phase (observed i s) = sv_phase s" "sv_shutdown (observed i s) = sv_shutdown s" "sv_listener (observed i s) = sv_listener s"
  "sv_readiness (observed i s) = sv_readiness s" "sv_aborted (observed i s) = sv_aborted s"
  "sv_observed (observed i s) = sv_observed s @ [sv_ended s ! i]"
  by (simp_all add: observed_def)

lemma tasks_of_role_ends:
  assumes "i < length (sv_running s)"
  shows "tasks_of (s\<lparr>sv_running := rest_without i (sv_running s), sv_ended := sv_ended s @ [(sv_running s ! i, e)]\<rparr>) = tasks_of s"
  using mset_rest_without [OF assms] by (simp add: tasks_of_def)

lemma tasks_of_kept [simp]:
  "tasks_of (s\<lparr>sv_phase := p\<rparr>) = tasks_of s" "tasks_of (s\<lparr>sv_listener := l\<rparr>) = tasks_of s" "tasks_of (listen s) = tasks_of s"
  by (simp_all add: tasks_of_def listen_def)

lemma supervisor_step_ok:
  assumes "supervisor_step s t" "supervisor_ok roles s"
  shows "supervisor_ok roles t"
  using assms
proof cases
  case signal
  then show ?thesis using assms(2) by (simp add: supervisor_ok_def) (simp add: listen_def mark_shutting_down_def)
next
  case (role_ends i e)
  then show ?thesis using assms(2) by (auto simp: supervisor_ok_def tasks_of_role_ends)
next
  case listener_lost
  then show ?thesis using assms(2) critical_ok [of s roles] by (simp add: supervisor_ok_def [of roles s])
next
  case (role_seen i)
  then have "tasks_of (observed i s) = mset roles" using assms(2) tasks_of_observed [of i s] by (simp add: supervisor_ok_def)
  then show ?thesis
  proof (cases rule: watch_role_cases [of "sv_ended s ! i" "observed i s"])
    case kept
    then show ?thesis using role_seen assms(2) tasks_of_observed [of i s] by (auto simp: supervisor_ok_def)
  next
    case failed
    then show ?thesis using role_seen critical_ok \<open>tasks_of (observed i s) = mset roles\<close> by simp
  qed
next
  case (drain_seen i)
  then show ?thesis using assms(2) tasks_of_observed [of i s]
    by (cases rule: drain_role_cases [of "sv_ended s ! i" "observed i s"]) (auto simp: supervisor_ok_def)
next
  case drain_deadline
  then show ?thesis using assms(2) by (simp add: supervisor_ok_def tasks_of_abort) (simp add: abort_role_tasks_def)
qed (auto simp: supervisor_ok_def)

lemma supervisor_reach_ok: "supervisor_step\<^sup>*\<^sup>* s t \<Longrightarrow> supervisor_ok roles s \<Longrightarrow> supervisor_ok roles t"
  by (induction rule: rtranclp_induct) (auto intro: supervisor_step_ok)



section \<open>Sample runs\<close>

text \<open>A worker claims the one queued job; the shutdown comes, it drains and returns.\<close>

lemma sample_claim: "map_sum id length (fst (claim (Work_Properties.sample_env 5 100) sample_options queued_db)) = Inr 1"
  by code_simp

lemma sample_worker_run:
  "\<exists>s t. worker_run sample_options (worker_concurrency 1) 2 (worker_init queued_db) s \<and> wk_shutdown s \<and> length (wk_in_flight s) = 1
     \<and> worker_run sample_options (worker_concurrency 1) 2 s t \<and> wk_phase t = Stopped (Inr ())"
proof -
  obtain r d where c: "claim (Work_Properties.sample_env 5 100) sample_options queued_db = (r, d)" by fastforce
  then obtain j where r: "r = Inr [j]" using sample_claim by (cases r) (auto simp: length_Suc_conv)
  let ?c = "worker_concurrency 1" let ?i = "worker_init queued_db" let ?a = "?i\<lparr>wk_phase := Asking\<rparr>"
  let ?b = "worker_answer r (?a\<lparr>wk_db := d\<rparr>)" let ?s = "?b\<lparr>wk_shutdown := True\<rparr>" let ?u = "?s\<lparr>wk_phase := Draining\<rparr>"
  have a: "worker_step sample_options ?c ?i ?a" by (rule head_ask) (simp_all add: worker_init_def worker_concurrency_def)
  have b: "worker_step sample_options ?c ?a ?b" by (rule answered [where env = "Work_Properties.sample_env 5 100"]) (simp_all add: worker_init_def c)
  have "worker_run sample_options ?c 2 ?i ?s"
    unfolding numeral_2_eq_2 by (rule run_env [OF run_own [OF run_own [OF run_start a] b] shutdown_sent])
  moreover have "worker_step sample_options ?c ?s ?u" by (rule head_stop) (simp_all add: r worker_answer_def)
  moreover have "worker_step sample_options ?c ?u (drain_timeout ?u)"
    by (rule deadline) (simp_all add: r worker_answer_def)
  ultimately show ?thesis
    by (intro exI [of _ ?s] exI [of _ "drain_timeout ?u"])
      (auto simp: drain_timeout_def r worker_answer_def worker_init_def numeral_2_eq_2 intro: run_own run_start)
qed

theorem worker_in_flight_bounded_witness:
  "\<exists>s t :: work_db worker. worker_run sample_options (worker_concurrency 1) 2 s t \<and> wk_shutdown s \<and> wk_phase t = Stopped (Inr ())
     \<and> wk_in_flight t = [] \<and> length (wk_started t) \<le> length (wk_started s) + 1"
proof -
  obtain s t :: "work_db worker" where r: "worker_run sample_options (worker_concurrency 1) 2 (worker_init queued_db) s"
      "worker_run sample_options (worker_concurrency 1) 2 s t" and st: "wk_shutdown s" "wk_phase t = Stopped (Inr ())"
    using sample_worker_run by blast
  show ?thesis
    using worker_in_flight_bounded [OF r] r(2) st by (intro exI [of _ s] exI [of _ t]) (auto split: if_splits)
qed


text \<open>The scheduler alone, stopped by a signal.\<close>

definition sample_startup :: startup_env where
  "sample_startup =
     \<lparr>su_pool_ok = True, su_migrate_ok = True, su_connected = True, su_expected = 12, su_migrations = MigrationRows 12,
      su_zalo_client_ok = True, su_root_ready = (\<lambda>_. True), su_s3_client_ok = True, su_gemini_client_ok = True\<rparr>"

definition sample_runtime_config :: resolved_config where
  "sample_runtime_config = resolved_of config_default (\<lambda>_. None) ''postgres://x'' Memory Fake"

lemma sample_starts: "\<exists>p. startup demo_libs sample_startup demo_files sample_runtime_config [RoleScheduler] = Inr p"
  by (simp add: startup_def startup_database_def sample_startup_def create_pool_def migrate_def startup_adapter_def
      config_failure_def build_object_store_def build_extractor_def sample_runtime_config_def resolved_of_def)

lemma sample_stop:
  assumes "startup demo_libs sample_startup demo_files sample_runtime_config [RoleScheduler] = Inr p"
  shows "\<exists>s. supervisor_step\<^sup>*\<^sup>* (supervisor_init p) s \<and> sv_phase s = ExitWith XSuccess \<and> sv_observed s = [(RoleScheduler, EndedOk)]"
proof -
  have p: "pl_tasks p = [RoleScheduler]"
    using assms by (auto simp: startup_def all_roles_def split: sum.splits)
  let ?i = "supervisor_init p" let ?a = "listen ?i" let ?b = "?a\<lparr>sv_phase := DrainingRoles\<rparr>"
  let ?c = "?b\<lparr>sv_running := rest_without 0 (sv_running ?b), sv_ended := sv_ended ?b @ [(sv_running ?b ! 0, EndedOk)]\<rparr>"
  let ?d = "drain_role (sv_ended ?c ! 0) (observed 0 ?c)"
  note defs = supervisor_init_def listen_def p rest_without_def observed_def drain_role_def drain_role_result_def
  have "supervisor_step ?i ?a" by (rule signal) (simp_all add: defs)
  moreover have "supervisor_step ?a ?b" by (rule listener_done) (simp_all add: defs)
  moreover have "supervisor_step ?b ?c" by (rule role_ends) (simp_all add: defs)
  moreover have "supervisor_step ?c ?d" by (rule drain_seen) (simp_all add: defs)
  moreover have "supervisor_step ?d (?d\<lparr>sv_phase := ExitWith XSuccess\<rparr>)" by (rule drain_done) (simp_all add: defs)
  ultimately have "supervisor_step\<^sup>*\<^sup>* ?i (?d\<lparr>sv_phase := ExitWith XSuccess\<rparr>)" by (meson rtranclp.rtrancl_into_rtrancl rtranclp.rtrancl_refl)
  then show ?thesis by (intro exI [of _ "?d\<lparr>sv_phase := ExitWith XSuccess\<rparr>"] conjI) (simp_all add: defs)
qed



section \<open>One leased job\<close>

text \<open>
  A shutdown counts as a failed attempt: a job on its last one is dead-lettered by a restart of the process, though nothing was
  wrong with it.
\<close>

lemma shutdown_kills_last_attempt:
  assumes "aw_fault (sc n) = NoFault" "\<And>v. aw_others (sc n) v = v"
    and "find_where (lease_held (aw_now (sc n)) (cj_id job) (cj_lease_token job)) (jobs (rw_db w)) = Some r"
    and "j_max_attempts r \<le> j_attempt_count r"
  shows "\<exists>js as. leased_handler job lease (ShutdownChanged # es) sc n w
        = (Inr (), Suc n, w\<lparr>rw_db := (rw_db w)\<lparr>jobs := js, job_attempts := as\<rparr>\<rparr>)
     \<and> dead_letter (aw_now (sc n)) ''transient'' r \<in> set js"
proof -
  let ?now = "aw_now (sc n)"
  let ?held = "\<lambda>j. j_id j = cj_id job \<and> j_lease_token j = Some (cj_lease_token job) \<and> j_state j = Leased"
  have "leased_handler job lease (ShutdownChanged # es) sc n w
      = (Inr (), Suc n, w\<lparr>rw_db := (rw_db w)\<lparr>jobs := update_where ?held (dead_letter ?now ''transient'') (jobs (rw_db w)),
          job_attempts := update_where (\<lambda>a. a_job_id a = cj_id job \<and> a_ended_at a = None)
            (close_attempt ?now AOFailed (Some ''transient'')) (job_attempts (rw_db w))\<rparr>\<rparr>)"
    using assms by (simp add: leased_handler_def shutdown_execution_def apply_execution_result_def pbind_def preturn_def pdb_def report_def
        fail_def txbind_def close_open_attempt_def Let_def)
  moreover have "dead_letter ?now ''transient'' r \<in> set (update_where ?held (dead_letter ?now ''transient'') (jobs (rw_db w)))"
    using find_where_SomeD [OF assms(3)] by (auto simp: set_update_where lease_held_def)
  ultimately show ?thesis by blast
qed

text \<open>A handler whose heartbeat is refused writes nothing more: the job belongs to someone else.\<close>

lemma lost_lease_writes_nothing:
  assumes "aw_fault (sc n) = NoFault" "0 < lease"
    and "\<not> exists_where (lease_held (aw_now (sc n)) (cj_id job) (cj_lease_token job)) (jobs (rw_db (aw_others (sc n) w)))"
  shows "leased_handler job lease (HeartbeatTick # es) sc n w = (Inr (), Suc n, aw_others (sc n) w)"
  using assms by (simp add: leased_handler_def apply_execution_result_def pbind_def preturn_def pdb_def answer_of_def heartbeat_def Let_def)

end
