(* ===== verification/Operator_Properties.thy ===== *)
theory Operator_Properties
  imports Operator Work_Properties
begin

text \<open>
  What the operator's reports say: the counts of the status report are those of the tables, and a diagnostic bundle that is
  accepted has no marker of a secret.
\<close>

section \<open>Counts\<close>

text \<open>A grouped count is read back as the number of rows in that state.\<close>

definition state_count :: "string \<Rightarrow> string list \<Rightarrow> int" where
  "state_count s ss = int (length (filter ((=) s) ss))"

lemma group_counts_distinct: "distinct (map fst (group_counts ss))"
  by (simp add: group_counts_def comp_def)

lemma map_of_pairs: "map_of (map (\<lambda>s. (s, f s)) xs) k = (if k \<in> set xs then Some (f k) else None)"
  by (induction xs) auto

lemma map_of_group_counts: "map_of (group_counts ss) k = (if k \<in> set ss then Some (state_count k ss) else None)"
  by (simp add: group_counts_def state_count_def map_of_pairs)

lemma state_count_absent: "k \<notin> set ss \<Longrightarrow> state_count k ss = 0"
  by (auto simp: state_count_def filter_empty_conv)

definition field_of :: "(string \<times> int) list \<Rightarrow> string \<Rightarrow> int \<Rightarrow> int" where
  "field_of rows k old = (case map_of rows k of None \<Rightarrow> old | Some n \<Rightarrow> n)"

lemma field_of_Cons:
  "distinct (map fst ((s, n) # rows)) \<Longrightarrow> field_of ((s, n) # rows) k old = field_of rows k (if s = k then n else old)"
  by (auto simp: field_of_def dom_map_of_conv_image_fst [symmetric] split: option.splits)

lemma field_of_group: "field_of (group_counts ss) k 0 = state_count k ss"
  by (simp add: field_of_def map_of_group_counts state_count_absent)

lemma job_rows:
  "distinct (map fst rows) \<Longrightarrow> fold add_job_row rows c =
     \<lparr>jc_queued = field_of rows ''queued'' (jc_queued c), jc_leased = field_of rows ''leased'' (jc_leased c),
      jc_completed = field_of rows ''completed'' (jc_completed c), jc_cancelled = field_of rows ''cancelled'' (jc_cancelled c),
      jc_dead = field_of rows ''dead'' (jc_dead c)\<rparr>"
proof (induction rows arbitrary: c)
  case (Cons row rows)
  obtain s n where row: "row = (s, n)" by (cases row)
  have d: "distinct (map fst ((s, n) # rows))" "distinct (map fst rows)" using Cons.prems row by simp_all
  show ?case unfolding row fold_Cons comp_def using Cons.IH [OF d(2)] by (simp add: field_of_Cons [OF d(1)])
qed (simp add: field_of_def)

lemma outbound_rows:
  "distinct (map fst rows) \<Longrightarrow> fold add_outbound_row rows c =
     \<lparr>oc_queued = field_of rows ''queued'' (oc_queued c), oc_sending = field_of rows ''sending'' (oc_sending c),
      oc_sent = field_of rows ''sent'' (oc_sent c), oc_failed = field_of rows ''failed'' (oc_failed c),
      oc_suppressed = field_of rows ''suppressed'' (oc_suppressed c), oc_ambiguous = field_of rows ''ambiguous'' (oc_ambiguous c)\<rparr>"
proof (induction rows arbitrary: c)
  case (Cons row rows)
  obtain s n where row: "row = (s, n)" by (cases row)
  have d: "distinct (map fst ((s, n) # rows))" "distinct (map fst rows)" using Cons.prems row by simp_all
  show ?case unfolding row fold_Cons comp_def using Cons.IH [OF d(2)] by (simp add: field_of_Cons [OF d(1)])
qed (simp add: field_of_def)

lemma state_count_map: "(\<And>x. f x = k \<longleftrightarrow> P x) \<Longrightarrow> state_count k (map f xs) = int (count_where P xs)"
proof -
  assume p: "\<And>x. f x = k \<longleftrightarrow> P x"
  have "filter ((=) k) (map f xs) = map f (filter P xs)"
    unfolding filter_map comp_def using p by (metis (mono_tags, lifting))
  then show ?thesis by (simp add: state_count_def count_where_def)
qed

lemma job_state_text: "job_state_as_str s = ''queued'' \<longleftrightarrow> s = Queued" "job_state_as_str s = ''leased'' \<longleftrightarrow> s = Leased"
  "job_state_as_str s = ''completed'' \<longleftrightarrow> s = Completed" "job_state_as_str s = ''cancelled'' \<longleftrightarrow> s = Cancelled"
  "job_state_as_str s = ''dead'' \<longleftrightarrow> s = Dead"
  by (cases s; simp)+

lemma outbound_state_text: "outbound_state_as_str s = ''queued'' \<longleftrightarrow> s = OQueued"
  "outbound_state_as_str s = ''sending'' \<longleftrightarrow> s = OSending" "outbound_state_as_str s = ''sent'' \<longleftrightarrow> s = OSent"
  "outbound_state_as_str s = ''failed'' \<longleftrightarrow> s = OFailed" "outbound_state_as_str s = ''suppressed'' \<longleftrightarrow> s = OSuppressed"
  "outbound_state_as_str s = ''ambiguous'' \<longleftrightarrow> s = OAmbiguous"
  by (cases s; simp)+

lemma job_totals:
  "length js = count_where (\<lambda>j. j_state j = Queued) js + count_where (\<lambda>j. j_state j = Leased) js
     + count_where (\<lambda>j. j_state j = Completed) js + count_where (\<lambda>j. j_state j = Cancelled) js + count_where (\<lambda>j. j_state j = Dead) js"
proof (induction js)
  case (Cons j js)
  then show ?case by (cases "j_state j") (simp_all add: count_where_def)
qed (simp add: count_where_def)

lemma fold_min: "fold min ts t \<in> set (t # ts) \<and> (\<forall>x \<in> set (t # ts). fold min ts t \<le> (x :: int))"
proof (induction ts arbitrary: t)
  case (Cons a ts)
  show ?case using Cons.IH [of "min a t"] by (auto simp: min_def split: if_splits)
qed simp

lemma oldest_queued_ageD:
  assumes "oldest_queued_age now js = Some age"
  shows "\<exists>j \<in> set js. j_state j = Queued \<and> age = epoch_seconds (now - j_run_at j)
    \<and> (\<forall>i \<in> set js. j_state i = Queued \<longrightarrow> j_run_at j \<le> j_run_at i)"
proof -
  let ?q = "filter (\<lambda>j. j_state j = Queued) js"
  obtain t ts where q: "map j_run_at ?q = t # ts" and age: "age = epoch_seconds (now - fold min ts t)"
    using assms by (auto simp: oldest_queued_age_def split: list.splits)
  have "fold min ts t \<in> set (map j_run_at ?q)" using fold_min [of ts t] q by simp
  then obtain j where j: "j \<in> set ?q" "j_run_at j = fold min ts t" by auto
  have "\<forall>x \<in> set (map j_run_at ?q). fold min ts t \<le> x" using fold_min [of ts t] q by simp
  then have "\<forall>i \<in> set ?q. j_run_at j \<le> j_run_at i" using j(2) by simp
  with j age show ?thesis by auto
qed

lemma collect_status_fields:
  assumes "collect_status E d = Inr r"
  shows "sr_jobs r = fold add_job_row (group_counts (map (job_state_as_str \<circ> j_state) (jobs d))) job_counts_default"
    "sr_outbound r = fold add_outbound_row (group_counts (map (outbound_state_as_str \<circ> o_state) (outbound_messages d))) outbound_counts_default"
    "sr_jobs_dead r = jc_dead (sr_jobs r)" "sr_oldest_queued_age r = oldest_queued_age (oe_now E) (jobs d)"
    "sr_ready r \<longleftrightarrow> oe_connected E \<and> (\<exists>n. oe_migrations E = MigrationRows n \<and> int (oe_expected E) \<le> n)"
  using assms
  by (auto simp: collect_status_def Let_def check_connection_def or_false_def check_migrations_current_def
      split: if_splits option.splits migration_count.splits)


text \<open>A queue with a waiting job and a dead one.\<close>

definition sample_operator_db :: operator_db where
  "sample_operator_db =
     \<lparr>jobs = [sample_job, sample_job\<lparr>j_id := 2, j_state := Dead\<rparr>], job_attempts = [], outbound_messages = [], accounts = [],
      usage_counters = [], categories = [], submissions = [], assets = [], drafts = [], corrections = [], extraction_attempts = [],
      expenses = [], ingress_mode = ''webhook'', inbound_events = [], provider_identities = [], conversation_states = [],
      summary_schedules = [], deletion_requests = [], export_artifacts = [], insight_snapshots = [], ai_preferences = [],
      category_names = (\<lambda>k. (k, k)), role_leases = [], mode_generation = Some 4\<rparr>"

definition sample_operator_env :: operator_env where
  "sample_operator_env =
     \<lparr>oe_now = 3000000, oe_fault = NoFault, oe_pool_ok = True, oe_connected = True, oe_migrations = MigrationRows 12, oe_expected = 12,
      oe_last_inbound = None, oe_show_time = show_int, oe_show_uuid = show_nat, oe_pretty = (\<lambda>j. ''{}''), oe_compact = (\<lambda>j. ''{}''),
      oe_serde_time = show_int, oe_rfc3339 = show_int\<rparr>"


section \<open>The bundle\<close>

lemma scan_files_ok: "scan_files ps fs = Inr () \<longleftrightarrow> (\<forall>p \<in> set ps. scan_file p fs = Inr ())"
  by (induction ps) (auto split: sum.split)

lemma scan_file_ok: "scan_file p fs = Inr () \<longleftrightarrow> (\<exists>t. fs p = Some t \<and> \<not> list_ex (contains_str t) forbidden_substrings)"
  by (auto simp: scan_file_def split: option.split)

lemma accepted_bundle_is_clean:
  assumes "run_diagnose E dir_ok fails rc loads dir d fs = (Inr (), fs')" "p \<in> set (bundle_files dir)"
  shows "\<exists>t. fs' p = Some t \<and> \<not> list_ex (contains_str t) forbidden_substrings"
proof -
  have "scan_files (bundle_files dir) fs' = Inr ()"
    using assms(1) by (auto simp: run_diagnose_def split: if_splits sum.splits prod.splits)
  then show ?thesis using assms(2) by (simp add: scan_files_ok scan_file_ok)
qed

text \<open>A bundle the scan refuses is already on disk and stays there.\<close>

lemma refused_bundle_stays:
  assumes "dir_ok" "oe_pool_ok E" "write_parts fails (zip (bundle_files dir) (bundle_parts E rc loads d)) fs = (Inr (), fs')"
    "scan_files (bundle_files dir) fs' = Inl e"
  shows "run_diagnose E dir_ok fails rc loads dir d fs = (Inl e, fs')"
  using assms by (simp add: run_diagnose_def create_pool_def)

section \<open>Ingress mode\<close>

text \<open>A switch changes the mode and counts it, or changes nothing; every other table is left as it is.\<close>

lemma ingress_switch_audited:
  assumes "run_ingress_switch E mode d = (r, d')"
  shows "(isl r \<longrightarrow> d' = d)
    \<and> (\<not> isl r \<longrightarrow> (\<exists>gen. mode_generation d = Some gen \<and> mode_generation d' = Some (gen + 1) \<and> gen + 1 \<le> i32_max)
        \<and> ingress_mode d' \<in> {''webhook'', ''polling''}
        \<and> d' = d\<lparr>ingress_mode := ingress_mode d', mode_generation := mode_generation d'\<rparr>)"
  using assms by (auto simp: run_ingress_switch_def Let_def split: if_splits option.splits)

end
