(* ===== verification/Cli.thy ===== *)
theory Cli
  imports Supervisor Update
begin

text \<open>
  The command line, \<^verbatim>\<open>src/cli.rs\<close>: the commands with their arguments and what each of them runs. Reading the arguments is the work
  of \<^verbatim>\<open>clap\<close>; the model begins with its result. A command reads and changes the database and the file system, prints lines and
  ends with an error or with success, or becomes the supervised runtime. The lines the update commands and \<^verbatim>\<open>diagnose\<close> print are
  left out, as is the set-up of the log.
\<close>

section \<open>Commands\<close>

datatype log_format = LogPretty | LogJson

datatype doctor_active = DoctorZalo | DoctorGemini | DoctorObjectStore

fun active_probe_from :: "doctor_active \<Rightarrow> active_probe" where
  "active_probe_from DoctorZalo = ProbeZalo"
| "active_probe_from DoctorGemini = ProbeGemini"
| "active_probe_from DoctorObjectStore = ProbeObjectStore"

datatype jobs_command =
  JobsList "string option" nat bool
| JobsShow uuid
| JobsRetry uuid
| JobsCancel uuid

datatype ingress_command = IngressStatus | IngressWebhook | IngressPoll

datatype config_command = ConfigValidate | ConfigShow

datatype update_command =
  UpdatePreflight string string string "string list" "string option" "string option"
| UpdateApply string string string "string list" "string option" "string option" apply_options
| UpdateRollback bool "string option" "string option"

datatype db_command = DbCheck | DbMigrate

datatype command =
  CmdConfig config_command
| CmdDb db_command
| CmdStatus bool
| CmdJobs jobs_command
| CmdDoctor "doctor_active option"
| CmdIngress ingress_command
| CmdBackup string
| CmdRestore string bool
| CmdLogs bool "string option"
| CmdDiagnose string
| CmdUpdate update_command
| CmdRun "string list"

record cli =
  cli_config :: "string option"
  cli_log_format :: log_format
  cli_command :: command

section \<open>Running a command\<close>

record cli_world =
  cw_db :: operator_db
  cw_files :: files

text \<open>
  The answers of the outside: libraries and environment, the operator's and the update's environments, the files as a second load of
  the configuration finds them, and what an external program answers and does.
\<close>

record 'k cli_env =
  ce_libs :: config_libs
  ce_vars :: "string \<Rightarrow> string option"
  ce_later :: "files \<Rightarrow> files"
  ce_operator :: operator_env
  ce_probe :: probe_env
  ce_credential_files :: "string list option"
  ce_migrate_ok :: bool
  ce_parent_ok :: bool
  ce_spawn :: "string list \<Rightarrow> cli_world \<Rightarrow> process_answer \<times> cli_world"
  ce_systemd :: bool
  ce_dir_ok :: bool
  ce_write_fails :: "string \<Rightarrow> bool"
  ce_update_libs :: "'k update_libs"
  ce_keys :: keys_dir
  ce_schema :: "int option"
  ce_apply :: apply_env
  ce_restore :: replace_env
  ce_restore_meta :: io_fault

text \<open>\<^verbatim>\<open>validate_config\<close> of \<^verbatim>\<open>src/config/validate.rs\<close>.\<close>

definition validate_config :: "config_libs \<Rightarrow> (string \<Rightarrow> string option) \<Rightarrow> files \<Rightarrow> string option \<Rightarrow> app_err + unit" where
  "validate_config FL vars fs path = map_sum id (\<lambda>_. ()) (config_failure (load_config FL vars fs path))"

definition update_paths_of ::
  "resolved_config \<Rightarrow> string \<Rightarrow> string \<Rightarrow> string \<Rightarrow> string list \<Rightarrow> string option \<Rightarrow> string option \<Rightarrow> update_paths" where
  "update_paths_of rc artifact metadata sig keys install_path state_dir =
     \<lparr>up_artifact = artifact, up_metadata = metadata, up_signature = sig, up_public_keys = keys,
      up_keys_directory = rc_update_public_keys_directory rc,
      up_install = (case install_path of None \<Rightarrow> rc_update_install_path rc | Some p \<Rightarrow> p),
      up_state = (case state_dir of None \<Rightarrow> rc_update_state_directory rc | Some p \<Rightarrow> p)\<rparr>"

datatype cli_end = CliSuccess | CliRun resolved_config "role list"

type_synonym cli_result = "string list \<times> (app_err + cli_end) \<times> cli_world"

definition ended :: "app_err + string list \<Rightarrow> cli_world \<Rightarrow> cli_result" where
  "ended r w = (case r of Inl e \<Rightarrow> ([], Inl e, w) | Inr ls \<Rightarrow> (ls, Inr CliSuccess, w))"

definition with_config :: "'k cli_env \<Rightarrow> string option \<Rightarrow> cli_world \<Rightarrow> (resolved_config \<Rightarrow> cli_result) \<Rightarrow> cli_result" where
  "with_config E path w k =
     (case config_failure (load_config (ce_libs E) (ce_vars E) (cw_files w) path) of Inl e \<Rightarrow> ([], Inl e, w) | Inr rc \<Rightarrow> k rc)"

definition with_pool :: "'k cli_env \<Rightarrow> cli_world \<Rightarrow> cli_result \<Rightarrow> cli_result" where
  "with_pool E w k = (case create_pool (oe_pool_ok (ce_operator E)) of Inl e \<Rightarrow> ([], Inl e, w) | Inr _ \<Rightarrow> k)"

definition on_db :: "(app_err + string list) \<times> operator_db \<Rightarrow> cli_world \<Rightarrow> cli_result" where
  "on_db r w = ended (fst r) (w\<lparr>cw_db := snd r\<rparr>)"

definition on_files :: "(app_err + unit) \<times> files \<Rightarrow> cli_world \<Rightarrow> cli_result" where
  "on_files r w = ended (map_sum id (\<lambda>_. []) (fst r)) (w\<lparr>cw_files := snd r\<rparr>)"

definition one_line :: "(app_err + string) \<times> 'd \<Rightarrow> (app_err + string list) \<times> 'd" where
  "one_line r = (map_sum id (\<lambda>l. [l]) (fst r), snd r)"

definition run_jobs_command :: "operator_env \<Rightarrow> jobs_command \<Rightarrow> cli_world \<Rightarrow> cli_result" where
  "run_jobs_command O1 c w =
     (case c of
        JobsList st limit as_json \<Rightarrow> ended (run_jobs_list O1 st limit as_json (cw_db w)) w
      | JobsShow i \<Rightarrow> ended (map_sum id (\<lambda>l. [l]) (run_jobs_show O1 i (cw_db w))) w
      | JobsRetry i \<Rightarrow> on_db (one_line (run_jobs_retry O1 i (cw_db w))) w
      | JobsCancel i \<Rightarrow> on_db (one_line (run_jobs_cancel O1 i (cw_db w))) w)"

definition run_ingress_command :: "operator_env \<Rightarrow> ingress_command \<Rightarrow> cli_world \<Rightarrow> cli_result" where
  "run_ingress_command O1 c w =
     (case c of
        IngressStatus \<Rightarrow> ended (run_ingress_status O1 (cw_db w)) w
      | IngressWebhook \<Rightarrow> on_db (run_ingress_switch O1 ''webhook'' (cw_db w)) w
      | IngressPoll \<Rightarrow> on_db (run_ingress_switch O1 ''poll'' (cw_db w)) w)"

definition run_update_command :: "'k cli_env \<Rightarrow> resolved_config \<Rightarrow> update_command \<Rightarrow> cli_world \<Rightarrow> cli_result" where
  "run_update_command E rc c w =
     (case c of
        UpdatePreflight artifact metadata sig keys install_path state_dir \<Rightarrow>
          with_pool E w (ended (map_sum id (\<lambda>_. []) (run_preflight (ce_update_libs E) (ce_keys E) (ce_schema E)
            (update_paths_of rc artifact metadata sig keys install_path state_dir) (cw_files w))) w)
      | UpdateApply artifact metadata sig keys install_path state_dir opts \<Rightarrow>
          with_pool E w (on_files (run_apply (ce_update_libs E) (ce_keys E) rc (ce_apply E) opts
            (update_paths_of rc artifact metadata sig keys install_path state_dir) (cw_files w)) w)
      | UpdateRollback yes install_path state_dir \<Rightarrow>
          with_pool E w
            (case ce_schema E of
               None \<Rightarrow> ([], Inl (AppErr EDependency ''failed to read applied migration count''), w)
             | Some n \<Rightarrow> on_files (run_rollback (ce_update_libs E) (ce_restore E) (ce_restore_meta E)
                 (update_paths_of rc [] [] [] [] install_path state_dir) yes n (cw_files w)) w))"

definition run_command :: "'k cli_env \<Rightarrow> cli \<Rightarrow> cli_world \<Rightarrow> cli_result" where
  "run_command E c w =
     (let path = cli_config c; O1 = ce_operator E;
          later = load_config (ce_libs E) (ce_vars E) (ce_later E (cw_files w)) path
      in case cli_command c of
        CmdConfig ConfigValidate \<Rightarrow> ended (map_sum id (\<lambda>_. []) (validate_config (ce_libs E) (ce_vars E) (cw_files w) path)) w
      | CmdConfig ConfigShow \<Rightarrow> with_config E path w (\<lambda>rc. ([oe_pretty O1 (show_json rc)], Inr CliSuccess, w))
      | CmdDb d \<Rightarrow> with_config E path w (\<lambda>rc. with_pool E w
          (ended (map_sum id (\<lambda>_. []) (case d of DbCheck \<Rightarrow> check_connection (oe_connected O1) | DbMigrate \<Rightarrow> migrate (ce_migrate_ok E))) w))
      | CmdStatus as_json \<Rightarrow> with_config E path w (\<lambda>rc. with_pool E w (ended (run_status O1 as_json (cw_db w)) w))
      | CmdJobs j \<Rightarrow> with_config E path w (\<lambda>rc. with_pool E w (run_jobs_command O1 j w))
      | CmdDoctor active \<Rightarrow>
          (case run_doctor O1 (ce_probe E) (load_config (ce_libs E) (ce_vars E) (cw_files w) path) later
              (ce_credential_files E) (map_option active_probe_from active) of
             (out, r) \<Rightarrow> (out, map_sum id (\<lambda>_. CliSuccess) r, w))
      | CmdIngress i \<Rightarrow> with_config E path w (\<lambda>rc. with_pool E w (run_ingress_command O1 i w))
      | CmdBackup output \<Rightarrow> with_config E path w (\<lambda>rc. case run_backup (ce_parent_ok E) (ce_spawn E) rc output w of (r, w') \<Rightarrow> ended r w')
      | CmdRestore input yes \<Rightarrow> with_config E path w (\<lambda>rc.
          case run_restore (\<lambda>p. cw_files w p \<noteq> None) (ce_spawn E) rc input yes w of (r, w') \<Rightarrow> ended r w')
      | CmdLogs follow since \<Rightarrow> (case run_logs (ce_systemd E) (ce_spawn E) follow since w of (r, w') \<Rightarrow> ended r w')
      | CmdDiagnose dir \<Rightarrow> with_config E path w (\<lambda>rc.
          on_files (run_diagnose O1 (ce_dir_ok E) (ce_write_fails E) rc (\<not> isl later) dir (cw_db w) (cw_files w)) w)
      | CmdUpdate u \<Rightarrow> with_config E path w (\<lambda>rc. run_update_command E rc u w)
      | CmdRun roles \<Rightarrow> with_config E path w (\<lambda>rc.
          case parse_roles roles of Inl m \<Rightarrow> ([], Inl (AppErr EValidation m), w) | Inr rs \<Rightarrow> ([], Inr (CliRun rc rs), w)))"

text \<open>\<^verbatim>\<open>execute\<close> and \<^verbatim>\<open>main\<close>: what goes to standard error, and the exit code.\<close>

inductive execute :: "'k cli_env \<Rightarrow> startup_env \<Rightarrow> cli \<Rightarrow> cli_world \<Rightarrow> string option \<Rightarrow> exit_code \<Rightarrow> bool" for E S c w where
  exec_failed: "run_command E c w = (out, Inl e, w') \<Longrightarrow>
    execute E S c w (Some (oe_compact (ce_operator E) (to_json_line e))) (app_exit_code e)"
| exec_done: "run_command E c w = (out, Inr CliSuccess, w') \<Longrightarrow> execute E S c w None XSuccess"
| exec_run: "run_command E c w = (out, Inr (CliRun rc roles), w') \<Longrightarrow> run_exits (ce_libs E) S (cw_files w') rc roles code \<Longrightarrow>
    execute E S c w None code"

end
