(* ===== verification/Cli_Properties.thy ===== *)
theory Cli_Properties
  imports Cli Config_Properties
begin

text \<open>
  Which commands change anything, and what the exit code says: an inspecting command leaves the database and the files as they
  are, a destructive one does nothing without \<^verbatim>\<open>--yes\<close>, and an error never ends with success.
\<close>

fun unconfirmed :: "command \<Rightarrow> bool" where
  "unconfirmed (CmdRestore input yes) = (\<not> yes)"
| "unconfirmed (CmdUpdate (UpdateApply a m g k i d opts)) = (\<not> ao_yes opts)"
| "unconfirmed (CmdUpdate (UpdateRollback yes i d)) = (\<not> yes)"
| "unconfirmed _ = False"

fun inspects :: "command \<Rightarrow> bool" where
  "inspects (CmdConfig c) = True"
| "inspects (CmdDb DbCheck) = True"
| "inspects (CmdStatus b) = True"
| "inspects (CmdJobs (JobsList s l b)) = True"
| "inspects (CmdJobs (JobsShow i)) = True"
| "inspects (CmdDoctor a) = True"
| "inspects (CmdIngress IngressStatus) = True"
| "inspects (CmdUpdate (UpdatePreflight a m g k i d)) = True"
| "inspects _ = False"

lemma ended_world [simp]: "snd (snd (ended r w)) = w"
  by (simp add: ended_def split: sum.split)

lemma with_world [simp]:
  "(\<And>rc. snd (snd (k rc)) = w) \<Longrightarrow> snd (snd (with_config E path w k)) = w"
  "snd (snd k') = w \<Longrightarrow> snd (snd (with_pool E w k')) = w"
  by (auto simp: with_config_def with_pool_def split: sum.split)

lemma with_fails:
  "(\<And>rc. isl (fst (snd (k rc)))) \<Longrightarrow> isl (fst (snd (with_config E path w k)))"
  "isl (fst (snd k')) \<Longrightarrow> isl (fst (snd (with_pool E w k')))"
  by (auto simp: with_config_def with_pool_def split: sum.split)

lemma inspects_world: "inspects (cli_command c) \<Longrightarrow> snd (snd (run_command E c w)) = w"
  by (cases "cli_command c" rule: inspects.cases)
    (auto simp: run_command_def Let_def run_jobs_command_def run_ingress_command_def run_update_command_def split: prod.split config_command.split)

lemma unconfirmed_world: "unconfirmed (cli_command c) \<Longrightarrow> snd (snd (run_command E c w)) = w"
  by (cases "cli_command c" rule: unconfirmed.cases)
    (auto simp: run_command_def Let_def run_restore_def run_update_command_def run_apply_def run_rollback_def on_files_def split: option.split)

lemma unconfirmed_fails: "unconfirmed (cli_command c) \<Longrightarrow> isl (fst (snd (run_command E c w)))"
  by (cases "cli_command c" rule: unconfirmed.cases)
    (auto simp: run_command_def Let_def run_restore_def run_update_command_def run_apply_def run_rollback_def on_files_def ended_def
      intro!: with_fails split: option.split)

lemma error_not_success: "app_exit_code e \<noteq> XSuccess"
  by (cases "app_err_class e") (simp_all add: app_exit_code_def)



text \<open>\<^verbatim>\<open>zl-expense restore --input db.dump\<close>, without \<^verbatim>\<open>--yes\<close>, in any environment.\<close>

definition sample_restore :: cli where
  "sample_restore = \<lparr>cli_config = None, cli_log_format = LogPretty, cli_command = CmdRestore ''db.dump'' False\<rparr>"


end
