(* ===== verification/Spec2Isabelle.thy ===== *)
theory Spec2Isabelle
  imports Work_Properties Outbound_Properties Receipt_Properties Chat_Properties Schedule_Properties Chat_Money_Properties
    Ingress_Properties Provider_Properties Webhook_Properties Account_Properties Scheduler_Properties Jobs_Properties
    Config_Properties Object_Stores Update_Properties Extraction_Properties Supervisor_Properties Operator_Properties
    Cli_Properties
begin

text \<open>
  A verification of the Zalo expense bot (\<^verbatim>\<open>src/src\<close>, Rust).

  \<^bold>\<open>The program.\<close> A user of the Zalo messenger writes to a bot what was spent, or sends a photograph of a receipt. The
  provider calls a webhook for each message. The webhook handler authenticates and parses the event and hands it to the
  ingress store, which in one PostgreSQL transaction deduplicates the event, loads the account's context, lets the
  conversation decide, applies the decision's effects (expenses, receipts, schedules, settings, jobs) and queues the reply.
  All slow work is done by jobs of a durable queue: workers lease a job, send messages, fetch and extract receipts, emit
  scheduled summaries, delete and export accounts. A scheduler and a maintenance role, each guarded by a lease, queue due
  summaries and sweep what has expired.

  \<^bold>\<open>How it is modelled.\<close> A table is a list of records inside one extensible database record (\<open>work_db\<close>, \<open>outbound_db\<close>,
  \<open>receipt_db\<close>, \<open>bot_db\<close>, \<open>runtime_db\<close>), so that a component speaks only of its tables. A transaction is a function of type
  \<open>'s \<Rightarrow> 'e + 'a \<times> 's\<close> (\<open>Bot_Prelude\<close>: \<open>txbind\<close>, \<open>stmt\<close>, \<open>run_tx\<close>); every statement that can fail has a label at which a
  \<open>db_fault\<close> can strike, and a commit can succeed while its acknowledgement is lost. Code that awaits more than once is a
  process (\<open>Receipt_Db\<close>: \<open>pbind\<close>, \<open>pdb\<close>, \<open>pobjects\<close>) driven by a script which says, for each await, the clock, the fault, and
  what other processes did to the database and the object store just before. Strings are lists of bytes; characters are
  counted as Rust does. Panics are values (\<open>run\<close>). Integers that the code keeps in a machine word are \<open>int\<close> with the
  range or the wrap-around written out, addresses are words.

  \<^bold>\<open>The theories.\<close>
  \<^item> \<open>Bot_Prelude\<close>, \<open>Rust_Text\<close>, \<open>Errors\<close>: tables, transactions and faults, the text functions of the Rust library, the
    error classes and exit codes (\<^verbatim>\<open>error.rs\<close>).
  \<^item> \<open>Work\<close>, \<open>Work_Queue\<close>, \<open>Work_Proofs\<close>, \<open>Work_Properties\<close>: the queue, \<^verbatim>\<open>work/\<close>. The table invariant of every reachable state,
    exclusive leases and serialization keys, fencing of old leases, what a claim returns and that it progresses, retry and
    dead letter, deduplication.
  \<^item> \<open>Outbound\<close>, \<open>Outbound_Protocol\<close>, \<open>Outbound_Properties\<close>: delivery of messages, \<^verbatim>\<open>outbound/mod.rs\<close>, one step per await. A
    message whose send was started is not sent again unless the provider refused it; an unfenced worker changes nothing.
  \<^item> \<open>Receipt_Types\<close>, \<open>Receipt_Validate\<close>, \<open>Receipt_Db\<close>, \<open>Receipt\<close>, \<open>Receipt_Proofs\<close>, \<open>Receipt_Stock\<close>, \<open>Receipt_Pipeline\<close>,
    \<open>Receipt_Review\<close>, \<open>Receipt_Properties\<close>: the receipt lifecycle, \<^verbatim>\<open>receipt/\<close>, and the usage counters, \<^verbatim>\<open>quota/mod.rs\<close>. The
    invariant under any interleaving, legal transitions, exactly one booking, refinement of an edit, ingest then extract.
  \<^item> \<open>Chat_Text\<close>, \<open>Chat_Amount\<close>, \<open>Chat_Parse\<close>, \<open>Chat_Templates\<close>, \<open>Chat_Decide\<close> and their proofs: the conversation,
    \<^verbatim>\<open>conversation/\<close>. Answers are bound to the open question, commands are gated by account state and validated, each message
    gets one reply, formatted amounts are read back.
  \<^item> \<open>Schedule\<close>, \<open>Schedule_Proofs\<close>, \<open>Schedule_Properties\<close>: delivery times and periods, \<^verbatim>\<open>schedule/\<close>. The next delivery is the
    first one, reported periods adjoin.
  \<^item> \<open>Bot_Db\<close>, \<open>Ingress_Types\<close>, \<open>Ingress_Effects\<close>, \<open>Ingress\<close>, \<open>Ingress_Proofs\<close>, \<open>Ingress_Properties\<close>: \<^verbatim>\<open>ingress/\<close>. Each event is
    applied at most once; an event changes no row of another account.
  \<^item> \<open>Insight\<close>, \<open>Account\<close>, \<open>Account_Properties\<close>: \<^verbatim>\<open>insight/\<close>, \<^verbatim>\<open>account/mod.rs\<close>. A deletion erases the account and nothing else.
  \<^item> \<open>Provider\<close>, \<open>Media\<close>, \<open>Zalo_Api\<close>, \<open>Provider_Properties\<close>: \<^verbatim>\<open>provider/\<close>. Downloads reach only public addresses of allowed
    hosts; the address filter is a set of ranges; errors hide the token.
  \<^item> \<open>Webhook\<close>, \<open>Webhook_Properties\<close>: \<^verbatim>\<open>http/\<close>, \<^verbatim>\<open>health/\<close>, \<^verbatim>\<open>metrics/\<close>. Unauthenticated requests touch nothing; a repeated
    webhook is a duplicate. This composes the parser, the conversation and the store.
  \<^item> \<open>Followup\<close>, \<open>Scheduler\<close>, \<open>Jobs\<close>, \<open>Scheduler_Properties\<close>, \<open>Jobs_Properties\<close>: \<^verbatim>\<open>ingress/followup.rs\<close>, \<^verbatim>\<open>runtime/\<close>. A tick serves
    the due schedules, one process holds a role, a summary is queued once, and what a failing query does to a job.
  \<^item> \<open>Config_Types\<close>, \<open>Config\<close>, \<open>Config_Properties\<close>: \<^verbatim>\<open>config/\<close>. Defaults, file and environment in their order; the report of the
    sources is truthful, and a configuration that loads is one the program can run on.
  \<^item> \<open>Object_Stores\<close>, \<open>S3_Store\<close>: \<^verbatim>\<open>receipt/fs_store.rs\<close>, \<^verbatim>\<open>receipt/s3_store.rs\<close>. The file system store refines the map of the
    lifecycle (\<open>object_store\<close> is the contract, interpreted for both); the signed S3 requests.
  \<^item> \<open>Receipt_Extraction\<close>, \<open>Extraction_Properties\<close>: \<^verbatim>\<open>receipt/gemini.rs\<close>, \<^verbatim>\<open>extractor.rs\<close>, \<^verbatim>\<open>downscale.rs\<close>, \<^verbatim>\<open>insight/narrator.rs\<close>.
    Whatever the model service answers, the result is an error or a draft the tables accept.
  \<^item> \<open>Update\<close>, \<open>Update_Properties\<close>: \<^verbatim>\<open>update/mod.rs\<close> over a file system whose calls can fail. The installed binary is the old or a
    genuine one.
  \<^item> \<open>Operator\<close>, \<open>Operator_Properties\<close>: \<^verbatim>\<open>operator/\<close>, \<^verbatim>\<open>db/migrate.rs\<close>. The status report is exact; an accepted bundle is clean.
  \<^item> \<open>Supervisor\<close>, \<open>Supervisor_Properties\<close>: \<^verbatim>\<open>runtime/mod.rs\<close>, \<^verbatim>\<open>runtime/shutdown.rs\<close> as step relations (\<open>worker_step\<close>, \<open>supervisor_step\<close>).
    The worker stays within its limit and stops; success is reported for a clean stop only.
  \<^item> \<open>Cli\<close>, \<open>Cli_Properties\<close>: \<^verbatim>\<open>cli.rs\<close>, \<^verbatim>\<open>main.rs\<close>. Every command over the parts above, up to the exit code.

  \<^bold>\<open>Parameters.\<close> The code uses chrono and its zone data, uuid and hash functions, Unicode case mapping, JSON text, URL
  parsing, name resolution, HTTP, the model provider and the object store behind its trait; each is an argument of the
  definitions that use it. Theorems name what they need of them (\<open>calendar_ok\<close>, \<open>zone_ok\<close>, \<open>printers_ok\<close>, \<open>times_printed\<close>),
  and the samples at the end of the property theories satisfy it.

  \<^bold>\<open>Bounds.\<close> \<open>dispatch_outbound\<close> has five awaits, enough by \<open>deliver_rank\<close> (lemma \<open>dispatch_outbound_ends\<close>); the redirects of a
  download count down from the policy's limit; \<open>scan_steps\<close> takes the number of minutes the loop of the source has. All
  other recursion is structural or has a measure.

  \<^bold>\<open>Assumptions.\<close> A transaction is atomic and isolated from the others (the code locks the rows it reads before it writes
  them); the processes interleave at their awaits. A call reads the clock once.

  \<^bold>\<open>Not modelled.\<close> The parsing of arguments by \<^verbatim>\<open>clap\<close>, logging, notifications to systemd and \<^verbatim>\<open>Debug\<close> output; the SQL of the
  migrations and the connection pool (their results are parameters of \<open>Operator\<close> and \<open>Supervisor\<close>); the routing of axum; the image
  codec and the text of TOML and JSON documents. \<^verbatim>\<open>bytes_for_corpus_index\<close> of \<^verbatim>\<open>receipt/extractor.rs\<close> searches inputs for tests. What the
  update commands and \<^verbatim>\<open>diagnose\<close> print is left out of their results.
\<close>

end
